(* ===== verification/Go_Prelude.thy ===== *)
theory Go_Prelude
  imports Main "HOL-Library.Monad_Syntax"
begin

text \<open>
  The shared vocabulary of the development: the parts of Go's language and standard library
  that the sources of grype use.

  \<^item> A Go \<^verbatim>\<open>string\<close> is a sequence of bytes, here \<^typ>\<open>string\<close> (one \<^typ>\<open>char\<close> is one byte).
    The functions below are those of packages \<^verbatim>\<open>strings\<close> and \<^verbatim>\<open>strconv\<close>.  The case
    functions (\<open>strings_ToLower\<close>, \<open>strings_EqualFold\<close>) are the ASCII part of Go's.
  \<^item> A computation that can end in a run-time panic (an index out of range, a nil dereference)
    has type \<open>'a go\<close>: \<^const>\<open>None\<close> is the panic, \<^const>\<open>Some\<close> a normal return.
\<close>

section \<open>Collections of rules\<close>

named_theorems go_string \<open>equations of the string functions\<close>

type_synonym 'a go = "'a option"

section \<open>Bytes\<close>

definition byte_val :: "char \<Rightarrow> nat" where
  "byte_val c = of_char c"

definition is_digit :: "char \<Rightarrow> bool" where
  "is_digit c \<longleftrightarrow> 48 \<le> byte_val c \<and> byte_val c \<le> 57"

definition is_upper :: "char \<Rightarrow> bool" where
  "is_upper c \<longleftrightarrow> 65 \<le> byte_val c \<and> byte_val c \<le> 90"

definition is_lower :: "char \<Rightarrow> bool" where
  "is_lower c \<longleftrightarrow> 97 \<le> byte_val c \<and> byte_val c \<le> 122"

definition is_alpha :: "char \<Rightarrow> bool" where
  "is_alpha c \<longleftrightarrow> is_lower c \<or> is_upper c"

definition to_lower :: "char \<Rightarrow> char" where
  "to_lower c = (if is_upper c then char_of (byte_val c + 32) else c)"

lemma byte_val_inj [simp]: "byte_val c = byte_val d \<longleftrightarrow> c = d"
  by (simp add: byte_val_def)

lemma digit_not_alpha: "is_digit c \<Longrightarrow> \<not> is_alpha c"
  by (simp add: is_digit_def is_alpha_def is_lower_def is_upper_def)

section \<open>Package strings\<close>

definition strings_HasPrefix :: "string \<Rightarrow> string \<Rightarrow> bool" where
  "strings_HasPrefix s p \<longleftrightarrow> take (length p) s = p"

definition strings_HasSuffix :: "string \<Rightarrow> string \<Rightarrow> bool" where
  "strings_HasSuffix s p \<longleftrightarrow> length p \<le> length s \<and> drop (length s - length p) s = p"

definition strings_TrimPrefix :: "string \<Rightarrow> string \<Rightarrow> string" where
  "strings_TrimPrefix s p = (if strings_HasPrefix s p then drop (length p) s else s)"

text \<open>\<open>trim_left\<close>, \<open>trim_right\<close>, \<open>trim_both\<close>: \<^verbatim>\<open>strings.TrimLeft\<close>, \<^verbatim>\<open>TrimRight\<close> and
  \<^verbatim>\<open>Trim\<close> with the cutset as a predicate.\<close>

definition trim_left :: "(char \<Rightarrow> bool) \<Rightarrow> string \<Rightarrow> string" where
  "trim_left P s = dropWhile P s"

definition trim_right :: "(char \<Rightarrow> bool) \<Rightarrow> string \<Rightarrow> string" where
  "trim_right P s = rev (dropWhile P (rev s))"

definition trim_both :: "(char \<Rightarrow> bool) \<Rightarrow> string \<Rightarrow> string" where
  "trim_both P s = trim_right P (trim_left P s)"

definition is_space :: "char \<Rightarrow> bool" where
  "is_space c \<longleftrightarrow> byte_val c = 32 \<or> (9 \<le> byte_val c \<and> byte_val c \<le> 13)"

definition strings_TrimSpace :: "string \<Rightarrow> string" where
  "strings_TrimSpace s = trim_both is_space s"

definition strings_ToLower :: "string \<Rightarrow> string" where
  "strings_ToLower s = map to_lower s"

definition strings_EqualFold :: "string \<Rightarrow> string \<Rightarrow> bool" where
  "strings_EqualFold a b \<longleftrightarrow> map to_lower a = map to_lower b"

text \<open>\<^verbatim>\<open>strings.Cut\<close>: the text before and after the first occurrence of a separator.
  \<^verbatim>\<open>SplitN(s, sep, 2)\<close>, \<^verbatim>\<open>Index\<close> and \<^verbatim>\<open>Contains\<close> are read off it.\<close>

fun strings_Cut :: "string \<Rightarrow> string \<Rightarrow> (string \<times> string) option" where
  "strings_Cut [] sep = (if sep = [] then Some ([], []) else None)"
| "strings_Cut (c # cs) sep =
     (if strings_HasPrefix (c # cs) sep then Some ([], drop (length sep) (c # cs))
      else case strings_Cut cs sep of None \<Rightarrow> None | Some (b, a) \<Rightarrow> Some (c # b, a))"

definition strings_Contains :: "string \<Rightarrow> string \<Rightarrow> bool" where
  "strings_Contains s sep \<longleftrightarrow> strings_Cut s sep \<noteq> None"

definition strings_Index :: "string \<Rightarrow> string \<Rightarrow> nat option" where
  "strings_Index s sep = map_option (\<lambda>(b, _). length b) (strings_Cut s sep)"

definition strings_SplitN2 :: "string \<Rightarrow> string \<Rightarrow> string list" where
  "strings_SplitN2 s sep = (case strings_Cut s sep of None \<Rightarrow> [s] | Some (b, a) \<Rightarrow> [b, a])"

text \<open>\<^verbatim>\<open>strings.Split\<close> on a one-byte separator (never empty), \<^verbatim>\<open>Join\<close> and \<^verbatim>\<open>ReplaceAll\<close>
  of one byte by a string: the instances the sources use.\<close>

fun split_char :: "char \<Rightarrow> string \<Rightarrow> string list" where
  "split_char d [] = [[]]"
| "split_char d (c # cs) =
     (if c = d then [] # split_char d cs
      else case split_char d cs of [] \<Rightarrow> [[c]] | p # ps \<Rightarrow> (c # p) # ps)"

fun strings_Join :: "string list \<Rightarrow> string \<Rightarrow> string" where
  "strings_Join [] sep = []"
| "strings_Join [x] sep = x"
| "strings_Join (x # y # ys) sep = x @ sep @ strings_Join (y # ys) sep"

definition replace_char :: "char \<Rightarrow> string \<Rightarrow> string \<Rightarrow> string" where
  "replace_char d r s = concat (map (\<lambda>c. if c = d then r else [c]) s)"

lemma split_char_not_Nil [simp]: "split_char d s \<noteq> []"
  by (cases s) (auto split: list.splits)

lemma split_char_notin: "d \<notin> set s \<Longrightarrow> split_char d s = [s]"
  by (induction s) auto

lemma split_char_append: "d \<notin> set x \<Longrightarrow> split_char d (x @ d # s) = x # split_char d s"
  by (induction x) auto

lemma split_char_Join:
  "xs \<noteq> [] \<Longrightarrow> \<forall>x \<in> set xs. d \<notin> set x \<Longrightarrow> split_char d (strings_Join xs [d]) = xs"
  by (induction xs "[d]" rule: strings_Join.induct)
    (auto simp: split_char_notin split_char_append)

lemma Join_split_char: "strings_Join (split_char d s) [d] = s"
proof (induction s)
  case Nil
  then show ?case by simp
next
  case (Cons c cs)
  obtain p ps where ps: "split_char d cs = p # ps"
    by (cases "split_char d cs") auto
  with Cons show ?case
    by (cases ps) auto
qed

lemma Cut_append_notin: "d \<notin> set x \<Longrightarrow> strings_Cut (x @ d # s) [d] = Some (x, s)"
  by (induction x) (auto simp: strings_HasPrefix_def)

lemma Cut_char_None: "strings_Cut s [d] = None \<longleftrightarrow> d \<notin> set s"
  by (induction s) (auto simp: strings_HasPrefix_def split: option.splits)


section \<open>Package strconv\<close>

definition digit_val :: "char \<Rightarrow> nat" where
  "digit_val c = byte_val c - 48"

definition digit_char :: "nat \<Rightarrow> char" where
  "digit_char d = char_of (48 + d)"

definition digits_val :: "string \<Rightarrow> nat" where
  "digits_val s = foldl (\<lambda>n c. n * 10 + digit_val c) 0 s"

fun show_nat :: "nat \<Rightarrow> string" where
  "show_nat n = (if n < 10 then [digit_char n] else show_nat (n div 10) @ [digit_char (n mod 10)])"

declare show_nat.simps [simp del]

text \<open>\<^verbatim>\<open>strconv.Itoa\<close>, and \<^verbatim>\<open>strconv.Atoi\<close> on a 64-bit platform: an optional sign, decimal
  digits, and an error for anything else or a value that does not fit.\<close>

definition strconv_Itoa :: "int \<Rightarrow> string" where
  "strconv_Itoa i = (if i < 0 then CHR ''-'' # show_nat (nat (- i)) else show_nat (nat i))"

definition fits_int64 :: "int \<Rightarrow> bool" where
  "fits_int64 i \<longleftrightarrow> - (2 ^ 63) \<le> i \<and> i < 2 ^ 63"

definition atoi_digits :: "bool \<Rightarrow> string \<Rightarrow> int option" where
  "atoi_digits neg ds =
     (if ds = [] \<or> \<not> list_all is_digit ds then None
      else let v = (if neg then - int (digits_val ds) else int (digits_val ds))
           in if fits_int64 v then Some v else None)"

definition strconv_Atoi :: "string \<Rightarrow> int option" where
  "strconv_Atoi s =
     (case s of
        [] \<Rightarrow> None
      | c # cs \<Rightarrow> (if c = CHR ''-'' then atoi_digits True cs
                  else if c = CHR ''+'' then atoi_digits False cs
                  else atoi_digits False s))"

lemma is_digit_digit_char [simp]: "d < 10 \<Longrightarrow> is_digit (digit_char d)"
  by (simp add: is_digit_def digit_char_def byte_val_def)

lemma digit_val_digit_char [simp]: "d < 10 \<Longrightarrow> digit_val (digit_char d) = d"
  by (simp add: digit_val_def digit_char_def byte_val_def)

lemma digit_val_less [simp]: "is_digit c \<Longrightarrow> digit_val c < 10"
  by (auto simp: digit_val_def is_digit_def)

lemma digit_char_digit_val [simp]: "is_digit c \<Longrightarrow> digit_char (digit_val c) = c"
  by (simp add: digit_val_def is_digit_def digit_char_def byte_val_def)

lemma digits_val_Nil [simp]: "digits_val [] = 0"
  by (simp add: digits_val_def)

lemma digits_val_snoc [simp]: "digits_val (s @ [c]) = digits_val s * 10 + digit_val c"
  by (simp add: digits_val_def)

lemma show_nat_digits: "list_all is_digit (show_nat n)"
  by (induction n rule: show_nat.induct) (subst show_nat.simps, auto)

lemma show_nat_not_Nil [simp]: "show_nat n \<noteq> []"
  by (subst show_nat.simps) simp

lemma digits_val_show_nat [simp]: "digits_val (show_nat n) = n"
proof (induction n rule: show_nat.induct)
  case (1 n)
  show ?case
  proof (cases "n < 10")
    case True
    then show ?thesis
      using digits_val_snoc [of "[]" "digit_char n"] by (simp add: show_nat.simps [of n])
  next
    case False
    with 1 show ?thesis by (simp add: show_nat.simps [of n])
  qed
qed

lemma show_nat_inj [simp]: "show_nat m = show_nat n \<longleftrightarrow> m = n"
  by (metis digits_val_show_nat)

lemma show_nat_hd_digit: "is_digit (hd (show_nat n))"
  by (metis show_nat_digits show_nat_not_Nil list_all_iff hd_in_set)

lemma show_nat_no_sep: "\<not> is_digit c \<Longrightarrow> c \<notin> set (show_nat n)"
  by (metis list_all_iff show_nat_digits)

lemma Atoi_digits:
  "ds \<noteq> [] \<Longrightarrow> list_all is_digit ds \<Longrightarrow> fits_int64 (int (digits_val ds)) \<Longrightarrow>
     strconv_Atoi ds = Some (int (digits_val ds))"
  by (cases ds) (auto simp: strconv_Atoi_def atoi_digits_def Let_def is_digit_def byte_val_def)

lemma Atoi_Itoa: "fits_int64 i \<Longrightarrow> strconv_Atoi (strconv_Itoa i) = Some i"
proof (cases "i < 0")
  case True
  assume "fits_int64 i"
  with True show ?thesis
    by (simp add: strconv_Itoa_def strconv_Atoi_def atoi_digits_def show_nat_digits)
next
  case False
  assume "fits_int64 i"
  with False show ?thesis
    by (simp add: strconv_Itoa_def Atoi_digits show_nat_digits)
qed

lemma Atoi_fits: "strconv_Atoi s = Some i \<Longrightarrow> fits_int64 i"
  by (auto simp: strconv_Atoi_def atoi_digits_def Let_def split: list.splits if_splits)

lemma Itoa_no_sep: "\<not> is_digit c \<Longrightarrow> c \<noteq> CHR ''-'' \<Longrightarrow> c \<notin> set (strconv_Itoa i)"
  by (auto simp: strconv_Itoa_def show_nat_no_sep)

lemma TrimSpace_id:
  assumes "s = [] \<or> (\<not> is_space (hd s) \<and> \<not> is_space (last s))"
  shows "strings_TrimSpace s = s"
proof (cases s rule: rev_cases)
  case (snoc xs x)
  have "dropWhile is_space s = s" using assms by (auto simp: dropWhile_eq_self_iff)
  moreover have "\<not> is_space x" using assms snoc by simp
  ultimately show ?thesis
    using snoc by (simp add: strings_TrimSpace_def trim_both_def trim_left_def trim_right_def)
qed (simp add: strings_TrimSpace_def trim_both_def trim_left_def trim_right_def)

end
