(* ===== verification/Comparison.thy ===== *)
theory Comparison
  imports Go_Prelude
begin

text \<open>
  Three-way comparison, the interface every version scheme of \<^verbatim>\<open>grype/version\<close> provides to its
  callers (\<^verbatim>\<open>Comparator\<close> in \<^verbatim>\<open>comparator.go\<close>: "This returns -1, 0, or 1 if this version is
  smaller, equal, or larger than the other version").  The locale \<open>three_way\<close> states that
  contract; \<open>three_way_order\<close> adds transitivity, which makes the comparison a total preorder.
  The comparisons of strings, of lists and of lists padded with a default element are shown to
  satisfy it once, here.
\<close>

named_theorems cmp_flip_rules \<open>antisymmetry: a comparison with its arguments exchanged\<close>
named_theorems cmp_range_rules \<open>the values a comparison can take\<close>
named_theorems cmp_refl_rules \<open>a value compares equal to itself\<close>

section \<open>The contract\<close>

locale three_way =
  fixes cmp :: "'a \<Rightarrow> 'a \<Rightarrow> int"
  assumes range: "cmp x y \<in> {-1, 0, 1}"
    and refl: "cmp x x = 0"
    and flip: "cmp y x = - cmp x y"
begin

lemma eq_sym: "cmp x y = 0 \<longleftrightarrow> cmp y x = 0"
  using flip [of x y] by auto

lemma lt_gt: "cmp x y < 0 \<longleftrightarrow> cmp y x > 0"
  using flip [of x y] by auto

lemma le_ge: "cmp x y \<le> 0 \<longleftrightarrow> cmp y x \<ge> 0"
  using flip [of x y] by auto

lemma lt_iff: "cmp x y < 0 \<longleftrightarrow> cmp x y = -1"
  using range [of x y] by auto

lemma gt_iff: "cmp x y > 0 \<longleftrightarrow> cmp x y = 1"
  using range [of x y] by auto

lemma pull_back: "three_way (\<lambda>a b. cmp (f a) (f b))"
  by unfold_locales (rule range, rule refl, rule flip)

end

locale three_way_order = three_way +
  assumes trans: "cmp x y \<le> 0 \<Longrightarrow> cmp y z \<le> 0 \<Longrightarrow> cmp x z \<le> 0"
begin

lemma lt_le_trans: "cmp x y < 0 \<Longrightarrow> cmp y z \<le> 0 \<Longrightarrow> cmp x z < 0"
  using trans [of x y z] trans [of y z x] flip [of x y] flip [of x z] by (cases "cmp x z = 0") auto

lemma le_lt_trans: "cmp x y \<le> 0 \<Longrightarrow> cmp y z < 0 \<Longrightarrow> cmp x z < 0"
  using trans [of x y z] trans [of z x y] flip [of y z] flip [of x z] by (cases "cmp x z = 0") auto

lemma eq_trans: "cmp x y = 0 \<Longrightarrow> cmp y z = 0 \<Longrightarrow> cmp x z = 0"
  using trans [of x y z] trans [of z y x] flip [of x y] flip [of y z] flip [of x z] by simp

lemma eq_cong_left: "cmp x y = 0 \<Longrightarrow> cmp x z = cmp y z"
  using trans [of x y z] trans [of y x z] lt_le_trans [of y z x] le_lt_trans [of x y z]
    le_lt_trans [of y x z] flip [of x y] flip [of x z] flip [of y z] range [of x z] range [of y z]
  by auto

lemma below_upper_bound: "cmp x y \<le> 0 \<Longrightarrow> cmp y z \<le> 0 \<Longrightarrow> cmp x z \<le> 0 \<and> (cmp y z < 0 \<longrightarrow> cmp x z < 0)"
  using trans [of x y z] le_lt_trans [of x y z] by blast

lemma total: "cmp x y \<le> 0 \<or> cmp y x \<le> 0"
  using flip [of x y] by auto

lemma pull_back_order: "three_way_order (\<lambda>a b. cmp (f a) (f b))"
  by (intro three_way_order.intro pull_back three_way_order_axioms.intro) (rule trans)

end

section \<open>Comparing in a linear order, and strings\<close>

definition cmp_of :: "'a::linorder \<Rightarrow> 'a \<Rightarrow> int" where
  "cmp_of x y = (if x < y then -1 else if x > y then 1 else 0)"

interpretation lin: three_way_order "cmp_of :: 'a::linorder \<Rightarrow> 'a \<Rightarrow> int"
  by unfold_locales (auto simp: cmp_of_def split: if_splits)

lemma cmp_of_eq_0 [simp]: "cmp_of x y = 0 \<longleftrightarrow> x = y"
  by (auto simp: cmp_of_def)

text \<open>Lexicographic comparison; a proper prefix is smaller.\<close>

fun lexcmp :: "('a \<Rightarrow> 'a \<Rightarrow> int) \<Rightarrow> 'a list \<Rightarrow> 'a list \<Rightarrow> int" where
  "lexcmp cmp [] [] = 0"
| "lexcmp cmp [] (y # ys) = -1"
| "lexcmp cmp (x # xs) [] = 1"
| "lexcmp cmp (x # xs) (y # ys) =
     (if cmp x y \<noteq> 0 then cmp x y else lexcmp cmp xs ys)"

text \<open>Comparison of two lists as if the shorter one were continued with \<open>z\<close> forever.\<close>

fun padcmp :: "('a \<Rightarrow> 'a \<Rightarrow> int) \<Rightarrow> 'a \<Rightarrow> 'a list \<Rightarrow> 'a list \<Rightarrow> int" where
  "padcmp cmp z [] [] = 0"
| "padcmp cmp z [] (y # ys) = (if cmp z y \<noteq> 0 then cmp z y else padcmp cmp z [] ys)"
| "padcmp cmp z (x # xs) [] = (if cmp x z \<noteq> 0 then cmp x z else padcmp cmp z xs [])"
| "padcmp cmp z (x # xs) (y # ys) =
     (if cmp x y \<noteq> 0 then cmp x y else padcmp cmp z xs ys)"

definition hd_or :: "'a \<Rightarrow> 'a list \<Rightarrow> 'a" where
  "hd_or z xs = (case xs of [] \<Rightarrow> z | x # _ \<Rightarrow> x)"

context three_way
begin

lemma lexcmp_range: "lexcmp cmp xs ys \<in> {-1, 0, 1}"
  by (induction xs ys rule: list_induct2') (use range in auto)

lemma lexcmp_refl: "lexcmp cmp xs xs = 0"
  by (induction xs) (auto simp: refl)

lemma lexcmp_flip: "lexcmp cmp ys xs = - lexcmp cmp xs ys"
proof (induction xs ys rule: list_induct2')
  case (4 x xs y ys)
  then show ?case using flip [of x y] by auto
qed auto

lemma lexcmp_three_way: "three_way (lexcmp cmp)"
  by unfold_locales (rule lexcmp_range, rule lexcmp_refl, rule lexcmp_flip)

lemma padcmp_unfold:
  "padcmp cmp z xs ys =
     (let c = cmp (hd_or z xs) (hd_or z ys) in if c \<noteq> 0 then c else padcmp cmp z (tl xs) (tl ys))"
  by (cases xs; cases ys) (auto simp: hd_or_def refl)

lemma padcmp_one_sided:
  "padcmp cmp z xs [] \<in> {-1, 0, 1}" "padcmp cmp z [] xs = - padcmp cmp z xs []"
proof (induction xs)
  case (Cons x xs)
  { case 1 with Cons show ?case using range [of x z] by auto }
  { case 2 with Cons show ?case using flip [of x z] by auto }
qed auto

lemma padcmp_flip: "padcmp cmp z ys xs = - padcmp cmp z xs ys"
proof (induction xs ys rule: list_induct2')
  case (4 x xs y ys)
  then show ?case using flip [of x y] by auto
qed (simp_all add: padcmp_one_sided(2) del: padcmp.simps(2,3))

lemma padcmp_range: "padcmp cmp z xs ys \<in> {-1, 0, 1}"
proof (induction xs ys rule: list_induct2')
  case (3 y ys)
  then show ?case
    using padcmp_one_sided [of z "y # ys"] by (auto simp del: padcmp.simps)
next
  case (4 x xs y ys)
  then show ?case using range [of x y] by auto
qed (use padcmp_one_sided(1) in \<open>simp_all del: padcmp.simps(3)\<close>)

lemma padcmp_refl: "padcmp cmp z xs xs = 0"
  by (induction xs) (auto simp: refl)

end

context three_way_order
begin

lemma lexcmp_trans: "lexcmp cmp xs ys \<le> 0 \<Longrightarrow> lexcmp cmp ys zs \<le> 0 \<Longrightarrow> lexcmp cmp xs zs \<le> 0"
proof (induction xs arbitrary: ys zs)
  case Nil
  then show ?case by (cases zs) auto
next
  case (Cons x xs)
  then obtain y ys' z zs' where eq: "ys = y # ys'" "zs = z # zs'"
    by (cases ys; cases zs) auto
  from Cons.prems eq have xy: "cmp x y \<le> 0" and yz: "cmp y z \<le> 0"
    by (auto split: if_splits)
  show ?case
  proof (cases "cmp x z = 0")
    case True
    with xy yz have "cmp x y = 0" and "cmp y z = 0"
      using lt_le_trans [of x y z] le_lt_trans [of x y z] by force+
    with Cons eq True show ?thesis by auto
  next
    case False
    with trans [OF xy yz] eq show ?thesis by simp
  qed
qed

lemma lexcmp_order: "three_way_order (lexcmp cmp)"
  by (intro three_way_order.intro lexcmp_three_way three_way_order_axioms.intro) (rule lexcmp_trans)

lemma padcmp_trans:
  "padcmp cmp z xs ys \<le> 0 \<Longrightarrow> padcmp cmp z ys zs \<le> 0 \<Longrightarrow> padcmp cmp z xs zs \<le> 0"
proof (induction "length xs + length ys + length zs" arbitrary: xs ys zs rule: less_induct)
  case less
  let ?x = "hd_or z xs" and ?y = "hd_or z ys" and ?z = "hd_or z zs"
  show ?case
  proof (cases "xs = [] \<and> ys = [] \<and> zs = []")
    case True
    then show ?thesis by simp
  next
    case False
    then have smaller: "length (tl xs) + length (tl ys) + length (tl zs) <
        length xs + length ys + length zs"
      by (cases xs; cases ys; cases zs) auto
    from less.prems have xy: "cmp ?x ?y \<le> 0" and yz: "cmp ?y ?z \<le> 0"
      by (auto simp: padcmp_unfold [of z xs ys] padcmp_unfold [of z ys zs] Let_def split: if_splits)
    show ?thesis
    proof (cases "cmp ?x ?z = 0")
      case True
      with xy yz have eq: "cmp ?x ?y = 0" "cmp ?y ?z = 0"
        using lt_le_trans [of ?x ?y ?z] le_lt_trans [of ?x ?y ?z] by force+
      with less.prems have "padcmp cmp z (tl xs) (tl ys) \<le> 0" "padcmp cmp z (tl ys) (tl zs) \<le> 0"
        by (simp_all add: padcmp_unfold [of z xs ys] padcmp_unfold [of z ys zs] Let_def)
      then have "padcmp cmp z (tl xs) (tl zs) \<le> 0" by (rule less.hyps [OF smaller])
      with True show ?thesis by (simp add: padcmp_unfold [of z xs zs])
    next
      case False
      with trans [OF xy yz] show ?thesis by (simp add: padcmp_unfold [of z xs zs])
    qed
  qed
qed

lemma padcmp_order: "three_way_order (padcmp cmp z)"
  by unfold_locales (rule padcmp_range, rule padcmp_refl, rule padcmp_flip, rule padcmp_trans)

end

text \<open>\<^verbatim>\<open>strings.Compare\<close>, and the \<^verbatim>\<open><\<close> of Go strings: bytewise lexicographic.\<close>

definition byte_cmp :: "char \<Rightarrow> char \<Rightarrow> int" where
  "byte_cmp c d = cmp_of (byte_val c) (byte_val d)"

definition strings_Compare :: "string \<Rightarrow> string \<Rightarrow> int" where
  "strings_Compare = lexcmp byte_cmp"

interpretation byte: three_way_order byte_cmp
  unfolding byte_cmp_def by (rule lin.pull_back_order)

interpretation str: three_way_order strings_Compare
  unfolding strings_Compare_def by (rule byte.lexcmp_order)

lemma strings_Compare_eq_0 [simp]: "strings_Compare a b = 0 \<longleftrightarrow> a = b"
  unfolding strings_Compare_def
  by (induction a b rule: list_induct2') (auto simp: byte_cmp_def)

lemmas str_flip [cmp_flip_rules] = str.flip
lemmas str_range [cmp_range_rules] = str.range

section \<open>Decimal numerals\<close>

text \<open>A version made of numbers and dots.\<close>

definition dotted :: "nat list \<Rightarrow> string" where
  "dotted xs = strings_Join (map show_nat xs) ''.''"

lemma dot_no_class [simp]: "\<not> is_alpha (CHR ''.'')" "\<not> is_digit (CHR ''.'')"
  by (simp_all add: is_alpha_def is_lower_def is_upper_def is_digit_def byte_val_def)

text \<open>Comparing decimal numerals without leading zeros by length, then bytewise, compares the
  numbers.\<close>

lemma digits_val_Cons: "digits_val (c # s) = digit_val c * 10 ^ length s + digits_val s"
proof (induction s rule: rev_induct)
  case Nil
  then show ?case using digits_val_snoc [of "[]" c] by simp
next
  case (snoc d s)
  have "digits_val (c # s @ [d]) = digits_val (c # s) * 10 + digit_val d"
    using digits_val_snoc [of "c # s" d] by simp
  with snoc show ?case by (simp add: algebra_simps)
qed

lemma digits_val_bound: "list_all is_digit s \<Longrightarrow> digits_val s < 10 ^ length s"
proof (induction s)
  case (Cons c s)
  then have "digit_val c < 10" "digits_val s < 10 ^ length s" by auto
  then have "digit_val c \<le> 9" by simp
  then have "digit_val c * 10 ^ length s \<le> 9 * 10 ^ length s" by simp
  with \<open>digits_val s < 10 ^ length s\<close> show ?case
    unfolding digits_val_Cons length_Cons power_Suc by linarith
qed simp

lemma byte_cmp_digits:
  "is_digit c \<Longrightarrow> is_digit d \<Longrightarrow> byte_cmp c d = cmp_of (digit_val c) (digit_val d)"
  by (auto simp: byte_cmp_def cmp_of_def digit_val_def is_digit_def)

lemma strings_Compare_digits:
  "length a = length b \<Longrightarrow> list_all is_digit a \<Longrightarrow> list_all is_digit b \<Longrightarrow>
   strings_Compare a b = cmp_of (digits_val a) (digits_val b)"
  unfolding strings_Compare_def
proof (induction a b rule: list_induct2)
  case (Cons c a d b)
  have bounds: "digits_val a < 10 ^ length a" "digits_val b < 10 ^ length a"
    using Cons digits_val_bound [of a] digits_val_bound [of b] by auto
  show ?case
  proof (cases "digit_val c" "digit_val d" rule: linorder_cases)
    case less
    then have "(digit_val c + 1) * 10 ^ length a \<le> digit_val d * 10 ^ length a"
      by (intro mult_le_mono1) simp
    with bounds Cons less show ?thesis
      by (auto simp: byte_cmp_digits cmp_of_def digits_val_Cons)
  next
    case equal
    with Cons show ?thesis by (auto simp: byte_cmp_digits cmp_of_def digits_val_Cons)
  next
    case greater
    then have "(digit_val d + 1) * 10 ^ length a \<le> digit_val c * 10 ^ length a"
      by (intro mult_le_mono1) simp
    with bounds Cons greater show ?thesis
      by (auto simp: byte_cmp_digits cmp_of_def digits_val_Cons)
  qed
qed simp

lemma digits_val_length:
  assumes "list_all is_digit a" "list_all is_digit b" "length a < length b" "digit_val (hd b) \<noteq> 0"
  shows "digits_val a < digits_val b"
proof -
  from assms obtain c b' where b: "b = c # b'" by (cases b) auto
  have "digits_val a < 10 ^ length a" using assms digits_val_bound by blast
  also have "\<dots> \<le> 10 ^ length b'" using assms b by (intro power_increasing) auto
  also have "\<dots> \<le> digit_val c * 10 ^ length b'" using assms b by (cases "digit_val c") auto
  also have "\<dots> \<le> digits_val b" using b by (simp add: digits_val_Cons)
  finally show ?thesis .
qed

lemma digit_char_0: "digit_char 0 = CHR ''0''"
  by (rule byte_val_inj [THEN iffD1]) (simp add: digit_char_def byte_val_def)

lemma hd_show_nat: "n \<noteq> 0 \<Longrightarrow> digit_val (hd (show_nat n)) \<noteq> 0"
proof (induction n rule: show_nat.induct)
  case (1 n)
  then show ?case by (cases "n < 10") (auto simp: show_nat.simps [of n])
qed

end
