(* ===== verification/Regexp.thy ===== *)
theory Regexp
  imports Go_Prelude
begin

text \<open>
  Go's package \<^verbatim>\<open>regexp\<close>, as far as the version schemes use it: patterns as data, and matching
  with the leftmost-first rule of Perl and of Go's \<^verbatim>\<open>regexp\<close> ("it chooses the one that a
  backtracking search would have found first").  \<open>re_all r st\<close> lists the ways \<open>r\<close> can match from
  the state \<open>st\<close> in the order in which a backtracking search tries them; the first is the match.
  A state is: whether the text's beginning is the current position, the captures so far (the
  latest first), and the text that is left.
\<close>

section \<open>Patterns and their matches\<close>

datatype re =
    Eps
  | Cls "char \<Rightarrow> bool"
  | Seq re re
  | Alt re re
  | Star re
  | Grp nat re
  | Bol
  | Eol

type_synonym captures = "(nat \<times> string) list"
type_synonym re_state = "bool \<times> captures \<times> string"

definition Chr :: "char \<Rightarrow> re" where
  "Chr c = Cls (\<lambda>d. d = c)"

definition Plus :: "re \<Rightarrow> re" where
  "Plus r = Seq r (Star r)"

definition Opt :: "re \<Rightarrow> re" where
  "Opt r = Alt r Eps"

fun Lit :: "string \<Rightarrow> re" where
  "Lit [] = Eps"
| "Lit (c # cs) = Seq (Chr c) (Lit cs)"

fun re_rest :: "re_state \<Rightarrow> string" where
  "re_rest (b, cs, s) = s"

primrec re_star :: "(re_state \<Rightarrow> re_state list) \<Rightarrow> nat \<Rightarrow> re_state \<Rightarrow> re_state list" where
  "re_star f 0 st = [st]"
| "re_star f (Suc n) st =
     concat (map (re_star f n) (filter (\<lambda>st'. length (re_rest st') < length (re_rest st)) (f st)))
     @ [st]"

fun cls_step :: "(char \<Rightarrow> bool) \<Rightarrow> re_state \<Rightarrow> re_state list" where
  "cls_step P (b, cs, []) = []"
| "cls_step P (b, cs, c # s) = (if P c then [(False, cs, s)] else [])"

fun capture :: "nat \<Rightarrow> string \<Rightarrow> re_state \<Rightarrow> re_state" where
  "capture i s (b, cs, r) = (b, (i, take (length s - length r) s) # cs, r)"

primrec re_all :: "re \<Rightarrow> re_state \<Rightarrow> re_state list" where
  "re_all Eps st = [st]"
| "re_all (Cls P) st = cls_step P st"
| "re_all (Seq r1 r2) st = concat (map (re_all r2) (re_all r1 st))"
| "re_all (Alt r1 r2) st = re_all r1 st @ re_all r2 st"
| "re_all (Star r) st = re_star (re_all r) (length (re_rest st)) st"
| "re_all (Grp i r) st = map (capture i (re_rest st)) (re_all r st)"
| "re_all Bol st = (if fst st then [st] else [])"
| "re_all Eol st = (if re_rest st = [] then [st] else [])"

section \<open>Searching\<close>

record re_match =
  m_before :: string
  m_text :: string
  m_caps :: captures
  m_after :: string

fun re_find :: "re \<Rightarrow> bool \<Rightarrow> string \<Rightarrow> re_match option" where
  "re_find r b s =
     (case re_all r (b, [], s) of
        (b', cs, rest) # _ \<Rightarrow>
          Some \<lparr>m_before = [], m_text = take (length s - length rest) s, m_caps = cs, m_after = rest\<rparr>
      | [] \<Rightarrow>
          (case s of
             [] \<Rightarrow> None
           | c # s' \<Rightarrow>
               map_option (\<lambda>m. m\<lparr>m_before := c # m_before m\<rparr>) (re_find r False s')))"

declare re_find.simps [simp del]

definition regexp_Find :: "re \<Rightarrow> string \<Rightarrow> re_match option" where
  "regexp_Find r s = re_find r True s"

definition regexp_MatchString :: "re \<Rightarrow> string \<Rightarrow> bool" where
  "regexp_MatchString r s \<longleftrightarrow> regexp_Find r s \<noteq> None"

text \<open>A group that took no part in the match is the empty string, as in \<^verbatim>\<open>FindStringSubmatch\<close>.\<close>

definition submatch :: "re_match \<Rightarrow> nat \<Rightarrow> string" where
  "submatch m i = (if i = 0 then m_text m else case map_of (m_caps m) i of None \<Rightarrow> [] | Some t \<Rightarrow> t)"

text \<open>\<^verbatim>\<open>FindAllString(s, -1)\<close> for patterns whose matches are not empty; the fuel is one more than
  the length of the text, and each match or skipped byte shortens it.\<close>

fun re_find_all :: "nat \<Rightarrow> re \<Rightarrow> bool \<Rightarrow> string \<Rightarrow> string list" where
  "re_find_all 0 r b s = []"
| "re_find_all (Suc n) r b s =
     (case re_find r b s of
        None \<Rightarrow> []
      | Some m \<Rightarrow> (if m_text m = [] then [] else m_text m # re_find_all n r False (m_after m)))"

definition regexp_FindAllString :: "re \<Rightarrow> string \<Rightarrow> string list" where
  "regexp_FindAllString r s = re_find_all (Suc (length s)) r True s"

section \<open>Facts\<close>

lemma re_all_Chr: "re_all (Chr d) st = cls_step (\<lambda>c. c = d) st"
  by (simp add: Chr_def)

lemma re_all_Cls_fun: "re_all (Cls P) = cls_step P"
  by (rule ext) simp

lemma re_rest_capture [simp]: "re_rest (capture i s st) = re_rest st"
  by (cases st) simp

lemma re_star_Cls:
  "length s \<le> n \<Longrightarrow>
   \<exists>more. re_star (cls_step P) n (b, cs, s) = (b \<and> takeWhile P s = [], cs, dropWhile P s) # more"
proof (induction s arbitrary: n b)
  case Nil
  then show ?case by (cases n) auto
next
  case (Cons c s)
  then obtain k where n: "n = Suc k" "length s \<le> k" by (cases n) auto
  from Cons.IH [OF n(2), of False] obtain more where
    "re_star (cls_step P) k (False, cs, s) = (False, cs, dropWhile P s) # more" by auto
  with n show ?case by auto
qed

lemma re_all_Plus_Cls:
  "P c \<Longrightarrow> \<exists>more. re_all (Plus (Cls P)) (b, cs, c # s) = (False, cs, dropWhile P s) # more"
  using re_star_Cls [of s "length s" P False cs] by (auto simp: Plus_def re_all_Cls_fun)

lemma re_all_Plus_Cls_None: "\<not> P c \<Longrightarrow> re_all (Plus (Cls P)) (b, cs, c # s) = []"
  by (simp add: Plus_def)

lemma re_all_Plus_Cls_Nil: "re_all (Plus (Cls P)) (b, cs, []) = []"
  by (simp add: Plus_def)

lemma re_find_hit:
  "re_all r (b, [], s) = (b', cs, rest) # ms \<Longrightarrow>
   re_find r b s =
     Some \<lparr>m_before = [], m_text = take (length s - length rest) s, m_caps = cs, m_after = rest\<rparr>"
  by (simp add: re_find.simps)

lemma re_find_miss:
  "re_all r (b, [], c # s) = [] \<Longrightarrow>
   re_find r b (c # s) = map_option (\<lambda>m. m\<lparr>m_before := c # m_before m\<rparr>) (re_find r False s)"
  by (simp add: re_find.simps [of r b])

lemma re_find_Nil: "re_all r (b, [], []) = [] \<Longrightarrow> re_find r b [] = None"
  by (simp add: re_find.simps)

text \<open>What is left after a match is a suffix of what was there before it.\<close>

lemma re_star_suffix:
  assumes f: "\<And>st st'. st' \<in> set (f st) \<Longrightarrow> \<exists>w. re_rest st = w @ re_rest st'"
  shows "st' \<in> set (re_star f n st) \<Longrightarrow> \<exists>w. re_rest st = w @ re_rest st'"
proof (induction n arbitrary: st)
  case (Suc n)
  from Suc.prems consider "st' = st" | st1 where "st1 \<in> set (f st)" "st' \<in> set (re_star f n st1)"
    by auto
  then show ?case
  proof cases
    case 2
    from f [OF 2(1)] Suc.IH [OF 2(2)] show ?thesis by (metis append.assoc)
  qed simp
qed simp

lemma re_all_suffix: "st' \<in> set (re_all r st) \<Longrightarrow> \<exists>w. re_rest st = w @ re_rest st'"
proof (induction r arbitrary: st st')
  case (Cls P)
  then show ?case by (cases "(P, st)" rule: cls_step.cases) (auto split: if_splits)
next
  case (Seq r1 r2)
  then obtain st1 where "st1 \<in> set (re_all r1 st)" "st' \<in> set (re_all r2 st1)" by auto
  with Seq.IH show ?case by (metis append.assoc)
next
  case (Star r)
  then show ?case using re_star_suffix [of "re_all r"] by auto
next
  case (Grp i r)
  then obtain st1 where st1: "st1 \<in> set (re_all r st)" "st' = capture i (re_rest st) st1" by auto
  with Grp.IH [OF st1(1)] show ?case by simp
qed (auto split: if_splits)

text \<open>A match consumes only bytes that some class of the pattern accepts.\<close>

primrec re_cls :: "re \<Rightarrow> char \<Rightarrow> bool" where
  "re_cls Eps c = False"
| "re_cls (Cls P) c = P c"
| "re_cls (Seq r1 r2) c = (re_cls r1 c \<or> re_cls r2 c)"
| "re_cls (Alt r1 r2) c = (re_cls r1 c \<or> re_cls r2 c)"
| "re_cls (Star r) c = re_cls r c"
| "re_cls (Grp i r) c = re_cls r c"
| "re_cls Bol c = False"
| "re_cls Eol c = False"

definition consumed :: "(char \<Rightarrow> bool) \<Rightarrow> re_state \<Rightarrow> re_state \<Rightarrow> bool" where
  "consumed P st st' \<longleftrightarrow> (\<exists>w. re_rest st = w @ re_rest st' \<and> list_all P w)"

lemma consumed_refl [simp]: "consumed P st st"
  by (auto simp: consumed_def intro: exI [of _ "[]"])

lemma consumed_trans: "consumed P st st1 \<Longrightarrow> consumed P st1 st2 \<Longrightarrow> consumed P st st2"
  unfolding consumed_def by (metis append.assoc list_all_append)

lemma consumed_mono: "consumed P st st1 \<Longrightarrow> (\<And>c. P c \<Longrightarrow> Q c) \<Longrightarrow> consumed Q st st1"
  unfolding consumed_def by (metis list.pred_mono_strong)

lemma consumed_star:
  assumes f: "\<And>st st'. st' \<in> set (f st) \<Longrightarrow> consumed P st st'"
  shows "st' \<in> set (re_star f n st) \<Longrightarrow> consumed P st st'"
proof (induction n arbitrary: st)
  case (Suc n)
  from Suc.prems consider "st' = st" | st1 where "st1 \<in> set (f st)" "st' \<in> set (re_star f n st1)"
    by auto
  then show ?case
  proof cases
    case 2
    from consumed_trans [OF f [OF 2(1)] Suc.IH [OF 2(2)]] show ?thesis .
  qed simp
qed simp

lemma re_all_consumed: "st' \<in> set (re_all r st) \<Longrightarrow> consumed (re_cls r) st st'"
proof (induction r arbitrary: st st')
  case (Cls P)
  then show ?case
    by (cases "(P, st)" rule: cls_step.cases) (auto simp: consumed_def split: if_splits)
next
  case (Seq r1 r2)
  then obtain st1 where "st1 \<in> set (re_all r1 st)" "st' \<in> set (re_all r2 st1)" by auto
  with Seq.IH have "consumed (re_cls r1) st st1" "consumed (re_cls r2) st1 st'" by auto
  then have "consumed (re_cls (Seq r1 r2)) st st1" "consumed (re_cls (Seq r1 r2)) st1 st'"
    by (auto elim: consumed_mono)
  then show ?case by (rule consumed_trans)
next
  case (Alt r1 r2)
  show ?case
  proof (cases "st' \<in> set (re_all r1 st)")
    case True
    from Alt.IH(1) [OF True] show ?thesis by (rule consumed_mono) simp
  next
    case False
    with Alt.prems have "st' \<in> set (re_all r2 st)" by simp
    from Alt.IH(2) [OF this] show ?thesis by (rule consumed_mono) simp
  qed
next
  case (Star r)
  have "consumed (re_cls r) st st'"
    by (rule consumed_star [OF Star.IH]) (use Star.prems in \<open>simp_all\<close>)
  then show ?case by (rule consumed_mono) simp
next
  case (Grp i r)
  then obtain st1 where "st1 \<in> set (re_all r st)" "st' = capture i (re_rest st) st1" by auto
  with Grp.IH [of st1 st] show ?case by (simp add: consumed_def)
qed (auto split: if_splits)

lemma re_find_text: "re_find r b s = Some m \<Longrightarrow> list_all (re_cls r) (m_text m)"
proof (induction s arbitrary: b m)
  case Nil
  then show ?case by (auto simp: re_find.simps [of r b "[]"] split: list.splits)
next
  case (Cons c s)
  show ?case
  proof (cases "re_all r (b, [], c # s)")
    case Nil
    with Cons.prems obtain m' where "re_find r False s = Some m'" "m_text m = m_text m'"
      by (auto simp: re_find_miss)
    with Cons.IH show ?thesis by auto
  next
    case (Cons st ms)
    obtain b' cs rest where st: "st = (b', cs, rest)" by (cases st)
    have "consumed (re_cls r) (b, [], c # s) st"
      by (rule re_all_consumed) (simp add: Cons)
    then obtain w where "c # s = w @ rest" "list_all (re_cls r) w" by (auto simp: consumed_def st)
    moreover have "m_text m = take (length (c # s) - length rest) (c # s)"
      using Cons.prems re_find_hit [OF Cons [unfolded st]] by auto
    ultimately show ?thesis by (metis append_eq_conv_conj diff_diff_cancel le_add2 length_append
          add_diff_cancel_right')
  qed
qed

lemma re_find_all_text: "t \<in> set (re_find_all n r b s) \<Longrightarrow> t \<noteq> [] \<and> list_all (re_cls r) t"
  by (induction n arbitrary: b s)
    (auto split: option.splits if_splits dest: re_find_text re_find_text [OF sym])

lemma FindAllString_text: "t \<in> set (regexp_FindAllString r s) \<Longrightarrow> t \<noteq> [] \<and> list_all (re_cls r) t"
  unfolding regexp_FindAllString_def by (rule re_find_all_text)

section \<open>The language of a pattern\<close>

text \<open>The texts a pattern can consume (anchors consume nothing).  Every match consumes a text of the
  language, and without anchors every text of the language is consumed by some match.\<close>

inductive lang :: "re \<Rightarrow> string \<Rightarrow> bool" where
  lang_Eps: "lang Eps []"
| lang_Cls: "P c \<Longrightarrow> lang (Cls P) [c]"
| lang_Seq: "lang r1 u \<Longrightarrow> lang r2 v \<Longrightarrow> lang (Seq r1 r2) (u @ v)"
| lang_Alt1: "lang r1 u \<Longrightarrow> lang (Alt r1 r2) u"
| lang_Alt2: "lang r2 u \<Longrightarrow> lang (Alt r1 r2) u"
| lang_Star0: "lang (Star r) []"
| lang_Star1: "lang r u \<Longrightarrow> u \<noteq> [] \<Longrightarrow> lang (Star r) v \<Longrightarrow> lang (Star r) (u @ v)"
| lang_Grp: "lang r u \<Longrightarrow> lang (Grp i r) u"
| lang_Bol: "lang Bol []"
| lang_Eol: "lang Eol []"

inductive_simps lang_simps [simp]:
  "lang Eps w" "lang (Cls P) w" "lang (Seq r1 r2) w" "lang (Alt r1 r2) w" "lang (Grp i r) w"
  "lang Bol w" "lang Eol w"

primrec anchor_free :: "re \<Rightarrow> bool" where
  "anchor_free Eps = True"
| "anchor_free (Cls P) = True"
| "anchor_free (Seq r1 r2) = (anchor_free r1 \<and> anchor_free r2)"
| "anchor_free (Alt r1 r2) = (anchor_free r1 \<and> anchor_free r2)"
| "anchor_free (Star r) = anchor_free r"
| "anchor_free (Grp i r) = anchor_free r"
| "anchor_free Bol = False"
| "anchor_free Eol = False"

primrec re_groups :: "re \<Rightarrow> nat set" where
  "re_groups Eps = {}"
| "re_groups (Cls P) = {}"
| "re_groups (Seq r1 r2) = re_groups r1 \<union> re_groups r2"
| "re_groups (Alt r1 r2) = re_groups r1 \<union> re_groups r2"
| "re_groups (Star r) = re_groups r"
| "re_groups (Grp i r) = insert i (re_groups r)"
| "re_groups Bol = {}"
| "re_groups Eol = {}"

lemma lang_Lit [simp]: "lang (Lit s) w \<longleftrightarrow> w = s"
  by (induction s arbitrary: w) (auto simp: Chr_def)

lemma lang_Star_Cls: "lang (Star (Cls P)) w \<longleftrightarrow> list_all P w"
proof
  have "lang r w \<Longrightarrow> r = Star (Cls P) \<Longrightarrow> list_all P w" for r
    by (induction rule: lang.induct) auto
  then show "lang (Star (Cls P)) w \<Longrightarrow> list_all P w" by simp
  show "list_all P w \<Longrightarrow> lang (Star (Cls P)) w"
  proof (induction w)
    case (Cons c w)
    then show ?case using lang_Star1 [of "Cls P" "[c]" w] by simp
  qed (rule lang_Star0)
qed

lemma lang_Plus_Cls: "lang (Plus (Cls P)) w \<longleftrightarrow> w \<noteq> [] \<and> list_all P w"
proof (cases w)
  case (Cons c v)
  then show ?thesis
    using lang_Seq [of "Cls P" "[c]" "Star (Cls P)" v] by (auto simp: Plus_def lang_Star_Cls)
qed (simp add: Plus_def)

lemma anchor_free_parts [simp]: "re_groups (Lit s) = {}" "anchor_free (Lit s)"
  "anchor_free (Chr c)" "re_groups (Chr c) = {}" "anchor_free (Plus r) = anchor_free r"
  "re_groups (Plus r) = re_groups r" "anchor_free (Opt r) = anchor_free r" "re_groups (Opt r) = re_groups r"
  by (induction s) (auto simp: Chr_def Plus_def Opt_def)

lemma re_all_Seq_assoc: "re_all (Seq r1 (Seq r2 r3)) = re_all (Seq (Seq r1 r2) r3)"
proof
  fix st
  have "concat (map (re_all (Seq r2 r3)) xs)
      = concat (map (re_all r3) (concat (map (re_all r2) xs)))" for xs
    by (induction xs) auto
  then show "re_all (Seq r1 (Seq r2 r3)) st = re_all (Seq (Seq r1 r2) r3) st" by simp
qed

lemma re_all_SeqE:
  assumes "st' \<in> set (re_all (Seq r1 r2) st)"
  obtains st1 where "st1 \<in> set (re_all r1 st)" "st' \<in> set (re_all r2 st1)"
  using assms by auto

lemma star_sound:
  assumes f: "\<And>st st'. st' \<in> set (f st) \<Longrightarrow> \<exists>w. re_rest st = w @ re_rest st' \<and> lang r w"
  shows "st' \<in> set (re_star f n st) \<Longrightarrow> \<exists>w. re_rest st = w @ re_rest st' \<and> lang (Star r) w"
proof (induction n arbitrary: st)
  case (Suc n)
  from Suc.prems consider "st' = st"
    | st1 where "st1 \<in> set (f st)" "length (re_rest st1) < length (re_rest st)"
        "st' \<in> set (re_star f n st1)"
    by auto
  then show ?case
  proof cases
    case 2
    from f [OF 2(1)] obtain u where u: "re_rest st = u @ re_rest st1" "lang r u" by blast
    from Suc.IH [OF 2(3)] obtain v where v: "re_rest st1 = v @ re_rest st'" "lang (Star r) v" by blast
    from u 2(2) have "u \<noteq> []" by auto
    with u v have "re_rest st = (u @ v) @ re_rest st'" "lang (Star r) (u @ v)"
      by (auto intro: lang_Star1)
    then show ?thesis by blast
  qed (auto intro: lang_Star0)
qed (auto intro: lang_Star0)

lemma re_all_sound: "st' \<in> set (re_all r st) \<Longrightarrow> \<exists>w. re_rest st = w @ re_rest st' \<and> lang r w"
proof (induction r arbitrary: st st')
  case (Cls P)
  then show ?case by (cases "(P, st)" rule: cls_step.cases) (auto split: if_splits)
next
  case (Seq r1 r2)
  then obtain st1 where st1: "st1 \<in> set (re_all r1 st)" "st' \<in> set (re_all r2 st1)" by auto
  from Seq.IH(1) [OF st1(1)] Seq.IH(2) [OF st1(2)] obtain u v where
    "re_rest st = (u @ v) @ re_rest st'" "lang r1 u" "lang r2 v" by auto
  then show ?case using lang_Seq by blast
next
  case (Alt r1 r2)
  show ?case
  proof (cases "st' \<in> set (re_all r1 st)")
    case True
    from Alt.IH(1) [OF this] show ?thesis by auto
  next
    case False
    with Alt.prems have "st' \<in> set (re_all r2 st)" by simp
    from Alt.IH(2) [OF this] show ?thesis by auto
  qed
next
  case (Star r)
  show ?case by (rule star_sound [OF Star.IH]) (use Star.prems in simp_all)
next
  case (Grp i r)
  then obtain st1 where st1: "st1 \<in> set (re_all r st)" "st' = capture i (re_rest st) st1" by auto
  from Grp.IH [OF st1(1)] st1(2) show ?case by simp
qed (auto split: if_splits)

lemma star_complete:
  assumes f: "\<And>u st rest. lang r u \<Longrightarrow> re_rest st = u @ rest \<Longrightarrow> \<exists>st' \<in> set (f st). re_rest st' = rest"
  shows "lang r' w \<Longrightarrow> r' = Star r \<Longrightarrow> re_rest st = w @ rest \<Longrightarrow> length (re_rest st) \<le> n \<Longrightarrow>
    \<exists>st' \<in> set (re_star f n st). re_rest st' = rest"
proof (induction arbitrary: st n rule: lang.induct)
  case (lang_Star0 r0)
  then show ?case by (cases n) auto
next
  case (lang_Star1 r0 u v)
  then obtain k where n: "n = Suc k" by (cases n) auto
  from lang_Star1 f [of u st "v @ rest"] obtain st1 where
    st1: "st1 \<in> set (f st)" "re_rest st1 = v @ rest" by auto
  with lang_Star1.prems lang_Star1.hyps(2) n have
    len: "length (re_rest st1) \<le> k" "length (re_rest st1) < length (re_rest st)"
    by (cases u, auto)+
  from lang_Star1.IH(2) [OF lang_Star1.prems(1) st1(2) len(1)] obtain st2 where
    "st2 \<in> set (re_star f k st1)" "re_rest st2 = rest" by blast
  with st1(1) len(2) n have "st2 \<in> set (re_star f n st)"
    by (auto simp del: split_paired_Ex split_paired_All)
  with \<open>re_rest st2 = rest\<close> show ?case by blast
qed auto

lemma re_all_complete:
  "anchor_free r \<Longrightarrow> lang r u \<Longrightarrow> re_rest st = u @ rest \<Longrightarrow> \<exists>st' \<in> set (re_all r st). re_rest st' = rest"
proof (induction r arbitrary: st u rest)
  case (Cls P)
  then show ?case by (cases "(P, st)" rule: cls_step.cases) (auto split: if_splits)
next
  case (Seq r1 r2)
  then obtain v w where u: "u = v @ w" "lang r1 v" "lang r2 w" by auto
  with Seq.IH(1) [of v st "w @ rest"] Seq.prems obtain st1 where
    "st1 \<in> set (re_all r1 st)" "re_rest st1 = w @ rest" by auto
  with Seq.IH(2) [of w st1 rest] u Seq.prems show ?case by auto
next
  case (Alt r1 r2)
  then consider "lang r1 u" | "lang r2 u" by auto
  then show ?case
  proof cases
    case 1
    with Alt.IH(1) [of u st rest] Alt.prems show ?thesis by auto
  next
    case 2
    with Alt.IH(2) [of u st rest] Alt.prems show ?thesis by auto
  qed
next
  case (Star r)
  have "\<exists>st' \<in> set (re_star (re_all r) (length (re_rest st)) st). re_rest st' = rest"
    by (rule star_complete [where r = r, OF _ Star.prems(2)]) (use Star in auto)
  then show ?case by simp
next
  case (Grp i r)
  with Grp.IH [of u st rest] show ?case by auto
qed auto

text \<open>The text captured by a group is in the language of the group, if no later part of the
  pattern captures under the same number.\<close>

fun cap_of :: "nat \<Rightarrow> re_state \<Rightarrow> string option" where
  "cap_of i (b, cs, s) = map_of cs i"

lemma cap_of_capture: "cap_of i (capture j s st) =
   (if i = j then Some (take (length s - length (re_rest st)) s) else cap_of i st)"
  by (cases st) auto

lemma star_keeps_caps:
  assumes f: "\<And>st st'. st' \<in> set (f st) \<Longrightarrow> cap_of i st' = cap_of i st"
  shows "st' \<in> set (re_star f n st) \<Longrightarrow> cap_of i st' = cap_of i st"
proof (induction n arbitrary: st)
  case (Suc n)
  from Suc.prems consider "st' = st" | st1 where "st1 \<in> set (f st)" "st' \<in> set (re_star f n st1)"
    by auto
  then show ?case
  proof cases
    case 2
    from f [OF 2(1)] Suc.IH [OF 2(2)] show ?thesis by simp
  qed simp
qed simp

lemma re_all_keeps_caps: "i \<notin> re_groups r \<Longrightarrow> st' \<in> set (re_all r st) \<Longrightarrow> cap_of i st' = cap_of i st"
proof (induction r arbitrary: st st')
  case (Cls P)
  then show ?case by (cases "(P, st)" rule: cls_step.cases) (auto split: if_splits)
next
  case (Seq r1 r2)
  then obtain st1 where st1: "st1 \<in> set (re_all r1 st)" "st' \<in> set (re_all r2 st1)" by auto
  from Seq.IH(1) [OF _ st1(1)] Seq.IH(2) [OF _ st1(2)] Seq.prems show ?case by simp
next
  case (Alt r1 r2)
  show ?case
  proof (cases "st' \<in> set (re_all r1 st)")
    case True
    from Alt.IH(1) [OF _ this] Alt.prems show ?thesis by simp
  next
    case False
    with Alt.prems have "st' \<in> set (re_all r2 st)" by simp
    from Alt.IH(2) [OF _ this] Alt.prems show ?thesis by simp
  qed
next
  case (Star r)
  show ?case by (rule star_keeps_caps [OF Star.IH]) (use Star.prems in simp_all)
next
  case (Grp j r)
  then obtain st1 where st1: "st1 \<in> set (re_all r st)" "st' = capture j (re_rest st) st1" by auto
  from Grp.IH [OF _ st1(1)] Grp.prems st1(2) show ?case by (simp add: cap_of_capture)
qed (auto split: if_splits)

lemma re_all_Grp_cap:
  assumes "st' \<in> set (re_all (Grp i r) st)"
  shows "\<exists>w. cap_of i st' = Some w \<and> lang r w"
proof -
  from assms obtain st1 where st1: "st1 \<in> set (re_all r st)" "st' = capture i (re_rest st) st1"
    by auto
  from re_all_sound [OF st1(1)] obtain w where "re_rest st = w @ re_rest st1" "lang r w" by blast
  with st1(2) show ?thesis by (simp add: cap_of_capture)
qed

lemma re_find_hit_state:
  assumes "re_find r b s = Some m" "re_all r (b, [], s) = st # ms"
  shows "\<forall>i. cap_of i st = map_of (m_caps m) i"
proof -
  obtain b' cs rest where st: "st = (b', cs, rest)" by (cases st)
  from re_find_hit [OF assms(2) [unfolded st]] assms(1) have "m_caps m = cs" by auto
  then show ?thesis by (simp add: st)
qed

lemma re_find_state:
  "re_find r b s = Some m \<Longrightarrow>
   \<exists>b' u s' st'. s = u @ s' \<and> st' \<in> set (re_all r (b', [], s'))
     \<and> (\<forall>i. cap_of i st' = map_of (m_caps m) i)"
proof (induction s arbitrary: b m)
  case Nil
  then obtain st ms where st: "re_all r (b, [], []) = st # ms"
    using re_find_Nil by (cases "re_all r (b, [], [])") fastforce+
  with re_find_hit_state [OF Nil st] show ?case by (metis append_Nil list.set_intros(1))
next
  case (Cons c s)
  show ?case
  proof (cases "re_all r (b, [], c # s)")
    case Nil
    with Cons.prems obtain m' where "re_find r False s = Some m'" "m_caps m = m_caps m'"
      by (auto simp: re_find_miss)
    with Cons.IH show ?thesis by (metis append_Cons)
  next
    case (Cons st ms)
    with re_find_hit_state [OF Cons.prems this] show ?thesis by (metis append_Nil list.set_intros(1))
  qed
qed

lemma re_find_None: "re_find r b s = None \<Longrightarrow> re_all r (b, [], s) = []"
  by (cases "re_all r (b, [], s)") (auto simp: re_find_hit re_find.simps [of r b s])

lemma re_find_None_suffix: "re_find r b (u @ s) = None \<Longrightarrow> u \<noteq> [] \<Longrightarrow> re_find r False s = None"
proof (induction u arbitrary: b)
  case (Cons c u)
  then have "re_all r (b, [], c # u @ s) = []" using re_find_None by fastforce
  with Cons show ?case by (cases u) (auto simp: re_find_miss)
qed simp

section \<open>The first match of a sequence of greedy parts\<close>

definition re_first :: "re \<Rightarrow> re_state \<Rightarrow> re_state \<Rightarrow> bool" where
  "re_first r st st' \<longleftrightarrow> (\<exists>ms. re_all r st = st' # ms)"

lemma first_Seq: "re_first r1 st st1 \<Longrightarrow> re_first r2 st1 st2 \<Longrightarrow> re_first (Seq r1 r2) st st2"
  by (auto simp: re_first_def)

lemma first_Star_Cls:
  "re_first (Star (Cls P)) (b, cs, s) (b \<and> takeWhile P s = [], cs, dropWhile P s)"
  using re_star_Cls [of s "length s" P b cs] by (simp add: re_first_def re_all_Cls_fun)

lemma first_Plus_Cls: "P c \<Longrightarrow> re_first (Plus (Cls P)) (b, cs, c # s) (False, cs, dropWhile P s)"
  using re_all_Plus_Cls [of P c b cs s] by (simp add: re_first_def)

lemma first_Grp:
  "re_first r (b, cs, s) (b', cs', s') \<Longrightarrow>
   re_first (Grp i r) (b, cs, s) (b', (i, take (length s - length s') s) # cs', s')"
  by (auto simp: re_first_def)

lemma Find_first:
  "re_first r (True, [], s) (b', cs, rest) \<Longrightarrow>
   regexp_Find r s =
     Some \<lparr>m_before = [], m_text = take (length s - length rest) s, m_caps = cs, m_after = rest\<rparr>"
  by (auto simp: re_first_def regexp_Find_def re_find_hit)

lemma first_Opt: "re_first r st st' \<Longrightarrow> re_first (Opt r) st st'"
  by (auto simp: re_first_def Opt_def)

lemma first_Opt_none: "re_all r st = [] \<Longrightarrow> re_first (Opt r) st st"
  by (simp add: re_first_def Opt_def)

lemma first_Bol: "re_first Bol (True, cs, s) (True, cs, s)"
  by (simp add: re_first_def)

lemma first_Cls: "P c \<Longrightarrow> re_first (Cls P) (b, cs, c # s) (False, cs, s)"
  by (simp add: re_first_def)

lemma first_Chr: "re_first (Chr c) (b, cs, c # s) (False, cs, s)"
  by (simp add: re_first_def Chr_def)

lemma first_Lit: "u \<noteq> [] \<Longrightarrow> re_first (Lit u) (b, cs, u @ s) (False, cs, s)"
proof (induction u arbitrary: b)
  case (Cons c u)
  show ?case
  proof (cases "u = []")
    case True
    then show ?thesis by (simp add: re_first_def Chr_def)
  next
    case False
    from first_Seq [OF first_Chr Cons.IH [OF this]] show ?thesis by simp
  qed
qed simp

lemma first_Plus_run:
  assumes "u \<noteq> []" "list_all P u" "s = [] \<or> \<not> P (hd s)"
  shows "re_first (Plus (Cls P)) (b, cs, u @ s) (False, cs, s)"
proof -
  obtain c v where u: "u = c # v" "P c" using assms by (cases u) auto
  have "dropWhile P (v @ s) = s"
    using assms u by (cases s) (auto simp: dropWhile_append2 list_all_iff)
  with first_Plus_Cls [of P c b cs "v @ s"] u show ?thesis by simp
qed

end
