(* ===== verification/Version_Base.thy ===== *)
theory Version_Base
  imports Comparison Regexp
begin

text \<open>
  The vocabulary of package \<^verbatim>\<open>grype/version\<close>: version formats (\<^verbatim>\<open>format.go\<close>), errors
  (\<^verbatim>\<open>error.go\<close>), constraint operators (\<^verbatim>\<open>operator.go\<close>) and the comparison configuration
  (\<^verbatim>\<open>comparator.go\<close>).

  An error value keeps its wrapping structure (\<^verbatim>\<open>fmt.Errorf\<close> with \<^verbatim>\<open>%w\<close> is \<open>Wrap\<close>,
  \<^verbatim>\<open>errors.Join\<close> is \<open>Joined\<close>), since callers inspect it with \<^verbatim>\<open>errors.As\<close>; of its message only the
  constant part is kept.  A Go result \<^verbatim>\<open>(int, error)\<close> is a pair: both components can be
  observed at once.
\<close>

section \<open>Formats and errors\<close>

text \<open>\<^verbatim>\<open>type Format int\<close>: the fourteen constants, and \<open>OtherFormat\<close> for any other integer.\<close>

datatype Format =
    UnknownFormat
  | SemanticFormat
  | ApkFormat
  | DebFormat
  | MavenFormat
  | RpmFormat
  | PythonFormat
  | KBFormat
  | GemFormat
  | PortageFormat
  | GolangFormat
  | JVMFormat
  | BitnamiFormat
  | PacmanFormat
  | OtherFormat int

text \<open>\<open>UnsupportedComparisonError left raw format\<close> carries the format it was expected to be and the
  raw text and format of the version on the right.\<close>

datatype verror =
    ErrUnsupportedVersion
  | ErrNoVersionProvided
  | UnsupportedComparisonError Format string Format
  | NonFatalConstraintError string
  | LibError string
  | Msg string
  | Wrap string verror
  | Joined "verror list"

type_synonym cmp_result = "int \<times> verror option"

fun errors_As :: "(verror \<Rightarrow> bool) \<Rightarrow> verror \<Rightarrow> bool" where
  "errors_As P (Wrap m e) = (P (Wrap m e) \<or> errors_As P e)"
| "errors_As P (Joined es) = (P (Joined es) \<or> list_ex (errors_As P) es)"
| "errors_As P e = P e"

fun is_unsupported_comparison :: "verror \<Rightarrow> bool" where
  "is_unsupported_comparison (UnsupportedComparisonError _ _ _) = True"
| "is_unsupported_comparison _ = False"

fun is_non_fatal_constraint :: "verror \<Rightarrow> bool" where
  "is_non_fatal_constraint (NonFatalConstraintError _) = True"
| "is_non_fatal_constraint _ = False"

fun Format_String :: "Format \<Rightarrow> string" where
  "Format_String UnknownFormat = ''Unknown''"
| "Format_String SemanticFormat = ''Semantic''"
| "Format_String ApkFormat = ''Apk''"
| "Format_String DebFormat = ''Deb''"
| "Format_String MavenFormat = ''Maven''"
| "Format_String RpmFormat = ''RPM''"
| "Format_String PythonFormat = ''Python''"
| "Format_String KBFormat = ''KB''"
| "Format_String GemFormat = ''Gem''"
| "Format_String PortageFormat = ''Portage''"
| "Format_String GolangFormat = ''Go''"
| "Format_String JVMFormat = ''JVM''"
| "Format_String BitnamiFormat = ''Bitnami''"
| "Format_String PacmanFormat = ''Pacman''"
| "Format_String (OtherFormat _) = ''Unknown''"

definition Formats :: "Format list" where
  "Formats = [SemanticFormat, ApkFormat, DebFormat, MavenFormat, RpmFormat, PythonFormat, KBFormat,
     GemFormat, PortageFormat, GolangFormat, JVMFormat, BitnamiFormat, PacmanFormat]"

definition invalidFormatError :: "Format \<Rightarrow> string \<Rightarrow> verror \<Rightarrow> verror" where
  "invalidFormatError format raw err =
     Wrap (''invalid '' @ Format_String format @ '' version from '' @ raw) err"

text \<open>
  \<^verbatim>\<open>ParseFormat\<close>: the ecosystem names of the packages \<^verbatim>\<open>packageurl\<close> and \<^verbatim>\<open>syft/pkg\<close> it refers
  to are constants of other modules; the record holds them.
\<close>

record ecosystem_names =
  purl_semver_types :: "string list"
  purl_TypeDebian :: string
  purl_TypeGolang :: string
  purl_TypePyPi :: string
  pkg_ApkPkg :: string
  pkg_BitnamiPkg :: string
  pkg_DebPkg :: string
  pkg_GoModulePkg :: string
  pkg_JavaPkg :: string
  pkg_JenkinsPluginPkg :: string
  pkg_RpmPkg :: string
  pkg_PythonPkg :: string
  pkg_KbPkg :: string
  pkg_GemPkg :: string
  pkg_PortagePkg :: string
  pkg_AlpmPkg :: string

definition ParseFormat :: "ecosystem_names \<Rightarrow> string \<Rightarrow> Format" where
  "ParseFormat E userStr =
     (let s = strings_ToLower userStr; low = (\<lambda>f. strings_ToLower (Format_String f)) in
      if s \<in> set ([low SemanticFormat, ''semver''] @ purl_semver_types E) then SemanticFormat
      else if s \<in> set [low ApkFormat, ''apk'', pkg_ApkPkg E] then ApkFormat
      else if s \<in> set [low BitnamiFormat, ''bitnami'', pkg_BitnamiPkg E] then BitnamiFormat
      else if s \<in> set [low DebFormat, ''dpkg'', purl_TypeDebian E, pkg_DebPkg E] then DebFormat
      else if s \<in> set [low GolangFormat, ''go'', purl_TypeGolang E, pkg_GoModulePkg E] then GolangFormat
      else if s \<in> set [low MavenFormat, ''maven'', pkg_JavaPkg E, pkg_JenkinsPluginPkg E] then MavenFormat
      else if s \<in> set [low RpmFormat, ''rpm'', pkg_RpmPkg E] then RpmFormat
      else if s \<in> set [low PythonFormat, ''python'', purl_TypePyPi E, ''pep440'', pkg_PythonPkg E] then PythonFormat
      else if s \<in> set [low KBFormat, ''kb'', pkg_KbPkg E] then KBFormat
      else if s \<in> set [low GemFormat, ''gem'', pkg_GemPkg E] then GemFormat
      else if s \<in> set [low PortageFormat, ''portage'', pkg_PortagePkg E] then PortageFormat
      else if s \<in> set [low JVMFormat, ''jvm'', ''jre'', ''jdk'', ''openjdk'', ''jep223''] then JVMFormat
      else if s \<in> set [low PacmanFormat, ''pacman'', pkg_AlpmPkg E] then PacmanFormat
      else UnknownFormat)"

section \<open>Operators and comparison configuration\<close>

text \<open>\<^verbatim>\<open>type Operator string\<close>: the five constants, and any other text.\<close>

datatype Operator = EQ | GT | LT | GTE | LTE | OtherOp string

definition parseOperator :: "string \<Rightarrow> verror + Operator" where
  "parseOperator op =
     (if op = ''='' \<or> op = [] then Inr EQ
      else if op = ''>'' then Inr GT
      else if op = ''>='' then Inr GTE
      else if op = ''<'' then Inr LT
      else if op = ''<='' then Inr LTE
      else Inl (Msg ''unknown operator''))"

datatype MissingEpochStrategy =
    StrategyUnset
  | MissingEpochStrategyZero
  | MissingEpochStrategyAuto
  | StrategyOther string

record ComparisonConfig =
  cfg_MissingEpochStrategy :: MissingEpochStrategy

definition default_config :: ComparisonConfig where
  "default_config = \<lparr>cfg_MissingEpochStrategy = StrategyUnset\<rparr>"

section \<open>Facts\<close>

lemma Format_String_inj_on_Formats: "inj_on Format_String (set Formats)"
  by (auto simp: Formats_def inj_on_def)

lemma errors_As_Wrap_invalid [simp]:
  "errors_As is_unsupported_comparison (invalidFormatError f r e) =
     errors_As is_unsupported_comparison e"
  by (simp add: invalidFormatError_def)

end
