(* ===== verification/Rpm_Version.thy ===== *)
theory Rpm_Version
  imports Version_Base
begin

text \<open>
  RPM and pacman versions: \<^verbatim>\<open>rpm_version.go\<close> and \<^verbatim>\<open>pacman_version.go\<close>.  A version is
  \<open>[epoch:]version[-release]\<close>; version and release are compared segment by segment.  The
  comparison methods take the other version as \<^verbatim>\<open>*Version\<close>; they read only its raw text, so the
  argument is a \<^typ>\<open>string option\<close> (\<^const>\<open>None\<close> is the nil pointer).
\<close>

section \<open>Segments\<close>

definition alphanumPattern :: re where
  "alphanumPattern =
     Alt (Grp 1 (Plus (Cls is_alpha))) (Alt (Grp 2 (Plus (Cls is_digit))) (Grp 3 (Chr (CHR ''~''))))"

definition rpm_segments :: "string \<Rightarrow> string list" where
  "rpm_segments s = regexp_FindAllString alphanumPattern s"

text \<open>The same segments by a direct scan; \<open>rpm_segments_eq\<close> below shows they agree.\<close>

function alphanum_scan :: "string \<Rightarrow> string list" where
  "alphanum_scan [] = []"
| "alphanum_scan (c # cs) =
     (if is_alpha c then (c # takeWhile is_alpha cs) # alphanum_scan (dropWhile is_alpha cs)
      else if is_digit c then (c # takeWhile is_digit cs) # alphanum_scan (dropWhile is_digit cs)
      else if c = CHR ''~'' then [c] # alphanum_scan cs
      else alphanum_scan cs)"
  by pat_completeness auto
termination
  by (relation "measure length") (auto simp: le_imp_less_Suc length_dropWhile_le)

section \<open>Comparing segments\<close>

definition trim0s :: "string \<Rightarrow> string" where
  "trim0s s = trim_left (\<lambda>c. c = CHR ''0'') s"

text \<open>One iteration of the loop over the common segments: \<open>0\<close> goes on to the next segment, any
  other value is returned.\<close>

definition compareSegment :: "string \<Rightarrow> string \<Rightarrow> int" where
  "compareSegment a b =
     (if (hd a = CHR ''~'' \<or> hd b = CHR ''~'') \<and> hd a \<noteq> CHR ''~'' then 1
      else if (hd a = CHR ''~'' \<or> hd b = CHR ''~'') \<and> hd b \<noteq> CHR ''~'' then -1
      else if is_digit (hd a) then
        (if \<not> is_digit (hd b) then 1
         else let a' = trim0s a; b' = trim0s b in
              if length a' > length b' then 1
              else if length b' > length a' then -1
              else strings_Compare a' b')
      else if is_digit (hd b) then -1
      else strings_Compare a b)"

fun compareCommon :: "string list \<Rightarrow> string list \<Rightarrow> int" where
  "compareCommon (a # as) (b # bs) =
     (if compareSegment a b \<noteq> 0 then compareSegment a b else compareCommon as bs)"
| "compareCommon _ _ = 0"

definition compareRest :: "string list \<Rightarrow> string list \<Rightarrow> int" where
  "compareRest segsa segsb =
     (let minSegs = min (length segsa) (length segsb) in
      if length segsa = length segsb then 0
      else if length segsa > minSegs \<and> hd (segsa ! minSegs) = CHR ''~'' then -1
      else if length segsb > minSegs \<and> hd (segsb ! minSegs) = CHR ''~'' then 1
      else if list_all (\<lambda>s. s = ''0'') (drop minSegs segsa)
            \<and> list_all (\<lambda>s. s = ''0'') (drop minSegs segsb) then 0
      else if length segsa > length segsb then 1
      else -1)"

definition compareRpmVersions :: "string \<Rightarrow> string \<Rightarrow> int" where
  "compareRpmVersions a b =
     (if a = b then 0
      else let segsa = rpm_segments a; segsb = rpm_segments b; c = compareCommon segsa segsb in
           if c \<noteq> 0 then c else compareRest segsa segsb)"

text \<open>\<^verbatim>\<open>comparePacmanVersions\<close> is a separate copy of the same statements.\<close>

definition comparePacmanVersions :: "string \<Rightarrow> string \<Rightarrow> int" where
  "comparePacmanVersions a b =
     (if a = b then 0
      else let segsa = regexp_FindAllString alphanumPattern a;
               segsb = regexp_FindAllString alphanumPattern b;
               c = compareCommon segsa segsb in
           if c \<noteq> 0 then c else compareRest segsa segsb)"

section \<open>Versions with epoch and release\<close>

record rpmVersion =
  rpm_epoch :: "int option"
  rpm_version :: string
  rpm_release :: string

definition splitEpochFromVersion :: "string \<Rightarrow> verror + (int option \<times> string)" where
  "splitEpochFromVersion rawVersion =
     (case strings_SplitN2 rawVersion '':'' of
        [e, rest] \<Rightarrow>
          (case strconv_Atoi (trim_left (\<lambda>c. c = CHR '' '') e) of
             None \<Rightarrow> Inl (Wrap ''unable to parse epoch'' (LibError ''strconv.Atoi''))
           | Some epoch \<Rightarrow> Inr (Some epoch, rest))
      | _ \<Rightarrow> Inr (None, rawVersion))"

definition split_release :: "string \<Rightarrow> string \<times> string" where
  "split_release s =
     (case strings_SplitN2 s ''-'' of [v, r] \<Rightarrow> (v, r) | _ \<Rightarrow> (s, []))"

definition newRpmVersion :: "string \<Rightarrow> verror + rpmVersion" where
  "newRpmVersion raw =
     (case splitEpochFromVersion raw of
        Inl err \<Rightarrow> Inl err
      | Inr (epoch, remaining) \<Rightarrow>
          (case split_release remaining of
             (v, r) \<Rightarrow> Inr \<lparr>rpm_epoch = epoch, rpm_version = v, rpm_release = r\<rparr>))"

definition compareEpochs :: "int \<Rightarrow> int \<Rightarrow> int" where
  "compareEpochs e1 e2 = (if e1 > e2 then 1 else if e1 < e2 then -1 else 0)"

definition rpmVersion_compare :: "rpmVersion \<Rightarrow> rpmVersion \<Rightarrow> int" where
  "rpmVersion_compare v v2 =
     (if v = v2 then 0
      else
        let epochResult = (case (rpm_epoch v, rpm_epoch v2) of
                             (Some e1, Some e2) \<Rightarrow> compareEpochs e1 e2
                           | _ \<Rightarrow> 0);
            ret = compareRpmVersions (rpm_version v) (rpm_version v2) in
        if epochResult \<noteq> 0 then epochResult
        else if ret \<noteq> 0 then ret
        else compareRpmVersions (rpm_release v) (rpm_release v2))"

definition rpmVersion_compareWithConfig ::
  "rpmVersion \<Rightarrow> rpmVersion \<Rightarrow> ComparisonConfig \<Rightarrow> int" where
  "rpmVersion_compareWithConfig v v2 cfg =
     (if v = v2 then 0
      else case cfg_MissingEpochStrategy cfg of
        MissingEpochStrategyAuto \<Rightarrow>
          (if rpm_epoch v = None \<and> rpm_epoch v2 \<noteq> None
           then rpmVersion_compare (v\<lparr>rpm_epoch := rpm_epoch v2\<rparr>) v2
           else rpmVersion_compare v v2)
      | MissingEpochStrategyZero \<Rightarrow>
          (if rpm_epoch v = None \<and> rpm_epoch v2 \<noteq> None
           then rpmVersion_compare (v\<lparr>rpm_epoch := Some 0\<rparr>) v2
           else rpmVersion_compare v v2)
      | _ \<Rightarrow> rpmVersion_compare v v2)"

definition rpmVersion_Compare :: "rpmVersion \<Rightarrow> string option \<Rightarrow> cmp_result" where
  "rpmVersion_Compare v other =
     (case other of
        None \<Rightarrow> (-1, Some ErrNoVersionProvided)
      | Some raw \<Rightarrow>
          (case newRpmVersion raw of
             Inl err \<Rightarrow> (0, Some err)
           | Inr w \<Rightarrow> (rpmVersion_compare v w, None)))"

definition rpmVersion_CompareWithConfig ::
  "rpmVersion \<Rightarrow> string option \<Rightarrow> ComparisonConfig \<Rightarrow> cmp_result" where
  "rpmVersion_CompareWithConfig v other cfg =
     (case other of
        None \<Rightarrow> (-1, Some ErrNoVersionProvided)
      | Some raw \<Rightarrow>
          (case newRpmVersion raw of
             Inl err \<Rightarrow> (0, Some err)
           | Inr w \<Rightarrow> (rpmVersion_compareWithConfig v w cfg, None)))"

definition rpmVersion_String :: "rpmVersion \<Rightarrow> string" where
  "rpmVersion_String v =
     (case rpm_epoch v of None \<Rightarrow> [] | Some e \<Rightarrow> strconv_Itoa e @ '':'') @ rpm_version v
     @ (if rpm_release v \<noteq> [] then ''-'' @ rpm_release v else [])"

record pacmanVersion =
  pacman_epoch :: "int option"
  pacman_version :: string
  pacman_release :: string

definition newPacmanVersion :: "string \<Rightarrow> verror + pacmanVersion" where
  "newPacmanVersion raw =
     (case splitEpochFromVersion raw of
        Inl err \<Rightarrow> Inl err
      | Inr (epoch, remaining) \<Rightarrow>
          (case split_release remaining of
             (v, r) \<Rightarrow> Inr \<lparr>pacman_epoch = epoch, pacman_version = v, pacman_release = r\<rparr>))"

definition pacmanVersion_compare :: "pacmanVersion \<Rightarrow> pacmanVersion \<Rightarrow> int" where
  "pacmanVersion_compare v v2 =
     (if v = v2 then 0
      else
        let epochResult = (case (pacman_epoch v, pacman_epoch v2) of
                             (Some e1, Some e2) \<Rightarrow> compareEpochs e1 e2
                           | _ \<Rightarrow> 0);
            ret = comparePacmanVersions (pacman_version v) (pacman_version v2) in
        if epochResult \<noteq> 0 then epochResult
        else if ret \<noteq> 0 then ret
        else comparePacmanVersions (pacman_release v) (pacman_release v2))"

definition pacmanVersion_Compare :: "pacmanVersion \<Rightarrow> string option \<Rightarrow> cmp_result" where
  "pacmanVersion_Compare v other =
     (case other of
        None \<Rightarrow> (-1, Some ErrNoVersionProvided)
      | Some raw \<Rightarrow>
          (case newPacmanVersion raw of
             Inl err \<Rightarrow> (0, Some err)
           | Inr w \<Rightarrow> (pacmanVersion_compare v w, None)))"

definition pacmanVersion_String :: "pacmanVersion \<Rightarrow> string" where
  "pacmanVersion_String v =
     (case pacman_epoch v of None \<Rightarrow> [] | Some e \<Rightarrow> strconv_Itoa e @ '':'') @ pacman_version v
     @ (if pacman_release v \<noteq> [] then ''-'' @ pacman_release v else [])"

section \<open>The segments found by the pattern\<close>

lemma take_to_dropWhile: "take (length cs - length (dropWhile P cs)) cs = takeWhile P cs"
proof -
  have "length cs - length (dropWhile P cs) = length (takeWhile P cs)"
    by (metis add_diff_cancel_right' length_append takeWhile_dropWhile_id)
  then show ?thesis by (metis takeWhile_eq_take)
qed

lemma take_to_dropWhile_Cons:
  "take (Suc (length cs) - length (dropWhile P cs)) (c # cs) = c # takeWhile P cs"
  using length_dropWhile_le [of P cs] by (simp add: Suc_diff_le take_to_dropWhile)

lemma tilde_no_class [simp]: "\<not> is_alpha (CHR ''~'')" "\<not> is_digit (CHR ''~'')"
  by (simp_all add: is_alpha_def is_lower_def is_upper_def is_digit_def byte_val_def)

lemma alphanum_find_alpha:
  assumes "is_alpha c"
  shows "\<exists>cs'. re_find alphanumPattern b (c # s) =
    Some \<lparr>m_before = [], m_text = c # takeWhile is_alpha s, m_caps = cs', m_after = dropWhile is_alpha s\<rparr>"
proof -
  from re_all_Plus_Cls [of is_alpha c b "[]" s] assms obtain ms where
    "re_all (Plus (Cls is_alpha)) (b, [], c # s) = (False, [], dropWhile is_alpha s) # ms" by blast
  then show ?thesis
    by (subst re_find.simps) (simp add: alphanumPattern_def take_to_dropWhile_Cons)
qed

lemma alphanum_find_digit:
  assumes "is_digit c"
  shows "\<exists>cs'. re_find alphanumPattern b (c # s) =
    Some \<lparr>m_before = [], m_text = c # takeWhile is_digit s, m_caps = cs', m_after = dropWhile is_digit s\<rparr>"
proof -
  from re_all_Plus_Cls [of is_digit c b "[]" s] assms obtain ms where
    "re_all (Plus (Cls is_digit)) (b, [], c # s) = (False, [], dropWhile is_digit s) # ms" by blast
  with digit_not_alpha [OF assms] show ?thesis
    by (subst re_find.simps)
      (simp add: alphanumPattern_def re_all_Plus_Cls_None take_to_dropWhile_Cons)
qed

lemma alphanum_find_tilde:
  "\<exists>cs'. re_find alphanumPattern b (CHR ''~'' # s) =
    Some \<lparr>m_before = [], m_text = ''~'', m_caps = cs', m_after = s\<rparr>"
  by (subst re_find.simps) (simp add: alphanumPattern_def re_all_Chr re_all_Plus_Cls_None)

lemma alphanum_find_skip:
  assumes "\<not> is_alpha c" "\<not> is_digit c" "c \<noteq> CHR ''~''"
  shows "re_find alphanumPattern b (c # s) =
    map_option (\<lambda>m. m\<lparr>m_before := c # m_before m\<rparr>) (re_find alphanumPattern False s)"
  by (rule re_find_miss) (use assms in \<open>simp add: alphanumPattern_def re_all_Chr re_all_Plus_Cls_None\<close>)

lemma alphanum_find_Nil: "re_find alphanumPattern b [] = None"
  by (rule re_find_Nil) (simp add: alphanumPattern_def re_all_Chr re_all_Plus_Cls_Nil)

lemma find_all_alphanum:
  "length s < n \<Longrightarrow> re_find_all n alphanumPattern b s = alphanum_scan s"
proof (induction s arbitrary: n b rule: alphanum_scan.induct)
  case 1
  then show ?case by (cases n) (auto simp: alphanum_find_Nil)
next
  case (2 c cs)
  then obtain k where n: "n = Suc k" "length cs < k" by (cases n) auto
  have shorter: "length (dropWhile is_alpha cs) < k" "length (dropWhile is_digit cs) < k"
    using n(2) length_dropWhile_le [of is_alpha cs] length_dropWhile_le [of is_digit cs] by auto
  consider "is_alpha c" | "is_digit c" "\<not> is_alpha c" | "c = CHR ''~''" "\<not> is_alpha c" "\<not> is_digit c"
    | "\<not> is_alpha c" "\<not> is_digit c" "c \<noteq> CHR ''~''" by blast
  then show ?case
  proof cases
    case 1
    with alphanum_find_alpha [of c b cs] "2.IH"(1) shorter n show ?thesis by auto
  next
    case 2
    with alphanum_find_digit [of c b cs] "2.IH"(2) shorter n show ?thesis by auto
  next
    case 3
    with alphanum_find_tilde [of b cs] "2.IH"(3) n show ?thesis by auto
  next
    case 4
    have "re_find_all n alphanumPattern b (c # cs) = re_find_all n alphanumPattern False cs"
      unfolding n(1) by (simp add: alphanum_find_skip [OF 4] option.case_eq_if option.map_sel)
    with "2.IH"(4) [of n False] 4 n show ?thesis by simp
  qed
qed

lemma rpm_segments_eq: "rpm_segments s = alphanum_scan s"
  unfolding rpm_segments_def regexp_FindAllString_def by (rule find_all_alphanum) simp

lemma alphanum_scan_nonempty: "a \<in> set (alphanum_scan s) \<Longrightarrow> a \<noteq> []"
  by (induction s rule: alphanum_scan.induct) (auto split: if_splits)

section \<open>The comparison contract\<close>

interpretation seg: three_way compareSegment
proof
  fix x y
  show "compareSegment x y \<in> {-1, 0, 1}"
    using str.range by (simp add: compareSegment_def Let_def)
  show "compareSegment x x = 0" by (simp add: compareSegment_def Let_def)
  show "compareSegment y x = - compareSegment x y"
    using str.flip [of x y] str.flip [of "trim0s x" "trim0s y"]
    by (simp add: compareSegment_def Let_def)
qed

lemma compareCommon_range: "compareCommon as bs \<in> {-1, 0, 1}"
  by (induction as bs rule: compareCommon.induct) (use seg.range in auto)

lemma compareCommon_refl [simp]: "compareCommon as as = 0"
  by (induction as) (auto simp: seg.refl)

lemma compareCommon_flip: "compareCommon bs as = - compareCommon as bs"
proof (induction as bs rule: list_induct2')
  case (4 a as b bs)
  then show ?case using seg.flip [of a b] by auto
qed auto

lemma compareRest_range: "compareRest as bs \<in> {-1, 0, 1}"
  by (simp add: compareRest_def Let_def)

lemma compareRest_refl [simp]: "compareRest as as = 0"
  by (simp add: compareRest_def)

lemma compareRest_flip: "compareRest bs as = - compareRest as bs"
  by (cases "length as" "length bs" rule: linorder_cases) (auto simp: compareRest_def Let_def)

definition compareSegments_rpm :: "string list \<Rightarrow> string list \<Rightarrow> int" where
  "compareSegments_rpm as bs = (if compareCommon as bs \<noteq> 0 then compareCommon as bs else compareRest as bs)"

interpretation segs: three_way compareSegments_rpm
proof
  fix x y
  show "compareSegments_rpm x y \<in> {-1, 0, 1}"
    using compareCommon_range [of x y] compareRest_range [of x y] by (auto simp: compareSegments_rpm_def)
  show "compareSegments_rpm x x = 0" by (simp add: compareSegments_rpm_def)
  show "compareSegments_rpm y x = - compareSegments_rpm x y"
    using compareCommon_flip [of x y] compareRest_flip [of x y] by (simp add: compareSegments_rpm_def)
qed

lemma compareRpmVersions_segments:
  "compareRpmVersions a b = compareSegments_rpm (rpm_segments a) (rpm_segments b)"
  by (auto simp: compareRpmVersions_def compareSegments_rpm_def Let_def)

lemma comparePacman_eq_Rpm: "comparePacmanVersions a b = compareRpmVersions a b"
  by (simp add: comparePacmanVersions_def compareRpmVersions_def rpm_segments_def)

interpretation rpmstr: three_way compareRpmVersions
  unfolding compareRpmVersions_segments by (rule segs.pull_back)

lemma compareEpochs_eq: "compareEpochs e1 e2 = cmp_of e1 e2"
  by (auto simp: compareEpochs_def cmp_of_def)

definition epoch_cmp :: "int option \<Rightarrow> int option \<Rightarrow> int" where
  "epoch_cmp x y = (case (x, y) of (Some e1, Some e2) \<Rightarrow> compareEpochs e1 e2 | _ \<Rightarrow> 0)"

interpretation epoch: three_way epoch_cmp
  by unfold_locales (auto simp: epoch_cmp_def compareEpochs_def split: option.splits)

text \<open>The nested early returns of both \<^verbatim>\<open>compare\<close> methods are a lexicographic comparison.\<close>

lemma rpmVersion_compare_lex:
  "rpmVersion_compare v w =
     (if epoch_cmp (rpm_epoch v) (rpm_epoch w) \<noteq> 0 then epoch_cmp (rpm_epoch v) (rpm_epoch w)
      else if compareRpmVersions (rpm_version v) (rpm_version w) \<noteq> 0
      then compareRpmVersions (rpm_version v) (rpm_version w)
      else compareRpmVersions (rpm_release v) (rpm_release w))"
  unfolding rpmVersion_compare_def epoch_cmp_def [symmetric] Let_def
  by (simp add: rpmstr.refl epoch.refl)

interpretation rpm: three_way rpmVersion_compare
proof
  fix x y
  show "rpmVersion_compare x y \<in> {-1, 0, 1}"
    using epoch.range rpmstr.range by (auto simp: rpmVersion_compare_lex)
  show "rpmVersion_compare x x = 0" by (simp add: rpmVersion_compare_def)
  show "rpmVersion_compare y x = - rpmVersion_compare x y"
    using epoch.flip [of "rpm_epoch x" "rpm_epoch y"] rpmstr.flip [of "rpm_version x" "rpm_version y"]
      rpmstr.flip [of "rpm_release x" "rpm_release y"]
    by (simp add: rpmVersion_compare_lex)
qed

text \<open>A pacman version is an RPM version as far as comparing goes.\<close>

definition pacman_as_rpm :: "pacmanVersion \<Rightarrow> rpmVersion" where
  "pacman_as_rpm v =
     \<lparr>rpm_epoch = pacman_epoch v, rpm_version = pacman_version v, rpm_release = pacman_release v\<rparr>"

lemma pacmanVersion_compare_rpm:
  "pacmanVersion_compare v w = rpmVersion_compare (pacman_as_rpm v) (pacman_as_rpm w)"
  unfolding pacmanVersion_compare_def rpmVersion_compare_lex epoch_cmp_def [symmetric] Let_def
  by (simp add: pacman_as_rpm_def comparePacman_eq_Rpm rpmstr.refl epoch.refl)

interpretation pacman: three_way pacmanVersion_compare
  unfolding pacmanVersion_compare_rpm by (rule rpm.pull_back)

section \<open>Dotted numbers\<close>

lemma takeWhile_digits: "list_all is_digit ds \<Longrightarrow> takeWhile is_digit ds = ds"
  by (simp add: list_all_iff takeWhile_eq_all_conv)

lemma scan_digits_end: "ds \<noteq> [] \<Longrightarrow> list_all is_digit ds \<Longrightarrow> alphanum_scan ds = [ds]"
  by (cases ds) (auto simp: takeWhile_digits dropWhile_eq_Nil_conv [THEN iffD2] list_all_iff
      dest: digit_not_alpha)

lemma scan_digits_dot:
  "ds \<noteq> [] \<Longrightarrow> list_all is_digit ds \<Longrightarrow> alphanum_scan (ds @ CHR ''.'' # s) = ds # alphanum_scan s"
  by (cases ds) (auto simp: takeWhile_append2 dropWhile_append2 list_all_iff dest: digit_not_alpha)

lemma scan_dotted: "alphanum_scan (dotted xs) = map show_nat xs"
  unfolding dotted_def
proof (induction xs rule: induct_list012)
  case (2 x)
  then show ?case by (simp add: scan_digits_end show_nat_digits)
next
  case (3 x y zs)
  then show ?case by (simp add: scan_digits_dot show_nat_digits)
qed simp

lemma trim0s_show_nat: "trim0s (show_nat n) = (if n = 0 then [] else show_nat n)"
proof (cases "n = 0")
  case True
  then show ?thesis by (simp add: show_nat.simps trim0s_def trim_left_def digit_char_0)
next
  case False
  then have "hd (show_nat n) \<noteq> CHR ''0''"
    using hd_show_nat [of n] by (metis digit_char_0 digit_val_digit_char zero_less_numeral)
  with False show ?thesis
    by (cases "show_nat n") (auto simp: trim0s_def trim_left_def)
qed

lemma compareSegment_show_nat: "compareSegment (show_nat m) (show_nat n) = cmp_of m n"
proof -
  have digit: "is_digit (hd (show_nat k))" "hd (show_nat k) \<noteq> CHR ''~''" for k
    using show_nat_hd_digit [of k] by auto
  have longer: "m < n" if "length (trim0s (show_nat m)) < length (trim0s (show_nat n))" for m n
    using that digits_val_length [of "show_nat m" "show_nat n"] hd_show_nat [of n]
    by (auto simp: trim0s_show_nat show_nat_digits split: if_splits)
  show ?thesis
  proof (cases "length (trim0s (show_nat m))" "length (trim0s (show_nat n))" rule: linorder_cases)
    case equal
    then show ?thesis
      using digit strings_Compare_digits [of "show_nat m" "show_nat n"]
      by (auto simp: compareSegment_def trim0s_show_nat show_nat_digits cmp_of_def split: if_splits)
  next
    case less
    with longer [of m n] digit show ?thesis by (simp add: compareSegment_def Let_def cmp_of_def)
  next
    case greater
    with longer [of n m] digit show ?thesis by (simp add: compareSegment_def Let_def cmp_of_def)
  qed
qed

lemma compareRest_Cons [simp]: "compareRest (a # as) (b # bs) = compareRest as bs"
  by (simp add: compareRest_def Let_def)

lemma show_nat_eq_0 [simp]: "show_nat n = ''0'' \<longleftrightarrow> n = 0"
  using show_nat_inj [of n 0] by (simp add: show_nat.simps [of 0] digit_char_0)

lemma padcmp_zeros: "padcmp cmp_of (0::nat) xs [] = (if list_all (\<lambda>x. x = 0) xs then 0 else 1)"
  by (induction xs) (auto simp: cmp_of_def)

lemma compareSegments_numbers:
  "compareSegments_rpm (map show_nat xs) (map show_nat ys) = padcmp cmp_of 0 xs ys"
proof (induction xs ys rule: list_induct2')
  case (2 x xs)
  have "hd (show_nat x) \<noteq> CHR ''~''" using show_nat_hd_digit [of x] by auto
  with padcmp_zeros [of "x # xs"] show ?case
    by (auto simp: compareSegments_rpm_def compareRest_def list_all_iff simp del: padcmp.simps)
next
  case (3 y ys)
  have "hd (show_nat y) \<noteq> CHR ''~''" using show_nat_hd_digit [of y] by auto
  with padcmp_zeros [of "y # ys"] lin.padcmp_flip [of 0 "[]" "y # ys"] show ?case
    by (auto simp: compareSegments_rpm_def compareRest_def list_all_iff simp del: padcmp.simps)
next
  case (4 x xs y ys)
  then show ?case by (auto simp: compareSegments_rpm_def compareSegment_show_nat split: if_splits)
qed (simp add: compareSegments_rpm_def)

section \<open>Properties\<close>

text \<open>C26: \<^verbatim>\<open>compareRpmVersions\<close> compares dotted decimal versions number by number, a missing
  component counting as 0: it is the comparison of the two lists of naturals padded with zeros.\<close>

theorem compareRpmVersions_dotted:
  "compareRpmVersions (dotted xs) (dotted ys) = padcmp cmp_of 0 xs ys"
  by (simp add: compareRpmVersions_segments rpm_segments_eq scan_dotted compareSegments_numbers)

text \<open>On versions \<open>[epoch:]version[-release]\<close> parsed from any text, the RPM comparison takes the
  values -1, 0 and 1 only, is 0 on equal versions and changes sign when its arguments are exchanged.\<close>

theorem rpmVersion_compare_contract:
  "rpmVersion_compare v w \<in> {-1, 0, 1} \<and> rpmVersion_compare v v = 0
   \<and> rpmVersion_compare w v = - rpmVersion_compare v w"
  using rpm.range rpm.refl rpm.flip by blast

text \<open>Pacman versions compare exactly as RPM versions with the same epoch, version and release
  do, although the code keeps two copies of the algorithm.\<close>

theorem pacman_compare_refines_rpm:
  "pacmanVersion_Compare v (Some raw) =
     (case newRpmVersion raw of
        Inl err \<Rightarrow> (0, Some err)
      | Inr w \<Rightarrow> (rpmVersion_compare (pacman_as_rpm v) w, None))"
  by (auto simp: pacmanVersion_Compare_def newPacmanVersion_def newRpmVersion_def
      pacmanVersion_compare_rpm pacman_as_rpm_def split: sum.splits prod.splits)

text \<open>A missing epoch on the package side, against a constraint with epoch \<open>e\<close>.  With no strategy
  and with the "auto" strategy the epoch is ignored, so the result is that of the versions and
  releases; with the "zero" strategy the epochs 0 and \<open>e\<close> are compared first.\<close>

theorem missing_epoch_strategies:
  assumes "rpm_epoch v = None" and "rpm_epoch w = Some e"
  defines "bare \<equiv> rpmVersion_compare v (w\<lparr>rpm_epoch := None\<rparr>)"
  shows "rpmVersion_compareWithConfig v w \<lparr>cfg_MissingEpochStrategy = StrategyUnset\<rparr> = bare
    \<and> rpmVersion_compareWithConfig v w \<lparr>cfg_MissingEpochStrategy = MissingEpochStrategyAuto\<rparr> = bare
    \<and> rpmVersion_compareWithConfig v w \<lparr>cfg_MissingEpochStrategy = MissingEpochStrategyZero\<rparr>
        = (if e > 0 then -1 else if e < 0 then 1 else bare)"
  using assms(1,2)
  by (auto simp: rpmVersion_compareWithConfig_def rpmVersion_compare_lex epoch_cmp_def
      compareEpochs_def bare_def)

theorem missing_epoch_strategies_witness:
  "rpmVersion_compareWithConfig \<lparr>rpm_epoch = None, rpm_version = ''2'', rpm_release = []\<rparr>
     \<lparr>rpm_epoch = Some 1, rpm_version = ''1'', rpm_release = []\<rparr>
     \<lparr>cfg_MissingEpochStrategy = MissingEpochStrategyZero\<rparr> = -1"
  using missing_epoch_strategies
    [of "\<lparr>rpm_epoch = None, rpm_version = ''2'', rpm_release = []\<rparr>"
        "\<lparr>rpm_epoch = Some 1, rpm_version = ''1'', rpm_release = []\<rparr>" 1]
  by simp

lemma split_release_String:
  "CHR ''-'' \<notin> set ver \<Longrightarrow>
   split_release (ver @ (if rel \<noteq> [] then ''-'' @ rel else [])) = (ver, rel)"
  by (auto simp: split_release_def strings_SplitN2_def Cut_append_notin Cut_char_None [THEN iffD2])

lemma Itoa_no_colon: "CHR '':'' \<notin> set (strconv_Itoa e)"
proof -
  have "\<not> is_digit (CHR '':'')" by (simp add: is_digit_def byte_val_def)
  then show ?thesis by (auto simp: strconv_Itoa_def dest: show_nat_no_sep)
qed

lemma Itoa_no_space: "trim_left (\<lambda>c. c = CHR '' '') (strconv_Itoa e) = strconv_Itoa e"
proof -
  have "\<not> is_digit (CHR '' '')" by (simp add: is_digit_def byte_val_def)
  with show_nat_hd_digit have "hd (show_nat (nat e)) \<noteq> CHR '' ''" by metis
  then show ?thesis
    by (cases "show_nat (nat e)") (auto simp: strconv_Itoa_def trim_left_def)
qed

text \<open>Printing a version with \<^verbatim>\<open>String\<close> and parsing the text gives the version back, when its
  epoch fits a Go int, its version part has no dash, and no colon occurs if it has no epoch.\<close>

theorem rpm_parse_print:
  assumes "CHR ''-'' \<notin> set (rpm_version v)"
    and "case rpm_epoch v of
           None \<Rightarrow> CHR '':'' \<notin> set (rpm_version v) \<union> set (rpm_release v)
         | Some e \<Rightarrow> fits_int64 e"
  shows "newRpmVersion (rpmVersion_String v) = Inr v"
proof -
  let ?body = "rpm_version v @ (if rpm_release v \<noteq> [] then ''-'' @ rpm_release v else [])"
  have "splitEpochFromVersion (rpmVersion_String v) = Inr (rpm_epoch v, ?body)"
  proof (cases "rpm_epoch v")
    case None
    with assms(2) have "CHR '':'' \<notin> set ?body" by auto
    with None show ?thesis
      by (simp add: splitEpochFromVersion_def rpmVersion_String_def strings_SplitN2_def
          Cut_char_None [THEN iffD2] del: append_assoc)
  next
    case (Some e)
    with assms(2) show ?thesis
      by (simp add: splitEpochFromVersion_def rpmVersion_String_def strings_SplitN2_def
          Cut_append_notin Itoa_no_colon Itoa_no_space Atoi_Itoa)
  qed
  with split_release_String [OF assms(1)] show ?thesis
    by (simp add: newRpmVersion_def)
qed

theorem rpm_parse_print_witness:
  "newRpmVersion (rpmVersion_String
     \<lparr>rpm_epoch = Some 2, rpm_version = ''1.2'', rpm_release = ''3.el8''\<rparr>)
   = Inr \<lparr>rpm_epoch = Some 2, rpm_version = ''1.2'', rpm_release = ''3.el8''\<rparr>"
  by (rule rpm_parse_print) (simp_all add: fits_int64_def)

end
