(* ===== verification/Gem_Version.thy ===== *)
theory Gem_Version
  imports Version_Base
begin

text \<open>
  RubyGems versions: \<^verbatim>\<open>gem_version.go\<close>.  A version is a list of segments, each a number or a run of
  letters (\<^verbatim>\<open>[]any\<close> holding \<^verbatim>\<open>int\<close> or \<^verbatim>\<open>string\<close>); trailing zeros, and for prereleases the zeros before
  the first letter, are dropped before the comparison.  The main result is that the comparison is
  the lexicographic one in which the shorter list is continued with zeros, hence a total preorder.
\<close>

section \<open>Definitions\<close>

text \<open>A segment: the dynamic types that occur in \<^verbatim>\<open>[]any\<close>.\<close>

datatype gem_seg = GInt int | GStr string

record gemVersion =
  gem_original :: string
  gem_segments :: "gem_seg list"
  gem_canonical :: "gem_seg list"
  gem_isPrerelease :: bool

definition segmentRegexp :: re where
  "segmentRegexp = Grp 1 (Alt (Plus (Cls is_digit)) (Plus (Cls is_alpha)))"

definition correctnessRegexp :: re where
  "correctnessRegexp =
     Seq Bol (Seq (Plus (Cls (\<lambda>c. is_digit c \<or> is_alpha c \<or> c = CHR ''.'' \<or> c = CHR ''-''))) Eol)"

fun clean_loop :: "string list \<Rightarrow> string \<Rightarrow> string" where
  "clean_loop [] raw = raw"
| "clean_loop (p # ps) raw =
     (case strings_SplitN2 raw (CHR ''-'' # p) of [b, _] \<Rightarrow> b | _ \<Rightarrow> clean_loop ps raw)"

definition cleanArchFromVersion :: "string \<Rightarrow> string" where
  "cleanArchFromVersion raw =
     clean_loop [''x86'', ''universal'', ''arm'', ''aarch64'', ''java'', ''dalvik'', ''x64'',
       ''powerpc'', ''sparc'', ''mswin''] raw"

definition to_seg :: "string \<Rightarrow> gem_seg" where
  "to_seg s = (case strconv_Atoi s of Some n \<Rightarrow> GInt n | None \<Rightarrow> GStr s)"

definition partitionSegments :: "string \<Rightarrow> verror + gem_seg list" where
  "partitionSegments vs =
     (if vs = [] then Inl (Msg ''cannot partition empty version string'')
      else if strings_Contains vs ''..'' then Inl (Msg ''invalid version string (double dot)'')
      else if ((strings_HasPrefix vs ''.'' \<and> vs \<noteq> ''.'') \<or> (strings_HasSuffix vs ''.'' \<and> vs \<noteq> ''.''))
              \<and> length vs > 1
        then Inl (Msg ''invalid version string (leading/trailing dot)'')
      else let parts = regexp_FindAllString segmentRegexp vs in
        if parts = [] then
          (if vs = ''0'' then Inr [GInt 0] else Inl (Msg ''no valid segments found''))
        else Inr (map to_seg parts))"

text \<open>The loops that look for the last segment that is not a numeric zero among the first \<open>i\<close>, and
  for the first segment that is a string.\<close>

fun lastSignificantIdx :: "gem_seg list \<Rightarrow> nat \<Rightarrow> nat option" where
  "lastSignificantIdx segs 0 = None"
| "lastSignificantIdx segs (Suc i) =
     (if segs ! i \<noteq> GInt 0 then Some i else lastSignificantIdx segs i)"

fun firstLetterIdx :: "gem_seg list \<Rightarrow> nat option" where
  "firstLetterIdx [] = None"
| "firstLetterIdx (GStr _ # _) = Some 0"
| "firstLetterIdx (GInt _ # segs) = map_option Suc (firstLetterIdx segs)"

definition trimTrailingZeros :: "gem_seg list \<Rightarrow> gem_seg list" where
  "trimTrailingZeros segs =
     (if length segs \<le> 1 then
        (if length segs = 1 \<and> segs ! 0 = GInt 0 then [GInt 0] else segs)
      else case lastSignificantIdx segs (length segs) of
             None \<Rightarrow> [GInt 0]
           | Some i \<Rightarrow> take (i + 1) segs)"

definition trimIntermediateZeros :: "gem_seg list \<Rightarrow> bool \<Rightarrow> gem_seg list" where
  "trimIntermediateZeros segs isPrerelease =
     (if \<not> isPrerelease \<or> segs = [] then segs
      else case firstLetterIdx segs of
             None \<Rightarrow> segs
           | Some k \<Rightarrow>
               let segsBefore = (if k > 0 then take k segs else []);
                   trimmedPrefix =
                     (case lastSignificantIdx segsBefore (length segsBefore) of
                        None \<Rightarrow> []
                      | Some i \<Rightarrow> take (i + 1) segsBefore)
               in trimmedPrefix @ drop k segs)"

definition newGemVersion :: "string \<Rightarrow> verror + gemVersion" where
  "newGemVersion raw =
     (let cleaned = cleanArchFromVersion raw;
          processed = (if cleaned = [] \<or> strings_TrimSpace cleaned = [] then ''0''
                       else strings_TrimSpace cleaned) in
      if \<not> regexp_MatchString correctnessRegexp processed
      then Inl (Msg ''malformed version number string'')
      else
        let processed = replace_char (CHR ''-'') ''.pre.'' processed;
            isPrerelease = list_ex is_alpha processed in
        case partitionSegments processed of
          Inl err \<Rightarrow> Inl (Wrap ''malformed version number string'' err)
        | Inr segs \<Rightarrow>
            if segs = [] \<and> processed \<noteq> ''0''
            then Inl (Msg ''malformed version number string (no valid segments after processing)'')
            else
              let segments = (if segs = [] then [GInt 0] else segs);
                  canonical = trimIntermediateZeros (trimTrailingZeros segments) isPrerelease in
              Inr \<lparr>gem_original = raw, gem_segments = segments,
                   gem_canonical = (if canonical = [] then [GInt 0] else canonical),
                   gem_isPrerelease = isPrerelease\<rparr>)"

text \<open>\<^verbatim>\<open>compareSegments\<close> returns the result and whether the common segments are all equal.  Its error
  branch, for a segment that is neither \<^verbatim>\<open>int\<close> nor \<^verbatim>\<open>string\<close>, has no counterpart in \<^typ>\<open>gem_seg\<close>.\<close>

fun compareSegments :: "gem_seg list \<Rightarrow> gem_seg list \<Rightarrow> int \<times> bool" where
  "compareSegments (GInt l # ls) (GInt r # rs) =
     (if l \<noteq> r then (if l < r then (-1, False) else (1, False)) else compareSegments ls rs)"
| "compareSegments (GStr l # ls) (GStr r # rs) =
     (let c = strings_Compare l r in if c \<noteq> 0 then (c, False) else compareSegments ls rs)"
| "compareSegments (GInt l # ls) (GStr r # rs) = (1, False)"
| "compareSegments (GStr l # ls) (GInt r # rs) = (-1, False)"
| "compareSegments _ _ = (0, True)"

text \<open>The loop over the segments that only one side has, for the side on the left.\<close>

fun extra_left :: "gem_seg list \<Rightarrow> int" where
  "extra_left [] = 0"
| "extra_left (GStr _ # segs) = -1"
| "extra_left (GInt n # segs) = (if n \<noteq> 0 then 1 else extra_left segs)"

fun extra_right :: "gem_seg list \<Rightarrow> int" where
  "extra_right [] = 0"
| "extra_right (GStr _ # segs) = 1"
| "extra_right (GInt n # segs) = (if n \<noteq> 0 then -1 else extra_right segs)"

definition compareLengths :: "gem_seg list \<Rightarrow> gem_seg list \<Rightarrow> int \<Rightarrow> int" where
  "compareLengths left right commonResult =
     (if commonResult \<noteq> 0 then commonResult
      else if length left = length right then 0
      else if length left > length right then extra_left (drop (length right) left)
      else extra_right (drop (length left) right))"

definition gemVersion_compare :: "gemVersion \<Rightarrow> gemVersion \<Rightarrow> int" where
  "gemVersion_compare v other =
     (case compareSegments (gem_canonical v) (gem_canonical other) of
        (result, True) \<Rightarrow> compareLengths (gem_canonical v) (gem_canonical other) result
      | (result, False) \<Rightarrow> result)"

definition gemVersion_Compare :: "gemVersion \<Rightarrow> string option \<Rightarrow> cmp_result" where
  "gemVersion_Compare v other =
     (case other of
        None \<Rightarrow> (-1, Some ErrNoVersionProvided)
      | Some raw \<Rightarrow>
          (case newGemVersion raw of
             Inl err \<Rightarrow> (0, Some (invalidFormatError GemFormat raw err))
           | Inr w \<Rightarrow> (gemVersion_compare v w, None)))"

section \<open>The reference order\<close>

fun gem_seg_cmp :: "gem_seg \<Rightarrow> gem_seg \<Rightarrow> int" where
  "gem_seg_cmp (GInt a) (GInt b) = cmp_of a b"
| "gem_seg_cmp (GStr a) (GStr b) = strings_Compare a b"
| "gem_seg_cmp (GInt _) (GStr _) = 1"
| "gem_seg_cmp (GStr _) (GInt _) = -1"

interpretation gseg: three_way_order gem_seg_cmp
proof
  fix x y z
  show "gem_seg_cmp x y \<in> {-1, 0, 1}"
    using lin.range str.range by (cases x; cases y) simp_all
  show "gem_seg_cmp y x = - gem_seg_cmp x y"
    by (cases x; cases y) (simp_all, rule lin.flip, rule str.flip)
  show "gem_seg_cmp x x = 0" by (cases x) (auto simp: str.refl)
  show "gem_seg_cmp x y \<le> 0 \<Longrightarrow> gem_seg_cmp y z \<le> 0 \<Longrightarrow> gem_seg_cmp x z \<le> 0"
    by (cases x; cases y; cases z) (auto intro: lin.trans str.trans)
qed

definition gem_order :: "gem_seg list \<Rightarrow> gem_seg list \<Rightarrow> int" where
  "gem_order = padcmp gem_seg_cmp (GInt 0)"

interpretation gem: three_way_order gem_order
  unfolding gem_order_def by (rule gseg.padcmp_order)

fun seg_ok :: "gem_seg \<Rightarrow> bool" where
  "seg_ok (GInt n) = (n \<ge> 0)"
| "seg_ok (GStr _) = True"

section \<open>The comparison is the reference order\<close>

lemma padcmp_extra_left: "list_all seg_ok xs \<Longrightarrow> padcmp gem_seg_cmp (GInt 0) xs [] = extra_left xs"
  by (induction xs rule: extra_left.induct) (auto simp: cmp_of_def)

lemma padcmp_extra_right: "list_all seg_ok xs \<Longrightarrow> padcmp gem_seg_cmp (GInt 0) [] xs = extra_right xs"
  by (induction xs rule: extra_right.induct) (auto simp: cmp_of_def)

lemma compareLengths_Cons [simp]: "compareLengths (x # xs) (y # ys) r = compareLengths xs ys r"
  by (simp add: compareLengths_def)

lemma compare_is_gem_order:
  assumes "list_all seg_ok xs" "list_all seg_ok ys"
  shows "(case compareSegments xs ys of
            (result, True) \<Rightarrow> compareLengths xs ys result | (result, False) \<Rightarrow> result)
         = gem_order xs ys"
  using assms
proof (induction xs ys rule: compareSegments.induct)
  case (1 l ls r rs)
  then show ?case
    by (cases "compareSegments ls rs") (auto simp: gem_order_def cmp_of_def split: bool.splits)
next
  case (2 l ls r rs)
  then show ?case
    by (cases "compareSegments ls rs") (auto simp: gem_order_def Let_def split: bool.splits)
qed (auto simp: gem_order_def compareLengths_def padcmp_extra_left padcmp_extra_right
      simp del: padcmp.simps(2,3))

lemma compareSegments_result: "compareSegments xs ys = (r, True) \<Longrightarrow> r = 0"
  by (induction xs ys rule: compareSegments.induct) (auto split: if_splits simp: Let_def)

section \<open>The canonical segments\<close>

lemma lastSignificantIdx_Some:
  "lastSignificantIdx segs n = Some i \<Longrightarrow>
   i < n \<and> segs ! i \<noteq> GInt 0 \<and> (\<forall>j. i < j \<and> j < n \<longrightarrow> segs ! j = GInt 0)"
  by (induction n) (auto split: if_splits simp: less_Suc_eq)

lemma lastSignificantIdx_None: "lastSignificantIdx segs n = None \<Longrightarrow> j < n \<Longrightarrow> segs ! j = GInt 0"
  by (induction n) (auto split: if_splits simp: less_Suc_eq)

lemma drop_zeros: "\<forall>j. i \<le> j \<and> j < length xs \<longrightarrow> xs ! j = z \<Longrightarrow> drop i xs = replicate (length xs - i) z"
  by (rule nth_equalityI) auto

lemma trimTrailingZeros_zeros:
  "trimTrailingZeros xs = xs \<or> (\<exists>n. xs = trimTrailingZeros xs @ replicate n (GInt 0))"
proof (cases "length xs \<le> 1")
  case True
  then show ?thesis by (cases xs) (auto simp: trimTrailingZeros_def)
next
  case len: False
  show ?thesis
  proof (cases "lastSignificantIdx xs (length xs)")
    case None
    then have "xs = replicate (length xs) (GInt 0)"
      using lastSignificantIdx_None by (intro nth_equalityI) auto
    also have "\<dots> = [GInt 0] @ replicate (length xs - 1) (GInt 0)"
      using len by (cases "length xs") auto
    finally show ?thesis using None len by (auto simp: trimTrailingZeros_def)
  next
    case (Some i)
    then have "drop (Suc i) xs = replicate (length xs - Suc i) (GInt 0)"
      using lastSignificantIdx_Some [OF Some] by (intro drop_zeros) (auto simp: Suc_le_eq)
    then show ?thesis
      using Some len append_take_drop_id [of "Suc i" xs] by (simp add: trimTrailingZeros_def) metis
  qed
qed

lemma gem_order_zeros: "gem_order (xs @ replicate n (GInt 0)) xs = 0"
proof (induction xs)
  case Nil
  then show ?case by (induction n) (auto simp: gem_order_def gseg.refl)
next
  case (Cons x xs)
  then show ?case by (auto simp: gem_order_def gseg.refl)
qed

lemma gem_order_trimTrailingZeros: "gem_order (trimTrailingZeros xs) xs = 0"
proof -
  consider "trimTrailingZeros xs = xs"
    | n where "xs = trimTrailingZeros xs @ replicate n (GInt 0)"
    using trimTrailingZeros_zeros [of xs] by blast
  then show ?thesis
  proof cases
    case 1
    then show ?thesis by (simp add: gem.refl)
  next
    case 2
    then show ?thesis using gem_order_zeros [of "trimTrailingZeros xs" n] gem.eq_sym by metis
  qed
qed

text \<open>A canonical list is \<open>[0]\<close>, or it is not empty and does not end with zero.\<close>

definition canonical_form :: "gem_seg list \<Rightarrow> bool" where
  "canonical_form xs \<longleftrightarrow> xs = [GInt 0] \<or> (xs \<noteq> [] \<and> last xs \<noteq> GInt 0)"

lemma trimTrailingZeros_form: "xs \<noteq> [] \<Longrightarrow> canonical_form (trimTrailingZeros xs)"
proof (cases "length xs \<le> 1")
  case True
  assume "xs \<noteq> []"
  with True show ?thesis by (cases xs) (auto simp: trimTrailingZeros_def canonical_form_def)
next
  case False
  then show ?thesis
    by (auto simp: trimTrailingZeros_def canonical_form_def take_Suc_conv_app_nth
        dest: lastSignificantIdx_Some split: option.splits)
qed

lemma firstLetterIdx_Some: "firstLetterIdx xs = Some k \<Longrightarrow> k < length xs \<and> (\<exists>s. xs ! k = GStr s)"
  by (induction xs arbitrary: k rule: firstLetterIdx.induct) auto

lemma trimIntermediateZeros_form:
  assumes "canonical_form xs"
  shows "canonical_form (trimIntermediateZeros xs pre)"
proof (cases "firstLetterIdx xs")
  case None
  with assms show ?thesis by (simp add: trimIntermediateZeros_def)
next
  case (Some k)
  from firstLetterIdx_Some [OF Some] obtain s where k: "k < length xs" "xs ! k = GStr s" by blast
  with assms have "last xs \<noteq> GInt 0"
    by (cases "xs = [GInt 0]") (auto simp: canonical_form_def)
  with k Some assms show ?thesis
    by (simp add: trimIntermediateZeros_def Let_def canonical_form_def)
qed

lemma gem_seg_cmp_eq_0: "gem_seg_cmp x y = 0 \<longleftrightarrow> x = y"
  by (cases x; cases y) auto

lemma gem_order_Nil: "gem_order xs [] = 0 \<longleftrightarrow> (\<forall>x \<in> set xs. x = GInt 0)"
  by (induction xs) (auto simp: gem_order_def gem_seg_cmp_eq_0)

lemma gem_order_eq_0_last:
  "gem_order xs ys = 0 \<Longrightarrow> xs \<noteq> [] \<Longrightarrow> ys \<noteq> [] \<Longrightarrow> last xs \<noteq> GInt 0 \<Longrightarrow> last ys \<noteq> GInt 0 \<Longrightarrow> xs = ys"
proof (induction xs ys rule: list_induct2')
  case (4 x xs y ys)
  then have xy: "x = y" and rest: "gem_order xs ys = 0"
    by (auto simp: gem_order_def gem_seg_cmp_eq_0 split: if_splits)
  consider "xs = []" "ys = []" | "xs \<noteq> []" "ys \<noteq> []" | "xs = []" "ys \<noteq> []" | "xs \<noteq> []" "ys = []"
    by blast
  then show ?case
  proof cases
    case 2
    with 4 rest xy show ?thesis by auto
  next
    case 3
    with rest have "\<forall>z \<in> set ys. z = GInt 0"
      using gem_order_Nil [of ys] gem.eq_sym [of "[]" ys] by simp
    with 3 4 show ?thesis by auto
  next
    case 4
    with rest gem_order_Nil [of xs] "4.prems"(4) show ?thesis by auto
  qed (simp add: xy)
qed auto

lemma gem_order_form:
  assumes "canonical_form xs" "canonical_form ys"
  shows "gem_order xs ys = 0 \<longleftrightarrow> xs = ys"
proof
  have zero: "zs = [GInt 0]" if "canonical_form zs" "gem_order zs [GInt 0] = 0" for zs
  proof -
    have "gem_order [GInt 0] [] = 0" by (simp add: gem_order_def)
    with that(2) have "gem_order zs [] = 0" by (rule gem.eq_trans)
    with that(1) gem_order_Nil [of zs] show ?thesis
      by (metis canonical_form_def last_in_set)
  qed
  assume eq: "gem_order xs ys = 0"
  then have "gem_order ys xs = 0" using gem.eq_sym by blast
  with eq assms zero [of xs] zero [of ys] gem_order_eq_0_last [of xs ys] show "xs = ys"
    unfolding canonical_form_def by metis
qed (simp add: gem.refl)

section \<open>Parsed versions\<close>

lemma digits_not_neg: "list_all (\<lambda>c. is_digit c \<or> is_alpha c) s \<Longrightarrow> seg_ok (to_seg s)"
  by (auto simp: to_seg_def strconv_Atoi_def atoi_digits_def is_digit_def is_alpha_def is_lower_def
      is_upper_def byte_val_def Let_def split: option.splits list.splits if_splits)

lemma partitionSegments_ok:
  assumes "partitionSegments vs = Inr segs"
  shows "segs \<noteq> [] \<and> list_all seg_ok segs"
proof -
  have "seg_ok (to_seg t)" if "t \<in> set (regexp_FindAllString segmentRegexp vs)" for t
    using FindAllString_text [OF that]
    by (intro digits_not_neg) (auto simp: segmentRegexp_def Plus_def list_all_iff)
  with assms show ?thesis
    by (auto simp: partitionSegments_def Let_def list_all_iff split: if_splits)
qed

lemma ok_trimTrailingZeros: "list_all seg_ok xs \<Longrightarrow> list_all seg_ok (trimTrailingZeros xs)"
  by (auto simp: trimTrailingZeros_def list_all_iff dest: in_set_takeD split: option.splits)

lemma ok_trimIntermediateZeros: "list_all seg_ok xs \<Longrightarrow> list_all seg_ok (trimIntermediateZeros xs pre)"
  by (auto simp: trimIntermediateZeros_def list_all_iff Let_def
      dest: in_set_takeD in_set_dropD split: option.splits if_splits)

lemma newGemVersion_parts:
  assumes "newGemVersion raw = Inr v"
  shows "gem_segments v \<noteq> []" "list_all seg_ok (gem_segments v)"
    "gem_canonical v = trimIntermediateZeros (trimTrailingZeros (gem_segments v)) (gem_isPrerelease v)"
proof -
  obtain processed segs where part: "partitionSegments processed = Inr segs"
    and v: "gem_segments v = segs"
      "gem_canonical v = (let c = trimIntermediateZeros (trimTrailingZeros segs) (gem_isPrerelease v)
                          in if c = [] then [GInt 0] else c)"
    using assms partitionSegments_ok
    by (auto simp: newGemVersion_def Let_def split: sum.splits if_splits)
  from partitionSegments_ok [OF part] v(1)
  show s: "gem_segments v \<noteq> []" "list_all seg_ok (gem_segments v)" by auto
  have "canonical_form (trimIntermediateZeros (trimTrailingZeros segs) (gem_isPrerelease v))"
    using trimIntermediateZeros_form trimTrailingZeros_form s(1) v(1) by blast
  then show "gem_canonical v = trimIntermediateZeros (trimTrailingZeros (gem_segments v)) (gem_isPrerelease v)"
    using v by (auto simp: canonical_form_def Let_def)
qed

lemma newGemVersion_canonical:
  assumes "newGemVersion raw = Inr v"
  shows "canonical_form (gem_canonical v)" "list_all seg_ok (gem_canonical v)"
  using newGemVersion_parts [OF assms]
  by (simp_all add: trimIntermediateZeros_form trimTrailingZeros_form ok_trimIntermediateZeros
      ok_trimTrailingZeros)

lemma gem_compare_order:
  "newGemVersion a = Inr v \<Longrightarrow> newGemVersion b = Inr w \<Longrightarrow>
   gemVersion_compare v w = gem_order (gem_canonical v) (gem_canonical w)"
  unfolding gemVersion_compare_def by (intro compare_is_gem_order newGemVersion_canonical)

section \<open>Properties\<close>

text \<open>C27: on gem versions that parse, \<^verbatim>\<open>compare\<close> is a total preorder (antisymmetric sign, values
  \<open>-1\<close>, \<open>0\<close>, \<open>1\<close>, transitive), and two versions compare equal exactly when their canonical
  segments are the same.\<close>

theorem gem_compare_total_preorder:
  assumes "newGemVersion a = Inr u" "newGemVersion b = Inr v" "newGemVersion c = Inr w"
  shows "gemVersion_compare u v \<in> {-1, 0, 1}
    \<and> gemVersion_compare v u = - gemVersion_compare u v
    \<and> (gemVersion_compare u v \<le> 0 \<longrightarrow> gemVersion_compare v w \<le> 0 \<longrightarrow> gemVersion_compare u w \<le> 0)
    \<and> (gemVersion_compare u v = 0 \<longleftrightarrow> gem_canonical u = gem_canonical v)"
proof -
  note order = gem_compare_order [OF assms(1,2)] gem_compare_order [OF assms(2,1)]
    gem_compare_order [OF assms(2,3)] gem_compare_order [OF assms(1,3)]
  have "gem_order (gem_canonical u) (gem_canonical v) = 0 \<longleftrightarrow> gem_canonical u = gem_canonical v"
    using assms by (intro gem_order_form newGemVersion_canonical)
  moreover note gem.range gem.flip gem.trans
  ultimately show ?thesis unfolding order by blast
qed

text \<open>For released gem versions (no letter in them) dropping the trailing zeros cannot be observed:
  \<^verbatim>\<open>compare\<close>, which works on the trimmed segments, is the numeric lexicographic comparison of
  the segments as written, the shorter version continued with zeros.\<close>

theorem gem_release_compare:
  assumes "newGemVersion a = Inr u" "newGemVersion b = Inr v"
    and "\<not> gem_isPrerelease u" "\<not> gem_isPrerelease v"
  shows "gemVersion_compare u v = padcmp gem_seg_cmp (GInt 0) (gem_segments u) (gem_segments v)"
proof -
  have c: "gem_canonical u = trimTrailingZeros (gem_segments u)"
    "gem_canonical v = trimTrailingZeros (gem_segments v)"
    using assms newGemVersion_parts(3) by (simp_all add: trimIntermediateZeros_def)
  have "gem_order (gem_canonical u) (gem_canonical v) = gem_order (gem_segments u) (gem_canonical v)"
    unfolding c by (rule gem.eq_cong_left, rule gem_order_trimTrailingZeros)
  also have "\<dots> = gem_order (gem_segments u) (gem_segments v)"
    using gem.flip [of "gem_segments u"] gem.eq_cong_left [OF gem_order_trimTrailingZeros]
    unfolding c by metis
  finally show ?thesis
    using assms by (simp add: gem_compare_order gem_order_def)
qed


lemma gem_parse_examples:
  "newGemVersion ''1.2.b1'' = Inr \<lparr>gem_original = ''1.2.b1'',
     gem_segments = [GInt 1, GInt 2, GStr ''b'', GInt 1],
     gem_canonical = [GInt 1, GInt 2, GStr ''b'', GInt 1], gem_isPrerelease = True\<rparr>"
  "newGemVersion ''1.2.0'' = Inr \<lparr>gem_original = ''1.2.0'', gem_segments = [GInt 1, GInt 2, GInt 0],
     gem_canonical = [GInt 1, GInt 2], gem_isPrerelease = False\<rparr>"
  "newGemVersion ''1.2'' = Inr \<lparr>gem_original = ''1.2'', gem_segments = [GInt 1, GInt 2],
     gem_canonical = [GInt 1, GInt 2], gem_isPrerelease = False\<rparr>"
  by code_simp+

theorem gem_compare_total_preorder_witness:
  "\<exists>u v w. newGemVersion ''1.2.b1'' = Inr u \<and> newGemVersion ''1.2.0'' = Inr v
     \<and> newGemVersion ''1.2'' = Inr w \<and> gemVersion_compare u v = -1 \<and> gemVersion_compare v w = 0
     \<and> gemVersion_compare u w \<le> 0"
  using gem_compare_total_preorder [OF gem_parse_examples]
  by (simp add: gem_parse_examples gemVersion_compare_def compareLengths_def)

theorem gem_release_compare_witness:
  "\<exists>u v. newGemVersion ''1.2.0'' = Inr u \<and> newGemVersion ''1.2'' = Inr v \<and> gemVersion_compare u v = 0"
  using gem_release_compare [OF gem_parse_examples(2,3)] by (simp add: gem_parse_examples)

end
