(* ===== verification/Portage_Version.thy ===== *)
theory Portage_Version
  imports Version_Base
begin

text \<open>
  Gentoo versions: \<^verbatim>\<open>portage_version.go\<close>.  Two patterns take a version apart (numbers, letter,
  suffixes, revision); the parts are compared in turn, numbers as \<^verbatim>\<open>big.Int\<close> (here \<^typ>\<open>int\<close>).  Where the
  code indexes the result of \<^verbatim>\<open>FindStringSubmatch\<close>, which is nil without a match, the model has the
  panic \<^const>\<open>None\<close>.  The last section shows exactly when that happens.
\<close>

section \<open>Definitions\<close>

definition suffix_name :: re where
  "suffix_name = Alt (Lit ''alpha'') (Alt (Lit ''beta'') (Alt (Lit ''rc'') (Alt (Lit ''pre'') (Lit ''p''))))"

definition suffix_part :: re where
  "suffix_part =
     Seq (Chr (CHR ''_''))
       (Seq (Grp 7 (Alt (Lit ''pre'') (Alt (Lit ''p'') (Alt (Lit ''beta'') (Alt (Lit ''alpha'') (Lit ''rc''))))))
         (Star (Cls is_digit)))"

definition versionRegexp :: re where
  "versionRegexp =
     Seq (Grp 1 (Plus (Cls is_digit)))
       (Seq (Grp 2 (Star (Grp 3 (Seq (Chr (CHR ''.'')) (Plus (Cls is_digit))))))
         (Seq (Grp 4 (Opt (Cls is_lower)))
           (Seq (Grp 5 (Star (Grp 6 suffix_part)))
             (Opt (Grp 8 (Seq (Lit ''-r'') (Grp 9 (Plus (Cls is_digit)))))))))"

definition suffixRegexp :: re where
  "suffixRegexp = Seq Bol (Seq (Grp 1 suffix_name) (Seq (Grp 2 (Star (Cls is_digit))) Eol))"

definition suffixValue :: "string \<Rightarrow> int" where
  "suffixValue s =
     (if s = ''pre'' then -2 else if s = ''p'' then 0 else if s = ''alpha'' then -4
      else if s = ''beta'' then -3 else if s = ''rc'' then -1 else 0)"

text \<open>\<^verbatim>\<open>SetString(s, 10)\<close> into a fresh \<^verbatim>\<open>big.Int\<close>: the decimal value; only digit strings and
  \<open>-1\<close> reach it.\<close>

definition big_SetString :: "string \<Rightarrow> int" where
  "big_SetString s = (if strings_HasPrefix s ''-'' then - int (digits_val (drop 1 s)) else int (digits_val s))"

definition pad_zeros :: "nat \<Rightarrow> string \<Rightarrow> string" where
  "pad_zeros n s = s @ replicate (n - length s) (CHR ''0'')"

text \<open>The loop that turns the dotted components into two lists of numbers.\<close>

fun component_lists :: "string list \<Rightarrow> string list \<Rightarrow> int list \<times> int list" where
  "component_lists [] [] = ([], [])"
| "component_lists [] (y # ys) =
     (case component_lists [] ys of (l1, l2) \<Rightarrow> (-1 # l1, big_SetString y # l2))"
| "component_lists (x # xs) [] =
     (case component_lists xs [] of (l1, l2) \<Rightarrow> (big_SetString x # l1, -1 # l2))"
| "component_lists (x # xs) (y # ys) =
     (case component_lists xs ys of (l1, l2) \<Rightarrow>
        if \<not> strings_HasPrefix x ''0'' \<and> \<not> strings_HasPrefix y ''0''
        then (big_SetString x # l1, big_SetString y # l2)
        else let maxLen = max (length y) (length x) in
             (big_SetString (pad_zeros maxLen x) # l1, big_SetString (pad_zeros maxLen y) # l2))"

definition letter_code :: "string \<Rightarrow> int list" where
  "letter_code l = (case l of [] \<Rightarrow> [] | c # _ \<Rightarrow> [int (byte_val c)])"

fun compare_lists :: "int list \<Rightarrow> int list \<Rightarrow> int" where
  "compare_lists [] [] = 0"
| "compare_lists [] (y # ys) = -1"
| "compare_lists (x # xs) [] = 1"
| "compare_lists (x # xs) (y # ys) = (let c = cmp_of x y in if c \<noteq> 0 then c else compare_lists xs ys)"

text \<open>One suffix: its name and its number (\<open>0\<close> when there is none); a suffix that is missing counts as
  \<open>p-1\<close>.\<close>

definition parse_suffix :: "string \<Rightarrow> (string \<times> string) go" where
  "parse_suffix s =
     (case regexp_Find suffixRegexp s of
        None \<Rightarrow> None
      | Some m \<Rightarrow> Some (submatch m 1, if submatch m 2 = [] then ''0'' else submatch m 2))"

definition suffix_at :: "string list \<Rightarrow> (string \<times> string) go" where
  "suffix_at sl = (case sl of [] \<Rightarrow> Some (''p'', ''-1'') | s # _ \<Rightarrow> parse_suffix s)"

definition compare_suffix :: "string \<times> string \<Rightarrow> string \<times> string \<Rightarrow> int" where
  "compare_suffix s1 s2 =
     (if fst s1 \<noteq> fst s2 then (if suffixValue (fst s1) > suffixValue (fst s2) then 1 else -1)
      else if snd s1 \<noteq> snd s2 then cmp_of (big_SetString (snd s1)) (big_SetString (snd s2))
      else 0)"

function compare_suffixes :: "string list \<Rightarrow> string list \<Rightarrow> int go" where
  "compare_suffixes sl1 sl2 =
     (if sl1 = [] \<and> sl2 = [] then Some 0
      else do {
        s1 \<leftarrow> suffix_at sl1;
        s2 \<leftarrow> suffix_at sl2;
        (let c = compare_suffix s1 s2 in
         if c \<noteq> 0 then Some c else compare_suffixes (drop 1 sl1) (drop 1 sl2))
      })"
  by pat_completeness auto
termination
  by (relation "measure (\<lambda>(a, b). length a + length b)") (auto simp: neq_Nil_conv)

declare compare_suffixes.simps [simp del]

definition number_lists :: "re_match \<Rightarrow> re_match \<Rightarrow> int list \<times> int list" where
  "number_lists match1 match2 =
     (let vlist1 = drop 1 (split_char (CHR ''.'') (submatch match1 2));
          vlist2 = drop 1 (split_char (CHR ''.'') (submatch match2 2));
          (l1, l2) = component_lists vlist1 vlist2 in
      (big_SetString (submatch match1 1) # l1 @ letter_code (submatch match1 4),
       big_SetString (submatch match2 1) # l2 @ letter_code (submatch match2 4)))"

definition suffix_list :: "re_match \<Rightarrow> string list" where
  "suffix_list m = drop 1 (split_char (CHR ''_'') (submatch m 5))"

definition revision :: "re_match \<Rightarrow> int" where
  "revision m = (if submatch m 9 \<noteq> [] then big_SetString (submatch m 9) else 0)"

definition comparePortageVersions :: "string \<Rightarrow> string \<Rightarrow> int go" where
  "comparePortageVersions a b = do {
     match1 \<leftarrow> regexp_Find versionRegexp a;
     match2 \<leftarrow> regexp_Find versionRegexp b;
     (let (list1, list2) = number_lists match1 match2;
          c = compare_lists list1 list2 in
      if c \<noteq> 0 then Some c
      else do {
        c \<leftarrow> compare_suffixes (suffix_list match1) (suffix_list match2);
        (if c \<noteq> 0 then Some c else Some (cmp_of (revision match1) (revision match2)))
      })
   }"

record portageVersion =
  portage_version :: string

definition newPortageVersion :: "string \<Rightarrow> portageVersion" where
  "newPortageVersion raw = \<lparr>portage_version = raw\<rparr>"

definition portageVersion_compare :: "portageVersion \<Rightarrow> portageVersion \<Rightarrow> int go" where
  "portageVersion_compare v v2 =
     (if portage_version v = portage_version v2 then Some 0
      else comparePortageVersions (portage_version v) (portage_version v2))"

definition portageVersion_Compare :: "portageVersion \<Rightarrow> string option \<Rightarrow> cmp_result go" where
  "portageVersion_Compare v other =
     (case other of
        None \<Rightarrow> Some (-1, Some ErrNoVersionProvided)
      | Some raw \<Rightarrow> map_option (\<lambda>c. (c, None)) (portageVersion_compare v (newPortageVersion raw)))"

section \<open>Antisymmetry\<close>

lemma component_lists_swap: "component_lists ys xs = prod.swap (component_lists xs ys)"
  by (induction xs ys rule: component_lists.induct) (auto simp: Let_def max.commute split: prod.splits)

lemma compare_lists_lexcmp: "compare_lists xs ys = lexcmp cmp_of xs ys"
  by (induction xs ys rule: compare_lists.induct) (auto simp: Let_def)

interpretation plists: three_way_order compare_lists
proof -
  have "compare_lists = (lexcmp cmp_of :: int list \<Rightarrow> int list \<Rightarrow> int)"
    by (intro ext compare_lists_lexcmp)
  then show "three_way_order compare_lists" using lin.lexcmp_order by metis
qed

definition suffix_names :: "string set" where
  "suffix_names = {''alpha'', ''beta'', ''rc'', ''pre'', ''p''}"

lemma suffixValue_inj: "inj_on suffixValue suffix_names"
  by (auto simp: inj_on_def suffix_names_def suffixValue_def)

lemma compare_suffix_flip:
  assumes "fst s1 \<in> suffix_names" "fst s2 \<in> suffix_names"
  shows "compare_suffix s2 s1 = - compare_suffix s1 s2"
  using inj_onD [OF suffixValue_inj _ assms] lin.flip [of "big_SetString (snd s1)" "big_SetString (snd s2)"]
  by (auto simp: compare_suffix_def)

lemma lang_suffix_name: "lang suffix_name w \<longleftrightarrow> w \<in> suffix_names"
  by (auto simp: suffix_name_def suffix_names_def simp del: Lit.simps)

lemma parse_suffix_name:
  assumes "parse_suffix s = Some (n, k)"
  shows "n \<in> suffix_names"
proof -
  from assms obtain m where m: "regexp_Find suffixRegexp s = Some m" "n = submatch m 1"
    by (auto simp: parse_suffix_def split: option.splits)
  from re_find_state [OF m(1) [unfolded regexp_Find_def]] obtain b s' st' where
    st': "st' \<in> set (re_all suffixRegexp (b, [], s'))" "cap_of 1 st' = map_of (m_caps m) 1" by blast
  then obtain st1 where st1: "st1 \<in> set (re_all (Grp 1 suffix_name) (b, [], s'))"
    "st' \<in> set (re_all (Seq (Grp 2 (Star (Cls is_digit))) Eol) st1)"
    unfolding suffixRegexp_def
    by (elim re_all_SeqE) (auto simp del: split_paired_Ex split_paired_All re_all.simps(5,6) split: if_splits)
  from re_all_Grp_cap [OF st1(1)] re_all_keeps_caps [OF _ st1(2), of 1] st'(2) obtain w where
    "map_of (m_caps m) 1 = Some w" "lang suffix_name w" by auto
  with m(2) show ?thesis by (simp add: submatch_def lang_suffix_name)
qed

lemma suffix_at_name: "suffix_at sl = Some s \<Longrightarrow> fst s \<in> suffix_names"
  using parse_suffix_name [of _ "fst s" "snd s"]
  by (cases sl) (auto simp: suffix_at_def suffix_names_def)

lemma compare_suffixes_flip: "compare_suffixes sl2 sl1 = map_option uminus (compare_suffixes sl1 sl2)"
proof (induction sl1 sl2 rule: compare_suffixes.induct)
  case (1 sl1 sl2)
  show ?case
  proof (cases "sl1 = [] \<and> sl2 = []")
    case True
    then show ?thesis by (simp add: compare_suffixes.simps)
  next
    case False
    show ?thesis
    proof (cases "suffix_at sl1 = None \<or> suffix_at sl2 = None")
      case True
      with False show ?thesis
        by (auto simp: compare_suffixes.simps [of sl1 sl2] compare_suffixes.simps [of sl2 sl1]
            split: Option.bind_splits)
    next
      case some: False
      then obtain s1 s2 where s: "suffix_at sl1 = Some s1" "suffix_at sl2 = Some s2" by auto
      have flip: "compare_suffix s2 s1 = - compare_suffix s1 s2"
        using s by (intro compare_suffix_flip suffix_at_name)
      show ?thesis
        using 1 [OF False s refl] False s flip
        by (auto simp: compare_suffixes.simps [of sl1 sl2] compare_suffixes.simps [of sl2 sl1] Let_def)
    qed
  qed
qed

lemma number_lists_swap: "number_lists m2 m1 = prod.swap (number_lists m1 m2)"
proof -
  let ?v = "\<lambda>m. drop 1 (split_char (CHR ''.'') (submatch m 2))"
  obtain l1 l2 where "component_lists (?v m1) (?v m2) = (l1, l2)" by fastforce
  with component_lists_swap [of "?v m2" "?v m1"] show ?thesis by (simp add: number_lists_def)
qed

lemma comparePortageVersions_flip:
  "comparePortageVersions b a = map_option uminus (comparePortageVersions a b)"
proof (cases "regexp_Find versionRegexp a = None \<or> regexp_Find versionRegexp b = None")
  case True
  then show ?thesis by (auto simp: comparePortageVersions_def split: Option.bind_splits)
next
  case False
  then obtain m1 m2 where m: "regexp_Find versionRegexp a = Some m1" "regexp_Find versionRegexp b = Some m2"
    by auto
  obtain l1 l2 where l: "number_lists m1 m2 = (l1, l2)" "number_lists m2 m1 = (l2, l1)"
    using number_lists_swap [of m2 m1] by fastforce
  have flips: "compare_lists l2 l1 = - compare_lists l1 l2"
    "compare_suffixes (suffix_list m2) (suffix_list m1) =
       map_option uminus (compare_suffixes (suffix_list m1) (suffix_list m2))"
    "cmp_of (revision m2) (revision m1) = - cmp_of (revision m1) (revision m2)"
    by (rule plists.flip compare_suffixes_flip lin.flip)+
  show ?thesis
    by (cases "compare_suffixes (suffix_list m1) (suffix_list m2)")
      (simp_all add: comparePortageVersions_def m l flips Let_def)
qed

section \<open>When the comparison panics\<close>

lemma split_char_append_word:
  "d \<notin> set x \<Longrightarrow> split_char d v = p # ws \<Longrightarrow> split_char d (x @ v) = (x @ p) # ws"
  by (induction x) auto

definition suffix_word :: "string \<Rightarrow> bool" where
  "suffix_word w \<longleftrightarrow> (\<exists>n ds. w = n @ ds \<and> n \<in> suffix_names \<and> list_all is_digit ds)"

lemma suffix_word_no_sep: "suffix_word w \<Longrightarrow> CHR ''_'' \<notin> set w"
proof -
  have "\<not> is_digit (CHR ''_'')" by (simp add: is_digit_def byte_val_def)
  then show "suffix_word w \<Longrightarrow> CHR ''_'' \<notin> set w"
    by (auto simp: suffix_word_def suffix_names_def list_all_iff)
qed

lemma lang_suffix_part: "lang suffix_part w \<longleftrightarrow> (\<exists>x. w = CHR ''_'' # x \<and> suffix_word x)"
proof -
  have "lang (Grp 7 (Alt (Lit ''pre'') (Alt (Lit ''p'') (Alt (Lit ''beta'') (Alt (Lit ''alpha'') (Lit ''rc'')))))) v
      \<longleftrightarrow> v \<in> suffix_names" for v
    by (auto simp: suffix_names_def simp del: Lit.simps)
  then show ?thesis
    unfolding suffix_part_def
    by (auto simp: suffix_word_def Chr_def lang_Star_Cls simp del: Lit.simps lang_simps(4,5))
qed

lemma split_suffixes:
  "lang r w \<Longrightarrow> r = Star (Grp 6 suffix_part) \<Longrightarrow>
   \<exists>ws. split_char (CHR ''_'') w = [] # ws \<and> list_all suffix_word ws"
proof (induction rule: lang.induct)
  case (lang_Star1 r0 u v)
  then obtain x where x: "u = CHR ''_'' # x" "suffix_word x" by (auto simp: lang_suffix_part)
  from lang_Star1 obtain ws where "split_char (CHR ''_'') v = [] # ws" "list_all suffix_word ws" by auto
  with x suffix_word_no_sep [OF x(2)] show ?case
    using split_char_append_word [of "CHR ''_''" x v "[]" ws] by simp
qed auto

lemma suffix_list_words:
  assumes "regexp_Find versionRegexp s = Some m"
  shows "list_all suffix_word (suffix_list m)"
proof -
  from re_find_state [OF assms [unfolded regexp_Find_def]] obtain b s' st' where
    st': "st' \<in> set (re_all versionRegexp (b, [], s'))" "cap_of 5 st' = map_of (m_caps m) 5" by blast
  from st'(1) obtain st1 st2 where st: "st1 \<in> set (re_all (Grp 5 (Star (Grp 6 suffix_part))) st2)"
    "st' \<in> set (re_all (Opt (Grp 8 (Seq (Lit ''-r'') (Grp 9 (Plus (Cls is_digit)))))) st1)"
    unfolding versionRegexp_def by (elim re_all_SeqE)
  from re_all_Grp_cap [OF st(1)] re_all_keeps_caps [OF _ st(2), of 5] st'(2) obtain w where
    w: "map_of (m_caps m) 5 = Some w" "lang (Star (Grp 6 suffix_part)) w"
    by (auto simp del: Lit.simps)
  from split_suffixes [OF w(2)] w(1) show ?thesis by (auto simp: suffix_list_def submatch_def)
qed

lemma parse_suffix_total:
  assumes "suffix_word w"
  shows "\<exists>p. parse_suffix w = Some p"
proof -
  from assms obtain n ds where w: "w = n @ ds" "n \<in> suffix_names" "list_all is_digit ds"
    by (auto simp: suffix_word_def)
  have free: "anchor_free (Grp 1 suffix_name)" "lang (Grp 1 suffix_name) n"
    using w by (simp_all add: lang_suffix_name) (simp add: suffix_name_def del: Lit.simps)
  have "\<exists>st1 \<in> set (re_all (Grp 1 suffix_name) (True, [], w)). re_rest st1 = ds"
    by (rule re_all_complete [OF free]) (simp add: w)
  then obtain st1 where
    st1: "st1 \<in> set (re_all (Grp 1 suffix_name) (True, [], w))" "re_rest st1 = ds" by blast
  have "\<exists>st2 \<in> set (re_all (Grp 2 (Star (Cls is_digit))) st1). re_rest st2 = []"
    by (rule re_all_complete [where u = ds]) (use w st1 in \<open>simp_all add: lang_Star_Cls\<close>)
  then obtain st2 where "st2 \<in> set (re_all (Grp 2 (Star (Cls is_digit))) st1)" "re_rest st2 = []" by blast
  with st1(1) have "st2 \<in> set (re_all suffixRegexp (True, [], w))"
    unfolding suffixRegexp_def by (auto simp del: split_paired_Ex split_paired_All re_all.simps(5,6))
  then have "regexp_Find suffixRegexp w \<noteq> None"
    using re_find_None [of suffixRegexp True w] unfolding regexp_Find_def
    by (metis empty_iff empty_set)
  then show ?thesis by (auto simp: parse_suffix_def)
qed

lemma compare_suffixes_total:
  "list_all suffix_word sl1 \<Longrightarrow> list_all suffix_word sl2 \<Longrightarrow> \<exists>c. compare_suffixes sl1 sl2 = Some c"
proof (induction sl1 sl2 rule: compare_suffixes.induct)
  case (1 sl1 sl2)
  have at: "\<exists>p. suffix_at sl = Some p" if "list_all suffix_word sl" for sl
    using that parse_suffix_total by (cases sl) (auto simp: suffix_at_def)
  from at [OF 1(2)] at [OF 1(3)] obtain s1 s2 where "suffix_at sl1 = Some s1" "suffix_at sl2 = Some s2"
    by blast
  moreover have "list_all suffix_word (drop 1 sl1)" "list_all suffix_word (drop 1 sl2)"
    using 1(2,3) by (auto simp: list_all_iff dest: in_set_dropD)
  ultimately show ?case
    using 1(1) compare_suffixes.simps [of "[]" "[]"]
    by (cases "sl1 = [] \<and> sl2 = []") (auto simp: compare_suffixes.simps [of sl1 sl2] Let_def)
qed

definition has_digit :: "string \<Rightarrow> bool" where
  "has_digit s \<longleftrightarrow> list_ex is_digit s"

lemma versionRegexp_finds: "regexp_Find versionRegexp s \<noteq> None \<longleftrightarrow> has_digit s"
proof
  assume "regexp_Find versionRegexp s \<noteq> None"
  then obtain m where "re_find versionRegexp True s = Some m" by (auto simp: regexp_Find_def)
  from re_find_state [OF this] obtain b u s' st' where s: "s = u @ s'"
    and st': "st' \<in> set (re_all versionRegexp (b, [], s'))" by blast
  from st' obtain st1 where "st1 \<in> set (re_all (Grp 1 (Plus (Cls is_digit))) (b, [], s'))"
    unfolding versionRegexp_def by (elim re_all_SeqE)
  from re_all_sound [OF this] obtain w where "s' = w @ re_rest st1" "w \<noteq> []" "list_all is_digit w"
    by (auto simp: lang_Plus_Cls)
  with s show "has_digit s" by (cases w) (auto simp: has_digit_def)
next
  assume "has_digit s"
  then obtain c where "c \<in> set s" "is_digit c" by (auto simp: has_digit_def list_ex_iff)
  then obtain u v where s: "s = u @ c # v" by (meson split_list)
  have "lang versionRegexp ([c] @ [] @ [] @ [] @ [])"
    unfolding versionRegexp_def Opt_def
    by (intro lang_Seq lang_Grp lang_Star0 lang_Alt2 lang_Eps) (simp add: lang_Plus_Cls \<open>is_digit c\<close>)
  then have "re_all versionRegexp (b, [], c # v) \<noteq> []" for b
    using re_all_complete [of versionRegexp "[c]" "(b, [], c # v)" v]
    by (auto simp: versionRegexp_def suffix_part_def simp del: Lit.simps re_all.simps)
  then have "re_find versionRegexp b (c # v) \<noteq> None" for b
    using re_find_None [of versionRegexp b "c # v"] by blast
  with re_find_None_suffix [of versionRegexp True u "c # v"] have "re_find versionRegexp True s \<noteq> None"
    unfolding s by (cases "u = []") (simp, blast)
  then show "regexp_Find versionRegexp s \<noteq> None" by (simp add: regexp_Find_def)
qed

lemma compare_suffix_range: "compare_suffix s1 s2 \<in> {-1, 0, 1}"
  using lin.range [of "big_SetString (snd s1)" "big_SetString (snd s2)"] by (simp add: compare_suffix_def)

lemma compare_suffixes_range: "compare_suffixes s1 s2 = Some c \<Longrightarrow> c \<in> {-1, 0, 1}"
proof (induction s1 s2 rule: compare_suffixes.induct)
  case (1 s1 s2)
  show ?case
  proof (cases "s1 = [] \<and> s2 = []")
    case True
    with 1 show ?thesis by (simp add: compare_suffixes.simps)
  next
    case False
    with 1(2) obtain p q where pq: "suffix_at s1 = Some p" "suffix_at s2 = Some q"
      by (auto simp: compare_suffixes.simps [of s1 s2] bind_eq_Some_conv)
    with 1(2) False have c: "(if compare_suffix p q \<noteq> 0 then Some (compare_suffix p q)
        else compare_suffixes (drop 1 s1) (drop 1 s2)) = Some c"
      by (subst (asm) compare_suffixes.simps) (auto simp: Let_def)
    show ?thesis
    proof (cases "compare_suffix p q = 0")
      case True
      with 1(1) [OF False pq refl] c show ?thesis by simp
    next
      case False
      with c compare_suffix_range [of p q] show ?thesis by simp
    qed
  qed
qed

lemma comparePortageVersions_Some:
  assumes "has_digit a" "has_digit b"
  shows "\<exists>c. comparePortageVersions a b = Some c \<and> c \<in> {-1, 0, 1}"
proof -
  from assms obtain m1 m2 where m: "regexp_Find versionRegexp a = Some m1" "regexp_Find versionRegexp b = Some m2"
    using versionRegexp_finds by blast
  from compare_suffixes_total [OF suffix_list_words [OF m(1)] suffix_list_words [OF m(2)]]
  obtain c where c: "compare_suffixes (suffix_list m1) (suffix_list m2) = Some c" by blast
  obtain l1 l2 where l: "number_lists m1 m2 = (l1, l2)" by fastforce
  show ?thesis
    using compare_suffixes_range [OF c] plists.range [of l1 l2] lin.range [of "revision m1" "revision m2"]
    by (simp add: comparePortageVersions_def m c l Let_def) blast
qed

section \<open>Properties\<close>

text \<open>C28: the comparison of portage versions panics exactly when the texts differ and one of them has
  no digit; otherwise it returns \<open>-1\<close>, \<open>0\<close> or \<open>1\<close>, and exchanging the versions negates the
  result.\<close>

theorem portage_compare_contract:
  "(portageVersion_compare v w = None \<longleftrightarrow>
      portage_version v \<noteq> portage_version w
      \<and> \<not> (has_digit (portage_version v) \<and> has_digit (portage_version w)))
   \<and> set_option (portageVersion_compare v w) \<subseteq> {-1, 0, 1}
   \<and> portageVersion_compare w v = map_option uminus (portageVersion_compare v w)"
proof -
  let ?a = "portage_version v" and ?b = "portage_version w"
  have none: "comparePortageVersions ?a ?b = None" if "\<not> (has_digit ?a \<and> has_digit ?b)"
    using that versionRegexp_finds [of ?a] versionRegexp_finds [of ?b]
    by (auto simp: comparePortageVersions_def split: Option.bind_splits)
  show ?thesis
  proof (cases "has_digit ?a \<and> has_digit ?b")
    case True
    with comparePortageVersions_Some [of ?a ?b] comparePortageVersions_flip [of ?b ?a] show ?thesis
      by (auto simp: portageVersion_compare_def)
  next
    case False
    with none [OF False] comparePortageVersions_flip [of ?b ?a] show ?thesis
      by (auto simp: portageVersion_compare_def)
  qed
qed

end
