(* ===== verification/Fuzzy_Version.thy ===== *)
theory Fuzzy_Version
  imports Version_Base
begin

text \<open>
  The comparison used when the format of a version is not known: \<^verbatim>\<open>fuzzyVersionComparison\<close> and its
  helpers in \<^verbatim>\<open>fuzzy_constraint.go\<close>, and the pattern that decides whether a text looks like a
  semantic version.

  The code ranges over runes in three places.  There a byte is as good as a rune: the separators are
  ASCII, and a letter followed by a byte that is a digit can only be an ASCII letter (the byte after
  the first one of a longer rune is a continuation byte, none of which is a digit).
\<close>

section \<open>Definitions\<close>

definition re_num :: re where
  "re_num = Alt (Chr (CHR ''0'')) (Seq (Cls (\<lambda>c. is_digit c \<and> c \<noteq> CHR ''0'')) (Star (Cls is_digit)))"

definition re_ident :: re where
  "re_ident =
     Alt re_num
       (Seq (Star (Cls is_digit))
         (Seq (Cls (\<lambda>c. is_alpha c \<or> c = CHR ''-''))
           (Star (Cls (\<lambda>c. is_digit c \<or> is_alpha c \<or> c = CHR ''-'')))))"

definition re_build :: re where
  "re_build = Plus (Cls (\<lambda>c. is_digit c \<or> is_alpha c \<or> c = CHR ''-''))"

definition pseudoSemverPattern :: re where
  "pseudoSemverPattern =
     Seq Bol
      (Seq (Opt (Cls (\<lambda>c. c = CHR ''v'' \<or> c = CHR ''V'')))
      (Seq (Grp 1 re_num)
      (Seq (Opt (Grp 2 (Seq (Chr (CHR ''.'')) (Grp 3 re_num))))
      (Seq (Opt (Grp 4 (Seq (Chr (CHR ''.'')) (Grp 5 re_num))))
      (Seq (Opt (Seq (Grp 6 (Alt (Chr (CHR ''-'')) (Alt (Lit ''alpha'') (Alt (Lit ''beta'') (Lit ''rc'')))))
                     (Grp 7 (Seq re_ident (Star (Seq (Chr (CHR ''.'')) re_ident))))))
      (Seq (Opt (Seq (Chr (CHR ''+'')) (Grp 8 (Seq re_build (Star (Seq (Chr (CHR ''.'')) re_build))))))
       Eol))))))"

definition stripLeadingV :: "string \<Rightarrow> string" where
  "stripLeadingV ver =
     (case ver of [] \<Rightarrow> [] | c # cs \<Rightarrow> if c = CHR ''v'' \<or> c = CHR ''V'' then cs else ver)"

definition leftPad :: "string \<Rightarrow> nat \<Rightarrow> string" where
  "leftPad s n = replicate n (CHR ''0'') @ s"

definition is_punct :: "char \<Rightarrow> bool" where
  "is_punct b \<longleftrightarrow>
     33 \<le> byte_val b \<and> byte_val b \<le> 126 \<and>
     \<not> (47 < byte_val b \<and> byte_val b < 58 \<or> 64 < byte_val b \<and> byte_val b < 91
        \<or> 96 < byte_val b \<and> byte_val b < 123)"

definition parseVersionParts :: "string \<Rightarrow> nat \<times> nat \<times> nat" where
  "parseVersionParts v =
     (let num = length (takeWhile is_digit v) in
      if num = length v then (num, num, num)
      else let skip = length (takeWhile (\<lambda>c. \<not> is_punct c) v) in
           if skip = length v then (num, length v, length v)
           else (num, skip, skip + 1))"

fun findLetterDigitBoundary :: "string \<Rightarrow> nat option" where
  "findLetterDigitBoundary (a # b # s) =
     (if is_alpha a \<and> is_digit b then Some 1 else map_option Suc (findLetterDigitBoundary (b # s)))"
| "findLetterDigitBoundary _ = None"

fun hasPatchNumber :: "string \<Rightarrow> bool" where
  "hasPatchNumber (a # b # s) = (is_alpha a \<and> is_digit b \<or> hasPatchNumber (b # s))"
| "hasPatchNumber _ = False"

definition comparePatchNumbers :: "string \<Rightarrow> string \<Rightarrow> int" where
  "comparePatchNumbers left right =
     (case (findLetterDigitBoundary left, findLetterDigitBoundary right) of
        (Some leftPos, Some rightPos) \<Rightarrow>
          (let c = strings_Compare (take leftPos left) (take rightPos right) in
           if c \<noteq> 0 then c
           else case (strconv_Atoi (drop leftPos left), strconv_Atoi (drop rightPos right)) of
                  (Some leftNum, Some rightNum) \<Rightarrow>
                    if leftNum < rightNum then -1
                    else if leftNum > rightNum then 1
                    else strings_Compare left right
                | _ \<Rightarrow> strings_Compare left right)
      | _ \<Rightarrow> strings_Compare left right)"

text \<open>One iteration: the parts at the head of both texts, made equally long in their numeric part,
  and how they compare.\<close>

definition comparePart :: "string \<Rightarrow> string \<Rightarrow> int" where
  "comparePart s1 s2 =
     (case (parseVersionParts s1, parseVersionParts s2) of
        ((num1, cmpTo1, _), (num2, cmpTo2, _)) \<Rightarrow>
          let ns1 = (if num1 < num2 then leftPad (take cmpTo1 s1) (num2 - num1) else take cmpTo1 s1);
              ns2 = (if num2 < num1 then leftPad (take cmpTo2 s2) (num1 - num2) else take cmpTo2 s2) in
          if hasPatchNumber ns1 \<and> hasPatchNumber ns2 then comparePatchNumbers ns1 ns2
          else strings_Compare ns1 ns2)"

definition skipPart :: "string \<Rightarrow> string" where
  "skipPart s = (case parseVersionParts s of (_, _, skip) \<Rightarrow> drop skip s)"

lemma skipPart_shorter: "s \<noteq> [] \<Longrightarrow> length (skipPart s) < length s"
  by (cases s) (auto simp: skipPart_def parseVersionParts_def Let_def)

function compareParts :: "string \<Rightarrow> string \<Rightarrow> int" where
  "compareParts s1 s2 =
     (if s1 = [] \<or> s2 = [] then 0
      else let c = comparePart s1 s2 in
           if c \<noteq> 0 then c else compareParts (skipPart s1) (skipPart s2))"
  by pat_completeness auto
termination
  by (relation "measure (\<lambda>(s1, _). length s1)") (auto simp: skipPart_shorter)

declare compareParts.simps [simp del]

definition fuzzyVersionComparison :: "string \<Rightarrow> string \<Rightarrow> int" where
  "fuzzyVersionComparison v1 v2 =
     (let v1 = stripLeadingV v1; v2 = stripLeadingV v2; c = compareParts v1 v2 in
      if c \<noteq> 0 then c
      else if length v1 > length v2 then 1
      else if length v2 > length v1 then -1
      else 0)"

section \<open>The comparison contract\<close>

interpretation patch: three_way comparePatchNumbers
proof
  fix x y
  show "comparePatchNumbers x y \<in> {-1, 0, 1}"
    using str.range by (auto simp: comparePatchNumbers_def Let_def split: option.splits)
  show "comparePatchNumbers x x = 0"
    by (auto simp: comparePatchNumbers_def str.refl split: option.splits)
  show "comparePatchNumbers y x = - comparePatchNumbers x y"
  proof -
    have flip: "strings_Compare b a = - strings_Compare a b" if "a = x \<and> b = y \<or> (\<exists>i j. a = take i x \<and> b = take j y)" for a b
      by (rule str.flip)
    show ?thesis
      using flip [of x y] flip [of "take i x" "take j y" for i j]
      by (auto simp: comparePatchNumbers_def Let_def split: option.splits)
  qed
qed

interpretation part: three_way comparePart
proof
  fix x y
  show "comparePart x y \<in> {-1, 0, 1}"
    using str.range patch.range by (auto simp: comparePart_def Let_def split: prod.splits)
  show "comparePart x x = 0"
    by (auto simp: comparePart_def str.refl patch.refl Let_def split: prod.splits)
  show "comparePart y x = - comparePart x y"
    unfolding comparePart_def Let_def
    by (auto split: prod.splits intro: str.flip patch.flip)
qed

lemma compareParts_flip: "compareParts s2 s1 = - compareParts s1 s2"
proof (induction s1 s2 rule: compareParts.induct)
  case (1 s1 s2)
  then show ?case
    using part.flip [of s1 s2] by (auto simp: compareParts.simps [of s1 s2] compareParts.simps [of s2 s1] Let_def)
qed

lemma compareParts_range: "compareParts s1 s2 \<in> {-1, 0, 1}"
proof (induction s1 s2 rule: compareParts.induct)
  case (1 s1 s2)
  then show ?case
    using part.range [of s1 s2] by (auto simp: compareParts.simps [of s1 s2] Let_def)
qed

lemma compareParts_refl: "compareParts s s = 0"
proof (induction "length s" arbitrary: s rule: less_induct)
  case less
  then show ?case
    by (cases "s = []") (simp_all add: compareParts.simps part.refl skipPart_shorter)
qed

interpretation fuzzy: three_way fuzzyVersionComparison
proof
  fix x y
  show "fuzzyVersionComparison x y \<in> {-1, 0, 1}"
    using compareParts_range [of "stripLeadingV x" "stripLeadingV y"]
    by (auto simp: fuzzyVersionComparison_def Let_def)
  show "fuzzyVersionComparison x x = 0"
    by (simp add: fuzzyVersionComparison_def compareParts_refl)
  show "fuzzyVersionComparison y x = - fuzzyVersionComparison x y"
    using compareParts_flip [of "stripLeadingV x" "stripLeadingV y"]
    by (simp add: fuzzyVersionComparison_def Let_def)
qed

section \<open>Dotted numbers\<close>

lemma digit_not_punct: "is_digit c \<Longrightarrow> \<not> is_punct c"
  by (auto simp: is_digit_def is_punct_def)

lemma dot_punct [simp]: "is_punct (CHR ''.'')"
  by (simp add: is_punct_def byte_val_def)

lemma parse_number_dot:
  "parseVersionParts (show_nat n @ CHR ''.'' # s) =
     (length (show_nat n), length (show_nat n), length (show_nat n) + 1)"
proof -
  have all: "\<forall>c \<in> set (show_nat n). is_digit c" using show_nat_digits [of n] by (simp add: list_all_iff)
  then have "\<forall>c \<in> set (show_nat n). \<not> is_punct c" using digit_not_punct by blast
  with all show ?thesis by (simp add: parseVersionParts_def Let_def takeWhile_append2)
qed

lemma parse_number_end:
  "parseVersionParts (show_nat n) = (length (show_nat n), length (show_nat n), length (show_nat n))"
proof -
  have "takeWhile is_digit (show_nat n) = show_nat n"
    using show_nat_digits [of n] by (simp add: list_all_iff takeWhile_eq_all_conv)
  then have "length (takeWhile is_digit (show_nat n)) = length (show_nat n)" by metis
  then show ?thesis unfolding parseVersionParts_def Let_def by metis
qed

lemma no_patch_digits: "list_all is_digit s \<Longrightarrow> \<not> hasPatchNumber s"
  by (induction s rule: hasPatchNumber.induct) (auto dest: digit_not_alpha)

lemma digits_leftPad: "list_all is_digit s \<Longrightarrow> list_all is_digit (leftPad s n)"
  by (auto simp: leftPad_def list_all_iff is_digit_def byte_val_def)

lemma digits_val_leftPad [simp]: "digits_val (leftPad s n) = digits_val s"
proof (induction n)
  case (Suc n)
  have "digit_val (CHR ''0'') = 0" by (simp add: digit_val_def byte_val_def)
  with Suc show ?case by (simp add: leftPad_def digits_val_Cons)
qed (simp add: leftPad_def)

lemma length_leftPad [simp]: "length (leftPad s n) = n + length s"
  by (simp add: leftPad_def)

definition tail_text :: "nat list \<Rightarrow> string" where
  "tail_text xs = (if xs = [] then [] else CHR ''.'' # dotted xs)"

lemma dotted_Cons: "dotted (x # xs) = show_nat x @ tail_text xs"
  by (cases xs) (simp_all add: dotted_def tail_text_def)

lemma parse_dotted:
  "\<exists>k. parseVersionParts (dotted (x # xs)) = (length (show_nat x), length (show_nat x), k)
     \<and> drop k (dotted (x # xs)) = dotted xs"
  by (cases xs)
    (simp_all add: dotted_Cons tail_text_def parse_number_end parse_number_dot, simp add: dotted_def)

lemma skipPart_dotted: "skipPart (dotted (x # xs)) = dotted xs"
  using parse_dotted [of x xs] by (auto simp: skipPart_def)

lemma comparePart_dotted: "comparePart (dotted (x # xs)) (dotted (y # ys)) = cmp_of x y"
proof -
  let ?a = "show_nat x" and ?b = "show_nat y"
  have part: "take (length (show_nat z)) (dotted (z # zs)) = show_nat z" for z zs
    by (simp add: dotted_Cons)
  have "comparePart (dotted (x # xs)) (dotted (y # ys)) =
      strings_Compare (leftPad ?a (length ?b - length ?a)) (leftPad ?b (length ?a - length ?b))"
    using parse_dotted [of x xs] parse_dotted [of y ys]
    by (auto simp: comparePart_def Let_def part no_patch_digits digits_leftPad show_nat_digits)
      (simp_all add: leftPad_def)
  also have "\<dots> = cmp_of (digits_val ?a) (digits_val ?b)"
    by (subst strings_Compare_digits) (simp_all add: digits_leftPad show_nat_digits)
  finally show ?thesis by simp
qed

lemma length_dotted_Cons:
  "cmp_of (length (dotted (x # xs))) (length (dotted (x # ys))) = cmp_of (length (dotted xs)) (length (dotted ys))"
proof -
  have "dotted (z # zs) \<noteq> []" for z zs by (simp add: dotted_Cons)
  then have "dotted zs \<noteq> []" if "zs \<noteq> []" for zs using that by (cases zs) auto
  then show ?thesis by (auto simp: dotted_Cons tail_text_def cmp_of_def) (auto simp: dotted_def)
qed

lemma compareParts_dotted:
  "(if compareParts (dotted xs) (dotted ys) \<noteq> 0 then compareParts (dotted xs) (dotted ys)
    else cmp_of (length (dotted xs)) (length (dotted ys))) = lexcmp cmp_of xs ys"
proof (induction xs ys rule: list_induct2')
  case (4 x xs y ys)
  have "dotted (z # zs) \<noteq> []" for z zs by (simp add: dotted_Cons)
  then have step: "compareParts (dotted (x # xs)) (dotted (y # ys)) =
      (if cmp_of x y \<noteq> 0 then cmp_of x y else compareParts (dotted xs) (dotted ys))"
    by (simp add: compareParts.simps [of "dotted (x # xs)"] comparePart_dotted skipPart_dotted)
  show ?case
  proof (cases "x = y")
    case True
    with 4 step length_dotted_Cons [of y xs ys] show ?thesis by (auto split: if_splits)
  next
    case False
    with step show ?thesis by simp
  qed
qed (simp_all add: compareParts.simps cmp_of_def dotted_def [of "[]"] dotted_Cons)

lemma stripLeadingV_dotted [simp]: "stripLeadingV (dotted xs) = dotted xs"
proof (cases xs)
  case (Cons x ys)
  obtain c cs where c: "show_nat x = c # cs" by (cases "show_nat x") auto
  with show_nat_hd_digit [of x] have "c \<noteq> CHR ''v''" "c \<noteq> CHR ''V''"
    by (auto simp: is_digit_def byte_val_def)
  with Cons c show ?thesis by (simp add: stripLeadingV_def dotted_Cons)
qed (simp add: dotted_def stripLeadingV_def)

section \<open>Properties\<close>

text \<open>On versions made of numbers and dots, the comparison of versions of unknown format is the
  lexicographic comparison of the numbers, and of two versions one of which continues the other
  the longer one is larger.\<close>

theorem fuzzyVersionComparison_dotted:
  "fuzzyVersionComparison (dotted xs) (dotted ys) = lexcmp cmp_of xs ys"
  using compareParts_dotted [of xs ys] by (auto simp: fuzzyVersionComparison_def Let_def cmp_of_def)

text \<open>C29: for arbitrary texts the comparison returns \<open>-1\<close>, \<open>0\<close> or \<open>1\<close>, gives \<open>0\<close> for a text
  against itself, and exchanging the texts negates the result.\<close>

theorem fuzzyVersionComparison_contract:
  "fuzzyVersionComparison a b \<in> {-1, 0, 1} \<and> fuzzyVersionComparison a a = 0
   \<and> fuzzyVersionComparison b a = - fuzzyVersionComparison a b"
  by (intro conjI fuzzy.range fuzzy.refl fuzzy.flip)

end
