(* ===== verification/Lib_Versions.thy ===== *)
theory Lib_Versions
  imports Fuzzy_Version
begin

text \<open>
  The version schemes that grype implements on top of other modules: \<^verbatim>\<open>semantic_version.go\<close>,
  \<^verbatim>\<open>apk_version.go\<close>, \<^verbatim>\<open>deb_version.go\<close>, \<^verbatim>\<open>bitnami_version.go\<close>, \<^verbatim>\<open>golang_version.go\<close>,
  \<^verbatim>\<open>maven_version.go\<close>, \<^verbatim>\<open>pep440_version.go\<close>, \<^verbatim>\<open>kb_version.go\<close>, \<^verbatim>\<open>jvm_version.go\<close> and
  \<^verbatim>\<open>fuzzy_version.go\<close>.  The modules they call are not part of the repository: the record \<open>libs\<close> holds
  the functions grype calls, and every definition takes such a record.  \<open>'o\<close> is the type of the
  modules' version objects.  The hashicorp objects are pointers: \<^const>\<open>None\<close> is nil, and what the library does on nil is part of the parameter; the zero value of the other object types is a parameter too.
\<close>

record 'o libs =
  hashi_NewVersion :: "string \<Rightarrow> verror + 'o"
  hashi_NewSemver :: "string \<Rightarrow> verror + 'o"
  hashi_Compare :: "'o option \<Rightarrow> 'o option \<Rightarrow> int go"
  hashi_Segments :: "'o \<Rightarrow> int list"
  hashi_NewConstraint :: "string \<Rightarrow> verror + ('o \<Rightarrow> bool)"
  apk_NewVersion :: "string \<Rightarrow> verror + 'o"
  apk_Compare :: "'o \<Rightarrow> 'o \<Rightarrow> int"
  apk_zero :: 'o
  deb_NewVersion :: "string \<Rightarrow> verror + 'o"
  deb_Compare :: "'o \<Rightarrow> 'o \<Rightarrow> int"
  deb_zero :: 'o
  bitnami_Parse :: "string \<Rightarrow> verror + (int \<times> int \<times> int)"
  mvn_NewVersion :: "string \<Rightarrow> verror + 'o"
  mvn_Equal :: "'o \<Rightarrow> 'o \<Rightarrow> bool"
  mvn_LessThan :: "'o \<Rightarrow> 'o \<Rightarrow> bool"
  mvn_GreaterThan :: "'o \<Rightarrow> 'o \<Rightarrow> bool"
  mvn_zero :: 'o
  pep_Parse :: "string \<Rightarrow> verror + 'o"
  pep_Public :: "'o \<Rightarrow> string"
  pep_Local :: "'o \<Rightarrow> string"
  pep_Compare :: "'o \<Rightarrow> 'o \<Rightarrow> int"
  pep_zero :: 'o

section \<open>Semantic versions\<close>

definition trimLeadingV :: "string \<Rightarrow> string" where
  "trimLeadingV raw =
     (case raw of
        c # d # cs \<Rightarrow> if (c = CHR ''v'' \<or> c = CHR ''V'') \<and> is_digit d then d # cs else raw
      | _ \<Rightarrow> raw)"

text \<open>\<^verbatim>\<open>strings.NewReplacer(".alpha", "-alpha", ".beta", "-beta", ".rc", "-rc")\<close>: at each position
  the first old text that fits is replaced.\<close>

function semverPrereleaseNormalizer :: "string \<Rightarrow> string" where
  "semverPrereleaseNormalizer s =
     (case s of
        [] \<Rightarrow> []
      | c # cs \<Rightarrow>
          if strings_HasPrefix s ''.alpha'' then ''-alpha'' @ semverPrereleaseNormalizer (drop 6 s)
          else if strings_HasPrefix s ''.beta'' then ''-beta'' @ semverPrereleaseNormalizer (drop 5 s)
          else if strings_HasPrefix s ''.rc'' then ''-rc'' @ semverPrereleaseNormalizer (drop 3 s)
          else c # semverPrereleaseNormalizer cs)"
  by pat_completeness auto
termination
  by (relation "measure length") auto

declare semverPrereleaseNormalizer.simps [simp del]

definition versionStartsWithV :: re where
  "versionStartsWithV = Seq Bol (Seq (Cls (\<lambda>c. c = CHR ''v'' \<or> c = CHR ''V'')) (Plus (Cls is_digit)))"

record 'o semanticVersion =
  sem_obj :: "'o option"

definition newSemanticVersion :: "'o libs \<Rightarrow> string \<Rightarrow> bool \<Rightarrow> verror + 'o semanticVersion" where
  "newSemanticVersion L raw strict =
     (let clean = semverPrereleaseNormalizer raw;
          parsed = (if strict
                    then hashi_NewSemver L (if regexp_MatchString versionStartsWithV clean
                                            then trimLeadingV clean else clean)
                    else hashi_NewVersion L (trimLeadingV clean)) in
      case parsed of
        Inl err \<Rightarrow> Inl (invalidFormatError SemanticFormat raw err)
      | Inr verObj \<Rightarrow> Inr \<lparr>sem_obj = Some verObj\<rparr>)"

definition semanticVersion_Compare ::
  "'o libs \<Rightarrow> 'o semanticVersion \<Rightarrow> string option \<Rightarrow> cmp_result go" where
  "semanticVersion_Compare L v other =
     (case other of
        None \<Rightarrow> Some (-1, Some ErrNoVersionProvided)
      | Some raw \<Rightarrow>
          (case newSemanticVersion L raw False of
             Inl err \<Rightarrow> Some (0, Some err)
           | Inr w \<Rightarrow> map_option (\<lambda>c. (c, None)) (hashi_Compare L (sem_obj v) (sem_obj w))))"

section \<open>Alpine and Debian versions\<close>

record 'o apkVersion =
  apk_obj :: 'o

definition newApkVersion :: "'o libs \<Rightarrow> string \<Rightarrow> verror + 'o apkVersion" where
  "newApkVersion L raw =
     (case apk_NewVersion L (trimLeadingV raw) of
        Inl err \<Rightarrow> Inl (invalidFormatError ApkFormat raw err)
      | Inr ver \<Rightarrow> Inr \<lparr>apk_obj = ver\<rparr>)"

definition apkVersion_Compare :: "'o libs \<Rightarrow> 'o apkVersion \<Rightarrow> string option \<Rightarrow> cmp_result" where
  "apkVersion_Compare L v other =
     (case other of
        None \<Rightarrow> (-1, Some ErrNoVersionProvided)
      | Some raw \<Rightarrow>
          (case newApkVersion L raw of
             Inl err \<Rightarrow> (-1, Some err)
           | Inr w \<Rightarrow> (apk_Compare L (apk_obj v) (apk_obj w), None)))"

record 'o debVersion =
  deb_obj :: 'o
  deb_epoch :: "int option"
  deb_raw :: string

definition extractDebEpoch :: "string \<Rightarrow> int option" where
  "extractDebEpoch raw =
     (case strings_Cut raw '':'' of None \<Rightarrow> None | Some (b, _) \<Rightarrow> strconv_Atoi b)"

definition newDebVersion :: "'o libs \<Rightarrow> string \<Rightarrow> verror + 'o debVersion" where
  "newDebVersion L raw =
     (case deb_NewVersion L raw of
        Inl err \<Rightarrow> Inl (invalidFormatError DebFormat raw err)
      | Inr ver \<Rightarrow> Inr \<lparr>deb_obj = ver, deb_epoch = extractDebEpoch raw, deb_raw = raw\<rparr>)"

definition normalizeComparison :: "int \<Rightarrow> int" where
  "normalizeComparison c = (if c < 0 then -1 else if c > 0 then 1 else 0)"

definition debVersion_Compare :: "'o libs \<Rightarrow> 'o debVersion \<Rightarrow> string option \<Rightarrow> cmp_result" where
  "debVersion_Compare L v other =
     (case other of
        None \<Rightarrow> (-1, Some ErrNoVersionProvided)
      | Some raw \<Rightarrow>
          (case newDebVersion L raw of
             Inl err \<Rightarrow> (0, Some err)
           | Inr w \<Rightarrow> (deb_Compare L (deb_obj v) (deb_obj w), None)))"

definition debVersion_CompareWithConfig ::
  "'o libs \<Rightarrow> 'o debVersion \<Rightarrow> string option \<Rightarrow> ComparisonConfig \<Rightarrow> cmp_result" where
  "debVersion_CompareWithConfig L v other cfg =
     (case other of
        None \<Rightarrow> (-1, Some ErrNoVersionProvided)
      | Some raw \<Rightarrow>
          (case newDebVersion L raw of
             Inl err \<Rightarrow> (0, Some err)
           | Inr w \<Rightarrow>
               (case (cfg_MissingEpochStrategy cfg, deb_epoch v, deb_epoch w) of
                  (MissingEpochStrategyAuto, None, Some e) \<Rightarrow>
                    (case deb_NewVersion L (strconv_Itoa e @ '':'' @ deb_raw v) of
                       Inl _ \<Rightarrow> (normalizeComparison (deb_Compare L (deb_obj v) (deb_obj w)), None)
                     | Inr vWithEpoch \<Rightarrow>
                         (normalizeComparison (deb_Compare L vWithEpoch (deb_obj w)), None))
                | _ \<Rightarrow> (normalizeComparison (deb_Compare L (deb_obj v) (deb_obj w)), None))))"

section \<open>Bitnami, Go and Maven versions\<close>

record 'o bitnamiVersion =
  bitnami_obj :: "'o option"

definition newBitnamiVersion :: "'o libs \<Rightarrow> string \<Rightarrow> verror + 'o bitnamiVersion" where
  "newBitnamiVersion L raw =
     (let finish = (\<lambda>raw'. case hashi_NewVersion L raw' of
                        Inl err \<Rightarrow> Inl (invalidFormatError BitnamiFormat raw' err)
                      | Inr verObj \<Rightarrow> Inr \<lparr>bitnami_obj = Some verObj\<rparr>) in
      case bitnami_Parse L raw of
        Inl fmtErr \<Rightarrow>
          (case hashi_NewVersion L raw of
             Inl _ \<Rightarrow> Inl (invalidFormatError BitnamiFormat raw fmtErr)
           | Inr verObj \<Rightarrow> finish (strings_Join (map strconv_Itoa (hashi_Segments L verObj)) ''.''))
      | Inr (major, minor, patch) \<Rightarrow>
          finish (strconv_Itoa major @ ''.'' @ strconv_Itoa minor @ ''.'' @ strconv_Itoa patch))"

definition bitnamiVersion_Compare ::
  "'o libs \<Rightarrow> 'o bitnamiVersion \<Rightarrow> string option \<Rightarrow> cmp_result go" where
  "bitnamiVersion_Compare L v other =
     (case other of
        None \<Rightarrow> Some (-1, Some ErrNoVersionProvided)
      | Some raw \<Rightarrow>
          (case newBitnamiVersion L raw of
             Inl err \<Rightarrow> Some (0, Some err)
           | Inr w \<Rightarrow> map_option (\<lambda>c. (c, None)) (hashi_Compare L (bitnami_obj v) (bitnami_obj w))))"

record 'o golangVersion =
  go_raw :: string
  go_obj :: "'o option"

definition newGolangVersion :: "'o libs \<Rightarrow> string \<Rightarrow> verror + 'o golangVersion" where
  "newGolangVersion L v =
     (if v = ''(devel)'' then Inl ErrUnsupportedVersion
      else
        let trimmed = strings_TrimPrefix v ''go'';
            fixedUp = (case strings_Cut trimmed ''+'' of
                         None \<Rightarrow> trimmed
                       | Some (b, a) \<Rightarrow> b @ ''+'' @ replace_char (CHR ''+'') ''.'' a) in
        case hashi_NewSemver L fixedUp of
          Inl err \<Rightarrow> Inl err
        | Inr semver \<Rightarrow> Inr \<lparr>go_raw = v, go_obj = Some semver\<rparr>)"

definition golangVersion_compare :: "'o libs \<Rightarrow> 'o golangVersion \<Rightarrow> 'o golangVersion \<Rightarrow> int go" where
  "golangVersion_compare L v w =
     (case (go_obj v, go_obj w) of
        (Some a, Some b) \<Rightarrow> hashi_Compare L (Some a) (Some b)
      | (Some _, None) \<Rightarrow> Some 1
      | (None, Some _) \<Rightarrow> Some (-1)
      | (None, None) \<Rightarrow> Some (strings_Compare (go_raw v) (go_raw w)))"

definition golangVersion_Compare ::
  "'o libs \<Rightarrow> 'o golangVersion \<Rightarrow> string option \<Rightarrow> cmp_result go" where
  "golangVersion_Compare L v other =
     (case other of
        None \<Rightarrow> Some (-1, Some ErrNoVersionProvided)
      | Some raw \<Rightarrow>
          (case newGolangVersion L raw of
             Inl err \<Rightarrow> Some (0, Some err)
           | Inr w \<Rightarrow>
               if go_raw w = go_raw v then Some (0, None)
               else if go_raw w = ''(devel)'' then Some (-1, Some (Msg ''cannot compare a non-development version with a default development version''))
               else map_option (\<lambda>c. (c, None)) (golangVersion_compare L v w)))"

text \<open>\<^verbatim>\<open>(?i)\.(jre|jdk)\d+$\<close>, with the case folding of ASCII letters.\<close>

definition Chr_fold :: "char \<Rightarrow> re" where
  "Chr_fold c = Cls (\<lambda>d. to_lower d = c)"

definition javaRuntimeQualifierPattern :: re where
  "javaRuntimeQualifierPattern =
     Seq (Chr (CHR ''.''))
      (Seq (Grp 1 (Alt (Seq (Chr_fold (CHR ''j'')) (Seq (Chr_fold (CHR ''r'')) (Chr_fold (CHR ''e''))))
                       (Seq (Chr_fold (CHR ''j'')) (Seq (Chr_fold (CHR ''d'')) (Chr_fold (CHR ''k''))))))
      (Seq (Plus (Cls is_digit)) Eol))"

text \<open>\<^verbatim>\<open>ReplaceAllString(version, "")\<close>: the pattern matches only up to the end of the text, so there is
  at most one match.\<close>

definition stripJavaRuntimeQualifier :: "string \<Rightarrow> string" where
  "stripJavaRuntimeQualifier version =
     (case regexp_Find javaRuntimeQualifierPattern version of
        None \<Rightarrow> version
      | Some m \<Rightarrow> m_before m @ m_after m)"

record 'o mavenVersion =
  mvn_raw :: string
  mvn_obj :: 'o

definition newMavenVersion :: "'o libs \<Rightarrow> string \<Rightarrow> verror + 'o mavenVersion" where
  "newMavenVersion L raw =
     (case mvn_NewVersion L (stripJavaRuntimeQualifier raw) of
        Inl err \<Rightarrow> Inl (Wrap ''could not generate new java version'' err)
      | Inr ver \<Rightarrow> Inr \<lparr>mvn_raw = raw, mvn_obj = ver\<rparr>)"

definition mavenVersion_compare :: "'o libs \<Rightarrow> 'o mavenVersion \<Rightarrow> 'o \<Rightarrow> cmp_result" where
  "mavenVersion_compare L v other =
     (if mvn_Equal L (mvn_obj v) other then (0, None)
      else if mvn_LessThan L (mvn_obj v) other then (-1, None)
      else if mvn_GreaterThan L (mvn_obj v) other then (1, None)
      else (-1, Some (Msg ''could not compare java versions'')))"

definition mavenVersion_Compare :: "'o libs \<Rightarrow> 'o mavenVersion \<Rightarrow> string option \<Rightarrow> cmp_result" where
  "mavenVersion_Compare L v other =
     (case other of
        None \<Rightarrow> (-1, Some (Msg ''cannot compare nil version''))
      | Some raw \<Rightarrow>
          (case newMavenVersion L raw of
             Inl err \<Rightarrow> (0, Some err)
           | Inr w \<Rightarrow> mavenVersion_compare L v (mvn_obj w)))"

section \<open>Python and KB versions\<close>

record 'o pep440Version =
  pep_public :: 'o
  pep_full :: 'o

definition newPep440Version :: "'o libs \<Rightarrow> string \<Rightarrow> verror + 'o pep440Version" where
  "newPep440Version L raw =
     (case pep_Parse L raw of
        Inl err \<Rightarrow> Inl (invalidFormatError SemanticFormat raw err)
      | Inr parsed \<Rightarrow>
          (case pep_Parse L (pep_Public L parsed) of
             Inl err \<Rightarrow> Inl (invalidFormatError SemanticFormat raw err)
           | Inr public \<Rightarrow> Inr \<lparr>pep_public = public, pep_full = parsed\<rparr>))"

definition pep440Version_Compare :: "'o libs \<Rightarrow> 'o pep440Version \<Rightarrow> string option \<Rightarrow> cmp_result" where
  "pep440Version_Compare L v other =
     (case other of
        None \<Rightarrow> (-1, Some ErrNoVersionProvided)
      | Some raw \<Rightarrow>
          (case newPep440Version L raw of
             Inl err \<Rightarrow> (0, Some err)
           | Inr w \<Rightarrow>
               let result = pep_Compare L (pep_public v) (pep_public w) in
               if result \<noteq> 0 then (result, None)
               else if pep_Local L (pep_full w) = [] then (0, None)
               else (pep_Compare L (pep_full v) (pep_full w), None)))"

record kbVersion =
  kb_version :: string

definition newKBVersion :: "string \<Rightarrow> kbVersion" where
  "newKBVersion raw = \<lparr>kb_version = raw\<rparr>"

definition kbVersion_compare :: "kbVersion \<Rightarrow> kbVersion \<Rightarrow> int" where
  "kbVersion_compare v w = (if v = w then 0 else 1)"

definition kbVersion_Compare :: "kbVersion \<Rightarrow> string option \<Rightarrow> cmp_result" where
  "kbVersion_Compare v other =
     (case other of
        None \<Rightarrow> (-1, Some ErrNoVersionProvided)
      | Some raw \<Rightarrow> (kbVersion_compare v (newKBVersion raw), None))"

section \<open>Java runtime versions\<close>

definition re_update :: "nat \<Rightarrow> nat \<Rightarrow> nat \<Rightarrow> nat \<Rightarrow> re" where
  "re_update g1 g2 g3 g4 =
     Opt (Grp g1 (Seq (Cls (\<lambda>c. c = CHR ''_'' \<or> c = CHR ''-''))
            (Seq (Opt (Grp g2 (Lit ''update'')))
            (Seq (Opt (Grp g3 (Chr (CHR ''_''))))
                 (Grp g4 (Plus (Cls is_digit)))))))"

definition re_pre_build :: "nat \<Rightarrow> nat \<Rightarrow> nat \<Rightarrow> nat \<Rightarrow> re" where
  "re_pre_build g1 g2 g3 g4 =
     Seq (Opt (Grp g1 (Seq (Chr (CHR ''-''))
            (Grp g2 (Seq (Cls (\<lambda>c. c \<noteq> CHR ''b'')) (Plus (Cls (\<lambda>c. c \<noteq> CHR ''-''))))))))
         (Opt (Grp g3 (Seq (Lit ''-b'') (Grp g4 (Plus (Cls is_digit))))))"

definition preJep223VersionPattern :: re where
  "preJep223VersionPattern =
     Seq Bol (Seq (Lit ''1.'') (Seq (Grp 1 (Plus (Cls is_digit)))
       (Opt (Grp 2 (Seq (Chr (CHR ''.'')) (Seq (Grp 3 (Plus (Cls is_digit)))
          (Seq (re_update 4 5 6 7) (re_pre_build 8 9 10 11))))))))"

definition nonCompliantSemverIsh :: re where
  "nonCompliantSemverIsh =
     Seq Bol (Seq (Grp 1 (Plus (Cls is_digit)))
       (Opt (Grp 2 (Seq (Chr (CHR ''.'')) (Seq (Grp 3 (Plus (Cls is_digit)))
          (Seq (Opt (Grp 4 (Seq (Chr (CHR ''.'')) (Grp 5 (Plus (Cls is_digit))))))
          (Seq (re_update 6 7 8 9) (re_pre_build 10 11 12 13))))))))"

definition trim0sFromLeft :: "string \<Rightarrow> string" where
  "trim0sFromLeft v = (if v = ''0'' then v else trim_left (\<lambda>c. c = CHR ''0'') v)"

definition buildSemVer :: "string \<Rightarrow> string \<Rightarrow> string \<Rightarrow> string \<Rightarrow> string \<Rightarrow> string" where
  "buildSemVer majorVersion minorVersion patchVersion preRelease build =
     (let minorVersion = (if minorVersion = [] then ''0'' else minorVersion);
          segs = [majorVersion, minorVersion] @ (if patchVersion \<noteq> [] then [patchVersion] else []) in
      strings_Join segs ''.''
      @ (if preRelease \<noteq> [] then ''-'' @ preRelease else [])
      @ (if build \<noteq> [] then ''+'' @ build else []))"

text \<open>Both patterns are anchored at the start and their \<^verbatim>\<open>major\<close> group is never empty, so
  \<^verbatim>\<open>MatchNamedCaptureGroups\<close> returns the groups of the only match, and an empty map when there is
  none.\<close>

definition convertPreJep223Version :: "string \<Rightarrow> string" where
  "convertPreJep223Version version =
     (let version = strings_TrimSpace version in
      case regexp_Find preJep223VersionPattern version of
        None \<Rightarrow> version
      | Some m \<Rightarrow>
          let majorVersion = trim0sFromLeft (submatch m 1);
              minorVersion = trim0sFromLeft (submatch m 3);
              patchVersion = trim0sFromLeft (submatch m 7);
              preRelease = trim0sFromLeft (submatch m 9);
              build = trim0sFromLeft (submatch m 11) in
          buildSemVer majorVersion minorVersion
            (if patchVersion = [] then ''0'' else patchVersion) preRelease build)"

definition convertNonCompliantSemver :: "string \<Rightarrow> string" where
  "convertNonCompliantSemver version =
     (case regexp_Find nonCompliantSemverIsh version of
        None \<Rightarrow> version
      | Some m \<Rightarrow>
          let majorVersion = trim0sFromLeft (submatch m 1);
              minorVersion = trim0sFromLeft (submatch m 3);
              patchVersion = trim0sFromLeft (submatch m 5);
              update = trim0sFromLeft (submatch m 9);
              preRelease = trim0sFromLeft (submatch m 11);
              build = trim0sFromLeft (submatch m 13) in
          buildSemVer majorVersion minorVersion
            (if (patchVersion = [] \<or> patchVersion = ''0'') \<and> update \<noteq> [] then update else patchVersion)
            preRelease build)"

record 'o jvmVersion =
  jvm_isPreJep223 :: bool
  jvm_semVer :: "'o option"

definition newJvmVersion :: "'o libs \<Rightarrow> string \<Rightarrow> verror + 'o jvmVersion" where
  "newJvmVersion L raw =
     (let isPreJep233 = strings_HasPrefix raw ''1.'';
          raw' = (if isPreJep233 then convertPreJep223Version raw else convertNonCompliantSemver raw) in
      case hashi_NewVersion L raw' of
        Inl err \<Rightarrow> Inl (invalidFormatError JVMFormat raw' err)
      | Inr verObj \<Rightarrow> Inr \<lparr>jvm_isPreJep223 = isPreJep233, jvm_semVer = Some verObj\<rparr>)"

definition jvmVersion_Compare :: "'o libs \<Rightarrow> 'o jvmVersion \<Rightarrow> string option \<Rightarrow> cmp_result go" where
  "jvmVersion_Compare L v other =
     (case other of
        None \<Rightarrow> Some (-1, Some ErrNoVersionProvided)
      | Some raw \<Rightarrow>
          (case newJvmVersion L raw of
             Inl err \<Rightarrow> Some (0, Some err)
           | Inr w \<Rightarrow> map_option (\<lambda>c. (c, None)) (hashi_Compare L (jvm_semVer v) (jvm_semVer w))))"

section \<open>Versions of unknown format\<close>

record 'o fuzzyVersion =
  fuzzy_semVer :: "'o semanticVersion option"
  fuzzy_raw :: string

definition newFuzzySemver :: "'o libs \<Rightarrow> string \<Rightarrow> 'o semanticVersion option" where
  "newFuzzySemver L raw =
     (if regexp_MatchString pseudoSemverPattern raw
      then (case newSemanticVersion L raw False of Inl _ \<Rightarrow> None | Inr candidate \<Rightarrow> Some candidate)
      else None)"

definition newFuzzyVersion :: "'o libs \<Rightarrow> string \<Rightarrow> 'o fuzzyVersion" where
  "newFuzzyVersion L raw = \<lparr>fuzzy_semVer = newFuzzySemver L raw, fuzzy_raw = raw\<rparr>"

definition fuzzyVersion_Compare :: "'o libs \<Rightarrow> 'o fuzzyVersion \<Rightarrow> string option \<Rightarrow> cmp_result go" where
  "fuzzyVersion_Compare L v other =
     (case other of
        None \<Rightarrow> Some (-1, Some ErrNoVersionProvided)
      | Some raw \<Rightarrow>
          (case (newFuzzySemver L raw, fuzzy_semVer v) of
             (Some semver, Some vsem) \<Rightarrow>
               (if sem_obj vsem \<noteq> None \<and> sem_obj semver \<noteq> None
                then map_option (\<lambda>c. (c, None)) (hashi_Compare L (sem_obj vsem) (sem_obj semver))
                else Some (fuzzyVersionComparison (fuzzy_raw v) raw, None))
           | _ \<Rightarrow> Some (fuzzyVersionComparison (fuzzy_raw v) raw, None)))"

section \<open>A concrete instance of the parameters\<close>

text \<open>Texts as version objects: a text that starts with a digit parses to itself, and objects are compared
  by \<open>fuzzyVersionComparison\<close>.  It serves the evaluation of definitions on concrete versions.\<close>

definition text_NewVersion :: "string \<Rightarrow> verror + string" where
  "text_NewVersion s = (case s of [] \<Rightarrow> Inl (LibError ''empty'')
     | c # _ \<Rightarrow> if is_digit c then Inr s else Inl (LibError ''malformed''))"

definition text_libs :: "string libs" where
  "text_libs =
     \<lparr>hashi_NewVersion = text_NewVersion, hashi_NewSemver = text_NewVersion,
      hashi_Compare = (\<lambda>a b. case (a, b) of
          (Some x, Some y) \<Rightarrow> Some (fuzzyVersionComparison x y) | _ \<Rightarrow> None),
      hashi_Segments = (\<lambda>s. map (int \<circ> digits_val) (split_char (CHR ''.'') s)),
      hashi_NewConstraint = (\<lambda>s. Inl (LibError ''unsupported'')),
      apk_NewVersion = text_NewVersion, apk_Compare = fuzzyVersionComparison, apk_zero = [],
      deb_NewVersion = text_NewVersion, deb_Compare = fuzzyVersionComparison, deb_zero = [],
      bitnami_Parse = (\<lambda>s. Inl (LibError ''unsupported'')),
      mvn_NewVersion = text_NewVersion,
      mvn_Equal = (\<lambda>a b. fuzzyVersionComparison a b = 0),
      mvn_LessThan = (\<lambda>a b. fuzzyVersionComparison a b < 0),
      mvn_GreaterThan = (\<lambda>a b. fuzzyVersionComparison a b > 0), mvn_zero = [],
      pep_Parse = text_NewVersion,
      pep_Public = (\<lambda>s. takeWhile (\<lambda>c. c \<noteq> CHR ''+'') s),
      pep_Local = (\<lambda>s. drop 1 (dropWhile (\<lambda>c. c \<noteq> CHR ''+'') s)),
      pep_Compare = fuzzyVersionComparison, pep_zero = []\<rparr>"

section \<open>The Java qualifier\<close>

text \<open>A qualifier: a dot, \<open>jre\<close> or \<open>jdk\<close> in any case, and digits.\<close>

definition java_qualifier :: "string \<Rightarrow> bool" where
  "java_qualifier q \<longleftrightarrow>
     (\<exists>a b c ds. q = CHR ''.'' # a # b # c # ds
        \<and> (strings_ToLower [a, b, c] = ''jre'' \<or> strings_ToLower [a, b, c] = ''jdk'')
        \<and> ds \<noteq> [] \<and> list_all is_digit ds)"

definition java_pattern_body :: re where
  "java_pattern_body =
     Seq (Chr (CHR ''.''))
      (Seq (Grp 1 (Alt (Seq (Chr_fold (CHR ''j'')) (Seq (Chr_fold (CHR ''r'')) (Chr_fold (CHR ''e''))))
                       (Seq (Chr_fold (CHR ''j'')) (Seq (Chr_fold (CHR ''d'')) (Chr_fold (CHR ''k''))))))
           (Plus (Cls is_digit)))"

lemma re_all_java: "re_all javaRuntimeQualifierPattern st = filter (\<lambda>st. re_rest st = []) (re_all java_pattern_body st)"
proof -
  have eol: "concat (map (re_all Eol) xs) = filter (\<lambda>st. re_rest st = []) xs" for xs
    by (induction xs) auto
  have seq: "re_all r = re_all r' \<Longrightarrow> re_all (Seq r1 r) = re_all (Seq r1 r')" for r1 r r'
    by (rule ext) simp
  have "re_all javaRuntimeQualifierPattern = re_all (Seq java_pattern_body Eol)"
    unfolding javaRuntimeQualifierPattern_def java_pattern_body_def
    by (subst re_all_Seq_assoc [symmetric], rule seq, rule re_all_Seq_assoc)
  then show ?thesis by (simp add: eol)
qed

lemma lang_java: "lang java_pattern_body q \<longleftrightarrow> java_qualifier q"
proof
  show "lang java_pattern_body q \<Longrightarrow> java_qualifier q"
    unfolding java_pattern_body_def java_qualifier_def
    by (auto simp: Chr_def Chr_fold_def lang_Plus_Cls strings_ToLower_def)
  assume "java_qualifier q"
  then obtain a b c ds where q: "q = [CHR ''.''] @ ([a] @ [b] @ [c]) @ ds" "ds \<noteq> []" "list_all is_digit ds"
    and abc: "strings_ToLower [a, b, c] = ''jre'' \<or> strings_ToLower [a, b, c] = ''jdk''"
    by (auto simp: java_qualifier_def)
  have three: "to_lower a = x \<Longrightarrow> to_lower b = y \<Longrightarrow> to_lower c = z \<Longrightarrow>
      lang (Seq (Chr_fold x) (Seq (Chr_fold y) (Chr_fold z))) ([a] @ [b] @ [c])" for x y z
    by (intro lang_Seq) (simp_all add: Chr_fold_def)
  have "lang (Alt (Seq (Chr_fold (CHR ''j'')) (Seq (Chr_fold (CHR ''r'')) (Chr_fold (CHR ''e''))))
      (Seq (Chr_fold (CHR ''j'')) (Seq (Chr_fold (CHR ''d'')) (Chr_fold (CHR ''k''))))) ([a] @ [b] @ [c])"
    using abc by (auto simp only: strings_ToLower_def list.map list.inject intro: lang_Alt1 lang_Alt2 three)
  then show "lang java_pattern_body q"
    unfolding java_pattern_body_def q(1) using q(2,3)
    by (intro lang_Seq lang_Grp) (simp_all add: Chr_def lang_Plus_Cls)
qed

lemma java_matches_iff: "re_all javaRuntimeQualifierPattern (b, [], s) \<noteq> [] \<longleftrightarrow> java_qualifier s"
proof
  assume "re_all javaRuntimeQualifierPattern (b, [], s) \<noteq> []"
  then obtain st where "st \<in> set (re_all java_pattern_body (b, [], s))" "re_rest st = []"
    by (auto simp: re_all_java filter_empty_conv)
  with re_all_sound [of st java_pattern_body "(b, [], s)"] show "java_qualifier s"
    by (auto simp: lang_java)
next
  assume "java_qualifier s"
  moreover have "anchor_free java_pattern_body" by (simp add: java_pattern_body_def Chr_fold_def)
  ultimately show "re_all javaRuntimeQualifierPattern (b, [], s) \<noteq> []"
    using re_all_complete [of java_pattern_body s "(b, [], s)" "[]"]
    by (auto simp: re_all_java filter_empty_conv lang_java)
qed

lemma java_match_all: "st \<in> set (re_all javaRuntimeQualifierPattern st0) \<Longrightarrow> re_rest st = []"
  by (simp add: re_all_java)

lemma digits_no_dot: "list_all is_digit ds \<Longrightarrow> CHR ''.'' \<notin> set ds"
  by (induction ds) auto

lemma qualifier_dots: "java_qualifier (c # s) \<Longrightarrow> CHR ''.'' \<notin> set s"
proof -
  have "to_lower (CHR ''.'') = CHR ''.''"
    by (simp add: to_lower_def is_upper_def byte_val_def)
  then show "java_qualifier (c # s) \<Longrightarrow> CHR ''.'' \<notin> set s"
    by (auto simp: java_qualifier_def strings_ToLower_def digits_no_dot)
qed

lemma strip_qualifier_find:
  assumes "java_qualifier q"
  shows "\<exists>m. re_find javaRuntimeQualifierPattern b (v @ q) = Some m \<and> m_before m = v \<and> m_after m = []"
proof (induction v arbitrary: b)
  case Nil
  from assms java_matches_iff [of b q] obtain st ms where
    all: "re_all javaRuntimeQualifierPattern (b, [], q) = st # ms" by (cases "re_all javaRuntimeQualifierPattern (b, [], q)") auto
  obtain b' cs rest where st: "st = (b', cs, rest)" by (cases st)
  have "re_rest st = []" by (rule java_match_all [of st "(b, [], q)"]) (simp add: all)
  with st have "rest = []" by simp
  with re_find_hit [OF all [unfolded st]] show ?case by simp
next
  case (Cons c v)
  from assms obtain q' where "q = CHR ''.'' # q'" by (auto simp: java_qualifier_def)
  then have "\<not> java_qualifier ((c # v) @ q)" using qualifier_dots [of c "v @ q"] by auto
  with java_matches_iff [of b "(c # v) @ q"] have "re_all javaRuntimeQualifierPattern (b, [], c # v @ q) = []" by auto
  from re_find_miss [OF this] Cons.IH [of False] show ?case by auto
qed

section \<open>Java runtime versions\<close>

lemma trim0s_numeral: "trim0sFromLeft (show_nat n) = show_nat n"
proof (cases "n = 0")
  case True
  then show ?thesis by (simp add: trim0sFromLeft_def show_nat.simps digit_char_0)
next
  case False
  then have "hd (show_nat n) \<noteq> CHR ''0''"
    using hd_show_nat [of n] by (metis digit_char_0 digit_val_digit_char zero_less_numeral)
  then show ?thesis by (cases "show_nat n") (auto simp: trim0sFromLeft_def trim_left_def)
qed

lemma trim0s_padded: "n \<noteq> 0 \<Longrightarrow> trim0sFromLeft (replicate k (CHR ''0'') @ show_nat n) = show_nat n"
proof -
  assume n: "n \<noteq> 0"
  then have hd: "hd (show_nat n) \<noteq> CHR ''0''"
    using hd_show_nat [of n] by (metis digit_char_0 digit_val_digit_char zero_less_numeral)
  then have "replicate k (CHR ''0'') @ show_nat n \<noteq> ''0''"
    by (cases k; cases "show_nat n") auto
  moreover have "dropWhile (\<lambda>c. c = CHR ''0'') (replicate k (CHR ''0'') @ show_nat n) = show_nat n"
    using hd by (induction k) (cases "show_nat n", auto)
  ultimately show ?thesis by (simp add: trim0sFromLeft_def trim_left_def)
qed

lemma digits_run: "n = show_nat k \<Longrightarrow> s = [] \<or> \<not> is_digit (hd s) \<Longrightarrow>
   re_first (Plus (Cls is_digit)) (b, cs, n @ s) (False, cs, s)"
  using show_nat_digits [of k] by (intro first_Plus_run) auto

lemma digits_group: "n = show_nat k \<Longrightarrow> s = [] \<or> \<not> is_digit (hd s) \<Longrightarrow>
   re_first (Grp i (Plus (Cls is_digit))) (b, cs, n @ s) (False, (i, n) # cs, s)"
  using first_Grp [OF digits_run [of n k s b cs], of i] by simp

lemma not_digit_sep [simp]: "\<not> is_digit (CHR ''_'')" "\<not> is_digit (CHR ''-'')"
  by (simp_all add: is_digit_def byte_val_def)

lemma find_update_build:
  assumes "bd \<noteq> []" "list_all is_digit bd"
  shows "\<exists>m. regexp_Find preJep223VersionPattern
      (''1.'' @ show_nat x @ ''.'' @ show_nat y @ ''_'' @ show_nat z @ ''-b'' @ bd) = Some m
    \<and> submatch m 1 = show_nat x \<and> submatch m 3 = show_nat y \<and> submatch m 7 = show_nat z
    \<and> submatch m 9 = [] \<and> submatch m 11 = bd"
proof -
  let ?s4 = "''-b'' @ bd"
  let ?s3 = "''_'' @ show_nat z @ ?s4"
  let ?s2 = "''.'' @ show_nat y @ ?s3"
  let ?s1 = "''1.'' @ show_nat x @ ?s2"
  let ?c1 = "[(1, show_nat x)]" let ?c3 = "(3, show_nat y) # ?c1"
  let ?c7 = "(7, show_nat z) # ?c3" let ?c4 = "(4, ''_'' @ show_nat z) # ?c7"
  let ?c11 = "(11, bd) # ?c4" let ?c10 = "(10, ''-b'' @ bd) # ?c11"
  let ?c2 = "(2, ?s2) # ?c10"
  have head: "re_first (Lit ''1.'') (True, [], ?s1) (False, [], show_nat x @ ?s2)"
    using first_Lit [of "''1.''" True "[]" "show_nat x @ ?s2"] by simp
  have major: "re_first (Grp 1 (Plus (Cls is_digit))) (False, [], show_nat x @ ?s2) (False, ?c1, ?s2)"
    by (rule digits_group [OF refl]) simp
  have dot: "re_first (Chr (CHR ''.'')) (False, ?c1, ?s2) (False, ?c1, show_nat y @ ?s3)"
    using first_Chr [of "CHR ''.''" False ?c1 "show_nat y @ ?s3"] by simp
  have minor: "re_first (Grp 3 (Plus (Cls is_digit))) (False, ?c1, show_nat y @ ?s3) (False, ?c3, ?s3)"
    by (rule digits_group [OF refl]) simp
  obtain d ds where z: "show_nat z = d # ds" "is_digit d"
    using show_nat_hd_digit [of z] by (cases "show_nat z") auto
  then have "d \<noteq> CHR ''u''" "d \<noteq> CHR ''_''" by (auto simp: is_digit_def byte_val_def)
  then have no_lit: "re_all (Grp 5 (Lit ''update'')) (False, ?c3, show_nat z @ ?s4) = []"
    "re_all (Grp 6 (Chr (CHR ''_''))) (False, ?c3, show_nat z @ ?s4) = []"
    by (simp_all add: z Chr_def)
  have sep: "re_first (Cls (\<lambda>c. c = CHR ''_'' \<or> c = CHR ''-'')) (False, ?c3, ?s3) (False, ?c3, show_nat z @ ?s4)"
    using first_Cls [of "\<lambda>c. c = CHR ''_'' \<or> c = CHR ''-''" "CHR ''_''" False ?c3 "show_nat z @ ?s4"] by simp
  have patch: "re_first (Grp 7 (Plus (Cls is_digit))) (False, ?c3, show_nat z @ ?s4) (False, ?c7, ?s4)"
    by (rule digits_group [OF refl]) simp
  have "re_first (re_update 4 5 6 7) (False, ?c3, ?s3) (False, (4, take (length ?s3 - length ?s4) ?s3) # ?c7, ?s4)"
    unfolding re_update_def
    by (intro first_Opt first_Grp first_Seq [OF sep first_Seq [OF first_Opt_none [OF no_lit(1)]
          first_Seq [OF first_Opt_none [OF no_lit(2)] patch]]])
  then have update: "re_first (re_update 4 5 6 7) (False, ?c3, ?s3) (False, ?c4, ?s4)" by simp
  have "re_first (Grp 11 (Plus (Cls is_digit))) (False, ?c4, bd) (False, ?c11, [])"
    using first_Grp [OF first_Plus_run [of bd is_digit "[]" False ?c4], of 11] assms by simp
  then have "re_first (Grp 10 (Seq (Lit ''-b'') (Grp 11 (Plus (Cls is_digit))))) (False, ?c4, ?s4) (False, ?c10, [])"
    using first_Grp [OF first_Seq [OF first_Lit [of "''-b''" False ?c4 bd]], of "Grp 11 (Plus (Cls is_digit))" False ?c11 "[]" 10]
    by simp
  moreover have "re_all (Grp 8 (Seq (Chr (CHR ''-'')) (Grp 9 (Seq (Cls (\<lambda>c. c \<noteq> CHR ''b''))
      (Plus (Cls (\<lambda>c. c \<noteq> CHR ''-''))))))) (False, ?c4, ?s4) = []"
    by (simp add: Chr_def)
  ultimately have build: "re_first (re_pre_build 8 9 10 11) (False, ?c4, ?s4) (False, ?c10, [])"
    unfolding re_pre_build_def by (intro first_Seq [OF first_Opt_none first_Opt])
  have "re_first (Grp 2 (Seq (Chr (CHR ''.'')) (Seq (Grp 3 (Plus (Cls is_digit)))
      (Seq (re_update 4 5 6 7) (re_pre_build 8 9 10 11))))) (False, ?c1, ?s2) (False, ?c2, [])"
    using first_Grp [OF first_Seq [OF dot first_Seq [OF minor first_Seq [OF update build]]], of 2] by simp
  then have "re_first preJep223VersionPattern (True, [], ?s1) (False, ?c2, [])"
    unfolding preJep223VersionPattern_def
    by (rule first_Seq [OF first_Bol first_Seq [OF head first_Seq [OF major first_Opt]]])
  from Find_first [OF this] show ?thesis by (simp add: submatch_def)
qed

section \<open>Properties\<close>

text \<open>A Maven version followed by a Java runtime qualifier (\<open>.jre11\<close>, \<open>.JDK17\<close>) is the version
  without it, whatever the version is: the qualifier, and nothing else, is removed before parsing.\<close>

theorem stripJavaRuntimeQualifier_qualifier:
  assumes "java_qualifier q"
  shows "stripJavaRuntimeQualifier (v @ q) = v"
  using strip_qualifier_find [OF assms, of True v]
  by (auto simp: stripJavaRuntimeQualifier_def regexp_Find_def)

theorem stripJavaRuntimeQualifier_qualifier_witness:
  "stripJavaRuntimeQualifier (''12.10.2'' @ ''.JRE11'') = ''12.10.2''"
proof (rule stripJavaRuntimeQualifier_qualifier)
  have "strings_ToLower ''JRE'' = ''jre''" "list_all is_digit ''11''" by code_simp+
  then show "java_qualifier ''.JRE11''" by (auto simp: java_qualifier_def)
qed

text \<open>A Java version of the old scheme, \<open>1.x.y_z-bB\<close>, becomes the semantic version \<open>x.y.z+B\<close>;
  leading zeros of the build number are dropped.\<close>

theorem convertPreJep223Version_update_build:
  assumes "build \<noteq> 0"
  shows "convertPreJep223Version
      (''1.'' @ show_nat x @ ''.'' @ show_nat y @ ''_'' @ show_nat z @ ''-b'' @ replicate k (CHR ''0'') @ show_nat build)
    = dotted [x, y, z] @ ''+'' @ show_nat build"
proof -
  let ?b = "replicate k (CHR ''0'') @ show_nat build"
  let ?s = "''1.'' @ show_nat x @ ''.'' @ show_nat y @ ''_'' @ show_nat z @ ''-b'' @ ?b"
  have "is_digit (CHR ''0'')" by (simp add: is_digit_def byte_val_def)
  then have b: "?b \<noteq> []" "list_all is_digit ?b"
    using show_nat_digits [of build] by (auto simp: list_all_iff)
  from find_update_build [OF b, of x y z] obtain m where m:
    "regexp_Find preJep223VersionPattern ?s = Some m"
    "submatch m 1 = show_nat x" "submatch m 3 = show_nat y" "submatch m 7 = show_nat z"
    "submatch m 9 = []" "submatch m 11 = ?b" by blast
  have sp: "\<not> is_space c" if "is_digit c" for c using that by (auto simp: is_digit_def is_space_def)
  have "is_digit (last (show_nat build))" "\<not> is_space (CHR ''1'')"
    using show_nat_digits [of build] by (auto simp: list_all_iff is_space_def byte_val_def)
  then have "strings_TrimSpace ?s = ?s" using sp by (intro TrimSpace_id) auto
  with m assms show ?thesis
    by (simp add: convertPreJep223Version_def trim0s_numeral trim0s_padded buildSemVer_def dotted_def)
      (simp add: trim0sFromLeft_def trim_left_def)
qed

theorem convertPreJep223Version_update_build_witness:
  "convertPreJep223Version (''1.'' @ show_nat 8 @ ''.'' @ show_nat 0 @ ''_'' @ show_nat 302 @ ''-b''
     @ replicate 1 (CHR ''0'') @ show_nat 8) = dotted [8, 0, 302] @ ''+'' @ show_nat 8"
  by (rule convertPreJep223Version_update_build) simp

text \<open>With the automatic strategy, a Debian package version without an epoch compared to a version
  with epoch \<open>e\<close> is compared as if the package version had been written with that epoch, and a version
  with an epoch of its own is compared the same way under every strategy.\<close>

theorem deb_auto_epoch:
  assumes "newDebVersion L raw = Inr v" "newDebVersion L other = Inr w"
    and "extractDebEpoch raw = None" "extractDebEpoch other = Some e"
    and "newDebVersion L (strconv_Itoa e @ '':'' @ raw) = Inr v'"
  shows "debVersion_CompareWithConfig L v (Some other) \<lparr>cfg_MissingEpochStrategy = MissingEpochStrategyAuto\<rparr>
       = debVersion_CompareWithConfig L v' (Some other) cfg
     \<and> deb_epoch v' = Some e"
proof -
  have "fits_int64 e"
    using assms(4) Atoi_fits by (auto simp: extractDebEpoch_def split: option.splits)
  moreover have "CHR '':'' \<notin> set (strconv_Itoa e)"
    by (rule Itoa_no_sep) (simp_all add: is_digit_def byte_val_def)
  ultimately have e: "extractDebEpoch (strconv_Itoa e @ '':'' @ raw) = Some e"
    using Cut_append_notin [of "CHR '':''" "strconv_Itoa e" raw] by (simp add: extractDebEpoch_def Atoi_Itoa)
  show ?thesis
    using assms e
    by (auto simp: debVersion_CompareWithConfig_def newDebVersion_def
        split: sum.splits option.splits MissingEpochStrategy.splits)
qed

theorem deb_auto_epoch_witness:
  "\<exists>v v'. newDebVersion text_libs ''2.0-1'' = Inr v
     \<and> newDebVersion text_libs (strconv_Itoa 1 @ '':'' @ ''2.0-1'') = Inr v'
     \<and> debVersion_CompareWithConfig text_libs v (Some ''1:1.0-1'')
         \<lparr>cfg_MissingEpochStrategy = MissingEpochStrategyAuto\<rparr>
       = debVersion_CompareWithConfig text_libs v' (Some ''1:1.0-1'') default_config"
proof -
  have p: "newDebVersion text_libs ''2.0-1'' = Inr \<lparr>deb_obj = ''2.0-1'', deb_epoch = None, deb_raw = ''2.0-1''\<rparr>"
    "newDebVersion text_libs ''1:1.0-1'' = Inr \<lparr>deb_obj = ''1:1.0-1'', deb_epoch = Some 1, deb_raw = ''1:1.0-1''\<rparr>"
    "extractDebEpoch ''2.0-1'' = None" "extractDebEpoch ''1:1.0-1'' = Some 1"
    "newDebVersion text_libs (strconv_Itoa 1 @ '':'' @ ''2.0-1'') =
       Inr \<lparr>deb_obj = ''1:2.0-1'', deb_epoch = Some 1, deb_raw = ''1:2.0-1''\<rparr>"
    by code_simp+
  from deb_auto_epoch [OF p] p show ?thesis by blast
qed

end
