(* ===== verification/Version_Dispatch.thy ===== *)
theory Version_Dispatch
  imports Rpm_Version Gem_Version Portage_Version Lib_Versions
begin

text \<open>
  \<^verbatim>\<open>version.go\<close>: the type \<^verbatim>\<open>Version\<close>, which compares itself through the comparator of its format and
  caches the comparators it has built.

  \<^item> A value of the interface \<^verbatim>\<open>Comparator\<close> is a \<open>comparator\<close>: one constructor per implementation, and
    \<open>CNil\<close> for the nil interface, on which every call panics.
  \<^item> \<^verbatim>\<open>getComparator\<close> has a pointer receiver and updates the cache; the model returns the updated
    version.  \<^verbatim>\<open>Compare\<close> has a value receiver: it works on a copy, but a map that exists already is
    shared with the original, so its cache updates survive exactly if the cache was there before
    (\<open>persist\<close>).
\<close>

section \<open>Comparators\<close>

datatype 'o comparator =
    CSemantic "'o semanticVersion"
  | CApk "'o apkVersion"
  | CBitnami "'o bitnamiVersion"
  | CDeb "'o debVersion"
  | CGolang "'o golangVersion"
  | CMaven "'o mavenVersion"
  | CRpm rpmVersion
  | CPep "'o pep440Version"
  | CKB kbVersion
  | CGem gemVersion
  | CPortage portageVersion
  | CJvm "'o jvmVersion"
  | CPacman pacmanVersion
  | CFuzzy "'o fuzzyVersion"
  | CNil

text \<open>The dynamic dispatch of \<^verbatim>\<open>comparator.Compare(other)\<close>; the implementations read only the raw text of
  the other version.\<close>

fun comparator_Compare :: "'o libs \<Rightarrow> 'o comparator \<Rightarrow> string option \<Rightarrow> cmp_result go" where
  "comparator_Compare L (CSemantic v) other = semanticVersion_Compare L v other"
| "comparator_Compare L (CApk v) other = Some (apkVersion_Compare L v other)"
| "comparator_Compare L (CBitnami v) other = bitnamiVersion_Compare L v other"
| "comparator_Compare L (CDeb v) other = Some (debVersion_Compare L v other)"
| "comparator_Compare L (CGolang v) other = golangVersion_Compare L v other"
| "comparator_Compare L (CMaven v) other = Some (mavenVersion_Compare L v other)"
| "comparator_Compare L (CRpm v) other = Some (rpmVersion_Compare v other)"
| "comparator_Compare L (CPep v) other = Some (pep440Version_Compare L v other)"
| "comparator_Compare L (CKB v) other = Some (kbVersion_Compare v other)"
| "comparator_Compare L (CGem v) other = Some (gemVersion_Compare v other)"
| "comparator_Compare L (CPortage v) other = portageVersion_Compare v other"
| "comparator_Compare L (CJvm v) other = jvmVersion_Compare L v other"
| "comparator_Compare L (CPacman v) other = Some (pacmanVersion_Compare v other)"
| "comparator_Compare L (CFuzzy v) other = fuzzyVersion_Compare L v other"
| "comparator_Compare L CNil other = None"

text \<open>A constructor that fails returns the zero value of its struct beside the error.\<close>

definition or_zero :: "('a \<Rightarrow> 'c) \<Rightarrow> 'a \<Rightarrow> verror + 'a \<Rightarrow> 'c \<times> verror option" where
  "or_zero wrap zero r = (case r of Inl err \<Rightarrow> (wrap zero, Some err) | Inr v \<Rightarrow> (wrap v, None))"

definition new_comparator :: "'o libs \<Rightarrow> Format \<Rightarrow> string \<Rightarrow> 'o comparator \<times> verror option" where
  "new_comparator L format raw =
     (case format of
        SemanticFormat \<Rightarrow> or_zero CSemantic \<lparr>sem_obj = None\<rparr> (newSemanticVersion L raw False)
      | ApkFormat \<Rightarrow> or_zero CApk \<lparr>apk_obj = apk_zero L\<rparr> (newApkVersion L raw)
      | BitnamiFormat \<Rightarrow> or_zero CBitnami \<lparr>bitnami_obj = None\<rparr> (newBitnamiVersion L raw)
      | DebFormat \<Rightarrow>
          or_zero CDeb \<lparr>deb_obj = deb_zero L, deb_epoch = None, deb_raw = []\<rparr> (newDebVersion L raw)
      | GolangFormat \<Rightarrow> or_zero CGolang \<lparr>go_raw = [], go_obj = None\<rparr> (newGolangVersion L raw)
      | MavenFormat \<Rightarrow> or_zero CMaven \<lparr>mvn_raw = [], mvn_obj = mvn_zero L\<rparr> (newMavenVersion L raw)
      | RpmFormat \<Rightarrow>
          or_zero CRpm \<lparr>rpm_epoch = None, rpm_version = [], rpm_release = []\<rparr> (newRpmVersion raw)
      | PythonFormat \<Rightarrow>
          or_zero CPep \<lparr>pep_public = pep_zero L, pep_full = pep_zero L\<rparr> (newPep440Version L raw)
      | KBFormat \<Rightarrow> (CKB (newKBVersion raw), None)
      | GemFormat \<Rightarrow>
          or_zero CGem \<lparr>gem_original = [], gem_segments = [], gem_canonical = [], gem_isPrerelease = False\<rparr>
            (newGemVersion raw)
      | PortageFormat \<Rightarrow> (CPortage (newPortageVersion raw), None)
      | JVMFormat \<Rightarrow> or_zero CJvm \<lparr>jvm_isPreJep223 = False, jvm_semVer = None\<rparr> (newJvmVersion L raw)
      | PacmanFormat \<Rightarrow>
          or_zero CPacman \<lparr>pacman_epoch = None, pacman_version = [], pacman_release = []\<rparr>
            (newPacmanVersion raw)
      | UnknownFormat \<Rightarrow> (CFuzzy (newFuzzyVersion L raw), None)
      | OtherFormat _ \<Rightarrow> (CNil, Some (Msg ''no comparator available for format'')))"

section \<open>Versions\<close>

text \<open>\<open>ver_comparators\<close> is \<^const>\<open>None\<close> for the nil map.\<close>

record 'o Version =
  ver_Raw :: string
  ver_Format :: Format
  ver_comparators :: "(Format \<rightharpoonup> 'o comparator) option"
  ver_Config :: ComparisonConfig

definition NewWithConfig :: "string \<Rightarrow> Format \<Rightarrow> ComparisonConfig \<Rightarrow> 'o Version" where
  "NewWithConfig raw format cfg =
     \<lparr>ver_Raw = raw, ver_Format = format, ver_comparators = None, ver_Config = cfg\<rparr>"

definition New :: "string \<Rightarrow> Format \<Rightarrow> 'o Version" where
  "New raw format = NewWithConfig raw format default_config"

definition getComparator ::
  "'o libs \<Rightarrow> 'o Version \<Rightarrow> Format \<Rightarrow> 'o Version \<times> 'o comparator \<times> verror option" where
  "getComparator L v format =
     (let cache = (case ver_comparators v of None \<Rightarrow> Map.empty | Some m \<Rightarrow> m) in
      case cache format of
        Some c \<Rightarrow> (v\<lparr>ver_comparators := Some cache\<rparr>, c, None)
      | None \<Rightarrow>
          (case new_comparator L format (ver_Raw v) of
             (c, err) \<Rightarrow> (v\<lparr>ver_comparators := Some (cache(format \<mapsto> c))\<rparr>, c, err)))"

definition Version_Validate :: "'o libs \<Rightarrow> 'o Version \<Rightarrow> 'o Version \<times> verror option" where
  "Version_Validate L v = (case getComparator L v (ver_Format v) of (v', _, err) \<Rightarrow> (v', err))"

definition compareUsing ::
  "'o libs \<Rightarrow> 'o Version \<Rightarrow> 'o comparator \<Rightarrow> string option \<Rightarrow> cmp_result go" where
  "compareUsing L v c other =
     (if cfg_MissingEpochStrategy (ver_Config v) \<noteq> StrategyUnset
      then (case c of
              CRpm r \<Rightarrow> Some (rpmVersion_CompareWithConfig r other (ver_Config v))
            | CDeb d \<Rightarrow> Some (debVersion_CompareWithConfig L d other (ver_Config v))
            | _ \<Rightarrow> comparator_Compare L c other)
      else comparator_Compare L c other)"

definition persist :: "'o Version \<Rightarrow> 'o Version \<Rightarrow> 'o Version" where
  "persist v v' = (case ver_comparators v of None \<Rightarrow> v | Some _ \<Rightarrow> v')"

text \<open>One attempt of \<^verbatim>\<open>Compare\<close>: the comparator of a format, and the comparison if there is one.\<close>

definition compare_as ::
  "'o libs \<Rightarrow> 'o Version \<Rightarrow> Format \<Rightarrow> string \<Rightarrow> ('o Version \<times> cmp_result) go" where
  "compare_as L v format other =
     (case getComparator L v format of
        (v', c, None) \<Rightarrow> map_option (Pair v') (compareUsing L v' c (Some other))
      | (v', c, Some err) \<Rightarrow> Some (v', 0, Some err))"

definition Version_Compare ::
  "'o libs \<Rightarrow> 'o Version \<Rightarrow> 'o Version option \<Rightarrow> ('o Version \<times> cmp_result) go" where
  "Version_Compare L v other =
     (case other of
        None \<Rightarrow> Some (v, -1, Some ErrNoVersionProvided)
      | Some w \<Rightarrow> do {
          first \<leftarrow> compare_as L v (ver_Format v) (ver_Raw w);
          (case first of
             (v1, r, None) \<Rightarrow> Some (persist v v1, r, None)
           | (v1, _, Some err) \<Rightarrow>
               if ver_Format v \<noteq> ver_Format w then do {
                 second \<leftarrow> compare_as L v1 (ver_Format w) (ver_Raw w);
                 (case second of
                    (v2, r, None) \<Rightarrow> Some (persist v v2, r, None)
                  | (v2, _, Some err2) \<Rightarrow>
                      Some (persist v v2, 0, Some (Wrap ''unable to compare versions'' (Joined [err, err2]))))
               }
               else Some (persist v v1, 0, Some (Wrap ''unable to compare versions'' err)))
        })"

definition op_holds :: "Operator \<Rightarrow> int \<Rightarrow> bool option" where
  "op_holds op result =
     (case op of
        EQ \<Rightarrow> Some (result = 0)
      | GT \<Rightarrow> Some (result > 0)
      | LT \<Rightarrow> Some (result < 0)
      | GTE \<Rightarrow> Some (result \<ge> 0)
      | LTE \<Rightarrow> Some (result \<le> 0)
      | OtherOp s \<Rightarrow> (if s = [] then Some (result = 0) else None))"

definition Version_Is ::
  "'o libs \<Rightarrow> 'o Version option \<Rightarrow> Operator \<Rightarrow> 'o Version option
     \<Rightarrow> ('o Version option \<times> bool \<times> verror option) go" where
  "Version_Is L v op other =
     (case v of
        None \<Rightarrow> Some (None, False, Some (Msg ''cannot evaluate version with nil version''))
      | Some v \<Rightarrow>
          (case other of
             None \<Rightarrow> Some (Some v, False, Some ErrNoVersionProvided)
           | Some w \<Rightarrow>
               (case getComparator L v (ver_Format v) of
                  (v', c, Some err) \<Rightarrow> Some (Some v', False, Some (Wrap ''unable to get comparator'' err))
                | (v', c, None) \<Rightarrow> do {
                    res \<leftarrow> compareUsing L v' c (Some (ver_Raw w));
                    (case res of
                       (_, Some err) \<Rightarrow> Some (Some v', False, Some (Wrap ''unable to compare versions'' err))
                     | (result, None) \<Rightarrow>
                         (case op_holds op result of
                            Some b \<Rightarrow> Some (Some v', b, None)
                          | None \<Rightarrow> Some (Some v', False, Some (Msg ''unknown operator''))))
                  })))"

definition Version_String :: "'o Version \<Rightarrow> string" where
  "Version_String v = ver_Raw v @ '' ('' @ Format_String (ver_Format v) @ '')''"

section \<open>The cache\<close>

text \<open>The cache is good if it holds only comparators that were built without an error.\<close>

definition cache_ok :: "'o libs \<Rightarrow> 'o Version \<Rightarrow> bool" where
  "cache_ok L v \<longleftrightarrow>
     (\<forall>m f c. ver_comparators v = Some m \<longrightarrow> m f = Some c \<longrightarrow> new_comparator L f (ver_Raw v) = (c, None))"

lemma New_fields [simp]:
  "ver_Raw (New a f) = a" "ver_Format (New a f) = f" "ver_comparators (New a f) = None"
  "ver_Config (New a f) = default_config"
  by (simp_all add: New_def NewWithConfig_def)

lemma cache_ok_New [simp]: "cache_ok L (NewWithConfig raw f cfg)" "cache_ok L (New raw f)"
  by (simp_all add: cache_ok_def NewWithConfig_def New_def)

lemma getComparator_keeps:
  "getComparator L v f = (v', c, e) \<Longrightarrow>
   ver_Raw v' = ver_Raw v \<and> ver_Format v' = ver_Format v \<and> ver_Config v' = ver_Config v"
  by (auto simp: getComparator_def Let_def split: option.splits prod.splits)

lemma getComparator_fresh:
  assumes "cache_ok L v" "getComparator L v f = (v', c, e)"
  shows "new_comparator L f (ver_Raw v) = (c, e)"
  using assms by (auto simp: getComparator_def cache_ok_def Let_def split: option.splits prod.splits)

lemma getComparator_cache_ok:
  assumes "cache_ok L v" "getComparator L v f = (v', c, None)"
  shows "cache_ok L v'"
  using assms by (auto simp: getComparator_def cache_ok_def Let_def split: option.splits prod.splits if_splits)

lemma compareUsing_cong: "ver_Config v' = ver_Config v \<Longrightarrow> compareUsing L v' c s = compareUsing L v c s"
  by (cases c) (simp_all add: compareUsing_def)

text \<open>What an attempt of \<^verbatim>\<open>Compare\<close> returns, without a cache.\<close>

definition fresh_compare ::
  "'o libs \<Rightarrow> 'o Version \<Rightarrow> Format \<Rightarrow> string \<Rightarrow> cmp_result go" where
  "fresh_compare L v format other =
     (case new_comparator L format (ver_Raw v) of
        (c, None) \<Rightarrow> compareUsing L v c (Some other)
      | (c, Some err) \<Rightarrow> Some (0, Some err))"

lemma compare_as_fresh:
  assumes "cache_ok L v"
  shows "map_option snd (compare_as L v f other) = fresh_compare L v f other"
proof -
  obtain v' c e where g: "getComparator L v f = (v', c, e)" by (cases "getComparator L v f")
  with getComparator_fresh [OF assms g] getComparator_keeps [OF g] show ?thesis
    by (cases e) (simp_all add: compare_as_def fresh_compare_def compareUsing_cong [of v' v]
        option.map_comp comp_def option.map_ident)
qed

lemma compare_as_keeps:
  "compare_as L v f other = Some (v', r) \<Longrightarrow>
   ver_Raw v' = ver_Raw v \<and> ver_Config v' = ver_Config v"
  using getComparator_keeps [of L v f]
  by (auto simp: compare_as_def split: prod.splits option.splits)

text \<open>After a failed attempt the cache holds a bad comparator, but only for the format of that attempt.\<close>

lemma getComparator_other:
  assumes "cache_ok L v" "getComparator L v f = (v1, c, e)" "g \<noteq> f" "getComparator L v1 g = (v2, c2, e2)"
  shows "new_comparator L g (ver_Raw v) = (c2, e2)"
  using assms by (auto simp: getComparator_def cache_ok_def Let_def split: option.splits prod.splits)

lemma compare_as_other:
  assumes "cache_ok L v" "compare_as L v f other = Some (v1, r, Some err)" "g \<noteq> f"
  shows "map_option snd (compare_as L v1 g other) = fresh_compare L v g other"
proof -
  obtain v' c e where g: "getComparator L v f = (v', c, e)" by (cases "getComparator L v f")
  with assms(2) have v1: "v' = v1" by (auto simp: compare_as_def split: option.splits)
  obtain v2 c2 e2 where g2: "getComparator L v1 g = (v2, c2, e2)" by (cases "getComparator L v1 g")
  from getComparator_other [OF assms(1) g [unfolded v1] assms(3) g2]
    getComparator_keeps [OF g] getComparator_keeps [OF g2] v1 g2 show ?thesis
    by (cases e2) (simp_all add: compare_as_def fresh_compare_def compareUsing_cong [of v2 v]
        option.map_comp comp_def option.map_ident)
qed

definition fresh_Compare :: "'o libs \<Rightarrow> 'o Version \<Rightarrow> 'o Version option \<Rightarrow> cmp_result go" where
  "fresh_Compare L v other =
     (case other of
        None \<Rightarrow> Some (-1, Some ErrNoVersionProvided)
      | Some w \<Rightarrow> do {
          first \<leftarrow> fresh_compare L v (ver_Format v) (ver_Raw w);
          (case first of
             (r, None) \<Rightarrow> Some (r, None)
           | (_, Some err) \<Rightarrow>
               if ver_Format v \<noteq> ver_Format w then do {
                 second \<leftarrow> fresh_compare L v (ver_Format w) (ver_Raw w);
                 (case second of
                    (r, None) \<Rightarrow> Some (r, None)
                  | (_, Some err2) \<Rightarrow> Some (0, Some (Wrap ''unable to compare versions'' (Joined [err, err2]))))
               }
               else Some (0, Some (Wrap ''unable to compare versions'' err)))
        })"

lemma Version_Compare_fresh:
  assumes "cache_ok L v"
  shows "map_option snd (Version_Compare L v other) = fresh_Compare L v other"
proof (cases other)
  case None
  then show ?thesis by (simp add: Version_Compare_def fresh_Compare_def)
next
  case (Some w)
  show ?thesis
  proof (cases "compare_as L v (ver_Format v) (ver_Raw w)")
    case None
    with compare_as_fresh [OF assms, of "ver_Format v" "ver_Raw w"] show ?thesis
      by (simp add: Version_Compare_def fresh_Compare_def \<open>other = Some w\<close>)
  next
    case first: (Some p)
    obtain v1 r e where p: "p = (v1, r, e)" by (cases p)
    have f: "fresh_compare L v (ver_Format v) (ver_Raw w) = Some (r, e)"
      using compare_as_fresh [OF assms, of "ver_Format v" "ver_Raw w"] first p by simp
    show ?thesis
    proof (cases e)
      case None
      with f first p show ?thesis by (simp add: Version_Compare_def fresh_Compare_def \<open>other = Some w\<close>)
    next
      case (Some err)
      show ?thesis
      proof (cases "ver_Format v = ver_Format w")
        case True
        with f first p Some show ?thesis
          by (simp add: Version_Compare_def fresh_Compare_def \<open>other = Some w\<close>)
      next
        case False
        have second: "fresh_compare L v (ver_Format w) (ver_Raw w) =
            map_option snd (compare_as L v1 (ver_Format w) (ver_Raw w))"
          using compare_as_other [OF assms first [unfolded p Some]] False by metis
        show ?thesis
          using f first p Some False
          by (cases "compare_as L v1 (ver_Format w) (ver_Raw w)")
            (auto simp: Version_Compare_def fresh_Compare_def \<open>other = Some w\<close> second split: option.splits)
      qed
    qed
  qed
qed

section \<open>Versions of the formats implemented here\<close>

lemma or_zero_Inr [simp]: "or_zero wrap z (Inr v) = (wrap v, None)"
  by (simp add: or_zero_def)

lemma or_zero_Inl [simp]: "or_zero wrap z (Inl e) = (wrap z, Some e)"
  by (simp add: or_zero_def)

lemma Compare_New_ok:
  assumes "new_comparator L f a = (c, None)" "comparator_Compare L c (Some b) = Some (r, None)"
  shows "map_option snd (Version_Compare L (New a f) (Some (New b g))) = Some (r, None)"
  unfolding Version_Compare_fresh [OF cache_ok_New(2)] using assms
  by (simp add: fresh_Compare_def fresh_compare_def New_def NewWithConfig_def
      compareUsing_def default_config_def)

lemma Compare_New_rpm:
  assumes "newRpmVersion a = Inr v" "newRpmVersion b = Inr w"
  shows "map_option snd (Version_Compare L (New a RpmFormat) (Some (New b g))) =
    Some (rpmVersion_compare v w, None)"
  using assms
  by (intro Compare_New_ok [where c = "CRpm v"]) (simp_all add: new_comparator_def rpmVersion_Compare_def)

lemma Compare_New_pacman:
  assumes "newPacmanVersion a = Inr v" "newPacmanVersion b = Inr w"
  shows "map_option snd (Version_Compare L (New a PacmanFormat) (Some (New b g))) =
    Some (pacmanVersion_compare v w, None)"
  using assms
  by (intro Compare_New_ok [where c = "CPacman v"]) (simp_all add: new_comparator_def pacmanVersion_Compare_def)

lemma Compare_New_gem:
  assumes "newGemVersion a = Inr v" "newGemVersion b = Inr w"
  shows "map_option snd (Version_Compare L (New a GemFormat) (Some (New b g))) =
    Some (gemVersion_compare v w, None)"
  using assms
  by (intro Compare_New_ok [where c = "CGem v"]) (simp_all add: new_comparator_def gemVersion_Compare_def)

text \<open>A version parses as its format.\<close>

definition parses :: "'o libs \<Rightarrow> Format \<Rightarrow> string \<Rightarrow> bool" where
  "parses L f raw \<longleftrightarrow> snd (new_comparator L f raw) = None"

lemma parses_iff:
  "parses L RpmFormat a \<longleftrightarrow> (\<exists>v. newRpmVersion a = Inr v)"
  "parses L PacmanFormat a \<longleftrightarrow> (\<exists>v. newPacmanVersion a = Inr v)"
  "parses L GemFormat a \<longleftrightarrow> (\<exists>v. newGemVersion a = Inr v)"
  by (auto simp: parses_def new_comparator_def or_zero_def split: sum.splits)

section \<open>Properties\<close>



text \<open>The error of a version that does not parse is reported only once: \<^verbatim>\<open>getComparator\<close> caches
  the failed comparator, so the first \<^verbatim>\<open>Validate\<close> returns the error and the next one returns
  none.\<close>

theorem Validate_error_only_once:
  assumes "ver_comparators v = None" "new_comparator L (ver_Format v) (ver_Raw v) = (c, Some err)"
  shows "snd (Version_Validate L v) = Some err
    \<and> snd (Version_Validate L (fst (Version_Validate L v))) = None"
  using assms by (simp add: Version_Validate_def getComparator_def)

theorem Validate_error_only_once_witness:
  "\<exists>err. snd (Version_Validate text_libs (New ''x:1'' RpmFormat)) = Some err
    \<and> snd (Version_Validate text_libs (fst (Version_Validate text_libs (New ''x:1'' RpmFormat)))) = None"
proof -
  let ?v = "New ''x:1'' RpmFormat :: string Version"
  have "newRpmVersion ''x:1'' = Inl (Wrap ''unable to parse epoch'' (LibError ''strconv.Atoi''))" by code_simp
  then have "new_comparator text_libs (ver_Format ?v) (ver_Raw ?v) =
      (CRpm \<lparr>rpm_epoch = None, rpm_version = [], rpm_release = []\<rparr>,
       Some (Wrap ''unable to parse epoch'' (LibError ''strconv.Atoi'')))"
    by (simp add: new_comparator_def New_def NewWithConfig_def)
  from Validate_error_only_once [OF _ this] show ?thesis by (auto simp: New_def NewWithConfig_def)
qed

text \<open>For RPM, pacman and gem versions that parse, \<^verbatim>\<open>Version.Compare\<close> succeeds in both directions
  and the two results are opposite and in \<open>{-1, 0, 1}\<close>.\<close>

theorem Version_Compare_antisymmetric:
  assumes "f \<in> {RpmFormat, PacmanFormat, GemFormat}" "parses L f a" "parses L f b"
  shows "\<exists>r. r \<in> {-1, 0, 1}
    \<and> map_option snd (Version_Compare L (New a f) (Some (New b f))) = Some (r, None)
    \<and> map_option snd (Version_Compare L (New b f) (Some (New a f))) = Some (- r, None)"
proof -
  consider "f = RpmFormat" | "f = PacmanFormat" | "f = GemFormat" using assms(1) by blast
  then show ?thesis
  proof cases
    case 1
    with assms(2,3) obtain v w where "newRpmVersion a = Inr v" "newRpmVersion b = Inr w"
      by (auto simp: parses_iff)
    with 1 rpm.range [of v w] rpm.flip [of w v] show ?thesis by (simp add: Compare_New_rpm)
  next
    case 2
    with assms(2,3) obtain v w where "newPacmanVersion a = Inr v" "newPacmanVersion b = Inr w"
      by (auto simp: parses_iff)
    with 2 pacman.range [of v w] pacman.flip [of w v] show ?thesis by (simp add: Compare_New_pacman)
  next
    case 3
    with assms(2,3) obtain v w where p: "newGemVersion a = Inr v" "newGemVersion b = Inr w"
      by (auto simp: parses_iff)
    with 3 gem.range [of "gem_canonical v" "gem_canonical w"] gem.flip [of "gem_canonical w" "gem_canonical v"]
    show ?thesis by (simp add: Compare_New_gem gem_compare_order)
  qed
qed

theorem Version_Compare_antisymmetric_witness:
  "\<exists>r. r \<in> {-1, 0, 1}
    \<and> map_option snd (Version_Compare text_libs (New ''1.2.rc1'' GemFormat) (Some (New ''1.2'' GemFormat))) = Some (r, None)
    \<and> map_option snd (Version_Compare text_libs (New ''1.2'' GemFormat) (Some (New ''1.2.rc1'' GemFormat))) = Some (- r, None)"
proof (rule Version_Compare_antisymmetric)
  show "parses text_libs GemFormat ''1.2.rc1''" "parses text_libs GemFormat ''1.2''"
    unfolding parses_def by code_simp+
qed simp

end
