(* ===== verification/Version_Set.thy ===== *)
theory Version_Set
  imports Version_Dispatch "HOL-Library.AList" "HOL-Library.Multiset"
begin

text \<open>
  \<^verbatim>\<open>grype/version/set.go\<close>: sets of versions, kept in a map under a key made of the raw text and, unless
  told otherwise, the format.  A version pointer is an option; the map is an association list and
  \<^const>\<open>None\<close> for the nil map.  \<^verbatim>\<open>Values\<close> sorts with \<^verbatim>\<open>Compare\<close>; a comparison that panics makes it panic.

  The locale \<open>keyed_set\<close> is the contract of the set, interpreted on the model.
\<close>

section \<open>The contract\<close>

text \<open>A set of elements identified by their key: what membership, size and the operations are in terms of
  the keys present.\<close>

locale keyed_set =
  fixes key :: "'e \<Rightarrow> 'k"
    and add1 :: "'e \<Rightarrow> 's \<Rightarrow> 's"
    and remove1 :: "'e \<Rightarrow> 's \<Rightarrow> 's"
    and keys :: "'s \<Rightarrow> 'k set"
    and ok :: "'s \<Rightarrow> bool"
  assumes ok_add1: "ok s \<Longrightarrow> ok (add1 e s)"
    and ok_remove1: "ok s \<Longrightarrow> ok (remove1 e s)"
    and keys_add1: "ok s \<Longrightarrow> keys (add1 e s) = insert (key e) (keys s)"
    and keys_remove1: "ok s \<Longrightarrow> keys (remove1 e s) = keys s - {key e}"
begin

lemma fold_add1: "ok s \<Longrightarrow> ok (fold add1 es s) \<and> keys (fold add1 es s) = keys s \<union> key ` set es"
proof (induction es arbitrary: s)
  case (Cons e es)
  from Cons.IH [OF ok_add1 [OF Cons.prems, of e]] keys_add1 [OF Cons.prems, of e] show ?case by simp
qed simp

lemma fold_remove1: "ok s \<Longrightarrow> ok (fold remove1 es s) \<and> keys (fold remove1 es s) = keys s - key ` set es"
proof (induction es arbitrary: s)
  case (Cons e es)
  from Cons.IH [OF ok_remove1 [OF Cons.prems, of e]] keys_remove1 [OF Cons.prems, of e] show ?case by auto
qed simp

end

section \<open>Definitions\<close>

record 'o Set =
  set_versions :: "(string \<times> 'o Version) list option"
  set_ignoreFormat :: bool

definition getKey :: "bool \<Rightarrow> 'o Version option \<Rightarrow> string" where
  "getKey ignoreFormat v =
     (case v of
        None \<Rightarrow> []
      | Some v \<Rightarrow> if ignoreFormat then ver_Raw v else ver_Raw v @ '':'' @ Format_String (ver_Format v))"

definition Set_Add :: "'o Version option list \<Rightarrow> 'o Set \<Rightarrow> 'o Set" where
  "Set_Add vs s =
     (let m = (case set_versions s of None \<Rightarrow> [] | Some m \<Rightarrow> m) in
      s\<lparr>set_versions := Some (fold (\<lambda>v m. case v of None \<Rightarrow> m
          | Some w \<Rightarrow> AList.update (getKey (set_ignoreFormat s) v) w m) vs m)\<rparr>)"

definition NewSet :: "bool \<Rightarrow> 'o Version option list \<Rightarrow> 'o Set" where
  "NewSet ignoreFormat vs = Set_Add vs \<lparr>set_versions = Some [], set_ignoreFormat = ignoreFormat\<rparr>"

definition Set_Remove :: "'o Version option list \<Rightarrow> 'o Set \<Rightarrow> 'o Set" where
  "Set_Remove vs s =
     (case set_versions s of
        None \<Rightarrow> s
      | Some m \<Rightarrow>
          s\<lparr>set_versions := Some (fold (\<lambda>v m. case v of None \<Rightarrow> m
              | Some w \<Rightarrow> AList.delete (getKey (set_ignoreFormat s) v) m) vs m)\<rparr>)"

definition Set_Contains :: "'o Set \<Rightarrow> 'o Version option \<Rightarrow> bool" where
  "Set_Contains s v =
     (if v = None \<or> set_versions s = None then False
      else map_of (the (set_versions s)) (getKey (set_ignoreFormat s) v) \<noteq> None)"

definition Set_Size :: "'o Set \<Rightarrow> nat" where
  "Set_Size s = (case set_versions s of None \<Rightarrow> 0 | Some m \<Rightarrow> length m)"

definition Set_Clear :: "'o Set \<Rightarrow> 'o Set" where
  "Set_Clear s = (if set_versions s \<noteq> None then s\<lparr>set_versions := Some []\<rparr> else s)"

text \<open>Insertion sort with a comparison that may panic.\<close>

fun insert_go :: "('a \<Rightarrow> 'a \<Rightarrow> bool go) \<Rightarrow> 'a \<Rightarrow> 'a list \<Rightarrow> 'a list go" where
  "insert_go lt x [] = Some [x]"
| "insert_go lt x (y # ys) =
     do { b \<leftarrow> lt x y; if b then Some (x # y # ys) else map_option (Cons y) (insert_go lt x ys) }"

fun sort_go :: "('a \<Rightarrow> 'a \<Rightarrow> bool go) \<Rightarrow> 'a list \<Rightarrow> 'a list \<Rightarrow> 'a list go" where
  "sort_go lt [] acc = Some acc"
| "sort_go lt (x # xs) acc = do { acc' \<leftarrow> insert_go lt x acc; sort_go lt xs acc' }"

definition version_less :: "'o libs \<Rightarrow> 'o Version \<Rightarrow> 'o Version \<Rightarrow> bool go" where
  "version_less L v w =
     map_option (\<lambda>(_, cmp, err). case err of Some _ \<Rightarrow> False | None \<Rightarrow> cmp < 0) (Version_Compare L v (Some w))"

text \<open>The map is read in some order, a parameter; a nil or empty map gives nil.\<close>

definition Set_Values ::
  "'o libs \<Rightarrow> ('o Version list \<Rightarrow> 'o Version list) \<Rightarrow> 'o Set \<Rightarrow> 'o Version list go" where
  "Set_Values L order s =
     (case set_versions s of
        None \<Rightarrow> Some []
      | Some m \<Rightarrow> if m = [] then Some [] else sort_go (version_less L) (order (map snd m)) [])"

section \<open>The invariant\<close>

definition set_keys :: "'o Set \<Rightarrow> string set" where
  "set_keys s = fst ` set (case set_versions s of None \<Rightarrow> [] | Some m \<Rightarrow> m)"

definition set_ok :: "'o Set \<Rightarrow> bool" where
  "set_ok s \<longleftrightarrow>
     (let m = (case set_versions s of None \<Rightarrow> [] | Some m \<Rightarrow> m) in
      distinct (map fst m) \<and> list_all (\<lambda>(k, v). k = getKey (set_ignoreFormat s) (Some v)) m)"

definition alist_ok :: "('v \<Rightarrow> 'k) \<Rightarrow> ('k \<times> 'v) list \<Rightarrow> bool" where
  "alist_ok key m \<longleftrightarrow> distinct (map fst m) \<and> list_all (\<lambda>(k, v). k = key v) m"

interpretation vset: keyed_set key "\<lambda>v m. AList.update (key v) v m" "\<lambda>v m. AList.delete (key v) m"
  "\<lambda>m. fst ` set m" "alist_ok key"
proof
  fix m e
  assume ok: "alist_ok key m"
  have "set (AList.update (key e) e m) \<subseteq> insert (key e, e) (set m)"
    by (induction m) auto
  with ok show "alist_ok key (AList.update (key e) e m)"
    by (auto simp: alist_ok_def list_all_iff distinct_update)
  have "set (AList.delete (key e) m) \<subseteq> set m" by (auto simp: AList.delete_eq)
  with ok distinct_delete [of m "key e"] show "alist_ok key (AList.delete (key e) m)"
    by (auto simp: alist_ok_def list_all_iff)
  have "fst ` set (AList.update (key e) e m) = insert (key e) (fst ` set m)"
    using dom_update [of "key e" e m] by simp
  then show "fst ` set (AList.update (key e) e m) = insert (key e) (fst ` set m)" .
  show "fst ` set (AList.delete (key e) m) = fst ` set m - {key e}"
    using delete_keys [of "key e" m] by (auto simp: AList.delete_eq)
qed

lemma sort_go_mset: "sort_go lt xs acc = Some ys \<Longrightarrow> mset ys = mset xs + mset acc"
proof (induction xs arbitrary: acc)
  case (Cons x xs)
  have ins: "insert_go lt x zs = Some zs' \<Longrightarrow> mset zs' = add_mset x (mset zs)" for zs zs'
    by (induction zs arbitrary: zs') (auto split: if_splits bind_splits)
  from Cons.prems obtain acc' where "insert_go lt x acc = Some acc'" "sort_go lt xs acc' = Some ys"
    by (auto split: bind_splits)
  with ins Cons.IH show ?case by fastforce
qed simp

definition given_versions :: "'o Version option list \<Rightarrow> 'o Version list" where
  "given_versions vs = concat (map (\<lambda>v. case v of None \<Rightarrow> [] | Some w \<Rightarrow> [w]) vs)"

lemma fold_given:
  "fold (\<lambda>v m. case v of None \<Rightarrow> m | Some w \<Rightarrow> f v w m) vs m = fold (\<lambda>w. f (Some w) w) (given_versions vs) m"
  by (induction vs arbitrary: m) (auto simp: given_versions_def split: option.splits)

lemma set_ok_alist:
  "set_ok s \<longleftrightarrow> alist_ok (\<lambda>v. getKey (set_ignoreFormat s) (Some v)) (case set_versions s of None \<Rightarrow> [] | Some m \<Rightarrow> m)"
  by (simp add: set_ok_def alist_ok_def Let_def)

context three_way_order
begin

lemma insert_go_sorted:
  assumes "\<forall>y \<in> set ys. lt x y = Some (cmp x y < 0)" "sorted_wrt (\<lambda>a b. cmp a b \<le> 0) ys"
  shows "\<exists>zs. insert_go lt x ys = Some zs \<and> set zs = insert x (set ys) \<and> sorted_wrt (\<lambda>a b. cmp a b \<le> 0) zs"
  using assms
proof (induction ys)
  case (Cons y ys)
  show ?case
  proof (cases "cmp x y < 0")
    case True
    with Cons.prems trans [of x y] show ?thesis by auto
  next
    case False
    from Cons obtain zs where zs: "insert_go lt x ys = Some zs" "set zs = insert x (set ys)"
      "sorted_wrt (\<lambda>a b. cmp a b \<le> 0) zs" by auto
    have "cmp y x \<le> 0" using False flip [of x y] by simp
    with zs Cons.prems have "sorted_wrt (\<lambda>a b. cmp a b \<le> 0) (y # zs)" by auto
    with zs False Cons.prems show ?thesis by auto
  qed
qed simp

lemma sort_go_sorted:
  assumes "\<forall>x \<in> set xs \<union> set acc. \<forall>y \<in> set xs \<union> set acc. lt x y = Some (cmp x y < 0)"
    "sorted_wrt (\<lambda>a b. cmp a b \<le> 0) acc"
  shows "\<exists>zs. sort_go lt xs acc = Some zs \<and> sorted_wrt (\<lambda>a b. cmp a b \<le> 0) zs"
  using assms
proof (induction xs arbitrary: acc)
  case (Cons x xs)
  from Cons.prems insert_go_sorted [of acc lt x] obtain acc' where
    "insert_go lt x acc = Some acc'" "set acc' = insert x (set acc)" "sorted_wrt (\<lambda>a b. cmp a b \<le> 0) acc'" by auto
  with Cons.IH [of acc'] Cons.prems(1) show ?case by auto
qed simp

end

lemma Set_Add_alist:
  "set_versions (Set_Add vs s) = Some (fold (\<lambda>v m. AList.update (getKey (set_ignoreFormat s) (Some v)) v m) (given_versions vs)
     (case set_versions s of None \<Rightarrow> [] | Some m \<Rightarrow> m))"
  "set_ignoreFormat (Set_Add vs s) = set_ignoreFormat s"
  using fold_given [of "\<lambda>v w m. AList.update (getKey (set_ignoreFormat s) v) w m" vs]
  by (simp_all add: Set_Add_def Let_def)

lemma Set_Remove_alist:
  "(case set_versions (Set_Remove vs s) of None \<Rightarrow> [] | Some m \<Rightarrow> m) =
     fold (\<lambda>v m. AList.delete (getKey (set_ignoreFormat s) (Some v)) m) (given_versions vs)
     (case set_versions s of None \<Rightarrow> [] | Some m \<Rightarrow> m)"
  "set_ignoreFormat (Set_Remove vs s) = set_ignoreFormat s"
proof -
  have "fold (\<lambda>v m. AList.delete (getKey (set_ignoreFormat s) (Some v)) m) ws ([] :: (string \<times> 'a Version) list) = []"
    for ws :: "'a Version list"
    by (induction ws) auto
  then show "(case set_versions (Set_Remove vs s) of None \<Rightarrow> [] | Some m \<Rightarrow> m) =
     fold (\<lambda>v m. AList.delete (getKey (set_ignoreFormat s) (Some v)) m) (given_versions vs)
     (case set_versions s of None \<Rightarrow> [] | Some m \<Rightarrow> m)"
    using fold_given [of "\<lambda>v w (m :: (string \<times> 'a Version) list). AList.delete (getKey (set_ignoreFormat s) v) m" vs]
    by (simp add: Set_Remove_def split: option.splits)
qed (simp add: Set_Remove_def split: option.splits)

definition stored :: "'o Set \<Rightarrow> 'o Version list" where
  "stored s = map snd (case set_versions s of None \<Rightarrow> [] | Some m \<Rightarrow> m)"

section \<open>Properties\<close>

text \<open>C32: a version set is the set of the keys of its members.  Adding and removing versions (nil ones are
  skipped) keep the invariant that each version is stored once, under its own key; membership, size and
  clearing are those of the set of keys.\<close>

theorem version_set_refines:
  assumes "set_ok s"
  shows "set_ok (Set_Add vs s) \<and> set_keys (Set_Add vs s) = set_keys s \<union> (\<lambda>v. getKey (set_ignoreFormat s) (Some v)) ` set (given_versions vs)
    \<and> set_ok (Set_Remove vs s) \<and> set_keys (Set_Remove vs s) = set_keys s - (\<lambda>v. getKey (set_ignoreFormat s) (Some v)) ` set (given_versions vs)
    \<and> (Set_Contains s (Some v) \<longleftrightarrow> getKey (set_ignoreFormat s) (Some v) \<in> set_keys s)
    \<and> Set_Size s = card (set_keys s) \<and> set_keys (Set_Clear s) = {}"
proof -
  let ?key = "\<lambda>v. getKey (set_ignoreFormat s) (Some v)"
  let ?m = "case set_versions s of None \<Rightarrow> [] | Some m \<Rightarrow> m"
  have ok: "alist_ok ?key ?m" using assms by (simp add: set_ok_alist)
  note add = vset.fold_add1 [OF ok, of "given_versions vs"] and rem = vset.fold_remove1 [OF ok, of "given_versions vs"]
  have "set_ok (Set_Add vs s)" "set_keys (Set_Add vs s) = set_keys s \<union> ?key ` set (given_versions vs)"
    using add by (simp_all add: set_ok_alist set_keys_def Set_Add_alist)
  moreover have "set_ok (Set_Remove vs s)" "set_keys (Set_Remove vs s) = set_keys s - ?key ` set (given_versions vs)"
    using rem by (simp_all add: set_ok_alist set_keys_def Set_Remove_alist)
  moreover have "Set_Contains s (Some v) \<longleftrightarrow> ?key v \<in> set_keys s"
    by (auto simp: Set_Contains_def set_keys_def map_of_eq_None_iff split: option.splits)
  moreover have "Set_Size s = card (set_keys s)"
    using assms distinct_card [of "map fst ?m"] by (auto simp: Set_Size_def set_keys_def set_ok_def split: option.splits)
  moreover have "set_keys (Set_Clear s) = {}"
    by (auto simp: Set_Clear_def set_keys_def)
  ultimately show ?thesis by blast
qed

theorem version_set_refines_witness:
  "set_keys (Set_Add [None, Some (New ''1.0'' RpmFormat :: string Version)] (NewSet False [])) = {''1.0:RPM''}"
proof -
  have ok: "set_ok (NewSet False [] :: string Set)" by (simp add: NewSet_def Set_Add_def set_ok_def)
  have "set_keys (NewSet False [] :: string Set) = {}" by (simp add: NewSet_def Set_Add_def set_keys_def)
  then show ?thesis
    using version_set_refines [OF ok, of "[None, Some (New ''1.0'' RpmFormat :: string Version)]"]
    by (auto simp: given_versions_def getKey_def NewSet_def Set_Add_def)
qed

text \<open>\<^verbatim>\<open>Values\<close> lists exactly the stored versions, whatever order the map is read in; and if the
  comparison of the stored versions succeeds and is a total preorder, it returns them in that order.\<close>

theorem Set_Values_sorted:
  assumes "\<And>xs. mset (order xs) = mset xs"
  shows "(Set_Values L order s = Some out \<longrightarrow> mset out = mset (stored s))
    \<and> (three_way_order cmp \<longrightarrow> (\<forall>v \<in> set (stored s). \<forall>w \<in> set (stored s). version_less L v w = Some (cmp v w < 0)) \<longrightarrow>
        (\<exists>zs. Set_Values L order s = Some zs \<and> sorted_wrt (\<lambda>a b. cmp a b \<le> 0) zs))"
proof -
  have "set (order (stored s)) = set (stored s)" using assms by (metis set_mset_mset)
  then have sorted: "three_way_order cmp \<Longrightarrow> \<forall>v \<in> set (stored s). \<forall>w \<in> set (stored s). version_less L v w = Some (cmp v w < 0) \<Longrightarrow>
      \<exists>zs. sort_go (version_less L) (order (stored s)) [] = Some zs \<and> sorted_wrt (\<lambda>a b. cmp a b \<le> 0) zs"
    using three_way_order.sort_go_sorted [of cmp "order (stored s)" "[]" "version_less L"] by simp
  have perm: "sort_go (version_less L) (order (stored s)) [] = Some out \<Longrightarrow> mset out = mset (stored s)"
    using sort_go_mset [of "version_less L" "order (stored s)" "[]" out] assms by simp
  show ?thesis
  proof (cases "stored s = []")
    case True
    then show ?thesis by (auto simp: Set_Values_def stored_def split: option.splits)
  next
    case False
    then have "Set_Values L order s = sort_go (version_less L) (order (stored s)) []"
      by (auto simp: Set_Values_def stored_def split: option.splits)
    with sorted perm show ?thesis by simp
  qed
qed

theorem Set_Values_sorted_witness:
  "\<exists>out. Set_Values text_libs rev (NewSet True [Some (New ''2.0'' KBFormat)]) = Some out \<and>
     mset out = {# New ''2.0'' KBFormat #}"
proof -
  have st: "stored (NewSet True [Some (New ''2.0'' KBFormat)] :: string Set) = [New ''2.0'' KBFormat]"
    by (simp add: stored_def NewSet_def Set_Add_def)
  have "Set_Values text_libs rev (NewSet True [Some (New ''2.0'' KBFormat)]) = Some [New ''2.0'' KBFormat]"
    by (simp add: Set_Values_def NewSet_def Set_Add_def)
  then show ?thesis
    using Set_Values_sorted [of rev text_libs "NewSet True [Some (New ''2.0'' KBFormat)]"] by (simp add: st)
qed

end
