(* ===== verification/Match_Results.thy ===== *)
theory Match_Results
  imports Comparison "HOL-Library.AList" "HOL-Library.Multiset"
begin

text \<open>
  What a match was searched by and what was found: \<^verbatim>\<open>grype/match/results.go\<close>.  The details of a match hold these
  records as values of type \<^verbatim>\<open>any\<close>; the datatype \<open>any\<close> has them and, for other values, a text that stands
  for them.

  \<^verbatim>\<open>sort.Sort\<close>, \<^verbatim>\<open>sort.Slice\<close> and \<^verbatim>\<open>sort.Strings\<close> are an insertion sort, which is what Go uses on short slices; on
  longer ones it may order elements that compare equal differently.
\<close>

section \<open>Sorting\<close>

fun go_insert :: "('a \<Rightarrow> 'a \<Rightarrow> bool) \<Rightarrow> 'a \<Rightarrow> 'a list \<Rightarrow> 'a list" where
  "go_insert lt x [] = [x]"
| "go_insert lt x (y # ys) = (if lt x y then x # y # ys else y # go_insert lt x ys)"

definition go_sort :: "('a \<Rightarrow> 'a \<Rightarrow> bool) \<Rightarrow> 'a list \<Rightarrow> 'a list" where
  "go_sort lt xs = fold (go_insert lt) xs []"

lemma mset_go_insert [simp]: "mset (go_insert lt x ys) = add_mset x (mset ys)"
  by (induction ys) auto

lemma mset_go_sort [simp]: "mset (go_sort lt xs) = mset xs"
proof -
  have "mset (fold (go_insert lt) xs acc) = mset acc + mset xs" for acc
    by (induction xs arbitrary: acc) auto
  then show ?thesis by (simp add: go_sort_def)
qed

lemma set_go_sort [simp]: "set (go_sort lt xs) = set xs"
  by (metis mset_go_sort set_mset_mset)

lemma go_sort_eq_Nil [simp]: "go_sort lt xs = [] \<longleftrightarrow> xs = []"
  by (metis mset_go_sort mset_zero_iff)

section \<open>Sorting by a three-way comparison\<close>

context three_way_order
begin

lemma sorted_go_insert:
  "sorted_wrt (\<lambda>a b. cmp a b \<le> 0) ys \<Longrightarrow> sorted_wrt (\<lambda>a b. cmp a b \<le> 0) (go_insert (\<lambda>a b. cmp a b < 0) x ys)"
proof (induction ys)
  case (Cons y ys)
  show ?case
  proof (cases "cmp x y < 0")
    case True
    with Cons.prems trans [of x y] show ?thesis by auto
  next
    case False
    then have "cmp y x \<le> 0" using flip [of x y] by simp
    moreover have "set (go_insert (\<lambda>a b. cmp a b < 0) x ys) = insert x (set ys)"
      by (metis mset_go_insert set_mset_add_mset_insert set_mset_mset)
    ultimately show ?thesis using False Cons by simp
  qed
qed simp

lemma sorted_go_sort: "sorted_wrt (\<lambda>a b. cmp a b \<le> 0) (go_sort (\<lambda>a b. cmp a b < 0) xs)"
proof -
  have "sorted_wrt (\<lambda>a b. cmp a b \<le> 0) acc \<Longrightarrow>
      sorted_wrt (\<lambda>a b. cmp a b \<le> 0) (fold (go_insert (\<lambda>a b. cmp a b < 0)) xs acc)" for acc
    by (induction xs arbitrary: acc) (auto intro: sorted_go_insert)
  then show ?thesis by (simp add: go_sort_def)
qed

end

lemma go_sort_cong:
  "(\<And>a b. a \<in> set xs \<Longrightarrow> b \<in> set xs \<Longrightarrow> f a b = g a b) \<Longrightarrow> go_sort f xs = go_sort g xs"
proof -
  assume eq: "\<And>a b. a \<in> set xs \<Longrightarrow> b \<in> set xs \<Longrightarrow> f a b = g a b"
  have ins: "(\<And>b. b \<in> set ys \<Longrightarrow> f x b = g x b) \<Longrightarrow> go_insert f x ys = go_insert g x ys" for x ys
    by (induction ys) auto
  have "set zs \<subseteq> set xs \<Longrightarrow> set acc \<subseteq> set xs \<Longrightarrow> fold (go_insert f) zs acc = fold (go_insert g) zs acc" for zs acc
  proof (induction zs arbitrary: acc)
    case (Cons z zs)
    have "go_insert f z acc = go_insert g z acc" using Cons.prems eq by (intro ins) auto
    moreover have "set (go_insert g z acc) \<subseteq> set xs"
      using Cons.prems by (metis insert_subset list.simps(15) mset_go_insert set_mset_add_mset_insert set_mset_mset)
    ultimately show ?case using Cons by simp
  qed simp
  then show ?thesis by (simp add: go_sort_def)
qed

section \<open>Parameters and results\<close>

record PackageParameter =
  pp_Name :: string
  pp_Version :: string

record CPEParameters =
  cp_Namespace :: string
  cp_CPEs :: "string list"
  cp_Package :: PackageParameter

record CPEResult =
  cr_VulnerabilityID :: string
  cr_VersionConstraint :: string
  cr_CPEs :: "string list"

record DistroIdentification =
  di_Type :: string
  di_Version :: string

record DistroParameters =
  dp_Distro :: DistroIdentification
  dp_Package :: PackageParameter
  dp_Namespace :: string

record DistroResult =
  dr_VulnerabilityID :: string
  dr_VersionConstraint :: string

record EcosystemParameters =
  ep_Language :: string
  ep_Namespace :: string
  ep_Package :: PackageParameter

record EcosystemResult =
  er_VulnerabilityID :: string
  er_VersionConstraint :: string
  er_MatchedSymbols :: "string list"

datatype any =
    AnyCPEParameters CPEParameters
  | AnyCPEResult CPEResult
  | AnyDistroParameters DistroParameters
  | AnyDistroResult DistroResult
  | AnyEcosystemParameters EcosystemParameters
  | AnyEcosystemResult EcosystemResult
  | OtherAny string

definition sort_Strings :: "string list \<Rightarrow> string list" where
  "sort_Strings ss = go_sort (\<lambda>a b. strings_Compare a b < 0) ss"

text \<open>The methods \<^verbatim>\<open>Merge\<close>: an error, or the receiver afterwards.\<close>

definition CPEParameters_Merge :: "CPEParameters \<Rightarrow> CPEParameters \<Rightarrow> string + CPEParameters" where
  "CPEParameters_Merge i other =
     (if cp_Namespace i \<noteq> cp_Namespace other then Inl ''namespaces do not match''
      else Inr (i\<lparr>cp_CPEs := sort_Strings (remdups (cp_CPEs i @ cp_CPEs other))\<rparr>))"

definition CPEResult_Equals :: "CPEResult \<Rightarrow> CPEResult \<Rightarrow> bool" where
  "CPEResult_Equals h other \<longleftrightarrow>
     cr_VersionConstraint h = cr_VersionConstraint other
     \<and> length (cr_CPEs h) = length (cr_CPEs other)
     \<and> list_all (\<lambda>i. cr_CPEs h ! i = cr_CPEs other ! i) [0..<length (cr_CPEs h)]"

definition DistroParameters_Merge :: "DistroParameters \<Rightarrow> DistroParameters \<Rightarrow> string + DistroParameters" where
  "DistroParameters_Merge d other =
     (if dp_Namespace d \<noteq> dp_Namespace other then Inl ''namespaces do not match''
      else if di_Type (dp_Distro d) \<noteq> di_Type (dp_Distro other) then Inl ''distro types do not match''
      else if di_Version (dp_Distro d) \<noteq> di_Version (dp_Distro other) then Inl ''distro versions do not match''
      else if pp_Name (dp_Package d) \<noteq> pp_Name (dp_Package other) then Inl ''package names do not match''
      else if pp_Version (dp_Package d) \<noteq> pp_Version (dp_Package other) then Inl ''package versions do not match''
      else Inr d)"

definition DistroResult_Equals :: "DistroResult \<Rightarrow> DistroResult \<Rightarrow> bool" where
  "DistroResult_Equals d other \<longleftrightarrow>
     dr_VulnerabilityID d = dr_VulnerabilityID other \<and> dr_VersionConstraint d = dr_VersionConstraint other"

definition EcosystemParameters_Merge :: "EcosystemParameters \<Rightarrow> EcosystemParameters \<Rightarrow> string + EcosystemParameters" where
  "EcosystemParameters_Merge e other =
     (if ep_Namespace e \<noteq> ep_Namespace other then Inl ''namespaces do not match''
      else if ep_Language e \<noteq> ep_Language other then Inl ''languages do not match''
      else if pp_Name (ep_Package e) \<noteq> pp_Name (ep_Package other) then Inl ''package names do not match''
      else if pp_Version (ep_Package e) \<noteq> pp_Version (ep_Package other) then Inl ''package versions do not match''
      else Inr e)"

section \<open>Facts\<close>

lemma set_sort_Strings [simp]: "set (sort_Strings ss) = set ss"
  by (simp add: sort_Strings_def)

lemma distinct_sort_Strings [simp]: "distinct (sort_Strings ss) \<longleftrightarrow> distinct ss"
  by (metis mset_eq_imp_distinct_iff mset_go_sort sort_Strings_def)

lemma sorted_sort_Strings: "sorted_wrt (\<lambda>a b. strings_Compare a b \<le> 0) (sort_Strings ss)"
  by (simp add: sort_Strings_def str.sorted_go_sort)

lemma sorted_strings_unique:
  assumes "sorted_wrt (\<lambda>a b. strings_Compare a b \<le> 0) xs" "sorted_wrt (\<lambda>a b. strings_Compare a b \<le> 0) ys"
    and "distinct xs" "distinct ys" "set xs = set ys"
  shows "xs = ys"
  using assms
proof (induction xs arbitrary: ys)
  case (Cons x xs)
  then obtain y ys' where ys: "ys = y # ys'" by (cases ys) auto
  have "x = y"
  proof (rule ccontr)
    assume "x \<noteq> y"
    with Cons.prems(5) ys have "y \<in> set xs" "x \<in> set ys'" by auto
    with Cons.prems(1,2) ys have "strings_Compare x y \<le> 0" "strings_Compare y x \<le> 0" by auto
    with str.flip [of x y] have "strings_Compare x y = 0" by simp
    with \<open>x \<noteq> y\<close> show False by simp
  qed
  moreover have "set xs = set ys'"
    using Cons.prems(3-5) ys \<open>x = y\<close> by auto
  ultimately show ?case using Cons.IH [of ys'] Cons.prems ys by simp
qed simp

lemma CPEResult_Equals_eq:
  "CPEResult_Equals h other \<longleftrightarrow> cr_VersionConstraint h = cr_VersionConstraint other \<and> cr_CPEs h = cr_CPEs other"
  by (auto simp: CPEResult_Equals_def list_all_iff intro!: nth_equalityI)

text \<open>Merging the parameters of CPE searches is a union: in either order it gives the same sorted list of CPEs,
  each once, and merging again changes nothing.\<close>

lemma CPEParameters_Merge_union:
  assumes "CPEParameters_Merge i other = Inr m"
  shows "set (cp_CPEs m) = set (cp_CPEs i) \<union> set (cp_CPEs other)" "distinct (cp_CPEs m)"
    "\<exists>m'. CPEParameters_Merge other i = Inr m' \<and> cp_CPEs m' = cp_CPEs m"
    "CPEParameters_Merge m other = Inr m"
proof -
  let ?u = "\<lambda>a b. sort_Strings (remdups (cp_CPEs a @ cp_CPEs b))"
  from assms have ns: "cp_Namespace i = cp_Namespace other" and m: "m = i\<lparr>cp_CPEs := ?u i other\<rparr>"
    by (auto simp: CPEParameters_Merge_def split: if_splits)
  show "set (cp_CPEs m) = set (cp_CPEs i) \<union> set (cp_CPEs other)" "distinct (cp_CPEs m)" by (simp_all add: m)
  have "?u other i = ?u i other" by (rule sorted_strings_unique) (auto simp: sorted_sort_Strings)
  then show "\<exists>m'. CPEParameters_Merge other i = Inr m' \<and> cp_CPEs m' = cp_CPEs m"
    using ns by (simp add: CPEParameters_Merge_def m)
  have "?u m other = ?u i other" by (rule sorted_strings_unique) (auto simp: sorted_sort_Strings m)
  then show "CPEParameters_Merge m other = Inr m" using ns by (simp add: CPEParameters_Merge_def m)
qed

end
