(* ===== verification/Match_Model.thy ===== *)
theory Match_Model
  imports Match_Results Complex_Main
begin

text \<open>
  The data of a match: \<^verbatim>\<open>grype/match/match.go\<close>, \<^verbatim>\<open>details.go\<close>, \<^verbatim>\<open>fingerprint.go\<close>,
  \<^verbatim>\<open>type.go\<close>, \<^verbatim>\<open>sort.go\<close>, and the parts of \<^verbatim>\<open>pkg.Package\<close> and
  \<^verbatim>\<open>vulnerability.Vulnerability\<close> that the match package reads.

  \<^item> The hash of a detail (\<^verbatim>\<open>hashstructure\<close>), the merge of CPE lists (\<^verbatim>\<open>syft/cpe\<close>) and the order
    in which Go's \<^verbatim>\<open>range\<close> visits a map of fingerprints are parameters, in the record \<open>menv\<close>.
\<close>

section \<open>Data\<close>

record Reference =
  ref_ID :: string
  ref_Namespace :: string

record Fix =
  fix_Versions :: "string list"
  fix_State :: string

record Vulnerability =
  vuln_ID :: string
  vuln_Namespace :: string
  vuln_Fix :: Fix
  vuln_RelatedVulnerabilities :: "Reference list"
  vuln_CPEs :: "string list"

record Location =
  loc_RealPath :: string
  loc_AccessPath :: string

record UpstreamPackage =
  up_Name :: string
  up_Version :: string

text \<open>Of the related packages only the IDs are read, by kind of relationship.\<close>

record Package =
  pkg_ID :: string
  pkg_Name :: string
  pkg_Version :: string
  pkg_Locations :: "Location list"
  pkg_Language :: string
  pkg_Type :: string
  pkg_Upstreams :: "UpstreamPackage list"
  pkg_Distro :: "string option"
  pkg_RelatedPackages :: "(string \<times> string list) list"
  pkg_PURL :: string

record Detail =
  d_Type :: string
  d_SearchedBy :: any
  d_Found :: any
  d_Matcher :: string
  d_Confidence :: rat

record Match =
  m_Vulnerability :: Vulnerability
  m_Package :: Package
  m_Details :: "Detail list"

record coreFingerprint =
  fp_vulnerabilityID :: string
  fp_vulnerabilityNamespace :: string
  fp_packageID :: string

record Fingerprint =
  fp_core :: coreFingerprint
  fp_vulnerabilityFixes :: string

record menv =
  env_DetailID :: "Detail \<Rightarrow> string"
  env_cpe_Merge :: "string list \<Rightarrow> string list \<Rightarrow> string list"
  env_range :: "Fingerprint list \<Rightarrow> Fingerprint list"

definition ExactDirectMatch :: string where "ExactDirectMatch = ''exact-direct-match''"
definition ExactIndirectMatch :: string where "ExactIndirectMatch = ''exact-indirect-match''"
definition CPEMatch :: string where "CPEMatch = ''cpe-match''"

definition typeOrder :: "string \<Rightarrow> nat" where
  "typeOrder t =
     (if t = ExactDirectMatch then 1 else if t = ExactIndirectMatch then 2 else if t = CPEMatch then 3 else 0)"

section \<open>Details\<close>

definition Details_Types :: "Detail list \<Rightarrow> string list" where
  "Details_Types ds = map d_Type ds"

definition Details_Matchers :: "Detail list \<Rightarrow> string list" where
  "Details_Matchers ds = map d_Matcher ds"

definition Details_Less :: "menv \<Rightarrow> Detail \<Rightarrow> Detail \<Rightarrow> bool" where
  "Details_Less E a b =
     (if d_Type a \<noteq> d_Type b then
        (let ta = typeOrder (d_Type a); tb = typeOrder (d_Type b) in
         if ta = 0 then False else if tb = 0 then True else ta < tb)
      else if d_Confidence a \<noteq> d_Confidence b then d_Confidence a > d_Confidence b
      else strings_Compare (env_DetailID E a) (env_DetailID E b) < 0)"

section \<open>Matches\<close>

definition Match_Fingerprint :: "Match \<Rightarrow> Fingerprint" where
  "Match_Fingerprint m =
     \<lparr>fp_core = \<lparr>fp_vulnerabilityID = vuln_ID (m_Vulnerability m),
                fp_vulnerabilityNamespace = vuln_Namespace (m_Vulnerability m),
                fp_packageID = pkg_ID (m_Package m)\<rparr>,
      fp_vulnerabilityFixes = strings_Join (fix_Versions (vuln_Fix (m_Vulnerability m))) '',''\<rparr>"

definition referenceID :: "Reference \<Rightarrow> string" where
  "referenceID r = ref_Namespace r @ '':'' @ ref_ID r"

text \<open>\<^verbatim>\<open>Merge\<close>: \<^const>\<open>None\<close> is \<^verbatim>\<open>ErrCannotMerge\<close>, which leaves the match as it was.\<close>

definition Match_Merge :: "menv \<Rightarrow> Match \<Rightarrow> Match \<Rightarrow> Match option" where
  "Match_Merge E m other =
     (if Match_Fingerprint other \<noteq> Match_Fingerprint m then None
      else
        let v = m_Vulnerability m; ov = m_Vulnerability other;
            related = map referenceID (vuln_RelatedVulnerabilities v);
            refs = vuln_RelatedVulnerabilities v
                   @ filter (\<lambda>r. referenceID r \<notin> set related) (vuln_RelatedVulnerabilities ov);
            detailIDs = map (env_DetailID E) (m_Details m);
            details = m_Details m @ filter (\<lambda>d. env_DetailID E d \<notin> set detailIDs) (m_Details other) in
        Some (m\<lparr>m_Vulnerability :=
                 v\<lparr>vuln_RelatedVulnerabilities :=
                      go_sort (\<lambda>a b. strings_Compare (referenceID a) (referenceID b) < 0) refs,
                    vuln_CPEs := env_cpe_Merge E (vuln_CPEs v) (vuln_CPEs ov)\<rparr>,
               m_Details := go_sort (Details_Less E) details\<rparr>))"

definition to_indirect :: "Detail \<Rightarrow> Detail" where
  "to_indirect d = (if d_Type d = ExactDirectMatch then d\<lparr>d_Type := ExactIndirectMatch\<rparr> else d)"

definition ConvertToIndirectMatches :: "Match list \<Rightarrow> Package \<Rightarrow> Match list" where
  "ConvertToIndirectMatches ms p =
     map (\<lambda>m. m\<lparr>m_Details := map to_indirect (m_Details m), m_Package := p\<rparr>) ms"

text \<open>\<^verbatim>\<open>ByElements.Less\<close>; the fix versions are compared in sorted order, locations by the concatenation of
  their real paths.\<close>

definition ByElements_Less :: "Match \<Rightarrow> Match \<Rightarrow> bool" where
  "ByElements_Less a b =
     (let va = m_Vulnerability a; vb = m_Vulnerability b; pa = m_Package a; pb = m_Package b;
          fix1 = strings_Join (sort_Strings (fix_Versions (vuln_Fix va))) '','';
          fix2 = strings_Join (sort_Strings (fix_Versions (vuln_Fix vb))) '','';
          loc1 = concat (map loc_RealPath (pkg_Locations pa));
          loc2 = concat (map loc_RealPath (pkg_Locations pb)) in
      if vuln_ID va = vuln_ID vb then
        (if pkg_Name pa = pkg_Name pb then
           (if pkg_Version pa = pkg_Version pb then
              (if pkg_Type pa = pkg_Type pb then
                 (if fix1 = fix2 then strings_Compare loc1 loc2 < 0 else strings_Compare fix1 fix2 < 0)
               else strings_Compare (pkg_Type pa) (pkg_Type pb) < 0)
            else strings_Compare (pkg_Version pa) (pkg_Version pb) < 0)
         else strings_Compare (pkg_Name pa) (pkg_Name pb) < 0)
      else strings_Compare (vuln_ID va) (vuln_ID vb) < 0)"

section \<open>Facts\<close>

lemma Merge_Fingerprint: "Match_Merge E m other = Some m' \<Longrightarrow> Match_Fingerprint m' = Match_Fingerprint m"
  by (auto simp: Match_Merge_def Match_Fingerprint_def Let_def split: if_splits)

lemma Merge_Package: "Match_Merge E m other = Some m' \<Longrightarrow> m_Package m' = m_Package m"
  by (auto simp: Match_Merge_def Let_def split: if_splits)

text \<open>Merging keeps every detail of both matches, up to its identifier.\<close>

definition detail_ids :: "menv \<Rightarrow> Match \<Rightarrow> string set" where
  "detail_ids E m = env_DetailID E ` set (m_Details m)"

lemma Merge_detail_ids:
  "Match_Merge E m other = Some m' \<Longrightarrow> detail_ids E m' = detail_ids E m \<union> detail_ids E other"
proof -
  have img: "f ` (A \<union> {x \<in> B. f x \<notin> f ` A}) = f ` A \<union> f ` B" for f :: "Detail \<Rightarrow> string" and A B by auto
  assume "Match_Merge E m other = Some m'"
  then have "m_Details m' = go_sort (Details_Less E)
      (m_Details m @ filter (\<lambda>d. env_DetailID E d \<notin> env_DetailID E ` set (m_Details m)) (m_Details other))"
    by (auto simp: Match_Merge_def Let_def split: if_splits)
  then show ?thesis by (simp add: detail_ids_def img)
qed

lemma Merge_same: "Match_Fingerprint other = Match_Fingerprint m \<Longrightarrow> \<exists>m'. Match_Merge E m other = Some m'"
  by (simp add: Match_Merge_def Let_def)

subsection \<open>The order of details\<close>

definition known_type :: "Detail \<Rightarrow> bool" where
  "known_type d \<longleftrightarrow> typeOrder (d_Type d) \<noteq> 0"

lemma typeOrder_inj: "typeOrder s = typeOrder t \<Longrightarrow> typeOrder s \<noteq> 0 \<Longrightarrow> s = t"
  by (auto simp: typeOrder_def split: if_splits)

definition detail_cmp :: "menv \<Rightarrow> Detail \<Rightarrow> Detail \<Rightarrow> int" where
  "detail_cmp E a b =
     (if typeOrder (d_Type a) \<noteq> typeOrder (d_Type b) then cmp_of (typeOrder (d_Type a)) (typeOrder (d_Type b))
      else if d_Confidence a \<noteq> d_Confidence b then cmp_of (d_Confidence b) (d_Confidence a)
      else strings_Compare (env_DetailID E a) (env_DetailID E b))"

interpretation detail: three_way_order "detail_cmp E"
proof
  fix x y z
  show "detail_cmp E x y \<in> {-1, 0, 1}"
    using str.range by (simp add: detail_cmp_def cmp_of_def)
  show "detail_cmp E x x = 0" by (simp add: detail_cmp_def str.refl)
  show "detail_cmp E y x = - detail_cmp E x y"
    using str.flip [of "env_DetailID E x" "env_DetailID E y"] by (simp add: detail_cmp_def cmp_of_def)
  show "detail_cmp E x y \<le> 0 \<Longrightarrow> detail_cmp E y z \<le> 0 \<Longrightarrow> detail_cmp E x z \<le> 0"
    using str.trans [of "env_DetailID E x" "env_DetailID E y" "env_DetailID E z"]
    by (auto simp: detail_cmp_def cmp_of_def split: if_splits)
qed

lemma Details_Less_cmp:
  assumes "known_type a" "known_type b"
  shows "Details_Less E a b \<longleftrightarrow> detail_cmp E a b < 0"
proof (cases "d_Type a = d_Type b")
  case True
  then show ?thesis by (auto simp: Details_Less_def detail_cmp_def cmp_of_def)
next
  case False
  with typeOrder_inj [of "d_Type a" "d_Type b"] assms have "typeOrder (d_Type a) \<noteq> typeOrder (d_Type b)"
    by (auto simp: known_type_def)
  with False assms show ?thesis by (auto simp: Details_Less_def detail_cmp_def cmp_of_def known_type_def)
qed

section \<open>An example\<close>

fun any_text :: "any \<Rightarrow> string" where
  "any_text (OtherAny t) = t"
| "any_text _ = []"

definition example_env :: menv where
  "example_env = \<lparr>env_DetailID = (\<lambda>d. any_text (d_Found d)), env_cpe_Merge = (@), env_range = rev\<rparr>"

definition example_match :: "string \<Rightarrow> string \<Rightarrow> string list \<Rightarrow> (string \<times> string) list \<Rightarrow> Match" where
  "example_match cve pid fixes details =
     \<lparr>m_Vulnerability = \<lparr>vuln_ID = cve, vuln_Namespace = ''nvd:cpe'', vuln_Fix = \<lparr>fix_Versions = fixes, fix_State = ''fixed''\<rparr>,
        vuln_RelatedVulnerabilities = [], vuln_CPEs = []\<rparr>,
      m_Package = \<lparr>pkg_ID = pid, pkg_Name = pid, pkg_Version = ''1.0'', pkg_Locations = [], pkg_Language = [],
        pkg_Type = ''rpm'', pkg_Upstreams = [], pkg_Distro = None, pkg_RelatedPackages = [], pkg_PURL = []\<rparr>,
      m_Details = map (\<lambda>(ty, found). \<lparr>d_Type = ty, d_SearchedBy = OtherAny [], d_Found = OtherAny found,
        d_Matcher = ''rpm-matcher'', d_Confidence = 1\<rparr>) details\<rparr>"

section \<open>Properties\<close>

text \<open>Merging a match with another one of the same fingerprint always succeeds, keeps fingerprint
  and package, and keeps all details of both (as sets of detail identifiers); if all details are of
  the three known types, they come out ordered by type, then falling confidence, then identifier.\<close>

theorem Match_Merge_keeps_details:
  assumes "Match_Fingerprint other = Match_Fingerprint m"
  shows "\<exists>m'. Match_Merge E m other = Some m'
    \<and> Match_Fingerprint m' = Match_Fingerprint m \<and> m_Package m' = m_Package m
    \<and> detail_ids E m' = detail_ids E m \<union> detail_ids E other
    \<and> (list_all known_type (m_Details m) \<longrightarrow> list_all known_type (m_Details other) \<longrightarrow>
         sorted_wrt (\<lambda>a b. detail_cmp E a b \<le> 0) (m_Details m'))"
proof -
  obtain m' where m': "Match_Merge E m other = Some m'" using Merge_same [OF assms] by blast
  let ?ds = "m_Details m @ filter (\<lambda>d. env_DetailID E d \<notin> set (map (env_DetailID E) (m_Details m))) (m_Details other)"
  have ds: "m_Details m' = go_sort (Details_Less E) ?ds"
    using m' assms by (auto simp: Match_Merge_def Let_def)
  have "sorted_wrt (\<lambda>a b. detail_cmp E a b \<le> 0) (m_Details m')"
    if "list_all known_type (m_Details m)" "list_all known_type (m_Details other)"
  proof -
    have "go_sort (Details_Less E) ?ds = go_sort (\<lambda>a b. detail_cmp E a b < 0) ?ds"
      using that by (intro go_sort_cong Details_Less_cmp) (auto simp: list_all_iff)
    with ds detail.sorted_go_sort show ?thesis by metis
  qed
  with m' Merge_Fingerprint [OF m'] Merge_Package [OF m'] Merge_detail_ids [OF m'] show ?thesis by blast
qed

theorem Match_Merge_keeps_details_witness:
  "\<exists>m'. Match_Merge example_env (example_match ''CVE-1'' ''p'' [''2''] [(CPEMatch, ''a'')])
          (example_match ''CVE-1'' ''p'' [''2''] [(ExactDirectMatch, ''b'')]) = Some m'
    \<and> sorted_wrt (\<lambda>a b. detail_cmp example_env a b \<le> 0) (m_Details m')"
proof -
  let ?a = "example_match ''CVE-1'' ''p'' [''2''] [(CPEMatch, ''a'')]"
  let ?b = "example_match ''CVE-1'' ''p'' [''2''] [(ExactDirectMatch, ''b'')]"
  have "Match_Fingerprint ?b = Match_Fingerprint ?a" by (simp add: Match_Fingerprint_def example_match_def)
  moreover have "list_all known_type (m_Details ?a)" "list_all known_type (m_Details ?b)"
    by (simp_all add: example_match_def known_type_def typeOrder_def)
  ultimately show ?thesis using Match_Merge_keeps_details [of ?b ?a example_env] by blast
qed

end
