(* ===== verification/Match_Store.thy ===== *)
theory Match_Store
  imports Match_Model
begin

text \<open>
  \<^verbatim>\<open>grype/match/matches.go\<close>: the collection \<^verbatim>\<open>Matches\<close>, three maps that index matches by fingerprint,
  by core fingerprint (vulnerability and package) and by package.  Maps are association lists, sets of
  fingerprints are lists without duplicates.

  The locale \<open>match_collection\<close> states what a client of the collection relies on; it is interpreted
  on the model of \<^verbatim>\<open>Matches\<close>.
\<close>

section \<open>The interface\<close>

text \<open>A collection of matches under keys: adding a match makes its key present and loses no key; the
  detail identifiers held under a key grow by those of the added match.\<close>

locale match_collection =
  fixes empty :: 's
    and add :: "'m \<Rightarrow> 's \<Rightarrow> 's"
    and key :: "'m \<Rightarrow> 'k"
    and ids :: "'m \<Rightarrow> 'i set"
    and held :: "'s \<Rightarrow> 'k \<Rightarrow> 'i set"
    and keys :: "'s \<Rightarrow> 'k set"
    and ok :: "'s \<Rightarrow> bool"
    and valid :: "'m \<Rightarrow> bool"
  assumes ok_empty: "ok empty"
    and ok_add: "ok s \<Longrightarrow> valid m \<Longrightarrow> ok (add m s)"
    and keys_empty: "keys empty = {}"
    and keys_add: "ok s \<Longrightarrow> valid m \<Longrightarrow> keys (add m s) = insert (key m) (keys s)"
    and held_empty: "held empty k = {}"
    and held_add: "ok s \<Longrightarrow> valid m \<Longrightarrow>
      held (add m s) k = held s k \<union> (if key m = k then ids m else {})"
begin

lemma fold_add:
  "ok s \<Longrightarrow> list_all valid ms \<Longrightarrow>
   ok (fold add ms s) \<and> keys (fold add ms s) = keys s \<union> key ` set ms
   \<and> held (fold add ms s) k = held s k \<union> (\<Union>m \<in> {m \<in> set ms. key m = k}. ids m)"
proof (induction ms arbitrary: s)
  case (Cons m ms)
  have split: "(\<Union>x \<in> {x. (x = m \<or> x \<in> set ms) \<and> key x = k}. ids x)
      = (if key m = k then ids m else {}) \<union> (\<Union>x \<in> {x \<in> set ms. key x = k}. ids x)"
    by auto
  from Cons.prems have "ok (add m s)" "valid m" "list_all valid ms" by (auto intro: ok_add)
  with Cons.IH [of "add m s"] Cons.prems(1) show ?case
    by (auto simp: keys_add held_add split)
qed simp

lemma of_list:
  "list_all valid ms \<Longrightarrow>
   ok (fold add ms empty) \<and> keys (fold add ms empty) = key ` set ms
   \<and> held (fold add ms empty) k = (\<Union>m \<in> {m \<in> set ms. key m = k}. ids m)"
  using fold_add [OF ok_empty, of ms k] by (simp add: keys_empty held_empty)

end

section \<open>Definitions\<close>

record Matches =
  byFingerprint :: "(Fingerprint \<times> Match) list"
  byCoreFingerprint :: "(coreFingerprint \<times> Fingerprint list) list"
  byPackage :: "(string \<times> Fingerprint list) list"

definition newMatches :: Matches where
  "newMatches = \<lparr>byFingerprint = [], byCoreFingerprint = [], byPackage = []\<rparr>"

text \<open>Reading a map: a key that is absent gives the zero value.\<close>

definition zero_Match :: Match where
  "zero_Match =
     \<lparr>m_Vulnerability = \<lparr>vuln_ID = [], vuln_Namespace = [], vuln_Fix = \<lparr>fix_Versions = [], fix_State = []\<rparr>,
        vuln_RelatedVulnerabilities = [], vuln_CPEs = []\<rparr>,
      m_Package = \<lparr>pkg_ID = [], pkg_Name = [], pkg_Version = [], pkg_Locations = [], pkg_Language = [],
        pkg_Type = [], pkg_Upstreams = [], pkg_Distro = None, pkg_RelatedPackages = [], pkg_PURL = []\<rparr>,
      m_Details = []\<rparr>"

definition get_match :: "Matches \<Rightarrow> Fingerprint \<Rightarrow> Match" where
  "get_match r fp = (case map_of (byFingerprint r) fp of None \<Rightarrow> zero_Match | Some m \<Rightarrow> m)"

definition get_fps :: "('k \<times> 'v list) list \<Rightarrow> 'k \<Rightarrow> 'v list" where
  "get_fps al k = (case map_of al k of None \<Rightarrow> [] | Some fps \<Rightarrow> fps)"

text \<open>\<^verbatim>\<open>range\<close> over a map visits every entry once, in an order that is not specified: the order the
  parameter gives if that is a permutation.\<close>

definition is_perm :: "'a list \<Rightarrow> 'a list \<Rightarrow> bool" where
  "is_perm xs ys \<longleftrightarrow> length xs = length ys \<and> list_all (\<lambda>x. count_list xs x = count_list ys x) (xs @ ys)"

definition go_range :: "menv \<Rightarrow> Fingerprint list \<Rightarrow> Fingerprint list" where
  "go_range E fps = (if is_perm (env_range E fps) fps then env_range E fps else fps)"

definition hasMatchType :: "Detail list \<Rightarrow> string \<Rightarrow> bool" where
  "hasMatchType details ty = list_ex (\<lambda>d. d_Type d = ty) details"

definition hasExclusivelyAnyMatchTypes :: "Detail list \<Rightarrow> string list \<Rightarrow> bool" where
  "hasExclusivelyAnyMatchTypes details tys \<longleftrightarrow>
     details \<noteq> [] \<and> list_all (\<lambda>d. d_Type d \<in> set tys) details"

definition Matches_replace ::
  "menv \<Rightarrow> Matches \<Rightarrow> Match \<Rightarrow> Fingerprint \<Rightarrow> Fingerprint \<Rightarrow> Detail list \<Rightarrow> Matches \<times> bool" where
  "Matches_replace E r m ogFp newFp extraDetails =
     (if fp_core ogFp \<noteq> fp_core newFp then (r, False)
      else
        (r\<lparr>byPackage := map (\<lambda>(pkgID, fps). (pkgID,
               if ogFp \<in> set fps then List.insert newFp (removeAll ogFp fps) else fps)) (byPackage r),
           byFingerprint := AList.update newFp
               (m\<lparr>m_Details := go_sort (Details_Less E) (m_Details m @ extraDetails)\<rparr>)
               (AList.delete ogFp (byFingerprint r))\<rparr>, True))"

definition shouldSupersede :: "Match \<Rightarrow> Match \<Rightarrow> bool" where
  "shouldSupersede newMatch existingMatch \<longleftrightarrow>
     hasMatchType (m_Details newMatch) ExactDirectMatch
     \<and> hasExclusivelyAnyMatchTypes (m_Details existingMatch) [ExactIndirectMatch]"

text \<open>The loop over the fingerprints with the same core: \<open>existingMatch\<close> is a copy, so what is merged
  into it is not stored.\<close>

fun mergeCoreMatches ::
  "menv \<Rightarrow> Matches \<Rightarrow> Match \<Rightarrow> Fingerprint \<Rightarrow> Fingerprint list \<Rightarrow> Matches \<times> bool" where
  "mergeCoreMatches E r newMatch newFp [] = (r, False)"
| "mergeCoreMatches E r newMatch newFp (existingFp # fps) =
     (let existingMatch = get_match r existingFp;
          supersede = shouldSupersede newMatch existingMatch;
          (r1, replaced) = (if supersede
                            then Matches_replace E r newMatch existingFp newFp (m_Details existingMatch)
                            else (r, False)) in
      if replaced then (r1, True)
      else let existingMatch = (if supersede
                 then existingMatch\<lparr>m_Details := m_Details existingMatch @ m_Details newMatch\<rparr> else existingMatch) in
           case Match_Merge E existingMatch newMatch of
             Some _ \<Rightarrow> (r1, True)
           | None \<Rightarrow> mergeCoreMatches E r1 newMatch newFp fps)"

definition addOrMerge :: "menv \<Rightarrow> Matches \<Rightarrow> Match \<Rightarrow> Fingerprint \<Rightarrow> Matches" where
  "addOrMerge E r newMatch newFp =
     (case map_of (byFingerprint r) newFp of
        Some existingMatch \<Rightarrow>
          let merged = (case Match_Merge E existingMatch newMatch of
                          Some m \<Rightarrow> m
                        | None \<Rightarrow> existingMatch\<lparr>m_Details := m_Details existingMatch @ m_Details newMatch\<rparr>) in
          r\<lparr>byFingerprint := AList.update newFp merged (byFingerprint r)\<rparr>
      | None \<Rightarrow>
          (case map_of (byCoreFingerprint r) (fp_core newFp) of
             Some existingFingerprints \<Rightarrow>
               (case mergeCoreMatches E r newMatch newFp (go_range E existingFingerprints) of
                  (r1, True) \<Rightarrow> r1
                | (r1, False) \<Rightarrow> r1\<lparr>byFingerprint := AList.update newFp newMatch (byFingerprint r1)\<rparr>)
           | None \<Rightarrow> r\<lparr>byFingerprint := AList.update newFp newMatch (byFingerprint r)\<rparr>))"

definition Matches_Add1 :: "menv \<Rightarrow> Match \<Rightarrow> Matches \<Rightarrow> Matches" where
  "Matches_Add1 E newMatch r =
     (let newFp = Match_Fingerprint newMatch;
          r1 = addOrMerge E r newMatch newFp;
          pid = pkg_ID (m_Package newMatch) in
      r1\<lparr>byCoreFingerprint := AList.update (fp_core newFp)
            (List.insert newFp (get_fps (byCoreFingerprint r1) (fp_core newFp))) (byCoreFingerprint r1),
         byPackage := AList.update pid (List.insert newFp (get_fps (byPackage r1) pid)) (byPackage r1)\<rparr>)"

definition Matches_Add :: "menv \<Rightarrow> Match list \<Rightarrow> Matches \<Rightarrow> Matches" where
  "Matches_Add E ms r = fold (Matches_Add1 E) ms r"

definition NewMatches :: "menv \<Rightarrow> Match list \<Rightarrow> Matches" where
  "NewMatches E ms = Matches_Add E ms newMatches"

definition GetByPkgID :: "menv \<Rightarrow> Matches \<Rightarrow> string \<Rightarrow> Match list" where
  "GetByPkgID E r pid = map (get_match r) (go_range E (get_fps (byPackage r) pid))"

definition AllByPkgID :: "menv \<Rightarrow> Matches \<Rightarrow> (string \<times> Match list) list" where
  "AllByPkgID E r = map (\<lambda>(pid, fps). (pid, map (get_match r) (go_range E fps))) (byPackage r)"

definition Matches_Merge :: "menv \<Rightarrow> Matches \<Rightarrow> Matches \<Rightarrow> Matches" where
  "Matches_Merge E r other =
     Matches_Add E (concat (map (\<lambda>(pid, fps). map (get_match other) (go_range E fps)) (byPackage other))) r"

definition Matches_Diff :: "menv \<Rightarrow> Matches \<Rightarrow> Matches \<Rightarrow> Matches" where
  "Matches_Diff E r other =
     Matches_Add E
       (map (get_match r)
         (filter (\<lambda>fp. map_of (byFingerprint other) fp = None) (go_range E (map fst (byFingerprint r)))))
       newMatches"

definition Enumerate :: "menv \<Rightarrow> Matches \<Rightarrow> Match list" where
  "Enumerate E r = map (get_match r) (go_range E (map fst (byFingerprint r)))"

definition Sorted :: "menv \<Rightarrow> Matches \<Rightarrow> Match list" where
  "Sorted E r = go_sort ByElements_Less (Enumerate E r)"

definition Count :: "Matches \<Rightarrow> nat" where
  "Count r = length (byFingerprint r)"

section \<open>The invariant\<close>

definition present :: "Matches \<Rightarrow> Fingerprint set" where
  "present r = dom (map_of (byFingerprint r))"

text \<open>Every match is stored under its own fingerprint; the package index holds exactly the fingerprints
  that are present, each under its package; the core index holds at least those.\<close>

definition own_ok :: "(Fingerprint \<rightharpoonup> Match) \<Rightarrow> bool" where
  "own_ok M \<longleftrightarrow> (\<forall>fp m. M fp = Some m \<longrightarrow> Match_Fingerprint m = fp)"

definition pkg_index_ok :: "(string \<Rightarrow> Fingerprint list) \<Rightarrow> Fingerprint set \<Rightarrow> bool" where
  "pkg_index_ok P S \<longleftrightarrow>
     (\<forall>pid. distinct (P pid) \<and> set (P pid) = {fp \<in> S. fp_packageID (fp_core fp) = pid})"

definition core_index_ok :: "(coreFingerprint \<Rightarrow> Fingerprint list) \<Rightarrow> Fingerprint set \<Rightarrow> bool" where
  "core_index_ok C S \<longleftrightarrow>
     (\<forall>fp \<in> S. fp \<in> set (C (fp_core fp))) \<and> (\<forall>c. \<forall>fp \<in> set (C c). fp_core fp = c)"

definition matches_ok :: "Matches \<Rightarrow> bool" where
  "matches_ok r \<longleftrightarrow>
     distinct (map fst (byFingerprint r)) \<and> own_ok (map_of (byFingerprint r))
     \<and> pkg_index_ok (get_fps (byPackage r)) (present r)
     \<and> core_index_ok (get_fps (byCoreFingerprint r)) (present r)"

definition cores :: "Matches \<Rightarrow> coreFingerprint set" where
  "cores r = fp_core ` present r"

definition core_details :: "menv \<Rightarrow> Matches \<Rightarrow> coreFingerprint \<Rightarrow> string set" where
  "core_details E r c =
     {i. \<exists>fp m. map_of (byFingerprint r) fp = Some m \<and> fp_core fp = c \<and> i \<in> detail_ids E m}"

text \<open>A match of a vulnerability that has an identifier.\<close>

definition named :: "Match \<Rightarrow> bool" where
  "named m \<longleftrightarrow> vuln_ID (m_Vulnerability m) \<noteq> []"

definition core_of :: "Match \<Rightarrow> coreFingerprint" where
  "core_of m = fp_core (Match_Fingerprint m)"

lemma is_perm_mset:
  fixes xs ys :: "'a list"
  assumes p: "is_perm xs ys"
  shows "mset xs = mset ys"
proof (rule multiset_eqI)
  fix x :: 'a
  have "count (mset zs) x = count_list zs x" for zs :: "'a list" by (induction zs) auto
  moreover have "count_list xs x = count_list ys x"
  proof (cases "x \<in> set (xs @ ys)")
    case True
    with p show ?thesis by (auto simp: is_perm_def list_all_iff)
  next
    case False
    then show ?thesis by (simp add: count_notin)
  qed
  ultimately show "count (mset xs) x = count (mset ys) x" by simp
qed

lemma mset_go_range [simp]: "mset (go_range E fps) = mset fps"
  by (simp add: go_range_def is_perm_mset)

lemma set_go_range [simp]: "set (go_range E fps) = set fps"
  by (metis mset_go_range set_mset_mset)

lemma get_fps_update: "get_fps (AList.update k v al) = (get_fps al)(k := v)"
  by (rule ext) (simp add: get_fps_def update_conv')

lemma matches_ok_new: "matches_ok newMatches" "cores newMatches = {}" "core_details E newMatches c = {}"
  by (simp_all add: matches_ok_def newMatches_def present_def get_fps_def cores_def core_details_def
      own_ok_def pkg_index_ok_def core_index_ok_def)

text \<open>Between storing a match and indexing it, its fingerprint is the only one that may be missing from
  the indexes.\<close>

definition almost_ok :: "Matches \<Rightarrow> Fingerprint \<Rightarrow> bool" where
  "almost_ok r nfp \<longleftrightarrow>
     distinct (map fst (byFingerprint r)) \<and> own_ok (map_of (byFingerprint r))
     \<and> (\<exists>S. present r = insert nfp S \<and> pkg_index_ok (get_fps (byPackage r)) S)
     \<and> (\<exists>S. present r = insert nfp S \<and> core_index_ok (get_fps (byCoreFingerprint r)) S)"

lemma present_simps [simp]:
  "present (r\<lparr>byFingerprint := al\<rparr>) = dom (map_of al)"
  "present (r\<lparr>byCoreFingerprint := cs\<rparr>) = present r"
  "present (r\<lparr>byPackage := ps\<rparr>) = present r"
  by (simp_all add: present_def)

lemma pkg_index_insert:
  "pkg_index_ok P S \<Longrightarrow> pkg_index_ok (P(fp_packageID (fp_core nfp) := List.insert nfp (P (fp_packageID (fp_core nfp))))) (insert nfp S)"
  by (auto simp: pkg_index_ok_def)

lemma core_index_insert:
  "core_index_ok C S \<Longrightarrow> core_index_ok (C(fp_core nfp := List.insert nfp (C (fp_core nfp)))) (insert nfp S)"
  unfolding core_index_ok_def
proof (intro conjI ballI allI; elim conjE)
  fix fp assume "\<forall>fp \<in> S. fp \<in> set (C (fp_core fp))" "fp \<in> insert nfp S"
  then show "fp \<in> set ((C(fp_core nfp := List.insert nfp (C (fp_core nfp)))) (fp_core fp))"
    by (cases "fp = nfp") auto
next
  fix c fp assume C: "\<forall>c. \<forall>fp \<in> set (C c). fp_core fp = c"
    and fp: "fp \<in> set ((C(fp_core nfp := List.insert nfp (C (fp_core nfp)))) c)"
  show "fp_core fp = c"
  proof (cases "c = fp_core nfp \<and> fp = nfp")
    case False
    with fp have "fp \<in> set (C c)" by (simp split: if_splits)
    with C show ?thesis by blast
  qed simp
qed

lemma index_almost_ok:
  assumes "almost_ok r nfp"
  shows "matches_ok
    (r\<lparr>byCoreFingerprint := AList.update (fp_core nfp)
          (List.insert nfp (get_fps (byCoreFingerprint r) (fp_core nfp))) (byCoreFingerprint r),
       byPackage := AList.update (fp_packageID (fp_core nfp))
          (List.insert nfp (get_fps (byPackage r) (fp_packageID (fp_core nfp)))) (byPackage r)\<rparr>)"
proof -
  from assms obtain S where S: "present r = insert nfp S" "pkg_index_ok (get_fps (byPackage r)) S"
    unfolding almost_ok_def by blast
  from assms obtain T where T: "present r = insert nfp T" "core_index_ok (get_fps (byCoreFingerprint r)) T"
    unfolding almost_ok_def by blast
  from pkg_index_insert [OF S(2), of nfp] core_index_insert [OF T(2), of nfp] assms
  show ?thesis
    unfolding matches_ok_def almost_ok_def
    by (simp add: get_fps_update S(1) [symmetric] T(1) [symmetric])
qed

lemma own_ok_upd: "own_ok M \<Longrightarrow> Match_Fingerprint m = fp \<Longrightarrow> own_ok (M(fp \<mapsto> m))"
  by (simp add: own_ok_def)

lemma store_ok:
  assumes "matches_ok r" "Match_Fingerprint m = nfp"
  shows "almost_ok (r\<lparr>byFingerprint := AList.update nfp m (byFingerprint r)\<rparr>) nfp"
  using assms own_ok_upd [of "map_of (byFingerprint r)" m nfp]
  unfolding almost_ok_def matches_ok_def
  by (auto simp: update_conv' distinct_update present_def)

lemma get_fps_map: "get_fps (map (\<lambda>(k, v). (k, f v)) al) k = (case map_of al k of None \<Rightarrow> [] | Some v \<Rightarrow> f v)"
  by (simp add: get_fps_def map_of_map split: option.splits)

text \<open>Replacing a fingerprint by another one of the same core.\<close>

definition swap_fp :: "Fingerprint \<Rightarrow> Fingerprint \<Rightarrow> Fingerprint list \<Rightarrow> Fingerprint list" where
  "swap_fp og nfp fps = (if og \<in> set fps then List.insert nfp (removeAll og fps) else fps)"

lemma get_fps_swap: "get_fps (map (\<lambda>(k, fps). (k, swap_fp og nfp fps)) al) k = swap_fp og nfp (get_fps al k)"
  unfolding get_fps_map by (simp add: get_fps_def swap_fp_def split: option.splits)

lemma pkg_index_swap:
  assumes "pkg_index_ok P S" "og \<in> S" "fp_core og = fp_core nfp"
  shows "pkg_index_ok (\<lambda>pid. swap_fp og nfp (P pid)) (insert nfp (S - {og}))"
  unfolding pkg_index_ok_def
proof
  fix pid
  have P: "distinct (P pid)" "set (P pid) = {fp \<in> S. fp_packageID (fp_core fp) = pid}"
    using assms(1) by (auto simp: pkg_index_ok_def)
  have d: "distinct (swap_fp og nfp (P pid))"
    using P(1) by (simp add: swap_fp_def distinct_removeAll)
  have "set (swap_fp og nfp (P pid)) = {fp \<in> insert nfp (S - {og}). fp_packageID (fp_core fp) = pid}"
  proof (cases "fp_packageID (fp_core og) = pid")
    case True
    with P(2) assms(2) have "og \<in> set (P pid)" by simp
    then have "set (swap_fp og nfp (P pid)) = insert nfp ({fp \<in> S. fp_packageID (fp_core fp) = pid} - {og})"
      by (simp add: swap_fp_def P(2))
    also have "\<dots> = {fp \<in> insert nfp (S - {og}). fp_packageID (fp_core fp) = pid}"
      using True assms(3) by (intro set_eqI) (simp, blast)
    finally show ?thesis .
  next
    case False
    with P(2) have "swap_fp og nfp (P pid) = P pid" by (simp add: swap_fp_def)
    moreover have "{fp \<in> S. fp_packageID (fp_core fp) = pid} = {fp \<in> insert nfp (S - {og}). fp_packageID (fp_core fp) = pid}"
      using False assms(3) by auto
    ultimately show ?thesis using P(2) by simp
  qed
  with d show "distinct (swap_fp og nfp (P pid)) \<and>
      set (swap_fp og nfp (P pid)) = {fp \<in> insert nfp (S - {og}). fp_packageID (fp_core fp) = pid}" ..
qed

lemma replace_eq:
  "fp_core og = fp_core nfp \<Longrightarrow>
   Matches_replace E r m og nfp extra =
     (r\<lparr>byPackage := map (\<lambda>(k, fps). (k, swap_fp og nfp fps)) (byPackage r),
        byFingerprint := AList.update nfp (m\<lparr>m_Details := go_sort (Details_Less E) (m_Details m @ extra)\<rparr>)
            (AList.delete og (byFingerprint r))\<rparr>, True)"
  by (simp add: Matches_replace_def swap_fp_def cong: if_cong)

lemma replace_ok:
  assumes "matches_ok r" "og \<in> present r" "fp_core og = fp_core nfp" "Match_Fingerprint m = nfp"
  shows "almost_ok (fst (Matches_replace E r m og nfp extra)) nfp"
proof -
  let ?m = "m\<lparr>m_Details := go_sort (Details_Less E) (m_Details m @ extra)\<rparr>"
  have fp: "Match_Fingerprint ?m = nfp" using assms(4) by (simp add: Match_Fingerprint_def)
  have own: "own_ok ((map_of (byFingerprint r))(og := None, nfp \<mapsto> ?m))"
    using assms(1) fp by (intro own_ok_upd) (auto simp: matches_ok_def own_ok_def)
  have pkg: "pkg_index_ok (\<lambda>pid. swap_fp og nfp (get_fps (byPackage r) pid)) (insert nfp (present r - {og}))"
    using assms by (intro pkg_index_swap) (auto simp: matches_ok_def)
  have core: "core_index_ok (get_fps (byCoreFingerprint r)) (present r - {og})"
    using assms(1) by (auto simp: matches_ok_def core_index_ok_def)
  have dist: "distinct (map fst (AList.update nfp ?m (AList.delete og (byFingerprint r))))"
    using assms(1) by (intro distinct_update distinct_delete) (simp add: matches_ok_def)
  have dom: "dom ((map_of (byFingerprint r))(og := None, nfp \<mapsto> ?m)) = insert nfp (present r - {og})"
    by (auto simp: present_def)
  let ?r = "r\<lparr>byPackage := map (\<lambda>(k, fps). (k, swap_fp og nfp fps)) (byPackage r),
      byFingerprint := AList.update nfp ?m (AList.delete og (byFingerprint r))\<rparr>"
  have pres: "present ?r = insert nfp (present r - {og})"
    unfolding dom [symmetric] by (simp add: update_conv' delete_conv')
  have "\<exists>S. present ?r = insert nfp S \<and> pkg_index_ok (get_fps (byPackage ?r)) S"
    using pkg pres by (intro exI [of _ "insert nfp (present r - {og})"]) (simp add: get_fps_swap [abs_def])
  moreover have "\<exists>S. present ?r = insert nfp S \<and> core_index_ok (get_fps (byCoreFingerprint ?r)) S"
    using core pres by (intro exI [of _ "present r - {og}"]) simp
  ultimately show ?thesis
    unfolding replace_eq [OF assms(3)] almost_ok_def fst_conv
    using own dist by (simp add: update_conv' delete_conv')
qed

section \<open>Adding a match\<close>

lemma zero_fingerprint: "vuln_ID (m_Vulnerability m) \<noteq> [] \<Longrightarrow> Match_Fingerprint m \<noteq> Match_Fingerprint zero_Match"
  by (simp add: Match_Fingerprint_def zero_Match_def)

lemma fingerprint_details: "Match_Fingerprint (m\<lparr>m_Details := ds\<rparr>) = Match_Fingerprint m"
  by (simp add: Match_Fingerprint_def)

lemma get_match_fingerprint:
  assumes "own_ok (map_of (byFingerprint r))"
  shows "Match_Fingerprint (get_match r fp) = (if fp \<in> present r then fp else Match_Fingerprint zero_Match)"
  using assms by (auto simp: get_match_def own_ok_def present_def split: option.splits)

text \<open>The loop over matches with the same core either finds none to replace, or replaces one.\<close>

lemma mergeCoreMatches_cases:
  assumes r: "own_ok (map_of (byFingerprint r))" and nm: "named nm" "Match_Fingerprint nm = nfp"
    and new: "nfp \<notin> present r" and fps: "\<forall>fp \<in> set fps. fp_core fp = fp_core nfp"
  shows "mergeCoreMatches E r nm nfp fps = (r, False)
    \<or> (\<exists>og \<in> present r. fp_core og = fp_core nfp \<and>
         mergeCoreMatches E r nm nfp fps = Matches_replace E r nm og nfp (m_Details (get_match r og)))"
  using fps
proof (induction fps)
  case (Cons fp fps)
  let ?x = "get_match r fp"
  show ?case
  proof (cases "shouldSupersede nm ?x")
    case True
    then have "?x \<noteq> zero_Match"
      by (auto simp: shouldSupersede_def hasExclusivelyAnyMatchTypes_def zero_Match_def)
    then have p: "fp \<in> present r" by (auto simp: get_match_def present_def split: option.splits)
    have "mergeCoreMatches E r nm nfp (fp # fps) = Matches_replace E r nm fp nfp (m_Details ?x)"
      using True Cons.prems replace_eq [of fp nfp E r nm "m_Details ?x"] by simp
    with p Cons.prems show ?thesis by auto
  next
    case False
    have "Match_Fingerprint nm \<noteq> Match_Fingerprint ?x"
      using get_match_fingerprint [OF r, of fp] new nm zero_fingerprint [of nm] by (auto simp: named_def)
    then have "Match_Merge E ?x nm = None" by (simp add: Match_Merge_def)
    with False have eq: "mergeCoreMatches E r nm nfp (fp # fps) = mergeCoreMatches E r nm nfp fps"
      by (simp add: Let_def)
    have "\<forall>fp \<in> set fps. fp_core fp = fp_core nfp" using Cons.prems by simp
    from Cons.IH [OF this] show ?thesis unfolding eq .
  qed
qed simp

text \<open>The three ways a match can be stored: merged with the one of the same fingerprint, in place of one
  with the same core, or as a new one.\<close>

lemma addOrMerge_cases:
  assumes r: "matches_ok r" and nm: "named nm" "Match_Fingerprint nm = nfp"
  obtains (merged) m m' where "map_of (byFingerprint r) nfp = Some m" "Match_Merge E m nm = Some m'"
      "addOrMerge E r nm nfp = r\<lparr>byFingerprint := AList.update nfp m' (byFingerprint r)\<rparr>"
    | (replaced) og where "nfp \<notin> present r" "og \<in> present r" "fp_core og = fp_core nfp"
      "addOrMerge E r nm nfp = fst (Matches_replace E r nm og nfp (m_Details (get_match r og)))"
    | (stored) "nfp \<notin> present r"
      "addOrMerge E r nm nfp = r\<lparr>byFingerprint := AList.update nfp nm (byFingerprint r)\<rparr>"
proof (cases "map_of (byFingerprint r) nfp")
  case (Some m)
  have "Match_Fingerprint m = nfp" using r Some by (auto simp: matches_ok_def own_ok_def)
  then obtain m' where "Match_Merge E m nm = Some m'" using Merge_same [of nm m E] nm by auto
  with Some merged show ?thesis by (simp add: addOrMerge_def)
next
  case None
  then have new: "nfp \<notin> present r" by (auto simp: present_def)
  show ?thesis
  proof (cases "map_of (byCoreFingerprint r) (fp_core nfp)")
    case None
    with \<open>map_of (byFingerprint r) nfp = None\<close> stored new show ?thesis by (simp add: addOrMerge_def)
  next
    case (Some fps)
    have core: "\<forall>fp \<in> set (go_range E fps). fp_core fp = fp_core nfp"
    proof -
      have "get_fps (byCoreFingerprint r) (fp_core nfp) = fps" by (simp add: get_fps_def Some)
      with r show ?thesis unfolding matches_ok_def core_index_ok_def set_go_range by metis
    qed
    have "own_ok (map_of (byFingerprint r))" using r by (simp add: matches_ok_def)
    from mergeCoreMatches_cases [OF this nm new core, of E] show ?thesis
    proof (elim disjE bexE conjE)
      assume "mergeCoreMatches E r nm nfp (go_range E fps) = (r, False)"
      with None Some stored new show ?thesis by (simp add: addOrMerge_def)
    next
      fix og assume og: "og \<in> present r" "fp_core og = fp_core nfp"
        "mergeCoreMatches E r nm nfp (go_range E fps) = Matches_replace E r nm og nfp (m_Details (get_match r og))"
      then have "addOrMerge E r nm nfp = fst (Matches_replace E r nm og nfp (m_Details (get_match r og)))"
        using None Some replace_eq [OF og(2)] by (simp add: addOrMerge_def)
      with og new replaced show ?thesis by blast
    qed
  qed
qed

lemma addOrMerge_ok:
  assumes "matches_ok r" "named nm" "Match_Fingerprint nm = nfp"
  shows "almost_ok (addOrMerge E r nm nfp) nfp"
  using assms
proof (cases rule: addOrMerge_cases [where E = E])
  case (merged m m')
  then have "Match_Fingerprint m' = nfp"
    using Merge_Fingerprint assms(1) by (auto simp: matches_ok_def own_ok_def)
  with merged store_ok [OF assms(1), of m' nfp] show ?thesis by simp
next
  case (replaced og)
  with replace_ok [OF assms(1), of og nfp nm] assms show ?thesis by simp
next
  case stored
  with store_ok [OF assms(1,3)] show ?thesis by simp
qed

lemma addOrMerge_cores:
  assumes "matches_ok r" "named nm" "Match_Fingerprint nm = nfp"
  shows "cores (addOrMerge E r nm nfp) = insert (fp_core nfp) (cores r)"
  using assms
proof (cases rule: addOrMerge_cases [where E = E])
  case (merged m m')
  then have "nfp \<in> present r" by (auto simp: present_def)
  with merged show ?thesis by (auto simp: cores_def update_conv' present_def [symmetric])
next
  case (replaced og)
  have "fp_core ` (insert nfp (present r - {og})) = insert (fp_core nfp) (fp_core ` present r)"
    using replaced(3) by auto
  with replaced show ?thesis
    by (simp add: cores_def replace_eq update_conv' delete_conv' present_def [symmetric])
next
  case stored
  then show ?thesis by (simp add: cores_def update_conv' present_def [symmetric])
qed

definition held_ids :: "(Fingerprint \<rightharpoonup> Match) \<Rightarrow> (Match \<Rightarrow> string set) \<Rightarrow> coreFingerprint \<Rightarrow> string set" where
  "held_ids M D c = (\<Union>fp \<in> {fp \<in> dom M. fp_core fp = c}. D (the (M fp)))"

lemma core_details_held: "core_details E r c = held_ids (map_of (byFingerprint r)) (detail_ids E) c"
  by (force simp: core_details_def held_ids_def)

lemma held_upd:
  "held_ids (M(k \<mapsto> m0)) D c = held_ids (M(k := None)) D c \<union> (if fp_core k = c then D m0 else {})"
  by (auto simp: held_ids_def split: if_splits)

lemma held_split:
  "M k = Some m0 \<Longrightarrow> held_ids M D c = held_ids (M(k := None)) D c \<union> (if fp_core k = c then D m0 else {})"
  using held_upd [of M k m0 D c] by (simp add: fun_upd_idem)

lemma addOrMerge_details:
  assumes "matches_ok r" "named nm" "Match_Fingerprint nm = nfp"
  shows "core_details E (addOrMerge E r nm nfp) c =
    core_details E r c \<union> (if fp_core nfp = c then detail_ids E nm else {})"
  using assms
proof (cases rule: addOrMerge_cases [where E = E])
  case (merged m m')
  have ids: "detail_ids E m' = detail_ids E m \<union> detail_ids E nm" by (rule Merge_detail_ids [OF merged(2)])
  then show ?thesis
    using held_split [of "map_of (byFingerprint r)" nfp m "detail_ids E" c] merged(1)
    by (auto simp: core_details_held merged(3) update_conv' held_upd)
next
  case (replaced og)
  let ?m = "nm\<lparr>m_Details := go_sort (Details_Less E) (m_Details nm @ m_Details (get_match r og))\<rparr>"
  have ids: "detail_ids E ?m = detail_ids E nm \<union> detail_ids E (get_match r og)"
    by (auto simp: detail_ids_def)
  obtain m where m: "map_of (byFingerprint r) og = Some m" "get_match r og = m"
    using replaced(2) by (auto simp: present_def get_match_def)
  have lookup: "map_of (byFingerprint (addOrMerge E r nm nfp)) = (map_of (byFingerprint r))(og := None, nfp \<mapsto> ?m)"
    by (simp add: replaced(3,4) replace_eq update_conv' delete_conv')
  have none: "(map_of (byFingerprint r))(og := None, nfp := None) = (map_of (byFingerprint r))(og := None)"
    using replaced(1) by (intro fun_upd_idem) (auto simp: present_def)
  show ?thesis
    using ids m(2) replaced(3) held_split [of "map_of (byFingerprint r)" og m "detail_ids E" c] m(1)
    by (auto simp: core_details_held lookup held_upd none)
next
  case stored
  then have "(map_of (byFingerprint r))(nfp := None) = map_of (byFingerprint r)"
    by (intro fun_upd_idem) (auto simp: present_def)
  then show ?thesis
    by (simp add: core_details_held stored(2) update_conv' held_upd)
qed

lemma packageID_fingerprint: "fp_packageID (fp_core (Match_Fingerprint m)) = pkg_ID (m_Package m)"
  by (simp add: Match_Fingerprint_def)

lemma Add1_ok: "matches_ok r \<Longrightarrow> named m \<Longrightarrow> matches_ok (Matches_Add1 E m r)"
  using index_almost_ok [OF addOrMerge_ok, of r m "Match_Fingerprint m" E]
  by (simp add: Matches_Add1_def Let_def packageID_fingerprint)

lemma Add1_byFingerprint:
  "byFingerprint (Matches_Add1 E m r) = byFingerprint (addOrMerge E r m (Match_Fingerprint m))"
  by (simp add: Matches_Add1_def Let_def)

interpretation store: match_collection newMatches "Matches_Add1 E" core_of "detail_ids E" "core_details E"
  cores matches_ok named
proof
  fix r m c
  show "matches_ok newMatches" "cores newMatches = {}" "core_details E newMatches c = {}"
    by (rule matches_ok_new)+
  assume ok: "matches_ok r" "named m"
  then show "matches_ok (Matches_Add1 E m r)" by (rule Add1_ok)
  from addOrMerge_cores [OF ok refl, of E] show "cores (Matches_Add1 E m r) = insert (core_of m) (cores r)"
    by (simp add: cores_def present_def Add1_byFingerprint core_of_def)
  from addOrMerge_details [OF ok refl, of E c]
  show "core_details E (Matches_Add1 E m r) c = core_details E r c \<union> (if core_of m = c then detail_ids E m else {})"
    by (simp add: core_details_def Add1_byFingerprint core_of_def)
qed

section \<open>Reading the collection\<close>

lemma Enumerate_set:
  assumes "matches_ok r"
  shows "set (Enumerate E r) = {m. \<exists>fp. map_of (byFingerprint r) fp = Some m}"
proof -
  have "distinct (map fst (byFingerprint r))" using assms by (simp add: matches_ok_def)
  then show ?thesis
    by (force simp: Enumerate_def get_match_def)
qed

lemma Sorted_set: "matches_ok r \<Longrightarrow> set (Sorted E r) = set (Enumerate E r)"
  by (simp add: Sorted_def)

lemma cores_Enumerate: "matches_ok r \<Longrightarrow> cores r = core_of ` set (Enumerate E r)"
  by (force simp: Enumerate_set cores_def present_def core_of_def matches_ok_def own_ok_def)

lemma Enumerate_distinct:
  assumes "matches_ok r"
  shows "distinct (map Match_Fingerprint (Enumerate E r))"
proof -
  have "Match_Fingerprint (get_match r fp) = fp" if "fp \<in> set (map fst (byFingerprint r))" for fp
  proof -
    from that have "fp \<in> present r" by (auto simp: present_def dom_map_of_conv_image_fst)
    with get_match_fingerprint [of r fp] assms show ?thesis by (simp add: matches_ok_def)
  qed
  then have "map Match_Fingerprint (Enumerate E r) = go_range E (map fst (byFingerprint r))"
    by (auto simp: Enumerate_def comp_def intro!: map_idI)
  moreover have "distinct (go_range E (map fst (byFingerprint r)))"
    using assms by (metis matches_ok_def mset_eq_imp_distinct_iff mset_go_range)
  ultimately show ?thesis by simp
qed

lemma NewMatches_ok: "list_all named ms \<Longrightarrow> matches_ok (NewMatches E ms)"
  using store.of_list [of ms E] by (simp add: NewMatches_def Matches_Add_def)

lemma NewMatches_cores:
  "list_all named ms \<Longrightarrow> core_of ` set (Enumerate E (NewMatches E ms)) = core_of ` set ms"
  using store.of_list [of ms E] cores_Enumerate [of "NewMatches E ms" E]
  by (simp add: NewMatches_def Matches_Add_def)

lemma named_core: "named m \<longleftrightarrow> fp_vulnerabilityID (core_of m) \<noteq> []"
  by (simp add: named_def core_of_def Match_Fingerprint_def)

lemma Enumerate_named:
  assumes "list_all named ms"
  shows "list_all named (Enumerate E (NewMatches E ms))"
proof -
  have "named m" if "m \<in> set (Enumerate E (NewMatches E ms))" for m
  proof -
    from that have "core_of m \<in> core_of ` set ms" using NewMatches_cores [OF assms, of E] by blast
    with assms show ?thesis by (auto simp: named_core list_all_iff)
  qed
  then show ?thesis by (simp add: list_all_iff)
qed

text \<open>What a stored match is about is what some added match was about.\<close>

definition same_subject :: "Match \<Rightarrow> Match \<Rightarrow> bool" where
  "same_subject m m0 \<longleftrightarrow> m_Package m = m_Package m0 \<and>
     (let v = m_Vulnerability m; v0 = m_Vulnerability m0 in
      vuln_ID v = vuln_ID v0 \<and> vuln_Namespace v = vuln_Namespace v0 \<and> vuln_Fix v = vuln_Fix v0)"

lemma same_subject_refl [simp]: "same_subject m m"
  by (simp add: same_subject_def Let_def)

lemma same_subject_details [simp]: "same_subject (m\<lparr>m_Details := ds\<rparr>) m"
  by (simp add: same_subject_def Let_def)

lemma same_subject_trans: "same_subject a b \<Longrightarrow> same_subject b c \<Longrightarrow> same_subject a c"
  by (simp add: same_subject_def Let_def)

lemma Merge_subject: "Match_Merge E m other = Some m' \<Longrightarrow> same_subject m' m"
  by (auto simp: Match_Merge_def same_subject_def Let_def split: if_splits)

definition subjects_in :: "Matches \<Rightarrow> Match set \<Rightarrow> bool" where
  "subjects_in r S \<longleftrightarrow> (\<forall>m \<in> ran (map_of (byFingerprint r)). \<exists>m0 \<in> S. same_subject m m0)"

lemma subjects_update:
  assumes "\<forall>m \<in> ran M. \<exists>m0 \<in> S. same_subject m m0" "m0 \<in> S" "same_subject m m0"
  shows "\<forall>x \<in> ran (M(k \<mapsto> m)). \<exists>m0 \<in> S. same_subject x m0"
  using assms by (auto simp: ran_def split: if_splits)

lemma Add1_subjects:
  assumes r: "matches_ok r" and m: "named m" and sub: "subjects_in r S" and S: "m \<in> S"
  shows "subjects_in (Matches_Add1 E m r) S"
  using r m refl
proof (cases rule: addOrMerge_cases [where E = E])
  case (merged x x')
  from sub merged(1) obtain m0 where "m0 \<in> S" "same_subject x m0" by (auto simp: subjects_in_def ran_def)
  with Merge_subject [OF merged(2)] have "m0 \<in> S" "same_subject x' m0" by (auto intro: same_subject_trans)
  with sub subjects_update show ?thesis
    by (simp add: subjects_in_def Add1_byFingerprint merged(3) update_conv')
next
  case (replaced og)
  have "\<forall>x \<in> ran ((map_of (byFingerprint r))(og := None)). \<exists>m0 \<in> S. same_subject x m0"
    using sub by (auto simp: subjects_in_def ran_def split: if_splits)
  from subjects_update [OF this S same_subject_details] show ?thesis
    by (simp add: subjects_in_def Add1_byFingerprint replaced(3,4) replace_eq update_conv' delete_conv')
next
  case stored
  with sub S subjects_update [of "map_of (byFingerprint r)" S m m] show ?thesis
    by (simp add: subjects_in_def Add1_byFingerprint update_conv')
qed

lemma NewMatches_subject:
  assumes "list_all named ms" "m \<in> set (Enumerate E (NewMatches E ms))"
  obtains m0 where "m0 \<in> set ms" "same_subject m m0"
proof -
  have "matches_ok r \<Longrightarrow> subjects_in r S \<Longrightarrow> set xs \<subseteq> S \<Longrightarrow> list_all named xs \<Longrightarrow>
      subjects_in (fold (Matches_Add1 E) xs r) S" for r xs S
    by (induction xs arbitrary: r) (auto intro: Add1_subjects Add1_ok)
  from this [of newMatches "set ms" ms] assms(1) have "subjects_in (NewMatches E ms) (set ms)"
    by (simp add: NewMatches_def Matches_Add_def subjects_in_def newMatches_def matches_ok_new [unfolded newMatches_def])
  with assms(2) Enumerate_set [OF NewMatches_ok [OF assms(1)]] that show ?thesis
    by (auto simp: subjects_in_def ran_def)
qed

section \<open>Properties\<close>

text \<open>C16: building a collection from a list of matches (of named vulnerabilities) keeps its indexes
  consistent, whatever order \<^verbatim>\<open>range\<close> visits maps in: every match is filed under its own fingerprint, and
  the package index lists exactly the fingerprints present.  No pair of vulnerability and package is
  lost or invented, and under each pair all details of the added matches are still there.\<close>

theorem NewMatches_complete:
  assumes "list_all named ms"
  shows "matches_ok (NewMatches E ms)
    \<and> core_of ` set (Enumerate E (NewMatches E ms)) = core_of ` set ms
    \<and> core_details E (NewMatches E ms) c = (\<Union>m \<in> {m \<in> set ms. core_of m = c}. detail_ids E m)"
  using store.of_list [OF assms, of E c] cores_Enumerate [of "NewMatches E ms" E]
  by (simp add: NewMatches_def Matches_Add_def)

theorem NewMatches_complete_witness:
  "core_details example_env (NewMatches example_env
     [example_match ''CVE-1'' ''p'' [] [(ExactIndirectMatch, ''a'')],
      example_match ''CVE-1'' ''p'' [''2''] [(ExactDirectMatch, ''b'')]])
     (core_of (example_match ''CVE-1'' ''p'' [] [])) = {''a'', ''b''}"
proof -
  let ?a = "example_match ''CVE-1'' ''p'' [] [(ExactIndirectMatch, ''a'')]"
  let ?b = "example_match ''CVE-1'' ''p'' [''2''] [(ExactDirectMatch, ''b'')]"
  let ?c = "core_of (example_match ''CVE-1'' ''p'' [] [])"
  have "list_all named [?a, ?b]" by (simp add: named_def example_match_def)
  moreover have "core_of ?a = ?c" "core_of ?b = ?c"
    by (simp_all add: core_of_def Match_Fingerprint_def example_match_def)
  then have "{m \<in> set [?a, ?b]. core_of m = ?c} = {?a, ?b}" by auto
  moreover have "detail_ids example_env ?a = {''a''}" "detail_ids example_env ?b = {''b''}"
    by (simp_all add: detail_ids_def example_env_def example_match_def)
  ultimately show ?thesis using NewMatches_complete [of "[?a, ?b]" example_env ?c] by (simp add: insert_commute)
qed

text \<open>Looking up by package is exact: \<^verbatim>\<open>GetByPkgID\<close> returns the matches of that package, each once.\<close>

theorem GetByPkgID_exact:
  assumes "list_all named ms"
  shows "set (GetByPkgID E (NewMatches E ms) pid) =
      {m \<in> set (Enumerate E (NewMatches E ms)). pkg_ID (m_Package m) = pid}
    \<and> distinct (map Match_Fingerprint (GetByPkgID E (NewMatches E ms) pid))"
proof -
  let ?r = "NewMatches E ms"
  have ok: "matches_ok ?r" using store.of_list [OF assms, of E] by (simp add: NewMatches_def Matches_Add_def)
  let ?fps = "get_fps (byPackage ?r) pid"
  have fps: "distinct ?fps" "set ?fps = {fp \<in> present ?r. fp_packageID (fp_core fp) = pid}"
    using ok by (auto simp: matches_ok_def pkg_index_ok_def)
  have own: "Match_Fingerprint (get_match ?r fp) = fp" if "fp \<in> present ?r" for fp
    using get_match_fingerprint [of ?r fp] ok that by (simp add: matches_ok_def)
  have "set (Enumerate E ?r) = get_match ?r ` present ?r"
    by (simp add: Enumerate_def present_def dom_map_of_conv_image_fst)
  moreover have "get_match ?r ` set ?fps = {m \<in> get_match ?r ` present ?r. pkg_ID (m_Package m) = pid}"
    unfolding fps(2) using own by (auto simp: packageID_fingerprint [symmetric])
  ultimately have "set (GetByPkgID E ?r pid) = {m \<in> set (Enumerate E ?r). pkg_ID (m_Package m) = pid}"
    by (simp add: GetByPkgID_def)
  moreover have "map Match_Fingerprint (GetByPkgID E ?r pid) = go_range E ?fps"
    using own fps(2) by (auto simp: GetByPkgID_def comp_def intro!: map_idI)
  moreover have "distinct (go_range E ?fps)"
    using fps(1) by (metis mset_eq_imp_distinct_iff mset_go_range)
  ultimately show ?thesis by simp
qed

theorem GetByPkgID_exact_witness:
  "distinct (map Match_Fingerprint (GetByPkgID example_env (NewMatches example_env
     [example_match ''CVE-1'' ''p'' [] [(ExactIndirectMatch, ''a'')],
      example_match ''CVE-2'' ''p'' [] [(ExactDirectMatch, ''b'')]]) ''p''))"
proof -
  let ?ms = "[example_match ''CVE-1'' ''p'' [] [(ExactIndirectMatch, ''a'')],
    example_match ''CVE-2'' ''p'' [] [(ExactDirectMatch, ''b'')]]"
  have "list_all named ?ms" by (simp add: named_def example_match_def)
  from GetByPkgID_exact [OF this, of example_env "''p''"] show ?thesis by blast
qed

end
