(* ===== verification/Ignore_Rules.thy ===== *)
theory Ignore_Rules
  imports Match_Store
begin

text \<open>
  Ignoring matches: \<^verbatim>\<open>grype/match/ignore.go\<close> and \<^verbatim>\<open>explicit_ignores.go\<close>.

  A rule's name criteria may be regular expressions and its location criterion a glob, both written
  by the user: \<^verbatim>\<open>regexp.Compile\<close> with \<^verbatim>\<open>MatchString\<close>, and \<^verbatim>\<open>doublestar.Match\<close>, are the two parameters in
  the record \<open>renv\<close>; \<^const>\<open>None\<close> is the error.  A filter that does not apply returns \<^verbatim>\<open>nil\<close>, which is
  the empty list here.

  The locale \<open>ignore_filter\<close> is the interface \<^verbatim>\<open>IgnoreFilter\<close>; it is interpreted on the two kinds of
  rules here and on the index of \<^verbatim>\<open>vulnerability_matcher.go\<close> in the theory \<open>Ignore_Index\<close>.
\<close>

section \<open>Rules\<close>

record IgnoreRulePackage =
  rp_Name :: string
  rp_Version :: string
  rp_Language :: string
  rp_Type :: string
  rp_Location :: string
  rp_UpstreamName :: string

record IgnoreRule =
  ir_Vulnerability :: string
  ir_IncludeAliases :: bool
  ir_Reason :: string
  ir_Namespace :: string
  ir_FixState :: string
  ir_Package :: IgnoreRulePackage
  ir_VexStatus :: string
  ir_VexJustification :: string
  ir_MatchType :: string

record IgnoredMatch =
  im_Match :: Match
  im_AppliedIgnoreRules :: "IgnoreRule list"

record IgnoreRelatedPackage =
  irp_Reason :: string
  irp_RelationshipType :: string
  irp_VulnerabilityID :: string
  irp_RelatedPackageID :: string

definition zero_IgnoreRule :: IgnoreRule where
  "zero_IgnoreRule =
     \<lparr>ir_Vulnerability = [], ir_IncludeAliases = False, ir_Reason = [], ir_Namespace = [], ir_FixState = [],
      ir_Package = \<lparr>rp_Name = [], rp_Version = [], rp_Language = [], rp_Type = [], rp_Location = [],
        rp_UpstreamName = []\<rparr>,
      ir_VexStatus = [], ir_VexJustification = [], ir_MatchType = []\<rparr>"

record renv =
  env_regexp :: "string \<Rightarrow> (string \<Rightarrow> bool) option"
  env_glob :: "string \<Rightarrow> string \<Rightarrow> bool option"

definition FixStateUnknown :: string where "FixStateUnknown = ''unknown''"
definition FixStateFixed :: string where "FixStateFixed = ''fixed''"

section \<open>Conditions\<close>

definition ifFixStateApplies :: "string \<Rightarrow> Match \<Rightarrow> bool" where
  "ifFixStateApplies fs m =
     (let state = fix_State (vuln_Fix (m_Vulnerability m)) in
      if fs = FixStateUnknown \<and> state = [] then True else fs = state)"

definition ifVulnerabilityApplies :: "string \<Rightarrow> bool \<Rightarrow> Match \<Rightarrow> bool" where
  "ifVulnerabilityApplies v includeAliases m =
     (if v = vuln_ID (m_Vulnerability m) then True
      else if includeAliases then list_ex (\<lambda>r. v = ref_ID r) (vuln_RelatedVulnerabilities (m_Vulnerability m))
      else False)"

definition ifNamespaceApplies :: "string \<Rightarrow> Match \<Rightarrow> bool" where
  "ifNamespaceApplies ns m = (ns = vuln_Namespace (m_Vulnerability m))"

text \<open>The pattern \<^verbatim>\<open>isRegexPattern\<close> is one character of a class, or a backslash and a letter; the backslash
  alone is in the class already, so the second alternative never decides.  Strings are finite, so a
  match exists iff some position starts one.\<close>

definition regex_class :: "char \<Rightarrow> bool" where
  "regex_class c \<longleftrightarrow> c \<in> set ''^$*+?[](){}|'' \<or> c = CHR 0x5C"

fun isLikelyARegex :: "string \<Rightarrow> bool" where
  "isLikelyARegex [] = False"
| "isLikelyARegex (c # s) =
     (regex_class c
      \<or> (c = CHR 0x5C \<and> (case s of [] \<Rightarrow> False | d # _ \<Rightarrow> d \<in> set ''dDwWsSnrtfv''))
      \<or> isLikelyARegex s)"

definition packageNameRegex :: "renv \<Rightarrow> string \<Rightarrow> (string \<Rightarrow> bool) option" where
  "packageNameRegex R name =
     (let pattern = (if hd name \<noteq> CHR ''$'' \<or> last name \<noteq> CHR ''^'' then ''^'' @ name @ ''$'' else name) in
      env_regexp R pattern)"

definition name_matches :: "renv \<Rightarrow> string \<Rightarrow> string \<Rightarrow> bool" where
  "name_matches R name s =
     (if isLikelyARegex name then (case packageNameRegex R name of None \<Rightarrow> False | Some p \<Rightarrow> p s)
      else name = s)"

definition ifPackageNameApplies :: "renv \<Rightarrow> string \<Rightarrow> Match \<Rightarrow> bool" where
  "ifPackageNameApplies R name m = name_matches R name (pkg_Name (m_Package m))"

definition ifUpstreamPackageNameApplies :: "renv \<Rightarrow> string \<Rightarrow> Match \<Rightarrow> bool" where
  "ifUpstreamPackageNameApplies R name m =
     list_ex (\<lambda>u. name_matches R name (up_Name u)) (pkg_Upstreams (m_Package m))"

definition ifPackageVersionApplies :: "string \<Rightarrow> Match \<Rightarrow> bool" where
  "ifPackageVersionApplies v m = (v = pkg_Version (m_Package m))"

definition ifPackageLanguageApplies :: "string \<Rightarrow> Match \<Rightarrow> bool" where
  "ifPackageLanguageApplies l m = (l = pkg_Language (m_Package m))"

definition ifPackageTypeApplies :: "string \<Rightarrow> Match \<Rightarrow> bool" where
  "ifPackageTypeApplies t m = (t = pkg_Type (m_Package m))"

definition ruleLocationAppliesToPath :: "renv \<Rightarrow> string \<Rightarrow> string \<Rightarrow> bool" where
  "ruleLocationAppliesToPath R location path =
     (case env_glob R location path of None \<Rightarrow> False | Some doesMatch \<Rightarrow> doesMatch)"

definition ruleLocationAppliesToMatch :: "renv \<Rightarrow> string \<Rightarrow> Match \<Rightarrow> bool" where
  "ruleLocationAppliesToMatch R location m =
     list_ex (\<lambda>l. ruleLocationAppliesToPath R location (loc_RealPath l)
                 \<or> ruleLocationAppliesToPath R location (loc_AccessPath l)) (pkg_Locations (m_Package m))"

definition ifMatchTypeApplies :: "string \<Rightarrow> Match \<Rightarrow> bool" where
  "ifMatchTypeApplies t m = (t \<in> set (Details_Types (m_Details m)))"

definition cond_if :: "string \<Rightarrow> (Match \<Rightarrow> bool) \<Rightarrow> (Match \<Rightarrow> bool) list" where
  "cond_if field c = (if field \<noteq> [] then [c] else [])"

definition getIgnoreConditionsForRule :: "renv \<Rightarrow> IgnoreRule \<Rightarrow> (Match \<Rightarrow> bool) list" where
  "getIgnoreConditionsForRule R r =
     (let p = ir_Package r in
      cond_if (ir_Vulnerability r) (ifVulnerabilityApplies (ir_Vulnerability r) (ir_IncludeAliases r))
      @ cond_if (ir_Namespace r) (ifNamespaceApplies (ir_Namespace r))
      @ cond_if (rp_Name p) (ifPackageNameApplies R (rp_Name p))
      @ cond_if (rp_Version p) (ifPackageVersionApplies (rp_Version p))
      @ cond_if (rp_Language p) (ifPackageLanguageApplies (rp_Language p))
      @ cond_if (rp_Type p) (ifPackageTypeApplies (rp_Type p))
      @ cond_if (rp_Location p) (ruleLocationAppliesToMatch R (rp_Location p))
      @ cond_if (ir_FixState r) (ifFixStateApplies (ir_FixState r))
      @ cond_if (rp_UpstreamName p) (ifUpstreamPackageNameApplies R (rp_UpstreamName p))
      @ cond_if (ir_MatchType r) (ifMatchTypeApplies (ir_MatchType r)))"

section \<open>Filters\<close>

definition IgnoreRule_IgnoreMatch :: "renv \<Rightarrow> IgnoreRule \<Rightarrow> Match \<Rightarrow> IgnoreRule list" where
  "IgnoreRule_IgnoreMatch R r m =
     (if ir_VexStatus r \<noteq> [] then []
      else
        let ignoreConditions = getIgnoreConditionsForRule R r in
        if ignoreConditions = [] then []
        else if list_ex (\<lambda>condition. \<not> condition m) ignoreConditions then []
        else [r])"

definition HasConditions :: "renv \<Rightarrow> IgnoreRule \<Rightarrow> bool" where
  "HasConditions R r \<longleftrightarrow> length (getIgnoreConditionsForRule R r) = 0"

definition Related_IgnoreMatch :: "IgnoreRelatedPackage \<Rightarrow> Match \<Rightarrow> IgnoreRule list" where
  "Related_IgnoreMatch i m =
     (if vuln_ID (m_Vulnerability m) \<noteq> irp_VulnerabilityID i
         \<and> \<not> list_ex (\<lambda>r. ref_ID r = irp_VulnerabilityID i) (vuln_RelatedVulnerabilities (m_Vulnerability m)) then []
      else
        case map_of (pkg_RelatedPackages (m_Package m)) (irp_RelationshipType i) of
          None \<Rightarrow> []
        | Some relatedPackages \<Rightarrow>
            if \<not> list_ex (\<lambda>ownerID. ownerID = irp_RelatedPackageID i) relatedPackages then []
            else [zero_IgnoreRule\<lparr>ir_Vulnerability := irp_VulnerabilityID i, ir_IncludeAliases := True,
                    ir_Reason := irp_Reason i\<rparr>])"

fun ignoreFilters_IgnoreMatch :: "('f \<Rightarrow> Match \<Rightarrow> 'r list) \<Rightarrow> 'f list \<Rightarrow> Match \<Rightarrow> 'r list" where
  "ignoreFilters_IgnoreMatch ig [] m = []"
| "ignoreFilters_IgnoreMatch ig (rule # rules) m =
     (let ignores = ig rule m in if length ignores > 0 then ignores else ignoreFilters_IgnoreMatch ig rules m)"

definition applicableRules :: "('f \<Rightarrow> Match \<Rightarrow> 'r list) \<Rightarrow> 'f list \<Rightarrow> Match \<Rightarrow> 'r list" where
  "applicableRules ig filters m = concat (map (\<lambda>f. ig f m) filters)"

fun ApplyIgnoreFilters ::
  "('f \<Rightarrow> Match \<Rightarrow> IgnoreRule list) \<Rightarrow> Match list \<Rightarrow> 'f list \<Rightarrow> Match list \<times> IgnoredMatch list" where
  "ApplyIgnoreFilters ig [] filters = ([], [])"
| "ApplyIgnoreFilters ig (m # ms) filters =
     (let rules = applicableRules ig filters m; (out, ignored) = ApplyIgnoreFilters ig ms filters in
      if length rules > 0 then (out, \<lparr>im_Match = m, im_AppliedIgnoreRules = rules\<rparr> # ignored)
      else (m # out, ignored))"

definition ApplyIgnoreRules ::
  "menv \<Rightarrow> renv \<Rightarrow> Matches \<Rightarrow> IgnoreRule list \<Rightarrow> Matches \<times> IgnoredMatch list" where
  "ApplyIgnoreRules E R ms rules =
     (let (matched, ignored) = ApplyIgnoreFilters (IgnoreRule_IgnoreMatch R) (Sorted E ms) rules in
      (NewMatches E matched, ignored))"

section \<open>Rules that are always applied\<close>

definition explicitIgnores :: "(string \<times> string list \<times> string list) list" where
  "explicitIgnores =
    [(''java-archive'',
      [''CVE-2021-44228'', ''CVE-2021-45046'', ''GHSA-jfh8-c2jp-5v3q'', ''GHSA-7rjr-3q55-vv33'', ''CVE-2020-9493'',
       ''CVE-2022-23307'', ''CVE-2023-26464''],
      [''log4j-api'', ''log4j-slf4j-impl'', ''log4j-to-slf4j'', ''log4j-1.2-api'', ''log4j-detector'',
       ''log4j-over-slf4j'', ''slf4j-log4j12'']),
     (''go-module'', [''CVE-2015-5237'', ''CVE-2021-22570''], [''google.golang.org/protobuf'']),
     (''gem'', [''CVE-2017-14196'', ''CVE-2017-14197'', ''CVE-2017-14198'', ''CVE-2019-19373'', ''CVE-2019-19374''],
      [''matrix'']),
     (''gem'', [''CVE-1999-1338'', ''CVE-2001-1202'', ''CVE-2002-1781'', ''CVE-2004-0789'', ''CVE-2004-2003'',
       ''CVE-2005-0036'', ''CVE-2005-0861'', ''CVE-2006-2072'', ''CVE-2015-7556''], [''delegate'']),
     (''gem'', [''CVE-2008-4318''], [''observer'']),
     (''gem'', [''CVE-2017-14727''], [''logger'']),
     (''deb'', [''CVE-2023-45853''], [''zlib1g'', ''zlib''])]"

definition explicit_rule :: "string \<Rightarrow> string \<Rightarrow> string \<Rightarrow> IgnoreRule" where
  "explicit_rule typ v p =
     zero_IgnoreRule\<lparr>ir_Vulnerability := v, ir_Package := (ir_Package zero_IgnoreRule)\<lparr>rp_Name := p, rp_Type := typ\<rparr>\<rparr>"

definition explicitIgnoreRules :: "IgnoreRule list" where
  "explicitIgnoreRules =
     concat (map (\<lambda>(typ, vulns, pkgs). concat (map (\<lambda>v. map (explicit_rule typ v) pkgs) vulns)) explicitIgnores)"

text \<open>The exclusion provider is the database: a parameter that gives the rules for a vulnerability ID, or
  an error; there may be none.\<close>

definition ApplyExplicitIgnoreRules ::
  "menv \<Rightarrow> renv \<Rightarrow> (string \<Rightarrow> IgnoreRule list option) option \<Rightarrow> Matches \<Rightarrow> Matches \<times> IgnoredMatch list" where
  "ApplyExplicitIgnoreRules E R provider ms =
     (let provided = (case provider of
            None \<Rightarrow> []
          | Some f \<Rightarrow> concat (map (\<lambda>m. case f (vuln_ID (m_Vulnerability m)) of None \<Rightarrow> [] | Some r \<Rightarrow> r) (Sorted E ms)))
      in ApplyIgnoreRules E R ms (explicitIgnoreRules @ provided))"

section \<open>The interface of a filter\<close>

text \<open>What applying filters relies on: a filter returns rules exactly for the matches it applies to.\<close>

locale ignore_filter =
  fixes ig :: "'f \<Rightarrow> Match \<Rightarrow> IgnoreRule list"
    and applies :: "'f \<Rightarrow> Match \<Rightarrow> bool"
  assumes ignores_iff: "ig f m \<noteq> [] \<longleftrightarrow> applies f m"
begin

lemma applicableRules_Nil: "applicableRules ig fs m = [] \<longleftrightarrow> \<not> list_ex (\<lambda>f. applies f m) fs"
  using ignores_iff by (auto simp: applicableRules_def list_ex_iff)

lemma ApplyIgnoreFilters_eq:
  "ApplyIgnoreFilters ig ms fs =
     (filter (\<lambda>m. \<not> list_ex (\<lambda>f. applies f m) fs) ms,
      map (\<lambda>m. \<lparr>im_Match = m, im_AppliedIgnoreRules = applicableRules ig fs m\<rparr>)
        (filter (\<lambda>m. list_ex (\<lambda>f. applies f m) fs) ms))"
proof (induction ms)
  case (Cons m ms)
  then show ?case using applicableRules_Nil [of fs m] by (auto simp: Let_def)
qed simp

lemma ApplyIgnoreFilters_partition:
  assumes "ApplyIgnoreFilters ig ms fs = (out, ignored)"
  shows "mset out + mset (map im_Match ignored) = mset ms"
    and "x \<in> set ignored \<Longrightarrow> list_ex (\<lambda>f. applies f (im_Match x)) fs"
    and "x \<in> set ignored \<Longrightarrow> im_AppliedIgnoreRules x = applicableRules ig fs (im_Match x)"
    and "m \<in> set out \<Longrightarrow> \<not> list_ex (\<lambda>f. applies f m) fs"
proof -
  from assms have eq: "out = filter (\<lambda>m. \<not> list_ex (\<lambda>f. applies f m) fs) ms"
    "ignored = map (\<lambda>m. \<lparr>im_Match = m, im_AppliedIgnoreRules = applicableRules ig fs m\<rparr>)
        (filter (\<lambda>m. list_ex (\<lambda>f. applies f m) fs) ms)"
    by (simp_all add: ApplyIgnoreFilters_eq)
  show "mset out + mset (map im_Match ignored) = mset ms"
    unfolding eq by (simp add: comp_def multiset_partition [of "mset ms", symmetric] add.commute)
  show "m \<in> set out \<Longrightarrow> \<not> list_ex (\<lambda>f. applies f m) fs" by (simp add: eq)
  show "x \<in> set ignored \<Longrightarrow> list_ex (\<lambda>f. applies f (im_Match x)) fs"
    and "x \<in> set ignored \<Longrightarrow> im_AppliedIgnoreRules x = applicableRules ig fs (im_Match x)"
    by (auto simp: eq)
qed

lemma ignoreFilters_iff: "ignoreFilters_IgnoreMatch ig fs m \<noteq> [] \<longleftrightarrow> list_ex (\<lambda>f. applies f m) fs"
  using ignores_iff by (induction fs) (auto simp: Let_def)

end

text \<open>A rule, read declaratively: it has no VEX status, at least one criterion, and every criterion that
  is given holds.\<close>

definition given :: "string \<Rightarrow> bool \<Rightarrow> bool" where
  "given field holds \<longleftrightarrow> (field = [] \<or> holds)"

definition has_criterion :: "IgnoreRule \<Rightarrow> bool" where
  "has_criterion r \<longleftrightarrow>
     (let p = ir_Package r in
      [ir_Vulnerability r, ir_Namespace r, rp_Name p, rp_Version p, rp_Language p, rp_Type p, rp_Location p,
       ir_FixState r, rp_UpstreamName p, ir_MatchType r] \<noteq> replicate 10 [])"

definition rule_applies :: "renv \<Rightarrow> IgnoreRule \<Rightarrow> Match \<Rightarrow> bool" where
  "rule_applies R r m \<longleftrightarrow>
     (let rp = ir_Package r; v = m_Vulnerability m; p = m_Package m;
          state = fix_State (vuln_Fix v) in
      ir_VexStatus r = [] \<and> has_criterion r
      \<and> given (ir_Vulnerability r) (ir_Vulnerability r \<in> insert (vuln_ID v)
          (if ir_IncludeAliases r then ref_ID ` set (vuln_RelatedVulnerabilities v) else {}))
      \<and> given (ir_Namespace r) (vuln_Namespace v = ir_Namespace r)
      \<and> given (rp_Name rp) (name_matches R (rp_Name rp) (pkg_Name p))
      \<and> given (rp_Version rp) (pkg_Version p = rp_Version rp)
      \<and> given (rp_Language rp) (pkg_Language p = rp_Language rp)
      \<and> given (rp_Type rp) (pkg_Type p = rp_Type rp)
      \<and> given (rp_Location rp) (\<exists>l \<in> set (pkg_Locations p). \<exists>path \<in> {loc_RealPath l, loc_AccessPath l}.
          env_glob R (rp_Location rp) path = Some True)
      \<and> given (ir_FixState r) (ir_FixState r = (if state = [] \<and> ir_FixState r = FixStateUnknown then FixStateUnknown else state))
      \<and> given (rp_UpstreamName rp) (\<exists>u \<in> set (pkg_Upstreams p). name_matches R (rp_UpstreamName rp) (up_Name u))
      \<and> given (ir_MatchType r) (\<exists>d \<in> set (m_Details m). d_Type d = ir_MatchType r))"

lemma conditions_Nil: "getIgnoreConditionsForRule R r = [] \<longleftrightarrow> \<not> has_criterion r"
  by (simp add: getIgnoreConditionsForRule_def has_criterion_def cond_if_def Let_def numeral_eq_Suc)

lemma list_ex_cond_if: "list_ex (\<lambda>c. \<not> c m) (cond_if f c) \<longleftrightarrow> \<not> given f (c m)"
  by (simp add: cond_if_def given_def)

lemma location_iff:
  "ruleLocationAppliesToMatch R location m \<longleftrightarrow>
     (\<exists>l \<in> set (pkg_Locations (m_Package m)). \<exists>path \<in> {loc_RealPath l, loc_AccessPath l}. env_glob R location path = Some True)"
proof -
  have "ruleLocationAppliesToPath R location path \<longleftrightarrow> env_glob R location path = Some True" for path
    by (auto simp: ruleLocationAppliesToPath_def split: option.splits)
  then show ?thesis by (simp add: ruleLocationAppliesToMatch_def list_ex_iff)
qed

lemma IgnoreMatch_eq: "IgnoreRule_IgnoreMatch R r m = (if rule_applies R r m then [r] else [])"
proof -
  have v: "ifVulnerabilityApplies x al m \<longleftrightarrow> x \<in> insert (vuln_ID (m_Vulnerability m))
      (if al then ref_ID ` set (vuln_RelatedVulnerabilities (m_Vulnerability m)) else {})" for x al
    by (auto simp: ifVulnerabilityApplies_def list_ex_iff)
  have fs: "ifFixStateApplies x m \<longleftrightarrow> x = (if fix_State (vuln_Fix (m_Vulnerability m)) = [] \<and> x = FixStateUnknown
      then FixStateUnknown else fix_State (vuln_Fix (m_Vulnerability m)))" for x
    by (auto simp: ifFixStateApplies_def FixStateUnknown_def)
  have mt: "ifMatchTypeApplies x m \<longleftrightarrow> (\<exists>d \<in> set (m_Details m). d_Type d = x)" for x
    by (auto simp: ifMatchTypeApplies_def Details_Types_def)
  have up: "ifUpstreamPackageNameApplies R x m \<longleftrightarrow> (\<exists>u \<in> set (pkg_Upstreams (m_Package m)). name_matches R x (up_Name u))" for x
    by (auto simp: ifUpstreamPackageNameApplies_def list_ex_iff)
  have "list_ex (\<lambda>c. \<not> c m) (getIgnoreConditionsForRule R r) \<longleftrightarrow>
      \<not> rule_applies R (r\<lparr>ir_VexStatus := []\<rparr>) m \<and> has_criterion r \<or> \<not> has_criterion r \<and> list_ex (\<lambda>c. \<not> c m) (getIgnoreConditionsForRule R r)"
    unfolding rule_applies_def getIgnoreConditionsForRule_def Let_def list_ex_append list_ex_cond_if
      v fs mt up location_iff ifNamespaceApplies_def ifPackageNameApplies_def ifPackageVersionApplies_def
      ifPackageLanguageApplies_def ifPackageTypeApplies_def
    by (simp add: eq_commute [of _ "vuln_Namespace _"] eq_commute [of _ "pkg_Version _"] eq_commute [of _ "pkg_Language _"]
        eq_commute [of _ "pkg_Type _"] has_criterion_def) blast
  moreover have "rule_applies R r m \<longleftrightarrow> ir_VexStatus r = [] \<and> has_criterion r \<and> rule_applies R (r\<lparr>ir_VexStatus := []\<rparr>) m"
    by (auto simp: rule_applies_def has_criterion_def Let_def)
  ultimately show ?thesis by (auto simp: IgnoreRule_IgnoreMatch_def Let_def conditions_Nil)
qed

interpretation rule: ignore_filter "IgnoreRule_IgnoreMatch R" "rule_applies R"
  by unfold_locales (simp add: IgnoreMatch_eq)

definition related_applies :: "IgnoreRelatedPackage \<Rightarrow> Match \<Rightarrow> bool" where
  "related_applies i m \<longleftrightarrow>
     irp_VulnerabilityID i \<in> insert (vuln_ID (m_Vulnerability m)) (ref_ID ` set (vuln_RelatedVulnerabilities (m_Vulnerability m)))
     \<and> (\<exists>ids. map_of (pkg_RelatedPackages (m_Package m)) (irp_RelationshipType i) = Some ids
          \<and> irp_RelatedPackageID i \<in> set ids)"

interpretation related: ignore_filter Related_IgnoreMatch related_applies
proof
  fix f :: IgnoreRelatedPackage and m
  have "irp_VulnerabilityID f \<in> ref_ID ` S \<longleftrightarrow> (\<exists>r \<in> S. ref_ID r = irp_VulnerabilityID f)" for S
    by (metis image_iff)
  then show "Related_IgnoreMatch f m \<noteq> [] \<longleftrightarrow> related_applies f m"
    unfolding Related_IgnoreMatch_def related_applies_def list_ex_iff
    by (cases "map_of (pkg_RelatedPackages (m_Package m)) (irp_RelationshipType f)") auto
qed

lemma applicableRules_filter:
  "applicableRules (IgnoreRule_IgnoreMatch R) rules m = filter (\<lambda>r. rule_applies R r m) rules"
  by (induction rules) (simp_all add: applicableRules_def IgnoreMatch_eq)

lemma HasConditions_iff: "HasConditions R r \<longleftrightarrow> \<not> has_criterion r"
  by (simp add: HasConditions_def conditions_Nil)

lemma explicit_names:
  "(typ, vulns, pkgs) \<in> set explicitIgnores \<Longrightarrow> p \<in> set pkgs \<Longrightarrow> \<not> isLikelyARegex p \<and> p \<noteq> []"
proof -
  have "list_all (\<lambda>(typ, vulns, pkgs). list_all (\<lambda>p. \<not> isLikelyARegex p \<and> p \<noteq> []) pkgs) explicitIgnores"
    by code_simp
  then show "(typ, vulns, pkgs) \<in> set explicitIgnores \<Longrightarrow> p \<in> set pkgs \<Longrightarrow> \<not> isLikelyARegex p \<and> p \<noteq> []"
    by (auto simp: list_all_iff)
qed

lemma explicit_rule_applies:
  assumes "p \<noteq> []" "\<not> isLikelyARegex p"
  shows "rule_applies R (explicit_rule typ v p) m \<longleftrightarrow>
    (v = [] \<or> vuln_ID (m_Vulnerability m) = v) \<and> pkg_Name (m_Package m) = p \<and> (typ = [] \<or> pkg_Type (m_Package m) = typ)"
  using assms by (auto simp: rule_applies_def explicit_rule_def zero_IgnoreRule_def has_criterion_def given_def
      name_matches_def Let_def numeral_eq_Suc)

lemma explicit_excluded:
  assumes "list_all named ms" and "m \<in> set (Enumerate E (fst (ApplyExplicitIgnoreRules E R provider (NewMatches E ms))))"
    and "(typ, vulns, pkgs) \<in> set explicitIgnores"
  shows "\<not> (vuln_ID (m_Vulnerability m) \<in> set vulns \<and> pkg_Name (m_Package m) \<in> set pkgs \<and> pkg_Type (m_Package m) = typ)"
proof
  assume hit: "vuln_ID (m_Vulnerability m) \<in> set vulns \<and> pkg_Name (m_Package m) \<in> set pkgs \<and> pkg_Type (m_Package m) = typ"
  let ?r = "NewMatches E ms"
  obtain rules where rules: "ApplyExplicitIgnoreRules E R provider ?r = ApplyIgnoreRules E R ?r (explicitIgnoreRules @ rules)"
    by (simp add: ApplyExplicitIgnoreRules_def Let_def)
  let ?keep = "filter (\<lambda>m. \<not> list_ex (\<lambda>f. rule_applies R f m) (explicitIgnoreRules @ rules)) (Sorted E ?r)"
  have ok: "matches_ok ?r" by (rule NewMatches_ok [OF assms(1)])
  have "list_all named ?keep"
    using Enumerate_named [OF assms(1), of E] by (simp add: list_all_iff Sorted_set [OF ok])
  moreover have "m \<in> set (Enumerate E (NewMatches E ?keep))"
    using assms(2) by (simp add: rules ApplyIgnoreRules_def rule.ApplyIgnoreFilters_eq)
  ultimately obtain m0 where m0: "m0 \<in> set ?keep" "same_subject m m0" by (rule NewMatches_subject)
  let ?rule = "explicit_rule typ (vuln_ID (m_Vulnerability m)) (pkg_Name (m_Package m))"
  have "?rule \<in> set explicitIgnoreRules" using hit assms(3) by (force simp: explicitIgnoreRules_def)
  moreover have "rule_applies R ?rule m0"
    using m0(2) explicit_rule_applies [of "pkg_Name (m_Package m)" R] explicit_names [OF assms(3)] hit
    by (auto simp: same_subject_def Let_def)
  ultimately show False using m0(1) by (auto simp: list_ex_iff)
qed

section \<open>Properties\<close>

text \<open>A rule ignores a match exactly when it is no VEX rule, names at least one criterion, and all the
  criteria it names hold for the match; it then reports itself.\<close>

theorem IgnoreRule_IgnoreMatch_exact:
  "IgnoreRule_IgnoreMatch R r m = (if rule_applies R r m then [r] else [])"
  by (rule IgnoreMatch_eq)

text \<open>C17: applying ignore rules to a collection loses no match.  The ignored matches are those some rule
  applies to, each with all the rules that apply to it; the pairs of vulnerability and package that
  remain are those of the matches no rule applies to; and the remaining collection is consistent.\<close>

theorem ApplyIgnoreRules_partition:
  assumes "list_all named ms" and "ApplyIgnoreRules E R (NewMatches E ms) rules = (rest, ignored)"
  shows "matches_ok rest
    \<and> core_of ` set (Enumerate E rest) =
        core_of ` {m \<in> set (Enumerate E (NewMatches E ms)). \<not> list_ex (\<lambda>r. rule_applies R r m) rules}
    \<and> im_Match ` set ignored = {m \<in> set (Enumerate E (NewMatches E ms)). list_ex (\<lambda>r. rule_applies R r m) rules}
    \<and> list_all (\<lambda>x. im_AppliedIgnoreRules x = filter (\<lambda>r. rule_applies R r (im_Match x)) rules) ignored"
proof -
  let ?r = "NewMatches E ms"
  let ?keep = "filter (\<lambda>m. \<not> list_ex (\<lambda>f. rule_applies R f m) rules) (Sorted E ?r)"
  have ok: "matches_ok ?r" by (rule NewMatches_ok [OF assms(1)])
  have "list_all named (Enumerate E ?r)" by (rule Enumerate_named [OF assms(1)])
  then have named: "list_all named ?keep" by (simp add: list_all_iff Sorted_set [OF ok])
  have rest: "rest = NewMatches E ?keep" and
    ignored: "ignored = map (\<lambda>m. \<lparr>im_Match = m, im_AppliedIgnoreRules = applicableRules (IgnoreRule_IgnoreMatch R) rules m\<rparr>)
      (filter (\<lambda>m. list_ex (\<lambda>f. rule_applies R f m) rules) (Sorted E ?r))"
    using assms(2) by (auto simp: ApplyIgnoreRules_def rule.ApplyIgnoreFilters_eq)
  have "core_of ` set (Enumerate E rest) = core_of ` set ?keep"
    unfolding rest by (rule NewMatches_cores [OF named])
  moreover have "matches_ok rest" unfolding rest by (rule NewMatches_ok [OF named])
  ultimately show ?thesis
    by (auto simp: ignored Sorted_set [OF ok] applicableRules_filter list_all_iff image_image)
qed

theorem ApplyIgnoreRules_partition_witness:
  "\<exists>rest ignored. ApplyIgnoreRules example_env \<lparr>env_regexp = (\<lambda>_. None), env_glob = (\<lambda>p s. Some (p = s))\<rparr>
      (NewMatches example_env [example_match ''CVE-1'' ''p'' [] []]) explicitIgnoreRules = (rest, ignored)
    \<and> matches_ok rest"
proof -
  let ?R = "\<lparr>env_regexp = (\<lambda>_. None), env_glob = (\<lambda>p s. Some (p = s))\<rparr>"
  let ?ms = "[example_match ''CVE-1'' ''p'' [] []]"
  have "list_all named ?ms" by (simp add: named_def example_match_def)
  moreover obtain rest ignored
    where "ApplyIgnoreRules example_env ?R (NewMatches example_env ?ms) explicitIgnoreRules = (rest, ignored)"
    by fastforce
  ultimately show ?thesis using ApplyIgnoreRules_partition by blast
qed

text \<open>After the explicit rules have been applied, no match is left for a pair of vulnerability and
  package the built-in list excludes, whatever the exclusion provider says.\<close>

theorem ApplyExplicitIgnoreRules_excludes:
  assumes "list_all named ms"
  shows "list_all (\<lambda>m. list_all (\<lambda>(typ, vulns, pkgs).
      \<not> (vuln_ID (m_Vulnerability m) \<in> set vulns \<and> pkg_Name (m_Package m) \<in> set pkgs \<and> pkg_Type (m_Package m) = typ))
      explicitIgnores) (Enumerate E (fst (ApplyExplicitIgnoreRules E R provider (NewMatches E ms))))"
  using explicit_excluded [OF assms] by (fastforce simp: list_all_iff)

theorem ApplyExplicitIgnoreRules_excludes_witness:
  "list_all (\<lambda>m. list_all (\<lambda>(typ, vulns, pkgs).
      \<not> (vuln_ID (m_Vulnerability m) \<in> set vulns \<and> pkg_Name (m_Package m) \<in> set pkgs \<and> pkg_Type (m_Package m) = typ))
      explicitIgnores) (Enumerate example_env (fst (ApplyExplicitIgnoreRules example_env
        \<lparr>env_regexp = (\<lambda>_. None), env_glob = (\<lambda>p s. Some (p = s))\<rparr> None
        (NewMatches example_env [example_match ''CVE-2021-22570'' ''google.golang.org/protobuf'' [] []]))))"
  by (rule ApplyExplicitIgnoreRules_excludes) (simp add: named_def example_match_def)

end
