(* ===== verification/Ignore_Index.thy ===== *)
theory Ignore_Index
  imports Ignore_Rules
begin

text \<open>
  The index over the ignore filters that matchers return: \<^verbatim>\<open>ignoreRulesByIndex\<close>, \<^verbatim>\<open>matchIndexed\<close> and
  \<^verbatim>\<open>ignoredMatchFilter\<close> of \<^verbatim>\<open>grype/vulnerability_matcher.go\<close>.  An \<^verbatim>\<open>IgnoreFilter\<close> is one of the two kinds
  of rules, or some other implementation of the interface.
\<close>

section \<open>Definitions\<close>

datatype IgnoreFilter =
    RuleFilter IgnoreRule
  | RelatedFilter IgnoreRelatedPackage
  | OtherFilter "Match \<Rightarrow> IgnoreRule list"

fun Filter_IgnoreMatch :: "renv \<Rightarrow> IgnoreFilter \<Rightarrow> Match \<Rightarrow> IgnoreRule list" where
  "Filter_IgnoreMatch R (RuleFilter r) m = IgnoreRule_IgnoreMatch R r m"
| "Filter_IgnoreMatch R (RelatedFilter i) m = Related_IgnoreMatch i m"
| "Filter_IgnoreMatch R (OtherFilter f) m = f m"

record ignoreRulesByIndex =
  remainingFilters :: "IgnoreFilter list"
  locationIgnoreRules :: "(string \<times> IgnoreRule list) list"
  packageNameIgnoreRules :: "(string \<times> IgnoreRule list) list"
  vulnIDFilters :: "(string \<times> IgnoreFilter list) list"

definition append_at :: "'k \<Rightarrow> 'v \<Rightarrow> ('k \<times> 'v list) list \<Rightarrow> ('k \<times> 'v list) list" where
  "append_at k v al = AList.update k (get_fps al k @ [v]) al"

fun matchIndexed :: "('f \<Rightarrow> Match \<Rightarrow> IgnoreRule list) \<Rightarrow> Match \<Rightarrow> 'f list \<Rightarrow> IgnoreRule list" where
  "matchIndexed ig m [] = []"
| "matchIndexed ig m (rule # rules) = (let matched = ig rule m in if matched \<noteq> [] then matched else matchIndexed ig m rules)"

text \<open>The loops of \<^verbatim>\<open>IgnoreMatch\<close> over related vulnerabilities and over locations return the first lookup
  that finds something.\<close>

fun first_of :: "('a \<Rightarrow> 'r list) \<Rightarrow> 'a list \<Rightarrow> 'r list" where
  "first_of f [] = []"
| "first_of f (x # xs) = (let matched = f x in if matched \<noteq> [] then matched else first_of f xs)"

definition Index_IgnoreMatch :: "renv \<Rightarrow> ignoreRulesByIndex \<Rightarrow> Match \<Rightarrow> IgnoreRule list" where
  "Index_IgnoreMatch R i m =
     (let byID = (\<lambda>v. matchIndexed (Filter_IgnoreMatch R) m (get_fps (vulnIDFilters i) v));
          matched1 = byID (vuln_ID (m_Vulnerability m)) in
      if matched1 \<noteq> [] then matched1
      else
        let matched2 = first_of (\<lambda>related. byID (ref_ID related)) (vuln_RelatedVulnerabilities (m_Vulnerability m)) in
        if matched2 \<noteq> [] then matched2
        else
          let matched3 = matchIndexed (IgnoreRule_IgnoreMatch R) m
                (get_fps (packageNameIgnoreRules i) (pkg_Name (m_Package m))) in
          if matched3 \<noteq> [] then matched3
          else
            let matched4 = first_of (\<lambda>l. matchIndexed (IgnoreRule_IgnoreMatch R) m
                  (get_fps (locationIgnoreRules i) (loc_RealPath l))) (pkg_Locations (m_Package m)) in
            if matched4 \<noteq> [] then matched4
            else matchIndexed (Filter_IgnoreMatch R) m (remainingFilters i))"

definition index_filter :: "IgnoreFilter \<Rightarrow> ignoreRulesByIndex \<Rightarrow> ignoreRulesByIndex" where
  "index_filter ignore out =
     (let keep = out\<lparr>remainingFilters := remainingFilters out @ [ignore]\<rparr> in
      case ignore of
        RuleFilter r \<Rightarrow>
          let l = rp_Location (ir_Package r); n = rp_Name (ir_Package r) in
          if l \<noteq> [] \<and> CHR ''*'' \<notin> set l then out\<lparr>locationIgnoreRules := append_at l r (locationIgnoreRules out)\<rparr>
          else if n \<noteq> [] then out\<lparr>packageNameIgnoreRules := append_at n r (packageNameIgnoreRules out)\<rparr>
          else if ir_Vulnerability r \<noteq> [] \<and> ir_IncludeAliases r
            then out\<lparr>vulnIDFilters := append_at (ir_Vulnerability r) ignore (vulnIDFilters out)\<rparr>
          else keep
      | RelatedFilter r \<Rightarrow>
          if irp_VulnerabilityID r \<noteq> []
          then out\<lparr>vulnIDFilters := append_at (irp_VulnerabilityID r) ignore (vulnIDFilters out)\<rparr>
          else keep
      | OtherFilter _ \<Rightarrow> keep)"

definition ignoredMatchFilter :: "IgnoreFilter list \<Rightarrow> ignoreRulesByIndex" where
  "ignoredMatchFilter ignores =
     fold index_filter ignores
       \<lparr>remainingFilters = [], locationIgnoreRules = [], packageNameIgnoreRules = [], vulnIDFilters = []\<rparr>"

section \<open>What is looked up\<close>

fun filter_applies :: "renv \<Rightarrow> IgnoreFilter \<Rightarrow> Match \<Rightarrow> bool" where
  "filter_applies R (RuleFilter r) m = rule_applies R r m"
| "filter_applies R (RelatedFilter i) m = related_applies i m"
| "filter_applies R (OtherFilter f) m \<longleftrightarrow> f m \<noteq> []"

interpretation anyfilter: ignore_filter "Filter_IgnoreMatch R" "filter_applies R"
proof
  fix f m
  show "Filter_IgnoreMatch R f m \<noteq> [] \<longleftrightarrow> filter_applies R f m"
    by (cases f) (simp_all only: Filter_IgnoreMatch.simps filter_applies.simps rule.ignores_iff related.ignores_iff)
qed

text \<open>The filters that a lookup for a match tries, in order.\<close>

definition candidates :: "ignoreRulesByIndex \<Rightarrow> Match \<Rightarrow> IgnoreFilter list" where
  "candidates i m =
     get_fps (vulnIDFilters i) (vuln_ID (m_Vulnerability m))
     @ concat (map (\<lambda>r. get_fps (vulnIDFilters i) (ref_ID r)) (vuln_RelatedVulnerabilities (m_Vulnerability m)))
     @ map RuleFilter (get_fps (packageNameIgnoreRules i) (pkg_Name (m_Package m)))
     @ concat (map (\<lambda>l. map RuleFilter (get_fps (locationIgnoreRules i) (loc_RealPath l))) (pkg_Locations (m_Package m)))
     @ remainingFilters i"

lemma matchIndexed_append:
  "matchIndexed ig m (xs @ ys) = (if matchIndexed ig m xs \<noteq> [] then matchIndexed ig m xs else matchIndexed ig m ys)"
  by (induction xs) (auto simp: Let_def)

lemma matchIndexed_map: "matchIndexed ig m (map f xs) = matchIndexed (\<lambda>x. ig (f x)) m xs"
  by (induction xs) (auto simp: Let_def)

lemma matchIndexed_concat: "matchIndexed ig m (concat (map f xs)) = first_of (\<lambda>x. matchIndexed ig m (f x)) xs"
  by (induction xs) (auto simp: Let_def matchIndexed_append)

lemma Index_candidates: "Index_IgnoreMatch R i m = matchIndexed (Filter_IgnoreMatch R) m (candidates i m)"
proof -
  have "(\<lambda>r. Filter_IgnoreMatch R (RuleFilter r)) = IgnoreRule_IgnoreMatch R" by (intro ext) simp
  then show ?thesis
    by (simp add: Index_IgnoreMatch_def candidates_def matchIndexed_append matchIndexed_concat matchIndexed_map Let_def)
qed

lemma matchIndexed_some:
  "matchIndexed ig m fs = rs \<Longrightarrow> rs \<noteq> [] \<Longrightarrow> \<exists>f \<in> set fs. ig f m = rs"
  by (induction fs) (auto simp: Let_def split: if_splits)

lemma matchIndexed_Nil: "matchIndexed ig m fs = [] \<longleftrightarrow> (\<forall>f \<in> set fs. ig f m = [])"
  by (induction fs) (auto simp: Let_def)

section \<open>What the index holds\<close>

lemma get_append_at: "get_fps (append_at k v al) x = (if x = k then get_fps al k @ [v] else get_fps al x)"
  by (simp add: append_at_def get_fps_def update_conv')

text \<open>Where a filter is filed.\<close>

definition filed :: "ignoreRulesByIndex \<Rightarrow> IgnoreFilter set" where
  "filed i = set (remainingFilters i) \<union> (\<Union>k. set (get_fps (vulnIDFilters i) k))
     \<union> RuleFilter ` (\<Union>k. set (get_fps (packageNameIgnoreRules i) k))
     \<union> RuleFilter ` (\<Union>k. set (get_fps (locationIgnoreRules i) k))"

lemma UN_append_at: "(\<Union>x. set (get_fps (append_at k v al) x)) = insert v (\<Union>x. set (get_fps al x))"
  by (auto simp: get_append_at split: if_splits)

lemma filed_index_filter: "filed (index_filter f i) = insert f (filed i)"
  by (cases f) (auto simp: filed_def index_filter_def Let_def UN_append_at)

lemma filed_ignoredMatchFilter: "filed (ignoredMatchFilter fs) = set fs"
proof -
  have "filed (fold index_filter fs i) = set fs \<union> filed i" for i
    by (induction fs arbitrary: i) (auto simp: filed_index_filter)
  then show ?thesis by (simp add: ignoredMatchFilter_def filed_def get_fps_def)
qed

lemma in_candidates:
  "f \<in> set (candidates i m) \<longleftrightarrow>
     f \<in> set (get_fps (vulnIDFilters i) (vuln_ID (m_Vulnerability m)))
     \<or> (\<exists>r \<in> set (vuln_RelatedVulnerabilities (m_Vulnerability m)). f \<in> set (get_fps (vulnIDFilters i) (ref_ID r)))
     \<or> (\<exists>r \<in> set (get_fps (packageNameIgnoreRules i) (pkg_Name (m_Package m))). f = RuleFilter r)
     \<or> (\<exists>l \<in> set (pkg_Locations (m_Package m)). \<exists>r \<in> set (get_fps (locationIgnoreRules i) (loc_RealPath l)). f = RuleFilter r)
     \<or> f \<in> set (remainingFilters i)"
  by (simp add: candidates_def image_iff)

lemma candidates_filed: "set (candidates i m) \<subseteq> filed i"
  by (auto simp: candidates_def filed_def image_UN)

text \<open>A filter is found again if the key it is filed under is one the lookup tries.\<close>

definition found_for :: "IgnoreFilter \<Rightarrow> Match \<Rightarrow> bool" where
  "found_for f m \<longleftrightarrow>
     (let ids = insert (vuln_ID (m_Vulnerability m)) (ref_ID ` set (vuln_RelatedVulnerabilities (m_Vulnerability m))) in
      case f of
        RuleFilter r \<Rightarrow>
          let l = rp_Location (ir_Package r); n = rp_Name (ir_Package r) in
          if l \<noteq> [] \<and> CHR ''*'' \<notin> set l then l \<in> loc_RealPath ` set (pkg_Locations (m_Package m))
          else if n \<noteq> [] then n = pkg_Name (m_Package m)
          else if ir_Vulnerability r \<noteq> [] \<and> ir_IncludeAliases r then ir_Vulnerability r \<in> ids
          else True
      | RelatedFilter r \<Rightarrow> irp_VulnerabilityID r \<noteq> [] \<longrightarrow> irp_VulnerabilityID r \<in> ids
      | OtherFilter _ \<Rightarrow> True)"

definition index_le :: "ignoreRulesByIndex \<Rightarrow> ignoreRulesByIndex \<Rightarrow> bool" where
  "index_le i j \<longleftrightarrow> set (remainingFilters i) \<subseteq> set (remainingFilters j)
     \<and> (\<forall>k. set (get_fps (vulnIDFilters i) k) \<subseteq> set (get_fps (vulnIDFilters j) k))
     \<and> (\<forall>k. set (get_fps (packageNameIgnoreRules i) k) \<subseteq> set (get_fps (packageNameIgnoreRules j) k))
     \<and> (\<forall>k. set (get_fps (locationIgnoreRules i) k) \<subseteq> set (get_fps (locationIgnoreRules j) k))"

lemma index_le_filter: "index_le i (index_filter f i)"
  by (cases f) (simp_all add: index_le_def index_filter_def Let_def get_append_at subset_insertI)

lemma candidates_le: "index_le i j \<Longrightarrow> set (candidates i m) \<subseteq> set (candidates j m)"
  unfolding index_le_def subset_iff in_candidates by blast

lemma candidates_mono: "set (candidates i m) \<subseteq> set (candidates (index_filter f i) m)"
  by (rule candidates_le [OF index_le_filter])

lemma candidates_new:
  assumes "found_for f m"
  shows "f \<in> set (candidates (index_filter f i) m)"
  using assms unfolding in_candidates
  by (cases f) (auto simp: index_filter_def found_for_def Let_def get_append_at, (metis | blast)+)

lemma candidates_complete:
  assumes "f \<in> set fs" "found_for f m"
  shows "f \<in> set (candidates (ignoredMatchFilter fs) m)"
proof -
  have mono: "set (candidates i m) \<subseteq> set (candidates (fold index_filter gs i) m)" for gs i
    using candidates_mono by (induction gs arbitrary: i) (simp, force)
  have "f \<in> set (candidates (fold index_filter fs i) m)" for i
    using assms
  proof (induction fs arbitrary: i)
    case (Cons g gs)
    then show ?case using candidates_new [OF assms(2), of i] mono [of "index_filter f i" gs] by auto
  qed simp
  then show ?thesis by (simp add: ignoredMatchFilter_def)
qed

text \<open>The lookup relies on a literal location being the real path of the package, and on a name being no
  regular expression.\<close>

definition plainly_indexed :: "renv \<Rightarrow> Match \<Rightarrow> IgnoreFilter \<Rightarrow> bool" where
  "plainly_indexed R m f =
     (case f of
        RuleFilter r \<Rightarrow>
          let l = rp_Location (ir_Package r); n = rp_Name (ir_Package r) in
          if l \<noteq> [] \<and> CHR ''*'' \<notin> set l
          then list_all (\<lambda>loc. loc_AccessPath loc = loc_RealPath loc \<and> env_glob R l (loc_RealPath loc) = Some (l = loc_RealPath loc))
                 (pkg_Locations (m_Package m))
          else \<not> isLikelyARegex n
      | _ \<Rightarrow> True)"

lemma applies_found:
  assumes "plainly_indexed R m f" "filter_applies R f m"
  shows "found_for f m"
proof (cases f)
  case (RuleFilter r)
  let ?l = "rp_Location (ir_Package r)" and ?n = "rp_Name (ir_Package r)"
  from assms(2) have ap: "rule_applies R r m" by (simp add: RuleFilter)
  then have name: "?n = [] \<or> name_matches R ?n (pkg_Name (m_Package m))"
    and vuln: "ir_Vulnerability r = [] \<or> ir_Vulnerability r \<in> insert (vuln_ID (m_Vulnerability m))
       (if ir_IncludeAliases r then ref_ID ` set (vuln_RelatedVulnerabilities (m_Vulnerability m)) else {})"
    and loc: "?l = [] \<or> (\<exists>l \<in> set (pkg_Locations (m_Package m)). \<exists>path \<in> {loc_RealPath l, loc_AccessPath l}.
       env_glob R ?l path = Some True)"
    by (auto simp: rule_applies_def given_def Let_def)
  show ?thesis
  proof (cases "?l \<noteq> [] \<and> CHR ''*'' \<notin> set ?l")
    case True
    with loc obtain l path where l: "l \<in> set (pkg_Locations (m_Package m))"
      "path \<in> {loc_RealPath l, loc_AccessPath l}" "env_glob R ?l path = Some True" by blast
    with True assms(1) have "?l = loc_RealPath l" by (auto simp: RuleFilter plainly_indexed_def Let_def list_all_iff)
    with True l(1) show ?thesis by (auto simp: RuleFilter found_for_def Let_def)
  next
    case False
    with assms(1) name have "?n \<noteq> [] \<Longrightarrow> ?n = pkg_Name (m_Package m)"
      by (auto simp: RuleFilter plainly_indexed_def name_matches_def Let_def)
    with False vuln show ?thesis by (auto simp: RuleFilter found_for_def Let_def)
  qed
next
  case (RelatedFilter i)
  with assms(2) show ?thesis by (auto simp: found_for_def related_applies_def Let_def)
qed (simp add: found_for_def Let_def)

section \<open>Properties\<close>


definition example_renv :: renv where
  "example_renv = \<lparr>env_regexp = (\<lambda>_. None), env_glob = (\<lambda>p s. Some (p = s))\<rparr>"


end
