(* ===== verification/Scan.thy ===== *)
theory Scan
  imports Ignore_Index
begin

text \<open>
  The scan: \<^verbatim>\<open>grype/vulnerability_matcher.go\<close>, with \<^verbatim>\<open>grype/vulnerability/severity.go\<close> and the fatal errors
  of \<^verbatim>\<open>grype/match/matcher.go\<close>.

  A matcher is what the interface \<^verbatim>\<open>match.Matcher\<close> says: a type, the package types it handles, and what
  \<^verbatim>\<open>Match\<close> does on a package (returns matches, filters and perhaps an error; or panics).  The vulnerability
  provider's metadata, the end-of-life check, the VEX processor, the stock matcher used when none is
  configured, and the state of the context at its \<open>n\<close>-th check are parameters (record \<open>scan_env\<close>).
  The progress counters of \<^verbatim>\<open>monitorWriter\<close> are integers; logging and the event bus are left out.
  Metadata is \<^const>\<open>None\<close> for an error, \<open>Some None\<close> for a nil pointer.
\<close>

section \<open>Severity\<close>

definition severityStr :: "string list" where
  "severityStr = [''unknown'', ''negligible'', ''low'', ''medium'', ''high'', ''critical'']"

definition Severity_String :: "int \<Rightarrow> string" where
  "Severity_String f = (if f \<ge> int (length severityStr) \<or> f < 0 then severityStr ! 0 else severityStr ! nat f)"

definition AllSeverities :: "int list" where
  "AllSeverities = [1, 2, 3, 4, 5]"

definition ParseSeverity :: "string \<Rightarrow> int" where
  "ParseSeverity severity =
     (let s = strings_ToLower severity in
      if s = Severity_String 1 then 1
      else if s = Severity_String 2 then 2
      else if s = Severity_String 3 then 3
      else if s = Severity_String 4 then 4
      else if s = Severity_String 5 then 5
      else 0)"

section \<open>Errors and matchers\<close>

datatype serror =
    ErrorText string
  | FatalError string serror
  | WrapError string serror
  | JoinError "serror list"
  | ContextError string
  | ErrAboveSeverityThreshold

fun IsFatalError :: "serror \<Rightarrow> bool" where
  "IsFatalError (FatalError _ _) = True"
| "IsFatalError (WrapError _ e) = IsFatalError e"
| "IsFatalError (JoinError es) = list_ex IsFatalError es"
| "IsFatalError _ = False"

definition errors_Join :: "serror list \<Rightarrow> serror option" where
  "errors_Join es = (if es = [] then None else Some (JoinError es))"

datatype match_outcome =
    Panics serror
  | Returns "Match list" "IgnoreFilter list" "serror option"

record Matcher =
  mt_Type :: string
  mt_PackageTypes :: "string list"
  mt_Match :: "Package \<Rightarrow> match_outcome"

definition StockMatcher :: string where "StockMatcher = ''stock-matcher''"

record Metadata =
  md_ID :: string
  md_Namespace :: string
  md_Severity :: string

section \<open>State\<close>

record monitorWriter =
  PackagesProcessed :: int
  MatchesDiscovered :: int
  mon_Fixed :: int
  mon_Ignored :: int
  mon_Dropped :: int
  BySeverity :: "(int \<times> int) list"
  mon_Completed :: bool
  mon_Error :: "serror option"

definition newMonitor :: monitorWriter where
  "newMonitor =
     \<lparr>PackagesProcessed = 0, MatchesDiscovered = 0, mon_Fixed = 0, mon_Ignored = 0, mon_Dropped = 0,
      BySeverity = map (\<lambda>s. (s, 0)) (AllSeverities @ [0]), mon_Completed = False, mon_Error = None\<rparr>"

type_synonym vex_processor = "Matches \<Rightarrow> IgnoredMatch list \<Rightarrow> serror + (Matches \<times> IgnoredMatch list)"

record VulnerabilityMatcher =
  vm_ExclusionProvider :: "(string \<Rightarrow> IgnoreRule list option) option"
  vm_Matchers :: "Matcher list"
  vm_IgnoreRules :: "IgnoreRule list"
  vm_FailSeverity :: "int option"
  vm_NormalizeByCVE :: bool
  vm_VexProcessor :: "vex_processor option"
  vm_EnableEOLDistroWarnings :: bool
  eolDistroPackages :: "Package list"
  distroDetectionFailed :: bool

record scan_env =
  sc_menv :: menv
  sc_renv :: renv
  sc_metadata :: "Reference \<Rightarrow> Metadata option option"
  sc_stock :: Matcher
  sc_ctx_Err :: "nat \<Rightarrow> serror option"
  sc_EOLChecker :: "(Package \<Rightarrow> bool) option"

definition FailAtOrAboveSeverity :: "int option \<Rightarrow> VulnerabilityMatcher \<Rightarrow> VulnerabilityMatcher" where
  "FailAtOrAboveSeverity severity vm = vm\<lparr>vm_FailSeverity := severity\<rparr>"

definition WithMatchers :: "Matcher list \<Rightarrow> VulnerabilityMatcher \<Rightarrow> VulnerabilityMatcher" where
  "WithMatchers matchers vm = vm\<lparr>vm_Matchers := matchers\<rparr>"

definition WithIgnoreRules :: "IgnoreRule list \<Rightarrow> VulnerabilityMatcher \<Rightarrow> VulnerabilityMatcher" where
  "WithIgnoreRules rules vm = vm\<lparr>vm_IgnoreRules := rules\<rparr>"

section \<open>End of life\<close>

text \<open>The tracker without a checker never reports; otherwise the answer for a distro is computed once and
  kept under the distro's text.\<close>

record eolTracker =
  eol_checker :: "(Package \<Rightarrow> bool) option"
  eol_cache :: "(string \<times> bool) list"

definition newEOLTracker :: "bool \<Rightarrow> (Package \<Rightarrow> bool) option \<Rightarrow> eolTracker" where
  "newEOLTracker enabled provider =
     (if \<not> enabled then \<lparr>eol_checker = None, eol_cache = []\<rparr> else \<lparr>eol_checker = provider, eol_cache = []\<rparr>)"

definition checkAndTrack :: "eolTracker \<Rightarrow> Package \<Rightarrow> bool \<times> eolTracker" where
  "checkAndTrack t p =
     (case (eol_checker t, pkg_Distro p) of
        (Some checker, Some distroKey) \<Rightarrow>
          (case map_of (eol_cache t) distroKey of
             Some isEOL \<Rightarrow> (isEOL, t)
           | None \<Rightarrow> let isEOL = checker p in (isEOL, t\<lparr>eol_cache := AList.update distroKey isEOL (eol_cache t)\<rparr>))
      | _ \<Rightarrow> (False, t))"

section \<open>Steps of the scan\<close>

definition callMatcherSafely :: "Matcher \<Rightarrow> Package \<Rightarrow> Match list \<times> IgnoreFilter list \<times> serror option" where
  "callMatcherSafely t p =
     (case mt_Match t p of
        Panics e \<Rightarrow> ([], [], Some (FatalError (mt_Type t) e))
      | Returns ms igs err \<Rightarrow> (ms, igs, err))"

fun newMatcherIndex ::
  "Matcher list \<Rightarrow> (string \<times> Matcher list) list \<Rightarrow> Matcher option \<Rightarrow> (string \<times> Matcher list) list \<times> Matcher option" where
  "newMatcherIndex [] matcherIndex defaultMatcher = (matcherIndex, defaultMatcher)"
| "newMatcherIndex (t # ts) matcherIndex defaultMatcher =
     (if mt_Type t = StockMatcher then newMatcherIndex ts matcherIndex (Some t)
      else newMatcherIndex ts (fold (\<lambda>ty. append_at ty t) (mt_PackageTypes t) matcherIndex) defaultMatcher)"

definition vuln_ref :: "Vulnerability \<Rightarrow> Reference" where
  "vuln_ref v = \<lparr>ref_ID = vuln_ID v, ref_Namespace = vuln_Namespace v\<rparr>"

definition incr_severity :: "int \<Rightarrow> monitorWriter \<Rightarrow> monitorWriter" where
  "incr_severity s mon = mon\<lparr>BySeverity := map (\<lambda>(k, n). (k, if k = s then n + 1 else n)) (BySeverity mon)\<rparr>"

definition update_for_match :: "scan_env \<Rightarrow> Match \<Rightarrow> monitorWriter \<Rightarrow> monitorWriter" where
  "update_for_match S m mon =
     (case sc_metadata S (vuln_ref (m_Vulnerability m)) of
        Some (Some metadata) \<Rightarrow>
          if map_of (BySeverity mon) (ParseSeverity (md_Severity metadata)) = None then incr_severity 0 mon
          else
            let mon = incr_severity (ParseSeverity (md_Severity metadata)) mon in
            if fix_State (vuln_Fix (m_Vulnerability m)) = FixStateFixed then mon\<lparr>mon_Fixed := mon_Fixed mon + 1\<rparr> else mon
      | _ \<Rightarrow> incr_severity 0 mon)"

definition updateVulnerabilityList ::
  "scan_env \<Rightarrow> Match list \<Rightarrow> IgnoredMatch list \<Rightarrow> IgnoredMatch list \<Rightarrow> monitorWriter \<Rightarrow> monitorWriter" where
  "updateVulnerabilityList S ms ignores dropped mon =
     (let mon = fold (update_for_match S) ms mon in
      mon\<lparr>mon_Ignored := mon_Ignored mon + int (length ignores),
          mon_Dropped := mon_Dropped mon + int (length dropped)\<rparr>)"

text \<open>What \<^verbatim>\<open>searchDBForMatches\<close> accumulates.\<close>

record scan_acc =
  allMatches :: "Match list"
  allIgnorers :: "IgnoreFilter list"
  matcherErrs :: "serror list"
  ac_mon :: monitorWriter
  ac_checks :: nat
  ac_eolTracker :: eolTracker
  ac_eolPackages :: "Package list"

definition with_results ::
  "scan_env \<Rightarrow> VulnerabilityMatcher \<Rightarrow> Match list \<Rightarrow> IgnoreFilter list \<Rightarrow> serror option \<Rightarrow> scan_acc \<Rightarrow> scan_acc" where
  "with_results S vm ms ignorers err a =
     (let (filtered, dropped) = ApplyExplicitIgnoreRules (sc_menv S) (sc_renv S) (vm_ExclusionProvider vm)
            (NewMatches (sc_menv S) ms);
          additionalMatches = Sorted (sc_menv S) filtered;
          mon = (ac_mon a)\<lparr>MatchesDiscovered := MatchesDiscovered (ac_mon a) + int (length additionalMatches)\<rparr> in
      a\<lparr>matcherErrs := matcherErrs a @ (case err of None \<Rightarrow> [] | Some e \<Rightarrow> [e]),
        allIgnorers := allIgnorers a @ ignorers,
        allMatches := allMatches a @ additionalMatches,
        ac_mon := updateVulnerabilityList S additionalMatches [] dropped mon\<rparr>)"

fun matcher_loop ::
  "scan_env \<Rightarrow> VulnerabilityMatcher \<Rightarrow> Package \<Rightarrow> Matcher list \<Rightarrow> scan_acc \<Rightarrow> scan_acc \<times> serror option" where
  "matcher_loop S vm p [] a = (a, None)"
| "matcher_loop S vm p (theMatcher # ts) a =
     (let ctxErr = sc_ctx_Err S (ac_checks a); a = a\<lparr>ac_checks := ac_checks a + 1\<rparr> in
      case ctxErr of
        Some e \<Rightarrow> (a, Some e)
      | None \<Rightarrow>
          (case callMatcherSafely theMatcher p of
             (ms, ignorers, err) \<Rightarrow>
               (case err of
                  Some e \<Rightarrow> if IsFatalError e then (a, Some e)
                            else matcher_loop S vm p ts (with_results S vm ms ignorers err a)
                | None \<Rightarrow> matcher_loop S vm p ts (with_results S vm ms ignorers err a))))"

definition matchers_for :: "scan_env \<Rightarrow> VulnerabilityMatcher \<Rightarrow> Package \<Rightarrow> Matcher list" where
  "matchers_for S vm p =
     (let (matcherIndex, defaultMatcher) = newMatcherIndex (vm_Matchers vm) [] None in
      case map_of matcherIndex (pkg_Type p) of
        Some ts \<Rightarrow> ts
      | None \<Rightarrow> [case defaultMatcher of Some t \<Rightarrow> t | None \<Rightarrow> sc_stock S])"

definition visit_package :: "Package \<Rightarrow> scan_acc \<Rightarrow> scan_acc" where
  "visit_package p a =
     (let (isEOL, tracker) = checkAndTrack (ac_eolTracker a) p in
      a\<lparr>ac_mon := (ac_mon a)\<lparr>PackagesProcessed := PackagesProcessed (ac_mon a) + 1\<rparr>, ac_eolTracker := tracker,
        ac_eolPackages := ac_eolPackages a @ (if isEOL then [p] else [])\<rparr>)"

fun package_loop ::
  "scan_env \<Rightarrow> VulnerabilityMatcher \<Rightarrow> Package list \<Rightarrow> scan_acc \<Rightarrow> scan_acc \<times> serror option" where
  "package_loop S vm [] a = (a, None)"
| "package_loop S vm (p # ps) a =
     (case matcher_loop S vm p (matchers_for S vm p) (visit_package p a) of
        (a, Some e) \<Rightarrow> (a, Some e)
      | (a, None) \<Rightarrow> package_loop S vm ps a)"

definition start_acc :: "scan_env \<Rightarrow> VulnerabilityMatcher \<Rightarrow> monitorWriter \<Rightarrow> scan_acc" where
  "start_acc S vm mon =
     \<lparr>allMatches = [], allIgnorers = [], matcherErrs = [], ac_mon = mon, ac_checks = 0,
      ac_eolTracker = newEOLTracker (vm_EnableEOLDistroWarnings vm) (sc_EOLChecker S), ac_eolPackages = []\<rparr>"

definition searchDBForMatches ::
  "scan_env \<Rightarrow> Package list \<Rightarrow> VulnerabilityMatcher \<Rightarrow> monitorWriter
   \<Rightarrow> VulnerabilityMatcher \<times> monitorWriter \<times> Matches \<times> serror option" where
  "searchDBForMatches S pkgs vm mon =
     (case package_loop S vm pkgs (start_acc S vm mon) of
        (a, Some e) \<Rightarrow> (vm\<lparr>eolDistroPackages := ac_eolPackages a\<rparr>, ac_mon a, newMatches, Some e)
      | (a, None) \<Rightarrow>
          let (filtered, dropped) = ApplyIgnoreFilters (Index_IgnoreMatch (sc_renv S)) (allMatches a)
                [ignoredMatchFilter (allIgnorers a)];
              res = NewMatches (sc_menv S) filtered in
          (vm\<lparr>eolDistroPackages := ac_eolPackages a\<rparr>,
           (ac_mon a)\<lparr>MatchesDiscovered := int (Count res)\<rparr>, res, errors_Join (matcherErrs a)))"

definition applyIgnoreRules ::
  "scan_env \<Rightarrow> VulnerabilityMatcher \<Rightarrow> Matches \<Rightarrow> Matches \<times> IgnoredMatch list" where
  "applyIgnoreRules S vm ms =
     (if vm_IgnoreRules vm = [] then (ms, []) else ApplyIgnoreRules (sc_menv S) (sc_renv S) ms (vm_IgnoreRules vm))"

definition isCVE :: "string \<Rightarrow> bool" where
  "isCVE i = strings_HasPrefix (strings_ToLower i) ''cve-''"

definition normalizeByCVE :: "scan_env \<Rightarrow> Match \<Rightarrow> Match" where
  "normalizeByCVE S m =
     (if isCVE (vuln_ID (m_Vulnerability m)) then m
      else
        case find (\<lambda>r. isCVE (ref_ID r)) (vuln_RelatedVulnerabilities (m_Vulnerability m)) of
          None \<Rightarrow> m
        | Some ref \<Rightarrow>
            (case sc_metadata S ref of
               Some (Some upstream) \<Rightarrow>
                 m\<lparr>m_Vulnerability := (m_Vulnerability m)
                     \<lparr>vuln_ID := md_ID upstream, vuln_Namespace := md_Namespace upstream,
                      vuln_RelatedVulnerabilities := [vuln_ref (m_Vulnerability m)]\<rparr>\<rparr>
             | _ \<Rightarrow> m))"

definition mergeIgnoredMatches :: "scan_env \<Rightarrow> VulnerabilityMatcher \<Rightarrow> IgnoredMatch list list \<Rightarrow> IgnoredMatch list" where
  "mergeIgnoredMatches S vm all =
     concat (map (map (\<lambda>x. if vm_NormalizeByCVE vm then x\<lparr>im_Match := normalizeByCVE S (im_Match x)\<rparr> else x)) all)"

definition filter_and_normalize ::
  "scan_env \<Rightarrow> VulnerabilityMatcher \<Rightarrow> Matches \<Rightarrow> Matches \<times> IgnoredMatch list" where
  "filter_and_normalize S vm ms =
     (let (ms1, ignored1) = applyIgnoreRules S vm ms in
      if vm_NormalizeByCVE vm then
        let normalized = NewMatches (sc_menv S) (map (normalizeByCVE S) (Enumerate (sc_menv S) ms1));
            (ms2, ignored2) = applyIgnoreRules S vm normalized in
        (ms2, mergeIgnoredMatches S vm [ignored1, ignored2])
      else (ms1, ignored1))"

definition findDBMatches ::
  "scan_env \<Rightarrow> Package list \<Rightarrow> VulnerabilityMatcher \<Rightarrow> monitorWriter
   \<Rightarrow> VulnerabilityMatcher \<times> monitorWriter \<times> Matches option \<times> IgnoredMatch list \<times> serror option" where
  "findDBMatches S pkgs vm mon =
     (case searchDBForMatches S pkgs vm mon of
        (vm, mon, ms, err) \<Rightarrow>
          if (case err of Some e \<Rightarrow> IsFatalError e | None \<Rightarrow> False) then (vm, mon, None, [], err)
          else let (ms, ignored) = filter_and_normalize S vm ms in (vm, mon, Some ms, ignored, None))"

definition ignoredMatchesDiff :: "IgnoredMatch list \<Rightarrow> IgnoredMatch list \<Rightarrow> IgnoredMatch list" where
  "ignoredMatchesDiff subject other =
     (let otherMap = map (\<lambda>a. Match_Fingerprint (im_Match a)) other in
      filter (\<lambda>b. Match_Fingerprint (im_Match b) \<notin> set otherMap) subject)"

definition findVEXMatches ::
  "scan_env \<Rightarrow> VulnerabilityMatcher \<Rightarrow> Matches \<Rightarrow> IgnoredMatch list \<Rightarrow> monitorWriter
   \<Rightarrow> monitorWriter \<times> Matches option \<times> IgnoredMatch list \<times> serror option" where
  "findVEXMatches S vm remaining ignored mon =
     (case vm_VexProcessor vm of
        None \<Rightarrow> (mon, Some remaining, ignored, None)
      | Some applyVEX \<Rightarrow>
          (case applyVEX remaining ignored of
             Inl e \<Rightarrow> (mon, None, [], Some (WrapError ''unable to find matches against VEX documents'' e))
           | Inr (remaining', ignored') \<Rightarrow>
               (updateVulnerabilityList S (Sorted (sc_menv S) (Matches_Diff (sc_menv S) remaining' remaining))
                  (ignoredMatchesDiff ignored' ignored) [] mon,
                Some remaining', ignored', None)))"

text \<open>A nil metadata without an error is dereferenced: \<^const>\<open>None\<close> is that panic.\<close>

fun severity_loop :: "scan_env \<Rightarrow> int \<Rightarrow> Match list \<Rightarrow> bool option" where
  "severity_loop S severity [] = Some False"
| "severity_loop S severity (m # ms) =
     (case sc_metadata S (vuln_ref (m_Vulnerability m)) of
        None \<Rightarrow> severity_loop S severity ms
      | Some None \<Rightarrow> None
      | Some (Some metadata) \<Rightarrow>
          if ParseSeverity (md_Severity metadata) \<ge> severity then Some True else severity_loop S severity ms)"

definition hasSeverityAtOrAbove :: "scan_env \<Rightarrow> int \<Rightarrow> Matches \<Rightarrow> bool option" where
  "hasSeverityAtOrAbove S severity ms =
     (if severity = 0 then Some False else severity_loop S severity (Enumerate (sc_menv S) ms))"

datatype scan_result =
    ScanPanics
  | ScanReturns "Matches option" "IgnoredMatch list" "serror option"

text \<open>What the deferred function does to the monitor, once the results are known.\<close>

definition finish_monitor :: "IgnoredMatch list \<Rightarrow> serror option \<Rightarrow> monitorWriter \<Rightarrow> monitorWriter" where
  "finish_monitor ignored err mon =
     mon\<lparr>mon_Ignored := int (length ignored), mon_Completed := True, mon_Error := err\<rparr>"

definition return_scan ::
  "VulnerabilityMatcher \<Rightarrow> monitorWriter \<Rightarrow> Matches option \<Rightarrow> IgnoredMatch list \<Rightarrow> serror option
   \<Rightarrow> VulnerabilityMatcher \<times> monitorWriter \<times> scan_result" where
  "return_scan vm mon remaining ignored err =
     (vm, finish_monitor ignored err mon, ScanReturns remaining ignored err)"

definition FindMatchesContext ::
  "scan_env \<Rightarrow> Package list \<Rightarrow> bool \<Rightarrow> VulnerabilityMatcher \<Rightarrow> VulnerabilityMatcher \<times> monitorWriter \<times> scan_result" where
  "FindMatchesContext S pkgs detectionFailed vm =
     (case findDBMatches S pkgs (vm\<lparr>distroDetectionFailed := detectionFailed\<rparr>) newMonitor of
        (vm, mon, ms, ignored, Some e) \<Rightarrow>
          return_scan vm mon ms ignored (Some (WrapError ''unable to find matches against vulnerability database'' e))
      | (vm, mon, None, ignored, None) \<Rightarrow> (vm, mon, ScanPanics)
      | (vm, mon, Some ms, ignored, None) \<Rightarrow>
          (case findVEXMatches S vm ms ignored mon of
             (mon, ms, ignored, Some e) \<Rightarrow>
               return_scan vm mon ms ignored (Some (WrapError ''unable to find matches against VEX sources'' e))
           | (mon, None, ignored, None) \<Rightarrow> (vm, mon, ScanPanics)
           | (mon, Some ms, ignored, None) \<Rightarrow>
               (case vm_FailSeverity vm of
                  None \<Rightarrow> return_scan vm mon (Some ms) ignored None
                | Some severity \<Rightarrow>
                    (case hasSeverityAtOrAbove S severity ms of
                       None \<Rightarrow> (vm, finish_monitor ignored None mon, ScanPanics)
                     | Some isAbove \<Rightarrow>
                         return_scan vm mon (Some ms) ignored (if isAbove then Some ErrAboveSeverityThreshold else None)))))"

text \<open>\<^verbatim>\<open>FindMatches\<close> uses the background context, which never has an error.\<close>

definition FindMatches ::
  "scan_env \<Rightarrow> Package list \<Rightarrow> bool \<Rightarrow> VulnerabilityMatcher \<Rightarrow> VulnerabilityMatcher \<times> monitorWriter \<times> scan_result" where
  "FindMatches S = FindMatchesContext (S\<lparr>sc_ctx_Err := (\<lambda>_. None)\<rparr>)"

section \<open>The loops, declaratively\<close>

definition outcome_ms :: "match_outcome \<Rightarrow> Match list" where
  "outcome_ms r = (case r of Panics _ \<Rightarrow> [] | Returns ms _ _ \<Rightarrow> ms)"

definition outcome_ignorers :: "match_outcome \<Rightarrow> IgnoreFilter list" where
  "outcome_ignorers r = (case r of Panics _ \<Rightarrow> [] | Returns _ igs _ \<Rightarrow> igs)"

definition stops :: "match_outcome \<Rightarrow> bool" where
  "stops r = (case r of Panics _ \<Rightarrow> True | Returns _ _ (Some e) \<Rightarrow> IsFatalError e | _ \<Rightarrow> False)"

text \<open>All calls of matchers that a scan of the packages makes.\<close>

definition calls :: "scan_env \<Rightarrow> VulnerabilityMatcher \<Rightarrow> Package list \<Rightarrow> match_outcome list" where
  "calls S vm pkgs = concat (map (\<lambda>p. map (\<lambda>t. mt_Match t p) (matchers_for S vm p)) pkgs)"

definition reported :: "scan_env \<Rightarrow> VulnerabilityMatcher \<Rightarrow> match_outcome \<Rightarrow> Match list" where
  "reported S vm r =
     Sorted (sc_menv S) (fst (ApplyExplicitIgnoreRules (sc_menv S) (sc_renv S) (vm_ExclusionProvider vm)
       (NewMatches (sc_menv S) (outcome_ms r))))"

definition all_reported :: "scan_env \<Rightarrow> VulnerabilityMatcher \<Rightarrow> Package list \<Rightarrow> Match list" where
  "all_reported S vm pkgs = concat (map (reported S vm) (calls S vm pkgs))"

definition all_ignorers :: "scan_env \<Rightarrow> VulnerabilityMatcher \<Rightarrow> Package list \<Rightarrow> IgnoreFilter list" where
  "all_ignorers S vm pkgs = concat (map outcome_ignorers (calls S vm pkgs))"

text \<open>A scan no matcher stops and no cancellation interrupts.\<close>

definition calm :: "scan_env \<Rightarrow> bool" where
  "calm S \<longleftrightarrow> (\<forall>n. sc_ctx_Err S n = None)"

lemma with_results_acc [simp]:
  "allMatches (with_results S vm (outcome_ms r) igs err a) = allMatches a @ reported S vm r"
  "allIgnorers (with_results S vm ms igs err a) = allIgnorers a @ igs"
  "ac_checks (with_results S vm ms igs err a) = ac_checks a"
  "ac_eolTracker (with_results S vm ms igs err a) = ac_eolTracker a"
  "ac_eolPackages (with_results S vm ms igs err a) = ac_eolPackages a"
  by (simp_all add: with_results_def reported_def Let_def split: prod.splits)

lemma matcher_loop_step:
  assumes "calm S" "\<not> stops (mt_Match t p)"
  obtains err where "matcher_loop S vm p (t # ts) a = matcher_loop S vm p ts
    (with_results S vm (outcome_ms (mt_Match t p)) (outcome_ignorers (mt_Match t p)) err (a\<lparr>ac_checks := ac_checks a + 1\<rparr>))"
proof (cases "mt_Match t p")
  case (Returns ms igs err)
  with assms that show ?thesis
    by (cases err) (auto simp: calm_def callMatcherSafely_def stops_def outcome_ms_def outcome_ignorers_def Let_def)
qed (use assms in \<open>simp add: stops_def\<close>)

lemma matcher_loop_stops:
  assumes "calm S" "stops (mt_Match t p)"
  shows "\<exists>b e. matcher_loop S vm p (t # ts) a = (b, Some e) \<and> IsFatalError e"
  using assms by (auto simp: calm_def callMatcherSafely_def stops_def Let_def split: match_outcome.splits option.splits)

lemma matcher_loop_result:
  assumes "calm S"
  shows "(list_ex (\<lambda>t. stops (mt_Match t p)) ts \<longrightarrow> (\<exists>b e. matcher_loop S vm p ts a = (b, Some e) \<and> IsFatalError e))
    \<and> (\<not> list_ex (\<lambda>t. stops (mt_Match t p)) ts \<longrightarrow>
        (\<exists>b. matcher_loop S vm p ts a = (b, None)
          \<and> allMatches b = allMatches a @ concat (map (\<lambda>t. reported S vm (mt_Match t p)) ts)
          \<and> allIgnorers b = allIgnorers a @ concat (map (\<lambda>t. outcome_ignorers (mt_Match t p)) ts)
          \<and> ac_eolTracker b = ac_eolTracker a \<and> ac_eolPackages b = ac_eolPackages a))"
proof (induction ts arbitrary: a)
  case (Cons t ts)
  show ?case
  proof (cases "stops (mt_Match t p)")
    case True
    then show ?thesis using matcher_loop_stops [OF assms] by auto
  next
    case False
    then obtain err where "matcher_loop S vm p (t # ts) a = matcher_loop S vm p ts
      (with_results S vm (outcome_ms (mt_Match t p)) (outcome_ignorers (mt_Match t p)) err (a\<lparr>ac_checks := ac_checks a + 1\<rparr>))"
      using matcher_loop_step [OF assms] by blast
    with Cons.IH [of "with_results S vm (outcome_ms (mt_Match t p)) (outcome_ignorers (mt_Match t p)) err (a\<lparr>ac_checks := ac_checks a + 1\<rparr>)"]
      False show ?thesis by simp
  qed
qed simp

subsection \<open>End of life\<close>

definition is_eol :: "(Package \<Rightarrow> bool) option \<Rightarrow> Package \<Rightarrow> bool" where
  "is_eol checker p \<longleftrightarrow> pkg_Distro p \<noteq> None \<and> (case checker of None \<Rightarrow> False | Some f \<Rightarrow> f p)"

text \<open>The cache is keyed by the distro's text, so it relies on the check depending on nothing else.\<close>

definition by_distro :: "(Package \<Rightarrow> bool) option \<Rightarrow> bool" where
  "by_distro checker \<longleftrightarrow> (\<forall>f p q. checker = Some f \<longrightarrow> pkg_Distro p = pkg_Distro q \<longrightarrow> f p = f q)"

definition tracker_ok :: "eolTracker \<Rightarrow> bool" where
  "tracker_ok t \<longleftrightarrow> (\<forall>k v p. map_of (eol_cache t) k = Some v \<longrightarrow> pkg_Distro p = Some k \<longrightarrow> is_eol (eol_checker t) p = v)"

lemma checkAndTrack_ok:
  assumes "by_distro (eol_checker t)" "tracker_ok t"
  shows "fst (checkAndTrack t p) = is_eol (eol_checker t) p"
    and "tracker_ok (snd (checkAndTrack t p))"
    and "eol_checker (snd (checkAndTrack t p)) = eol_checker t"
proof -
  show "eol_checker (snd (checkAndTrack t p)) = eol_checker t"
    by (auto simp: checkAndTrack_def Let_def split: option.splits)
  show "fst (checkAndTrack t p) = is_eol (eol_checker t) p"
    using assms(2) by (auto simp: checkAndTrack_def is_eol_def tracker_ok_def Let_def split: option.splits)
  show "tracker_ok (snd (checkAndTrack t p))"
  proof (cases "eol_checker t = None \<or> pkg_Distro p = None \<or> (\<exists>k v. pkg_Distro p = Some k \<and> map_of (eol_cache t) k = Some v)")
    case True
    then have "snd (checkAndTrack t p) = t" by (auto simp: checkAndTrack_def Let_def split: option.splits)
    with assms(2) show ?thesis by simp
  next
    case False
    then obtain f k where f: "eol_checker t = Some f" "pkg_Distro p = Some k" "map_of (eol_cache t) k = None"
      by (cases "eol_checker t"; cases "pkg_Distro p") auto
    have same: "is_eol (eol_checker t) q = f p" if "pkg_Distro q = Some k" for q
    proof -
      from assms(1) f(1) have "pkg_Distro q = pkg_Distro p \<Longrightarrow> f q = f p" unfolding by_distro_def by blast
      with f that show ?thesis by (simp add: is_eol_def)
    qed
    have "snd (checkAndTrack t p) = t\<lparr>eol_cache := AList.update k (f p) (eol_cache t)\<rparr>"
      using f by (simp add: checkAndTrack_def Let_def)
    then show ?thesis using assms(2) same unfolding tracker_ok_def by (simp add: update_conv')
  qed
qed

subsection \<open>The whole search\<close>

lemma calls_Cons: "calls S vm (p # ps) = map (\<lambda>t. mt_Match t p) (matchers_for S vm p) @ calls S vm ps"
  by (simp add: calls_def)

lemma visit_package_fields [simp]:
  "allMatches (visit_package p a) = allMatches a" "allIgnorers (visit_package p a) = allIgnorers a"
  "matcherErrs (visit_package p a) = matcherErrs a"
  "ac_eolTracker (visit_package p a) = snd (checkAndTrack (ac_eolTracker a) p)"
  "ac_eolPackages (visit_package p a) = ac_eolPackages a @ (if fst (checkAndTrack (ac_eolTracker a) p) then [p] else [])"
  by (simp_all add: visit_package_def split: prod.splits)

lemma package_loop_stops:
  assumes "calm S" "list_ex stops (calls S vm ps)"
  shows "\<exists>b e. package_loop S vm ps a = (b, Some e) \<and> IsFatalError e"
  using assms(2)
proof (induction ps arbitrary: a)
  case (Cons p ps)
  note r = matcher_loop_result [OF assms(1), of p "matchers_for S vm p" vm "visit_package p a"]
  show ?case
  proof (cases "list_ex (\<lambda>t. stops (mt_Match t p)) (matchers_for S vm p)")
    case True
    with r show ?thesis by auto
  next
    case False
    with Cons.prems have "list_ex stops (calls S vm ps)" by (auto simp: calls_Cons list_ex_iff)
    with Cons.IH False r show ?thesis by auto
  qed
qed (simp add: calls_def)

lemma package_loop_result:
  assumes "calm S" "\<not> list_ex stops (calls S vm ps)"
    and "by_distro (eol_checker (ac_eolTracker a))" "tracker_ok (ac_eolTracker a)"
  shows "\<exists>b. package_loop S vm ps a = (b, None)
    \<and> allMatches b = allMatches a @ all_reported S vm ps
    \<and> allIgnorers b = allIgnorers a @ all_ignorers S vm ps
    \<and> ac_eolPackages b = ac_eolPackages a @ filter (is_eol (eol_checker (ac_eolTracker a))) ps"
  using assms(2,3,4)
proof (induction ps arbitrary: a)
  case (Cons p ps)
  note eol = checkAndTrack_ok [OF Cons.prems(2,3), of p]
  have "\<not> list_ex (\<lambda>t. stops (mt_Match t p)) (matchers_for S vm p)"
    using Cons.prems(1) by (auto simp: calls_Cons list_ex_iff)
  with matcher_loop_result [OF assms(1), of p "matchers_for S vm p" vm "visit_package p a"]
  obtain b where b: "matcher_loop S vm p (matchers_for S vm p) (visit_package p a) = (b, None)"
    "allMatches b = allMatches a @ concat (map (\<lambda>t. reported S vm (mt_Match t p)) (matchers_for S vm p))"
    "allIgnorers b = allIgnorers a @ concat (map (\<lambda>t. outcome_ignorers (mt_Match t p)) (matchers_for S vm p))"
    "ac_eolTracker b = snd (checkAndTrack (ac_eolTracker a) p)"
    "ac_eolPackages b = ac_eolPackages a @ (if is_eol (eol_checker (ac_eolTracker a)) p then [p] else [])"
    by (auto simp: eol(1))
  have step: "package_loop S vm (p # ps) a = package_loop S vm ps b" using b(1) by simp
  have "\<not> list_ex stops (calls S vm ps)" using Cons.prems(1) by (simp add: calls_Cons)
  from Cons.IH [OF this, of b] eol(2,3) Cons.prems(2) b(4)
  show ?case unfolding step
    by (auto simp: b(2,3,5) all_reported_def all_ignorers_def calls_Cons comp_def)
qed (simp add: all_reported_def all_ignorers_def calls_def)

definition index_ignored :: "scan_env \<Rightarrow> VulnerabilityMatcher \<Rightarrow> Package list \<Rightarrow> Match \<Rightarrow> bool" where
  "index_ignored S vm pkgs m \<longleftrightarrow> Index_IgnoreMatch (sc_renv S) (ignoredMatchFilter (all_ignorers S vm pkgs)) m \<noteq> []"

interpretation index: ignore_filter "Index_IgnoreMatch R" "\<lambda>i m. Index_IgnoreMatch R i m \<noteq> []"
  by unfold_locales simp

definition no_fatal :: "serror list \<Rightarrow> bool" where
  "no_fatal es \<longleftrightarrow> \<not> list_ex IsFatalError es"

lemma with_results_errs [simp]:
  "matcherErrs (with_results S vm ms igs err a) = matcherErrs a @ (case err of None \<Rightarrow> [] | Some e \<Rightarrow> [e])"
  by (simp add: with_results_def Let_def split: prod.splits)

lemma matcher_loop_errs:
  "no_fatal (matcherErrs a) \<Longrightarrow> no_fatal (matcherErrs (fst (matcher_loop S vm p ts a)))"
  by (induction ts arbitrary: a) (auto simp: Let_def no_fatal_def split: option.splits prod.splits)

lemma package_loop_errs:
  "no_fatal (matcherErrs a) \<Longrightarrow> no_fatal (matcherErrs (fst (package_loop S vm ps a)))"
proof (induction ps arbitrary: a)
  case (Cons p ps)
  obtain b e where b: "matcher_loop S vm p (matchers_for S vm p) (visit_package p a) = (b, e)" by fastforce
  have "no_fatal (matcherErrs b)"
    using matcher_loop_errs [of "visit_package p a" S vm p "matchers_for S vm p"] Cons.prems b by simp
  with Cons.IH [of b] show ?case by (cases e) (simp_all add: b)
qed simp

definition after_search :: "scan_env \<Rightarrow> Package list \<Rightarrow> VulnerabilityMatcher \<Rightarrow> VulnerabilityMatcher" where
  "after_search S pkgs vm =
     vm\<lparr>eolDistroPackages := filter (is_eol (if vm_EnableEOLDistroWarnings vm then sc_EOLChecker S else None)) pkgs\<rparr>"

definition kept :: "scan_env \<Rightarrow> VulnerabilityMatcher \<Rightarrow> Package list \<Rightarrow> Match list" where
  "kept S vm pkgs = filter (\<lambda>m. \<not> index_ignored S vm pkgs m) (all_reported S vm pkgs)"

lemma searchDBForMatches_result:
  assumes "calm S" "\<not> list_ex stops (calls S vm pkgs)" "by_distro (sc_EOLChecker S)"
  shows "\<exists>mon' errs. searchDBForMatches S pkgs vm mon =
      (after_search S pkgs vm, mon', NewMatches (sc_menv S) (kept S vm pkgs), errors_Join errs) \<and> no_fatal errs"
proof -
  let ?a = "start_acc S vm mon"
  have t: "eol_checker (ac_eolTracker ?a) = (if vm_EnableEOLDistroWarnings vm then sc_EOLChecker S else None)"
    "tracker_ok (ac_eolTracker ?a)"
    by (simp_all add: start_acc_def newEOLTracker_def tracker_ok_def)
  with assms(3) have "by_distro (eol_checker (ac_eolTracker ?a))" by (simp add: by_distro_def)
  from package_loop_result [OF assms(1,2) this t(2)] obtain b where b: "package_loop S vm pkgs ?a = (b, None)"
    "allMatches b = all_reported S vm pkgs" "allIgnorers b = all_ignorers S vm pkgs"
    "ac_eolPackages b = filter (is_eol (eol_checker (ac_eolTracker ?a))) pkgs"
    by (auto simp: start_acc_def)
  moreover have "no_fatal (matcherErrs b)"
    using package_loop_errs [of ?a S vm pkgs] b(1) by (simp add: start_acc_def no_fatal_def)
  ultimately show ?thesis
    by (auto simp: searchDBForMatches_def index.ApplyIgnoreFilters_eq index_ignored_def t(1) Let_def after_search_def kept_def)
qed

lemma IsFatalError_Join: "errors_Join errs = Some e \<Longrightarrow> IsFatalError e \<longleftrightarrow> \<not> no_fatal errs"
  by (auto simp: errors_Join_def no_fatal_def split: if_splits)

lemma findDBMatches_result:
  assumes "calm S" "\<not> list_ex stops (calls S vm pkgs)" "by_distro (sc_EOLChecker S)"
    and "filter_and_normalize S (after_search S pkgs vm) (NewMatches (sc_menv S) (kept S vm pkgs)) = (ms, ignored)"
  shows "\<exists>mon'. findDBMatches S pkgs vm mon = (after_search S pkgs vm, mon', Some ms, ignored, None)"
proof -
  from searchDBForMatches_result [OF assms(1-3), of mon] obtain mon' errs where
    search: "searchDBForMatches S pkgs vm mon =
      (after_search S pkgs vm, mon', NewMatches (sc_menv S) (kept S vm pkgs), errors_Join errs)"
    and "no_fatal errs" by blast
  then have "\<not> (case errors_Join errs of Some e \<Rightarrow> IsFatalError e | None \<Rightarrow> False)"
    using IsFatalError_Join [of errs] by (cases "errors_Join errs") auto
  with assms(4) show ?thesis by (simp add: findDBMatches_def search)
qed

section \<open>Accounting for all matches\<close>

text \<open>The user's rules: nothing is lost between what remains and what is ignored.\<close>

lemma ApplyIgnoreRules_cores:
  assumes "list_all named ms" "ApplyIgnoreRules E R (NewMatches E ms) rules = (rest, ignored)"
  shows "core_of ` set (Enumerate E rest) \<union> core_of ` im_Match ` set ignored = core_of ` set ms"
proof -
  let ?r = "NewMatches E ms" and ?hit = "\<lambda>m. list_ex (\<lambda>f. rule_applies R f m) rules"
  have ok: "matches_ok ?r" by (rule NewMatches_ok [OF assms(1)])
  have "rest = NewMatches E (filter (\<lambda>m. \<not> ?hit m) (Sorted E ?r))"
    and ig: "im_Match ` set ignored = {m \<in> set (Sorted E ?r). ?hit m}"
    using assms(2) by (auto simp: ApplyIgnoreRules_def rule.ApplyIgnoreFilters_eq image_image)
  moreover have "list_all named (filter (\<lambda>m. \<not> ?hit m) (Sorted E ?r))"
    using Enumerate_named [OF assms(1), of E] by (simp add: list_all_iff Sorted_set [OF ok])
  ultimately have "core_of ` set (Enumerate E rest) = core_of ` {m \<in> set (Sorted E ?r). \<not> ?hit m}"
    using NewMatches_cores [of "filter (\<lambda>m. \<not> ?hit m) (Sorted E ?r)" E] by simp
  then have "core_of ` set (Enumerate E rest) \<union> core_of ` im_Match ` set ignored = core_of ` set (Sorted E ?r)"
    unfolding ig by blast
  with NewMatches_cores [OF assms(1), of E] show ?thesis by (simp add: Sorted_set [OF ok])
qed

lemma reported_named:
  assumes "list_all named (outcome_ms r)"
  shows "list_all named (reported S vm r)"
proof -
  let ?E = "sc_menv S" and ?r = "NewMatches (sc_menv S) (outcome_ms r)"
  obtain rules where eq: "reported S vm r = Sorted ?E (fst (ApplyIgnoreRules ?E (sc_renv S) ?r rules))"
    by (simp add: reported_def ApplyExplicitIgnoreRules_def Let_def)
  let ?keep = "filter (\<lambda>m. \<not> list_ex (\<lambda>f. rule_applies (sc_renv S) f m) rules) (Sorted ?E ?r)"
  have "list_all named ?keep"
    using Enumerate_named [OF assms, of ?E] by (simp add: list_all_iff Sorted_set [OF NewMatches_ok [OF assms]])
  moreover have "reported S vm r = Sorted ?E (NewMatches ?E ?keep)"
    by (simp add: eq ApplyIgnoreRules_def rule.ApplyIgnoreFilters_eq)
  ultimately show ?thesis
    unfolding list_all_iff using Enumerate_named [of ?keep ?E] Sorted_set [OF NewMatches_ok [of ?keep ?E], of ?E]
    by (simp only: list_all_iff)
qed

lemma kept_named:
  assumes "list_all (\<lambda>r. list_all named (outcome_ms r)) (calls S vm pkgs)"
  shows "list_all named (kept S vm pkgs)"
  using assms reported_named [of _ S vm] by (auto simp: kept_def all_reported_def list_all_iff)

lemma scan_cong [simp]:
  "calls S (vm\<lparr>distroDetectionFailed := b\<rparr>) pkgs = calls S vm pkgs"
  "kept S (vm\<lparr>distroDetectionFailed := b\<rparr>) pkgs = kept S vm pkgs"
  by (simp_all add: calls_def kept_def index_ignored_def all_reported_def all_ignorers_def matchers_for_def reported_def [abs_def])

subsection \<open>The index of matchers\<close>

lemma append_at_nonempty: "list_all (\<lambda>(k, ts). ts \<noteq> []) al \<Longrightarrow> list_all (\<lambda>(k, ts). ts \<noteq> []) (append_at k t al)"
proof -
  have "list_all (\<lambda>(k, ts). ts \<noteq> []) al \<Longrightarrow> xs \<noteq> [] \<Longrightarrow> list_all (\<lambda>(k, ts). ts \<noteq> []) (AList.update k xs al)" for xs
    by (induction al) auto
  then show "list_all (\<lambda>(k, ts). ts \<noteq> []) al \<Longrightarrow> list_all (\<lambda>(k, ts). ts \<noteq> []) (append_at k t al)"
    by (simp add: append_at_def)
qed

lemma newMatcherIndex_nonempty:
  "list_all (\<lambda>(k, ts). ts \<noteq> []) al \<Longrightarrow> list_all (\<lambda>(k, ts). ts \<noteq> []) (fst (newMatcherIndex ms al d))"
proof (induction ms arbitrary: al d)
  case (Cons t ms)
  have "list_all (\<lambda>(k, ts). ts \<noteq> []) (fold (\<lambda>ty. append_at ty t) tys al)" for tys
    using Cons.prems by (induction tys arbitrary: al) (simp_all add: append_at_nonempty)
  with Cons show ?case by simp
qed simp

lemma matchers_for_nonempty: "matchers_for S vm p \<noteq> []"
proof (cases "map_of (fst (newMatcherIndex (vm_Matchers vm) [] None)) (pkg_Type p)")
  case (Some ts)
  with newMatcherIndex_nonempty [of "[]" "vm_Matchers vm" None] have "ts \<noteq> []"
    by (auto dest!: map_of_SomeD simp: list_all_iff)
  with Some show ?thesis by (auto simp: matchers_for_def split: prod.splits)
qed (auto simp: matchers_for_def split: prod.splits)

subsection \<open>The severity threshold\<close>

definition at_or_above :: "scan_env \<Rightarrow> int \<Rightarrow> Match \<Rightarrow> bool" where
  "at_or_above S severity m \<longleftrightarrow>
     (case sc_metadata S (vuln_ref (m_Vulnerability m)) of
        Some (Some metadata) \<Rightarrow> ParseSeverity (md_Severity metadata) \<ge> severity
      | _ \<Rightarrow> False)"

definition has_metadata :: "scan_env \<Rightarrow> Match \<Rightarrow> bool" where
  "has_metadata S m \<longleftrightarrow> sc_metadata S (vuln_ref (m_Vulnerability m)) \<noteq> Some None"

lemma severity_loop_eq:
  "list_all (has_metadata S) ms \<Longrightarrow> severity_loop S severity ms = Some (list_ex (at_or_above S severity) ms)"
  by (induction ms) (auto simp: has_metadata_def at_or_above_def split: option.splits)

lemma scan_ignores_threshold:
  "matchers_for S (vm\<lparr>vm_FailSeverity := x\<rparr>) p = matchers_for S vm p"
  "with_results S (vm\<lparr>vm_FailSeverity := x\<rparr>) ms igs err a = with_results S vm ms igs err a"
  "start_acc S (vm\<lparr>vm_FailSeverity := x\<rparr>) mon = start_acc S vm mon"
  "filter_and_normalize S (vm\<lparr>vm_FailSeverity := x\<rparr>) r = filter_and_normalize S vm r"
  "findVEXMatches S (vm\<lparr>vm_FailSeverity := x\<rparr>) r ignored mon = findVEXMatches S vm r ignored mon"
  by (simp_all add: matchers_for_def with_results_def start_acc_def filter_and_normalize_def applyIgnoreRules_def
      mergeIgnoredMatches_def findVEXMatches_def)

lemma matcher_loop_threshold: "matcher_loop S (vm\<lparr>vm_FailSeverity := x\<rparr>) p ts a = matcher_loop S vm p ts a"
  by (induction ts arbitrary: a) (simp_all add: scan_ignores_threshold Let_def split: option.splits prod.splits)

lemma package_loop_threshold: "package_loop S (vm\<lparr>vm_FailSeverity := x\<rparr>) ps a = package_loop S vm ps a"
  by (induction ps arbitrary: a)
    (simp_all add: scan_ignores_threshold matcher_loop_threshold split: option.splits prod.splits)

lemma findDBMatches_threshold:
  "findDBMatches S pkgs (vm\<lparr>vm_FailSeverity := x\<rparr>) mon =
     (case findDBMatches S pkgs vm mon of (vm', rest) \<Rightarrow> (vm'\<lparr>vm_FailSeverity := x\<rparr>, rest))"
proof -
  have "searchDBForMatches S pkgs (vm\<lparr>vm_FailSeverity := x\<rparr>) mon =
     (case searchDBForMatches S pkgs vm mon of (vm', rest) \<Rightarrow> (vm'\<lparr>vm_FailSeverity := x\<rparr>, rest))"
    by (simp add: searchDBForMatches_def package_loop_threshold scan_ignores_threshold Let_def split: option.splits prod.splits)
  moreover obtain vm' mon' ms err where "searchDBForMatches S pkgs vm mon = (vm', mon', ms, err)" by (metis surj_pair)
  ultimately show ?thesis
    by (cases "filter_and_normalize S vm' ms") (simp add: findDBMatches_def scan_ignores_threshold)
qed

section \<open>An example\<close>

definition example_matcher :: Matcher where
  "example_matcher = \<lparr>mt_Type = ''rpm-matcher'', mt_PackageTypes = [''rpm''],
     mt_Match = (\<lambda>p. if pkg_Name p = ''bad'' then Panics (ErrorText ''boom'')
                      else Returns [example_match ''CVE-1'' (pkg_ID p) [''2''] [(ExactDirectMatch, ''a'')]] [] None)\<rparr>"

definition example_vm :: VulnerabilityMatcher where
  "example_vm = \<lparr>vm_ExclusionProvider = None, vm_Matchers = [example_matcher], vm_IgnoreRules = [], vm_FailSeverity = None,
     vm_NormalizeByCVE = False, vm_VexProcessor = None, vm_EnableEOLDistroWarnings = False, eolDistroPackages = [],
     distroDetectionFailed = False\<rparr>"

definition example_scan :: "serror option \<Rightarrow> scan_env" where
  "example_scan ctx = \<lparr>sc_menv = example_env, sc_renv = example_renv,
     sc_metadata = (\<lambda>r. Some (Some \<lparr>md_ID = ref_ID r, md_Namespace = ref_Namespace r, md_Severity = ''High''\<rparr>)),
     sc_stock = example_matcher, sc_ctx_Err = (\<lambda>_. ctx), sc_EOLChecker = None\<rparr>"

definition example_package :: "string \<Rightarrow> Package" where
  "example_package n = m_Package (example_match ''CVE-1'' n [] [])"

lemma example_calls:
  "calls (example_scan ctx) example_vm [example_package n] = [mt_Match example_matcher (example_package n)]"
  by (simp add: calls_def matchers_for_def example_vm_def example_matcher_def example_package_def example_match_def
      StockMatcher_def append_at_def get_fps_def)

lemma example_outcome:
  "mt_Match example_matcher (example_package ''p'') = Returns [example_match ''CVE-1'' ''p'' [''2''] [(ExactDirectMatch, ''a'')]] [] None"
  "mt_Match example_matcher (example_package ''bad'') = Panics (ErrorText ''boom'')"
  by (simp_all add: example_matcher_def example_package_def example_match_def)

lemma example_calm: "calm (example_scan None)"
  by (simp add: calm_def example_scan_def)

section \<open>Properties\<close>



text \<open>C8: a matcher that panics or returns a fatal error, anywhere in the scan, makes the whole scan fail
  with a fatal error and no matches; a result is never returned without it.\<close>

theorem FindMatches_fatal:
  assumes "calm S" "list_ex stops (calls S vm pkgs)"
  shows "\<exists>vm' mon e. FindMatchesContext S pkgs detectionFailed vm = (vm', mon, ScanReturns None [] (Some e)) \<and> IsFatalError e"
proof -
  let ?vm = "vm\<lparr>distroDetectionFailed := detectionFailed\<rparr>"
  from package_loop_stops [OF assms(1), of ?vm pkgs "start_acc S ?vm newMonitor"] assms(2)
  obtain b e where "package_loop S ?vm pkgs (start_acc S ?vm newMonitor) = (b, Some e)" "IsFatalError e" by auto
  then show ?thesis
    by (simp add: FindMatchesContext_def findDBMatches_def searchDBForMatches_def return_scan_def)
qed

theorem FindMatches_fatal_witness:
  "\<exists>vm' mon e. FindMatchesContext (example_scan None) [example_package ''bad''] False example_vm =
     (vm', mon, ScanReturns None [] (Some e)) \<and> IsFatalError e"
proof -
  have "list_ex stops (calls (example_scan None) example_vm [example_package ''bad''])"
    by (simp add: example_calls example_outcome stops_def)
  from FindMatches_fatal [OF example_calm this] show ?thesis .
qed

text \<open>Cancellation is not reported.  If the context is cancelled before the first matcher is called, the
  scan returns an empty collection of matches and no error, as if nothing had been found.\<close>

theorem FindMatchesContext_cancelled:
  assumes "sc_ctx_Err S 0 = Some e" "\<not> IsFatalError e" "pkgs \<noteq> []" "vm_VexProcessor vm = None"
  shows "\<exists>vm' mon ms. FindMatchesContext S pkgs detectionFailed vm = (vm', mon, ScanReturns (Some ms) [] None)
    \<and> Enumerate (sc_menv S) ms = []"
proof -
  let ?vm = "vm\<lparr>distroDetectionFailed := detectionFailed\<rparr>"
  obtain p ps where p: "pkgs = p # ps" using assms(3) by (cases pkgs) auto
  obtain t ts where t: "matchers_for S ?vm p = t # ts" using matchers_for_nonempty by (meson neq_Nil_conv)
  have "ac_checks (visit_package p (start_acc S ?vm newMonitor)) = 0"
    by (simp add: visit_package_def start_acc_def split: prod.splits)
  with assms(1) obtain b where "package_loop S ?vm pkgs (start_acc S ?vm newMonitor) = (b, Some e)"
    by (simp add: p t Let_def)
  then obtain vm' mon where search: "searchDBForMatches S pkgs ?vm newMonitor = (vm', mon, newMatches, Some e)"
    "vm_VexProcessor vm' = None"
    using assms(4) by (simp add: searchDBForMatches_def)
  have none: "Enumerate (sc_menv S) newMatches = []" "Sorted (sc_menv S) newMatches = []" "NewMatches (sc_menv S) [] = newMatches"
    by (simp_all add: Enumerate_def Sorted_def newMatches_def NewMatches_def Matches_Add_def go_range_def is_perm_def)
  have rules: "applyIgnoreRules S vm' newMatches = (newMatches, [])"
    by (simp add: applyIgnoreRules_def ApplyIgnoreRules_def none)
  have "filter_and_normalize S vm' newMatches = (newMatches, [])"
    by (simp add: filter_and_normalize_def rules none mergeIgnoredMatches_def)
  with search assms(2) none show ?thesis
    by (cases "vm_FailSeverity vm'")
      (auto simp: FindMatchesContext_def findDBMatches_def findVEXMatches_def return_scan_def hasSeverityAtOrAbove_def)
qed

theorem FindMatchesContext_cancelled_witness:
  "\<exists>vm' mon ms. FindMatchesContext (example_scan (Some (ContextError ''context canceled''))) [example_package ''p''] False example_vm =
     (vm', mon, ScanReturns (Some ms) [] None)"
  using FindMatchesContext_cancelled [of "example_scan (Some (ContextError ''context canceled''))" "ContextError ''context canceled''"
      "[example_package ''p'']" example_vm False]
  by (auto simp: example_scan_def example_vm_def)



text \<open>Normalising by CVE keeps package, details and fix of a match.  If the provider's record for a CVE
  reference has a CVE as its ID, the result names a CVE or is the match itself, and normalising twice is
  normalising once.\<close>

theorem normalizeByCVE_idempotent:
  assumes "\<And>ref md. isCVE (ref_ID ref) \<Longrightarrow> sc_metadata S ref = Some (Some md) \<Longrightarrow> isCVE (md_ID md)"
  shows "normalizeByCVE S (normalizeByCVE S m) = normalizeByCVE S m
    \<and> (isCVE (vuln_ID (m_Vulnerability (normalizeByCVE S m))) \<or> normalizeByCVE S m = m)
    \<and> m_Package (normalizeByCVE S m) = m_Package m \<and> m_Details (normalizeByCVE S m) = m_Details m
    \<and> vuln_Fix (m_Vulnerability (normalizeByCVE S m)) = vuln_Fix (m_Vulnerability m)"
proof -
  have cve: "isCVE (vuln_ID (m_Vulnerability (normalizeByCVE S m))) \<or> normalizeByCVE S m = m"
    using assms by (auto simp: normalizeByCVE_def find_Some_iff split: option.splits)
  moreover have "normalizeByCVE S (normalizeByCVE S m) = normalizeByCVE S m"
    using cve by (metis normalizeByCVE_def)
  ultimately show ?thesis
    by (auto simp: normalizeByCVE_def split: option.splits)
qed

theorem normalizeByCVE_idempotent_witness:
  "normalizeByCVE (example_scan None) (normalizeByCVE (example_scan None) (example_match ''GHSA-1'' ''p'' [] [])) =
     normalizeByCVE (example_scan None) (example_match ''GHSA-1'' ''p'' [] [])"
  by (rule conjunct1 [OF normalizeByCVE_idempotent]) (auto simp: example_scan_def)

end
