(* ===== verification/Range_Expr.thy ===== *)
theory Range_Expr
  imports Version_Base
begin

text \<open>
  Constraint expressions such as \<^verbatim>\<open>>= 1.0, < 2.0 || = 3.1\<close>: \<^verbatim>\<open>range.go\<close> (one comparison) and the
  parser of \<^verbatim>\<open>range_expression.go\<close> (groups of comparisons joined by commas, the groups joined by
  \<^verbatim>\<open>||\<close>).  The parser reads its input with Go's \<^verbatim>\<open>text/scanner\<close>; \<open>scan_tokens\<close> models what the
  scanner makes of a phrase.
\<close>

section \<open>strconv.Unquote\<close>

fun unhex :: "char \<Rightarrow> nat option" where
  "unhex c =
     (if is_digit c then Some (byte_val c - 48)
      else if 97 \<le> byte_val c \<and> byte_val c \<le> 102 then Some (byte_val c - 87)
      else if 65 \<le> byte_val c \<and> byte_val c \<le> 70 then Some (byte_val c - 55)
      else None)"

fun unoct :: "char \<Rightarrow> nat option" where
  "unoct c = (if 48 \<le> byte_val c \<and> byte_val c \<le> 55 then Some (byte_val c - 48) else None)"

fun take_digits :: "(char \<Rightarrow> nat option) \<Rightarrow> nat \<Rightarrow> nat \<Rightarrow> nat \<Rightarrow> string \<Rightarrow> (nat \<times> string) option" where
  "take_digits d base 0 acc s = Some (acc, s)"
| "take_digits d base (Suc n) acc [] = None"
| "take_digits d base (Suc n) acc (c # s) =
     (case d c of None \<Rightarrow> None | Some v \<Rightarrow> take_digits d base n (acc * base + v) s)"

definition utf8_encode :: "nat \<Rightarrow> string" where
  "utf8_encode v =
     map char_of
       (if v < 128 then [v]
        else if v < 2048 then [192 + v div 64, 128 + v mod 64]
        else if v < 65536 then [224 + v div 4096, 128 + v div 64 mod 64, 128 + v mod 64]
        else [240 + v div 262144, 128 + v div 4096 mod 64, 128 + v div 64 mod 64, 128 + v mod 64])"

definition valid_rune :: "nat \<Rightarrow> bool" where
  "valid_rune v \<longleftrightarrow> v < 55296 \<or> (57344 \<le> v \<and> v < 1114112)"

text \<open>\<^verbatim>\<open>UnquoteChar\<close>: the bytes of the next character of a quoted text, and what follows.  A byte
  beyond ASCII stands for itself (the input is taken to be valid UTF-8).\<close>

definition UnquoteChar :: "char \<Rightarrow> string \<Rightarrow> (string \<times> string) option" where
  "UnquoteChar quote s =
     (case s of
        [] \<Rightarrow> None
      | c # s1 \<Rightarrow>
          (if c = quote then None
           else if c \<noteq> CHR 0x5C then Some ([c], s1)
           else case s1 of
             [] \<Rightarrow> None
           | d # s2 \<Rightarrow>
               (if d = CHR ''a'' then Some ([CHR 0x07], s2)
                else if d = CHR ''b'' then Some ([CHR 0x08], s2)
                else if d = CHR ''f'' then Some ([CHR 0x0C], s2)
                else if d = CHR ''n'' then Some ([CHR 0x0A], s2)
                else if d = CHR ''r'' then Some ([CHR 0x0D], s2)
                else if d = CHR ''t'' then Some ([CHR 0x09], s2)
                else if d = CHR ''v'' then Some ([CHR 0x0B], s2)
                else if d = CHR ''x'' then
                  map_option (\<lambda>(v, r). ([char_of v], r)) (take_digits unhex 16 2 0 s2)
                else if d = CHR ''u'' \<or> d = CHR ''U'' then
                  (case take_digits unhex 16 (if d = CHR ''u'' then 4 else 8) 0 s2 of
                     None \<Rightarrow> None
                   | Some (v, r) \<Rightarrow> (if valid_rune v then Some (utf8_encode v, r) else None))
                else if unoct d \<noteq> None then
                  (case take_digits unoct 8 2 (byte_val d - 48) s2 of
                     None \<Rightarrow> None
                   | Some (v, r) \<Rightarrow> (if v > 255 then None else Some ([char_of v], r)))
                else if d = CHR 0x5C then Some ([CHR 0x5C], s2)
                else if (d = CHR 0x27 \<or> d = CHR 0x22) \<and> d = quote then Some ([d], s2)
                else None)))"

text \<open>The loop of \<^verbatim>\<open>unquote\<close>; the fuel is the length of the text, which every character shortens.\<close>

fun unquote_loop :: "nat \<Rightarrow> char \<Rightarrow> string \<Rightarrow> string option" where
  "unquote_loop 0 quote s = None"
| "unquote_loop (Suc n) quote s =
     (case s of
        [] \<Rightarrow> None
      | c # s1 \<Rightarrow>
          (if c = quote then (if s1 = [] then Some [] else None)
           else if c = CHR 0x0A then None
           else case UnquoteChar quote s of
                  None \<Rightarrow> None
                | Some (bs, r) \<Rightarrow>
                    (if quote = CHR 0x27 then (if r = [quote] then Some bs else None)
                     else map_option (\<lambda>out. bs @ out) (unquote_loop n quote r))))"

definition strconv_Unquote :: "string \<Rightarrow> string option" where
  "strconv_Unquote s =
     (case s of
        [] \<Rightarrow> None
      | quote # s1 \<Rightarrow>
          (if quote \<notin> set s1 then None
           else if quote = CHR 0x60 then
             (case strings_Cut s1 [quote] of
                Some (body, []) \<Rightarrow> Some (filter (\<lambda>c. c \<noteq> CHR 0x0D) body)
              | _ \<Rightarrow> None)
           else if quote = CHR 0x22 \<or> quote = CHR 0x27 then
             (if quote = CHR 0x27 \<and> s1 = [quote] then None
              else unquote_loop (length s) quote s1)
           else None))"

section \<open>One comparison (range.go)\<close>

record rangeUnit =
  ru_Operator :: Operator
  ru_Version :: string

definition re_space :: "char \<Rightarrow> bool" where
  "re_space c \<longleftrightarrow> c \<in> {CHR 0x09, CHR 0x0A, CHR 0x0C, CHR 0x0D, CHR '' ''}"

definition prefix_char :: "char \<Rightarrow> bool" where
  "prefix_char c \<longleftrightarrow> \<not> (c \<in> set ''><=().'' \<or> c = CHR 0x27 \<or> c = CHR 0x22 \<or> is_alpha c \<or> is_digit c)"

definition operator_char :: "char \<Rightarrow> bool" where
  "operator_char c \<longleftrightarrow> c \<in> set ''><=''"

definition constraintPartPattern :: re where
  "constraintPartPattern =
     Seq (Star (Cls re_space))
       (Seq (Grp 1 (Star (Cls prefix_char)))
         (Seq (Grp 2 (Star (Cls operator_char)))
           (Seq (Star (Cls re_space)) (Grp 3 (Plus (Cls (\<lambda>c. c \<noteq> CHR 0x0A)))))))"

text \<open>\<^verbatim>\<open>validateVersion\<close>: the loop carries the quote character it is inside of, if any.\<close>

fun validate_loop :: "char option \<Rightarrow> string \<Rightarrow> verror option" where
  "validate_loop q [] =
     (if q \<noteq> None then Some (Msg ''version has unbalanced quotes'') else None)"
| "validate_loop q (r # rs) =
     (if q = None \<and> (r = CHR 0x22 \<or> r = CHR 0x27) then validate_loop (Some r) rs
      else if q = Some r then validate_loop None rs
      else if q = None \<and> r \<in> set ''><='' then
        Some (Msg ''version potentially is a version constraint expression'')
      else validate_loop q rs)"

definition validateVersion :: "string \<Rightarrow> verror option" where
  "validateVersion version = validate_loop None version"

definition trimQuotes :: "string \<Rightarrow> verror + string" where
  "trimQuotes s =
     (case strconv_Unquote s of
        Some unquoted \<Rightarrow> Inr unquoted
      | None \<Rightarrow>
          (if strings_HasPrefix s [CHR 0x27] \<and> strings_HasSuffix s [CHR 0x27]
           then Inr (trim_both (\<lambda>c. c = CHR 0x27) s)
           else Inl (Msg ''string is not single or double quoted'')))"

definition parseRange :: "string \<Rightarrow> verror + rangeUnit option" where
  "parseRange phrase =
     (case regexp_Find constraintPartPattern phrase of
        None \<Rightarrow> Inr None
      | Some m \<Rightarrow>
          (let opStr = submatch m 2; prefix = submatch m 1;
               version = trim_both (\<lambda>c. c = CHR '' '') (submatch m 3) in
           if prefix \<noteq> [] \<and> opStr = [] then Inl (Msg ''constraint has an unprocessable prefix'')
           else case validateVersion version of
                  Some err \<Rightarrow> Inl err
                | None \<Rightarrow>
                    (let version' = (case trimQuotes version of Inr u \<Rightarrow> u | Inl _ \<Rightarrow> version) in
                     case parseOperator opStr of
                       Inl err \<Rightarrow> Inl (Msg ''unable to parse constraint operator'')
                     | Inr op \<Rightarrow> Inr (Some \<lparr>ru_Operator = op, ru_Version = version'\<rparr>))))"

text \<open>\<^verbatim>\<open>rangeUnit.Satisfied\<close> panics on an operator that \<^verbatim>\<open>parseOperator\<close> never produces.\<close>

definition rangeUnit_Satisfied :: "rangeUnit \<Rightarrow> int \<Rightarrow> bool go" where
  "rangeUnit_Satisfied c comparison =
     (case ru_Operator c of
        EQ \<Rightarrow> Some (comparison = 0)
      | GT \<Rightarrow> Some (comparison > 0)
      | GTE \<Rightarrow> Some (comparison \<ge> 0)
      | LT \<Rightarrow> Some (comparison < 0)
      | LTE \<Rightarrow> Some (comparison \<le> 0)
      | OtherOp _ \<Rightarrow> None)"

section \<open>The scanner\<close>

text \<open>
  \<^verbatim>\<open>text/scanner\<close> with its default mode: white space and comments are skipped; a double-quoted,
  single-quoted or raw string is one token.  Identifiers and numbers are split into their bytes
  here: \<^verbatim>\<open>scanExpression\<close> appends every token but the separators to its buffer, so a token and
  its pieces have the same effect, and no such token contains a separator.
\<close>

fun scan_quoted :: "char \<Rightarrow> string \<Rightarrow> string \<times> string" where
  "scan_quoted q [] = ([], [])"
| "scan_quoted q (c # s) =
     (if c = q \<or> c = CHR 0x0A then ([c], s)
      else if c = CHR 0x5C then
        (case s of
           [] \<Rightarrow> ([c], [])
         | d # s' \<Rightarrow>
             (if d = q \<or> d = CHR 0x5C
              then (case scan_quoted q s' of (t, r) \<Rightarrow> (c # d # t, r))
              else (case scan_quoted q s of (t, r) \<Rightarrow> (c # t, r))))
      else (case scan_quoted q s of (t, r) \<Rightarrow> (c # t, r)))"

fun scan_raw :: "string \<Rightarrow> string \<times> string" where
  "scan_raw [] = ([], [])"
| "scan_raw (c # s) =
     (if c = CHR 0x60 then ([c], s) else case scan_raw s of (t, r) \<Rightarrow> (c # t, r))"

fun skip_block_comment :: "string \<Rightarrow> string" where
  "skip_block_comment [] = []"
| "skip_block_comment (c # s) =
     (if c = CHR ''*'' \<and> (s \<noteq> [] \<and> hd s = CHR ''/'') then tl s else skip_block_comment s)"

definition skip_line_comment :: "string \<Rightarrow> string" where
  "skip_line_comment s = dropWhile (\<lambda>c. c \<noteq> CHR 0x0A) s"

definition scan_space :: "char \<Rightarrow> bool" where
  "scan_space c \<longleftrightarrow> c \<in> {CHR 0x09, CHR 0x0A, CHR 0x0D, CHR '' ''}"

lemma scan_quoted_length: "length (snd (scan_quoted q s)) \<le> length s"
proof (induction q s rule: scan_quoted.induct)
  case (2 q c s)
  show ?case
  proof (cases "c = q \<or> c = CHR 0x0A")
    case False
    note other = this
    show ?thesis
    proof (cases "c = CHR 0x5C")
      case True
      with other "2.IH"(1,2) show ?thesis
        by (cases s) (simp_all add: case_prod_beta le_SucI)
    next
      case False
      with other "2.IH"(3) show ?thesis by (simp add: case_prod_beta)
    qed
  qed simp
qed simp

lemma scan_raw_length: "length (snd (scan_raw s)) \<le> length s"
  by (induction s) (auto split: prod.splits)

lemma skip_block_comment_length: "length (skip_block_comment s) \<le> length s"
  by (induction s) (auto simp: le_SucI)

function scan_tokens :: "string \<Rightarrow> string list" where
  "scan_tokens [] = []"
| "scan_tokens (c # s) =
     (if scan_space c then scan_tokens s
      else if c = CHR 0x22 \<or> c = CHR 0x27 then
        (c # fst (scan_quoted c s)) # scan_tokens (snd (scan_quoted c s))
      else if c = CHR 0x60 then
        (c # fst (scan_raw s)) # scan_tokens (snd (scan_raw s))
      else if c = CHR ''/'' \<and> s \<noteq> [] \<and> hd s = CHR ''/'' then scan_tokens (skip_line_comment (tl s))
      else if c = CHR ''/'' \<and> s \<noteq> [] \<and> hd s = CHR ''*'' then scan_tokens (skip_block_comment (tl s))
      else [c] # scan_tokens s)"
  by pat_completeness auto
termination
proof (relation "measure length", goal_cases)
  case (3 c s)
  then show ?case using scan_quoted_length [of c s] by simp
next
  case (4 c s)
  then show ?case using scan_raw_length [of s] by simp
next
  case (5 c s)
  then show ?case
    using length_dropWhile_le [of "\<lambda>c. c \<noteq> CHR 0x0A" "tl s"] by (simp add: skip_line_comment_def)
next
  case (6 c s)
  then show ?case using skip_block_comment_length [of "tl s"] by simp
qed auto

section \<open>Expressions (range\_expression.go)\<close>

record scan_state =
  sc_orGroups :: "string list list"
  sc_andGroup :: "string list"
  sc_buf :: string
  sc_lastToken :: string

definition captureVersionOperatorPair :: "scan_state \<Rightarrow> scan_state" where
  "captureVersionOperatorPair st =
     (if sc_buf st \<noteq> [] then st\<lparr>sc_andGroup := sc_andGroup st @ [sc_buf st], sc_buf := []\<rparr> else st)"

definition captureAndGroup :: "scan_state \<Rightarrow> scan_state" where
  "captureAndGroup st =
     (if sc_andGroup st \<noteq> [] then st\<lparr>sc_orGroups := sc_orGroups st @ [sc_andGroup st], sc_andGroup := []\<rparr>
      else st)"

text \<open>One round of the token loop; \<^const>\<open>None\<close> is the error for parentheses.\<close>

definition scan_step :: "string \<Rightarrow> scan_state \<Rightarrow> scan_state option" where
  "scan_step tok st =
     map_option (\<lambda>st'. st'\<lparr>sc_lastToken := tok\<rparr>)
       (if tok = '','' then Some (captureVersionOperatorPair st)
        else if tok = ''|'' \<and> sc_lastToken st = ''|'' then
          Some (captureAndGroup (captureVersionOperatorPair st))
        else if tok = ''('' \<or> tok = '')'' then None
        else if tok \<noteq> ''|'' then Some (st\<lparr>sc_buf := sc_buf st @ tok\<rparr>)
        else Some st)"

fun scan_loop :: "string list \<Rightarrow> scan_state \<Rightarrow> scan_state option" where
  "scan_loop [] st = Some st"
| "scan_loop (tok # toks) st =
     (case scan_step tok st of None \<Rightarrow> None | Some st' \<Rightarrow> scan_loop toks st')"

definition scan_init :: scan_state where
  "scan_init = \<lparr>sc_orGroups = [], sc_andGroup = [], sc_buf = [], sc_lastToken = []\<rparr>"

definition strip_bom :: "string \<Rightarrow> string" where
  "strip_bom s = strings_TrimPrefix s [CHR 0xEF, CHR 0xBB, CHR 0xBF]"

definition scanExpression :: "string \<Rightarrow> verror + string list list" where
  "scanExpression phrase =
     (case scan_loop (scan_tokens (strip_bom phrase)) scan_init of
        None \<Rightarrow> Inl (Msg ''parenthetical expressions are not supported yet'')
      | Some st \<Rightarrow> Inr (sc_orGroups (captureAndGroup (captureVersionOperatorPair st))))"

type_synonym simpleRangeExpression = "rangeUnit list list"

fun parse_units :: "string list \<Rightarrow> verror + rangeUnit list" where
  "parse_units [] = Inr []"
| "parse_units (part # parts) =
     (case parseRange part of
        Inl err \<Rightarrow> Inl err
      | Inr None \<Rightarrow> Inl (Msg ''unable to parse unit'')
      | Inr (Some unit) \<Rightarrow>
          (case parse_units parts of Inl err \<Rightarrow> Inl err | Inr units \<Rightarrow> Inr (unit # units)))"

fun parse_groups :: "string list list \<Rightarrow> verror + simpleRangeExpression" where
  "parse_groups [] = Inr []"
| "parse_groups (g # gs) =
     (case parse_units g of
        Inl err \<Rightarrow> Inl err
      | Inr units \<Rightarrow>
          (case parse_groups gs of Inl err \<Rightarrow> Inl err | Inr groups \<Rightarrow> Inr (units # groups)))"

definition parseRangeExpression :: "string \<Rightarrow> verror + simpleRangeExpression" where
  "parseRangeExpression phrase =
     (case scanExpression phrase of
        Inl err \<Rightarrow> Inl (Wrap ''unable to create constraint expression'' err)
      | Inr orParts \<Rightarrow> parse_groups orParts)"

section \<open>Printing expressions\<close>

text \<open>The notation the constraints of the database are written in: \<^verbatim>\<open>>= 1.0, < 2.0 || = 3.1\<close>.\<close>

fun op_text :: "Operator \<Rightarrow> string" where
  "op_text EQ = ''=''"
| "op_text GT = ''>''"
| "op_text LT = ''<''"
| "op_text GTE = ''>=''"
| "op_text LTE = ''<=''"
| "op_text (OtherOp s) = s"

definition render_unit :: "rangeUnit \<Rightarrow> string" where
  "render_unit u = op_text (ru_Operator u) @ '' '' @ ru_Version u"

definition render_group :: "rangeUnit list \<Rightarrow> string" where
  "render_group g = strings_Join (map render_unit g) '', ''"

definition render_expr :: "simpleRangeExpression \<Rightarrow> string" where
  "render_expr e = strings_Join (map render_group e) '' || ''"

text \<open>A version text that needs no quotes.\<close>

definition plain_char :: "char \<Rightarrow> bool" where
  "plain_char c \<longleftrightarrow> \<not> re_space c \<and> \<not> operator_char c \<and> c \<notin> set '',|()/''
     \<and> c \<noteq> CHR 0x22 \<and> c \<noteq> CHR 0x27 \<and> c \<noteq> CHR 0x60"

definition plain_unit :: "rangeUnit \<Rightarrow> bool" where
  "plain_unit u \<longleftrightarrow> (\<forall>s. ru_Operator u \<noteq> OtherOp s) \<and> ru_Version u \<noteq> []
     \<and> list_all plain_char (ru_Version u)"

definition unit_word :: "rangeUnit \<Rightarrow> string" where
  "unit_word u = op_text (ru_Operator u) @ ru_Version u"

definition word_char :: "char \<Rightarrow> bool" where
  "word_char c \<longleftrightarrow> plain_char c \<or> operator_char c"

lemma word_char_token: "word_char c \<Longrightarrow> scan_tokens (c # s) = [c] # scan_tokens s"
  by (auto simp: word_char_def plain_char_def operator_char_def scan_space_def re_space_def)

lemma scan_tokens_word:
  "list_all word_char w \<Longrightarrow> scan_tokens (w @ s) = map (\<lambda>c. [c]) w @ scan_tokens s"
  by (induction w) (auto simp: word_char_token simp del: scan_tokens.simps(2))

lemma op_text_word: "plain_unit u \<Longrightarrow> list_all word_char (op_text (ru_Operator u))"
  by (cases "ru_Operator u") (auto simp: plain_unit_def word_char_def operator_char_def)

lemma unit_word_chars: "plain_unit u \<Longrightarrow> list_all word_char (unit_word u)"
  using op_text_word [of u]
  by (auto simp: unit_word_def plain_unit_def word_char_def list_all_iff)

lemma unit_word_not_Nil: "plain_unit u \<Longrightarrow> unit_word u \<noteq> []"
  by (auto simp: unit_word_def plain_unit_def)

lemma scan_tokens_unit:
  assumes "plain_unit u"
  shows "scan_tokens (render_unit u @ s) = map (\<lambda>c. [c]) (unit_word u) @ scan_tokens s"
proof -
  have "list_all word_char (ru_Version u)"
    using assms by (auto simp: plain_unit_def word_char_def list_all_iff)
  moreover have "scan_space (CHR '' '')" by (simp add: scan_space_def)
  ultimately show ?thesis
    using op_text_word [OF assms] by (simp add: render_unit_def unit_word_def scan_tokens_word)
qed

lemma word_char_no_sep: "word_char c \<Longrightarrow> [c] \<noteq> '','' \<and> [c] \<noteq> ''|'' \<and> [c] \<noteq> ''('' \<and> [c] \<noteq> '')''"
  by (auto simp: word_char_def plain_char_def operator_char_def)

lemma scan_loop_word:
  "list_all word_char w \<Longrightarrow> w \<noteq> [] \<Longrightarrow>
   scan_loop (map (\<lambda>c. [c]) w @ toks) st =
     scan_loop toks (st\<lparr>sc_buf := sc_buf st @ w, sc_lastToken := [last w]\<rparr>)"
proof (induction w arbitrary: st)
  case (Cons c w)
  then have "scan_step [c] st = Some (st\<lparr>sc_buf := sc_buf st @ [c], sc_lastToken := [c]\<rparr>)"
    using word_char_no_sep [of c] by (simp add: scan_step_def)
  with Cons show ?case by (cases "w = []") simp_all
qed simp

lemma scan_comma: "scan_tokens (CHR '','' # CHR '' '' # s) = '','' # scan_tokens s"
  by (simp add: scan_space_def)

text \<open>Scanning one group leaves its last comparison in the buffer.\<close>

lemma scan_group:
  assumes "g \<noteq> []" and "\<forall>u \<in> set g. plain_unit u"
  shows "sc_buf st = [] \<Longrightarrow> \<exists>lt. lt \<noteq> ''|'' \<and>
    scan_loop (scan_tokens (render_group g @ s)) st =
      scan_loop (scan_tokens s)
        (st\<lparr>sc_andGroup := sc_andGroup st @ map unit_word (butlast g),
            sc_buf := unit_word (last g), sc_lastToken := lt\<rparr>)"
  using assms
proof (induction g arbitrary: st rule: induct_list012)
  case (2 u)
  then have "last (unit_word u) \<noteq> CHR ''|''"
    using unit_word_chars [of u] unit_word_not_Nil [of u] word_char_no_sep [of "last (unit_word u)"]
    by (auto simp: list_all_iff)
  with 2 show ?case
    by (intro exI [of _ "[last (unit_word u)]"])
      (simp add: render_group_def scan_tokens_unit scan_loop_word unit_word_chars unit_word_not_Nil)
next
  case (3 u v g)
  let ?st = "st\<lparr>sc_andGroup := sc_andGroup st @ [unit_word u], sc_buf := [], sc_lastToken := '',''\<rparr>"
  from 3 have "scan_loop (scan_tokens (render_group (u # v # g) @ s)) st =
      scan_loop (scan_tokens (render_group (v # g) @ s)) ?st"
    by (simp add: render_group_def scan_tokens_unit scan_loop_word unit_word_chars unit_word_not_Nil
        scan_comma scan_step_def captureVersionOperatorPair_def del: scan_tokens.simps(2))
  with "3.IH"(2) [of ?st] 3 show ?case by simp
qed simp

lemma scan_pipes:
  "lt \<noteq> ''|'' \<Longrightarrow> sc_lastToken st = lt \<Longrightarrow> sc_buf st \<noteq> [] \<Longrightarrow>
   scan_loop (scan_tokens ('' || '' @ s)) st =
     scan_loop (scan_tokens s)
       (st\<lparr>sc_orGroups := sc_orGroups st @ [sc_andGroup st @ [sc_buf st]], sc_andGroup := [],
           sc_buf := [], sc_lastToken := ''|''\<rparr>)"
  by (cases st)
    (simp add: scan_space_def scan_step_def captureVersionOperatorPair_def captureAndGroup_def)

lemma words_butlast_last:
  "g \<noteq> [] \<Longrightarrow> map unit_word (butlast g) @ [unit_word (last g)] = map unit_word g"
  by (metis append_butlast_last_id list.simps(8,9) map_append)

lemma scan_expr:
  assumes "e \<noteq> []" and "\<forall>g \<in> set e. g \<noteq> [] \<and> (\<forall>u \<in> set g. plain_unit u)"
  shows "sc_buf st = [] \<Longrightarrow> sc_andGroup st = [] \<Longrightarrow>
    \<exists>st'. scan_loop (scan_tokens (render_expr e)) st = Some st'
      \<and> sc_orGroups (captureAndGroup (captureVersionOperatorPair st'))
          = sc_orGroups st @ map (map unit_word) e"
  using assms
proof (induction e arbitrary: st rule: induct_list012)
  case (2 g)
  then obtain lt where scan: "scan_loop (scan_tokens (render_group g)) st =
      Some (st\<lparr>sc_andGroup := map unit_word (butlast g), sc_buf := unit_word (last g), sc_lastToken := lt\<rparr>)"
    using scan_group [of g st "[]"] by auto
  from 2 have "unit_word (last g) \<noteq> []" by (simp add: unit_word_not_Nil)
  with 2 scan words_butlast_last [of g] show ?case
    by (simp add: render_expr_def captureAndGroup_def captureVersionOperatorPair_def)
next
  case (3 g h e)
  let ?rest = "render_expr (h # e)"
  have plain: "g \<noteq> []" "\<forall>u \<in> set g. plain_unit u" using 3 by auto
  obtain lt where lt: "lt \<noteq> ''|''" and scan: "scan_loop (scan_tokens (render_group g @ '' || '' @ ?rest)) st =
      scan_loop (scan_tokens ('' || '' @ ?rest))
        (st\<lparr>sc_andGroup := map unit_word (butlast g), sc_buf := unit_word (last g), sc_lastToken := lt\<rparr>)"
    using scan_group [OF plain "3.prems"(1), of "'' || '' @ ?rest"] "3.prems"(2) by auto
  let ?st = "st\<lparr>sc_orGroups := sc_orGroups st @ [map unit_word g], sc_andGroup := [],
      sc_buf := [], sc_lastToken := ''|''\<rparr>"
  have "unit_word (last g) \<noteq> []" using plain by (simp add: unit_word_not_Nil)
  then have "scan_loop (scan_tokens (render_expr (g # h # e))) st = scan_loop (scan_tokens ?rest) ?st"
    using scan words_butlast_last [OF plain(1)]
      scan_pipes [OF lt, of "st\<lparr>sc_andGroup := map unit_word (butlast g), sc_buf := unit_word (last g), sc_lastToken := lt\<rparr>" ?rest]
    by (cases st) (simp add: render_expr_def)
  with "3.IH"(2) [of ?st] 3 show ?case by simp
qed simp

lemma strip_bom_expr: "plain_unit u \<Longrightarrow> strip_bom (op_text (ru_Operator u) @ s) = op_text (ru_Operator u) @ s"
  by (cases "ru_Operator u")
    (auto simp: plain_unit_def strip_bom_def strings_TrimPrefix_def strings_HasPrefix_def)

lemma render_expr_starts:
  assumes "e \<noteq> []" and "\<forall>g \<in> set e. g \<noteq> [] \<and> (\<forall>u \<in> set g. plain_unit u)"
  shows "strip_bom (render_expr e) = render_expr e"
proof -
  obtain u g e' where e: "e = (u # g) # e'" using assms by (cases e; cases "hd e") auto
  have join: "\<exists>t. strings_Join (x # xs) sep = x @ t" for x xs sep
    by (cases xs) auto
  obtain t where "render_expr e = render_group (u # g) @ t"
    using join unfolding render_expr_def e by fastforce
  moreover obtain t' where "render_group (u # g) = render_unit u @ t'"
    using join unfolding render_group_def by fastforce
  ultimately have "render_expr e = op_text (ru_Operator u) @ '' '' @ ru_Version u @ t' @ t"
    by (simp add: render_unit_def)
  moreover have "plain_unit u" using assms e by auto
  ultimately show ?thesis using strip_bom_expr by metis
qed

lemma render_expr_not_Nil:
  assumes "\<forall>g \<in> set e. g \<noteq> [] \<and> (\<forall>u \<in> set g. plain_unit u)" "e \<noteq> []"
  shows "render_expr e \<noteq> []"
proof -
  obtain u g e' where e: "e = (u # g) # e'" using assms by (cases e; cases "hd e") auto
  have "render_unit u \<noteq> []" by (simp add: render_unit_def)
  then have "render_group (u # g) \<noteq> []" by (cases g) (auto simp: render_group_def)
  then show ?thesis by (cases e') (auto simp: render_expr_def e)
qed

section \<open>Parsing one printed comparison\<close>

lemma op_char_not [simp]:
  "operator_char c \<Longrightarrow> \<not> re_space c" "operator_char c \<Longrightarrow> \<not> prefix_char c"
  by (auto simp: operator_char_def re_space_def prefix_char_def)

lemma op_text_chars: "plain_unit u \<Longrightarrow> op_text (ru_Operator u) \<noteq> [] \<and> list_all operator_char (op_text (ru_Operator u))"
  by (cases "ru_Operator u") (auto simp: plain_unit_def operator_char_def)

lemma find_unit_word:
  assumes "ops \<noteq> []" "list_all operator_char ops" "ver \<noteq> []" "list_all plain_char ver"
  shows "regexp_Find constraintPartPattern (ops @ ver) =
    Some \<lparr>m_before = [], m_text = ops @ ver, m_caps = [(3, ver), (2, ops), (1, [])], m_after = []\<rparr>"
proof -
  from assms obtain o1 os where o: "ops = o1 # os" "operator_char o1" by (cases ops) auto
  from assms obtain v1 vs where v: "ver = v1 # vs" "plain_char v1" by (cases ver) auto
  have no: "\<not> operator_char v1" "\<not> re_space v1" using v by (auto simp: plain_char_def)
  have nl: "\<forall>c \<in> set ver. c \<noteq> CHR 0x0A"
    using assms(4) by (auto simp: list_all_iff plain_char_def re_space_def)
  have tw: "takeWhile (\<lambda>c. c \<noteq> CHR 0x0A) vs = vs" "dropWhile (\<lambda>c. c \<noteq> CHR 0x0A) vs = []"
    using nl v by (simp_all add: takeWhile_eq_all_conv dropWhile_eq_Nil_conv)
  have ops: "takeWhile operator_char (ops @ ver) = ops" "dropWhile operator_char (ops @ ver) = ver"
    using assms(2) no v by (auto simp: list_all_iff takeWhile_append2 dropWhile_append2)
  have s1: "re_first (Star (Cls re_space)) (True, [], ops @ ver) (True, [], ops @ ver)"
    using first_Star_Cls [of re_space True "[]" "ops @ ver"] o by simp
  have s2: "re_first (Grp 1 (Star (Cls prefix_char))) (True, [], ops @ ver) (True, [(1, [])], ops @ ver)"
    using first_Grp [OF first_Star_Cls [of prefix_char True "[]" "ops @ ver"], of 1] o by simp
  have s3: "re_first (Grp 2 (Star (Cls operator_char))) (True, [(1, [])], ops @ ver)
      (False, [(2, ops), (1, [])], ver)"
    using first_Grp [OF first_Star_Cls [of operator_char True "[(1, [])]" "ops @ ver"], of 2] ops assms(1)
    by simp
  have s4: "re_first (Star (Cls re_space)) (False, [(2, ops), (1, [])], ver) (False, [(2, ops), (1, [])], ver)"
    using first_Star_Cls [of re_space False "[(2, ops), (1, [])]" ver] v no by simp
  have s5: "re_first (Grp 3 (Plus (Cls (\<lambda>c. c \<noteq> CHR 0x0A)))) (False, [(2, ops), (1, [])], ver)
      (False, [(3, ver), (2, ops), (1, [])], [])"
    using first_Grp [OF first_Plus_Cls [of "\<lambda>c. c \<noteq> CHR 0x0A" v1 False "[(2, ops), (1, [])]" vs], of 3]
      nl v tw by simp
  have "re_first constraintPartPattern (True, [], ops @ ver) (False, [(3, ver), (2, ops), (1, [])], [])"
    unfolding constraintPartPattern_def 
    by (rule first_Seq [OF s1 first_Seq [OF s2 first_Seq [OF s3 first_Seq [OF s4 s5]]]])
  from Find_first [OF this] show ?thesis by simp
qed

lemma validate_plain: "list_all plain_char v \<Longrightarrow> validate_loop None v = None"
  by (induction v) (auto simp: plain_char_def operator_char_def)

lemma parseOperator_text: "(\<forall>s. o1 \<noteq> OtherOp s) \<Longrightarrow> parseOperator (op_text o1) = Inr o1"
  by (cases o1) (auto simp: parseOperator_def)

lemma trim_plain:
  assumes "list_all plain_char v"
  shows "trim_both (\<lambda>c. c = CHR '' '') v = v"
proof -
  have "CHR '' '' \<notin> set v"
    using assms by (auto simp: list_all_iff plain_char_def re_space_def)
  then have "dropWhile (\<lambda>c. c = CHR '' '') w = w" if "set w = set v" for w
    using that by (cases w) auto
  then show ?thesis by (simp add: trim_both_def trim_left_def trim_right_def)
qed

lemma trimQuotes_plain: "v \<noteq> [] \<Longrightarrow> list_all plain_char v \<Longrightarrow> \<exists>e. trimQuotes v = Inl e"
  by (cases v)
    (auto simp: trimQuotes_def strconv_Unquote_def plain_char_def strings_HasPrefix_def)

lemma parseRange_word:
  assumes "plain_unit u"
  shows "parseRange (unit_word u) = Inr (Some u)"
proof -
  from assms have v: "ru_Version u \<noteq> []" "list_all plain_char (ru_Version u)"
    by (auto simp: plain_unit_def)
  from op_text_chars [OF assms] find_unit_word [OF _ _ v]
  have "regexp_Find constraintPartPattern (unit_word u) =
    Some \<lparr>m_before = [], m_text = unit_word u,
      m_caps = [(3, ru_Version u), (2, op_text (ru_Operator u)), (1, [])], m_after = []\<rparr>"
    by (simp add: unit_word_def)
  moreover obtain e where "trimQuotes (ru_Version u) = Inl e" using trimQuotes_plain [OF v] by blast
  moreover have "parseOperator (op_text (ru_Operator u)) = Inr (ru_Operator u)"
    using assms by (intro parseOperator_text) (auto simp: plain_unit_def)
  ultimately show ?thesis
    using v by (simp add: parseRange_def submatch_def trim_plain validateVersion_def validate_plain)
qed

lemma parse_units_words: "\<forall>u \<in> set g. plain_unit u \<Longrightarrow> parse_units (map unit_word g) = Inr g"
  by (induction g) (auto simp: parseRange_word)

lemma parse_groups_words:
  "\<forall>g \<in> set e. \<forall>u \<in> set g. plain_unit u \<Longrightarrow> parse_groups (map (map unit_word) e) = Inr e"
  by (induction e) (auto simp: parse_units_words)

section \<open>Properties\<close>

text \<open>C19: parsing a printed constraint expression gives it back: for every expression whose groups are
  not empty and whose comparisons have one of the five operators and an unquoted version,
  \<^verbatim>\<open>parseRangeExpression\<close> of its text returns exactly its groups of comparisons.\<close>

theorem parse_render_expr:
  assumes "\<forall>g \<in> set e. g \<noteq> [] \<and> (\<forall>u \<in> set g. plain_unit u)"
  shows "parseRangeExpression (render_expr e) = Inr e"
proof (cases "e = []")
  case True
  then show ?thesis
    by (simp add: parseRangeExpression_def scanExpression_def render_expr_def strip_bom_def
        strings_TrimPrefix_def strings_HasPrefix_def scan_init_def captureAndGroup_def
        captureVersionOperatorPair_def)
next
  case False
  then obtain st' where "scan_loop (scan_tokens (render_expr e)) scan_init = Some st'"
    and "sc_orGroups (captureAndGroup (captureVersionOperatorPair st')) = map (map unit_word) e"
    using scan_expr [OF False assms, of scan_init] by (auto simp: scan_init_def)
  then show ?thesis
    using assms parse_groups_words [of e] render_expr_starts [OF False assms]
    by (simp add: parseRangeExpression_def scanExpression_def)
qed

theorem parse_render_expr_witness:
  "parseRangeExpression (render_expr
     [[\<lparr>ru_Operator = GTE, ru_Version = ''1.0''\<rparr>, \<lparr>ru_Operator = LT, ru_Version = ''2.0-r1''\<rparr>],
      [\<lparr>ru_Operator = EQ, ru_Version = ''3''\<rparr>]])
   = Inr [[\<lparr>ru_Operator = GTE, ru_Version = ''1.0''\<rparr>, \<lparr>ru_Operator = LT, ru_Version = ''2.0-r1''\<rparr>],
      [\<lparr>ru_Operator = EQ, ru_Version = ''3''\<rparr>]]"
  by (rule parse_render_expr)
    (simp add: plain_unit_def plain_char_def operator_char_def re_space_def)

end
