(* ===== verification/Constraints.thy ===== *)
theory Constraints
  imports Version_Dispatch Range_Expr
begin

text \<open>
  Deciding whether a version satisfies a constraint: the evaluation of range expressions
  (\<^verbatim>\<open>range_expression.go\<close>) and the implementations of the interface \<^verbatim>\<open>Constraint\<close> (\<^verbatim>\<open>constraint.go\<close>,
  \<^verbatim>\<open>generic_constraint.go\<close>, \<^verbatim>\<open>kb_constraint.go\<close>, \<^verbatim>\<open>fuzzy_constraint.go\<close>,
  \<^verbatim>\<open>combined_constraint.go\<close>).  Evaluating a constraint can change the cache of the version, so the
  version is passed in and returned.
\<close>

section \<open>Range expressions\<close>

definition compareWithConfig ::
  "'o libs \<Rightarrow> 'o Version \<Rightarrow> string \<Rightarrow> ComparisonConfig \<Rightarrow> ('o Version \<times> cmp_result) go" where
  "compareWithConfig L v other cfg =
     (case getComparator L v (ver_Format v) of
        (v', _, Some err) \<Rightarrow> Some (v', 0, Some err)
      | (v', c, None) \<Rightarrow>
          map_option (Pair v')
            (case c of
               CRpm r \<Rightarrow> Some (rpmVersion_CompareWithConfig r (Some other) cfg)
             | CDeb d \<Rightarrow> Some (debVersion_CompareWithConfig L d (Some other) cfg)
             | _ \<Rightarrow> comparator_Compare L c (Some other)))"

definition unit_compare ::
  "'o libs \<Rightarrow> Format \<Rightarrow> ComparisonConfig \<Rightarrow> 'o Version \<Rightarrow> rangeUnit \<Rightarrow> ('o Version \<times> cmp_result) go" where
  "unit_compare L format cfg v u =
     (if cfg_MissingEpochStrategy cfg \<noteq> StrategyUnset \<and> (format = RpmFormat \<or> format = DebFormat)
      then compareWithConfig L v (ru_Version u) cfg
      else Version_Compare L v (Some (New (ru_Version u) format)))"

fun and_loop ::
  "'o libs \<Rightarrow> Format \<Rightarrow> ComparisonConfig \<Rightarrow> 'o Version \<Rightarrow> rangeUnit list
     \<Rightarrow> ('o Version \<times> bool \<times> verror option) go" where
  "and_loop L format cfg v [] = Some (v, True, None)"
| "and_loop L format cfg v (u # us) = do {
     res \<leftarrow> unit_compare L format cfg v u;
     (case res of
        (v1, _, Some err) \<Rightarrow> Some (v1, False, Some (Wrap ''uncomparable'' err))
      | (v1, result, None) \<Rightarrow> do {
          sat \<leftarrow> rangeUnit_Satisfied u result;
          rest \<leftarrow> and_loop L format cfg v1 us;
          (case rest of
             (v2, _, Some err) \<Rightarrow> Some (v2, False, Some err)
           | (v2, all, None) \<Rightarrow> Some (v2, sat \<and> all, None))
        })
   }"

fun or_loop ::
  "'o libs \<Rightarrow> Format \<Rightarrow> ComparisonConfig \<Rightarrow> 'o Version \<Rightarrow> simpleRangeExpression
     \<Rightarrow> ('o Version \<times> bool \<times> verror option) go" where
  "or_loop L format cfg v [] = Some (v, False, None)"
| "or_loop L format cfg v (g # gs) = do {
     res \<leftarrow> and_loop L format cfg v g;
     (case res of
        (v1, _, Some err) \<Rightarrow> Some (v1, False, Some err)
      | (v1, all, None) \<Rightarrow> do {
          rest \<leftarrow> or_loop L format cfg v1 gs;
          (case rest of
             (v2, _, Some err) \<Rightarrow> Some (v2, False, Some err)
           | (v2, one, None) \<Rightarrow> Some (v2, all \<or> one, None))
        })
   }"

definition satisfiedWithConfig ::
  "'o libs \<Rightarrow> simpleRangeExpression \<Rightarrow> Format \<Rightarrow> 'o Version \<Rightarrow> ComparisonConfig
     \<Rightarrow> ('o Version \<times> bool \<times> verror option) go" where
  "satisfiedWithConfig L units format v cfg = or_loop L format cfg v units"

definition satisfied ::
  "'o libs \<Rightarrow> simpleRangeExpression \<Rightarrow> Format \<Rightarrow> 'o Version
     \<Rightarrow> ('o Version \<times> bool \<times> verror option) go" where
  "satisfied L units format v = satisfiedWithConfig L units format v (ver_Config v)"

section \<open>Constraints\<close>

record genericConstraint =
  gc_Raw :: string
  gc_Expression :: simpleRangeExpression
  gc_Fmt :: Format

record kbConstraint =
  kbc_Raw :: string
  kbc_Expression :: simpleRangeExpression

text \<open>A \<^verbatim>\<open>hashiVer.Constraints\<close> is used through its method \<^verbatim>\<open>Check\<close> only.\<close>

record 'o fuzzyConstraint =
  fc_RawPhrase :: string
  fc_PhraseHint :: string
  fc_SemanticConstraint :: "('o \<Rightarrow> bool) option"
  fc_Constraints :: simpleRangeExpression

datatype 'o constraint =
    Generic genericConstraint
  | KB kbConstraint
  | Fuzzy "'o fuzzyConstraint"
  | Combined "'o constraint list"

definition newGenericConstraint :: "Format \<Rightarrow> string \<Rightarrow> verror + genericConstraint" where
  "newGenericConstraint format raw =
     (case parseRangeExpression raw of
        Inl err \<Rightarrow> Inl (invalidFormatError format raw err)
      | Inr units \<Rightarrow> Inr \<lparr>gc_Raw = raw, gc_Expression = units, gc_Fmt = format\<rparr>)"

definition newKBConstraint :: "string \<Rightarrow> verror + kbConstraint" where
  "newKBConstraint raw =
     (if raw = [] then Inr \<lparr>kbc_Raw = [], kbc_Expression = []\<rparr>
      else case parseRangeExpression raw of
             Inl err \<Rightarrow> Inl (Wrap ''unable to parse kb constraint phrase'' err)
           | Inr units \<Rightarrow> Inr \<lparr>kbc_Raw = raw, kbc_Expression = units\<rparr>)"

definition newFuzzyConstraint :: "'o libs \<Rightarrow> string \<Rightarrow> string \<Rightarrow> verror + 'o fuzzyConstraint" where
  "newFuzzyConstraint L phrase hint =
     (if phrase = []
      then Inr \<lparr>fc_RawPhrase = phrase, fc_PhraseHint = hint, fc_SemanticConstraint = None, fc_Constraints = []\<rparr>
      else case parseRangeExpression phrase of
             Inl err \<Rightarrow> Inl (Msg ''could not create fuzzy constraint'')
           | Inr units \<Rightarrow>
               let valid = list_all (list_all (\<lambda>u. regexp_MatchString pseudoSemverPattern (ru_Version u))) units;
                   semverConstraint = (case hashi_NewConstraint L phrase of
                                         Inr value \<Rightarrow> if valid then Some value else None
                                       | Inl _ \<Rightarrow> None) in
               Inr \<lparr>fc_RawPhrase = phrase, fc_PhraseHint = hint,
                    fc_SemanticConstraint = semverConstraint, fc_Constraints = units\<rparr>)"

definition GetConstraint :: "'o libs \<Rightarrow> string \<Rightarrow> Format \<Rightarrow> verror + 'o constraint" where
  "GetConstraint L constStr format =
     (case format of
        KBFormat \<Rightarrow> map_sum id KB (newKBConstraint constStr)
      | UnknownFormat \<Rightarrow> map_sum id Fuzzy (newFuzzyConstraint L constStr ''unknown'')
      | OtherFormat _ \<Rightarrow> Inl (Msg ''could not find constraint for given format'')
      | _ \<Rightarrow> map_sum id Generic (newGenericConstraint format constStr))"

fun constraint_Value :: "'o constraint \<Rightarrow> string" where
  "constraint_Value (Generic g) = gc_Raw g"
| "constraint_Value (KB k) = kbc_Raw k"
| "constraint_Value (Fuzzy f) = fc_RawPhrase f"
| "constraint_Value (Combined cs) = strings_Join (map constraint_Value cs) '' || ''"

fun constraint_Format :: "'o constraint \<Rightarrow> Format" where
  "constraint_Format (Generic g) = gc_Fmt g"
| "constraint_Format (KB k) = KBFormat"
| "constraint_Format (Fuzzy f) = UnknownFormat"
| "constraint_Format (Combined []) = UnknownFormat"
| "constraint_Format (Combined (c # cs)) = constraint_Format c"

fun constraint_String :: "'o constraint \<Rightarrow> string" where
  "constraint_String (Generic g) =
     (if gc_Raw g = [] then ''none'' else gc_Raw g) @ '' ('' @ strings_ToLower (Format_String (gc_Fmt g)) @ '')''"
| "constraint_String (KB k) =
     (if kbc_Raw k = [] then [CHR 0x22, CHR 0x22] @ '' (kb)'' else kbc_Raw k @ '' (kb)'')"
| "constraint_String (Fuzzy f) =
     (if fc_RawPhrase f = [] then ''none (unknown)''
      else if fc_PhraseHint f \<noteq> [] then fc_RawPhrase f @ '' ('' @ fc_PhraseHint f @ '')''
      else fc_RawPhrase f @ '' (unknown)'')"
| "constraint_String (Combined cs) =
     constraint_Value (Combined cs) @ '' (''
     @ strings_ToLower (Format_String (constraint_Format (Combined cs))) @ '')''"

text \<open>The result of \<^verbatim>\<open>Satisfied\<close>: the version afterwards, the answer and the error.\<close>

type_synonym 'o sat_result = "('o Version option \<times> bool \<times> verror option) go"

definition some_version :: "('o Version \<times> bool \<times> verror option) go \<Rightarrow> 'o sat_result" where
  "some_version r = map_option (\<lambda>(v, b, e). (Some v, b, e)) r"

definition generic_Satisfied :: "'o libs \<Rightarrow> genericConstraint \<Rightarrow> 'o Version option \<Rightarrow> 'o sat_result" where
  "generic_Satisfied L g version =
     (case version of
        Some v \<Rightarrow>
          if gc_Raw g = [] then Some (Some v, True, None)
          else some_version (satisfied L (gc_Expression g) (gc_Fmt g) v)
      | None \<Rightarrow> Some (None, gc_Raw g = [], None))"

definition kb_Satisfied :: "'o libs \<Rightarrow> kbConstraint \<Rightarrow> 'o Version option \<Rightarrow> 'o sat_result" where
  "kb_Satisfied L c version =
     (if kbc_Raw c = []
      then Some (version, False, Some (NonFatalConstraintError ''unexpected data in DB: empty raw version constraint''))
      else case version of
             None \<Rightarrow> Some (None, True, None)
           | Some v \<Rightarrow>
               if ver_Format v \<noteq> KBFormat
               then Some (Some v, False, Some (UnsupportedComparisonError KBFormat (ver_Raw v) (ver_Format v)))
               else some_version (satisfied L (kbc_Expression c) KBFormat v))"

definition fuzzy_fallback :: "'o libs \<Rightarrow> 'o fuzzyConstraint \<Rightarrow> 'o Version \<Rightarrow> 'o sat_result" where
  "fuzzy_fallback L f v =
     (let fuzzy = some_version (satisfied L (fc_Constraints f) UnknownFormat v) in
      case fc_SemanticConstraint f of
        None \<Rightarrow> fuzzy
      | Some check \<Rightarrow>
          if regexp_MatchString pseudoSemverPattern (ver_Raw v)
          then (case newSemanticVersion L (ver_Raw v) True of
                  Inr semver \<Rightarrow> Some (Some v, check (the (sem_obj semver)), None)
                | Inl _ \<Rightarrow> fuzzy)
          else fuzzy)"

definition fuzzy_Satisfied :: "'o libs \<Rightarrow> 'o fuzzyConstraint \<Rightarrow> 'o Version option \<Rightarrow> 'o sat_result" where
  "fuzzy_Satisfied L f version =
     (case version of
        None \<Rightarrow> Some (None, fc_RawPhrase f = [], None)
      | Some v \<Rightarrow>
          if fc_RawPhrase f = [] then Some (Some v, True, None)
          else if ver_Format v \<noteq> UnknownFormat then
            (case GetConstraint L (fc_RawPhrase f) (ver_Format v) of
               Inr (Generic g) \<Rightarrow> do {
                 r \<leftarrow> generic_Satisfied L g (Some v);
                 (case r of
                    (v', sat, None) \<Rightarrow> Some (v', sat, None)
                  | (v', _, Some _) \<Rightarrow> fuzzy_fallback L f (the v'))
               }
             | Inr (KB k) \<Rightarrow> do {
                 r \<leftarrow> kb_Satisfied L k (Some v);
                 (case r of
                    (v', sat, None) \<Rightarrow> Some (v', sat, None)
                  | (v', _, Some _) \<Rightarrow> fuzzy_fallback L f (the v'))
               }
             | _ \<Rightarrow> fuzzy_fallback L f v)
          else fuzzy_fallback L f v)"

fun constraint_Satisfied :: "'o libs \<Rightarrow> 'o constraint \<Rightarrow> 'o Version option \<Rightarrow> 'o sat_result"
  and combined_loop :: "'o libs \<Rightarrow> 'o constraint list \<Rightarrow> 'o Version option \<Rightarrow> 'o sat_result" where
  "constraint_Satisfied L (Generic g) version = generic_Satisfied L g version"
| "constraint_Satisfied L (KB k) version = kb_Satisfied L k version"
| "constraint_Satisfied L (Fuzzy f) version = fuzzy_Satisfied L f version"
| "constraint_Satisfied L (Combined ops) version =
     (case version of
        None \<Rightarrow> Some (None, False, Some (Msg ''cannot evaluate combined constraint with nil version''))
      | Some v \<Rightarrow> combined_loop L ops (Some v))"
| "combined_loop L [] version = Some (version, False, None)"
| "combined_loop L (op # ops) version = do {
     r \<leftarrow> constraint_Satisfied L op version;
     (case r of
        (v', _, Some err) \<Rightarrow> Some (v', False, Some (Wrap ''error evaluating constraint'' err))
      | (v', sat, None) \<Rightarrow> if sat then Some (v', True, None) else combined_loop L ops v')
   }"

fun unique_loop :: "string list \<Rightarrow> 'o constraint option list \<Rightarrow> 'o constraint list" where
  "unique_loop seen [] = []"
| "unique_loop seen (None # cs) = unique_loop seen cs"
| "unique_loop seen (Some c # cs) =
     (if constraint_Value c \<in> set seen then unique_loop seen cs
      else c # unique_loop (constraint_Value c # seen) cs)"

definition uniqueConstraints :: "'o constraint option list \<Rightarrow> 'o constraint list" where
  "uniqueConstraints cs = unique_loop [] cs"

definition CombineConstraints :: "'o constraint option list \<Rightarrow> 'o constraint option" where
  "CombineConstraints cs =
     (case uniqueConstraints cs of
        [] \<Rightarrow> None
      | [c] \<Rightarrow> Some c
      | ops \<Rightarrow> Some (Combined ops))"

section \<open>What an expression means\<close>

definition known_op :: "rangeUnit \<Rightarrow> bool" where
  "known_op u \<longleftrightarrow> ru_Operator u \<in> {EQ, GT, LT, GTE, LTE}"

definition unit_holds :: "rangeUnit \<Rightarrow> int \<Rightarrow> bool" where
  "unit_holds u r \<longleftrightarrow> op_holds (ru_Operator u) r = Some True"

text \<open>An expression holds if one of its groups does, and a group if all its comparisons do; \<open>c s\<close> is how
  the version compares to the text \<open>s\<close>.\<close>

definition expr_holds :: "simpleRangeExpression \<Rightarrow> (string \<Rightarrow> int) \<Rightarrow> bool" where
  "expr_holds e c \<longleftrightarrow> (\<exists>g \<in> set e. \<forall>u \<in> set g. unit_holds u (c (ru_Version u)))"

lemma rangeUnit_Satisfied_known: "known_op u \<Longrightarrow> rangeUnit_Satisfied u r = Some (unit_holds u r)"
  by (auto simp: known_op_def rangeUnit_Satisfied_def unit_holds_def op_holds_def)

section \<open>Evaluation computes the meaning\<close>

text \<open>A version as the evaluation keeps it: the same text, format and configuration, a good cache.\<close>

definition same_version :: "'o libs \<Rightarrow> 'o Version \<Rightarrow> 'o Version \<Rightarrow> bool" where
  "same_version L v v' \<longleftrightarrow>
     cache_ok L v' \<and> ver_Raw v' = ver_Raw v \<and> ver_Format v' = ver_Format v \<and> ver_Config v' = ver_Config v"

lemma same_version_refl: "cache_ok L v \<Longrightarrow> same_version L v v"
  by (simp add: same_version_def)

lemma getComparator_ok:
  assumes "same_version L v0 v" "new_comparator L (ver_Format v0) (ver_Raw v0) = (c, None)"
  shows "\<exists>v'. getComparator L v (ver_Format v) = (v', c, None) \<and> same_version L v0 v'"
proof -
  obtain v' c' e where g: "getComparator L v (ver_Format v) = (v', c', e)"
    by (cases "getComparator L v (ver_Format v)")
  with assms getComparator_fresh [of L v "ver_Format v" v' c' e] have c: "c' = c" "e = None"
    by (auto simp: same_version_def)
  with g assms(1) getComparator_keeps [of L v "ver_Format v" v' c e]
    getComparator_cache_ok [of L v "ver_Format v" v' c] show ?thesis
    by (auto simp: same_version_def)
qed

lemma compareWithConfig_compareUsing:
  assumes "cfg_MissingEpochStrategy (ver_Config v) \<noteq> StrategyUnset"
  shows "(case c of
            CRpm r \<Rightarrow> Some (rpmVersion_CompareWithConfig r (Some other) (ver_Config v))
          | CDeb d \<Rightarrow> Some (debVersion_CompareWithConfig L d (Some other) (ver_Config v))
          | _ \<Rightarrow> comparator_Compare L c (Some other)) = compareUsing L v c (Some other)"
  using assms by (cases c) (simp_all add: compareUsing_def)

lemma unit_compare_ok:
  assumes v: "same_version L v0 v" and c: "new_comparator L (ver_Format v0) (ver_Raw v0) = (c, None)"
    and r: "compareUsing L v0 c (Some (ru_Version u)) = Some (r, None)"
  shows "\<exists>v'. unit_compare L format (ver_Config v0) v u = Some (v', r, None) \<and> same_version L v0 v'"
proof -
  from getComparator_ok [OF v c] obtain v' where
    g: "getComparator L v (ver_Format v) = (v', c, None)" "same_version L v0 v'" by blast
  have cfg: "ver_Config v = ver_Config v0" "ver_Config v' = ver_Config v0"
    using v g(2) by (auto simp: same_version_def)
  have r': "compareUsing L v' c (Some (ru_Version u)) = Some (r, None)"
    using r cfg compareUsing_cong [of v' v0 L c] by simp
  show ?thesis
  proof (cases "cfg_MissingEpochStrategy (ver_Config v0) \<noteq> StrategyUnset \<and> (format = RpmFormat \<or> format = DebFormat)")
    case True
    then have "unit_compare L format (ver_Config v0) v u = Some (v', r, None)"
      using g(1) r compareWithConfig_compareUsing [where v = v0 and c = c and other = "ru_Version u" and L = L]
      by (simp add: unit_compare_def compareWithConfig_def)
    with g(2) show ?thesis by blast
  next
    case False
    then have "unit_compare L format (ver_Config v0) v u = Some (persist v v', r, None)"
      using g(1) r' by (auto simp: unit_compare_def Version_Compare_def compare_as_def)
    moreover have "same_version L v0 (persist v v')"
      using v g(2) by (simp add: persist_def split: option.split)
    ultimately show ?thesis by blast
  qed
qed

lemma and_loop_ok:
  assumes c: "new_comparator L (ver_Format v0) (ver_Raw v0) = (c, None)"
  shows "same_version L v0 v \<Longrightarrow>
    \<forall>u \<in> set us. known_op u \<and> compareUsing L v0 c (Some (ru_Version u)) = Some (r (ru_Version u), None) \<Longrightarrow>
    \<exists>v'. and_loop L format (ver_Config v0) v us =
        Some (v', \<forall>u \<in> set us. unit_holds u (r (ru_Version u)), None) \<and> same_version L v0 v'"
proof (induction us arbitrary: v)
  case (Cons u us)
  then obtain v1 where v1: "unit_compare L format (ver_Config v0) v u = Some (v1, r (ru_Version u), None)"
    "same_version L v0 v1" using unit_compare_ok [OF Cons.prems(1) c, of u "r (ru_Version u)" format] by auto
  from Cons.IH [OF v1(2)] Cons.prems(2) obtain v2 where
    "and_loop L format (ver_Config v0) v1 us = Some (v2, \<forall>u \<in> set us. unit_holds u (r (ru_Version u)), None)"
    "same_version L v0 v2" by auto
  with v1(1) Cons.prems(2) show ?case by (simp add: rangeUnit_Satisfied_known)
qed simp

lemma or_loop_ok:
  assumes c: "new_comparator L (ver_Format v0) (ver_Raw v0) = (c, None)"
  shows "same_version L v0 v \<Longrightarrow>
    \<forall>g \<in> set e. \<forall>u \<in> set g. known_op u
       \<and> compareUsing L v0 c (Some (ru_Version u)) = Some (r (ru_Version u), None) \<Longrightarrow>
    \<exists>v'. or_loop L format (ver_Config v0) v e = Some (v', expr_holds e r, None) \<and> same_version L v0 v'"
proof (induction e arbitrary: v)
  case (Cons g e)
  then obtain v1 where v1: "and_loop L format (ver_Config v0) v g =
      Some (v1, \<forall>u \<in> set g. unit_holds u (r (ru_Version u)), None)" "same_version L v0 v1"
    using and_loop_ok [OF c Cons.prems(1), of g r format] by auto
  from Cons.IH [OF v1(2)] Cons.prems(2) obtain v2 where
    "or_loop L format (ver_Config v0) v1 e = Some (v2, expr_holds e r, None)" "same_version L v0 v2" by auto
  with v1(1) show ?case by (simp add: expr_holds_def)
qed (simp add: expr_holds_def)

section \<open>Properties\<close>

text \<open>C9: for each of the twelve formats with ordinary range constraints, a constraint written as
  alternatives of comma-separated comparisons is satisfied by a version exactly if, in one of the
  alternatives, every comparison holds of the result that the format's comparator returns.  The
  hypotheses are that the version parses and that the comparator accepts the versions of the
  constraint.\<close>

theorem constraint_Satisfied_meaning:
  fixes L :: "'o libs"
  assumes "format \<notin> {KBFormat, UnknownFormat}" "\<forall>i. format \<noteq> OtherFormat i"
    and "\<forall>g \<in> set e. g \<noteq> [] \<and> (\<forall>u \<in> set g. plain_unit u)" "e \<noteq> []"
    and "new_comparator L format raw = (c, None)"
    and "\<forall>g \<in> set e. \<forall>u \<in> set g. comparator_Compare L c (Some (ru_Version u)) = Some (r (ru_Version u), None)"
  shows "\<exists>k v'. GetConstraint L (render_expr e) format = Inr k
    \<and> constraint_Satisfied L k (Some (New raw format)) = Some (v', expr_holds e r, None)"
proof -
  let ?v = "New raw format :: 'o Version"
  let ?k = "Generic \<lparr>gc_Raw = render_expr e, gc_Expression = e, gc_Fmt = format\<rparr>"
  have k: "GetConstraint L (render_expr e) format = Inr ?k"
    using assms(1,2) parse_render_expr [OF assms(3)]
    by (cases format) (auto simp: GetConstraint_def newGenericConstraint_def)
  have known: "known_op u" if "g \<in> set e" "u \<in> set g" for g u
    using assms(3) that by (cases "ru_Operator u") (auto simp: known_op_def plain_unit_def)
  have "compareUsing L ?v c (Some s) = comparator_Compare L c (Some s)" for s
    by (simp add: compareUsing_def default_config_def)
  with assms(6) known have "\<forall>g \<in> set e. \<forall>u \<in> set g. known_op u
      \<and> compareUsing L ?v c (Some (ru_Version u)) = Some (r (ru_Version u), None)" by simp
  moreover have "same_version L ?v ?v" by (rule same_version_refl) simp
  moreover have "new_comparator L (ver_Format ?v) (ver_Raw ?v) = (c, None)"
    using assms(5) by (simp add: New_def NewWithConfig_def)
  ultimately obtain v' where "or_loop L format (ver_Config ?v) ?v e = Some (v', expr_holds e r, None)"
    using or_loop_ok [of L ?v c ?v e r format] by blast
  moreover have "render_expr e \<noteq> []" using assms(3,4) render_expr_not_Nil by blast
  ultimately have "constraint_Satisfied L ?k (Some ?v) = Some (Some v', expr_holds e r, None)"
    by (simp add: generic_Satisfied_def satisfied_def satisfiedWithConfig_def some_version_def)
  with k show ?thesis by blast
qed

theorem constraint_Satisfied_meaning_witness:
  "\<exists>k v'. GetConstraint text_libs ''>= 1.0, < 1.2 || = 1.2.0'' GemFormat = Inr k
     \<and> constraint_Satisfied text_libs k (Some (New ''1.2'' GemFormat)) = Some (v', True, None)"
proof -
  let ?e = "[[\<lparr>ru_Operator = GTE, ru_Version = ''1.0''\<rparr>, \<lparr>ru_Operator = LT, ru_Version = ''1.2''\<rparr>],
      [\<lparr>ru_Operator = EQ, ru_Version = ''1.2.0''\<rparr>]]"
  let ?c = "CGem \<lparr>gem_original = ''1.2'', gem_segments = [GInt 1, GInt 2],
     gem_canonical = [GInt 1, GInt 2], gem_isPrerelease = False\<rparr> :: string comparator"
  let ?r = "\<lambda>s. if s = ''1.0'' then 1 else (0 :: int)"
  have plain: "\<forall>g \<in> set ?e. g \<noteq> [] \<and> (\<forall>u \<in> set g. plain_unit u)"
    by (simp add: plain_unit_def plain_char_def operator_char_def re_space_def)
  have new: "new_comparator text_libs GemFormat ''1.2'' = (?c, None)"
    by (simp add: new_comparator_def gem_parse_examples)
  have "gemVersion_Compare \<lparr>gem_original = ''1.2'', gem_segments = [GInt 1, GInt 2],
      gem_canonical = [GInt 1, GInt 2], gem_isPrerelease = False\<rparr> (Some s) = (?r s, None)"
    if "s \<in> {''1.0'', ''1.2'', ''1.2.0''}" for s
    using that by (elim insertE emptyE; simp only:; code_simp)
  then have cmp: "\<forall>g \<in> set ?e. \<forall>u \<in> set g. comparator_Compare text_libs ?c (Some (ru_Version u)) = Some (?r (ru_Version u), None)"
    by simp
  have "render_expr ?e = ''>= 1.0, < 1.2 || = 1.2.0''"
    by (simp add: render_expr_def render_group_def render_unit_def)
  moreover have "expr_holds ?e ?r" by (simp add: expr_holds_def unit_holds_def op_holds_def)
  ultimately show ?thesis
    using constraint_Satisfied_meaning [OF _ _ plain _ new cmp] by simp
qed

text \<open>Upper bounds on gem versions are downward closed: if a version satisfies a constraint that
  consists of upper bounds (\<^verbatim>\<open><\<close> and \<^verbatim>\<open><=\<close>), so does every version that does not compare
  greater.\<close>

theorem gem_upper_bounds_downward_closed:
  assumes "newGemVersion a = Inr u" "newGemVersion b = Inr v" "gemVersion_compare u v \<le> 0"
    and "\<forall>g \<in> set e. \<forall>x \<in> set g. ru_Operator x \<in> {LT, LTE} \<and> (\<exists>w. newGemVersion (ru_Version x) = Inr w)"
    and "expr_holds e (\<lambda>s. fst (gemVersion_Compare v (Some s)))"
  shows "expr_holds e (\<lambda>s. fst (gemVersion_Compare u (Some s)))"
proof -
  have le: "gem_order (gem_canonical u) (gem_canonical v) \<le> 0"
    using assms(1-3) by (simp add: gem_compare_order)
  have step: "unit_holds x (fst (gemVersion_Compare u (Some (ru_Version x))))"
    if x: "ru_Operator x \<in> {LT, LTE}" "newGemVersion (ru_Version x) = Inr w"
      and holds: "unit_holds x (fst (gemVersion_Compare v (Some (ru_Version x))))" for x w
  proof -
    have "gemVersion_Compare u (Some (ru_Version x)) = (gem_order (gem_canonical u) (gem_canonical w), None)"
      "gemVersion_Compare v (Some (ru_Version x)) = (gem_order (gem_canonical v) (gem_canonical w), None)"
      using x(2) assms(1,2) by (simp_all add: gemVersion_Compare_def gem_compare_order)
    with gem.below_upper_bound [OF le, of "gem_canonical w"] x(1) holds show ?thesis
      by (auto simp: unit_holds_def op_holds_def)
  qed
  from assms(5) obtain g where g: "g \<in> set e"
    "\<forall>x \<in> set g. unit_holds x (fst (gemVersion_Compare v (Some (ru_Version x))))"
    by (auto simp: expr_holds_def)
  have "\<forall>x \<in> set g. unit_holds x (fst (gemVersion_Compare u (Some (ru_Version x))))"
  proof
    fix x assume x: "x \<in> set g"
    with assms(4) g(1) obtain w where "ru_Operator x \<in> {LT, LTE}" "newGemVersion (ru_Version x) = Inr w" by blast
    with step g(2) x show "unit_holds x (fst (gemVersion_Compare u (Some (ru_Version x))))" by blast
  qed
  with g(1) show ?thesis by (auto simp: expr_holds_def)
qed

theorem gem_upper_bounds_downward_closed_witness:
  "\<exists>u v. newGemVersion ''1.2.b1'' = Inr u \<and> newGemVersion ''1.2.0'' = Inr v
     \<and> expr_holds [[\<lparr>ru_Operator = LTE, ru_Version = ''1.2''\<rparr>]] (\<lambda>s. fst (gemVersion_Compare u (Some s)))"
proof -
  have "newGemVersion ''1.2'' = Inr \<lparr>gem_original = ''1.2'', gem_segments = [GInt 1, GInt 2],
      gem_canonical = [GInt 1, GInt 2], gem_isPrerelease = False\<rparr>" by (rule gem_parse_examples)
  then show ?thesis
    using gem_upper_bounds_downward_closed [OF gem_parse_examples(1,2),
        of "[[\<lparr>ru_Operator = LTE, ru_Version = ''1.2''\<rparr>]]"]
    by (simp add: gem_parse_examples gemVersion_compare_def gemVersion_Compare_def compareLengths_def
        expr_holds_def unit_holds_def op_holds_def)
qed

section \<open>Combined constraints\<close>

lemma unique_loop_covers:
  assumes "\<forall>c \<in> set cs. \<forall>d \<in> set cs. constraint_Value c = constraint_Value d \<longrightarrow> c = d"
  shows "set (unique_loop seen (map Some cs)) = {c \<in> set cs. constraint_Value c \<notin> set seen}"
  using assms
proof (induction cs arbitrary: seen)
  case (Cons c cs)
  have "set (unique_loop s (map Some cs)) = {d \<in> set cs. constraint_Value d \<notin> set s}" for s
    using Cons by simp
  then show ?case using Cons.prems by auto
qed simp

lemma combined_loop_pure:
  assumes "\<forall>c \<in> set ops. constraint_Satisfied L c (Some v) = Some (Some v, sat c, None)"
  shows "combined_loop L ops (Some v) = Some (Some v, \<exists>c \<in> set ops. sat c, None)"
  using assms by (induction ops) auto



end
