(* ===== verification/Distro_Model.thy ===== *)
theory Distro_Model
  imports Constraints
begin

text \<open>
  Linux distributions: \<^verbatim>\<open>grype/distro/distro.go\<close>, \<^verbatim>\<open>type.go\<close>, \<^verbatim>\<open>fix_channel.go\<close>, and
  \<^verbatim>\<open>stringutil.SplitOnAny\<close> of \<^verbatim>\<open>internal/stringutil\<close>.

  A type is its text.  The maps \<^verbatim>\<open>IDMapping\<close> and \<^verbatim>\<open>aliasTypes\<close> are association lists;
  \<^verbatim>\<open>typeToIDMapping\<close> is what \<^verbatim>\<open>init\<close> builds (it panics on a duplicate: \<^const>\<open>None\<close>).
  \<^verbatim>\<open>linux.Release\<close> is syft's record of an os-release file, of which the fields read here are kept.
\<close>

section \<open>Splitting\<close>

text \<open>\<^verbatim>\<open>strings.Split\<close> on any separator; an empty one splits into bytes.\<close>

function split_string :: "string \<Rightarrow> string \<Rightarrow> string list" where
  "split_string s sep =
     (if sep = [] then map (\<lambda>c. [c]) s
      else case strings_Cut s sep of None \<Rightarrow> [s] | Some (b, a) \<Rightarrow> b # split_string a sep)"
  by pat_completeness auto

lemma Cut_shorter: "sep \<noteq> [] \<Longrightarrow> strings_Cut s sep = Some (b, a) \<Longrightarrow> length a < length s"
proof (induction s arbitrary: b)
  case (Cons c cs)
  then show ?case by (auto split: if_splits option.splits)
qed simp

termination split_string
  by (relation "measure (\<lambda>(s, sep). length s)") (auto dest: Cut_shorter)

declare split_string.simps [simp del]

definition SplitOnAny :: "string \<Rightarrow> string list \<Rightarrow> string list" where
  "SplitOnAny s separators =
     (if s = [] then []
      else fold (\<lambda>sep parts. concat (map (\<lambda>part. split_string part sep) parts))
             (rev (sort_key length (rev separators))) [s])"

section \<open>Types\<close>

definition IDMapping :: "(string \<times> string) list" where
  "IDMapping =
    [(''debian'', ''debian''), (''ubuntu'', ''ubuntu''), (''rhel'', ''redhat''), (''centos'', ''centos''),
     (''fedora'', ''fedora''), (''alpine'', ''alpine''), (''busybox'', ''busybox''), (''amzn'', ''amazonlinux''),
     (''ol'', ''oraclelinux''), (''arch'', ''archlinux''), (''opensuse-leap'', ''opensuseleap''), (''sles'', ''sles''),
     (''photon'', ''photon''), (''echo'', ''echo''), (''mariner'', ''mariner''), (''azurelinux'', ''azurelinux''),
     (''rocky'', ''rockylinux''), (''almalinux'', ''almalinux''), (''gentoo'', ''gentoo''), (''wolfi'', ''wolfi''),
     (''chainguard'', ''chainguard''), (''minimos'', ''minimos''), (''raspbian'', ''raspbian''),
     (''scientific'', ''scientific''), (''secureos'', ''secureos''), (''postmarketos'', ''postmarketos''),
     (''hummingbird'', ''hummingbird'')]"

definition aliasTypes :: "(string \<times> string) list" where
  "aliasTypes = [(''Alpine Linux'', ''alpine''), (''windows'', ''windows''), (''scientific linux'', ''scientific'')]"

fun invert_mapping :: "(string \<times> string) list \<Rightarrow> (string \<times> string) list \<Rightarrow> (string \<times> string) list option" where
  "invert_mapping [] acc = Some acc"
| "invert_mapping ((i, t) # rest) acc =
     (if map_of acc t \<noteq> None then None else invert_mapping rest ((t, i) # acc))"

definition typeToIDMapping :: "(string \<times> string) list" where
  "typeToIDMapping = (case invert_mapping IDMapping [] of Some m \<Rightarrow> m | None \<Rightarrow> [])"

record Release =
  rel_ID :: string
  rel_IDLike :: "string list"
  rel_Name :: string
  rel_VersionID :: string
  rel_Version :: string
  rel_VersionCodename :: string
  rel_ExtendedSupport :: bool

definition lookup_type :: "string \<Rightarrow> string option" where
  "lookup_type s = (case map_of IDMapping s of Some t \<Rightarrow> Some t | None \<Rightarrow> map_of aliasTypes s)"

fun first_type :: "string list \<Rightarrow> string option" where
  "first_type [] = None"
| "first_type (l # ls) = (case lookup_type l of Some t \<Rightarrow> Some t | None \<Rightarrow> first_type ls)"

definition TypeFromRelease :: "Release \<Rightarrow> string" where
  "TypeFromRelease release =
     (case first_type (rel_ID release # rel_IDLike release @ [rel_Name release]) of Some t \<Rightarrow> t | None \<Rightarrow> [])"

section \<open>Distributions\<close>

record Distro =
  distro_Type :: string
  distro_Version :: string
  distro_Codename :: string
  distro_Channels :: "string list"
  distro_IDLike :: "string list"
  distro_major :: string
  distro_minor :: string
  distro_remaining :: string

text \<open>\<^verbatim>\<open>parseVersion\<close> reads the first byte of what is left of the version: \<^const>\<open>None\<close> is the panic if nothing is.\<close>

definition distro_parseVersion :: "string \<Rightarrow> (string \<times> string \<times> string \<times> string \<times> string list) go" where
  "distro_parseVersion v =
     (if v = [] then Some ([], [], [], [], [])
      else
        let (version, channelStr) = (case strings_Cut v ''+'' of None \<Rightarrow> (v, []) | Some (b, a) \<Rightarrow> (b, a));
            versionWithoutSuffix = version;
            version = strings_TrimPrefix version ''v'' in
        if version = [] then None
        else
          let parts = split_char (CHR ''.'') version;
              (major, minor, remaining) =
                (if is_digit (hd version)
                 then (hd parts, if length parts > 1 then parts ! 1 else [],
                       if length parts > 2 then strings_Join (drop 2 parts) ''.'' else [])
                 else ([], [], [])) in
          Some (major, minor, remaining, versionWithoutSuffix, SplitOnAny (strings_TrimSpace channelStr) ['','', ''+'']))"

definition distro_New :: "string \<Rightarrow> string \<Rightarrow> string \<Rightarrow> string list \<Rightarrow> Distro go" where
  "distro_New t version label idLikes =
     map_option (\<lambda>(major, minor, remaining, versionWithoutSuffix, channels).
         \<lparr>distro_Type = t, distro_Version = versionWithoutSuffix, distro_Codename = label, distro_Channels = channels,
          distro_IDLike = map (\<lambda>i. case map_of IDMapping (strings_TrimSpace i) of Some typ \<Rightarrow> typ | None \<Rightarrow> i) idLikes,
          distro_major = major, distro_minor = minor, distro_remaining = remaining\<rparr>)
       (distro_parseVersion version)"

definition earliest :: "string \<Rightarrow> string list \<Rightarrow> (nat \<times> string) option" where
  "earliest s separators =
     fold (\<lambda>sep best. case strings_Index s sep of
             None \<Rightarrow> best
           | Some idx \<Rightarrow> if idx < (case best of None \<Rightarrow> length s | Some (i, _) \<Rightarrow> i) then Some (idx, sep) else best)
       separators None"

definition ParseDistroString :: "string \<Rightarrow> string \<times> string" where
  "ParseDistroString str =
     (if str = [] then ([], [])
      else
        let s = strings_TrimSpace str; opensuseLeap = ''opensuse-leap'' in
        if strings_HasPrefix (strings_ToLower s) opensuseLeap then
          let remaining = drop (length opensuseLeap) s in
          if remaining = [] then (opensuseLeap, [])
          else if hd remaining \<in> {CHR ''-'', CHR '':'', CHR ''@''} then (opensuseLeap, strings_TrimSpace (tl remaining))
          else (s, [])
        else
          case earliest s [''-'', '':'', ''@''] of
            None \<Rightarrow> (s, [])
          | Some (minIdx, foundSep) \<Rightarrow>
              (strings_TrimSpace (take minIdx s), strings_TrimSpace (drop (minIdx + length foundSep) s)))"

definition NewFromNameVersion :: "string \<Rightarrow> string \<Rightarrow> Distro go" where
  "NewFromNameVersion name version =
     (let (codename, version) = (if \<not> list_ex is_digit version then (version, []) else ([], version));
          typ = (case map_of IDMapping name of Some t \<Rightarrow> t | None \<Rightarrow> []);
          typ = (if typ = [] then name else typ) in
      distro_New typ version codename [typ])"

section \<open>Fix channels\<close>

definition ChannelNeverEnabled :: string where "ChannelNeverEnabled = ''never''"
definition ChannelAlwaysEnabled :: string where "ChannelAlwaysEnabled = ''always''"
definition ChannelConditionallyEnabled :: string where "ChannelConditionallyEnabled = ''auto''"

record 'o FixChannel =
  ch_Name :: string
  ch_IDs :: "string list"
  ch_Apply :: string
  ch_Versions :: "'o constraint option"

text \<open>\<^verbatim>\<open>MustGetConstraint\<close> panics if the constraint does not parse.\<close>

definition MustGetConstraint :: "'o libs \<Rightarrow> string \<Rightarrow> Format \<Rightarrow> 'o constraint go" where
  "MustGetConstraint L s f = (case GetConstraint L s f of Inl _ \<Rightarrow> None | Inr c \<Rightarrow> Some c)"

definition DefaultFixChannels :: "'o libs \<Rightarrow> 'o FixChannel list go" where
  "DefaultFixChannels L =
     map_option (\<lambda>c. [\<lparr>ch_Name = ''eus'', ch_IDs = [''rhel''], ch_Apply = ChannelConditionallyEnabled, ch_Versions = Some c\<rparr>,
                      \<lparr>ch_Name = ''esm'', ch_IDs = [''ubuntu''], ch_Apply = ChannelConditionallyEnabled, ch_Versions = None\<rparr>])
       (MustGetConstraint L ''>= 8.0'' SemanticFormat)"

definition FixChannels_Apply :: "string \<Rightarrow> 'o FixChannel list \<Rightarrow> 'o FixChannel list" where
  "FixChannels_Apply enable f = map (\<lambda>c. c\<lparr>ch_Apply := enable\<rparr>) f"

definition FixChannels_Get :: "string \<Rightarrow> 'o FixChannel list \<Rightarrow> 'o FixChannel option" where
  "FixChannels_Get name f = find (\<lambda>c. strings_EqualFold (ch_Name c) name) f"

definition applyChannel :: "string \<Rightarrow> bool \<Rightarrow> string \<Rightarrow> string" where
  "applyChannel channel hints pref =
     (if pref = ChannelNeverEnabled then []
      else if pref = ChannelAlwaysEnabled then channel
      else if pref = ChannelConditionallyEnabled then (if hints then channel else [])
      else [])"

definition addResult :: "string \<Rightarrow> bool \<Rightarrow> string \<Rightarrow> string list" where
  "addResult channel extendedSupport pref =
     (let res = applyChannel channel extendedSupport pref in if res \<noteq> [] then [res] else [])"

text \<open>The version is a pointer whose comparator cache the checks may fill, so it is threaded through.\<close>

fun channels_loop ::
  "'o libs \<Rightarrow> Release \<Rightarrow> string list \<Rightarrow> 'o Version option \<Rightarrow> 'o FixChannel list \<Rightarrow> string list go" where
  "channels_loop L release existing ver [] = Some []"
| "channels_loop L release existing ver (channel # channels) =
     (if rel_ID release \<notin> set (ch_IDs channel) then channels_loop L release existing ver channels
      else
        let extendedSupport = (rel_ExtendedSupport release \<or> ch_Name channel \<in> set existing);
            added = addResult (ch_Name channel) extendedSupport (ch_Apply channel) in
        if ver = None \<and> rel_VersionCodename release \<noteq> []
        then map_option ((@) added) (channels_loop L release existing ver channels)
        else
          case (ch_Versions channel, ver) of
            (Some c, Some v) \<Rightarrow> do {
              r \<leftarrow> constraint_Satisfied L c (Some v);
              (case r of
                 (ver', _, Some err) \<Rightarrow> channels_loop L release existing ver' channels
               | (ver', isApplicable, None) \<Rightarrow>
                   if isApplicable then map_option ((@) added) (channels_loop L release existing ver' channels)
                   else map_option ((@) added) (channels_loop L release existing ver' channels))
            }
          | _ \<Rightarrow> map_option ((@) added) (channels_loop L release existing ver channels))"

definition applyChannels ::
  "'o libs \<Rightarrow> Release \<Rightarrow> 'o Version option \<Rightarrow> string list \<Rightarrow> 'o FixChannel list \<Rightarrow> string list go" where
  "applyChannels L release ver existingChannels channels = channels_loop L release existingChannels ver channels"

section \<open>From a release\<close>

fun select_version :: "'o libs \<Rightarrow> string list \<Rightarrow> (string \<times> 'o Version) option" where
  "select_version L [] = None"
| "select_version L (ver # vers) =
     (if ver = [] then select_version L vers
      else case Version_Validate L (New ver SemanticFormat) of
             (v, None) \<Rightarrow> Some (ver, v)
           | (_, Some _) \<Rightarrow> select_version L vers)"

text \<open>The outer option is the panic, the sum the error.\<close>

definition NewFromRelease :: "'o libs \<Rightarrow> Release \<Rightarrow> 'o FixChannel list \<Rightarrow> (string + Distro) go" where
  "NewFromRelease L release channels =
     (let t = TypeFromRelease release in
      if t = [] then Some (Inl ''unable to determine distro type'')
      else
        let selected = select_version L [rel_VersionID release, rel_Version release];
            version = (case selected of Some (s, _) \<Rightarrow> s | None \<Rightarrow> rel_VersionID release) in do {
          d \<leftarrow> distro_New t version (rel_VersionCodename release) (rel_IDLike release);
          chans \<leftarrow> applyChannels L release (map_option snd selected) (distro_Channels d) channels;
          Some (Inr (d\<lparr>distro_Channels := chans\<rparr>))
        })"

definition FromRelease :: "'o libs \<Rightarrow> Release option \<Rightarrow> 'o FixChannel list \<Rightarrow> Distro option go" where
  "FromRelease L release channels =
     (case release of
        None \<Rightarrow> Some None
      | Some r \<Rightarrow> map_option (\<lambda>d. case d of Inl _ \<Rightarrow> None | Inr d \<Rightarrow> Some d) (NewFromRelease L r channels))"

section \<open>Printing\<close>

definition nonEmptyStrings :: "string list \<Rightarrow> string list" where
  "nonEmptyStrings ss = filter (\<lambda>s. s \<noteq> []) ss"

definition Distro_ID :: "Distro \<Rightarrow> string" where
  "Distro_ID d = (case map_of typeToIDMapping (distro_Type d) of Some i \<Rightarrow> i | None \<Rightarrow> [])"

definition VersionString :: "Distro \<Rightarrow> string" where
  "VersionString d =
     (let versionStr = (if distro_Version d \<noteq> [] then distro_Version d
                        else if distro_Codename d \<noteq> [] then distro_Codename d else []);
          channels = nonEmptyStrings (distro_Channels d) in
      if channels \<noteq> [] then versionStr @ ''+'' @ strings_Join channels '','' else versionStr)"

definition Distro_String :: "Distro \<Rightarrow> string" where
  "Distro_String d = Distro_ID d @ '' '' @ VersionString d"

definition LabelVersion :: "Distro \<Rightarrow> string" where
  "LabelVersion d =
     (if distro_Codename d \<noteq> [] then distro_Codename d
      else if distro_major d = [] \<and> distro_minor d = [] \<and> distro_remaining d = [] then distro_Version d
      else [])"

section \<open>Facts\<close>

lemma Cut_char_Some: "strings_Cut s [d] = Some (b, a) \<Longrightarrow> s = b @ d # a \<and> d \<notin> set b"
proof (induction s arbitrary: b)
  case (Cons c cs)
  then show ?case by (auto simp: strings_HasPrefix_def split: if_splits option.splits)
qed simp

lemma split_string_char: "split_string s [d] = split_char d s"
proof (induction s rule: length_induct)
  case (1 s)
  show ?case
  proof (cases "strings_Cut s [d]")
    case None
    then have "d \<notin> set s" by (simp add: Cut_char_None)
    then show ?thesis by (simp add: split_string.simps [of s] None split_char_notin)
  next
    case (Some ba)
    obtain b a where ba: "ba = (b, a)" by fastforce
    with Some Cut_char_Some have "s = b @ d # a" "d \<notin> set b" by blast+
    moreover from this 1 have "split_string a [d] = split_char d a" by simp
    ultimately show ?thesis using Some ba split_string.simps [of s "[d]"] by (simp add: split_char_append)
  qed
qed

lemma SplitOnAny_Join:
  assumes "cs \<noteq> []" "list_all (\<lambda>c. c \<noteq> [] \<and> CHR '','' \<notin> set c \<and> CHR ''+'' \<notin> set c) cs"
  shows "SplitOnAny (strings_Join cs '','') ['','', ''+''] = cs"
proof -
  have ne: "strings_Join cs '','' \<noteq> []" 
  proof (cases cs)
    case (Cons c cs')
    with assms(2) show ?thesis by (cases cs') auto
  qed (use assms(1) in simp)
  have "split_char (CHR '','') (strings_Join cs '','') = cs"
    using assms by (intro split_char_Join) (auto simp: list_all_iff)
  moreover have "concat (map (split_char (CHR ''+'')) cs) = cs"
    using assms(2) by (induction cs) (simp_all add: split_char_notin)
  ultimately show ?thesis using ne by (simp add: SplitOnAny_def split_string_char)
qed

definition channel_text :: "string \<Rightarrow> bool" where
  "channel_text c \<longleftrightarrow> c \<noteq> [] \<and> list_all (\<lambda>x. x \<noteq> CHR '','' \<and> x \<noteq> CHR ''+'' \<and> \<not> is_space x) c"

lemma list_all_Join: "list_all P sep \<Longrightarrow> list_all (list_all P) cs \<Longrightarrow> list_all P (strings_Join cs sep)"
  by (induction cs sep rule: strings_Join.induct) simp_all

lemma Join_no_space:
  assumes "list_all channel_text cs"
  shows "strings_TrimSpace (strings_Join cs '','') = strings_Join cs '',''"
proof -
  have "list_all (\<lambda>x. \<not> is_space x) (strings_Join cs '','')"
    using assms by (intro list_all_Join) (auto simp: channel_text_def is_space_def byte_val_def elim!: list.pred_mono_strong)
  then show ?thesis by (intro TrimSpace_id) (auto simp: list_all_iff)
qed

text \<open>\<^verbatim>\<open>init\<close> never panics, and the two maps are inverse.\<close>

lemma typeToIDMapping_inverse:
  "invert_mapping IDMapping [] \<noteq> None"
  "list_all (\<lambda>(i, t). map_of typeToIDMapping t = Some i) IDMapping"
  by code_simp+

section \<open>Properties\<close>

text \<open>The version text of a distribution carries its channels.  For a distribution with a version (some
  text that is not just the prefix \<^verbatim>\<open>v\<close> and has no \<^verbatim>\<open>+\<close>) and channels that are plain words, building a
  distribution from \<^verbatim>\<open>VersionString\<close> gives the one built from the version alone, with the channels back.\<close>

theorem distro_version_roundtrip:
  assumes "distro_Version d \<noteq> []" "strings_TrimPrefix (distro_Version d) ''v'' \<noteq> []" "CHR ''+'' \<notin> set (distro_Version d)"
    and "list_all channel_text (distro_Channels d)"
  shows "\<exists>d'. distro_New t (distro_Version d) label ids = Some d'
    \<and> distro_New t (VersionString d) label ids = Some (d'\<lparr>distro_Channels := distro_Channels d\<rparr>)
    \<and> distro_Version d' = distro_Version d"
proof -
  let ?v = "distro_Version d" and ?cs = "distro_Channels d"
  have cut: "strings_Cut ?v ''+'' = None" using assms(3) by (simp add: Cut_char_None)
  have "nonEmptyStrings ?cs = ?cs"
    using assms(4) by (auto simp: nonEmptyStrings_def list_all_iff channel_text_def filter_id_conv)
  then have vs: "VersionString d = (if ?cs = [] then ?v else ?v @ ''+'' @ strings_Join ?cs '','')"
    using assms(1) by (simp add: VersionString_def Let_def)
  show ?thesis
  proof (cases "?cs = []")
    case True
    then show ?thesis
      using assms(1,2) by (simp add: vs distro_New_def distro_parseVersion_def cut Let_def SplitOnAny_def strings_TrimSpace_def
          trim_both_def trim_left_def trim_right_def split: prod.splits)
  next
    case False
    have "SplitOnAny (strings_Join ?cs '','') ['','', ''+''] = ?cs"
      using assms(4) False by (intro SplitOnAny_Join) (auto simp: list_all_iff channel_text_def)
    moreover have "strings_Cut (?v @ ''+'' @ strings_Join ?cs '','') ''+'' = Some (?v, strings_Join ?cs '','')"
      using Cut_append_notin [OF assms(3)] by simp
    ultimately show ?thesis
      using assms(1,2) False Join_no_space [OF assms(4)]
      by (simp add: vs distro_New_def distro_parseVersion_def cut Let_def split: prod.splits)
  qed
qed

theorem distro_version_roundtrip_witness:
  "\<exists>d'. distro_New ''redhat'' ''8.6+eus,aus'' [] [] = Some (d'\<lparr>distro_Channels := [''eus'', ''aus'']\<rparr>)"
proof -
  let ?d = "\<lparr>distro_Type = ''redhat'', distro_Version = ''8.6'', distro_Codename = [], distro_Channels = [''eus'', ''aus''],
    distro_IDLike = [], distro_major = ''8'', distro_minor = ''6'', distro_remaining = []\<rparr>"
  have "VersionString ?d = ''8.6+eus,aus''" by (simp add: VersionString_def nonEmptyStrings_def)
  moreover have "list_all channel_text (distro_Channels ?d)" by (simp add: channel_text_def is_space_def byte_val_def)
  ultimately show ?thesis
    using distro_version_roundtrip [of ?d "''redhat''" "[]" "[]"] by (auto simp: strings_TrimPrefix_def strings_HasPrefix_def)
qed



end
