(* ===== verification/Rootio.thy ===== *)
theory Rootio
  imports Go_Prelude
begin

text \<open>
  Packages rebuilt by Root IO: \<^verbatim>\<open>grype/internal/rootio/rootio.go\<close>.  The names of package types are syft's, as they
  occur in the repository's test data.
\<close>

section \<open>Package types\<close>

definition NpmPkg :: string where "NpmPkg = ''npm''"
definition ApkPkg :: string where "ApkPkg = ''apk''"
definition DebPkg :: string where "DebPkg = ''deb''"
definition PythonPkg :: string where "PythonPkg = ''python''"
definition JavaPkg :: string where "JavaPkg = ''java-archive''"

lemmas rootio_types = NpmPkg_def ApkPkg_def DebPkg_def PythonPkg_def JavaPkg_def

section \<open>Definitions\<close>

definition rootio_hasPrefix :: "string \<Rightarrow> string \<Rightarrow> string \<Rightarrow> bool" where
  "rootio_hasPrefix name pkgType javaGroupID =
     (if pkgType = NpmPkg then strings_HasPrefix name ''@rootio/'' \<or> strings_HasPrefix name ''rootio-''
      else if pkgType = ApkPkg \<or> pkgType = DebPkg then strings_HasPrefix name ''rootio-''
      else if pkgType = PythonPkg then strings_HasPrefix name ''rootio_'' \<or> strings_HasPrefix name ''rootio-''
      else if pkgType = JavaPkg then
        (if strings_HasPrefix javaGroupID ''io.root.'' then True else strings_HasPrefix name ''io.root.'')
      else strings_HasPrefix name ''rootio-'')"

text \<open>\<^verbatim>\<open>strings.LastIndex\<close>.\<close>

fun strings_LastIndex :: "string \<Rightarrow> string \<Rightarrow> nat option" where
  "strings_LastIndex [] sep = (if sep = [] then Some 0 else None)"
| "strings_LastIndex (c # cs) sep =
     (case strings_LastIndex cs sep of
        Some i \<Rightarrow> Some (Suc i)
      | None \<Rightarrow> if strings_HasPrefix (c # cs) sep then Some 0 else None)"

definition hasFiveDigitApkRev :: "string \<Rightarrow> bool" where
  "hasFiveDigitApkRev version =
     (case strings_LastIndex version ''-r'' of
        None \<Rightarrow> False
      | Some idx \<Rightarrow>
          let rev = drop (idx + 2) version in
          if length rev < 5 then False else list_all is_digit rev)"

definition hasVersionSuffix :: "string \<Rightarrow> string \<Rightarrow> bool" where
  "hasVersionSuffix version pkgType =
     (if version = [] then False
      else if pkgType = NpmPkg then strings_Contains version ''-root.io.''
      else if pkgType = DebPkg then strings_Contains version ''.root.io.''
      else if pkgType = PythonPkg then strings_Contains version ''+root.io.''
      else if pkgType = ApkPkg then hasFiveDigitApkRev version
      else False)"

definition rootio_IsPackage :: "string \<Rightarrow> string \<Rightarrow> string \<Rightarrow> string \<Rightarrow> bool" where
  "rootio_IsPackage name version pkgType javaGroupID =
     (if rootio_hasPrefix name pkgType javaGroupID then True else hasVersionSuffix version pkgType)"

definition StripPrefix :: "string \<Rightarrow> string \<Rightarrow> string" where
  "StripPrefix name pkgType =
     (if pkgType = NpmPkg then
        (if strings_HasPrefix name ''@rootio/'' then
           (let bare = strings_TrimPrefix name ''@rootio/'' in
            case strings_Index bare ''__'' of
              Some idx \<Rightarrow> if idx > 0 then ''@'' @ take idx bare @ ''/'' @ drop (idx + 2) bare else bare
            | None \<Rightarrow> bare)
         else strings_TrimPrefix name ''rootio-'')
      else if pkgType = PythonPkg then strings_TrimPrefix (strings_TrimPrefix name ''rootio-'') ''rootio_''
      else if pkgType = JavaPkg then strings_TrimPrefix name ''io.root.''
      else strings_TrimPrefix name ''rootio-'')"

definition AddPrefix :: "string \<Rightarrow> string \<Rightarrow> string" where
  "AddPrefix name pkgType =
     (if name = [] then []
      else if pkgType = NpmPkg then
        (if strings_HasPrefix name ''@rootio/'' then name
         else if strings_HasPrefix name ''@'' then
           (let rest = strings_TrimPrefix name ''@'' in
            case strings_Index rest ''/'' of
              None \<Rightarrow> []
            | Some slash \<Rightarrow>
                if slash = 0 then [] else ''@rootio/'' @ take slash rest @ ''__'' @ drop (slash + 1) rest)
         else ''@rootio/'' @ name)
      else if pkgType = PythonPkg then
        (if strings_HasPrefix name ''rootio-'' \<or> strings_HasPrefix name ''rootio_'' then name else ''rootio-'' @ name)
      else if pkgType = JavaPkg then
        (if strings_HasPrefix name ''io.root.'' then name else ''io.root.'' @ name)
      else (if strings_HasPrefix name ''rootio-'' then name else ''rootio-'' @ name))"

section \<open>Facts\<close>

lemma rootio_types_distinct [simp]:
  "PythonPkg \<noteq> NpmPkg" "JavaPkg \<noteq> NpmPkg" "JavaPkg \<noteq> PythonPkg" "PythonPkg \<noteq> JavaPkg" "ApkPkg \<noteq> PythonPkg" "DebPkg \<noteq> PythonPkg"
  "PythonPkg \<noteq> ApkPkg" "PythonPkg \<noteq> DebPkg" "JavaPkg \<noteq> ApkPkg" "JavaPkg \<noteq> DebPkg" "ApkPkg \<noteq> JavaPkg" "DebPkg \<noteq> JavaPkg"
  by (simp_all add: rootio_types)

lemma HasPrefix_append [simp]: "strings_HasPrefix (p @ s) p"
  by (simp add: strings_HasPrefix_def)

lemma TrimPrefix_append [simp]: "strings_TrimPrefix (p @ s) p = s"
  by (simp add: strings_TrimPrefix_def)

lemma TrimPrefix_other: "\<not> strings_HasPrefix s p \<Longrightarrow> strings_TrimPrefix s p = s"
  by (simp add: strings_TrimPrefix_def)

lemma Cut_double:
  "d \<notin> set x \<Longrightarrow> strings_Cut (x @ d # d # s) [d, d] = Some (x, s)"
proof (induction x)
  case (Cons c x)
  then have "\<not> strings_HasPrefix (c # x @ d # d # s) [d, d]" by (auto simp: strings_HasPrefix_def)
  with Cons show ?case by simp
qed (simp add: strings_HasPrefix_def)

text \<open>A name as upstream publishes it: nonempty, without a Root IO prefix; an npm name must not contain the two
  underscores that encode a scope, and the scope of a scoped name no underscore.\<close>

definition npm_scoped :: "string \<Rightarrow> bool" where
  "npm_scoped name = (case name of
     CHR ''@'' # rest \<Rightarrow> (case strings_Cut rest ''/'' of Some (scope, _) \<Rightarrow> scope \<noteq> [] \<and> CHR ''_'' \<notin> set scope | None \<Rightarrow> False)
   | _ \<Rightarrow> False)"

definition bare_name :: "string \<Rightarrow> string \<Rightarrow> bool" where
  "bare_name name pkgType \<longleftrightarrow> name \<noteq> [] \<and> \<not> rootio_hasPrefix name pkgType [] \<and>
     (pkgType = NpmPkg \<longrightarrow> (if hd name = CHR ''@'' then npm_scoped name else \<not> strings_Contains name ''__''))"

lemma HasPrefix_at: "name \<noteq> [] \<Longrightarrow> strings_HasPrefix name ''@'' \<longleftrightarrow> hd name = CHR ''@''"
  by (cases name) (auto simp: strings_HasPrefix_def)

lemma Cut_slash:
  "strings_Cut rest ''/'' = Some (scope, pkg) \<Longrightarrow> rest = scope @ ''/'' @ pkg"
proof (induction rest arbitrary: scope)
  case (Cons c cs)
  then show ?case by (auto simp: strings_HasPrefix_def split: if_splits option.splits)
qed simp

lemma npm_scoped_roundtrip:
  assumes "npm_scoped name" "\<not> strings_HasPrefix name ''@rootio/''"
  shows "\<exists>scope pkg. AddPrefix name NpmPkg = ''@rootio/'' @ scope @ ''__'' @ pkg
    \<and> StripPrefix (''@rootio/'' @ scope @ ''__'' @ pkg) NpmPkg = name"
proof -
  from assms(1) obtain rest scope pkg where name: "name = CHR ''@'' # rest" "strings_Cut rest ''/'' = Some (scope, pkg)"
    and scope: "scope \<noteq> []" "CHR ''_'' \<notin> set scope"
    by (auto simp: npm_scoped_def split: list.splits option.splits char.splits bool.splits)
  from Cut_slash [OF name(2)] have rest: "rest = scope @ ''/'' @ pkg" .
  have "strings_TrimPrefix name ''@'' = rest" "strings_HasPrefix name ''@''"
    using TrimPrefix_append [of "''@''" rest] HasPrefix_append [of "''@''" rest] by (simp_all add: name)
  then have "AddPrefix name NpmPkg = ''@rootio/'' @ scope @ ''__'' @ pkg"
    using assms(2) scope(1) name(2) by (simp add: AddPrefix_def name(1) rest strings_Index_def Let_def)
  moreover have "strings_Index (scope @ ''__'' @ pkg) ''__'' = Some (length scope)"
    using Cut_double [OF scope(2), of pkg] by (simp add: strings_Index_def)
  then have "StripPrefix (''@rootio/'' @ scope @ ''__'' @ pkg) NpmPkg = name"
    using scope(1) HasPrefix_append [of "''@rootio/''"] TrimPrefix_append [of "''@rootio/''" "scope @ ''__'' @ pkg"]
    by (simp add: StripPrefix_def name rest)
  ultimately show ?thesis by blast
qed

section \<open>Properties\<close>

text \<open>Adding the Root IO prefix to an upstream name gives a name that counts as Root IO's, and stripping it gives
  the upstream name back.\<close>

theorem rootio_name_roundtrip:
  assumes "bare_name name pkgType"
  shows "StripPrefix (AddPrefix name pkgType) pkgType = name \<and> rootio_hasPrefix (AddPrefix name pkgType) pkgType []"
proof (cases "pkgType = NpmPkg")
  case npm: True
  with assms have np: "\<not> strings_HasPrefix name ''@rootio/''" "name \<noteq> []"
    by (simp_all add: bare_name_def rootio_hasPrefix_def)
  show ?thesis
  proof (cases "hd name = CHR ''@''")
    case True
    with assms npm have "npm_scoped name" by (simp add: bare_name_def)
    from npm_scoped_roundtrip [OF this np(1)] npm show ?thesis
      using HasPrefix_append [of "''@rootio/''"] by (auto simp: rootio_hasPrefix_def)
  next
    case False
    with assms npm have "strings_Cut name ''__'' = None"
      by (cases "strings_Cut name ''__''") (auto simp: bare_name_def strings_Contains_def)
    with False np npm HasPrefix_at [of name] show ?thesis
      using HasPrefix_append [of "''@rootio/''" name] TrimPrefix_append [of "''@rootio/''" name]
      by (simp add: AddPrefix_def StripPrefix_def rootio_hasPrefix_def strings_Index_def)
  qed
next
  case False
  with assms show ?thesis
    using HasPrefix_append [of "''rootio-''" name] TrimPrefix_append [of "''rootio-''" name]
      HasPrefix_append [of "''io.root.''" name] TrimPrefix_append [of "''io.root.''" name]
    by (auto simp: bare_name_def rootio_hasPrefix_def AddPrefix_def StripPrefix_def TrimPrefix_other strings_HasPrefix_def
        split: if_splits)
qed

theorem rootio_name_roundtrip_witness:
  "StripPrefix (AddPrefix ''@babel/core'' NpmPkg) NpmPkg = ''@babel/core''
   \<and> rootio_hasPrefix (AddPrefix ''@babel/core'' NpmPkg) NpmPkg []"
proof -
  have "bare_name ''@babel/core'' NpmPkg"
    by (simp add: bare_name_def rootio_hasPrefix_def npm_scoped_def strings_HasPrefix_def)
  from rootio_name_roundtrip [OF this] show ?thesis .
qed

end
