(* ===== verification/Pkg_Model.thy ===== *)
theory Pkg_Model
  imports Match_Store Distro_Model Rootio
begin

text \<open>
  Packages as the matchers see them and the qualifiers of vulnerability records: \<^verbatim>\<open>grype/pkg/upstream_package.go\<close>,
  \<^verbatim>\<open>version_format.go\<close>, \<^verbatim>\<open>java_metadata.go\<close>, \<^verbatim>\<open>golang_symbol.go\<close> and \<^verbatim>\<open>grype/pkg/qualifier\<close>.

  \<open>MPackage\<close> extends the record of a package with what only matchers read: distribution, CPEs, metadata.  Of the
  metadata, the fields read during matching are kept.  CPE syntax (syft) and the order in which a set of strings is
  listed are parameters, in the record \<open>penv\<close>; the order is used if it is a permutation.
\<close>

section \<open>Packages\<close>

record Attributes =
  cpe_Part :: string
  cpe_Vendor :: string
  cpe_Product :: string
  cpe_Version :: string
  cpe_Update :: string
  cpe_Language :: string
  cpe_SWEdition :: string
  cpe_TargetSW :: string
  cpe_TargetHW :: string
  cpe_Other :: string
  cpe_Edition :: string

definition zero_Attributes :: Attributes where
  "zero_Attributes = \<lparr>cpe_Part = [], cpe_Vendor = [], cpe_Product = [], cpe_Version = [], cpe_Update = [], cpe_Language = [],
     cpe_SWEdition = [], cpe_TargetSW = [], cpe_TargetHW = [], cpe_Other = [], cpe_Edition = []\<rparr>"

record RpmMetadata =
  rpm_Epoch :: "int option"
  rpm_ModularityLabel :: "string option"
  rpm_Arch :: string

record JavaMetadata =
  java_PomArtifactID :: string
  java_PomGroupID :: string
  java_ManifestName :: string
  java_ArchiveDigests :: "(string \<times> string) list"

record GolangBinMetadata =
  go_MainModule :: string
  go_Symbols :: "(string \<times> string list) list"

datatype pkg_metadata =
    NoMetadata
  | RpmMeta RpmMetadata
  | ApkMeta string
  | JavaMeta JavaMetadata
  | GolangBinMeta GolangBinMetadata
  | JavaVMInstallationMeta
  | OtherMeta

record MPackage = Package +
  mp_Distro :: "Distro option"
  mp_CPEs :: "Attributes list"
  mp_Metadata :: pkg_metadata

record penv =
  pe_cpe_New :: "string \<Rightarrow> Attributes option"
  pe_BindToFmtString :: "Attributes \<Rightarrow> string"
  pe_cpe_String :: "Attributes \<Rightarrow> string"
  pe_strset :: "string list \<Rightarrow> string list"
  pe_LanguageByName :: "string \<Rightarrow> string"
  pe_TargetSoftwareToPackageType :: "string \<Rightarrow> string"

definition strset_List :: "penv \<Rightarrow> string list \<Rightarrow> string list" where
  "strset_List P ss = (let d = remdups ss; l = pe_strset P d in if is_perm l d then l else d)"

section \<open>Version formats\<close>

definition BitnamiPkg :: string where "BitnamiPkg = ''bitnami''"
definition RpmPkg :: string where "RpmPkg = ''rpm''"
definition GemPkg :: string where "GemPkg = ''gem''"
definition KbPkg :: string where "KbPkg = ''msrc-kb''"
definition PortagePkg :: string where "PortagePkg = ''portage''"
definition GoModulePkg :: string where "GoModulePkg = ''go-module''"
definition AlpmPkg :: string where "AlpmPkg = ''alpm''"
definition BinaryPkg :: string where "BinaryPkg = ''binary''"

definition jvmIndications :: "string list" where
  "jvmIndications = [''java_se'', ''jre'', ''jdk'', ''zulu'', ''openjdk'', ''java'', ''java/jre'', ''java/jdk'']"

definition HasJvmPackageName :: "string \<Rightarrow> bool" where
  "HasJvmPackageName name \<longleftrightarrow> name \<in> set jvmIndications"

definition isJvmPackage :: "MPackage \<Rightarrow> bool" where
  "isJvmPackage p =
     (if mp_Metadata p = JavaVMInstallationMeta then True
      else if pkg_Type p = BinaryPkg then HasJvmPackageName (pkg_Name p)
      else False)"

definition VersionFormat :: "MPackage \<Rightarrow> Format" where
  "VersionFormat p =
     (let t = pkg_Type p in
      if t = ApkPkg then ApkFormat
      else if t = BitnamiPkg then BitnamiFormat
      else if t = DebPkg then DebFormat
      else if t = JavaPkg then MavenFormat
      else if t = RpmPkg then RpmFormat
      else if t = GemPkg then GemFormat
      else if t = PythonPkg then PythonFormat
      else if t = KbPkg then KBFormat
      else if t = PortagePkg then PortageFormat
      else if t = GoModulePkg then GolangFormat
      else if t = AlpmPkg then PacmanFormat
      else if isJvmPackage p then JVMFormat
      else UnknownFormat)"

section \<open>Upstream packages\<close>

text \<open>\<^verbatim>\<open>strings.ReplaceAll\<close>; an empty text to replace matches before every character and at the end.\<close>

function strings_ReplaceAll :: "string \<Rightarrow> string \<Rightarrow> string \<Rightarrow> string" where
  "strings_ReplaceAll s old new =
     (if old = [] then new @ concat (map (\<lambda>c. c # new) s)
      else case strings_Cut s old of None \<Rightarrow> s | Some (b, a) \<Rightarrow> b @ new @ strings_ReplaceAll a old new)"
  by pat_completeness auto

termination strings_ReplaceAll
  by (relation "measure (\<lambda>(s, old, new). length s)") (auto dest: Cut_shorter)

declare strings_ReplaceAll.simps [simp del]

definition setSrcArchOnUpstream :: "MPackage \<Rightarrow> MPackage" where
  "setSrcArchOnUpstream upstream =
     (case mp_Metadata upstream of
        RpmMeta r \<Rightarrow> upstream\<lparr>mp_Metadata := RpmMeta (r\<lparr>rpm_Arch := ''src''\<rparr>)\<rparr>
      | _ \<Rightarrow> upstream)"

definition upstream_cpes :: "penv \<Rightarrow> MPackage \<Rightarrow> UpstreamPackage \<Rightarrow> Attributes list" where
  "upstream_cpes P p u =
     map (\<lambda>s. case pe_cpe_New P s of Some c \<Rightarrow> c | None \<Rightarrow> zero_Attributes)
       (strset_List P (map (\<lambda>c.
          let c = (if up_Version u \<noteq> [] then c\<lparr>cpe_Version := up_Version u\<rparr> else c) in
          strings_ReplaceAll (pe_BindToFmtString P c) (pkg_Name p) (up_Name u)) (mp_CPEs p)))"

definition UpstreamPackages :: "penv \<Rightarrow> MPackage \<Rightarrow> MPackage list" where
  "UpstreamPackages P p =
     concat (map (\<lambda>u.
       if up_Name u = [] then []
       else
         let tmp = p\<lparr>pkg_Name := up_Name u\<rparr>;
             tmp = (if up_Version u \<noteq> [] then tmp\<lparr>pkg_Version := up_Version u\<rparr> else tmp);
             tmp = tmp\<lparr>pkg_Upstreams := []\<rparr>;
             tmp = tmp\<lparr>mp_CPEs := upstream_cpes P p u\<rparr> in
         [setSrcArchOnUpstream tmp]) (pkg_Upstreams p))"

section \<open>Qualifiers\<close>

datatype Qualifier =
    RpmModularity string
  | RootIO
  | PlatformCPE string
  | ArchitectureQualifier string "(string \<times> string) list"
  | UnaffectedArchitectureQualifier string "(string \<times> string) list"
  | GoSymbols "(string \<times> string list) list"

definition rpmModularity_Satisfied :: "string \<Rightarrow> MPackage \<Rightarrow> bool" where
  "rpmModularity_Satisfied modul p =
     (case mp_Metadata p of
        NoMetadata \<Rightarrow> True
      | RpmMeta m \<Rightarrow>
          (case rpm_ModularityLabel m of
             None \<Rightarrow> True
           | Some label \<Rightarrow>
               if (case mp_Distro p of None \<Rightarrow> False | Some d \<Rightarrow> distro_Type d = ''oraclelinux'') \<and> label = [] then True
               else if modul = [] then label = []
               else strings_HasPrefix label modul)
      | _ \<Rightarrow> False)"

definition javaGroupID :: "MPackage \<Rightarrow> string" where
  "javaGroupID p = (case mp_Metadata p of JavaMeta md \<Rightarrow> java_PomGroupID md | _ \<Rightarrow> [])"

definition rootIO_Satisfied :: "MPackage \<Rightarrow> bool" where
  "rootIO_Satisfied p = rootio_IsPackage (pkg_Name p) (pkg_Version p) (pkg_Type p) (javaGroupID p)"

definition isWindowsPlatformCPE :: "Attributes \<Rightarrow> bool" where
  "isWindowsPlatformCPE c \<longleftrightarrow> cpe_Vendor c = ''microsoft'' \<and> strings_HasPrefix (cpe_Product c) ''windows''"

definition isUbuntuPlatformCPE :: "Attributes \<Rightarrow> bool" where
  "isUbuntuPlatformCPE c =
     (if cpe_Vendor c = ''canonical'' \<and> cpe_Product c = ''ubuntu_linux'' then True else cpe_Vendor c = ''ubuntu'')"

definition isDebianPlatformCPE :: "Attributes \<Rightarrow> bool" where
  "isDebianPlatformCPE c \<longleftrightarrow> cpe_Vendor c = ''debian'' \<and> (cpe_Product c = ''debian_linux'' \<or> cpe_Product c = ''linux'')"

definition isWordpressPlatformCPE :: "Attributes \<Rightarrow> bool" where
  "isWordpressPlatformCPE c \<longleftrightarrow> cpe_Vendor c = ''wordpress'' \<and> cpe_Product c = ''wordpress''"

definition platformCPE_Satisfied :: "penv \<Rightarrow> string \<Rightarrow> MPackage \<Rightarrow> bool \<times> verror option" where
  "platformCPE_Satisfied P s pk =
     (if s = [] then (True, None)
      else case pe_cpe_New P s of
        None \<Rightarrow> (True, Some (Msg ''unable to parse CPE''))
      | Some c \<Rightarrow>
          if isWordpressPlatformCPE c then (False, None)
          else case mp_Distro pk of
            None \<Rightarrow> (True, None)
          | Some d \<Rightarrow>
              if isWindowsPlatformCPE c then (distro_Type d = ''windows'', None)
              else if isUbuntuPlatformCPE c then (distro_Type d = ''ubuntu'', None)
              else if isDebianPlatformCPE c then (distro_Type d = ''debian'', None)
              else (True, None))"

definition ArchSource :: string where "ArchSource = ''src''"
definition ArchBinaryNoArchSpecified :: string where "ArchBinaryNoArchSpecified = ''binary-no-arch-specified''"

definition defaultAliases :: "(string \<times> string) list" where
  "defaultAliases = [(''x86_64'', ''amd64''), (''x64'', ''amd64''), (''aarch64'', ''arm64''), (''i386'', ''386''),
     (''i686'', ''386''), (''x86'', ''386''), (''ppc64el'', ''ppc64le'')]"

definition canonicalArch :: "string \<Rightarrow> (string \<times> string) list \<Rightarrow> string" where
  "canonicalArch a aliases =
     (case map_of (if aliases = [] then defaultAliases else aliases) a of Some c \<Rightarrow> c | None \<Rightarrow> a)"

definition packageArch :: "MPackage \<Rightarrow> string" where
  "packageArch p = (case mp_Metadata p of RpmMeta m \<Rightarrow> rpm_Arch m | ApkMeta arch \<Rightarrow> arch | _ \<Rightarrow> [])"

definition isArchIndependent :: "string \<Rightarrow> bool" where
  "isArchIndependent a \<longleftrightarrow> a = ''noarch'' \<or> a = ''all''"

definition concreteMatch :: "string \<Rightarrow> string \<Rightarrow> (string \<times> string) list \<Rightarrow> bool" where
  "concreteMatch pkgArch recordArch aliases =
     (if recordArch = ArchSource then True
      else if recordArch = ArchBinaryNoArchSpecified then pkgArch \<noteq> ArchSource
      else canonicalArch pkgArch aliases = canonicalArch recordArch aliases)"

definition architecture_Satisfied :: "string \<Rightarrow> (string \<times> string) list \<Rightarrow> MPackage \<Rightarrow> bool" where
  "architecture_Satisfied arch aliases p =
     (let pkgArch = packageArch p in
      if pkgArch = [] \<or> arch = [] then True
      else if isArchIndependent pkgArch \<or> isArchIndependent arch then True
      else concreteMatch pkgArch arch aliases)"

definition unaffectedArchitecture_Satisfied :: "string \<Rightarrow> (string \<times> string) list \<Rightarrow> MPackage \<Rightarrow> bool" where
  "unaffectedArchitecture_Satisfied arch aliases p =
     (if arch = [] then True
      else let pkgArch = packageArch p in
        if pkgArch = [] then False else concreteMatch pkgArch arch aliases)"

text \<open>The symbols of the imports an advisory lists that the binary has, by import path.\<close>

definition gosymbols_present :: "(string \<times> string list) list \<Rightarrow> MPackage \<Rightarrow> (string \<rightharpoonup> string set) option" where
  "gosymbols_present imports p =
     (case mp_Metadata p of
        GolangBinMeta m \<Rightarrow>
          if go_Symbols m = [] then None
          else Some (\<lambda>path. if path \<in> fst ` set imports then map_option set (map_of (go_Symbols m) path) else None)
      | _ \<Rightarrow> None)"

definition import_symbols :: "(string \<rightharpoonup> string set) \<Rightarrow> string \<times> string list \<Rightarrow> string list" where
  "import_symbols pres imp =
     (case pres (fst imp) of
        None \<Rightarrow> []
      | Some locals \<Rightarrow>
          if snd imp = [] then [fst imp]
          else map (\<lambda>vulnSym. fst imp @ ''.'' @ vulnSym) (filter (\<lambda>vulnSym. vulnSym \<in> locals) (snd imp)))"

fun add_new :: "string list \<Rightarrow> string list \<Rightarrow> string list" where
  "add_new matched [] = matched"
| "add_new matched (s # ss) = add_new (if s \<in> set matched then matched else matched @ [s]) ss"

definition gosymbols_evaluate :: "(string \<times> string list) list \<Rightarrow> MPackage \<Rightarrow> string list \<times> bool" where
  "gosymbols_evaluate imports p =
     (if imports = [] then ([], False)
      else case gosymbols_present imports p of
        None \<Rightarrow> ([], False)
      | Some pres \<Rightarrow> (sort_Strings (add_new [] (concat (map (import_symbols pres) imports))), True))"

definition gosymbols_Satisfied :: "(string \<times> string list) list \<Rightarrow> MPackage \<Rightarrow> bool" where
  "gosymbols_Satisfied imports p =
     (case gosymbols_evaluate imports p of (matched, scoped) \<Rightarrow> if \<not> scoped then True else matched \<noteq> [])"

fun MatchedSymbols :: "Qualifier list \<Rightarrow> MPackage \<Rightarrow> string list" where
  "MatchedSymbols [] p = []"
| "MatchedSymbols (q # qs) p =
     (case q of
        GoSymbols imports \<Rightarrow>
          (case gosymbols_evaluate imports p of
             (matched, scoped) \<Rightarrow> if scoped \<and> matched \<noteq> [] then matched else MatchedSymbols qs p)
      | _ \<Rightarrow> MatchedSymbols qs p)"

definition Qualifier_Satisfied :: "penv \<Rightarrow> Qualifier \<Rightarrow> MPackage \<Rightarrow> bool \<times> verror option" where
  "Qualifier_Satisfied P q p =
     (case q of
        RpmModularity modul \<Rightarrow> (rpmModularity_Satisfied modul p, None)
      | RootIO \<Rightarrow> (rootIO_Satisfied p, None)
      | PlatformCPE s \<Rightarrow> platformCPE_Satisfied P s p
      | ArchitectureQualifier arch aliases \<Rightarrow> (architecture_Satisfied arch aliases p, None)
      | UnaffectedArchitectureQualifier arch aliases \<Rightarrow> (unaffectedArchitecture_Satisfied arch aliases p, None)
      | GoSymbols imports \<Rightarrow> (gosymbols_Satisfied imports p, None))"

end
