(* ===== verification/Namespace.thy ===== *)
theory Namespace
  imports Go_Prelude
begin

text \<open>
  Namespaces of vulnerability records: \<^verbatim>\<open>grype/db/v5/namespace\<close> with its packages \<^verbatim>\<open>cpe\<close>, \<^verbatim>\<open>distro\<close> and
  \<^verbatim>\<open>language\<close>.  The resolver a namespace carries plays no part in parsing and printing.
\<close>

section \<open>Definitions\<close>

text \<open>The three implementations of the interface \<^verbatim>\<open>Namespace\<close>: \<open>CpeNamespace provider\<close>,
  \<open>DistroNamespace provider distroType version\<close>, \<open>LanguageNamespace provider language packageType\<close>.\<close>

datatype Namespace =
    CpeNamespace string
  | DistroNamespace string string string
  | LanguageNamespace string string string

definition cpe_FromComponents :: "string list \<Rightarrow> string + Namespace" where
  "cpe_FromComponents components =
     (if length components \<noteq> 2 then Inl ''incorrect number of components''
      else if components ! 1 \<noteq> ''cpe'' then Inl ''type is incorrect''
      else Inr (CpeNamespace (components ! 0)))"

definition distro_FromComponents :: "string list \<Rightarrow> string + Namespace" where
  "distro_FromComponents components =
     (if length components \<noteq> 4 then Inl ''incorrect number of components''
      else if components ! 1 \<noteq> ''distro'' then Inl ''type is incorrect''
      else Inr (DistroNamespace (components ! 0) (components ! 2) (components ! 3)))"

definition language_FromComponents :: "string list \<Rightarrow> string + Namespace" where
  "language_FromComponents components =
     (if length components \<noteq> 3 \<and> length components \<noteq> 4 then Inl ''incorrect number of components''
      else if components ! 1 \<noteq> ''language'' then Inl ''type is incorrect''
      else Inr (LanguageNamespace (components ! 0) (components ! 2)
                  (if length components = 4 then components ! 3 else [])))"

definition namespace_FromString :: "string \<Rightarrow> string + Namespace" where
  "namespace_FromString s =
     (if s = [] then Inl ''unable to create namespace from empty string''
      else
        let components = split_char (CHR '':'') s in
        if length components < 2 then Inl ''incorrect number of components''
        else if components ! 1 = ''cpe'' then cpe_FromComponents components
        else if components ! 1 = ''distro'' then distro_FromComponents components
        else if components ! 1 = ''language'' then language_FromComponents components
        else Inl ''unknown type'')"

fun Namespace_String :: "Namespace \<Rightarrow> string" where
  "Namespace_String (CpeNamespace p) = p @ '':'' @ ''cpe''"
| "Namespace_String (DistroNamespace p t v) = p @ '':'' @ ''distro'' @ '':'' @ t @ '':'' @ v"
| "Namespace_String (LanguageNamespace p l t) =
     (if t \<noteq> [] then p @ '':'' @ ''language'' @ '':'' @ l @ '':'' @ t else p @ '':'' @ ''language'' @ '':'' @ l)"

fun namespace_parts :: "Namespace \<Rightarrow> string list" where
  "namespace_parts (CpeNamespace p) = [p, ''cpe'']"
| "namespace_parts (DistroNamespace p t v) = [p, ''distro'', t, v]"
| "namespace_parts (LanguageNamespace p l t) = [p, ''language'', l] @ (if t \<noteq> [] then [t] else [])"

lemma Namespace_String_Join: "Namespace_String ns = strings_Join (namespace_parts ns) '':''"
  by (cases ns) auto

lemma namespace_parts_split:
  "list_all (\<lambda>p. CHR '':'' \<notin> set p) (namespace_parts ns) \<Longrightarrow> split_char (CHR '':'') (Namespace_String ns) = namespace_parts ns"
  unfolding Namespace_String_Join by (rule split_char_Join) (cases ns, auto simp: list_all_iff)

lemma Join_snoc_Nil: "xs \<noteq> [] \<Longrightarrow> strings_Join (xs @ [[]]) sep = strings_Join xs sep @ sep"
  by (induction xs sep rule: strings_Join.induct) auto

section \<open>Properties\<close>

text \<open>Parsing the text of a namespace gives the namespace back, for components without colons; and
  whatever parses prints as the text it was parsed from, but for an empty package type that is dropped.\<close>

theorem namespace_roundtrip:
  assumes "list_all (\<lambda>p. CHR '':'' \<notin> set p) (namespace_parts ns)"
  shows "namespace_FromString (Namespace_String ns) = Inr ns
    \<and> (namespace_FromString s = Inr ns \<longrightarrow> Namespace_String ns = s \<or> Namespace_String ns @ '':'' = s)"
proof -
  note split = namespace_parts_split [OF assms]
  have ne: "Namespace_String ns \<noteq> []" by (cases ns) auto
  have "namespace_FromString (Namespace_String ns) = Inr ns"
    unfolding namespace_FromString_def split using ne
    by (cases ns) (simp_all add: cpe_FromComponents_def distro_FromComponents_def language_FromComponents_def)
  moreover have "Namespace_String ns = s \<or> Namespace_String ns @ '':'' = s" if parse: "namespace_FromString s = Inr ns"
  proof -
    have "namespace_parts ns = split_char (CHR '':'') s \<or> namespace_parts ns @ [[]] = split_char (CHR '':'') s"
      using parse by (auto simp: namespace_FromString_def cpe_FromComponents_def distro_FromComponents_def
          language_FromComponents_def Let_def length_Suc_conv numeral_eq_Suc split: if_splits)
    then show ?thesis
    proof
      assume "namespace_parts ns = split_char (CHR '':'') s"
      then show ?thesis by (simp add: Namespace_String_Join Join_split_char)
    next
      assume "namespace_parts ns @ [[]] = split_char (CHR '':'') s"
      then have "strings_Join (namespace_parts ns @ [[]]) '':'' = s" by (simp add: Join_split_char)
      moreover have "namespace_parts ns \<noteq> []" by (cases ns) auto
      ultimately show ?thesis by (simp add: Namespace_String_Join Join_snoc_Nil)
    qed
  qed
  ultimately show ?thesis by blast
qed

theorem namespace_roundtrip_witness:
  "namespace_FromString ''redhat:distro:redhat:8'' = Inr (DistroNamespace ''redhat'' ''redhat'' ''8'')"
  using namespace_roundtrip [of "DistroNamespace ''redhat'' ''redhat'' ''8''"] by simp

end
