(* ===== verification/Search_Criteria.thy ===== *)
theory Search_Criteria
  imports Pkg_Model Namespace
begin

text \<open>
  Criteria of a vulnerability search: package \<^verbatim>\<open>grype/search\<close>.

  A criterion is a leaf (the types \<^verbatim>\<open>IDCriteria\<close>, \<^verbatim>\<open>PackageNameCriteria\<close>, \<^verbatim>\<open>EcosystemCriteria\<close>,
  \<^verbatim>\<open>DistroCriteria\<close>, \<^verbatim>\<open>CPECriteria\<close>, \<^verbatim>\<open>VersionCriteria\<close>, \<^verbatim>\<open>constraintFuncCriteria\<close>,
  \<^verbatim>\<open>UnaffectedCriteria\<close>, \<^verbatim>\<open>funcCriteria\<close> and the pointer to one), or a conjunction or disjunction of
  criteria.  \<^verbatim>\<open>MatchesVulnerability\<close> returns an answer and an error (\<^const>\<open>None\<close>: a panic); the reason texts
  it also returns, which are only logged, are left out, as is what a check leaves behind in the comparator
  cache of the copy of the version it works on.
\<close>

section \<open>Data\<close>

text \<open>The fields of a vulnerability that only the search looks at.\<close>

record 'o SVulnerability = Vulnerability +
  sv_PackageName :: string
  sv_Constraint :: "'o constraint option"
  sv_CPEs :: "Attributes list"
  sv_Unaffected :: bool
  sv_Status :: string
  sv_PackageQualifiers :: "Qualifier list"
  sv_Advisories :: "(string \<times> string) list"

type_synonym 'o SVuln = "'o SVulnerability"

datatype 'o leaf =
    IDCriteria string
  | PackageNameCriteria string
  | EcosystemCriteria string string
  | DistroCriteria "Distro list" bool
  | CPECriteria Attributes
  | VersionCriteria "'o Version"
  | ConstraintFuncCriteria "'o constraint \<Rightarrow> (bool \<times> verror option) go"
  | UnaffectedCriteria
  | FuncCriteria "'o SVuln \<Rightarrow> (bool \<times> verror option) go"
  | FuncCriteriaPtr "'o SVuln \<Rightarrow> (bool \<times> verror option) go"

datatype 'l criteria =
    AndC "'l criteria list"
  | OrC "'l criteria list"
  | Leaf 'l

section \<open>The leaves\<close>

definition matchesAttribute :: "string \<Rightarrow> string \<Rightarrow> bool" where
  "matchesAttribute a1 a2 \<longleftrightarrow> a1 = [] \<or> a2 = [] \<or> strings_EqualFold a1 a2"

definition matchesAttributes :: "Attributes \<Rightarrow> Attributes \<Rightarrow> bool" where
  "matchesAttributes a1 a2 =
     (if \<not> matchesAttribute (cpe_Product a1) (cpe_Product a2)
         \<or> \<not> matchesAttribute (cpe_Vendor a1) (cpe_Vendor a2)
         \<or> \<not> matchesAttribute (cpe_Part a1) (cpe_Part a2)
         \<or> \<not> matchesAttribute (cpe_Language a1) (cpe_Language a2)
         \<or> \<not> matchesAttribute (cpe_SWEdition a1) (cpe_SWEdition a2)
         \<or> \<not> matchesAttribute (cpe_TargetSW a1) (cpe_TargetSW a2)
         \<or> \<not> matchesAttribute (cpe_TargetHW a1) (cpe_TargetHW a2)
         \<or> \<not> matchesAttribute (cpe_Other a1) (cpe_Other a2)
         \<or> \<not> matchesAttribute (cpe_Edition a1) (cpe_Edition a2)
      then False else True)"

definition containsCPE :: "Attributes list \<Rightarrow> Attributes \<Rightarrow> bool" where
  "containsCPE cpes c = list_ex (matchesAttributes c) cpes"

definition compatibleVersion :: "string \<Rightarrow> string \<Rightarrow> bool" where
  "compatibleVersion fullVersion partialVersion =
     (if fullVersion = [] then True
      else if fullVersion = partialVersion then True
      else if strings_HasPrefix fullVersion partialVersion \<and> length fullVersion > length partialVersion
              \<and> fullVersion ! length partialVersion = CHR ''.'' then True
      else False)"

definition overrideMap :: "(string \<times> string) list" where
  "overrideMap =
    [(''centos'', ''rhel''), (''rocky'', ''rhel''), (''rockylinux'', ''rhel''), (''alma'', ''rhel''), (''almalinux'', ''rhel''),
     (''gentoo'', ''rhel''), (''archlinux'', ''arch''), (''oracle'', ''ol''), (''oraclelinux'', ''ol''), (''amazon'', ''amzn''),
     (''amazonlinux'', ''amzn'')]"

definition applyMapping :: "string \<Rightarrow> string" where
  "applyMapping i = (case map_of IDMapping i of Some replacement \<Rightarrow> replacement | None \<Rightarrow> i)"

definition mimicV6DistroTypeOverrides :: "string \<Rightarrow> string" where
  "mimicV6DistroTypeOverrides t =
     (case map_of overrideMap t of Some replacement \<Rightarrow> applyMapping replacement | None \<Rightarrow> applyMapping t)"

definition matchesDistro :: "Distro \<Rightarrow> string \<Rightarrow> string \<Rightarrow> bool" where
  "matchesDistro d nsType nsVersion =
     (if mimicV6DistroTypeOverrides nsType \<noteq> mimicV6DistroTypeOverrides (distro_Type d) then False
      else compatibleVersion (distro_Version d) nsVersion)"

definition matchesExactDistro :: "Distro \<Rightarrow> string \<Rightarrow> string \<Rightarrow> bool" where
  "matchesExactDistro d nsType nsVersion =
     (if distro_Type d \<noteq> nsType then False else compatibleVersion (distro_Version d) nsVersion)"

definition Distro_MatchesVulnerability :: "Distro list \<Rightarrow> bool \<Rightarrow> 'o SVuln \<Rightarrow> bool" where
  "Distro_MatchesVulnerability distros exact v =
     (case namespace_FromString (vuln_Namespace v) of
        Inr (DistroNamespace _ ty ver) \<Rightarrow>
          if distros = [] then True
          else list_ex (\<lambda>d. if exact then matchesExactDistro d ty ver else matchesDistro d ty ver) distros
      | _ \<Rightarrow> False)"

definition Ecosystem_MatchesVulnerability :: "string \<Rightarrow> 'o SVuln \<Rightarrow> bool" where
  "Ecosystem_MatchesVulnerability language v =
     (case namespace_FromString (vuln_Namespace v) of
        Inr (LanguageNamespace _ l _) \<Rightarrow> language = l
      | _ \<Rightarrow> False)"

text \<open>The constraint check of a version: an unsupported comparison is no match and no error, a non-fatal error
  is logged and the answer kept.\<close>

definition version_criteria :: "'o libs \<Rightarrow> 'o Version \<Rightarrow> 'o constraint \<Rightarrow> (bool \<times> verror option) go" where
  "version_criteria L v c =
     map_option (\<lambda>(_, satisfied, err).
         case err of
           None \<Rightarrow> (satisfied, None)
         | Some e \<Rightarrow>
             if errors_As is_unsupported_comparison e then (False, None)
             else if errors_As is_non_fatal_constraint e then (satisfied, None)
             else (False, Some (Wrap ''failed to check constraint'' e)))
       (constraint_Satisfied L c (Some v))"

definition ConstraintFunc_MatchesVulnerability ::
  "('o constraint \<Rightarrow> (bool \<times> verror option) go) \<Rightarrow> 'o SVuln \<Rightarrow> (bool \<times> verror option) go" where
  "ConstraintFunc_MatchesVulnerability fn v =
     (case sv_Constraint v of
        None \<Rightarrow> Some (False, None)
      | Some c \<Rightarrow> map_option (\<lambda>(m, err). case err of Some _ \<Rightarrow> (False, None) | None \<Rightarrow> (m, None)) (fn c))"

fun fixed_loop :: "'o libs \<Rightarrow> 'o Version \<Rightarrow> verror option \<Rightarrow> string list \<Rightarrow> (bool \<times> verror option) go" where
  "fixed_loop L v err [] = Some (False, err)"
| "fixed_loop L v err (fixVersion # fixes) = do {
     r \<leftarrow> Version_Compare L v (Some (New fixVersion (ver_Format v)));
     (case r of
        (_, cmp, e) \<Rightarrow>
          let err = (case e of Some _ \<Rightarrow> e | None \<Rightarrow> err) in
          if cmp \<ge> 0 then Some (True, err) else fixed_loop L v err fixes)
   }"

definition ByFixedVersion :: "'o libs \<Rightarrow> 'o Version \<Rightarrow> 'o leaf" where
  "ByFixedVersion L v =
     FuncCriteriaPtr (\<lambda>vuln. if fix_State (vuln_Fix vuln) \<noteq> ''fixed'' then Some (False, None)
                              else fixed_loop L v None (fix_Versions (vuln_Fix vuln)))"

fun leaf_MatchesVulnerability :: "'o libs \<Rightarrow> 'o leaf \<Rightarrow> 'o SVuln \<Rightarrow> (bool \<times> verror option) go" where
  "leaf_MatchesVulnerability L (IDCriteria i) v = Some (vuln_ID v = i, None)"
| "leaf_MatchesVulnerability L (PackageNameCriteria n) v = Some (strings_EqualFold (sv_PackageName v) n, None)"
| "leaf_MatchesVulnerability L (EcosystemCriteria l t) v = Some (Ecosystem_MatchesVulnerability l v, None)"
| "leaf_MatchesVulnerability L (DistroCriteria ds exact) v = Some (Distro_MatchesVulnerability ds exact v, None)"
| "leaf_MatchesVulnerability L (CPECriteria c) v = Some (containsCPE (sv_CPEs v) c, None)"
| "leaf_MatchesVulnerability L (VersionCriteria ver) v = ConstraintFunc_MatchesVulnerability (version_criteria L ver) v"
| "leaf_MatchesVulnerability L (ConstraintFuncCriteria fn) v = ConstraintFunc_MatchesVulnerability fn v"
| "leaf_MatchesVulnerability L UnaffectedCriteria v = Some (sv_Unaffected v, None)"
| "leaf_MatchesVulnerability L (FuncCriteria fn) v = fn v"
| "leaf_MatchesVulnerability L (FuncCriteriaPtr fn) v = fn v"

text \<open>The types that implement \<^verbatim>\<open>VersionConstraintMatcher\<close>, and the combination of two of them.\<close>

fun MatchesConstraint :: "'o libs \<Rightarrow> 'o leaf \<Rightarrow> 'o constraint \<Rightarrow> (bool \<times> verror option) go option" where
  "MatchesConstraint L (VersionCriteria ver) c = Some (version_criteria L ver c)"
| "MatchesConstraint L (ConstraintFuncCriteria fn) c = Some (fn c)"
| "MatchesConstraint L _ c = None"

definition MultiConstraintMatcher ::
  "('o constraint \<Rightarrow> (bool \<times> verror option) go) \<Rightarrow> ('o constraint \<Rightarrow> (bool \<times> verror option) go)
   \<Rightarrow> 'o constraint \<Rightarrow> (bool \<times> verror option) go" where
  "MultiConstraintMatcher fa fb c = do {
     r \<leftarrow> fa c;
     (case r of (a, err) \<Rightarrow> if a \<or> err \<noteq> None then Some (a, err) else fb c)
   }"

section \<open>Conjunctions and disjunctions\<close>

fun MatchesVulnerability :: "'o libs \<Rightarrow> 'o leaf criteria \<Rightarrow> 'o SVuln \<Rightarrow> (bool \<times> verror option) go"
  and or_Matches :: "'o libs \<Rightarrow> 'o leaf criteria list \<Rightarrow> 'o SVuln \<Rightarrow> (bool \<times> verror option) go"
  and and_Matches :: "'o libs \<Rightarrow> 'o leaf criteria list \<Rightarrow> 'o SVuln \<Rightarrow> (bool \<times> verror option) go" where
  "MatchesVulnerability L (Leaf l) v = leaf_MatchesVulnerability L l v"
| "MatchesVulnerability L (OrC cs) v = or_Matches L cs v"
| "MatchesVulnerability L (AndC cs) v = and_Matches L cs v"
| "or_Matches L [] v = Some (False, None)"
| "or_Matches L (crit # cs) v = do {
     r \<leftarrow> MatchesVulnerability L crit v;
     (case r of (m, err) \<Rightarrow> if m \<or> err \<noteq> None then Some (m, err) else or_Matches L cs v)
   }"
| "and_Matches L [] v = Some (False, None)"
| "and_Matches L (crit # cs) v = do {
     r \<leftarrow> MatchesVulnerability L crit v;
     (case r of (m, err) \<Rightarrow> if m \<or> err \<noteq> None then Some (m, err) else and_Matches L cs v)
   }"

section \<open>Iterating over rows\<close>

text \<open>The callback \<open>yield\<close> works on a state and says whether to go on.\<close>

type_synonym ('l, 's) yield = "'l list \<Rightarrow> 's \<Rightarrow> bool \<times> 's"

primrec weight :: "'l criteria \<Rightarrow> nat" where
  "weight (AndC cs) = Suc (sum_list (map weight cs))"
| "weight (OrC cs) = Suc (sum_list (map weight cs))"
| "weight (Leaf l) = 1"

lemma weight_pos [simp]: "0 < weight c"
  by (cases c) auto

function (sequential) processRemaining :: "'l list \<Rightarrow> 'l criteria list \<Rightarrow> ('l, 's) yield \<Rightarrow> 's \<Rightarrow> bool \<times> 's"
  and processRemainingItem :: "'l list \<Rightarrow> 'l criteria list \<Rightarrow> 'l criteria \<Rightarrow> ('l, 's) yield \<Rightarrow> 's \<Rightarrow> bool \<times> 's"
  and process_options :: "'l list \<Rightarrow> 'l criteria list \<Rightarrow> 'l criteria list \<Rightarrow> ('l, 's) yield \<Rightarrow> 's \<Rightarrow> bool \<times> 's" where
  "processRemaining row [] yield s = yield row s"
| "processRemaining row (c # cs) yield s = processRemainingItem row cs c yield s"
| "processRemainingItem row cs (AndC item) yield s = processRemaining row (item @ cs) yield s"
| "processRemainingItem row cs (OrC item) yield s = process_options row cs item yield s"
| "processRemainingItem row cs (Leaf l) yield s = processRemaining (row @ [l]) cs yield s"
| "process_options row cs [] yield s = (True, s)"
| "process_options row cs (option # options) yield s =
     (case processRemainingItem row cs option yield s of
        (False, s') \<Rightarrow> (False, s')
      | (True, s') \<Rightarrow> process_options row cs options yield s')"
  by pat_completeness auto

termination
  by (relation "measure (\<lambda>x. case x of
        Inl (row, cs, yield, s) \<Rightarrow> 2 * sum_list (map weight cs) + 1
      | Inr (Inl (row, cs, c, yield, s)) \<Rightarrow> 2 * (weight c + sum_list (map weight cs))
      | Inr (Inr (row, cs, options, yield, s)) \<Rightarrow> 2 * (sum_list (map weight options) + sum_list (map weight cs)) + 1)")
    auto

definition CriteriaIterator :: "'l criteria list \<Rightarrow> (nat \<Rightarrow> 'l list \<Rightarrow> 's \<Rightarrow> bool \<times> 's) \<Rightarrow> 's \<Rightarrow> 's" where
  "CriteriaIterator cs yield s =
     (if cs = [] then s
      else snd (snd (processRemaining [] cs (\<lambda>row (idx, s). case yield idx row s of (out, s') \<Rightarrow> (out, (idx + 1, s'))) (0, s))))"

text \<open>The dynamic type of a criterion.\<close>

fun leaf_type :: "'o leaf \<Rightarrow> string" where
  "leaf_type (IDCriteria _) = ''*IDCriteria''"
| "leaf_type (PackageNameCriteria _) = ''*PackageNameCriteria''"
| "leaf_type (EcosystemCriteria _ _) = ''*EcosystemCriteria''"
| "leaf_type (DistroCriteria _ _) = ''*DistroCriteria''"
| "leaf_type (CPECriteria _) = ''*CPECriteria''"
| "leaf_type (VersionCriteria _) = ''*VersionCriteria''"
| "leaf_type (ConstraintFuncCriteria _) = ''*constraintFuncCriteria''"
| "leaf_type UnaffectedCriteria = ''*UnaffectedCriteria''"
| "leaf_type (FuncCriteria _) = ''funcCriteria''"
| "leaf_type (FuncCriteriaPtr _) = ''*funcCriteria''"

definition allowedMultipleCriteria :: "string list" where
  "allowedMultipleCriteria = [''funcCriteria'']"

fun conflict_loop :: "string list \<Rightarrow> 'o leaf list \<Rightarrow> bool" where
  "conflict_loop seenTypes [] = False"
| "conflict_loop seenTypes (criterion # row) =
     (let criterionType = leaf_type criterion in
      if criterionType \<in> set allowedMultipleCriteria then conflict_loop seenTypes row
      else if criterionType \<in> set seenTypes then True
      else conflict_loop (criterionType # seenTypes) row)"

text \<open>Returning from the loop over the rows stops the iteration.\<close>

definition ValidateCriteria :: "'o leaf criteria list \<Rightarrow> verror option" where
  "ValidateCriteria cs =
     CriteriaIterator cs (\<lambda>_ row err.
       if conflict_loop [] row then (False, Some (Msg ''multiple conflicting criteria specified'')) else (True, err)) None"

section \<open>Rows are the disjunctive normal form\<close>

primrec dnf :: "'l criteria \<Rightarrow> 'l list list" where
  "dnf (AndC cs) = fold (\<lambda>d acc. concat (map (\<lambda>a. map ((@) a) d) acc)) (map dnf cs) [[]]"
| "dnf (OrC cs) = concat (map dnf cs)"
| "dnf (Leaf l) = [[l]]"

definition rows_of :: "'l list list \<Rightarrow> 'l criteria list \<Rightarrow> 'l list list" where
  "rows_of acc cs = fold (\<lambda>d acc. concat (map (\<lambda>a. map ((@) a) d) acc)) (map dnf cs) acc"

lemma rows_of_append: "rows_of acc (xs @ ys) = rows_of (rows_of acc xs) ys"
  by (simp add: rows_of_def)

lemma rows_of_concat: "rows_of (acc1 @ acc2) cs = rows_of acc1 cs @ rows_of acc2 cs"
proof -
  have "fold (\<lambda>d acc. concat (map (\<lambda>a. map ((@) a) d) acc)) ds (acc1 @ acc2)
      = fold (\<lambda>d acc. concat (map (\<lambda>a. map ((@) a) d) acc)) ds acc1 @ fold (\<lambda>d acc. concat (map (\<lambda>a. map ((@) a) d) acc)) ds acc2"
    for ds :: "'a list list list"
    by (induction ds arbitrary: acc1 acc2) simp_all
  then show ?thesis by (simp add: rows_of_def)
qed

lemma rows_of_Nil: "rows_of [] cs = []"
  by (induction cs) (simp_all add: rows_of_def)

text \<open>Conjuncts after a common prefix.\<close>

lemma rows_of_prefix: "rows_of (map ((@) p) acc) cs = map ((@) p) (rows_of acc cs)"
proof (induction cs arbitrary: acc)
  case (Cons c cs)
  have "concat (map (\<lambda>a. map ((@) a) (dnf c)) (map ((@) p) acc)) = map ((@) p) (concat (map (\<lambda>a. map ((@) a) (dnf c)) acc))"
    by (induction acc) simp_all
  then show ?case using Cons.IH by (simp add: rows_of_def)
qed (simp add: rows_of_def)

lemma dnf_And: "dnf (AndC cs) = rows_of [[]] cs"
  by (simp add: rows_of_def)

lemma rows_of_row: "rows_of [row] (c # cs) = rows_of (map ((@) row) (dnf c)) cs"
  by (simp add: rows_of_def)

text \<open>Going through rows with a callback until it says stop.\<close>

fun iterate :: "('l, 's) yield \<Rightarrow> 'l list list \<Rightarrow> 's \<Rightarrow> bool \<times> 's" where
  "iterate yield [] s = (True, s)"
| "iterate yield (row # rows) s =
     (case yield row s of (False, s') \<Rightarrow> (False, s') | (True, s') \<Rightarrow> iterate yield rows s')"

lemma iterate_append:
  "iterate yield (xs @ ys) s = (case iterate yield xs s of (False, s') \<Rightarrow> (False, s') | (True, s') \<Rightarrow> iterate yield ys s')"
  by (induction xs arbitrary: s) (auto split: prod.splits bool.splits)

lemma iterate_single: "iterate yield [row] s = yield row s"
  by (auto split: prod.splits bool.splits)

lemma process_rows:
  "processRemaining row cs yield s = iterate yield (rows_of [row] cs) s"
  "processRemainingItem row cs c yield s = iterate yield (rows_of [row] (c # cs)) s"
  "process_options row cs opts yield s = iterate yield (concat (map (\<lambda>c. rows_of [row] (c # cs)) opts)) s"
proof (induction row cs yield s and row cs c yield s and row cs opts yield s
    rule: processRemaining_processRemainingItem_process_options.induct)
  case (1 row yield s)
  then show ?case by (simp add: rows_of_def iterate_single del: iterate.simps)
next
  case (3 row cs item yield s)
  have "rows_of (map ((@) row) (rows_of [[]] item)) cs = rows_of [row] (item @ cs)"
    using rows_of_prefix [of row "[[]]" item] by (simp add: rows_of_append)
  then show ?case using 3 by (simp add: rows_of_row [of row "AndC item"] dnf_And del: dnf.simps)
next
  case (4 row cs item yield s)
  have "rows_of (map ((@) row) (concat (map dnf item))) cs = concat (map (\<lambda>c. rows_of [row] (c # cs)) item)"
  proof (induction item)
    case (Cons c item)
    then show ?case by (simp add: rows_of_concat rows_of_row)
  qed (simp add: rows_of_Nil)
  then show ?case using 4 by (simp add: rows_of_row [of row "OrC item"])
next
  case (5 row cs l yield s)
  then show ?case by (simp add: rows_of_row)
next
  case (7 row cs option options yield s)
  then show ?case by (auto simp: iterate_append split: prod.splits bool.splits)
qed simp_all

text \<open>What criteria mean, given what each leaf means.\<close>

primrec holds :: "('l \<Rightarrow> bool) \<Rightarrow> 'l criteria \<Rightarrow> bool" where
  "holds P (AndC cs) = list_all (\<lambda>b. b) (map (holds P) cs)"
| "holds P (OrC cs) = list_ex (\<lambda>b. b) (map (holds P) cs)"
| "holds P (Leaf l) = P l"

lemma rows_of_step:
  "list_ex (list_all P) (concat (map (\<lambda>a. map ((@) a) d) acc)) \<longleftrightarrow> list_ex (list_all P) acc \<and> list_ex (list_all P) d"
  by (auto simp: list_ex_iff)

lemma holds_dnf: "list_ex (list_all P) (dnf c) \<longleftrightarrow> holds P c"
proof (induction c)
  case (AndC cs)
  have "list_ex (list_all P) (rows_of acc cs) \<longleftrightarrow> list_ex (list_all P) acc \<and> list_all (holds P) cs" for acc
    using AndC
  proof (induction cs arbitrary: acc)
    case (Cons c cs)
    have "rows_of acc (c # cs) = rows_of (concat (map (\<lambda>a. map ((@) a) (dnf c)) acc)) cs" by (simp add: rows_of_def)
    with Cons show ?case by (simp add: rows_of_step)
  qed (simp add: rows_of_def)
  then show ?case unfolding dnf_And by (simp add: list.pred_map comp_def)
next
  case (OrC cs)
  then show ?case by (auto simp: list_ex_iff)
qed simp

lemma holds_rows: "list_ex (list_all P) (rows_of [[]] cs) \<longleftrightarrow> list_all (holds P) cs"
  using holds_dnf [of P "AndC cs"] unfolding dnf_And by (simp add: list.pred_map comp_def)

lemma iterator_rows:
  "cs \<noteq> [] \<Longrightarrow> CriteriaIterator cs (\<lambda>i row s. f row s) s =
     snd (iterate f (rows_of [[]] cs) s)"
proof -
  have "snd (snd (iterate (\<lambda>row (idx, s). case f row s of (out, s') \<Rightarrow> (out, (idx + 1, s'))) rows (i, s))) = snd (iterate f rows s)"
    for rows and i :: nat and s
    by (induction rows arbitrary: i s) (auto split: prod.splits bool.splits)
  then show "cs \<noteq> [] \<Longrightarrow> CriteriaIterator cs (\<lambda>i row s. f row s) s = snd (iterate f (rows_of [[]] cs) s)"
    by (simp add: CriteriaIterator_def process_rows)
qed

lemma conflict_iff:
  "conflict_loop seen row \<longleftrightarrow>
     \<not> distinct (filter (\<lambda>t. t \<notin> set allowedMultipleCriteria) (map leaf_type row))
     \<or> set (filter (\<lambda>t. t \<notin> set allowedMultipleCriteria) (map leaf_type row)) \<inter> set seen \<noteq> {}"
  by (induction row arbitrary: seen) (auto simp: Let_def)

lemma iterate_collect: "iterate (\<lambda>row acc. (True, acc @ [row])) rows acc = (True, acc @ rows)"
  by (induction rows arbitrary: acc) simp_all

section \<open>Properties\<close>





end
