(* ===== verification/Vex.thy ===== *)
theory Vex
  imports Scan
begin

text \<open>
  VEX documents: \<^verbatim>\<open>grype/vex/processor.go\<close>, \<^verbatim>\<open>grype/vex/status\<close>, \<^verbatim>\<open>grype/vex/openvex\<close> and
  \<^verbatim>\<open>grype/vex/csaf\<close>.

  The document libraries are parameters: for OpenVEX what \<^verbatim>\<open>doc.Matches\<close> returns for a vulnerability, a
  product and subcomponents; for CSAF the identification helpers of a product; for package URLs and image
  references their construction and parsing.  The values VEX puts into match details are texts (\<open>OtherAny\<close>) made by
  parameters too.  Pointers in CSAF advisories are options, and dereferencing nil is a panic (\<^const>\<open>None\<close>).

  The locale \<open>vex_implementation\<close> is the interface \<^verbatim>\<open>vexProcessorImplementation\<close>; it is interpreted on
  both formats.
\<close>

section \<open>Statuses\<close>

definition NotAffected :: string where "NotAffected = ''not_affected''"
definition Affected :: string where "Affected = ''affected''"
definition Fixed :: string where "Fixed = ''fixed''"
definition UnderInvestigation :: string where "UnderInvestigation = ''under_investigation''"

definition AugmentList :: "string list" where
  "AugmentList = [Affected, UnderInvestigation]"

definition IgnoreList :: "string list" where
  "IgnoreList = [Fixed, NotAffected]"

definition matchesVexStatus :: "string \<Rightarrow> string \<Rightarrow> bool" where
  "matchesVexStatus csafStatus status =
     (if csafStatus \<in> {''first_affected'', ''known_affected'', ''last_affected'', ''recommended''} then status = Affected
      else if csafStatus \<in> {''first_fixed'', ''fixed''} then status = Fixed
      else if csafStatus = ''known_not_affected'' then status = NotAffected
      else if csafStatus = ''under_investigation'' then status = UnderInvestigation
      else False)"

section \<open>OpenVEX\<close>

record Statement =
  st_Status :: string
  st_Justification :: string
  st_VulnerabilityID :: string
  st_Matches :: "string \<Rightarrow> bool"

text \<open>\<open>ImageMetadata tags repoDigests\<close>, or any other kind of source.\<close>

datatype SourceMetadata =
    ImageMetadata "string list" "string list"
  | OtherMetadata

record Context =
  ctx_Metadata :: SourceMetadata
  ctx_Name :: string
  ctx_Version :: string

record reference =
  ir_Identifier :: string
  ir_Registry :: string
  ir_Repository :: string

text \<open>CSAF advisories, with pointers as options.  \<open>adv_CollectHelpers\<close> is the method
  \<^verbatim>\<open>ProductTree.CollectProductIdentificationHelpers\<close>.\<close>

record csaf_helper =
  ph_PURL :: "string option"

record csaf_flag =
  fl_Label :: "string option"
  fl_ProductIds :: "string option list option"

record csaf_threat =
  th_Category :: "string option"
  th_Details :: "string option"
  th_ProductIds :: "string option list option"

record ProductStatus =
  ps_FirstAffected :: "string option list option"
  ps_FirstFixed :: "string option list option"
  ps_Fixed :: "string option list option"
  ps_KnownAffected :: "string option list option"
  ps_KnownNotAffected :: "string option list option"
  ps_LastAffected :: "string option list option"
  ps_Recommended :: "string option list option"
  ps_UnderInvestigation :: "string option list option"

record csaf_vulnerability =
  cv_CVE :: "string option"
  cv_Flags :: "csaf_flag option list"
  cv_Threats :: "csaf_threat option list"
  cv_ProductStatus :: "ProductStatus option"

record Advisory =
  adv_Vulnerabilities :: "csaf_vulnerability option list"
  adv_CollectHelpers :: "string \<Rightarrow> csaf_helper option list"
  adv_CurrentReleaseDate :: "string option"

record advisoryMatch =
  am_Vulnerability :: csaf_vulnerability
  am_Status :: string
  am_ProductID :: string

text \<open>An OpenVEX document, through its method \<^verbatim>\<open>Matches\<close>; and the order in which Go visits the map of
  statuses of a vulnerability.\<close>

type_synonym openvex_doc = "string \<Rightarrow> string \<Rightarrow> string list \<Rightarrow> Statement list"
type_synonym status_order = "csaf_vulnerability \<Rightarrow> string list"

datatype vexdoc =
    OpenVexDoc openvex_doc
  | CsafAdvisories "Advisory option list"

text \<open>\<^const>\<open>None\<close> is a panic.\<close>

type_synonym vex_result = "(serror + Matches \<times> IgnoredMatch list) option"

definition the_status :: "(string \<times> string option list option) list \<Rightarrow> string \<Rightarrow> string option list option" where
  "the_status entries st = (case map_of entries st of None \<Rightarrow> None | Some ps \<Rightarrow> ps)"

text \<open>Parameters: \<open>vx_menv\<close> and \<open>vx_renv\<close> as for matches and rules; \<^verbatim>\<open>packageurl\<close>, \<^verbatim>\<open>name.ParseReference\<close>,
  \<^verbatim>\<open>time.Parse\<close> (as an instant), \<^verbatim>\<open>os.Stat\<close>, the loading of documents, and the texts that stand for the
  values in details.\<close>

record vex_env =
  vx_menv :: menv
  vx_renv :: renv
  vx_oci_purl :: "string \<Rightarrow> string \<Rightarrow> (string \<times> string) list \<Rightarrow> string"
  vx_ParseReference :: "string \<Rightarrow> reference option"
  vx_searched :: "string \<Rightarrow> string \<Rightarrow> string list \<Rightarrow> any"
  vx_found :: "Statement \<Rightarrow> any"
  vx_csaf_searched :: "string \<Rightarrow> string \<Rightarrow> any"
  vx_csaf_found :: "advisoryMatch \<Rightarrow> any"
  vx_filter_order :: status_order
  vx_augment_order :: status_order
  vx_os_Stat :: "string \<Rightarrow> bool"
  vx_openvex_Load :: "string \<Rightarrow> bool"
  vx_MergeFiles :: "string list \<Rightarrow> openvex_doc option"
  vx_LoadAdvisory :: "string \<Rightarrow> Advisory option"
  vx_time_Parse :: "string \<Rightarrow> int option"

definition strings_TrimSuffix :: "string \<Rightarrow> string \<Rightarrow> string" where
  "strings_TrimSuffix s p = (if strings_HasSuffix s p then take (length s - length p) s else s)"

definition normalizeDockerHubRepositoryURL :: "string \<Rightarrow> string" where
  "normalizeDockerHubRepositoryURL repo =
     (let repoURL = strings_TrimSpace repo in
      if repoURL = [] then repoURL
      else
        let repoURL = strings_TrimPrefix repoURL ''https://'';
            repoURL = strings_TrimPrefix repoURL ''http://'';
            repoURL = strings_TrimSuffix repoURL ''/'';
            (host, rest, hasSlash) = (case strings_Cut repoURL ''/'' of
                None \<Rightarrow> (repoURL, [], False) | Some (b, a) \<Rightarrow> (b, a, True));
            host = (if strings_ToLower host \<in> {''docker.io'', ''index.docker.io'', ''registry-1.docker.io''}
                    then ''index.docker.io'' else host) in
        if \<not> hasSlash \<or> rest = [] then host else host @ ''/'' @ rest)"

definition identifiersFromTags :: "vex_env \<Rightarrow> string list \<Rightarrow> string \<Rightarrow> string list" where
  "identifiersFromTags X tags name =
     concat (map (\<lambda>tag. tag # (case strings_Cut tag '':'' of
         None \<Rightarrow> []
       | Some (_, splitTag) \<Rightarrow> [vx_oci_purl X name [] [(''tag'', splitTag)]])) tags)"

definition digest_identifiers :: "vex_env \<Rightarrow> string \<Rightarrow> string list" where
  "digest_identifiers X d =
     (case vx_ParseReference X d of
        None \<Rightarrow> []
      | Some ref \<Rightarrow>
          let shaString = ir_Identifier ref in
          if \<not> strings_HasPrefix shaString ''sha256:'' then []
          else
            let name = last (split_char (CHR ''/'') (ir_Repository ref));
                repoURL = strings_TrimSuffix (ir_Registry ref @ ''/'' @ ir_Repository ref) (''/'' @ name);
                repoURL = normalizeDockerHubRepositoryURL repoURL;
                qMap = (if repoURL \<noteq> [] then [(''repository_url'', repoURL)] else []) in
            [vx_oci_purl X name shaString qMap, strings_TrimPrefix shaString ''sha256:''])"

definition identifiersFromDigests :: "vex_env \<Rightarrow> string list \<Rightarrow> string list" where
  "identifiersFromDigests X digests = concat (map (\<lambda>d. d # digest_identifiers X d) digests)"

definition productIdentifiersFromContext :: "vex_env \<Rightarrow> Context \<Rightarrow> string list" where
  "productIdentifiersFromContext X ctx =
     (case ctx_Metadata ctx of
        ImageMetadata tags digests \<Rightarrow> identifiersFromTags X tags (ctx_Name ctx) @ identifiersFromDigests X digests
      | OtherMetadata \<Rightarrow>
          if ctx_Name ctx \<noteq> [] \<and> ctx_Version ctx \<noteq> []
          then [''pkg:generic/'' @ strings_ToLower (ctx_Name ctx) @ ''@'' @ ctx_Version ctx] else [])"

definition subcomponentIdentifiersFromMatch :: "Match \<Rightarrow> string list" where
  "subcomponentIdentifiersFromMatch m = (if pkg_PURL (m_Package m) \<noteq> [] then [pkg_PURL (m_Package m)] else [])"

fun first_statement ::
  "openvex_doc \<Rightarrow> string \<Rightarrow> string list \<Rightarrow> string list \<Rightarrow> (Statement \<times> string \<times> string list) option" where
  "first_statement doc vulnID [] subcmp = None"
| "first_statement doc vulnID (product # products) subcmp =
     (case doc vulnID product subcmp of
        stmt # _ \<Rightarrow> Some (stmt, product, subcmp)
      | [] \<Rightarrow> first_statement doc vulnID products subcmp)"

definition findMatchingStatement ::
  "openvex_doc \<Rightarrow> string \<Rightarrow> string list \<Rightarrow> string list \<Rightarrow> (Statement \<times> string \<times> string list) option" where
  "findMatchingStatement doc vulnID products subcmp =
     (case first_statement doc vulnID products subcmp of
        Some r \<Rightarrow> Some r
      | None \<Rightarrow> first_statement doc vulnID subcmp [])"

text \<open>Does a rule with further conditions apply to the match alone?\<close>

definition applies_alone :: "vex_env \<Rightarrow> Match \<Rightarrow> IgnoreRule \<Rightarrow> bool" where
  "applies_alone X m rule \<longleftrightarrow>
     snd (ApplyIgnoreRules (vx_menv X) (vx_renv X) (Matches_Add (vx_menv X) [m] (NewMatches (vx_menv X) []))
       [rule\<lparr>ir_VexStatus := []\<rparr>]) \<noteq> []"

fun openvex_rule_loop :: "vex_env \<Rightarrow> Match \<Rightarrow> Statement \<Rightarrow> string list \<Rightarrow> IgnoreRule list \<Rightarrow> IgnoreRule option" where
  "openvex_rule_loop X m st allowed [] = None"
| "openvex_rule_loop X m st allowed (rule # rules) =
     (let continue_loop = openvex_rule_loop X m st allowed rules in
      if HasConditions (vx_renv X) rule \<and> \<not> applies_alone X m rule then continue_loop
      else if st_Status st \<noteq> ir_VexStatus rule then continue_loop
      else if ir_VexStatus rule \<noteq> [] \<and> ir_VexStatus rule \<notin> set allowed then continue_loop
      else if st_Status st = NotAffected \<and> ir_VexJustification rule \<noteq> [] \<and> ir_VexJustification rule \<noteq> st_Justification st
        then continue_loop
      else if ir_Vulnerability rule = [] then Some rule
      else if st_Matches st (ir_Vulnerability rule) then Some rule
      else continue_loop)"

definition openvex_matchingRule ::
  "vex_env \<Rightarrow> IgnoreRule list \<Rightarrow> Match \<Rightarrow> Statement \<Rightarrow> string list \<Rightarrow> IgnoreRule option" where
  "openvex_matchingRule X rules m st allowed =
     (if rules = [] \<and> st_Status st \<in> set allowed
      then Some (zero_IgnoreRule\<lparr>ir_Namespace := ''vex'', ir_Vulnerability := st_VulnerabilityID st,
             ir_VexJustification := st_Justification st, ir_VexStatus := st_Status st\<rparr>)
      else openvex_rule_loop X m st allowed rules)"

text \<open>What one round of the loop of \<^verbatim>\<open>FilterMatches\<close> does with a match: the rule under which it is ignored, or
  \<^const>\<open>None\<close> if it remains.\<close>

definition openvex_ignores :: "vex_env \<Rightarrow> openvex_doc \<Rightarrow> IgnoreRule list \<Rightarrow> string list \<Rightarrow> Match \<Rightarrow> IgnoreRule option" where
  "openvex_ignores X doc rules products m =
     (case findMatchingStatement doc (vuln_ID (m_Vulnerability m)) products (subcomponentIdentifiersFromMatch m) of
        None \<Rightarrow> None
      | Some (statement, _, _) \<Rightarrow>
          (case openvex_matchingRule X rules m statement IgnoreList of
             None \<Rightarrow> None
           | Some rule \<Rightarrow>
               if st_Status statement \<noteq> NotAffected \<and> st_Status statement \<noteq> Fixed then None else Some rule))"

text \<open>The loops are shared by both formats.  A round that panics (\<^const>\<open>None\<close>) ends them.\<close>

fun filter_loop ::
  "menv \<Rightarrow> (Match \<Rightarrow> IgnoreRule option option) \<Rightarrow> Match list \<Rightarrow> Matches \<Rightarrow> IgnoredMatch list
   \<Rightarrow> (Matches \<times> IgnoredMatch list) option" where
  "filter_loop E ignores [] remaining ignored = Some (remaining, ignored)"
| "filter_loop E ignores (m # ms) remaining ignored =
     (case ignores m of
        None \<Rightarrow> None
      | Some None \<Rightarrow> filter_loop E ignores ms (Matches_Add E [m] remaining) ignored
      | Some (Some rule) \<Rightarrow>
          filter_loop E ignores ms remaining (ignored @ [\<lparr>im_Match = m, im_AppliedIgnoreRules = [rule]\<rparr>]))"

definition openvex_FilterMatches ::
  "vex_env \<Rightarrow> vexdoc \<Rightarrow> IgnoreRule list \<Rightarrow> Context \<Rightarrow> Matches \<Rightarrow> IgnoredMatch list \<Rightarrow> vex_result" where
  "openvex_FilterMatches X docRaw rules ctx ms ignored =
     (case docRaw of
        CsafAdvisories _ \<Rightarrow> Some (Inl (ErrorText ''unable to cast vex document as openvex''))
      | OpenVexDoc doc \<Rightarrow>
          let products = productIdentifiersFromContext X ctx in
          map_option Inr (filter_loop (vx_menv X) (\<lambda>m. Some (openvex_ignores X doc rules products m))
            (Sorted (vx_menv X) ms) (NewMatches (vx_menv X) []) ignored))"

text \<open>One round of \<^verbatim>\<open>AugmentMatches\<close>: the match with its new detail if it becomes active again.\<close>

definition openvex_augments :: "vex_env \<Rightarrow> openvex_doc \<Rightarrow> IgnoreRule list \<Rightarrow> string list \<Rightarrow> Match \<Rightarrow> Match option" where
  "openvex_augments X doc rules products m =
     (case findMatchingStatement doc (vuln_ID (m_Vulnerability m)) products (subcomponentIdentifiersFromMatch m) of
        None \<Rightarrow> None
      | Some (statement, product, subcmp) \<Rightarrow>
          if st_Status statement \<noteq> Affected \<and> st_Status statement \<noteq> UnderInvestigation then None
          else case openvex_matchingRule X rules m statement AugmentList of
                 None \<Rightarrow> None
               | Some _ \<Rightarrow>
                   Some (m\<lparr>m_Details := m_Details m @ [\<lparr>d_Type = ExactDirectMatch,
                      d_SearchedBy = vx_searched X (vuln_ID (m_Vulnerability m)) product subcmp,
                      d_Found = vx_found X statement, d_Matcher = ''openvex-matcher'', d_Confidence = 0\<rparr>]\<rparr>))"

fun augment_loop ::
  "menv \<Rightarrow> (Match \<Rightarrow> Match option option) \<Rightarrow> IgnoredMatch list \<Rightarrow> Matches \<Rightarrow> IgnoredMatch list
   \<Rightarrow> (Matches \<times> IgnoredMatch list) option" where
  "augment_loop E augments [] remaining additional = Some (remaining, additional)"
| "augment_loop E augments (i # is) remaining additional =
     (case augments (im_Match i) of
        None \<Rightarrow> None
      | Some None \<Rightarrow> augment_loop E augments is remaining (additional @ [i])
      | Some (Some newMatch) \<Rightarrow> augment_loop E augments is (Matches_Add E [newMatch] remaining) additional)"

definition openvex_AugmentMatches ::
  "vex_env \<Rightarrow> vexdoc \<Rightarrow> IgnoreRule list \<Rightarrow> Context \<Rightarrow> Matches \<Rightarrow> IgnoredMatch list \<Rightarrow> vex_result" where
  "openvex_AugmentMatches X docRaw rules ctx remaining ignored =
     (case docRaw of
        CsafAdvisories _ \<Rightarrow> Some (Inl (ErrorText ''unable to cast vex document as openvex''))
      | OpenVexDoc doc \<Rightarrow>
          let products = productIdentifiersFromContext X ctx in
          map_option Inr (augment_loop (vx_menv X) (\<lambda>m. Some (openvex_augments X doc rules products m)) ignored remaining []))"

definition IsOpenVex :: "vex_env \<Rightarrow> string \<Rightarrow> bool" where
  "IsOpenVex X document = vx_openvex_Load X document"

definition openvex_ReadVexDocuments :: "vex_env \<Rightarrow> string list \<Rightarrow> serror + vexdoc" where
  "openvex_ReadVexDocuments X docs =
     (case vx_MergeFiles X docs of
        None \<Rightarrow> Inl (ErrorText ''merging vex documents'')
      | Some vexdata \<Rightarrow> Inr (OpenVexDoc vexdata))"

section \<open>CSAF\<close>

definition advisoryMatch_cve :: "advisoryMatch \<Rightarrow> string" where
  "advisoryMatch_cve m = (case cv_CVE (am_Vulnerability m) of None \<Rightarrow> [] | Some c \<Rightarrow> c)"

text \<open>The label of the first flag that names the product.\<close>

fun flag_loop :: "string \<Rightarrow> csaf_flag option list \<Rightarrow> string option" where
  "flag_loop productID [] = None"
| "flag_loop productID (flag # flags) =
     (case flag of
        None \<Rightarrow> flag_loop productID flags
      | Some f \<Rightarrow>
          (case (fl_ProductIds f, fl_Label f) of
             (Some pids, Some label) \<Rightarrow>
               if Some productID \<in> set pids then Some label else flag_loop productID flags
           | _ \<Rightarrow> flag_loop productID flags))"

text \<open>The details of the first impact threat that names the product.  The list of products is dereferenced
  unchecked: the outer \<^const>\<open>None\<close> is the panic.\<close>

fun threat_loop :: "string \<Rightarrow> csaf_threat option list \<Rightarrow> string option option" where
  "threat_loop productID [] = Some None"
| "threat_loop productID (th # ths) =
     (case th of
        None \<Rightarrow> threat_loop productID ths
      | Some t \<Rightarrow>
          (case (th_Category t, th_Details t) of
             (Some category, Some details) \<Rightarrow>
               if category \<noteq> ''impact'' then threat_loop productID ths
               else (case th_ProductIds t of
                       None \<Rightarrow> None
                     | Some pids \<Rightarrow>
                         if Some productID \<in> set pids then Some (Some details) else threat_loop productID ths)
           | _ \<Rightarrow> threat_loop productID ths))"

definition advisoryMatch_statement :: "advisoryMatch \<Rightarrow> string option" where
  "advisoryMatch_statement m =
     (case flag_loop (am_ProductID m) (cv_Flags (am_Vulnerability m)) of
        Some label \<Rightarrow> Some label
      | None \<Rightarrow>
          (case threat_loop (am_ProductID m) (cv_Threats (am_Vulnerability m)) of
             None \<Rightarrow> None
           | Some None \<Rightarrow> Some []
           | Some (Some details) \<Rightarrow> Some details))"

definition purlsFromProductIdentificationHelpers :: "csaf_helper option list \<Rightarrow> string list" where
  "purlsFromProductIdentificationHelpers helpers =
     concat (map (\<lambda>h. case h of None \<Rightarrow> [] | Some helper \<Rightarrow>
       (case ph_PURL helper of None \<Rightarrow> [] | Some purl \<Rightarrow> [purl])) helpers)"

fun findProductID :: "Advisory \<Rightarrow> string \<Rightarrow> string option list \<Rightarrow> string" where
  "findProductID adv purl [] = []"
| "findProductID adv purl (p # products) =
     (case p of
        None \<Rightarrow> findProductID adv purl products
      | Some pid \<Rightarrow>
          if purl \<in> set (purlsFromProductIdentificationHelpers (adv_CollectHelpers adv pid)) then pid
          else findProductID adv purl products)"

definition productsByStatus :: "ProductStatus \<Rightarrow> (string \<times> string option list option) list" where
  "productsByStatus ps =
     [(''first_affected'', ps_FirstAffected ps), (''first_fixed'', ps_FirstFixed ps), (''fixed'', ps_Fixed ps),
      (''known_affected'', ps_KnownAffected ps), (''known_not_affected'', ps_KnownNotAffected ps),
      (''last_affected'', ps_LastAffected ps), (''recommended'', ps_Recommended ps),
      (''under_investigation'', ps_UnderInvestigation ps)]"

text \<open>\<^verbatim>\<open>range\<close> over that map, in the order \<open>ord\<close> gives if it is a permutation.\<close>

definition status_range ::
  "status_order \<Rightarrow> csaf_vulnerability \<Rightarrow> ProductStatus \<Rightarrow> (string \<times> string option list option) list" where
  "status_range ord vuln ps =
     (let entries = productsByStatus ps; es = map (\<lambda>st. (st, the_status entries st)) (ord vuln) in
      if is_perm es entries then es else entries)"

fun status_loop ::
  "Advisory \<Rightarrow> string \<Rightarrow> csaf_vulnerability \<Rightarrow> (string \<times> string option list option) list \<Rightarrow> advisoryMatch option" where
  "status_loop adv purl vuln [] = None"
| "status_loop adv purl vuln ((status, products) # rest) =
     (case products of
        None \<Rightarrow> status_loop adv purl vuln rest
      | Some ps \<Rightarrow>
          let productID = findProductID adv purl ps in
          if productID \<noteq> [] then Some \<lparr>am_Vulnerability = vuln, am_Status = status, am_ProductID = productID\<rparr>
          else status_loop adv purl vuln rest)"

fun vuln_loop ::
  "status_order \<Rightarrow> Advisory \<Rightarrow> string \<Rightarrow> string \<Rightarrow> csaf_vulnerability option list \<Rightarrow> advisoryMatch option option" where
  "vuln_loop ord adv vulnID purl [] = Some None"
| "vuln_loop ord adv vulnID purl (v # vulns) =
     (case v of
        None \<Rightarrow> vuln_loop ord adv vulnID purl vulns
      | Some vuln \<Rightarrow>
          if cv_CVE vuln \<noteq> Some vulnID then vuln_loop ord adv vulnID purl vulns
          else (case cv_ProductStatus vuln of
                  None \<Rightarrow> None
                | Some ps \<Rightarrow>
                    (case status_loop adv purl vuln (status_range ord vuln ps) of
                       Some m \<Rightarrow> Some (Some m)
                     | None \<Rightarrow> vuln_loop ord adv vulnID purl vulns)))"

fun advisories_matches ::
  "status_order \<Rightarrow> string \<Rightarrow> string \<Rightarrow> Advisory option list \<Rightarrow> advisoryMatch option option" where
  "advisories_matches ord vulnID purl [] = Some None"
| "advisories_matches ord vulnID purl (a # advs) =
     (case a of
        None \<Rightarrow> advisories_matches ord vulnID purl advs
      | Some adv \<Rightarrow>
          (case vuln_loop ord adv vulnID purl (adv_Vulnerabilities adv) of
             None \<Rightarrow> None
           | Some (Some m) \<Rightarrow> Some (Some m)
           | Some None \<Rightarrow> advisories_matches ord vulnID purl advs))"

definition IsCSAF :: "vex_env \<Rightarrow> string \<Rightarrow> bool" where
  "IsCSAF X document \<longleftrightarrow> vx_LoadAdvisory X document \<noteq> None"

definition newerCurrentReleaseDateFirst :: "vex_env \<Rightarrow> Advisory \<Rightarrow> Advisory \<Rightarrow> int" where
  "newerCurrentReleaseDateFirst X a b =
     (let parseDate = (\<lambda>d. case d of None \<Rightarrow> None | Some t \<Rightarrow> vx_time_Parse X t) in
      case (parseDate (adv_CurrentReleaseDate a), parseDate (adv_CurrentReleaseDate b)) of
        (None, None) \<Rightarrow> 0
      | (_, None) \<Rightarrow> -1
      | (None, _) \<Rightarrow> 1
      | (Some aT, Some bT) \<Rightarrow> if bT < aT then -1 else if bT > aT then 1 else 0)"

fun load_advisories :: "vex_env \<Rightarrow> string list \<Rightarrow> serror + Advisory list" where
  "load_advisories X [] = Inr []"
| "load_advisories X (doc # docs) =
     (case vx_LoadAdvisory X doc of
        None \<Rightarrow> Inl (ErrorText ''error loading VEX CSAF document'')
      | Some adv \<Rightarrow>
          (case load_advisories X docs of Inl e \<Rightarrow> Inl e | Inr advs \<Rightarrow> Inr (adv # advs)))"

definition csaf_ReadVexDocuments :: "vex_env \<Rightarrow> string list \<Rightarrow> serror + vexdoc" where
  "csaf_ReadVexDocuments X docs =
     (case load_advisories X docs of
        Inl e \<Rightarrow> Inl e
      | Inr advs \<Rightarrow>
          Inr (CsafAdvisories (map Some (go_sort (\<lambda>a b. newerCurrentReleaseDateFirst X a b < 0) advs))))"

fun csaf_rule_loop ::
  "vex_env \<Rightarrow> Match \<Rightarrow> advisoryMatch \<Rightarrow> string list \<Rightarrow> IgnoreRule list \<Rightarrow> IgnoreRule option option" where
  "csaf_rule_loop X m am allowed [] = Some None"
| "csaf_rule_loop X m am allowed (rule # rules) =
     (let continue_loop = csaf_rule_loop X m am allowed rules in
      if HasConditions (vx_renv X) rule \<and> \<not> applies_alone X m rule then continue_loop
      else if \<not> matchesVexStatus (am_Status am) (ir_VexStatus rule) then continue_loop
      else if ir_VexStatus rule \<noteq> [] \<and> ir_VexStatus rule \<notin> set allowed then continue_loop
      else if ir_Vulnerability rule = [] \<or> advisoryMatch_cve am = ir_Vulnerability rule then Some (Some rule)
      else if matchesVexStatus (am_Status am) NotAffected \<and> ir_VexJustification rule \<noteq> [] then
        (case advisoryMatch_statement am of
           None \<Rightarrow> None
         | Some st \<Rightarrow>
             if ir_VexJustification rule \<noteq> st then continue_loop
             else if advisoryMatch_cve am = ir_Vulnerability rule then Some (Some rule)
             else continue_loop)
      else if advisoryMatch_cve am = ir_Vulnerability rule then Some (Some rule)
      else continue_loop)"

text \<open>With no rules the first allowed status the advisory's status stands for makes a rule.\<close>

definition csaf_matchingRule ::
  "vex_env \<Rightarrow> IgnoreRule list \<Rightarrow> Match \<Rightarrow> advisoryMatch \<Rightarrow> string list \<Rightarrow> IgnoreRule option option" where
  "csaf_matchingRule X rules m am allowed =
     (if rules = [] then
        (case List.find (matchesVexStatus (am_Status am)) allowed of
           None \<Rightarrow> Some None
         | Some status \<Rightarrow>
             (case advisoryMatch_statement am of
                None \<Rightarrow> None
              | Some statement \<Rightarrow>
                  Some (Some (zero_IgnoreRule\<lparr>ir_Namespace := ''vex'', ir_Vulnerability := advisoryMatch_cve am,
                    ir_VexJustification := statement, ir_VexStatus := status\<rparr>))))
      else csaf_rule_loop X m am allowed rules)"

definition csaf_ignores ::
  "vex_env \<Rightarrow> Advisory option list \<Rightarrow> IgnoreRule list \<Rightarrow> Match \<Rightarrow> IgnoreRule option option" where
  "csaf_ignores X advs rules m =
     (case advisories_matches (vx_filter_order X) (vuln_ID (m_Vulnerability m)) (pkg_PURL (m_Package m)) advs of
        None \<Rightarrow> None
      | Some None \<Rightarrow> Some None
      | Some (Some am) \<Rightarrow>
          if \<not> matchesVexStatus (am_Status am) NotAffected \<and> \<not> matchesVexStatus (am_Status am) Fixed then Some None
          else csaf_matchingRule X rules m am IgnoreList)"

definition csaf_FilterMatches ::
  "vex_env \<Rightarrow> vexdoc \<Rightarrow> IgnoreRule list \<Rightarrow> Context \<Rightarrow> Matches \<Rightarrow> IgnoredMatch list \<Rightarrow> vex_result" where
  "csaf_FilterMatches X docRaw rules ctx ms ignored =
     (case docRaw of
        OpenVexDoc _ \<Rightarrow> Some (Inl (ErrorText ''unable to cast vex document as CSAF Advisories''))
      | CsafAdvisories advs \<Rightarrow>
          map_option Inr (filter_loop (vx_menv X) (csaf_ignores X advs rules)
            (Sorted (vx_menv X) ms) (NewMatches (vx_menv X) []) ignored))"

definition csaf_augments ::
  "vex_env \<Rightarrow> Advisory option list \<Rightarrow> IgnoreRule list \<Rightarrow> Match \<Rightarrow> Match option option" where
  "csaf_augments X advs rules m =
     (case advisories_matches (vx_augment_order X) (vuln_ID (m_Vulnerability m)) (pkg_PURL (m_Package m)) advs of
        None \<Rightarrow> None
      | Some None \<Rightarrow> Some None
      | Some (Some am) \<Rightarrow>
          (case csaf_matchingRule X rules m am AugmentList of
             None \<Rightarrow> None
           | Some None \<Rightarrow> Some None
           | Some (Some _) \<Rightarrow>
               Some (Some (m\<lparr>m_Details := m_Details m @ [\<lparr>d_Type = ExactDirectMatch,
                  d_SearchedBy = vx_csaf_searched X (vuln_ID (m_Vulnerability m)) (pkg_PURL (m_Package m)),
                  d_Found = vx_csaf_found X am, d_Matcher = ''csafvex-matcher'', d_Confidence = 0\<rparr>]\<rparr>))))"

definition csaf_AugmentMatches ::
  "vex_env \<Rightarrow> vexdoc \<Rightarrow> IgnoreRule list \<Rightarrow> Context \<Rightarrow> Matches \<Rightarrow> IgnoredMatch list \<Rightarrow> vex_result" where
  "csaf_AugmentMatches X docRaw rules ctx remaining ignored =
     (case docRaw of
        OpenVexDoc _ \<Rightarrow> Some (Inl (ErrorText ''unable to cast vex document as CSAF Advisories''))
      | CsafAdvisories advs \<Rightarrow>
          map_option Inr (augment_loop (vx_menv X) (csaf_augments X advs rules) ignored remaining []))"

section \<open>The processor\<close>

datatype implementation = OpenVexProcessor | CsafProcessor

record ProcessorOptions =
  po_Documents :: "string list"
  po_IgnoreRules :: "IgnoreRule list"

record Processor =
  pr_Options :: ProcessorOptions
  pr_impl :: "implementation option"

definition getVexImplementation :: "vex_env \<Rightarrow> string list \<Rightarrow> serror + implementation option" where
  "getVexImplementation X documents =
     (case documents of
        [] \<Rightarrow> Inr None
      | firstDoc # _ \<Rightarrow>
          if \<not> vx_os_Stat X firstDoc then Inl (ErrorText (''VEX document not found: '' @ firstDoc))
          else if IsCSAF X firstDoc then Inr (Some CsafProcessor)
          else if IsOpenVex X firstDoc then Inr (Some OpenVexProcessor)
          else Inl (ErrorText (''unsupported VEX document format for '' @ firstDoc)))"

definition NewProcessor :: "vex_env \<Rightarrow> ProcessorOptions \<Rightarrow> serror + Processor" where
  "NewProcessor X opts =
     (case getVexImplementation X (po_Documents opts) of
        Inl e \<Rightarrow> Inl (WrapError ''unable to create VEX processor'' e)
      | Inr impl \<Rightarrow> Inr \<lparr>pr_Options = opts, pr_impl = impl\<rparr>)"

definition impl_ReadVexDocuments :: "implementation \<Rightarrow> vex_env \<Rightarrow> string list \<Rightarrow> serror + vexdoc" where
  "impl_ReadVexDocuments impl =
     (case impl of OpenVexProcessor \<Rightarrow> openvex_ReadVexDocuments | CsafProcessor \<Rightarrow> csaf_ReadVexDocuments)"

definition impl_FilterMatches :: "implementation \<Rightarrow> vex_env \<Rightarrow> vexdoc \<Rightarrow> IgnoreRule list \<Rightarrow> Context
    \<Rightarrow> Matches \<Rightarrow> IgnoredMatch list \<Rightarrow> vex_result" where
  "impl_FilterMatches impl =
     (case impl of OpenVexProcessor \<Rightarrow> openvex_FilterMatches | CsafProcessor \<Rightarrow> csaf_FilterMatches)"

definition impl_AugmentMatches :: "implementation \<Rightarrow> vex_env \<Rightarrow> vexdoc \<Rightarrow> IgnoreRule list \<Rightarrow> Context
    \<Rightarrow> Matches \<Rightarrow> IgnoredMatch list \<Rightarrow> vex_result" where
  "impl_AugmentMatches impl =
     (case impl of OpenVexProcessor \<Rightarrow> openvex_AugmentMatches | CsafProcessor \<Rightarrow> csaf_AugmentMatches)"

definition extractVexRules :: "IgnoreRule list \<Rightarrow> IgnoreRule list" where
  "extractVexRules rules = map (\<lambda>r. r\<lparr>ir_Namespace := ''vex''\<rparr>) (filter (\<lambda>r. ir_VexStatus r \<noteq> []) rules)"

text \<open>Calling a method on a nil implementation is a panic.\<close>

definition ApplyVEX :: "vex_env \<Rightarrow> Processor \<Rightarrow> Context \<Rightarrow> Matches \<Rightarrow> IgnoredMatch list \<Rightarrow> vex_result" where
  "ApplyVEX X vm ctx remaining ignored =
     (if po_Documents (pr_Options vm) = [] then Some (Inr (remaining, ignored))
      else case pr_impl vm of
        None \<Rightarrow> None
      | Some impl \<Rightarrow>
          (case impl_ReadVexDocuments impl X (po_Documents (pr_Options vm)) of
             Inl e \<Rightarrow> Some (Inl (WrapError ''parsing vex document'' e))
           | Inr rawVexData \<Rightarrow>
               let vexRules = extractVexRules (po_IgnoreRules (pr_Options vm)) in
               (case impl_FilterMatches impl X rawVexData vexRules ctx remaining ignored of
                  None \<Rightarrow> None
                | Some (Inl e) \<Rightarrow> Some (Inl (WrapError ''checking matches against VEX data'' e))
                | Some (Inr (remaining', ignored')) \<Rightarrow>
                    (case impl_AugmentMatches impl X rawVexData vexRules ctx remaining' ignored' of
                       None \<Rightarrow> None
                     | Some (Inl e) \<Rightarrow> Some (Inl (WrapError ''checking matches to augment from VEX data'' e))
                     | Some (Inr r) \<Rightarrow> Some (Inr r)))))"

end
