(* ===== verification/Vex_Properties.thy ===== *)
theory Vex_Properties
  imports Vex
begin

text \<open>
  What applying VEX documents to the result of a scan does.  The locale \<open>vex_implementation\<close> is the contract of
  the interface \<^verbatim>\<open>vexProcessorImplementation\<close> of \<^verbatim>\<open>grype/vex/processor.go\<close>: on a well-formed document, filtering
  and augmenting return and move matches between the two lists without losing one.  It is interpreted on
  OpenVEX and on CSAF.
\<close>

section \<open>The contract\<close>

definition vex_pairs :: "Matches \<Rightarrow> IgnoredMatch list \<Rightarrow> coreFingerprint set" where
  "vex_pairs r ig = cores r \<union> core_of ` im_Match ` set ig"

definition vex_ok :: "Matches \<Rightarrow> IgnoredMatch list \<Rightarrow> bool" where
  "vex_ok r ig \<longleftrightarrow> matches_ok r \<and> (\<forall>c \<in> vex_pairs r ig. fp_vulnerabilityID c \<noteq> [])"

text \<open>A step returns and keeps the pairs.\<close>

definition conserves :: "(Matches \<Rightarrow> IgnoredMatch list \<Rightarrow> vex_result) \<Rightarrow> bool" where
  "conserves step \<longleftrightarrow> (\<forall>r ig. vex_ok r ig \<longrightarrow>
     (\<exists>r' ig'. step r ig = Some (Inr (r', ig')) \<and> vex_ok r' ig' \<and> vex_pairs r' ig' = vex_pairs r ig))"

locale vex_implementation =
  fixes wf :: "'d \<Rightarrow> bool"
    and filt :: "'d \<Rightarrow> IgnoreRule list \<Rightarrow> Context \<Rightarrow> Matches \<Rightarrow> IgnoredMatch list \<Rightarrow> vex_result"
    and aug :: "'d \<Rightarrow> IgnoreRule list \<Rightarrow> Context \<Rightarrow> Matches \<Rightarrow> IgnoredMatch list \<Rightarrow> vex_result"
  assumes filter_conserves: "wf doc \<Longrightarrow> conserves (filt doc rules ctx)"
    and augment_conserves: "wf doc \<Longrightarrow> conserves (aug doc rules ctx)"
begin

lemma filter_then_augment:
  assumes "wf doc" "vex_ok r ig"
  shows "\<exists>r1 ig1 r2 ig2. filt doc rules ctx r ig = Some (Inr (r1, ig1)) \<and> aug doc rules ctx r1 ig1 = Some (Inr (r2, ig2))
    \<and> vex_ok r2 ig2 \<and> vex_pairs r2 ig2 = vex_pairs r ig"
proof -
  obtain r1 ig1 where 1: "filt doc rules ctx r ig = Some (Inr (r1, ig1))" "vex_ok r1 ig1" "vex_pairs r1 ig1 = vex_pairs r ig"
    using filter_conserves [OF assms(1), unfolded conserves_def] assms(2) by blast
  obtain r2 ig2 where "aug doc rules ctx r1 ig1 = Some (Inr (r2, ig2))" "vex_ok r2 ig2" "vex_pairs r2 ig2 = vex_pairs r1 ig1"
    using augment_conserves [OF assms(1), unfolded conserves_def] 1(2) by blast
  with 1 show ?thesis by metis
qed

end

section \<open>The loops\<close>

definition ignored_by :: "(Match \<Rightarrow> IgnoreRule option option) \<Rightarrow> Match \<Rightarrow> IgnoredMatch list" where
  "ignored_by ignores m = (case ignores m of
     Some (Some rule) \<Rightarrow> [\<lparr>im_Match = m, im_AppliedIgnoreRules = [rule]\<rparr>] | _ \<Rightarrow> [])"

lemma filter_loop_eq:
  "\<forall>m \<in> set ms. ignores m \<noteq> None \<Longrightarrow>
   filter_loop E ignores ms r ig =
     Some (Matches_Add E (filter (\<lambda>m. ignores m = Some None) ms) r, ig @ concat (map (ignored_by ignores) ms))"
  by (induction ms arbitrary: r ig) (auto simp: Matches_Add_def ignored_by_def split: option.splits)

lemma ignored_matches:
  assumes "\<And>m. ignores m \<noteq> None"
  shows "im_Match ` set (concat (map (ignored_by ignores) ms)) = {m \<in> set ms. ignores m \<noteq> Some None}"
proof (induction ms)
  case (Cons m ms)
  have "{x \<in> set (m # ms). ignores x \<noteq> Some None}
      = (if ignores m \<noteq> Some None then {m} else {}) \<union> {x \<in> set ms. ignores x \<noteq> Some None}"
    by auto
  moreover have "im_Match ` set (ignored_by ignores m) = (if ignores m \<noteq> Some None then {m} else {})"
  proof (cases "ignores m")
    case None
    with assms show ?thesis by blast
  next
    case (Some x)
    then show ?thesis by (cases x) (simp_all add: ignored_by_def)
  qed
  ultimately show ?case using Cons.IH by (simp add: image_Un)
qed simp

definition augmented_by :: "(Match \<Rightarrow> Match option option) \<Rightarrow> IgnoredMatch \<Rightarrow> Match list" where
  "augmented_by augments i = (case augments (im_Match i) of Some (Some m) \<Rightarrow> [m] | _ \<Rightarrow> [])"

lemma augment_loop_eq:
  "\<forall>i \<in> set is. augments (im_Match i) \<noteq> None \<Longrightarrow>
   augment_loop E augments is r ig =
     Some (Matches_Add E (concat (map (augmented_by augments) is)) r, ig @ filter (\<lambda>i. augments (im_Match i) = Some None) is)"
  by (induction "is" arbitrary: r ig) (auto simp: Matches_Add_def augmented_by_def split: option.splits)

lemma Add_cores:
  assumes "matches_ok r" "list_all named ms"
  shows "matches_ok (Matches_Add E ms r)" "cores (Matches_Add E ms r) = cores r \<union> core_of ` set ms"
  using store.fold_add [OF assms] by (simp_all add: Matches_Add_def)

lemma vex_ok_named:
  assumes "vex_ok r ig"
  shows "matches_ok r" "list_all named (Sorted E r)" "list_all (\<lambda>i. named (im_Match i)) ig"
  using assms
  by (auto simp: vex_ok_def vex_pairs_def list_all_iff named_core Sorted_set cores_Enumerate [of r E])

lemma vex_okI: "matches_ok r' \<Longrightarrow> vex_pairs r' ig' = vex_pairs r ig \<Longrightarrow> vex_ok r ig \<Longrightarrow> vex_ok r' ig'"
  by (simp add: vex_ok_def)

lemma conserves_filter:
  assumes "\<And>m. ignores m \<noteq> None"
  shows "conserves (\<lambda>r ig. map_option Inr (filter_loop E ignores (Sorted E r) (NewMatches E []) ig))"
  unfolding conserves_def
proof (intro allI impI)
  fix r ig assume ok: "vex_ok r ig"
  let ?ms = "Sorted E r" and ?none = "NewMatches E []"
  let ?r = "Matches_Add E (filter (\<lambda>m. ignores m = Some None) ?ms) ?none" and ?ig = "ig @ concat (map (ignored_by ignores) ?ms)"
  have r0: "matches_ok ?none" "cores ?none = {}" by (simp_all add: NewMatches_def Matches_Add_def matches_ok_new)
  have kept: "list_all named (filter (\<lambda>m. ignores m = Some None) ?ms)"
    using vex_ok_named(2) [OF ok, of E] by (simp add: list_all_iff)
  have "im_Match ` set (concat (map (ignored_by ignores) ?ms)) = {m \<in> set ?ms. ignores m \<noteq> Some None}"
    by (rule ignored_matches [OF assms])
  then have "vex_pairs ?r ?ig = core_of ` set ?ms \<union> core_of ` im_Match ` set ig"
    using Add_cores(2) [OF r0(1) kept, of E] r0(2) by (auto simp: vex_pairs_def image_Un simp del: set_concat set_map)
  then have pairs: "vex_pairs ?r ?ig = vex_pairs r ig"
    using vex_ok_named(1) [OF ok] by (simp add: vex_pairs_def Sorted_set cores_Enumerate [of r E])
  with ok Add_cores(1) [OF r0(1) kept] have "vex_ok ?r ?ig" by (blast intro: vex_okI)
  with pairs show "\<exists>r' ig'. map_option Inr (filter_loop E ignores ?ms ?none ig) = Some (Inr (r', ig'))
      \<and> vex_ok r' ig' \<and> vex_pairs r' ig' = vex_pairs r ig"
    using assms by (simp add: filter_loop_eq)
qed

lemma augmented_cores:
  assumes total: "\<And>m. augments m \<noteq> None" and same: "\<And>m m'. augments m = Some (Some m') \<Longrightarrow> core_of m' = core_of m"
  shows "core_of ` set (concat (map (augmented_by augments) is)) = core_of ` im_Match ` {i \<in> set is. augments (im_Match i) \<noteq> Some None}"
proof (induction "is")
  case (Cons i "is")
  have "{j \<in> set (i # is). augments (im_Match j) \<noteq> Some None}
      = (if augments (im_Match i) \<noteq> Some None then {i} else {}) \<union> {j \<in> set is. augments (im_Match j) \<noteq> Some None}"
    by auto
  moreover have "core_of ` set (augmented_by augments i) = (if augments (im_Match i) \<noteq> Some None then {core_of (im_Match i)} else {})"
  proof (cases "augments (im_Match i)")
    case None
    with total show ?thesis by blast
  next
    case (Some x)
    with same [of "im_Match i"] show ?thesis by (cases x) (simp_all add: augmented_by_def)
  qed
  ultimately show ?case using Cons.IH by (simp add: image_Un)
qed simp

lemma conserves_augment:
  assumes total: "\<And>m. augments m \<noteq> None" and same: "\<And>m m'. augments m = Some (Some m') \<Longrightarrow> core_of m' = core_of m"
  shows "conserves (\<lambda>r ig. map_option Inr (augment_loop E augments ig r []))"
  unfolding conserves_def
proof (intro allI impI)
  fix r ig assume ok: "vex_ok r ig"
  let ?new = "concat (map (augmented_by augments) ig)" and ?ig = "filter (\<lambda>i. augments (im_Match i) = Some None) ig"
  have new: "core_of ` set ?new = core_of ` im_Match ` {i \<in> set ig. augments (im_Match i) \<noteq> Some None}"
    by (rule augmented_cores [OF total same])
  have "named m" if "m \<in> set ?new" for m
  proof -
    from that new obtain i where "i \<in> set ig" "core_of m = core_of (im_Match i)" by blast
    with vex_ok_named(3) [OF ok] show ?thesis by (auto simp: named_core list_all_iff)
  qed
  then have "list_all named ?new" by (simp add: list_all_iff)
  note add = Add_cores [OF vex_ok_named(1) [OF ok] this, of E]
  have pairs: "vex_pairs (Matches_Add E ?new r) ?ig = vex_pairs r ig"
    unfolding vex_pairs_def add(2) new by (auto simp: image_image)
  with ok add(1) have "vex_ok (Matches_Add E ?new r) ?ig" by (blast intro: vex_okI)
  with pairs show "\<exists>r' ig'. map_option Inr (augment_loop E augments ig r []) = Some (Inr (r', ig'))
      \<and> vex_ok r' ig' \<and> vex_pairs r' ig' = vex_pairs r ig"
    using total by (simp add: augment_loop_eq)
qed

lemma conserves_cong: "(\<And>r ig. step r ig = step' r ig) \<Longrightarrow> conserves step' \<Longrightarrow> conserves step"
  by (simp add: conserves_def)

section \<open>Both formats keep the contract\<close>

text \<open>A CSAF advisory is well formed if no vulnerability lacks its product status and no threat its products,
  the pointers the code follows unchecked.\<close>

definition threat_wf :: "csaf_threat option \<Rightarrow> bool" where
  "threat_wf th = (case th of None \<Rightarrow> True | Some t \<Rightarrow> th_ProductIds t \<noteq> None)"

definition vuln_wf :: "csaf_vulnerability \<Rightarrow> bool" where
  "vuln_wf v \<longleftrightarrow> cv_ProductStatus v \<noteq> None \<and> list_all threat_wf (cv_Threats v)"

definition adv_wf :: "Advisory \<Rightarrow> bool" where
  "adv_wf adv = list_all (\<lambda>v. case v of None \<Rightarrow> True | Some v \<Rightarrow> vuln_wf v) (adv_Vulnerabilities adv)"

definition csaf_wf :: "Advisory option list \<Rightarrow> bool" where
  "csaf_wf advs = list_all (\<lambda>a. case a of None \<Rightarrow> True | Some a \<Rightarrow> adv_wf a) advs"

lemma threat_loop_total: "list_all threat_wf ths \<Longrightarrow> threat_loop p ths \<noteq> None"
  by (induction ths) (auto simp: threat_wf_def split: option.splits)

lemma statement_total: "vuln_wf (am_Vulnerability am) \<Longrightarrow> advisoryMatch_statement am \<noteq> None"
  using threat_loop_total [of "cv_Threats (am_Vulnerability am)" "am_ProductID am"]
  by (auto simp: advisoryMatch_statement_def vuln_wf_def split: option.splits)

lemma status_loop_vulnerability: "status_loop adv purl v es = Some am \<Longrightarrow> am_Vulnerability am = v"
  by (induction es) (auto simp: Let_def split: option.splits if_splits)

lemma vuln_loop_wf:
  assumes "list_all (\<lambda>v. case v of None \<Rightarrow> True | Some v \<Rightarrow> vuln_wf v) vs"
  shows "\<exists>r. vuln_loop ord adv vulnID purl vs = Some r \<and> (\<forall>am. r = Some am \<longrightarrow> vuln_wf (am_Vulnerability am))"
  using assms
proof (induction vs)
  case (Cons v vs)
  show ?case
  proof (cases v)
    case (Some w)
    with Cons.prems have w: "vuln_wf w" by simp
    then obtain ps where ps: "cv_ProductStatus w = Some ps" by (auto simp: vuln_wf_def)
    show ?thesis
    proof (cases "status_loop adv purl w (status_range ord w ps)")
      case None
      with Some ps Cons show ?thesis by simp
    next
      case (Some am)
      with w status_loop_vulnerability [OF Some] ps \<open>v = Some w\<close> Cons show ?thesis by simp
    qed
  qed (use Cons in simp)
qed simp

lemma matches_wf:
  assumes "csaf_wf advs"
  shows "\<exists>r. advisories_matches ord vulnID purl advs = Some r \<and> (\<forall>am. r = Some am \<longrightarrow> vuln_wf (am_Vulnerability am))"
  using assms
proof (induction advs)
  case (Cons a advs)
  show ?case
  proof (cases a)
    case (Some adv)
    with Cons.prems have "list_all (\<lambda>v. case v of None \<Rightarrow> True | Some v \<Rightarrow> vuln_wf v) (adv_Vulnerabilities adv)"
      by (simp add: csaf_wf_def adv_wf_def)
    from vuln_loop_wf [OF this, of ord adv vulnID purl] obtain r where
      r: "vuln_loop ord adv vulnID purl (adv_Vulnerabilities adv) = Some r" "\<forall>am. r = Some am \<longrightarrow> vuln_wf (am_Vulnerability am)"
      by blast
    from Cons have IH: "\<exists>r. advisories_matches ord vulnID purl advs = Some r \<and> (\<forall>am. r = Some am \<longrightarrow> vuln_wf (am_Vulnerability am))"
      by (simp add: csaf_wf_def)
    from r IH Some show ?thesis by (cases r) simp_all
  qed (use Cons in \<open>simp add: csaf_wf_def\<close>)
qed simp

lemma rule_loop_total: "advisoryMatch_statement am \<noteq> None \<Longrightarrow> csaf_rule_loop X m am allowed rules \<noteq> None"
  by (induction rules) (auto simp: Let_def)

lemma matchingRule_total: "vuln_wf (am_Vulnerability am) \<Longrightarrow> csaf_matchingRule X rules m am allowed \<noteq> None"
  using statement_total [of am] rule_loop_total [of am X m allowed rules]
  by (auto simp: csaf_matchingRule_def split: option.splits)

lemma csaf_ignores_total:
  assumes "csaf_wf advs"
  shows "csaf_ignores X advs rules m \<noteq> None"
  using matches_wf [OF assms, of "vx_filter_order X" "vuln_ID (m_Vulnerability m)" "pkg_PURL (m_Package m)"]
  by (auto simp: csaf_ignores_def intro: matchingRule_total [unfolded not_None_eq] split: option.splits)

lemma csaf_augments_total:
  assumes "csaf_wf advs"
  shows "csaf_augments X advs rules m \<noteq> None"
  using matches_wf [OF assms, of "vx_augment_order X" "vuln_ID (m_Vulnerability m)" "pkg_PURL (m_Package m)"]
  by (auto simp: csaf_augments_def matchingRule_total split: option.splits)

lemma core_of_details [simp]: "core_of (m\<lparr>m_Details := ds\<rparr>) = core_of m"
  by (simp add: core_of_def Match_Fingerprint_def)

interpretation openvex: vex_implementation "\<lambda>_. True"
  "\<lambda>doc. openvex_FilterMatches X (OpenVexDoc doc)" "\<lambda>doc. openvex_AugmentMatches X (OpenVexDoc doc)"
proof
  fix doc rules ctx
  show "conserves (openvex_FilterMatches X (OpenVexDoc doc) rules ctx)"
    by (rule conserves_cong [OF _ conserves_filter
          [of "\<lambda>m. Some (openvex_ignores X doc rules (productIdentifiersFromContext X ctx) m)" "vx_menv X"]])
      (simp_all add: openvex_FilterMatches_def)
  show "conserves (openvex_AugmentMatches X (OpenVexDoc doc) rules ctx)"
    by (rule conserves_cong [OF _ conserves_augment
          [of "\<lambda>m. Some (openvex_augments X doc rules (productIdentifiersFromContext X ctx) m)" "vx_menv X"]])
      (auto simp: openvex_AugmentMatches_def openvex_augments_def split: option.splits if_splits)
qed

interpretation csaf: vex_implementation csaf_wf
  "\<lambda>advs. csaf_FilterMatches X (CsafAdvisories advs)" "\<lambda>advs. csaf_AugmentMatches X (CsafAdvisories advs)"
proof
  fix advs rules ctx assume wf: "csaf_wf advs"
  show "conserves (csaf_FilterMatches X (CsafAdvisories advs) rules ctx)"
    by (rule conserves_cong [OF _ conserves_filter [of "csaf_ignores X advs rules" "vx_menv X"]])
      (simp_all add: csaf_FilterMatches_def csaf_ignores_total [OF wf])
  show "conserves (csaf_AugmentMatches X (CsafAdvisories advs) rules ctx)"
    by (rule conserves_cong [OF _ conserves_augment [of "csaf_augments X advs rules" "vx_menv X"]])
      (auto simp: csaf_AugmentMatches_def csaf_augments_total [OF wf], auto simp: csaf_augments_def split: option.splits if_splits)
qed

section \<open>Rules extracted for VEX\<close>

lemma extracted_no_conditions: "rule \<in> set (extractVexRules rules) \<Longrightarrow> \<not> HasConditions R rule"
  by (auto simp: extractVexRules_def HasConditions_iff has_criterion_def Let_def numeral_eq_Suc)

lemma openvex_rule_loop_any_match:
  "\<forall>rule \<in> set rules. \<not> HasConditions (vx_renv X) rule \<Longrightarrow>
   openvex_rule_loop X m st allowed rules = openvex_rule_loop X m' st allowed rules"
  by (induction rules) (simp_all add: Let_def)

lemma csaf_rule_loop_any_match:
  "\<forall>rule \<in> set rules. \<not> HasConditions (vx_renv X) rule \<Longrightarrow>
   csaf_rule_loop X m am allowed rules = csaf_rule_loop X m' am allowed rules"
  by (induction rules) (simp_all add: Let_def)

text \<open>What the loop over rules comes to when the advisory's statement can be read.\<close>

definition csaf_rule_selected :: "advisoryMatch \<Rightarrow> string list \<Rightarrow> IgnoreRule \<Rightarrow> bool" where
  "csaf_rule_selected am allowed rule \<longleftrightarrow>
     matchesVexStatus (am_Status am) (ir_VexStatus rule) \<and> ir_VexStatus rule \<in> insert [] (set allowed)
     \<and> ir_Vulnerability rule \<in> {[], advisoryMatch_cve am}"

lemma csaf_rule_loop_find:
  assumes "advisoryMatch_statement am \<noteq> None" "\<forall>rule \<in> set rules. \<not> HasConditions (vx_renv X) rule"
  shows "csaf_rule_loop X m am allowed rules = Some (List.find (csaf_rule_selected am allowed) rules)"
  using assms by (induction rules) (auto simp: Let_def csaf_rule_selected_def)

section \<open>Newest advisories first\<close>

interpretation newest: three_way_order "newerCurrentReleaseDateFirst X"
proof
  fix x y z
  let ?c = "newerCurrentReleaseDateFirst X"
  show "?c x y \<in> {-1, 0, 1}" "?c x x = 0" "?c y x = - ?c x y"
    by (auto simp: newerCurrentReleaseDateFirst_def Let_def split: option.splits)
  show "?c x y \<le> 0 \<Longrightarrow> ?c y z \<le> 0 \<Longrightarrow> ?c x z \<le> 0"
    by (auto simp: newerCurrentReleaseDateFirst_def Let_def split: option.splits if_splits)
qed

lemma load_advisories_set:
  "load_advisories X docs = Inr advs \<Longrightarrow> set advs = {a. Some a \<in> set (map (vx_LoadAdvisory X) docs)}"
  by (induction docs arbitrary: advs) (auto split: option.splits sum.splits)

lemma matches_first:
  assumes "advisories_matches ord vulnID purl (map Some advs) = Some (Some am)"
  shows "\<exists>pre adv post. advs = pre @ adv # post
    \<and> vuln_loop ord adv vulnID purl (adv_Vulnerabilities adv) = Some (Some am)
    \<and> (\<forall>b \<in> set pre. vuln_loop ord b vulnID purl (adv_Vulnerabilities b) = Some None)"
  using assms
proof (induction advs)
  case (Cons a advs)
  let ?v = "vuln_loop ord a vulnID purl (adv_Vulnerabilities a)"
  show ?case
  proof (cases "?v = Some None")
    case True
    with Cons obtain pre adv post where "advs = pre @ adv # post"
      "vuln_loop ord adv vulnID purl (adv_Vulnerabilities adv) = Some (Some am)"
      "\<forall>b \<in> set pre. vuln_loop ord b vulnID purl (adv_Vulnerabilities b) = Some None" by auto
    with True have "a # advs = (a # pre) @ adv # post"
      "\<forall>b \<in> set (a # pre). vuln_loop ord b vulnID purl (adv_Vulnerabilities b) = Some None" by simp_all
    with \<open>vuln_loop ord adv vulnID purl (adv_Vulnerabilities adv) = Some (Some am)\<close> show ?thesis by blast
  next
    case False
    with Cons.prems have "?v = Some (Some am)" by (auto split: option.splits)
    then show ?thesis by (metis append_Nil empty_iff empty_set)
  qed
qed simp

section \<open>An example\<close>

definition example_statement :: Statement where
  "example_statement = \<lparr>st_Status = Fixed, st_Justification = [], st_VulnerabilityID = ''CVE-1'', st_Matches = (\<lambda>v. v = ''CVE-1'')\<rparr>"

definition example_openvex :: openvex_doc where
  "example_openvex v product subs = (if v = ''CVE-1'' then [example_statement] else [])"

definition example_advisory :: "string option \<Rightarrow> Advisory" where
  "example_advisory date = \<lparr>adv_Vulnerabilities = [Some \<lparr>cv_CVE = Some ''CVE-1'', cv_Flags = [], cv_Threats = [],
       cv_ProductStatus = Some \<lparr>ps_FirstAffected = None, ps_FirstFixed = None, ps_Fixed = Some [Some ''P''],
         ps_KnownAffected = None, ps_KnownNotAffected = None, ps_LastAffected = None, ps_Recommended = None,
         ps_UnderInvestigation = None\<rparr>\<rparr>],
     adv_CollectHelpers = (\<lambda>_. [Some \<lparr>ph_PURL = Some ''pkg:rpm/p''\<rparr>]), adv_CurrentReleaseDate = date\<rparr>"

definition example_vex :: vex_env where
  "example_vex = \<lparr>vx_menv = example_env, vx_renv = example_renv, vx_oci_purl = (\<lambda>n v q. ''pkg:oci/'' @ n),
     vx_ParseReference = (\<lambda>_. None), vx_searched = (\<lambda>v p subs. OtherAny v), vx_found = (\<lambda>st. OtherAny (st_Status st)), vx_csaf_searched = (\<lambda>v p. OtherAny v),
     vx_csaf_found = (\<lambda>am. OtherAny (am_Status am)), vx_filter_order = (\<lambda>_. []), vx_augment_order = (\<lambda>_. []), vx_os_Stat = (\<lambda>_. True),
     vx_openvex_Load = (\<lambda>d. d = ''openvex.json''), vx_MergeFiles = (\<lambda>_. Some example_openvex),
     vx_LoadAdvisory = (\<lambda>d. if d = ''new.json'' then Some (example_advisory (Some ''2025''))
       else if d = ''old.json'' then Some (example_advisory (Some ''2024'')) else None),
     vx_time_Parse = (\<lambda>d. strconv_Atoi d)\<rparr>"

definition example_options :: "string list \<Rightarrow> ProcessorOptions" where
  "example_options docs = \<lparr>po_Documents = docs, po_IgnoreRules = []\<rparr>"

definition example_context :: Context where
  "example_context = \<lparr>ctx_Metadata = OtherMetadata, ctx_Name = ''app'', ctx_Version = ''1''\<rparr>"

section \<open>Properties\<close>

definition document_wf :: "vexdoc \<Rightarrow> bool" where
  "document_wf doc = (case doc of OpenVexDoc _ \<Rightarrow> True | CsafAdvisories advs \<Rightarrow> csaf_wf advs)"

lemma Read_format:
  assumes "impl_ReadVexDocuments impl X docs = Inr doc"
  shows "case impl of OpenVexProcessor \<Rightarrow> \<exists>d. doc = OpenVexDoc d | CsafProcessor \<Rightarrow> \<exists>advs. doc = CsafAdvisories advs"
  using assms
  by (cases impl) (auto simp: impl_ReadVexDocuments_def openvex_ReadVexDocuments_def csaf_ReadVexDocuments_def
      split: option.splits sum.splits)

lemma impl_steps:
  assumes "impl_ReadVexDocuments impl X docs = Inr doc" "document_wf doc" "vex_ok r ig"
  shows "\<exists>r1 ig1 r2 ig2. impl_FilterMatches impl X doc rules ctx r ig = Some (Inr (r1, ig1))
    \<and> impl_AugmentMatches impl X doc rules ctx r1 ig1 = Some (Inr (r2, ig2))
    \<and> vex_ok r2 ig2 \<and> vex_pairs r2 ig2 = vex_pairs r ig"
proof (cases impl)
  case OpenVexProcessor
  with Read_format [OF assms(1)] obtain d where "doc = OpenVexDoc d" by auto
  with OpenVexProcessor openvex.filter_then_augment [OF TrueI assms(3), of X d rules ctx] show ?thesis
    by (simp add: impl_FilterMatches_def impl_AugmentMatches_def)
next
  case CsafProcessor
  with Read_format [OF assms(1)] obtain advs where doc: "doc = CsafAdvisories advs" by auto
  with assms(2) have "csaf_wf advs" by (simp add: document_wf_def)
  from csaf.filter_then_augment [OF this assms(3), of X rules ctx] doc CsafProcessor show ?thesis
    by (simp add: impl_FilterMatches_def impl_AugmentMatches_def)
qed



definition statement_for :: "vex_env \<Rightarrow> openvex_doc \<Rightarrow> Context \<Rightarrow> Match \<Rightarrow> Statement option" where
  "statement_for X doc ctx m = map_option fst (findMatchingStatement doc (vuln_ID (m_Vulnerability m))
     (productIdentifiersFromContext X ctx) (subcomponentIdentifiersFromMatch m))"

definition resolved :: "vex_env \<Rightarrow> openvex_doc \<Rightarrow> Context \<Rightarrow> Match \<Rightarrow> bool" where
  "resolved X doc ctx m \<longleftrightarrow> (\<exists>st. statement_for X doc ctx m = Some st \<and> st_Status st \<in> {Fixed, NotAffected})"

definition vex_ignored :: "vex_env \<Rightarrow> openvex_doc \<Rightarrow> Context \<Rightarrow> Match \<Rightarrow> IgnoredMatch" where
  "vex_ignored X doc ctx m = (let st = the (statement_for X doc ctx m) in
     \<lparr>im_Match = m, im_AppliedIgnoreRules = [zero_IgnoreRule\<lparr>ir_Namespace := ''vex'', ir_Vulnerability := st_VulnerabilityID st,
        ir_VexJustification := st_Justification st, ir_VexStatus := st_Status st\<rparr>]\<rparr>)"

lemma openvex_ignores_default:
  "ignored_by (\<lambda>m. Some (openvex_ignores X doc [] (productIdentifiersFromContext X ctx) m)) m
     = (if resolved X doc ctx m then [vex_ignored X doc ctx m] else [])"
  "openvex_ignores X doc [] (productIdentifiersFromContext X ctx) m = None \<longleftrightarrow> \<not> resolved X doc ctx m"
  by (auto simp: ignored_by_def openvex_ignores_def resolved_def vex_ignored_def statement_for_def openvex_matchingRule_def
      IgnoreList_def Let_def split: option.splits)

lemma concat_map_if: "concat (map (\<lambda>x. if P x then [f x] else []) xs) = map f (filter P xs)"
  by (induction xs) simp_all

text \<open>C23: with no VEX rules given, OpenVEX filtering ignores exactly the matches whose first applicable statement says
  fixed or not affected, in order and after those ignored before, each under a rule made from that statement; all
  other matches remain.\<close>

theorem openvex_default_filter:
  assumes "list_all named ms"
  shows "\<exists>r. openvex_FilterMatches X (OpenVexDoc doc) [] ctx (NewMatches (vx_menv X) ms) ignored
      = Some (Inr (r, ignored @ map (vex_ignored X doc ctx)
          (filter (resolved X doc ctx) (Sorted (vx_menv X) (NewMatches (vx_menv X) ms)))))
    \<and> core_of ` set (Enumerate (vx_menv X) r)
      = core_of ` {m \<in> set (Enumerate (vx_menv X) (NewMatches (vx_menv X) ms)). \<not> resolved X doc ctx m}"
proof -
  let ?E = "vx_menv X" and ?ig = "\<lambda>m. Some (openvex_ignores X doc [] (productIdentifiersFromContext X ctx) m)"
  let ?ms = "Sorted ?E (NewMatches ?E ms)"
  let ?rest = "filter (\<lambda>m. ?ig m = Some None) ?ms"
  have ms: "set ?ms = set (Enumerate ?E (NewMatches ?E ms))" using NewMatches_ok [OF assms] by (rule Sorted_set)
  then have "list_all named ?rest" using Enumerate_named [OF assms, of ?E] by (simp add: list_all_iff)
  from NewMatches_cores [OF this, of ?E] ms
  have "core_of ` set (Enumerate ?E (NewMatches ?E ?rest)) = core_of ` {m \<in> set (Enumerate ?E (NewMatches ?E ms)). \<not> resolved X doc ctx m}"
    by (simp add: openvex_ignores_default)
  moreover have "concat (map (ignored_by ?ig) ?ms) = map (vex_ignored X doc ctx) (filter (resolved X doc ctx) ?ms)"
    by (simp add: openvex_ignores_default concat_map_if cong: map_cong)
  moreover have "Matches_Add ?E ?rest (NewMatches ?E []) = NewMatches ?E ?rest" by (simp add: NewMatches_def Matches_Add_def)
  ultimately show ?thesis using filter_loop_eq [of ?ms ?ig ?E] by (simp add: openvex_FilterMatches_def)
qed

theorem openvex_default_filter_witness:
  "\<exists>r ig. openvex_FilterMatches example_vex (OpenVexDoc example_openvex) [] example_context
       (NewMatches example_env [example_match ''CVE-1'' ''p'' [] []]) [] = Some (Inr (r, ig))
    \<and> core_of ` set (Enumerate example_env r) = {}"
proof -
  let ?m = "example_match ''CVE-1'' ''p'' [] []"
  have "resolved example_vex example_openvex example_context m" if "core_of m = core_of ?m" for m
  proof -
    from that have "vuln_ID (m_Vulnerability m) = ''CVE-1''" by (simp add: core_of_def Match_Fingerprint_def example_match_def)
    then show ?thesis
      by (simp add: resolved_def statement_for_def findMatchingStatement_def example_openvex_def example_statement_def
          productIdentifiersFromContext_def example_context_def)
  qed
  moreover have n: "list_all named [?m]" by (simp add: named_def example_match_def)
  ultimately have none: "{m \<in> set (Enumerate example_env (NewMatches example_env [?m])).
      \<not> resolved example_vex example_openvex example_context m} = {}"
    using NewMatches_cores [OF n, of example_env] by (auto dest!: equalityD1)
  have X: "vx_menv example_vex = example_env" by (simp add: example_vex_def)
  from openvex_default_filter [OF n, of example_vex example_openvex example_context "[]"] show ?thesis
    unfolding X none image_empty by blast
qed

text \<open>The criteria of VEX rules on packages are never looked at.  For rules as the processor extracts them, the
  rule that applies to a statement or an advisory does not depend on the match, in either format: the
  namespace the processor sets counts as a criterion, and \<^verbatim>\<open>HasConditions\<close> answers false for rules with
  criteria, which skips the check.\<close>

theorem vex_rules_ignore_the_match:
  "openvex_matchingRule X (extractVexRules rules) m st allowed = openvex_matchingRule X (extractVexRules rules) m' st allowed
   \<and> csaf_matchingRule X (extractVexRules rules) m am allowed = csaf_matchingRule X (extractVexRules rules) m' am allowed"
  using extracted_no_conditions [of _ rules "vx_renv X"]
    openvex_rule_loop_any_match [of "extractVexRules rules" X m st allowed m']
    csaf_rule_loop_any_match [of "extractVexRules rules" X m am allowed m']
  by (auto simp: openvex_matchingRule_def csaf_matchingRule_def)

text \<open>The justification in a VEX rule has no effect for CSAF.  On a well-formed vulnerability the rule that is
  found among the extracted rules is the first whose status is allowed and stands for the advisory's status
  and whose vulnerability is empty or the advisory's, whatever its justification.\<close>

theorem csaf_justification_ignored:
  assumes "vuln_wf (am_Vulnerability am)" "extractVexRules rules \<noteq> []"
  shows "csaf_matchingRule X (extractVexRules rules) m am allowed
    = Some (List.find (csaf_rule_selected am allowed) (extractVexRules rules))"
  using assms csaf_rule_loop_find [OF statement_total, of am "extractVexRules rules" X m allowed]
    extracted_no_conditions [of _ rules "vx_renv X"]
  by (simp add: csaf_matchingRule_def)

definition example_rule :: IgnoreRule where
  "example_rule = zero_IgnoreRule\<lparr>ir_VexStatus := NotAffected, ir_VexJustification := ''inline_mitigations_already_exist''\<rparr>"

definition example_advisoryMatch :: advisoryMatch where
  "example_advisoryMatch = \<lparr>am_Vulnerability = the (hd (adv_Vulnerabilities (example_advisory None))),
     am_Status = ''known_not_affected'', am_ProductID = ''P''\<rparr>"

theorem csaf_justification_ignored_witness:
  "csaf_matchingRule example_vex (extractVexRules [example_rule]) (example_match ''CVE-1'' ''p'' [] [])
     example_advisoryMatch IgnoreList = Some (Some (example_rule\<lparr>ir_Namespace := ''vex''\<rparr>))"
proof -
  have "vuln_wf (am_Vulnerability example_advisoryMatch)" "extractVexRules [example_rule] = [example_rule\<lparr>ir_Namespace := ''vex''\<rparr>]"
    by (simp_all add: vuln_wf_def example_advisoryMatch_def example_advisory_def extractVexRules_def example_rule_def NotAffected_def)
  moreover have "csaf_rule_selected example_advisoryMatch IgnoreList (example_rule\<lparr>ir_Namespace := ''vex''\<rparr>)"
    by (simp add: csaf_rule_selected_def example_rule_def example_advisoryMatch_def matchesVexStatus_def NotAffected_def
        IgnoreList_def zero_IgnoreRule_def)
  ultimately show ?thesis
    using csaf_justification_ignored [of example_advisoryMatch "[example_rule]" example_vex
      "example_match ''CVE-1'' ''p'' [] []" IgnoreList] by simp
qed

text \<open>The newest information wins for CSAF.  The advisory a match is found in is one of the documents read,
  and every document with a later release date says nothing about the vulnerability and the package.\<close>

theorem csaf_newest_wins:
  assumes "csaf_ReadVexDocuments X docs = Inr (CsafAdvisories advs)"
    and "advisories_matches ord vulnID purl advs = Some (Some am)"
  shows "\<exists>adv. Some adv \<in> set (map (vx_LoadAdvisory X) docs)
    \<and> vuln_loop ord adv vulnID purl (adv_Vulnerabilities adv) = Some (Some am)
    \<and> (\<forall>d b. d \<in> set docs \<longrightarrow> vx_LoadAdvisory X d = Some b \<longrightarrow> newerCurrentReleaseDateFirst X b adv < 0
        \<longrightarrow> vuln_loop ord b vulnID purl (adv_Vulnerabilities b) = Some None)"
proof -
  from assms(1) obtain xs where xs: "load_advisories X docs = Inr xs"
    "advs = map Some (go_sort (\<lambda>a b. newerCurrentReleaseDateFirst X a b < 0) xs)"
    by (auto simp: csaf_ReadVexDocuments_def split: sum.splits)
  let ?ys = "go_sort (\<lambda>a b. newerCurrentReleaseDateFirst X a b < 0) xs"
  obtain pre adv post where ys: "?ys = pre @ adv # post"
    and adv: "vuln_loop ord adv vulnID purl (adv_Vulnerabilities adv) = Some (Some am)"
    and pre: "\<forall>b \<in> set pre. vuln_loop ord b vulnID purl (adv_Vulnerabilities b) = Some None"
    using matches_first [of ord vulnID purl ?ys am] assms(2) xs(2) by auto
  have docs: "set ?ys = {a. Some a \<in> set (map (vx_LoadAdvisory X) docs)}"
    using load_advisories_set [OF xs(1)] by simp
  have first: "b \<in> set pre" if "b \<in> set ?ys" "newerCurrentReleaseDateFirst X b adv < 0" for b
    using that newest.sorted_go_sort [of X xs] newest.flip [of X b adv] newest.refl [of X adv]
    unfolding ys by (auto simp: sorted_wrt_append)
  have "vuln_loop ord b vulnID purl (adv_Vulnerabilities b) = Some None"
    if "d \<in> set docs" "vx_LoadAdvisory X d = Some b" "newerCurrentReleaseDateFirst X b adv < 0" for d b
  proof -
    from that(1) have "vx_LoadAdvisory X d \<in> set (map (vx_LoadAdvisory X) docs)" by simp
    with that(2) docs have "b \<in> set ?ys" by simp
    from first [OF this that(3)] pre show ?thesis by blast
  qed
  moreover have "Some adv \<in> set (map (vx_LoadAdvisory X) docs)" using docs ys by (metis in_set_conv_decomp mem_Collect_eq)
  ultimately show ?thesis using adv by blast
qed

theorem csaf_newest_wins_witness:
  "\<exists>advs am adv. csaf_ReadVexDocuments example_vex [''old.json'', ''new.json''] = Inr (CsafAdvisories advs)
     \<and> advisories_matches (\<lambda>_. []) ''CVE-1'' ''pkg:rpm/p'' advs = Some (Some am)
     \<and> Some adv \<in> set (map (vx_LoadAdvisory example_vex) [''old.json'', ''new.json''])
     \<and> (newerCurrentReleaseDateFirst example_vex (example_advisory (Some ''2025'')) adv < 0 \<longrightarrow>
         vuln_loop (\<lambda>_. []) (example_advisory (Some ''2025'')) ''CVE-1'' ''pkg:rpm/p''
           (adv_Vulnerabilities (example_advisory (Some ''2025''))) = Some None)"
proof -
  let ?docs = "[''old.json'', ''new.json'']" and ?X = example_vex
  let ?advs = "map Some (go_sort (\<lambda>a b. newerCurrentReleaseDateFirst ?X a b < 0)
    [example_advisory (Some ''2024''), example_advisory (Some ''2025'')])"
  let ?am = "\<lparr>am_Vulnerability = the (hd (adv_Vulnerabilities (example_advisory None))), am_Status = ''fixed'', am_ProductID = ''P''\<rparr>"
  have load: "vx_LoadAdvisory ?X ''old.json'' = Some (example_advisory (Some ''2024''))"
    "vx_LoadAdvisory ?X ''new.json'' = Some (example_advisory (Some ''2025''))" by (simp_all add: example_vex_def)
  then have read: "csaf_ReadVexDocuments ?X ?docs = Inr (CsafAdvisories ?advs)" by (simp add: csaf_ReadVexDocuments_def)
  have found: "vuln_loop (\<lambda>_. []) (example_advisory d) ''CVE-1'' ''pkg:rpm/p'' (adv_Vulnerabilities (example_advisory d))
      = Some (Some ?am)" for d
    by (simp add: example_advisory_def status_range_def productsByStatus_def is_perm_def
        purlsFromProductIdentificationHelpers_def Let_def)
  have m: "advisories_matches (\<lambda>_. []) ''CVE-1'' ''pkg:rpm/p'' ?advs = Some (Some ?am)"
    using found [of "Some ''2024''"] found [of "Some ''2025''"] by (simp add: go_sort_def del: vuln_loop.simps)
  from csaf_newest_wins [OF read m] obtain adv where adv: "Some adv \<in> set (map (vx_LoadAdvisory ?X) ?docs)"
    and newer: "\<forall>d b. d \<in> set ?docs \<longrightarrow> vx_LoadAdvisory ?X d = Some b \<longrightarrow> newerCurrentReleaseDateFirst ?X b adv < 0
        \<longrightarrow> vuln_loop (\<lambda>_. []) b ''CVE-1'' ''pkg:rpm/p'' (adv_Vulnerabilities b) = Some None" by blast
  have "newerCurrentReleaseDateFirst ?X (example_advisory (Some ''2025'')) adv < 0 \<longrightarrow>
      vuln_loop (\<lambda>_. []) (example_advisory (Some ''2025'')) ''CVE-1'' ''pkg:rpm/p''
        (adv_Vulnerabilities (example_advisory (Some ''2025''))) = Some None"
    using newer [rule_format, of "''new.json''"] load(2) by simp
  with read m adv show ?thesis by blast
qed

end
