(* ===== verification/Result_Facts.thy ===== *)
theory Result_Facts
  imports Result_Set
begin

text \<open>
  What the operations on search results keep and give.  The locale \<open>results_by_id\<close> is what the matchers rely on when
  they gather results over several searches; it is interpreted on the model's sets.
\<close>

section \<open>The interface\<close>

locale results_by_id =
  fixes ok :: "'s \<Rightarrow> bool"
    and look :: "'s \<Rightarrow> 'i \<Rightarrow> 'r list"
    and none :: 's
    and merge :: "'s \<Rightarrow> 's \<Rightarrow> 's"
  assumes ok_none: "ok none"
    and look_none: "look none i = []"
    and ok_merge: "ok a \<Longrightarrow> ok b \<Longrightarrow> ok (merge a b)"
    and look_merge: "ok a \<Longrightarrow> ok b \<Longrightarrow> look (merge a b) i = look a i @ look b i"
begin

lemma fold_merge:
  "ok a \<Longrightarrow> list_all ok bs \<Longrightarrow>
   ok (fold (\<lambda>b acc. merge acc b) bs a) \<and> look (fold (\<lambda>b acc. merge acc b) bs a) i = look a i @ concat (map (\<lambda>b. look b i) bs)"
  by (induction bs arbitrary: a) (auto simp: ok_merge look_merge)

lemma gather:
  "list_all ok bs \<Longrightarrow>
   ok (fold (\<lambda>b acc. merge acc b) bs none) \<and> look (fold (\<lambda>b acc. merge acc b) bs none) i = concat (map (\<lambda>b. look b i) bs)"
  using fold_merge [OF ok_none] by (simp add: look_none)

end

section \<open>Well-formed sets\<close>

text \<open>Every key once; under a key only results with that identifier, each with vulnerabilities, all of that
  identifier.\<close>

definition result_ok :: "string \<Rightarrow> 'o Result \<Rightarrow> bool" where
  "result_ok i r \<longleftrightarrow> i \<noteq> [] \<and> r_ID r = i \<and> r_Vulnerabilities r \<noteq> [] \<and> list_all (\<lambda>v. vuln_ID v = i) (r_Vulnerabilities r)"

definition rset_ok :: "'o rset \<Rightarrow> bool" where
  "rset_ok s \<longleftrightarrow> distinct (map fst s) \<and> list_all (\<lambda>(i, rs). rs \<noteq> [] \<and> list_all (result_ok i) rs) s"

lemma rset_ok_Nil [simp]: "rset_ok []"
  by (simp add: rset_ok_def)

lemma get_fps_Nil [simp]: "get_fps [] k = []"
  by (simp add: get_fps_def)

lemma get_fps_in: "distinct (map fst s) \<Longrightarrow> (k, v) \<in> set s \<Longrightarrow> get_fps s k = v"
  by (simp add: get_fps_def)

lemma get_fps_notin: "k \<notin> fst ` set s \<Longrightarrow> get_fps s k = []"
  by (simp add: get_fps_def map_of_eq_None_iff [THEN iffD2])

lemma rset_ok_get: "rset_ok s \<Longrightarrow> list_all (result_ok k) (get_fps s k)"
  by (auto simp: rset_ok_def get_fps_def list_all_iff split: option.splits dest!: map_of_SomeD)

lemma rset_ok_keys: "rset_ok s \<Longrightarrow> k \<in> fst ` set s \<longleftrightarrow> get_fps s k \<noteq> []"
proof
  assume ok: "rset_ok s" and "k \<in> fst ` set s"
  then obtain rs where rs: "(k, rs) \<in> set s" by auto
  with ok have "get_fps s k = rs" by (simp add: rset_ok_def get_fps_in)
  with ok rs show "get_fps s k \<noteq> []" by (auto simp: rset_ok_def list_all_iff)
qed (use get_fps_notin [of k s] in blast)

lemma guarded_perm: "mset (if is_perm l ks then l else ks) = mset ks"
  by (simp add: is_perm_mset)

lemma set_guarded_perm: "set (if is_perm l ks then l else ks) = set ks"
  by (rule mset_eq_setD [OF guarded_perm])

lemma distinct_guarded_perm: "distinct (if is_perm l ks then l else ks) \<longleftrightarrow> distinct ks"
  by (rule mset_eq_imp_distinct_iff [OF guarded_perm])

lemmas get_fps_append_at = get_append_at

lemma set_update_subset: "set (AList.update k v al) \<subseteq> insert (k, v) (set al)"
  by (induction al) auto

lemma rset_ok_append_at:
  assumes "rset_ok s" "result_ok i r"
  shows "rset_ok (append_at i r s)"
proof -
  have "(k, rs) \<in> set (append_at i r s) \<Longrightarrow> (k, rs) = (i, get_fps s i @ [r]) \<or> (k, rs) \<in> set s" for k rs
    using set_update_subset by (fastforce simp: append_at_def)
  moreover have "distinct (map fst (append_at i r s))"
    using assms(1) by (simp add: append_at_def distinct_update rset_ok_def)
  ultimately show ?thesis
    using assms rset_ok_get [OF assms(1), of i] by (fastforce simp: rset_ok_def list_all_iff)
qed

lemma add_results_ok:
  assumes "rset_ok s" "list_all (result_ok i) rs"
  shows "rset_ok (add_results rs s) \<and> get_fps (add_results rs s) k = (if k = i then get_fps s i @ rs else get_fps s k)"
  using assms
proof (induction rs arbitrary: s)
  case (Cons r rs)
  then have r: "r_ID r = i" "i \<noteq> []" "r_Vulnerabilities r \<noteq> []" "result_ok i r" by (auto simp: result_ok_def)
  with Cons.IH [of "append_at i r s"] Cons.prems rset_ok_append_at [OF Cons.prems(1) r(4)] show ?case
    by (auto simp: add_results_def get_fps_append_at)
qed (simp add: add_results_def)

section \<open>Merging\<close>

lemma apply_union [simp]: "apply_mergeFuncs [unionResults] incoming existing st = Some (existing @ incoming, st)"
  by (simp add: unionResults_def)

lemma merge_loop_union:
  fixes st :: unit
  assumes "rset_ok a" "rset_ok b" "rset_ok out"
  shows "\<exists>out'. merge_loop [unionResults] a b ids out st = Some (out', st) \<and> rset_ok out'
    \<and> (\<forall>k. distinct ids \<longrightarrow> get_fps out' k = get_fps out k @ (if k \<in> set ids then get_fps a k @ get_fps b k else []))"
  using assms(3)
proof (induction ids arbitrary: out)
  case (Cons i ids)
  let ?rs = "get_fps a i @ get_fps b i"
  have "list_all (result_ok i) ?rs" using rset_ok_get [OF assms(1), of i] rset_ok_get [OF assms(2), of i] by simp
  from add_results_ok [OF Cons.prems this] have ok: "rset_ok (add_results ?rs out)"
    and look: "get_fps (add_results ?rs out) k = (if k = i then get_fps out i @ ?rs else get_fps out k)" for k by blast+
  from Cons.IH [OF ok] obtain out' where out': "merge_loop [unionResults] a b ids (add_results ?rs out) st = Some (out', st)" "rset_ok out'"
    "\<forall>k. distinct ids \<longrightarrow> get_fps out' k = get_fps (add_results ?rs out) k @ (if k \<in> set ids then get_fps a k @ get_fps b k else [])"
    by blast
  then show ?case by (auto simp: look simp del: apply_mergeFuncs.simps)
qed simp

lemma MergeWith_none:
  fixes st :: unit
  assumes "rset_ok a" "rset_ok b"
  shows "\<exists>out. rset_MergeWith G [] a b st = Some (out, st) \<and> rset_ok out \<and> (\<forall>k. get_fps out k = get_fps a k @ get_fps b k)"
proof -
  let ?ks = "remdups (map fst a @ map fst b)"
  let ?ids = "if is_perm (g_order G ?ks) ?ks then g_order G ?ks else ?ks"
  have ids: "distinct ?ids" "set ?ids = fst ` set a \<union> fst ` set b"
    unfolding distinct_guarded_perm set_guarded_perm by auto
  from merge_loop_union [OF assms rset_ok_Nil, of ?ids st] obtain out where
    out: "merge_loop [unionResults] a b ?ids [] st = Some (out, st)" "rset_ok out"
    "\<forall>k. get_fps out k = (if k \<in> set ?ids then get_fps a k @ get_fps b k else [])"
    using ids(1) by auto
  moreover have "get_fps out k = get_fps a k @ get_fps b k" for k
    using out(3) ids(2) get_fps_notin [of k a] get_fps_notin [of k b] by (cases "k \<in> set ?ids") auto
  ultimately show ?thesis by (simp add: rset_MergeWith_def Let_def)
qed

interpretation rs: results_by_id rset_ok get_fps "[]" "rset_Merge G"
proof
  fix a b :: "'a rset" and i
  show "rset_ok ([] :: 'a rset)" "get_fps ([] :: 'a rset) i = []" by simp_all
  assume "rset_ok a" "rset_ok b"
  from MergeWith_none [OF this, of G "()"] show "rset_ok (rset_Merge G a b)"
    "get_fps (rset_Merge G a b) i = get_fps a i @ get_fps b i" by (auto simp: rset_Merge_def)
qed

section \<open>Removing and filtering\<close>

lemma rset_ok_filter: "rset_ok s \<Longrightarrow> rset_ok (filter P s)"
  by (auto simp: rset_ok_def list_all_iff distinct_map_filter)

lemma get_fps_filter:
  "distinct (map fst s) \<Longrightarrow> get_fps (filter P s) k = (if P (k, get_fps s k) then get_fps s k else [])"
  by (induction s) (auto simp: get_fps_def split: option.splits, (force dest: map_of_SomeD)+)

lemma Remove_ok: "rset_ok s \<Longrightarrow> rset_ok (rset_Remove s incoming)"
  by (simp add: rset_Remove_def rset_ok_filter)

lemma get_fps_Remove:
  "rset_ok s \<Longrightarrow> get_fps (rset_Remove s incoming) i =
     (if overlap (getIdentity i (get_fps s i)) (all_identifiers incoming) then [] else get_fps s i)"
  by (simp add: rset_Remove_def rset_ok_def get_fps_filter)

text \<open>The vulnerabilities under an identifier.\<close>

definition vulns_at :: "'o rset \<Rightarrow> string \<Rightarrow> 'o SVuln list" where
  "vulns_at s i = concat (map r_Vulnerabilities (get_fps s i))"

lemma check_criteria_decided:
  "MatchesVulnerability L c v = Some (b, None) \<Longrightarrow> \<exists>ds'. check_criteria L [c] v ds = Some (ds', Inr b)"
  by (cases b) auto

lemma filterVulns_decided:
  assumes "\<forall>v \<in> set vs. MatchesVulnerability L c v = Some (P v, None)"
  shows "\<exists>ds'. filterVulns L [c] vs ds = Some (filter P vs, ds', None)"
  using assms
proof (induction vs arbitrary: ds)
  case (Cons v vs)
  then have "MatchesVulnerability L c v = Some (P v, None)" by simp
  from check_criteria_decided [OF this, of ds] obtain ds1 where 1: "check_criteria L [c] v ds = Some (ds1, Inr (P v))" by blast
  from Cons obtain ds2 where "filterVulns L [c] vs ds1 = Some (filter P vs, ds2, None)" by auto
  with 1 show ?case by (simp del: check_criteria.simps)
qed simp

text \<open>Filtering by a criterion that decides every vulnerability without an error keeps what the criterion accepts,
  under the same identifiers and packages.\<close>

lemma filter_results_decided:
  assumes "\<forall>r \<in> set rs. \<forall>v \<in> set (r_Vulnerabilities r). MatchesVulnerability L c v = Some (P v, None)"
    and "list_all (result_ok i) rs"
  shows "\<exists>rs'. filter_results L [c] rs = Some rs' \<and> list_all (result_ok i) rs'
    \<and> concat (map r_Vulnerabilities rs') = filter P (concat (map r_Vulnerabilities rs))
    \<and> r_Package ` set rs' \<subseteq> r_Package ` set rs"
  using assms
proof (induction rs)
  case (Cons r rs)
  then obtain rs' where rs': "filter_results L [c] rs = Some rs'" "list_all (result_ok i) rs'"
    "concat (map r_Vulnerabilities rs') = filter P (concat (map r_Vulnerabilities rs))"
    "r_Package ` set rs' \<subseteq> r_Package ` set rs" by auto
  from Cons.prems filterVulns_decided [of "r_Vulnerabilities r" L c P "r_Details r"] obtain ds where
    ds: "filterVulns L [c] (r_Vulnerabilities r) (r_Details r) = Some (filter P (r_Vulnerabilities r), ds, None)" by auto
  let ?x = "if filter P (r_Vulnerabilities r) = [] then [] else [r\<lparr>r_Vulnerabilities := filter P (r_Vulnerabilities r), r_Details := ds\<rparr>]"
  have "filter_result L [c] r = Some ?x" using ds by (simp add: filter_result_def)
  moreover have "list_all (result_ok i) ?x" using Cons.prems(2) by (auto simp: result_ok_def list_all_iff)
  ultimately show ?case using rs' by (auto simp: filter_empty_conv)
qed simp

lemma Filter_decided:
  assumes "rset_ok s" "\<forall>(i, rs) \<in> set s. \<forall>r \<in> set rs. \<forall>v \<in> set (r_Vulnerabilities r). MatchesVulnerability L c v = Some (P v, None)"
  shows "\<exists>s'. rset_Filter L [c] s = Some s' \<and> rset_ok s' \<and> (\<forall>i. vulns_at s' i = filter P (vulns_at s i))
    \<and> (\<forall>i. r_Package ` set (get_fps s' i) \<subseteq> r_Package ` set (get_fps s i)) \<and> fst ` set s' \<subseteq> fst ` set s"
  using assms
proof (induction s)
  case (Cons x s)
  obtain i rs where x: "x = (i, rs)" by fastforce
  with Cons.prems have rs: "list_all (result_ok i) rs" "rset_ok s" "i \<notin> fst ` set s" "rs \<noteq> []" by (auto simp: rset_ok_def)
  from Cons.IH [OF rs(2)] Cons.prems(2) obtain s' where s': "rset_Filter L [c] s = Some s'" "rset_ok s'"
    "\<forall>i. vulns_at s' i = filter P (vulns_at s i)" "\<forall>i. r_Package ` set (get_fps s' i) \<subseteq> r_Package ` set (get_fps s i)"
    "fst ` set s' \<subseteq> fst ` set s" by auto
  from filter_results_decided [of rs L c P i] rs(1) Cons.prems(2) x obtain rs' where rs': "filter_results L [c] rs = Some rs'"
    "list_all (result_ok i) rs'" "concat (map r_Vulnerabilities rs') = filter P (concat (map r_Vulnerabilities rs))"
    "r_Package ` set rs' \<subseteq> r_Package ` set rs" by auto
  have i: "i \<notin> fst ` set s'" using s'(5) rs(3) by blast
  have look: "get_fps (x # s) k = (if k = i then rs else get_fps s k)" for k by (simp add: x get_fps_def)
  let ?out = "if rs' \<noteq> [] then (i, rs') # s' else s'"
  have look': "get_fps ?out k = (if k = i then rs' else get_fps s' k)" for k
    using get_fps_notin [OF i] by (auto simp: get_fps_def)
  have "rset_Filter L [c] (x # s) = Some ?out" by (simp add: x s'(1) rs'(1))
  moreover have "rset_ok ?out" using s'(2) rs'(2) i by (auto simp: rset_ok_def)
  moreover have "vulns_at ?out k = filter P (vulns_at (x # s) k)" for k
    using s'(3) rs'(3) by (simp add: vulns_at_def look look')
  moreover have "r_Package ` set (get_fps ?out k) \<subseteq> r_Package ` set (get_fps (x # s) k)" for k
    using s'(4) rs'(4) by (simp add: look look')
  moreover have "fst ` set ?out \<subseteq> fst ` set (x # s)" using s'(5) x by auto
  ultimately show ?case by blast
qed (simp add: vulns_at_def)

section \<open>Matches\<close>

lemma union_loop_fields:
  "r_Vulnerabilities (union_loop m rs) = r_Vulnerabilities m @ concat (map r_Vulnerabilities rs)"
  "r_Details (union_loop m rs) = r_Details m @ concat (map r_Details rs)"
  by (induction rs arbitrary: m) (simp_all add: Let_def)

lemma union_loop_package:
  "r_ID m \<noteq> [] \<Longrightarrow> r_Package (union_loop m rs) = r_Package m"
  by (induction rs arbitrary: m) (simp_all add: Let_def)

lemma result_matches_eq:
  assumes "list_all (result_ok i) rs" "\<forall>r \<in> set rs. r_Package r = Some p"
  shows "result_matches E rs = map (\<lambda>v. \<lparr>m_Vulnerability = Vulnerability.truncate v, m_Package = Package.truncate p,
      m_Details = NewMatchDetailsSet E (concat (map r_Details rs))\<rparr>) (concat (map r_Vulnerabilities rs))"
proof (cases rs)
  case (Cons r rs')
  with assms have "r_ID r \<noteq> []" "r_Package r = Some p" by (auto simp: result_ok_def)
  then have "r_Package (unionIntoResult E rs) = Some p"
    by (simp add: unionIntoResult_def Cons Let_def union_loop_package)
  then show ?thesis by (simp add: result_matches_def unionIntoResult_def Let_def union_loop_fields)
qed (simp add: result_matches_def unionIntoResult_def)

definition of_package :: "MPackage \<Rightarrow> 'o rset \<Rightarrow> bool" where
  "of_package p s \<longleftrightarrow> (\<forall>i. \<forall>r \<in> set (get_fps s i). r_Package r = Some p)"

lemma set_rset_range: "set (rset_range G s) = (\<lambda>k. (k, get_fps s k)) ` fst ` set s"
  by (simp add: rset_range_def rset_keys_def Let_def set_guarded_perm)

lemma UN_all_keys:
  assumes "\<And>k. get_fps s k = [] \<Longrightarrow> A k = {}"
  shows "(\<Union>k \<in> fst ` set s. A k) = (\<Union>k. A k)"
proof -
  have "A k = {}" if "k \<notin> fst ` set s" for k using assms [OF get_fps_notin [OF that]] .
  then have "k \<in> fst ` set s" if "x \<in> A k" for x k using that by blast
  then show ?thesis by (intro set_eqI) (simp only: UN_iff, blast)
qed

text \<open>The matches of a set: one for every vulnerability, with the package and the details of all results under
  the vulnerability's identifier, in any order of the map.\<close>

lemma set_ToMatches:
  assumes "rset_ok s" "of_package p s"
  shows "set (ToMatches G s) = {\<lparr>m_Vulnerability = Vulnerability.truncate v, m_Package = Package.truncate p,
      m_Details = NewMatchDetailsSet (g_menv G) (concat (map r_Details (get_fps s i)))\<rparr> | i v. v \<in> set (vulns_at s i)}"
proof -
  have eq: "result_matches (g_menv G) (get_fps s i) = map (\<lambda>v. \<lparr>m_Vulnerability = Vulnerability.truncate v, m_Package = Package.truncate p,
      m_Details = NewMatchDetailsSet (g_menv G) (concat (map r_Details (get_fps s i)))\<rparr>) (vulns_at s i)" for i
    using result_matches_eq [OF rset_ok_get [OF assms(1), of i]] assms(2) by (simp add: of_package_def vulns_at_def)
  have "set (ToMatches G s) = (\<Union>k \<in> fst ` set s. set (result_matches (g_menv G) (get_fps s k)))"
    by (simp add: ToMatches_def set_rset_range)
  also have "\<dots> = (\<Union>k. set (result_matches (g_menv G) (get_fps s k)))"
    by (rule UN_all_keys) (simp add: result_matches_def unionIntoResult_def)
  also have "\<dots> = {\<lparr>m_Vulnerability = Vulnerability.truncate v, m_Package = Package.truncate p,
      m_Details = NewMatchDetailsSet (g_menv G) (concat (map r_Details (get_fps s i)))\<rparr> | i v. v \<in> set (vulns_at s i)}"
    unfolding eq by auto
  finally show ?thesis .
qed

lemma set_rset_Vulnerabilities:
  shows "set (rset_Vulnerabilities G s) = (\<Union>i. set (vulns_at s i))"
proof -
  have "set (rset_Vulnerabilities G s) = (\<Union>k \<in> fst ` set s. set (vulns_at s k))"
    by (auto simp: rset_Vulnerabilities_def set_rset_range vulns_at_def)
  also have "\<dots> = (\<Union>k. set (vulns_at s k))" by (rule UN_all_keys) (simp add: vulns_at_def)
  finally show ?thesis .
qed

section \<open>Searching\<close>

text \<open>Criteria without alternatives are one row.\<close>

lemma processRemaining_leaves: "processRemaining row (map Leaf ls) y s = y (row @ ls) s"
  by (induction ls arbitrary: row) simp_all

lemma FindResults_leaves:
  assumes "ls \<noteq> []"
  shows "FindResults P vp p matcher (map Leaf ls) =
    (case vp_FindVulnerabilities vp ls of
       Inl e \<Rightarrow> Inl e
     | Inr vs \<Rightarrow> Inr (add_found P matcher p (map Leaf ls) vs []))"
  using assms by (simp add: FindResults_def CriteriaIterator_def processRemaining_leaves find_row_def split: sum.splits)

lemma of_package_Nil [simp]: "of_package p []"
  by (simp add: of_package_def)

lemma vulns_at_append_at: "vulns_at (append_at k r s) j = (if j = k then vulns_at s k @ r_Vulnerabilities r else vulns_at s j)"
  by (simp add: vulns_at_def get_fps_append_at)

lemma of_package_append_at: "of_package p s \<Longrightarrow> r_Package r = Some p \<Longrightarrow> of_package p (append_at k r s)"
  by (simp add: of_package_def get_fps_append_at)

text \<open>The records found, under their identifiers; a record without an identifier is left out.\<close>

lemma add_found_facts:
  assumes "rset_ok s" "of_package p s"
  shows "rset_ok (add_found P m p cs vs s) \<and> of_package p (add_found P m p cs vs s)
    \<and> (\<forall>i. vulns_at (add_found P m p cs vs s) i = vulns_at s i @ filter (\<lambda>v. vuln_ID v = i \<and> i \<noteq> []) vs)"
  using assms
proof (induction vs arbitrary: s)
  case (Cons v vs)
  let ?r = "\<lparr>r_ID = vuln_ID v, r_Vulnerabilities = [v], r_Details = detailProvider P m p cs v, r_Package = Some p\<rparr>"
  let ?s = "if vuln_ID v = [] then s else append_at (vuln_ID v) ?r s"
  have eq: "add_found P m p cs (v # vs) s = add_found P m p cs vs ?s" by (simp add: add_found_def)
  have ok: "rset_ok ?s" "of_package p ?s"
    using Cons.prems by (auto intro!: rset_ok_append_at of_package_append_at simp: result_ok_def)
  have "vulns_at ?s i = vulns_at s i @ (if vuln_ID v = i \<and> i \<noteq> [] then [v] else [])" for i
    by (simp add: vulns_at_append_at)
  with Cons.IH [OF ok] show ?case unfolding eq by auto
qed (simp add: add_found_def)

lemma FindResults_facts:
  assumes "vp_FindVulnerabilities vp ls = Inr vs" "ls \<noteq> []"
  obtains s where "FindResults P vp p matcher (map Leaf ls) = Inr s" "rset_ok s" "of_package p s"
    "\<And>i. vulns_at s i = filter (\<lambda>v. vuln_ID v = i \<and> i \<noteq> []) vs"
  using that [of "add_found P matcher p (map Leaf ls) vs []"] add_found_facts [of "[]" p P matcher "map Leaf ls" vs] assms
  by (simp add: FindResults_leaves vulns_at_def)

lemma of_package_Filter:
  assumes "of_package p s" "\<And>i. r_Package ` set (get_fps s' i) \<subseteq> r_Package ` set (get_fps s i)"
  shows "of_package p s'"
proof -
  have "r_Package r = Some p" if "r \<in> set (get_fps s' i)" for r i
  proof -
    from that assms(2) [of i] have "r_Package r \<in> r_Package ` set (get_fps s i)" by blast
    with assms(1) show ?thesis by (auto simp: of_package_def)
  qed
  then show ?thesis by (simp add: of_package_def)
qed

lemma of_package_Remove: "rset_ok s \<Longrightarrow> of_package p s \<Longrightarrow> of_package p (rset_Remove s t)"
  by (simp add: of_package_def get_fps_Remove)

lemma vulns_at_in:
  assumes "rset_ok s" "(i, rs) \<in> set s" "r \<in> set rs" "v \<in> set (r_Vulnerabilities r)"
  shows "v \<in> set (vulns_at s i)"
  using assms by (auto simp: vulns_at_def rset_ok_def get_fps_in)

lemma Filter_facts:
  assumes "rset_ok s" "of_package p s" "\<And>i v. v \<in> set (vulns_at s i) \<Longrightarrow> MatchesVulnerability L c v = Some (P v, None)"
  obtains s' where "rset_Filter L [c] s = Some s'" "rset_ok s'" "of_package p s'" "\<And>i. vulns_at s' i = filter P (vulns_at s i)"
proof -
  have "\<forall>(i, rs) \<in> set s. \<forall>r \<in> set rs. \<forall>v \<in> set (r_Vulnerabilities r). MatchesVulnerability L c v = Some (P v, None)"
    using assms(3) vulns_at_in [OF assms(1)] by blast
  from Filter_decided [OF assms(1) this] obtain s' where "rset_Filter L [c] s = Some s'" "rset_ok s'"
    "\<And>i. vulns_at s' i = filter P (vulns_at s i)" "\<And>i. r_Package ` set (get_fps s' i) \<subseteq> r_Package ` set (get_fps s i)" by blast
  then show thesis using that of_package_Filter [OF assms(2)] by blast
qed

section \<open>Identities\<close>

text \<open>The identifiers vulnerabilities stand for: their own and their aliases'.\<close>

definition identifiers :: "'o SVuln list \<Rightarrow> string set" where
  "identifiers vs = (\<Union>v \<in> set vs. insert (vuln_ID v) (ref_ID ` set (vuln_RelatedVulnerabilities v)))"

lemma overlap_iff: "overlap xs ys \<longleftrightarrow> set xs \<inter> set ys \<noteq> {}"
  by (auto simp: overlap_def list_ex_iff)

lemma set_getIdentity:
  assumes "list_all (result_ok i) rs" "rs \<noteq> []"
  shows "set (getIdentity i rs) = identifiers (concat (map r_Vulnerabilities rs))"
proof -
  have ids: "vuln_ID v = i" if "r \<in> set rs" "v \<in> set (r_Vulnerabilities r)" for r v
    using assms(1) that by (auto simp: list_all_iff result_ok_def)
  from assms have "hd rs \<in> set rs" "r_Vulnerabilities (hd rs) \<noteq> []" by (auto simp: list_all_iff result_ok_def)
  then obtain r v where rv: "r \<in> set rs" "v \<in> set (r_Vulnerabilities r)" using hd_in_set by blast
  let ?V = "\<Union>r \<in> set rs. set (r_Vulnerabilities r)"
  have "set (getIdentity i rs) = insert i (\<Union>v \<in> ?V. ref_ID ` set (vuln_RelatedVulnerabilities v))"
    by (auto simp: getIdentity_def extractAliases_def)
  also have "\<dots> = (\<Union>v \<in> ?V. insert i (ref_ID ` set (vuln_RelatedVulnerabilities v)))"
    by (rule UN_insert_distrib [symmetric]) (use rv in blast)
  also have "\<dots> = (\<Union>v \<in> ?V. insert (vuln_ID v) (ref_ID ` set (vuln_RelatedVulnerabilities v)))"
    by (rule SUP_cong) (use ids in blast)+
  finally show ?thesis by (simp add: identifiers_def)
qed

lemma set_all_identifiers:
  assumes "rset_ok s"
  shows "set (all_identifiers s) = (\<Union>i. identifiers (vulns_at s i))"
proof -
  have "set (getIdentity i rs) = identifiers (vulns_at s i)" if "(i, rs) \<in> set s" for i rs
    using that assms set_getIdentity [of i rs] by (auto simp: rset_ok_def list_all_iff vulns_at_def get_fps_in)
  then have "set (all_identifiers s) = (\<Union>(i, rs) \<in> set s. identifiers (vulns_at s i))"
    by (auto simp: all_identifiers_def)
  also have "\<dots> = (\<Union>i \<in> fst ` set s. identifiers (vulns_at s i))" by auto
  also have "\<dots> = (\<Union>i. identifiers (vulns_at s i))"
    by (rule UN_all_keys) (simp add: vulns_at_def identifiers_def)
  finally show ?thesis .
qed

text \<open>What is left after removing: the groups of records none of whose identifiers the removed set knows.\<close>

lemma vulns_at_Remove:
  assumes "rset_ok s" "rset_ok t"
  shows "vulns_at (rset_Remove s t) i =
    (if identifiers (vulns_at s i) \<inter> (\<Union>j. identifiers (vulns_at t j)) = {} then vulns_at s i else [])"
proof (cases "get_fps s i = []")
  case False
  with set_getIdentity [OF rset_ok_get [OF assms(1), of i]] have "set (getIdentity i (get_fps s i)) = identifiers (vulns_at s i)"
    by (simp add: vulns_at_def)
  then show ?thesis
    using get_fps_Remove [OF assms(1), of t i] by (simp add: vulns_at_def overlap_iff set_all_identifiers [OF assms(2)])
next
  case True
  with get_fps_Remove [OF assms(1), of t i] show ?thesis by (simp add: vulns_at_def)
qed

lemma identifiers_UN: "(\<Union>i. identifiers (f i)) = (\<Union>v \<in> (\<Union>i. set (f i)). insert (vuln_ID v) (ref_ID ` set (vuln_RelatedVulnerabilities v)))"
  by (auto simp: identifiers_def)

end
