(* ===== verification/Matcher_Common.thy ===== *)
theory Matcher_Common
  imports Result_Facts
begin

text \<open>
  What the matchers share: \<^verbatim>\<open>grype/matcher/internal\<close> (\<^verbatim>\<open>common.go\<close>, \<^verbatim>\<open>distro.go\<close>, \<^verbatim>\<open>language.go\<close>, \<^verbatim>\<open>ignores.go\<close> and the criteria \<^verbatim>\<open>only_*.go\<close>).

  A matcher returns an error or matches and ignore filters; the outer option is a panic.  The constants \<^verbatim>\<open>wfn.Any\<close> (the
  empty text) and \<^verbatim>\<open>wfn.NA\<close> are those of the CPE library; the name of the ownership relationship is syft's.
\<close>

type_synonym match_result = "(serror + Match list \<times> IgnoreFilter list) go"

definition bindE :: "('e + 'a) go \<Rightarrow> ('a \<Rightarrow> ('e + 'b) go) \<Rightarrow> ('e + 'b) go" where
  "bindE m f = (case m of None \<Rightarrow> None | Some (Inl e) \<Rightarrow> Some (Inl e) | Some (Inr x) \<Rightarrow> f x)"

definition wrapE :: "string \<Rightarrow> serror + 'a \<Rightarrow> serror + 'a" where
  "wrapE msg r = (case r of Inl e \<Rightarrow> Inl (WrapError msg e) | Inr x \<Rightarrow> Inr x)"

text \<open>Packages searched for one after the other; the first error ends the search.\<close>

fun match_each ::
  "string \<Rightarrow> (MPackage \<Rightarrow> match_result) \<Rightarrow> MPackage list \<Rightarrow> Match list \<times> IgnoreFilter list \<Rightarrow> match_result" where
  "match_each msg f [] acc = Some (Inr acc)"
| "match_each msg f (p # ps) acc =
     bindE (map_option (wrapE msg) (f p)) (\<lambda>(ms, is). match_each msg f ps (fst acc @ ms, snd acc @ is))"

definition wfn_Any :: string where "wfn_Any = []"
definition wfn_NA :: string where "wfn_NA = ''-''"

section \<open>Criteria\<close>

fun qualifiers_loop :: "penv \<Rightarrow> MPackage \<Rightarrow> Qualifier list \<Rightarrow> bool \<times> verror option" where
  "qualifiers_loop P p [] = (True, None)"
| "qualifiers_loop P p (q # qs) =
     (case Qualifier_Satisfied P q p of
        (sat, Some err) \<Rightarrow> (sat, Some err)
      | (False, None) \<Rightarrow> (False, None)
      | (True, None) \<Rightarrow> qualifiers_loop P p qs)"

definition OnlyQualifiedPackages :: "penv \<Rightarrow> MPackage \<Rightarrow> 'o leaf criteria" where
  "OnlyQualifiedPackages P p = Leaf (FuncCriteria (\<lambda>vuln. Some (qualifiers_loop P p (sv_PackageQualifiers vuln))))"

definition OnlyNonWithdrawnVulnerabilities :: "'o leaf criteria" where
  "OnlyNonWithdrawnVulnerabilities =
     Leaf (FuncCriteria (\<lambda>v. Some (\<not> (sv_Status v = ''withdrawn'' \<or> sv_Status v = ''rejected''), None)))"

definition OnlyVulnerableVersions :: "'o Version option \<Rightarrow> 'o leaf criteria" where
  "OnlyVulnerableVersions v =
     (case v of
        None \<Rightarrow> Leaf (FuncCriteria (\<lambda>_. Some (True, None)))
      | Some ver \<Rightarrow> if ver_Raw ver = [] then Leaf (FuncCriteria (\<lambda>_. Some (True, None))) else Leaf (VersionCriteria ver))"

definition isOSPackage :: "MPackage \<Rightarrow> bool" where
  "isOSPackage p \<longleftrightarrow> pkg_Type p \<in> {AlpmPkg, ApkPkg, DebPkg, KbPkg, PortagePkg, RpmPkg}"

definition isUnknownTarget :: "penv \<Rightarrow> string \<Rightarrow> bool" where
  "isUnknownTarget P targetSW =
     (if pe_LanguageByName P targetSW \<noteq> [] then False
      else if targetSW \<in> {''joomla'', ''joomla'' @ [CHR 0x5C, CHR ''!''], ''drupal''} then False
      else True)"

definition matchesAttributesExceptVersionAndTSW :: "Attributes \<Rightarrow> Attributes \<Rightarrow> bool" where
  "matchesAttributesExceptVersionAndTSW a1 a2 =
     (if \<not> matchesAttribute (cpe_Product a1) (cpe_Product a2)
         \<or> \<not> matchesAttribute (cpe_Vendor a1) (cpe_Vendor a2)
         \<or> \<not> matchesAttribute (cpe_Part a1) (cpe_Part a2)
         \<or> \<not> matchesAttribute (cpe_Language a1) (cpe_Language a2)
         \<or> \<not> matchesAttribute (cpe_SWEdition a1) (cpe_SWEdition a2)
         \<or> \<not> matchesAttribute (cpe_TargetHW a1) (cpe_TargetHW a2)
         \<or> \<not> matchesAttribute (cpe_Other a1) (cpe_Other a2)
         \<or> \<not> matchesAttribute (cpe_Edition a1) (cpe_Edition a2)
      then False else True)"

text \<open>The target software of package and of vulnerability CPEs that agree otherwise.\<close>

definition matchTargetSoftware :: "Attributes list \<Rightarrow> Attributes list \<Rightarrow> string list \<times> string list" where
  "matchTargetSoftware pkgCPEs vulnCPEs =
     (let pairs = filter (\<lambda>(c, p). matchesAttributesExceptVersionAndTSW c p) (List.product vulnCPEs pkgCPEs) in
      (map (\<lambda>(c, p). cpe_TargetSW p) pairs, map (\<lambda>(c, p). cpe_TargetSW c) pairs))"

definition normalizeTargetSoftwares :: "penv \<Rightarrow> string list \<Rightarrow> string list" where
  "normalizeTargetSoftwares P tss =
     concat (map (\<lambda>ts.
       let pt = pe_TargetSoftwareToPackageType P ts;
           pt = (if pt = [] \<and> ts \<noteq> ''*'' \<and> ts \<noteq> ''?'' \<and> ts \<noteq> ''-'' then strings_ToLower ts else pt) in
       if pt \<noteq> [] then [pt] else []) tss)"

definition hasIntersectingTargetSoftware :: "penv \<Rightarrow> string list \<Rightarrow> string list \<Rightarrow> bool" where
  "hasIntersectingTargetSoftware P set1 set2 =
     overlap (normalizeTargetSoftwares P set1) (normalizeTargetSoftwares P set2)"

definition refuteTargetSoftwareByPackageAttributes :: "penv \<Rightarrow> MPackage \<Rightarrow> 'o SVuln \<Rightarrow> bool" where
  "refuteTargetSoftwareByPackageAttributes P p vuln =
     list_ex (\<lambda>c.
       let targetSW = cpe_TargetSW c;
           mismatchWithUnknownLanguage = (pe_LanguageByName P targetSW \<noteq> pkg_Language p \<and> isUnknownTarget P targetSW);
           unspecifiedTargetSW = (targetSW = wfn_Any \<or> targetSW = wfn_NA);
           matchesByLanguage = (pe_LanguageByName P targetSW = pkg_Language p);
           matchesByPackageType = (pe_TargetSoftwareToPackageType P targetSW = pkg_Type p) in
       unspecifiedTargetSW \<or> matchesByLanguage \<or> matchesByPackageType \<or> mismatchWithUnknownLanguage) (sv_CPEs vuln)"

definition isVulnerableTarget :: "penv \<Rightarrow> MPackage \<Rightarrow> 'o SVuln \<Rightarrow> bool" where
  "isVulnerableTarget P p vuln =
     (if isOSPackage p then True
      else
        let (packageTargetSwSet, vulnTargetSwSet) = matchTargetSoftware (mp_CPEs p) (sv_CPEs vuln) in
        if sv_CPEs vuln \<noteq> [] \<and> packageTargetSwSet = [] then False
        else if pkg_Type p = BinaryPkg \<or> pkg_Type p = ''UnknownPackage'' \<or> pkg_Type p = [] then
          (if hasIntersectingTargetSoftware P packageTargetSwSet vulnTargetSwSet then True
           else if wfn_Any \<in> set packageTargetSwSet \<or> wfn_Any \<in> set vulnTargetSwSet then True
           else False)
        else if pkg_Language p = ''java'' then True
        else if sv_CPEs vuln = [] then True
        else if hasIntersectingTargetSoftware P packageTargetSwSet vulnTargetSwSet then True
        else refuteTargetSoftwareByPackageAttributes P p vuln)"

definition OnlyVulnerableTargets :: "penv \<Rightarrow> MPackage \<Rightarrow> 'o leaf criteria" where
  "OnlyVulnerableTargets P p = Leaf (FuncCriteria (\<lambda>v. Some (isVulnerableTarget P p v, None)))"

section \<open>Ignore filters\<close>

fun collect_related :: "string list \<Rightarrow> Reference list \<Rightarrow> string list" where
  "collect_related ids [] = ids"
| "collect_related ids (r # rs) = collect_related (if ref_ID r \<in> set ids then ids else ids @ [ref_ID r]) rs"

definition collectVulnerabilityIDs :: "'o SVuln \<Rightarrow> string list" where
  "collectVulnerabilityIDs v = collect_related [vuln_ID v] (vuln_RelatedVulnerabilities v)"

definition OwnershipIgnores :: "MPackage \<Rightarrow> string \<Rightarrow> 'o SVuln list \<Rightarrow> IgnoreFilter list" where
  "OwnershipIgnores p reason vulns =
     concat (map (\<lambda>v. map (\<lambda>i. RelatedFilter \<lparr>irp_Reason = reason, irp_RelationshipType = ''ownership-by-file-overlap'',
        irp_VulnerabilityID = i, irp_RelatedPackageID = pkg_ID p\<rparr>) (collectVulnerabilityIDs v)) vulns)"

definition vuln_ids :: "string list \<Rightarrow> 'o SVuln \<Rightarrow> string list" where
  "vuln_ids ids v = collect_related (if vuln_ID v \<in> set ids then ids else ids @ [vuln_ID v]) (vuln_RelatedVulnerabilities v)"

definition unaffected_ids :: "'o genv \<Rightarrow> 'o rset \<Rightarrow> string list" where
  "unaffected_ids G s =
     fold (\<lambda>r ids. fold (\<lambda>v ids. vuln_ids ids v) (r_Vulnerabilities r) (ids @ [r_ID r])) (concat (map snd (rset_range G s))) []"

definition constructIgnoreFilters :: "'o genv \<Rightarrow> 'o rset \<Rightarrow> MPackage \<Rightarrow> IgnoreFilter list" where
  "constructIgnoreFilters G unaffectedVulns p =
     map (\<lambda>i. RuleFilter (zero_IgnoreRule\<lparr>ir_Vulnerability := i, ir_IncludeAliases := True, ir_Reason := ''UnaffectedPackageEntry'',
        ir_Package := (ir_Package zero_IgnoreRule)\<lparr>rp_Type := pkg_Type p, rp_Name := pkg_Name p, rp_Version := pkg_Version p\<rparr>\<rparr>))
       (unaffected_ids G unaffectedVulns)"

section \<open>By distribution\<close>

definition isUnknownVersion :: "string \<Rightarrow> bool" where
  "isUnknownVersion v \<longleftrightarrow> strings_ToLower v = ''unknown''"

definition matchPackage :: "MPackage \<Rightarrow> MPackage option \<Rightarrow> MPackage" where
  "matchPackage searchPkg catalogPkg = (case catalogPkg of Some p \<Rightarrow> p | None \<Rightarrow> searchPkg)"

text \<open>A search for each name, the results merged; the first that fails ends it.\<close>

fun search_names :: "'o genv \<Rightarrow> (string \<Rightarrow> serror + 'o rset) \<Rightarrow> string list \<Rightarrow> 'o rset \<Rightarrow> serror + 'o rset" where
  "search_names G search [] acc = Inr acc"
| "search_names G search (n # ns) acc =
     (case search n of Inl e \<Rightarrow> Inl e | Inr v \<Rightarrow> search_names G search ns (rset_Merge G acc v))"

definition package_version :: "MPackage \<Rightarrow> ComparisonConfig option \<Rightarrow> 'o Version" where
  "package_version p cfg =
     (case cfg of
        Some c \<Rightarrow> NewWithConfig (pkg_Version p) (VersionFormat p) c
      | None \<Rightarrow> New (pkg_Version p) (VersionFormat p))"

definition MatchPackageByDistro ::
  "'o genv \<Rightarrow> 'o Provider \<Rightarrow> MPackage \<Rightarrow> MPackage option \<Rightarrow> string \<Rightarrow> ComparisonConfig option \<Rightarrow> match_result" where
  "MatchPackageByDistro G vp searchPkg catalogPkg matcher cfg =
     (case mp_Distro searchPkg of
        None \<Rightarrow> Some (Inr ([], []))
      | Some distro \<Rightarrow>
          if isUnknownVersion (pkg_Version searchPkg) then Some (Inr ([], []))
          else
            let P = g_penv G;
                pkgVersion = package_version searchPkg cfg;
                versionCriteria = OnlyVulnerableVersions (Some pkgVersion);
                matchPkg = matchPackage searchPkg catalogPkg;
                searchNames = vp_PackageSearchNames vp searchPkg in
            bindE (Some (search_names G (\<lambda>name. wrapE ''matcher failed to fetch distro''
                (FindResults P vp matchPkg matcher
                   [Leaf (PackageNameCriteria name), Leaf (DistroCriteria [distro] False), OnlyQualifiedPackages P searchPkg]))
                searchNames [])) (\<lambda>allVulns.
            bindE (map_option Inr (rset_Filter (g_libs G) [versionCriteria] allVulns)) (\<lambda>vulnerable.
            let fixed = rset_Remove allVulns vulnerable in
            bindE (Some (search_names G (\<lambda>name. wrapE ''matcher failed to fetch unaffected''
                (FindResults P vp matchPkg matcher
                   [Leaf (DistroCriteria [distro] False), Leaf (PackageNameCriteria name), Leaf UnaffectedCriteria, versionCriteria]))
                searchNames [])) (\<lambda>unaffected.
            let vulnerable = rset_Remove vulnerable unaffected;
                fixed = rset_Merge G fixed unaffected in
            Some (Inr (ToMatches G vulnerable,
              OwnershipIgnores matchPkg ''DistroPackageFixed'' (rset_Vulnerabilities G fixed)))))))"

section \<open>By language\<close>

definition language_criteria :: "penv \<Rightarrow> MPackage \<Rightarrow> string \<Rightarrow> 'o leaf criteria list" where
  "language_criteria P p name =
     [Leaf (EcosystemCriteria (pkg_Language p) (pkg_Type p)), Leaf (PackageNameCriteria name),
      OnlyQualifiedPackages P p, OnlyNonWithdrawnVulnerabilities]"

fun language_loop ::
  "'o genv \<Rightarrow> 'o Provider \<Rightarrow> MPackage \<Rightarrow> string \<Rightarrow> 'o leaf criteria \<Rightarrow> string list \<Rightarrow> 'o rset \<Rightarrow> 'o rset
   \<Rightarrow> (serror + 'o rset \<times> 'o rset) go" where
  "language_loop G vp p matcher versionCriteria [] disclosures unaffected = Some (Inr (disclosures, unaffected))"
| "language_loop G vp p matcher versionCriteria (name # names) disclosures unaffected =
     (let criteria = language_criteria (g_penv G) p name in
      bindE (Some (wrapE ''matcher failed to fetch disclosure'' (FindResults (g_penv G) vp p matcher criteria))) (\<lambda>found.
      bindE (map_option Inr (rset_Filter (g_libs G) [versionCriteria] found)) (\<lambda>filtered.
      bindE (Some (wrapE ''matcher failed to fetch resolution''
          (FindResults (g_penv G) vp p matcher (criteria @ [Leaf UnaffectedCriteria, versionCriteria])))) (\<lambda>u.
      language_loop G vp p matcher versionCriteria names (rset_Merge G disclosures filtered) (rset_Merge G unaffected u)))))"

definition MatchPackageByLanguage :: "'o genv \<Rightarrow> 'o Provider \<Rightarrow> MPackage \<Rightarrow> string \<Rightarrow> match_result" where
  "MatchPackageByLanguage G vp p matcher =
     (if isUnknownVersion (pkg_Version p) then Some (Inr ([], []))
      else
        let versionCriteria = OnlyVulnerableVersions (Some (New (pkg_Version p) (VersionFormat p))) in
        bindE (language_loop G vp p matcher versionCriteria (vp_PackageSearchNames vp p) [] []) (\<lambda>(disclosures, unaffected).
        let remaining = rset_Remove disclosures unaffected in
        Some (Inr (ToMatches G remaining, constructIgnoreFilters G unaffected p))))"

definition MatchPackageByEcosystemPackageName ::
  "'o genv \<Rightarrow> 'o Provider \<Rightarrow> MPackage \<Rightarrow> string \<Rightarrow> string \<Rightarrow> match_result" where
  "MatchPackageByEcosystemPackageName G vp p packageName matcher =
     (if isUnknownVersion (pkg_Version p) then Some (Inr ([], []))
      else
        let criteria = language_criteria (g_penv G) p packageName;
            versionCriteria = OnlyVulnerableVersions (Some (New (pkg_Version p) (VersionFormat p))) in
        bindE (Some (wrapE ''matcher failed to fetch disclosure'' (FindResults (g_penv G) vp p matcher criteria))) (\<lambda>found.
        bindE (map_option Inr (rset_Filter (g_libs G) [versionCriteria] found)) (\<lambda>disclosures.
        bindE (Some (wrapE ''matcher failed to fetch resolution''
            (FindResults (g_penv G) vp p matcher (criteria @ [Leaf UnaffectedCriteria, versionCriteria])))) (\<lambda>unaffected.
        let remaining = rset_Remove disclosures unaffected in
        Some (Inr (ToMatches G remaining, constructIgnoreFilters G unaffected p))))))"

end
