(* ===== verification/Cpe_Matching.thy ===== *)
theory Cpe_Matching
  imports Matcher_Common
begin

text \<open>
  Matching by CPE, \<^verbatim>\<open>grype/matcher/internal/cpe.go\<close>, its combination with the search by language (\<^verbatim>\<open>common.go\<close>)
  and the end of life of a distribution (\<^verbatim>\<open>eol.go\<close>).

  The map from fingerprints to matches is an association list; it is read in the order \<open>env_range\<close> gives.  The version
  object of a CPE is threaded, because a constraint check fills its comparator cache.
\<close>

section \<open>Versions\<close>

definition alpineCPEComparableVersion :: "string \<Rightarrow> string" where
  "alpineCPEComparableVersion version =
     (case strings_Cut version ''-r'' of
        Some (b, a) \<Rightarrow> if strings_Contains a ''-r'' then version else b
      | None \<Rightarrow> version)"

definition transformJvmVersion :: "string \<Rightarrow> string \<Rightarrow> string" where
  "transformJvmVersion searchVersion updateCpeField =
     (if strings_HasPrefix searchVersion ''1.'' \<and> \<not> strings_Contains searchVersion ''_''
         \<and> updateCpeField \<noteq> wfn_NA \<and> updateCpeField \<noteq> wfn_Any
      then searchVersion @ ''_'' @ strings_TrimPrefix updateCpeField ''update''
      else searchVersion)"

definition cpesToString :: "penv \<Rightarrow> Attributes list \<Rightarrow> string list" where
  "cpesToString P cpes = sort_Strings (map (pe_cpe_String P) cpes)"

definition cpe_version :: "'o Version \<Rightarrow> Attributes \<Rightarrow> string" where
  "cpe_version pkgVersion c =
     (if ver_Format pkgVersion = JVMFormat \<and> cpe_Update c \<noteq> wfn_Any \<and> cpe_Update c \<noteq> wfn_NA
      then transformJvmVersion (cpe_Version c) (cpe_Update c) else cpe_Version c)"

fun filterCPEs_loop :: "'o libs \<Rightarrow> 'o Version \<Rightarrow> Attributes list \<Rightarrow> (Attributes list \<times> 'o Version) go" where
  "filterCPEs_loop L pkgVersion [] = Some ([], pkgVersion)"
| "filterCPEs_loop L pkgVersion (c # cs) =
     (if cpe_Version c = wfn_Any \<or> cpe_Version c = wfn_NA then
        map_option (apfst (Cons c)) (filterCPEs_loop L pkgVersion cs)
      else
        case GetConstraint L (cpe_version pkgVersion c) (ver_Format pkgVersion) of
          Inl _ \<Rightarrow> map_option (apfst (Cons c)) (filterCPEs_loop L pkgVersion cs)
        | Inr constraint \<Rightarrow> do {
            r \<leftarrow> constraint_Satisfied L constraint (Some pkgVersion);
            (case r of
               (v', sat, err) \<Rightarrow>
                 let rest = filterCPEs_loop L (case v' of Some w \<Rightarrow> w | None \<Rightarrow> pkgVersion) cs in
                 if err \<noteq> None \<or> sat then map_option (apfst (Cons c)) rest else rest)
          })"

definition filterCPEsByVersion ::
  "'o libs \<Rightarrow> 'o Version option \<Rightarrow> Attributes list \<Rightarrow> (Attributes list \<times> 'o Version option) go" where
  "filterCPEsByVersion L pkgVersion allCPEs =
     (case pkgVersion of
        None \<Rightarrow> Some (allCPEs, None)
      | Some v \<Rightarrow> map_option (apsnd Some) (filterCPEs_loop L v allCPEs))"

section \<open>Details\<close>

text \<open>A nil constraint panics.\<close>

definition CPEMatchDetails ::
  "'o genv \<Rightarrow> string \<Rightarrow> 'o SVuln \<Rightarrow> Attributes \<Rightarrow> MPackage \<Rightarrow> 'o Version option \<Rightarrow> (Detail \<times> 'o Version option) go" where
  "CPEMatchDetails G matcherType vuln searchedByCPE p searchVersion = do {
     constraint \<leftarrow> sv_Constraint vuln;
     filtered \<leftarrow> filterCPEsByVersion (g_libs G) searchVersion (sv_CPEs vuln);
     Some (\<lparr>d_Type = CPEMatch,
         d_SearchedBy = AnyCPEParameters \<lparr>cp_Namespace = vuln_Namespace vuln, cp_CPEs = [pe_cpe_String (g_penv G) searchedByCPE],
           cp_Package = \<lparr>pp_Name = pkg_Name p, pp_Version = pkg_Version p\<rparr>\<rparr>,
         d_Found = AnyCPEResult \<lparr>cr_VulnerabilityID = vuln_ID vuln, cr_VersionConstraint = constraint_String constraint,
           cr_CPEs = cpesToString (g_penv G) (fst filtered)\<rparr>,
         d_Matcher = matcherType, d_Confidence = 9 / 10\<rparr>, snd filtered)
   }"

fun merge_into_details :: "CPEResult \<Rightarrow> CPEParameters \<Rightarrow> Detail \<Rightarrow> Detail list \<Rightarrow> Detail list" where
  "merge_into_details newFound newSearchedBy newDetails [] = [newDetails]"
| "merge_into_details newFound newSearchedBy newDetails (detail # ds) =
     (case (d_Found detail, d_SearchedBy detail) of
        (AnyCPEResult found, AnyCPEParameters searchedBy) \<Rightarrow>
          if \<not> CPEResult_Equals found newFound then detail # merge_into_details newFound newSearchedBy newDetails ds
          else (case CPEParameters_Merge searchedBy newSearchedBy of
             Inl _ \<Rightarrow> detail # merge_into_details newFound newSearchedBy newDetails ds
           | Inr merged \<Rightarrow> detail\<lparr>d_SearchedBy := AnyCPEParameters merged\<rparr> # ds)
      | _ \<Rightarrow> detail # merge_into_details newFound newSearchedBy newDetails ds)"

definition addMatchDetails :: "Detail list \<Rightarrow> Detail \<Rightarrow> Detail list" where
  "addMatchDetails existingDetails newDetails =
     (case (d_Found newDetails, d_SearchedBy newDetails) of
        (AnyCPEResult newFound, AnyCPEParameters newSearchedBy) \<Rightarrow>
          merge_into_details newFound newSearchedBy newDetails existingDetails
      | _ \<Rightarrow> existingDetails)"

type_synonym fp_matches = "(Fingerprint \<times> Match) list"

definition addNewMatch ::
  "'o genv \<Rightarrow> fp_matches \<Rightarrow> 'o SVuln \<Rightarrow> MPackage \<Rightarrow> 'o Version option \<Rightarrow> string \<Rightarrow> Attributes \<Rightarrow> (fp_matches \<times> 'o Version option) go" where
  "addNewMatch G matchesByFingerprint vuln p searchVersion upstreamMatcher searchedByCPE =
     (let candidateMatch = \<lparr>m_Vulnerability = Vulnerability.truncate vuln, m_Package = Package.truncate p, m_Details = []\<rparr>;
          candidateMatch = (case map_of matchesByFingerprint (Match_Fingerprint candidateMatch) of
             Some existingMatch \<Rightarrow> existingMatch | None \<Rightarrow> candidateMatch) in
      do {
        details \<leftarrow> CPEMatchDetails G upstreamMatcher vuln searchedByCPE p searchVersion;
        let candidateMatch = candidateMatch\<lparr>m_Details := addMatchDetails (m_Details candidateMatch) (fst details)\<rparr> in
          Some (AList.update (Match_Fingerprint candidateMatch) candidateMatch matchesByFingerprint, snd details)
      })"

fun add_matches ::
  "'o genv \<Rightarrow> MPackage \<Rightarrow> string \<Rightarrow> Attributes \<Rightarrow> 'o SVuln list \<Rightarrow> fp_matches \<Rightarrow> 'o Version option \<Rightarrow> fp_matches go" where
  "add_matches G p matcher c [] fps verObj = Some fps"
| "add_matches G p matcher c (vuln # vulns) fps verObj = do {
     r \<leftarrow> addNewMatch G fps vuln p verObj matcher c;
     add_matches G p matcher c vulns (fst r) (snd r)
   }"

definition cpe_toMatches :: "'o genv \<Rightarrow> fp_matches \<Rightarrow> Match list" where
  "cpe_toMatches G fps = go_sort ByElements_Less (map (\<lambda>fp. the (map_of fps fp)) (go_range (g_menv G) (map fst fps)))"

section \<open>The search\<close>

definition ErrEmptyCPEMatch :: serror where
  "ErrEmptyCPEMatch = ErrorText ''attempted CPE match against package with no CPEs''"

text \<open>The version to search with: that of the CPE, or of the package.\<close>

definition cpe_searchVersion :: "MPackage \<Rightarrow> Attributes \<Rightarrow> string" where
  "cpe_searchVersion p c =
     (let searchVersion = cpe_Version c;
          searchVersion = (if pkg_Type p = ApkPkg then alpineCPEComparableVersion searchVersion else searchVersion) in
      if searchVersion = wfn_NA \<or> searchVersion = wfn_Any \<or> isUnknownVersion searchVersion then pkg_Version p else searchVersion)"

definition cpe_verObj :: "MPackage \<Rightarrow> Attributes \<Rightarrow> 'o Version option" where
  "cpe_verObj p c =
     (let format = VersionFormat p; searchVersion = cpe_searchVersion p c;
          searchVersion = (if format = JVMFormat then transformJvmVersion searchVersion (cpe_Update c) else searchVersion) in
      if searchVersion \<noteq> [] then Some (New searchVersion format) else None)"

definition cpe_criteria :: "penv \<Rightarrow> MPackage \<Rightarrow> Attributes \<Rightarrow> 'o leaf criteria list" where
  "cpe_criteria P p c =
     [Leaf (CPECriteria c), OnlyVulnerableTargets P p, OnlyQualifiedPackages P p, OnlyNonWithdrawnVulnerabilities]"

fun cpe_loop ::
  "'o genv \<Rightarrow> 'o Provider \<Rightarrow> MPackage \<Rightarrow> string \<Rightarrow> Attributes list \<Rightarrow> fp_matches \<Rightarrow> IgnoreFilter list
   \<Rightarrow> (serror + fp_matches \<times> IgnoreFilter list) go" where
  "cpe_loop G vp p matcher [] fps ignores = Some (Inr (fps, ignores))"
| "cpe_loop G vp p matcher (c # cs) fps ignores =
     (if isUnknownVersion (cpe_searchVersion p c) then cpe_loop G vp p matcher cs fps ignores
      else
        let verObj = cpe_verObj p c;
            c' = c\<lparr>cpe_Version := cpe_searchVersion p c\<rparr>;
            criteria = cpe_criteria (g_penv G) p c';
            versionCriteria = OnlyVulnerableVersions verObj in
        bindE (Some (wrapE ''matcher failed to fetch by CPE'' (FindResults (g_penv G) vp p matcher criteria))) (\<lambda>found.
        bindE (map_option Inr (rset_Filter (g_libs G) [versionCriteria] found)) (\<lambda>vulns.
        bindE (Some (wrapE ''matcher failed to fetch unaffected CPE records''
            (FindResults (g_penv G) vp p matcher (criteria @ [Leaf UnaffectedCriteria, versionCriteria])))) (\<lambda>unaffected.
        let unaffected = rset_Merge G (rset_Remove found vulns) unaffected;
            ignores = ignores @ OwnershipIgnores p ''CPE not vulnerable'' (rset_Vulnerabilities G unaffected) in
        bindE (map_option Inr (add_matches G p matcher c' (rset_Vulnerabilities G vulns) fps verObj)) (\<lambda>fps'.
        cpe_loop G vp p matcher cs fps' ignores)))))"

definition MatchPackageByCPEs :: "'o genv \<Rightarrow> 'o Provider \<Rightarrow> MPackage \<Rightarrow> string \<Rightarrow> match_result" where
  "MatchPackageByCPEs G vp p upstreamMatcher =
     (if mp_CPEs p = [] then Some (Inl ErrEmptyCPEMatch)
      else bindE (cpe_loop G vp p upstreamMatcher (mp_CPEs p) [] []) (\<lambda>(fps, ignores).
        Some (Inr (cpe_toMatches G fps, ignores))))"

section \<open>Combined with the search by language\<close>

text \<open>Errors of both searches are logged; what the failed search would have given is missing.\<close>

definition no_error :: "serror + Match list \<times> IgnoreFilter list \<Rightarrow> Match list \<times> IgnoreFilter list" where
  "no_error r = (case r of Inl _ \<Rightarrow> ([], []) | Inr x \<Rightarrow> x)"

definition MatchPackageByEcosystemAndCPEs :: "'o genv \<Rightarrow> 'o Provider \<Rightarrow> MPackage \<Rightarrow> string \<Rightarrow> bool \<Rightarrow> match_result" where
  "MatchPackageByEcosystemAndCPEs G vp p matcher includeCPEs = do {
     r \<leftarrow> MatchPackageByLanguage G vp p matcher;
     (case no_error r of (matches, ignored) \<Rightarrow>
        if includeCPEs then do {
          c \<leftarrow> MatchPackageByCPEs G vp p matcher;
          (case no_error c of (cpeMatches, cpeIgnores) \<Rightarrow> Some (Inr (matches @ cpeMatches, ignored @ cpeIgnores)))
        }
        else Some (Inr (matches, ignored)))
   }"

section \<open>End of life\<close>

record EOLStatus =
  IsEOL :: bool
  IsEOAS :: bool
  EOLDate :: "int option"
  EOASDate :: "int option"

definition zero_EOLStatus :: EOLStatus where
  "zero_EOLStatus = \<lparr>IsEOL = False, IsEOAS = False, EOLDate = None, EOASDate = None\<rparr>"

definition CheckDistroEOL :: "'o Provider \<Rightarrow> Distro option \<Rightarrow> EOLStatus" where
  "CheckDistroEOL provider d =
     (case d of
        None \<Rightarrow> zero_EOLStatus
      | Some d \<Rightarrow>
          (case vp_OperatingSystemEOL provider of
             None \<Rightarrow> zero_EOLStatus
           | Some checker \<Rightarrow>
               (case checker d of
                  Inl _ \<Rightarrow> zero_EOLStatus
                | Inr (eolDate, eoasDate) \<Rightarrow>
                    let t = vp_now provider in
                    \<lparr>IsEOL = (case eolDate of Some x \<Rightarrow> t > x | None \<Rightarrow> False),
                     IsEOAS = (case eoasDate of Some x \<Rightarrow> t > x | None \<Rightarrow> False),
                     EOLDate = eolDate, EOASDate = eoasDate\<rparr>)))"

definition IsDistroEOL :: "'o Provider \<Rightarrow> Distro option \<Rightarrow> bool" where
  "IsDistroEOL provider d = IsEOL (CheckDistroEOL provider d)"

text \<open>The search by CPE the distribution matchers add at the end of life: an error of it is logged.\<close>

definition add_eol_cpe_matches ::
  "'o genv \<Rightarrow> 'o Provider \<Rightarrow> MPackage \<Rightarrow> string \<Rightarrow> bool \<Rightarrow> Match list \<times> IgnoreFilter list \<Rightarrow> match_result" where
  "add_eol_cpe_matches G vp p matcher useCPEsForEOL r =
     (if useCPEsForEOL \<and> IsDistroEOL vp (mp_Distro p) then
        map_option (\<lambda>c. case no_error c of (ms, is) \<Rightarrow> Inr (fst r @ ms, snd r @ is)) (MatchPackageByCPEs G vp p matcher)
      else Some (Inr r))"

end
