(* ===== verification/Rhel_Eus.thy ===== *)
theory Rhel_Eus
  imports Cpe_Matching Version_Set
begin

text \<open>
  Extended update support, \<^verbatim>\<open>grype/matcher/rpm/rhel_eus.go\<close>: which fixes a minor release can reach, and how the
  advisories of the EUS channel are laid over the disclosures of the base distribution.

  The version of the package is a pointer the code passes along; its comparator cache changes with every comparison,
  so the functions take the version and return it.
\<close>

definition FixStateNotFixed :: string where "FixStateNotFixed = ''not-fixed''"
definition FixStateWontFix :: string where "FixStateWontFix = ''wont-fix''"

section \<open>Which fixes a minor release can reach\<close>

definition elVersionPattern :: re where
  "elVersionPattern =
     Seq (Lit ''.el'') (Seq (Grp 1 (Plus (Cls is_digit))) (Opt (Seq (Chr CHR ''_'') (Grp 2 (Plus (Cls is_digit))))))"

definition extractRHELVersionFromRelease :: "string \<Rightarrow> int \<times> int \<times> bool" where
  "extractRHELVersionFromRelease release =
     (case regexp_Find elVersionPattern release of
        None \<Rightarrow> (0, 0, False)
      | Some m \<Rightarrow>
          (case strconv_Atoi (submatch m 1) of
             None \<Rightarrow> (0, 0, False)
           | Some major \<Rightarrow>
               if submatch m 2 = [] then (major, 0, True)
               else (case strconv_Atoi (submatch m 2) of
                  None \<Rightarrow> (major, 0, True)
                | Some minor \<Rightarrow> (major, minor, True))))"

definition extractReleaseFromRPMVersion :: "string \<Rightarrow> string" where
  "extractReleaseFromRPMVersion rpmVersion =
     (let rpmVersion = (case strings_Index rpmVersion '':'' of Some idx \<Rightarrow> drop (idx + 1) rpmVersion | None \<Rightarrow> rpmVersion) in
      case strings_LastIndex rpmVersion ''-'' of Some idx \<Rightarrow> drop (idx + 1) rpmVersion | None \<Rightarrow> rpmVersion)"

text \<open>The number \<^verbatim>\<open>strconv.Atoi\<close> returns beside an error: 0, or for a number out of range the nearest one.\<close>

definition Atoi_value :: "string \<Rightarrow> int" where
  "Atoi_value s =
     (case strconv_Atoi s of
        Some n \<Rightarrow> n
      | None \<Rightarrow>
          let neg = strings_HasPrefix s ''-'';
              ds = (if neg \<or> strings_HasPrefix s ''+'' then tl s else s) in
          if ds \<noteq> [] \<and> list_all is_digit ds then (if neg then - (2 ^ 63) else 2 ^ 63 - 1) else 0)"

definition isFixReachableForEUS :: "string \<Rightarrow> Distro option \<Rightarrow> bool" where
  "isFixReachableForEUS fixVersion eusDistro =
     (case eusDistro of
        None \<Rightarrow> True
      | Some d \<Rightarrow>
          if distro_major d = [] then True
          else case strconv_Atoi (distro_major d) of
            None \<Rightarrow> True
          | Some eusMajorInt \<Rightarrow>
              let eusMinorInt = (if distro_minor d \<noteq> [] then Atoi_value (distro_minor d) else 0) in
              case extractRHELVersionFromRelease (extractReleaseFromRPMVersion fixVersion) of
                (fixMajor, fixMinor, found) \<Rightarrow>
                  if \<not> found then True
                  else if fixMajor \<noteq> eusMajorInt then False
                  else fixMinor \<le> eusMinorInt)"

definition shouldUseRedhatEUSMatching :: "Distro option \<Rightarrow> bool" where
  "shouldUseRedhatEUSMatching d =
     (case d of
        None \<Rightarrow> False
      | Some d \<Rightarrow>
          if distro_Type d \<noteq> ''redhat'' then False
          else list_ex (\<lambda>channel. strings_ToLower channel = ''eus'') (distro_Channels d))"

section \<open>Advisories laid over a disclosure\<close>

definition isVulnerableVersion :: "'o libs \<Rightarrow> 'o Version \<Rightarrow> 'o constraint option \<Rightarrow> (bool \<times> 'o Version) go" where
  "isVulnerableVersion L v c =
     (case c of
        None \<Rightarrow> Some (False, v)
      | Some k \<Rightarrow> do {
          r \<leftarrow> constraint_Satisfied L k (Some v);
          (case r of (v', isVulnerable, err) \<Rightarrow>
             Some (if err \<noteq> None then False else isVulnerable, case v' of Some w \<Rightarrow> w | None \<Rightarrow> v))
        })"

fun neededFixes :: "'o libs \<Rightarrow> 'o Version \<Rightarrow> string list \<Rightarrow> Format \<Rightarrow> ('o Version list \<times> 'o Version) go" where
  "neededFixes L v [] format = Some ([], v)"
| "neededFixes L v (fixVersion # fixVersions) format =
     (let fixVersionObj = New fixVersion format in
      do {
        r \<leftarrow> Version_Is L (Some v) LT (Some fixVersionObj);
        (case r of (v', res, err) \<Rightarrow>
           map_option (apfst (\<lambda>needed. if err = None \<and> res then fixVersionObj # needed else needed))
             (neededFixes L (case v' of Some w \<Rightarrow> w | None \<Rightarrow> v) fixVersions format))
      })"

definition filterFixesForEUS :: "'o Version list \<Rightarrow> Distro option \<Rightarrow> 'o Version list" where
  "filterFixesForEUS fixes eusDistro =
     (if eusDistro = None then fixes else filter (\<lambda>fix. isFixReachableForEUS (ver_Raw fix) eusDistro) fixes)"

definition finalizeFixState :: "'o SVuln \<Rightarrow> string \<Rightarrow> string" where
  "finalizeFixState record state =
     (let state = (if state = [] then FixStateUnknown else state) in
      if state \<noteq> FixStateUnknown then state
      else if fix_State (vuln_Fix record) \<noteq> FixStateUnknown then fix_State (vuln_Fix record)
      else FixStateUnknown)"

text \<open>What the overlays of one disclosure add up to.\<close>

record 'o overlay =
  ov_fixVersions :: "'o Set"
  ov_constraints :: "'o constraint option list"
  ov_state :: string
  ov_details :: "Detail list"

text \<open>One advisory: a nil constraint panics.  The flag says whether the details of its result are kept.\<close>

definition overlay_advisory ::
  "'o libs \<Rightarrow> Distro option \<Rightarrow> 'o SVuln \<Rightarrow> 'o overlay \<times> bool \<times> 'o Version \<Rightarrow> ('o overlay \<times> bool \<times> 'o Version) go" where
  "overlay_advisory L eusDistro advisory st =
     (case st of (ov, keepDetails, v) \<Rightarrow>
        let ov = (if fix_State (vuln_Fix advisory) = FixStateWontFix \<and> ov_state ov \<noteq> FixStateFixed
                  then ov\<lparr>ov_state := fix_State (vuln_Fix advisory)\<rparr> else ov) in
        do {
          c \<leftarrow> sv_Constraint advisory;
          r \<leftarrow> neededFixes L v (fix_Versions (vuln_Fix advisory)) (constraint_Format c);
          (case r of (allFixes, v') \<Rightarrow>
             let applicableFixes = filterFixesForEUS allFixes eusDistro in
             if applicableFixes = [] then
               (if allFixes \<noteq> [] \<and> eusDistro \<noteq> None \<and> ov_state ov \<noteq> FixStateFixed
                then Some (ov\<lparr>ov_state := FixStateNotFixed, ov_constraints := ov_constraints ov @ [Some c]\<rparr>, True, v')
                else Some (ov, keepDetails, v'))
             else Some (ov\<lparr>ov_constraints := ov_constraints ov @ [Some c],
                  ov_fixVersions := Set_Add (map Some applicableFixes) (ov_fixVersions ov),
                  ov_state := (if ov_state ov \<noteq> FixStateFixed then fix_State (vuln_Fix advisory) else ov_state ov)\<rparr>, True, v'))
        })"

fun overlay_advisories ::
  "'o libs \<Rightarrow> Distro option \<Rightarrow> 'o SVuln list \<Rightarrow> 'o overlay \<times> bool \<times> 'o Version \<Rightarrow> ('o overlay \<times> bool \<times> 'o Version) go" where
  "overlay_advisories L eusDistro [] st = Some st"
| "overlay_advisories L eusDistro (advisory # advisories) st = do {
     st' \<leftarrow> overlay_advisory L eusDistro advisory st;
     overlay_advisories L eusDistro advisories st'
   }"

definition collectMatchingConstraintsDetailsAndFixState ::
  "'o libs \<Rightarrow> Distro option \<Rightarrow> 'o Result \<Rightarrow> 'o overlay \<times> 'o Version \<Rightarrow> ('o overlay \<times> 'o Version) go" where
  "collectMatchingConstraintsDetailsAndFixState L eusDistro advisoryResult st =
     (case st of (ov, v) \<Rightarrow> do {
        r \<leftarrow> overlay_advisories L eusDistro (r_Vulnerabilities advisoryResult) (ov, False, v);
        (case r of (ov', keepDetails, v') \<Rightarrow>
           Some (if keepDetails then ov'\<lparr>ov_details := ov_details ov' @ r_Details advisoryResult\<rparr> else ov', v'))
      })"

fun collect_overlays ::
  "'o libs \<Rightarrow> Distro option \<Rightarrow> 'o Result list \<Rightarrow> 'o overlay \<times> 'o Version \<Rightarrow> ('o overlay \<times> 'o Version) go" where
  "collect_overlays L eusDistro [] st = Some st"
| "collect_overlays L eusDistro (r # rs) st = do {
     st' \<leftarrow> collectMatchingConstraintsDetailsAndFixState L eusDistro r st;
     collect_overlays L eusDistro rs st'
   }"

definition buildPatchedVulnerabilityRecord :: "'o genv \<Rightarrow> Format \<Rightarrow> 'o SVuln \<Rightarrow> 'o overlay \<Rightarrow> 'o SVuln go" where
  "buildPatchedVulnerabilityRecord G format disclosure ov = do {
     fixes \<leftarrow> (if ov_state ov = FixStateFixed then Set_Values (g_libs G) (g_versions G) (ov_fixVersions ov) else Some []);
     let raws = map ver_Raw fixes;
         fixConstraints = concat (map (\<lambda>raw. case GetConstraint (g_libs G) (''< '' @ raw) format of
           Inl _ \<Rightarrow> [] | Inr k \<Rightarrow> [Some k]) raws);
         versions = (if ov_state ov = FixStateFixed then raws else fix_Versions (vuln_Fix disclosure)) in
       Some (disclosure\<lparr>vuln_Fix := \<lparr>fix_Versions = versions, fix_State = finalizeFixState disclosure (ov_state ov)\<rparr>,
         sv_Constraint := CombineConstraints (ov_constraints ov @ fixConstraints)\<rparr>)
   }"

definition mergeEUSAdvisoryIntoSingleDisclosure ::
  "'o genv \<Rightarrow> Distro option \<Rightarrow> 'o Result list \<Rightarrow> 'o SVuln \<Rightarrow> 'o Version \<Rightarrow> (('o SVuln \<times> Detail list) option \<times> 'o Version) go" where
  "mergeEUSAdvisoryIntoSingleDisclosure G eusDistro advisoryOverlays disclosure v = do {
     r \<leftarrow> isVulnerableVersion (g_libs G) v (sv_Constraint disclosure);
     (case r of (isVulnerable, v1) \<Rightarrow> do {
        r2 \<leftarrow> collect_overlays (g_libs G) eusDistro advisoryOverlays
          (\<lparr>ov_fixVersions = NewSet True [], ov_constraints = (if isVulnerable then [sv_Constraint disclosure] else []),
            ov_state = [], ov_details = []\<rparr>, v1);
        (case r2 of (ov, v2) \<Rightarrow>
           if ov_constraints ov = [] then Some (None, v2)
           else map_option (\<lambda>patched. (Some (patched, ov_details ov), v2))
             (buildPatchedVulnerabilityRecord G (ver_Format v) disclosure ov))
      })
   }"

fun merge_disclosures ::
  "'o genv \<Rightarrow> Distro option \<Rightarrow> 'o Result list \<Rightarrow> 'o SVuln list \<Rightarrow> 'o Version \<Rightarrow> ('o SVuln list \<times> Detail list \<times> 'o Version) go" where
  "merge_disclosures G eusDistro overlays [] v = Some ([], [], v)"
| "merge_disclosures G eusDistro overlays (disclosure # disclosures) v = do {
     r \<leftarrow> mergeEUSAdvisoryIntoSingleDisclosure G eusDistro overlays disclosure v;
     (case r of (processed, v1) \<Rightarrow> do {
        rest \<leftarrow> merge_disclosures G eusDistro overlays disclosures v1;
        (case rest of (vulns, details, v2) \<Rightarrow>
           Some (case processed of None \<Rightarrow> (vulns, details, v2) | Some (vuln, ds) \<Rightarrow> (vuln # vulns, ds @ details, v2)))
      })
   }"

definition finalizeMatchDetails :: "menv \<Rightarrow> 'o Result \<Rightarrow> Detail list \<Rightarrow> string \<Rightarrow> 'o Result" where
  "finalizeMatchDetails E processedResult originalDetails raw =
     (if r_Vulnerabilities processedResult = [] then processedResult
      else processedResult\<lparr>r_Details :=
        patchDetailVersion (NewMatchDetailsSet E (r_Details processedResult @ originalDetails)) raw\<rparr>)"

definition mergeEUSAdvisoryIntoMainDisclosure ::
  "'o genv \<Rightarrow> Distro option \<Rightarrow> 'o Result list \<Rightarrow> 'o Result \<Rightarrow> 'o Version \<Rightarrow> ('o Result \<times> 'o Version) go" where
  "mergeEUSAdvisoryIntoMainDisclosure G eusDistro advisoryOverlays disclosures v = do {
     r \<leftarrow> merge_disclosures G eusDistro advisoryOverlays (r_Vulnerabilities disclosures) v;
     (case r of (vulns, details, v') \<Rightarrow>
        Some (finalizeMatchDetails (g_menv G)
          \<lparr>r_ID = r_ID disclosures, r_Vulnerabilities = vulns, r_Details = details, r_Package = r_Package disclosures\<rparr>
          (r_Details disclosures) (ver_Raw v), v'))
   }"

fun mergeEUSAdvisoriesIntoMainDisclosures :: "'o genv \<Rightarrow> Distro option \<Rightarrow> ('o, 'o Version) mergeFunc" where
  "mergeEUSAdvisoriesIntoMainDisclosures G eusDistro [] advisoryOverlays v = Some ([], v)"
| "mergeEUSAdvisoriesIntoMainDisclosures G eusDistro (ds # disclosures) advisoryOverlays v = do {
     r \<leftarrow> mergeEUSAdvisoryIntoMainDisclosure G eusDistro advisoryOverlays ds v;
     (case r of (processedResult, v') \<Rightarrow>
        map_option (apfst (\<lambda>out. if r_Vulnerabilities processedResult \<noteq> [] then processedResult # out else out))
          (mergeEUSAdvisoriesIntoMainDisclosures G eusDistro disclosures advisoryOverlays v'))
   }"

section \<open>The search\<close>

definition IgnoreReasonDistroFixed :: string where "IgnoreReasonDistroFixed = ''Distro Fixed''"
definition IgnoreReasonDistroNotVulnerable :: string where "IgnoreReasonDistroNotVulnerable = ''Distro Not Vulnerable''"
definition IgnoreReasonAlmaUnaffected :: string where "IgnoreReasonAlmaUnaffected = ''Alma Unaffected''"

text \<open>A provider of results is made of the provider of vulnerabilities, the package of the catalog and the matcher's type;
  the searches look for \<open>searchPkg\<close>.\<close>

definition redhatEUSMatches ::
  "'o genv \<Rightarrow> 'o Provider \<Rightarrow> MPackage \<Rightarrow> string \<Rightarrow> MPackage \<Rightarrow> Distro \<Rightarrow> MissingEpochStrategy \<Rightarrow> match_result" where
  "redhatEUSMatches G vp p matcher searchPkg distro missingEpochStrategy =
     (let P = g_penv G;
          distroWithoutEUS = distro\<lparr>distro_Channels := []\<rparr>;
          pkgVersion = NewWithConfig (pkg_Version searchPkg) (VersionFormat searchPkg)
            \<lparr>cfg_MissingEpochStrategy = missingEpochStrategy\<rparr> in
      bindE (Some (wrapE ''matcher failed to fetch disclosures''
          (FindResults P vp p matcher [Leaf (PackageNameCriteria (pkg_Name searchPkg)), Leaf (DistroCriteria [distroWithoutEUS] False),
             OnlyQualifiedPackages P searchPkg, OnlyVulnerableVersions (Some pkgVersion)]))) (\<lambda>disclosures.
      if disclosures = [] then Some (Inr ([], []))
      else
        bindE (Some (wrapE ''matcher failed to fetch resolutions''
            (FindResults P vp p matcher [Leaf (PackageNameCriteria (pkg_Name searchPkg)),
               Leaf (DistroCriteria [distroWithoutEUS, distro] False), OnlyQualifiedPackages P searchPkg]))) (\<lambda>resolutions.
        bindE (map_option Inr (rset_Filter (g_libs G) [Leaf (ByFixedVersion (g_libs G) pkgVersion)] resolutions)) (\<lambda>eusFixes.
        let remaining = rset_Remove disclosures eusFixes in
        bindE (map_option Inr (rset_MergeWith G [mergeEUSAdvisoriesIntoMainDisclosures G (Some distro)] remaining resolutions pkgVersion))
          (\<lambda>(remaining, _).
        Some (Inr (ToMatches G remaining,
          OwnershipIgnores searchPkg IgnoreReasonDistroNotVulnerable (rset_Vulnerabilities G eusFixes))))))))"

end
