(* ===== verification/Rpm_Matcher.thy ===== *)
theory Rpm_Matcher
  imports Rhel_Eus
begin

text \<open>
  The matcher for RPM packages: \<^verbatim>\<open>grype/matcher/rpm\<close> (\<^verbatim>\<open>matcher.go\<close>, \<^verbatim>\<open>almalinux.go\<close>, \<^verbatim>\<open>almalinux_package_utils.go\<close>).
\<close>

definition RpmMatcher :: string where "RpmMatcher = ''rpm-matcher''"

record RpmMatcherConfig =
  rpm_MissingEpochStrategy :: MissingEpochStrategy
  rpm_UseCPEsForEOL :: bool

section \<open>AlmaLinux\<close>

definition shouldUseAlmaLinuxMatching :: "Distro option \<Rightarrow> bool" where
  "shouldUseAlmaLinuxMatching d = (case d of None \<Rightarrow> False | Some d \<Rightarrow> distro_Type d = ''almalinux'')"

definition markAsIndirectMatches :: "'o rset \<Rightarrow> 'o rset" where
  "markAsIndirectMatches results =
     map (\<lambda>(key, rs). (key, map (\<lambda>r. r\<lparr>r_Details := map (\<lambda>d. d\<lparr>d_Type := ExactIndirectMatch\<rparr>) (r_Details r)\<rparr>) rs)) results"

definition extractSourceRPMName :: "MPackage \<Rightarrow> string" where
  "extractSourceRPMName p =
     (if pkg_Type p \<noteq> RpmPkg then []
      else case filter (\<lambda>u. up_Name u \<noteq> [] \<and> up_Name u \<noteq> pkg_Name p) (pkg_Upstreams p) of
        u # _ \<Rightarrow> up_Name u
      | [] \<Rightarrow> pkg_Name p)"

definition getRelatedPackageNames :: "MPackage \<Rightarrow> string list" where
  "getRelatedPackageNames p =
     (let sourceRPMName = extractSourceRPMName p in
      [pkg_Name p] @ (if sourceRPMName \<noteq> [] \<and> sourceRPMName \<noteq> pkg_Name p then [sourceRPMName] else []))"

definition append_results :: "'o genv \<Rightarrow> 'o rset \<Rightarrow> 'o rset \<Rightarrow> 'o rset" where
  "append_results G relatedResults allResults =
     fold (\<lambda>(key, results) out. AList.update key (get_fps out key @ results) out) (rset_range G relatedResults) allResults"

fun related_loop ::
  "'o genv \<Rightarrow> 'o Provider \<Rightarrow> MPackage \<Rightarrow> string \<Rightarrow> MPackage \<Rightarrow> Distro \<Rightarrow> string list \<Rightarrow> 'o rset \<Rightarrow> 'o rset" where
  "related_loop G vp p matcher searchPkg distro [] allResults = allResults"
| "related_loop G vp p matcher searchPkg distro (relatedName # names) allResults =
     related_loop G vp p matcher searchPkg distro names
       (if relatedName = pkg_Name searchPkg then allResults
        else case FindResults (g_penv G) vp p matcher
            [Leaf (PackageNameCriteria relatedName), Leaf (DistroCriteria [distro] True),
             OnlyQualifiedPackages (g_penv G) searchPkg, Leaf UnaffectedCriteria] of
          Inl _ \<Rightarrow> allResults
        | Inr relatedResults \<Rightarrow> append_results G relatedResults allResults)"

definition findRelatedUnaffectedPackages ::
  "'o genv \<Rightarrow> 'o Provider \<Rightarrow> MPackage \<Rightarrow> string \<Rightarrow> MPackage \<Rightarrow> Distro \<Rightarrow> 'o rset" where
  "findRelatedUnaffectedPackages G vp p matcher searchPkg distro =
     related_loop G vp p matcher searchPkg distro (getRelatedPackageNames searchPkg) []"

definition extractFixVersionFromConstraint :: "'o constraint option \<Rightarrow> string" where
  "extractFixVersionFromConstraint constraint =
     (case constraint of
        None \<Rightarrow> []
      | Some c \<Rightarrow>
          let constraintStr = constraint_Value c in
          if strings_HasPrefix constraintStr ''>='' then strings_TrimSpace (drop 2 constraintStr)
          else if strings_HasPrefix constraintStr ''= '' then drop 2 constraintStr
          else [])"

text \<open>\<^verbatim>\<open>strings.Replace(id, ":", "-", 1)\<close> and the major version before the first dot.\<close>

definition constructAdvisory :: "'o SVuln \<Rightarrow> MPackage option \<Rightarrow> (string \<times> string) list" where
  "constructAdvisory vuln pkg =
     (if \<not> strings_HasPrefix (vuln_ID vuln) ''ALSA-'' then []
      else case pkg of
        None \<Rightarrow> []
      | Some p \<Rightarrow>
          (case mp_Distro p of
             None \<Rightarrow> []
           | Some d \<Rightarrow>
               let majorVersion = (case strings_Index (distro_Version d) ''.'' of
                     Some idx \<Rightarrow> take idx (distro_Version d) | None \<Rightarrow> distro_Version d) in
               if majorVersion = [] then []
               else
                 let alsaURLID = (case strings_Cut (vuln_ID vuln) '':'' of Some (b, a) \<Rightarrow> b @ ''-'' @ a | None \<Rightarrow> vuln_ID vuln) in
                 [(vuln_ID vuln, ''https://errata.almalinux.org/'' @ majorVersion @ ''/'' @ alsaURLID @ ''.html'')]))"

text \<open>The first incoming vulnerability whose constraint names a fix version, with the constraint made of it.\<close>

fun alma_fix :: "'o libs \<Rightarrow> 'o SVuln list \<Rightarrow> ('o SVuln \<times> string \<times> 'o constraint) option" where
  "alma_fix L [] = None"
| "alma_fix L (incomingVuln # vulns) =
     (let fixVersion = extractFixVersionFromConstraint (sv_Constraint incomingVuln) in
      if fixVersion = [] then alma_fix L vulns
      else case GetConstraint L (''< '' @ fixVersion) RpmFormat of
        Inl _ \<Rightarrow> alma_fix L vulns
      | Inr newConstraint \<Rightarrow> Some (incomingVuln, fixVersion, newConstraint))"

definition replaceWithAlmaLinuxFixInfo :: "'o libs \<Rightarrow> 'o Result \<Rightarrow> 'o Result \<Rightarrow> 'o Result" where
  "replaceWithAlmaLinuxFixInfo L existing incoming =
     (case alma_fix L (r_Vulnerabilities incoming) of
        None \<Rightarrow> existing
      | Some (incomingVuln, fixVersion, newConstraint) \<Rightarrow>
          if r_Vulnerabilities existing = [] then existing
          else existing\<lparr>
            r_Vulnerabilities := map (\<lambda>v. v\<lparr>sv_Constraint := Some newConstraint,
                vuln_Fix := \<lparr>fix_Versions = [fixVersion], fix_State = FixStateFixed\<rparr>,
                sv_Advisories := (if sv_Advisories incomingVuln = [] then constructAdvisory incomingVuln (r_Package existing)
                                  else sv_Advisories incomingVuln)\<rparr>) (r_Vulnerabilities existing),
            r_Details := map (\<lambda>d. case d_Found d of
                AnyDistroResult dr \<Rightarrow> d\<lparr>d_Found := AnyDistroResult (dr\<lparr>dr_VersionConstraint := constraint_String newConstraint\<rparr>)\<rparr>
              | _ \<Rightarrow> d) (r_Details existing)\<rparr>)"

definition applyAlmaLinuxUnaffectedFiltering ::
  "'o genv \<Rightarrow> 'o rset \<Rightarrow> 'o rset \<Rightarrow> 'o Version \<Rightarrow> 'o rset go" where
  "applyAlmaLinuxUnaffectedFiltering G disclosures unaffectedResults pkgVersion =
     (if unaffectedResults = [] then Some disclosures
      else do {
        safe \<leftarrow> rset_Filter (g_libs G) [Leaf (VersionCriteria pkgVersion)] unaffectedResults;
        Some (rset_Update G (rset_Remove disclosures safe) unaffectedResults IdentitiesOverlap (replaceWithAlmaLinuxFixInfo (g_libs G)))
      })"

fun alma_upstreams ::
  "'o genv \<Rightarrow> 'o Provider \<Rightarrow> MPackage \<Rightarrow> string \<Rightarrow> MPackage \<Rightarrow> Distro \<Rightarrow> MPackage list \<Rightarrow> 'o rset \<times> IgnoreFilter list
   \<Rightarrow> ('o rset \<times> IgnoreFilter list) go" where
  "alma_upstreams G vp p matcher binaryPkg rhel [] st = Some st"
| "alma_upstreams G vp p matcher binaryPkg rhel (upstreamPkg # upstreams) (upstreamDisclosures, ignored) =
     (case FindResults (g_penv G) vp p matcher [Leaf (PackageNameCriteria (pkg_Name upstreamPkg)), Leaf (DistroCriteria [rhel] False),
          OnlyQualifiedPackages (g_penv G) upstreamPkg] of
        Inl _ \<Rightarrow> alma_upstreams G vp p matcher binaryPkg rhel upstreams (upstreamDisclosures, ignored)
      | Inr found \<Rightarrow> do {
          upstreamResults \<leftarrow> rset_Filter (g_libs G)
            [OnlyVulnerableVersions (Some (New (pkg_Version upstreamPkg) (VersionFormat upstreamPkg)))] found;
          alma_upstreams G vp p matcher binaryPkg rhel upstreams
            (rset_Merge G upstreamDisclosures (markAsIndirectMatches upstreamResults),
             ignored @ OwnershipIgnores binaryPkg IgnoreReasonDistroFixed (rset_Vulnerabilities G (rset_Remove found upstreamResults)))
        })"

definition almaLinuxMatchesWithUpstreams ::
  "'o genv \<Rightarrow> 'o Provider \<Rightarrow> MPackage \<Rightarrow> string \<Rightarrow> MPackage \<Rightarrow> Distro \<Rightarrow> match_result" where
  "almaLinuxMatchesWithUpstreams G vp p matcher binaryPkg distro =
     (if strings_HasSuffix (pkg_Name binaryPkg) ''-debuginfo'' \<or> strings_HasSuffix (pkg_Name binaryPkg) ''-debugsource''
      then Some (Inr ([], []))
      else
        let P = g_penv G;
            rhel = distro\<lparr>distro_Type := ''redhat''\<rparr>;
            pkgVersion = New (pkg_Version binaryPkg) (VersionFormat binaryPkg) in
        bindE (Some (wrapE ''matcher failed to fetch RHEL disclosures''
            (FindResults P vp p matcher [Leaf (PackageNameCriteria (pkg_Name binaryPkg)), Leaf (DistroCriteria [rhel] False),
               OnlyQualifiedPackages P binaryPkg]))) (\<lambda>found.
        bindE (map_option Inr (rset_Filter (g_libs G) [OnlyVulnerableVersions (Some pkgVersion)] found)) (\<lambda>binaryDisclosures.
        bindE (map_option Inr (alma_upstreams G vp p matcher binaryPkg rhel (UpstreamPackages P binaryPkg)
            ([], OwnershipIgnores binaryPkg IgnoreReasonDistroFixed (rset_Vulnerabilities G (rset_Remove found binaryDisclosures)))))
          (\<lambda>(upstreamDisclosures, ignored).
        let allDisclosures = rset_Merge G binaryDisclosures upstreamDisclosures in
        if allDisclosures = [] then Some (Inr ([], ignored))
        else
          case FindResults P vp p matcher [Leaf (PackageNameCriteria (pkg_Name binaryPkg)), Leaf (DistroCriteria [distro] True),
               OnlyQualifiedPackages P binaryPkg, Leaf UnaffectedCriteria] of
            Inl _ \<Rightarrow> Some (Inr (ToMatches G allDisclosures, ignored))
          | Inr directUnaffected \<Rightarrow>
              let allUnaffected = rset_Merge G directUnaffected (findRelatedUnaffectedPackages G vp p matcher binaryPkg distro) in
              bindE (map_option Inr (applyAlmaLinuxUnaffectedFiltering G allDisclosures allUnaffected pkgVersion)) (\<lambda>updatedDisclosures.
              Some (Inr (ToMatches G updatedDisclosures,
                ignored @ OwnershipIgnores binaryPkg IgnoreReasonAlmaUnaffected
                  (rset_Vulnerabilities G (rset_Remove allUnaffected updatedDisclosures)))))))))"

section \<open>The matcher\<close>

definition rpm_isUnknownVersion :: "string \<Rightarrow> bool" where
  "rpm_isUnknownVersion v \<longleftrightarrow> v = [] \<or> strings_ToLower v = ''unknown''"

definition addEpochIfApplicable :: "MPackage \<Rightarrow> MPackage" where
  "addEpochIfApplicable p =
     (let ver = pkg_Version p in
      if ver = [] then p
      else if strings_Contains ver '':'' then p
      else case mp_Metadata p of
        RpmMeta meta \<Rightarrow>
          (case rpm_Epoch meta of
             Some e \<Rightarrow> p\<lparr>pkg_Version := strconv_Itoa e @ '':'' @ ver\<rparr>
           | None \<Rightarrow> p\<lparr>pkg_Version := ''0:'' @ ver\<rparr>)
      | _ \<Rightarrow> p\<lparr>pkg_Version := ''0:'' @ ver\<rparr>)"

definition standardMatches ::
  "'o genv \<Rightarrow> 'o Provider \<Rightarrow> RpmMatcherConfig \<Rightarrow> MPackage \<Rightarrow> MPackage \<Rightarrow> Distro \<Rightarrow> match_result" where
  "standardMatches G vp cfg p searchPkg distro =
     (let P = g_penv G;
          pkgVersion = NewWithConfig (pkg_Version searchPkg) (VersionFormat searchPkg)
            \<lparr>cfg_MissingEpochStrategy = rpm_MissingEpochStrategy cfg\<rparr>;
          disclosureCriteria = [Leaf (PackageNameCriteria (pkg_Name searchPkg)), Leaf (DistroCriteria [distro] False),
            OnlyQualifiedPackages P searchPkg];
          unaffectedCriteria = disclosureCriteria @ [OnlyVulnerableVersions (Some pkgVersion), Leaf UnaffectedCriteria] in
      bindE (Some (wrapE ''matcher failed to fetch disclosures'' (FindResults P vp p RpmMatcher disclosureCriteria))) (\<lambda>found.
      bindE (Some (wrapE ''matcher failed to fetch unaffected'' (FindResults P vp p RpmMatcher unaffectedCriteria))) (\<lambda>unaffected.
      bindE (map_option Inr (rset_Filter (g_libs G) [OnlyVulnerableVersions (Some pkgVersion)] found)) (\<lambda>disclosures.
      let unaffected = rset_Merge G unaffected (rset_Remove found disclosures) in
      Some (Inr (ToMatches G disclosures,
        OwnershipIgnores searchPkg IgnoreReasonDistroNotVulnerable (rset_Vulnerabilities G unaffected)))))))"

definition rpm_findMatches :: "'o genv \<Rightarrow> 'o Provider \<Rightarrow> RpmMatcherConfig \<Rightarrow> MPackage \<Rightarrow> MPackage \<Rightarrow> match_result" where
  "rpm_findMatches G vp cfg p searchPkg =
     (case mp_Distro searchPkg of
        None \<Rightarrow> Some (Inr ([], []))
      | Some distro \<Rightarrow>
          if rpm_isUnknownVersion (pkg_Version searchPkg) then Some (Inr ([], []))
          else if shouldUseRedhatEUSMatching (Some distro)
          then redhatEUSMatches G vp p RpmMatcher searchPkg distro (rpm_MissingEpochStrategy cfg)
          else standardMatches G vp cfg p searchPkg distro)"

definition rpm_matchPackage :: "'o genv \<Rightarrow> 'o Provider \<Rightarrow> RpmMatcherConfig \<Rightarrow> MPackage \<Rightarrow> match_result" where
  "rpm_matchPackage G vp cfg p =
     map_option (wrapE ''failed to find vulnerabilities by dpkg source indirection'')
       (rpm_findMatches G vp cfg p (addEpochIfApplicable p))"

definition rpm_matchUpstreamPackages :: "'o genv \<Rightarrow> 'o Provider \<Rightarrow> RpmMatcherConfig \<Rightarrow> MPackage \<Rightarrow> match_result" where
  "rpm_matchUpstreamPackages G vp cfg p =
     match_each ''failed to find vulnerabilities for rpm upstream source package'' (rpm_findMatches G vp cfg p)
       (UpstreamPackages (g_penv G) p) ([], [])"

definition matchAlmaLinux :: "'o genv \<Rightarrow> 'o Provider \<Rightarrow> MPackage \<Rightarrow> match_result" where
  "matchAlmaLinux G vp p =
     (case mp_Distro p of
        None \<Rightarrow> Some (Inr ([], []))
      | Some distro \<Rightarrow>
          if rpm_isUnknownVersion (pkg_Version p) then Some (Inr ([], []))
          else almaLinuxMatchesWithUpstreams G vp p RpmMatcher (addEpochIfApplicable p) distro)"

definition Rpm_Match :: "'o genv \<Rightarrow> RpmMatcherConfig \<Rightarrow> 'o Provider \<Rightarrow> MPackage \<Rightarrow> match_result" where
  "Rpm_Match G cfg vp p =
     bindE (if mp_Distro p \<noteq> None \<and> shouldUseAlmaLinuxMatching (mp_Distro p)
            then map_option (wrapE ''failed to match AlmaLinux'') (matchAlmaLinux G vp p)
            else
              bindE (map_option (wrapE ''failed to match by exact package name'') (rpm_matchPackage G vp cfg p)) (\<lambda>(ms, is).
              bindE (map_option (wrapE ''failed to match by source indirection'') (rpm_matchUpstreamPackages G vp cfg p)) (\<lambda>(ms', is').
              Some (Inr (ms @ ms', is @ is')))))
       (add_eol_cpe_matches G vp p RpmMatcher (rpm_UseCPEsForEOL cfg))"

end
