(* ===== verification/Dpkg_Matcher.thy ===== *)
theory Dpkg_Matcher
  imports Rhel_Eus
begin

text \<open>
  The matcher for Debian packages: \<^verbatim>\<open>grype/matcher/dpkg\<close> (\<^verbatim>\<open>matcher.go\<close>, \<^verbatim>\<open>ubuntu_esm.go\<close>).  The file for Ubuntu's
  extended maintenance repeats that of Red Hat's extended updates without the check which fixes can be reached; the names of
  its functions carry the prefix \<open>esm_\<close> where they are the same.
\<close>

definition DpkgMatcher :: string where "DpkgMatcher = ''dpkg-matcher''"

record DpkgMatcherConfig =
  dpkg_MissingEpochStrategy :: MissingEpochStrategy
  dpkg_UseCPEsForEOL :: bool

section \<open>Extended security maintenance\<close>

definition shouldUseUbuntuESMMatching :: "Distro option \<Rightarrow> bool" where
  "shouldUseUbuntuESMMatching d =
     (case d of
        None \<Rightarrow> False
      | Some d \<Rightarrow>
          if distro_Type d \<noteq> ''ubuntu'' then False
          else list_ex (\<lambda>channel. strings_ToLower channel = ''esm'') (distro_Channels d))"

definition esm_isVulnerableVersion :: "'o libs \<Rightarrow> 'o Version \<Rightarrow> 'o constraint option \<Rightarrow> (bool \<times> 'o Version) go" where
  "esm_isVulnerableVersion L v c =
     (case c of
        None \<Rightarrow> Some (False, v)
      | Some k \<Rightarrow> do {
          r \<leftarrow> constraint_Satisfied L k (Some v);
          (case r of (v', isVulnerable, err) \<Rightarrow>
             Some (if err \<noteq> None then False else isVulnerable, case v' of Some w \<Rightarrow> w | None \<Rightarrow> v))
        })"

fun esm_neededFixes :: "'o libs \<Rightarrow> 'o Version \<Rightarrow> string list \<Rightarrow> Format \<Rightarrow> ('o Version list \<times> 'o Version) go" where
  "esm_neededFixes L v [] format = Some ([], v)"
| "esm_neededFixes L v (fixVersion # fixVersions) format =
     (let fixVersionObj = New fixVersion format in
      do {
        r \<leftarrow> Version_Is L (Some v) LT (Some fixVersionObj);
        (case r of (v', res, err) \<Rightarrow>
           map_option (apfst (\<lambda>needed. if err = None \<and> res then fixVersionObj # needed else needed))
             (esm_neededFixes L (case v' of Some w \<Rightarrow> w | None \<Rightarrow> v) fixVersions format))
      })"

definition esm_finalizeFixState :: "'o SVuln \<Rightarrow> string \<Rightarrow> string" where
  "esm_finalizeFixState record state =
     (let state = (if state = [] then FixStateUnknown else state) in
      if state \<noteq> FixStateUnknown then state
      else if fix_State (vuln_Fix record) \<noteq> FixStateUnknown then fix_State (vuln_Fix record)
      else FixStateUnknown)"

definition esm_overlay_advisory ::
  "'o libs \<Rightarrow> 'o SVuln \<Rightarrow> 'o overlay \<times> bool \<times> 'o Version \<Rightarrow> ('o overlay \<times> bool \<times> 'o Version) go" where
  "esm_overlay_advisory L advisory st =
     (case st of (ov, keepDetails, v) \<Rightarrow>
        let ov = (if fix_State (vuln_Fix advisory) = FixStateWontFix \<and> ov_state ov \<noteq> FixStateFixed
                  then ov\<lparr>ov_state := fix_State (vuln_Fix advisory)\<rparr> else ov) in
        do {
          c \<leftarrow> sv_Constraint advisory;
          r \<leftarrow> esm_neededFixes L v (fix_Versions (vuln_Fix advisory)) (constraint_Format c);
          (case r of (applicableFixes, v') \<Rightarrow>
             if applicableFixes = [] then Some (ov, keepDetails, v')
             else Some (ov\<lparr>ov_constraints := ov_constraints ov @ [Some c],
                  ov_fixVersions := Set_Add (map Some applicableFixes) (ov_fixVersions ov),
                  ov_state := (if ov_state ov \<noteq> FixStateFixed then fix_State (vuln_Fix advisory) else ov_state ov)\<rparr>, True, v'))
        })"

fun esm_overlay_advisories ::
  "'o libs \<Rightarrow> 'o SVuln list \<Rightarrow> 'o overlay \<times> bool \<times> 'o Version \<Rightarrow> ('o overlay \<times> bool \<times> 'o Version) go" where
  "esm_overlay_advisories L [] st = Some st"
| "esm_overlay_advisories L (advisory # advisories) st = do {
     st' \<leftarrow> esm_overlay_advisory L advisory st;
     esm_overlay_advisories L advisories st'
   }"

definition esm_collectMatchingConstraintsDetailsAndFixState ::
  "'o libs \<Rightarrow> 'o Result \<Rightarrow> 'o overlay \<times> 'o Version \<Rightarrow> ('o overlay \<times> 'o Version) go" where
  "esm_collectMatchingConstraintsDetailsAndFixState L advisoryResult st =
     (case st of (ov, v) \<Rightarrow> do {
        r \<leftarrow> esm_overlay_advisories L (r_Vulnerabilities advisoryResult) (ov, False, v);
        (case r of (ov', keepDetails, v') \<Rightarrow>
           Some (if keepDetails then ov'\<lparr>ov_details := ov_details ov' @ r_Details advisoryResult\<rparr> else ov', v'))
      })"

fun esm_collect_overlays :: "'o libs \<Rightarrow> 'o Result list \<Rightarrow> 'o overlay \<times> 'o Version \<Rightarrow> ('o overlay \<times> 'o Version) go" where
  "esm_collect_overlays L [] st = Some st"
| "esm_collect_overlays L (r # rs) st = do {
     st' \<leftarrow> esm_collectMatchingConstraintsDetailsAndFixState L r st;
     esm_collect_overlays L rs st'
   }"

definition esm_buildPatchedVulnerabilityRecord :: "'o genv \<Rightarrow> Format \<Rightarrow> 'o SVuln \<Rightarrow> 'o overlay \<Rightarrow> 'o SVuln go" where
  "esm_buildPatchedVulnerabilityRecord G format disclosure ov = do {
     fixes \<leftarrow> (if ov_state ov = FixStateFixed then Set_Values (g_libs G) (g_versions G) (ov_fixVersions ov) else Some []);
     let raws = map ver_Raw fixes;
         fixConstraints = concat (map (\<lambda>raw. case GetConstraint (g_libs G) (''< '' @ raw) format of
           Inl _ \<Rightarrow> [] | Inr k \<Rightarrow> [Some k]) raws);
         versions = (if ov_state ov = FixStateFixed then raws else fix_Versions (vuln_Fix disclosure)) in
       Some (disclosure\<lparr>vuln_Fix := \<lparr>fix_Versions = versions, fix_State = esm_finalizeFixState disclosure (ov_state ov)\<rparr>,
         sv_Constraint := CombineConstraints (ov_constraints ov @ fixConstraints)\<rparr>)
   }"

definition mergeESMAdvisoryIntoSingleDisclosure ::
  "'o genv \<Rightarrow> 'o Result list \<Rightarrow> 'o SVuln \<Rightarrow> 'o Version \<Rightarrow> (('o SVuln \<times> Detail list) option \<times> 'o Version) go" where
  "mergeESMAdvisoryIntoSingleDisclosure G advisoryOverlays disclosure v = do {
     r \<leftarrow> esm_isVulnerableVersion (g_libs G) v (sv_Constraint disclosure);
     (case r of (isVulnerable, v1) \<Rightarrow> do {
        r2 \<leftarrow> esm_collect_overlays (g_libs G) advisoryOverlays
          (\<lparr>ov_fixVersions = NewSet True [], ov_constraints = (if isVulnerable then [sv_Constraint disclosure] else []),
            ov_state = [], ov_details = []\<rparr>, v1);
        (case r2 of (ov, v2) \<Rightarrow>
           if ov_constraints ov = [] then Some (None, v2)
           else map_option (\<lambda>patched. (Some (patched, ov_details ov), v2))
             (esm_buildPatchedVulnerabilityRecord G (ver_Format v) disclosure ov))
      })
   }"

fun esm_merge_disclosures ::
  "'o genv \<Rightarrow> 'o Result list \<Rightarrow> 'o SVuln list \<Rightarrow> 'o Version \<Rightarrow> ('o SVuln list \<times> Detail list \<times> 'o Version) go" where
  "esm_merge_disclosures G overlays [] v = Some ([], [], v)"
| "esm_merge_disclosures G overlays (disclosure # disclosures) v = do {
     r \<leftarrow> mergeESMAdvisoryIntoSingleDisclosure G overlays disclosure v;
     (case r of (processed, v1) \<Rightarrow> do {
        rest \<leftarrow> esm_merge_disclosures G overlays disclosures v1;
        (case rest of (vulns, details, v2) \<Rightarrow>
           Some (case processed of None \<Rightarrow> (vulns, details, v2) | Some (vuln, ds) \<Rightarrow> (vuln # vulns, ds @ details, v2)))
      })
   }"

definition esm_finalizeMatchDetails :: "menv \<Rightarrow> 'o Result \<Rightarrow> Detail list \<Rightarrow> string \<Rightarrow> 'o Result" where
  "esm_finalizeMatchDetails E processedResult originalDetails raw =
     (if r_Vulnerabilities processedResult = [] then processedResult
      else processedResult\<lparr>r_Details :=
        patchDetailVersion (NewMatchDetailsSet E (r_Details processedResult @ originalDetails)) raw\<rparr>)"

definition mergeESMAdvisoryIntoMainDisclosure ::
  "'o genv \<Rightarrow> 'o Result list \<Rightarrow> 'o Result \<Rightarrow> 'o Version \<Rightarrow> ('o Result \<times> 'o Version) go" where
  "mergeESMAdvisoryIntoMainDisclosure G advisoryOverlays disclosures v = do {
     r \<leftarrow> esm_merge_disclosures G advisoryOverlays (r_Vulnerabilities disclosures) v;
     (case r of (vulns, details, v') \<Rightarrow>
        Some (esm_finalizeMatchDetails (g_menv G)
          \<lparr>r_ID = r_ID disclosures, r_Vulnerabilities = vulns, r_Details = details, r_Package = r_Package disclosures\<rparr>
          (r_Details disclosures) (ver_Raw v), v'))
   }"

fun mergeESMAdvisoriesIntoMainDisclosures :: "'o genv \<Rightarrow> ('o, 'o Version) mergeFunc" where
  "mergeESMAdvisoriesIntoMainDisclosures G [] advisoryOverlays v = Some ([], v)"
| "mergeESMAdvisoriesIntoMainDisclosures G (ds # disclosures) advisoryOverlays v = do {
     r \<leftarrow> mergeESMAdvisoryIntoMainDisclosure G advisoryOverlays ds v;
     (case r of (processedResult, v') \<Rightarrow>
        map_option (apfst (\<lambda>out. if r_Vulnerabilities processedResult \<noteq> [] then processedResult # out else out))
          (mergeESMAdvisoriesIntoMainDisclosures G disclosures advisoryOverlays v'))
   }"

text \<open>No caller gives extra criteria.  A package with no distribution does not get here.\<close>

definition ubuntuESMMatches ::
  "'o genv \<Rightarrow> 'o Provider \<Rightarrow> MPackage \<Rightarrow> string \<Rightarrow> MissingEpochStrategy \<Rightarrow> MPackage \<Rightarrow> match_result" where
  "ubuntuESMMatches G vp p matcher missingEpochStrategy searchPkg =
     bindE (map_option Inr (mp_Distro searchPkg)) (\<lambda>distro.
      let P = g_penv G;
          distroWithoutESM = distro\<lparr>distro_Channels := []\<rparr>;
          pkgVersion = NewWithConfig (pkg_Version searchPkg) (VersionFormat searchPkg)
            \<lparr>cfg_MissingEpochStrategy = missingEpochStrategy\<rparr> in
      bindE (Some (wrapE ''matcher failed to fetch disclosures''
          (FindResults P vp p matcher [Leaf (PackageNameCriteria (pkg_Name searchPkg)), Leaf (DistroCriteria [distroWithoutESM] False),
             OnlyQualifiedPackages P searchPkg, OnlyVulnerableVersions (Some pkgVersion)]))) (\<lambda>disclosures.
      if disclosures = [] then Some (Inr ([], []))
      else
        bindE (Some (wrapE ''matcher failed to fetch resolutions''
            (FindResults P vp p matcher [Leaf (PackageNameCriteria (pkg_Name searchPkg)),
               Leaf (DistroCriteria [distroWithoutESM, distro] False), OnlyQualifiedPackages P searchPkg]))) (\<lambda>resolutions.
        bindE (map_option Inr (rset_Filter (g_libs G) [Leaf (ByFixedVersion (g_libs G) pkgVersion)] resolutions)) (\<lambda>esmFixes.
        let remaining = rset_Remove disclosures esmFixes in
        bindE (map_option Inr (rset_MergeWith G [mergeESMAdvisoriesIntoMainDisclosures G] remaining resolutions pkgVersion))
          (\<lambda>(remaining, _).
        Some (Inr (ToMatches G remaining,
          OwnershipIgnores searchPkg IgnoreReasonDistroNotVulnerable (rset_Vulnerabilities G esmFixes))))))))"

section \<open>The matcher\<close>

definition matchUbuntuESM :: "'o genv \<Rightarrow> 'o Provider \<Rightarrow> DpkgMatcherConfig \<Rightarrow> MPackage \<Rightarrow> match_result" where
  "matchUbuntuESM G vp cfg p =
     bindE (map_option (wrapE ''failed to match by exact package name'')
         (ubuntuESMMatches G vp p DpkgMatcher (dpkg_MissingEpochStrategy cfg) p)) (\<lambda>r.
       match_each ''failed to find vulnerabilities for dpkg upstream source package''
         (ubuntuESMMatches G vp p DpkgMatcher (dpkg_MissingEpochStrategy cfg)) (UpstreamPackages (g_penv G) p) r)"

definition dpkg_matchUpstreamPackages :: "'o genv \<Rightarrow> 'o Provider \<Rightarrow> DpkgMatcherConfig \<Rightarrow> MPackage \<Rightarrow> match_result" where
  "dpkg_matchUpstreamPackages G vp cfg p =
     bindE (match_each ''failed to find vulnerabilities for dpkg upstream source package''
         (\<lambda>indirectPackage. MatchPackageByDistro G vp indirectPackage (Some p) DpkgMatcher
            (Some \<lparr>cfg_MissingEpochStrategy = dpkg_MissingEpochStrategy cfg\<rparr>)) (UpstreamPackages (g_penv G) p) ([], []))
       (\<lambda>(matches, ignores). Some (Inr (ConvertToIndirectMatches matches (Package.truncate p), ignores)))"

definition Dpkg_Match :: "'o genv \<Rightarrow> DpkgMatcherConfig \<Rightarrow> 'o Provider \<Rightarrow> MPackage \<Rightarrow> match_result" where
  "Dpkg_Match G cfg vp p =
     bindE (if shouldUseUbuntuESMMatching (mp_Distro p)
            then map_option (wrapE ''failed to match Ubuntu ESM'') (matchUbuntuESM G vp cfg p)
            else
              bindE (map_option (wrapE ''failed to match by source indirection'') (dpkg_matchUpstreamPackages G vp cfg p)) (\<lambda>(ms, is).
              bindE (map_option (wrapE ''failed to match by exact package name'')
                  (MatchPackageByDistro G vp p None DpkgMatcher (Some \<lparr>cfg_MissingEpochStrategy = dpkg_MissingEpochStrategy cfg\<rparr>)))
                (\<lambda>(ms', is'). Some (Inr (ms @ ms', is @ is')))))
       (add_eol_cpe_matches G vp p DpkgMatcher (dpkg_UseCPEsForEOL cfg))"

end
