(* ===== verification/Apk_Matcher.thy ===== *)
theory Apk_Matcher
  imports Cpe_Matching
begin

text \<open>
  The matcher for Alpine packages: \<^verbatim>\<open>grype/matcher/apk/matcher.go\<close>.

  Maps from vulnerability identifiers are association lists read in the order \<open>g_order\<close> gives.  The text of an error of a
  constraint check is not kept.  The constraint that marks a record as not vulnerable is computed where it is used, not when the
  program starts.
\<close>

definition ApkMatcher :: string where "ApkMatcher = ''apk-matcher''"

definition nakVersionString :: "'o libs \<Rightarrow> string go" where
  "nakVersionString L = map_option constraint_String (MustGetConstraint L ''< 0'' ApkFormat)"

definition nakConstraint :: "string \<Rightarrow> 'o leaf" where
  "nakConstraint s = ConstraintFuncCriteria (\<lambda>c. Some (constraint_String c = s, None))"

section \<open>By identifier\<close>

definition ordered_keys :: "'o genv \<Rightarrow> string list \<Rightarrow> string list" where
  "ordered_keys G ks = (let l = g_order G ks in if is_perm l ks then l else ks)"

definition matchesByID :: "Match list \<Rightarrow> (string \<times> Match list) list" where
  "matchesByID ms = fold (\<lambda>m. append_at (vuln_ID (m_Vulnerability m)) m) ms []"

definition vulnerabilitiesByID :: "'o SVuln list \<Rightarrow> (string \<times> 'o SVuln list) list" where
  "vulnerabilitiesByID vulns = fold (\<lambda>v. append_at (vuln_ID v) v) vulns []"

definition deduplicateMatches :: "'o genv \<Rightarrow> Match list \<Rightarrow> Match list \<Rightarrow> Match list" where
  "deduplicateMatches G secDBMatches cpeMatches =
     (let secDBMatchesByID = matchesByID secDBMatches; cpeMatchesByID = matchesByID cpeMatches in
      concat (map (\<lambda>i. if map_of secDBMatchesByID i = None then get_fps cpeMatchesByID i else [])
        (ordered_keys G (map fst cpeMatchesByID))))"

section \<open>Matches by CPE\<close>

definition nvdOnlyMatch :: "Match \<Rightarrow> Match" where
  "nvdOnlyMatch m =
     (if fix_Versions (vuln_Fix (m_Vulnerability m)) \<noteq> []
      then m\<lparr>m_Vulnerability := (m_Vulnerability m)\<lparr>vuln_Fix := \<lparr>fix_Versions = [], fix_State = ''unknown''\<rparr>\<rparr>\<rparr>
      else m)"

text \<open>Whether one of the records says the package is vulnerable; records with no fix are passed over, a nil constraint
  panics.\<close>

fun secdb_vulnerable :: "'o libs \<Rightarrow> 'o SVuln list \<Rightarrow> 'o Version \<Rightarrow> (serror + bool \<times> 'o Version) go" where
  "secdb_vulnerable L [] verObj = Some (Inr (False, verObj))"
| "secdb_vulnerable L (vuln # vulns) verObj =
     (if fix_Versions (vuln_Fix vuln) = [] then secdb_vulnerable L vulns verObj
      else do {
        c \<leftarrow> sv_Constraint vuln;
        r \<leftarrow> constraint_Satisfied L c (Some verObj);
        (case r of
           (_, _, Some err) \<Rightarrow> Some (Inl (ErrorText ''constraint''))
         | (v', vulnerable, None) \<Rightarrow>
             let verObj = (case v' of Some w \<Rightarrow> w | None \<Rightarrow> verObj) in
             if vulnerable then Some (Inr (True, verObj)) else secdb_vulnerable L vulns verObj)
      })"

fun cve_loop ::
  "'o libs \<Rightarrow> (string \<times> Match list) list \<Rightarrow> (string \<times> 'o SVuln list) list \<Rightarrow> string list \<Rightarrow> Match list \<Rightarrow> 'o Version
   \<Rightarrow> (serror + Match list) go" where
  "cve_loop L cpeMatchesByID secDB [] acc verObj = Some (Inr acc)"
| "cve_loop L cpeMatchesByID secDB (i # ids) acc verObj =
     (case map_of secDB i of
        None \<Rightarrow> cve_loop L cpeMatchesByID secDB ids (acc @ map nvdOnlyMatch (get_fps cpeMatchesByID i)) verObj
      | Some vulns \<Rightarrow>
          bindE (secdb_vulnerable L vulns verObj) (\<lambda>(vulnerable, verObj').
          cve_loop L cpeMatchesByID secDB ids (if vulnerable then acc @ get_fps cpeMatchesByID i else acc) verObj'))"

text \<open>The records of a package and of its upstream packages; the first search that fails ends it.\<close>

fun find_each :: "(MPackage \<Rightarrow> serror + 'o SVuln list) \<Rightarrow> MPackage list \<Rightarrow> serror + 'o SVuln list" where
  "find_each f [] = Inr []"
| "find_each f (p # ps) =
     (case f p of
        Inl e \<Rightarrow> Inl e
      | Inr vs \<Rightarrow> (case find_each f ps of Inl e \<Rightarrow> Inl e | Inr vs' \<Rightarrow> Inr (vs @ vs')))"

definition cpeMatchesWithoutSecDBFixes :: "'o genv \<Rightarrow> 'o Provider \<Rightarrow> MPackage \<Rightarrow> match_result" where
  "cpeMatchesWithoutSecDBFixes G provider p = do {
     r \<leftarrow> MatchPackageByCPEs G provider p ApkMatcher;
     (case no_error r of (cpeMatches, ignored) \<Rightarrow>
        (case mp_Distro p of
           None \<Rightarrow> Some (Inr (cpeMatches, ignored))
         | Some distro \<Rightarrow>
             let cpeMatchesByID = matchesByID cpeMatches in
             bindE (Some (find_each (\<lambda>q. vp_FindVulnerabilities provider [PackageNameCriteria (pkg_Name q), DistroCriteria [distro] False])
                 (p # UpstreamPackages (g_penv G) p))) (\<lambda>secDBVulnerabilities.
             bindE (cve_loop (g_libs G) cpeMatchesByID (vulnerabilitiesByID secDBVulnerabilities)
                 (ordered_keys G (map fst cpeMatchesByID)) [] (New (pkg_Version p) (VersionFormat p))) (\<lambda>finalCpeMatches.
             Some (Inr (finalCpeMatches, ignored))))))
   }"

section \<open>The matcher\<close>

text \<open>\<^verbatim>\<open>errors.Is(err, ErrEmptyCPEMatch)\<close>.\<close>

fun is_ErrEmptyCPEMatch :: "serror \<Rightarrow> bool" where
  "is_ErrEmptyCPEMatch (WrapError _ e) = is_ErrEmptyCPEMatch e"
| "is_ErrEmptyCPEMatch e \<longleftrightarrow> e = ErrEmptyCPEMatch"

definition findMatchesForPackage :: "'o genv \<Rightarrow> 'o Provider \<Rightarrow> MPackage option \<Rightarrow> MPackage \<Rightarrow> match_result" where
  "findMatchesForPackage G vp catalogPkg p =
     bindE (MatchPackageByDistro G vp p catalogPkg ApkMatcher None) (\<lambda>(secDBMatches, secDBIgnores). do {
       r \<leftarrow> cpeMatchesWithoutSecDBFixes G vp p;
       (case r of
          Inl e \<Rightarrow>
            if is_ErrEmptyCPEMatch e
            then Some (Inr (secDBMatches @ deduplicateMatches G secDBMatches [], secDBIgnores))
            else Some (Inl e)
        | Inr (cpeMatches, cpeIgnores) \<Rightarrow>
            Some (Inr (secDBMatches @ deduplicateMatches G secDBMatches cpeMatches, secDBIgnores @ cpeIgnores)))
     })"

definition findMatchesForOriginPackage :: "'o genv \<Rightarrow> 'o Provider \<Rightarrow> MPackage \<Rightarrow> match_result" where
  "findMatchesForOriginPackage G vp catalogPkg =
     bindE (match_each ''failed to find vulnerabilities for apk upstream source package''
         (findMatchesForPackage G vp (Some catalogPkg)) (UpstreamPackages (g_penv G) catalogPkg) ([], []))
       (\<lambda>(matches, ignores). Some (Inr (ConvertToIndirectMatches matches (Package.truncate catalogPkg), ignores)))"

definition findNaksForPackage :: "'o genv \<Rightarrow> 'o Provider \<Rightarrow> MPackage \<Rightarrow> (serror + IgnoreFilter list) go" where
  "findNaksForPackage G provider p =
     (case mp_Distro p of
        None \<Rightarrow> Some (Inr [])
      | Some distro \<Rightarrow> do {
          nak \<leftarrow> nakVersionString (g_libs G);
          bindE (Some (find_each (\<lambda>q. vp_FindVulnerabilities provider
                [DistroCriteria [distro] False, PackageNameCriteria (pkg_Name q), nakConstraint nak])
              (p # UpstreamPackages (g_penv G) p))) (\<lambda>naks.
            Some (Inr (OwnershipIgnores p ''Explicit APK NAK'' naks)))
        })"

definition Apk_Match :: "'o genv \<Rightarrow> 'o Provider \<Rightarrow> MPackage \<Rightarrow> match_result" where
  "Apk_Match G vp p =
     bindE (findMatchesForPackage G vp None p) (\<lambda>(directMatches, directIgnores).
     bindE (findMatchesForOriginPackage G vp p) (\<lambda>(indirectMatches, indirectIgnores).
     bindE (findNaksForPackage G vp p) (\<lambda>naks.
     Some (Inr (directMatches @ indirectMatches, directIgnores @ indirectIgnores @ naks)))))"

end
