(* ===== verification/Matchers.thy ===== *)
theory Matchers
  imports Rpm_Matcher Dpkg_Matcher Apk_Matcher
begin

text \<open>
  The matchers for language ecosystems and other package types, \<^verbatim>\<open>grype/matcher/*/matcher.go\<close>, and the list of all of them,
  \<^verbatim>\<open>grype/matcher/matchers.go\<close>.

  The scan's view of a matcher takes the part of a package the scan reads; \<open>catalog\<close> gives the whole package.  Of the search in
  Maven's index, the request (rate limit, HTTP, JSON) is the parameter \<open>ms_fetch\<close>, which returns the documents found.
\<close>

definition RubyGemMatcher :: string where "RubyGemMatcher = ''ruby-gem-matcher''"
definition JavaMatcher :: string where "JavaMatcher = ''java-matcher''"
definition PythonMatcher :: string where "PythonMatcher = ''python-matcher''"
definition DotnetMatcher :: string where "DotnetMatcher = ''dotnet-matcher''"
definition JavascriptMatcher :: string where "JavascriptMatcher = ''javascript-matcher''"
definition MsrcMatcher :: string where "MsrcMatcher = ''msrc-matcher''"
definition PortageMatcher :: string where "PortageMatcher = ''portage-matcher''"
definition GoModuleMatcher :: string where "GoModuleMatcher = ''go-module-matcher''"
definition RustMatcher :: string where "RustMatcher = ''rust-matcher''"
definition BitnamiMatcher :: string where "BitnamiMatcher = ''bitnami-matcher''"
definition PacmanMatcher :: string where "PacmanMatcher = ''pacman-matcher''"
definition HexMatcher :: string where "HexMatcher = ''hex-matcher''"

section \<open>By ecosystem\<close>

definition Ruby_Match :: "'o genv \<Rightarrow> bool \<Rightarrow> 'o Provider \<Rightarrow> MPackage \<Rightarrow> match_result" where
  "Ruby_Match G useCPEs vp p = MatchPackageByEcosystemAndCPEs G vp p RubyGemMatcher useCPEs"

definition Python_Match :: "'o genv \<Rightarrow> bool \<Rightarrow> 'o Provider \<Rightarrow> MPackage \<Rightarrow> match_result" where
  "Python_Match G useCPEs vp p = MatchPackageByEcosystemAndCPEs G vp p PythonMatcher useCPEs"

definition Dotnet_Match :: "'o genv \<Rightarrow> bool \<Rightarrow> 'o Provider \<Rightarrow> MPackage \<Rightarrow> match_result" where
  "Dotnet_Match G useCPEs vp p = MatchPackageByEcosystemAndCPEs G vp p DotnetMatcher useCPEs"

definition Javascript_Match :: "'o genv \<Rightarrow> bool \<Rightarrow> 'o Provider \<Rightarrow> MPackage \<Rightarrow> match_result" where
  "Javascript_Match G useCPEs vp p = MatchPackageByEcosystemAndCPEs G vp p JavascriptMatcher useCPEs"

definition Rust_Match :: "'o genv \<Rightarrow> bool \<Rightarrow> 'o Provider \<Rightarrow> MPackage \<Rightarrow> match_result" where
  "Rust_Match G useCPEs vp p = MatchPackageByEcosystemAndCPEs G vp p RustMatcher useCPEs"

definition Hex_Match :: "'o genv \<Rightarrow> bool \<Rightarrow> 'o Provider \<Rightarrow> MPackage \<Rightarrow> match_result" where
  "Hex_Match G useCPEs vp p = MatchPackageByEcosystemAndCPEs G vp p HexMatcher useCPEs"

definition Stock_Match :: "'o genv \<Rightarrow> bool \<Rightarrow> 'o Provider \<Rightarrow> MPackage \<Rightarrow> match_result" where
  "Stock_Match G useCPEs vp p = MatchPackageByEcosystemAndCPEs G vp p StockMatcher useCPEs"

definition Bitnami_Match :: "'o genv \<Rightarrow> 'o Provider \<Rightarrow> MPackage \<Rightarrow> match_result" where
  "Bitnami_Match G vp p = MatchPackageByEcosystemPackageName G vp p (pkg_Name p) BitnamiMatcher"

definition Msrc_Match :: "'o genv \<Rightarrow> 'o Provider \<Rightarrow> MPackage \<Rightarrow> match_result" where
  "Msrc_Match G vp p = MatchPackageByEcosystemPackageName G vp p (pkg_Name p) MsrcMatcher"

definition Portage_Match :: "'o genv \<Rightarrow> 'o Provider \<Rightarrow> MPackage \<Rightarrow> match_result" where
  "Portage_Match G vp p = MatchPackageByDistro G vp p None PortageMatcher None"

definition Pacman_Match :: "'o genv \<Rightarrow> 'o Provider \<Rightarrow> MPackage \<Rightarrow> match_result" where
  "Pacman_Match G vp p =
     map_option (wrapE ''failed to match pacman package'') (MatchPackageByDistro G vp p None PacmanMatcher None)"

section \<open>Go\<close>

record GolangMatcherConfig =
  go_UseCPEs :: bool
  go_AlwaysUseCPEForStdlib :: bool
  go_AllowMainModulePseudoVersionComparison :: bool

definition searchByCPE :: "string \<Rightarrow> GolangMatcherConfig \<Rightarrow> bool" where
  "searchByCPE name cfg = (if go_UseCPEs cfg then True else go_AlwaysUseCPEForStdlib cfg \<and> name = ''stdlib'')"

definition Golang_Match :: "'o genv \<Rightarrow> GolangMatcherConfig \<Rightarrow> 'o Provider \<Rightarrow> MPackage \<Rightarrow> match_result" where
  "Golang_Match G cfg vp p =
     (let mainModule = (case mp_Metadata p of GolangBinMeta m \<Rightarrow> go_MainModule m | _ \<Rightarrow> []);
          isNotCorrected =
            (if go_AllowMainModulePseudoVersionComparison cfg then strings_HasPrefix (pkg_Version p) ''(devel)''
             else strings_HasPrefix (pkg_Version p) ''v0.0.0-'' \<or> strings_HasPrefix (pkg_Version p) ''(devel)'') in
      if pkg_Name p = mainModule \<and> isNotCorrected then Some (Inr ([], []))
      else MatchPackageByEcosystemAndCPEs G vp p GoModuleMatcher (searchByCPE (pkg_Name p) cfg))"

section \<open>Java\<close>

record maven_doc =
  doc_ID :: string
  doc_GroupID :: string
  doc_ArtifactID :: string
  doc_Version :: string

record mavenSearch =
  ms_baseURL :: string
  ms_fetch :: "string \<Rightarrow> serror + maven_doc list"

definition zero_MPackage :: MPackage where
  "zero_MPackage = \<lparr>pkg_ID = [], pkg_Name = [], pkg_Version = [], pkg_Locations = [], pkg_Language = [], pkg_Type = [],
     pkg_Upstreams = [], pkg_Distro = None, pkg_RelatedPackages = [], pkg_PURL = [], mp_Distro = None, mp_CPEs = [],
     mp_Metadata = NoMetadata\<rparr>"

definition GetMavenPackageBySha :: "mavenSearch \<Rightarrow> string \<Rightarrow> serror + MPackage" where
  "GetMavenPackageBySha ms sha1 =
     (if sha1 = [] then Inl (ErrorText ''empty sha1 digest'')
      else if ms_baseURL ms = [] then Inl (ErrorText ''empty maven search URL'')
      else case ms_fetch ms sha1 of
        Inl e \<Rightarrow> Inl e
      | Inr docs \<Rightarrow>
          (case go_sort (\<lambda>a b. strings_Compare (doc_ID a) (doc_ID b) < 0) docs of
             [] \<Rightarrow> Inl (WrapError (''digest '' @ sha1) (ErrorText ''no artifact found''))
           | d # _ \<Rightarrow>
               Inr (zero_MPackage\<lparr>pkg_Name := doc_GroupID d @ '':'' @ doc_ArtifactID d, pkg_Version := doc_Version d,
                 pkg_Language := ''java'', mp_Metadata := JavaMeta \<lparr>java_PomArtifactID = doc_ArtifactID d,
                   java_PomGroupID = doc_GroupID d, java_ManifestName = [], java_ArchiveDigests = []\<rparr>\<rparr>)))"

definition shouldSearchMavenBySha :: "MPackage \<Rightarrow> bool \<times> string list" where
  "shouldSearchMavenBySha p =
     (let digests = (case mp_Metadata p of
            JavaMeta metadata \<Rightarrow>
              if java_PomArtifactID metadata = [] \<or> java_PomGroupID metadata = []
              then map snd (filter (\<lambda>(algorithm, v). algorithm = ''sha1'' \<and> v \<noteq> []) (java_ArchiveDigests metadata))
              else []
          | _ \<Rightarrow> []) in
      (digests \<noteq> [], digests))"

fun maven_loop ::
  "'o genv \<Rightarrow> 'o Provider \<Rightarrow> mavenSearch \<Rightarrow> string list \<Rightarrow> Match list \<times> IgnoreFilter list \<Rightarrow> match_result" where
  "maven_loop G vp ms [] acc = Some (Inr acc)"
| "maven_loop G vp ms (digest # digests) acc =
     bindE (Some (GetMavenPackageBySha ms digest)) (\<lambda>indirectPackage.
     bindE (MatchPackageByLanguage G vp indirectPackage JavaMatcher) (\<lambda>(indirectMatches, ignored).
     maven_loop G vp ms digests (fst acc @ indirectMatches, snd acc @ ignored)))"

definition matchUpstreamMavenPackages :: "'o genv \<Rightarrow> 'o Provider \<Rightarrow> mavenSearch \<Rightarrow> MPackage \<Rightarrow> match_result" where
  "matchUpstreamMavenPackages G vp ms p =
     bindE (case shouldSearchMavenBySha p of
         (True, digests) \<Rightarrow> maven_loop G vp ms digests ([], [])
       | (False, _) \<Rightarrow> MatchPackageByLanguage G vp p JavaMatcher)
       (\<lambda>(matches, ignores). Some (Inr (ConvertToIndirectMatches matches (Package.truncate p), ignores)))"

fun serror_text :: "serror \<Rightarrow> string" where
  "serror_text (ErrorText s) = s"
| "serror_text (FatalError m e) = m @ '' encountered a fatal error: '' @ serror_text e"
| "serror_text (WrapError s e) = s @ '': '' @ serror_text e"
| "serror_text (JoinError es) = strings_Join (map serror_text es) [CHR 0x0A]"
| "serror_text (ContextError s) = s"
| "serror_text ErrAboveSeverityThreshold = ''discovered vulnerabilities at or above the severity threshold''"

record JavaMatcherConfig =
  java_SearchMavenUpstream :: bool
  java_UseCPEs :: bool

definition Java_Match :: "'o genv \<Rightarrow> mavenSearch \<Rightarrow> JavaMatcherConfig \<Rightarrow> 'o Provider \<Rightarrow> MPackage \<Rightarrow> match_result" where
  "Java_Match G ms cfg vp p =
     bindE (if java_SearchMavenUpstream cfg then do {
              r \<leftarrow> matchUpstreamMavenPackages G vp ms p;
              Some (case r of
                 Inl err \<Rightarrow>
                   if strings_Contains (serror_text err) ''no artifact found'' then Inr ([], [])
                   else Inl (FatalError JavaMatcher (WrapError ''resolving details for package with maven'' err))
               | Inr x \<Rightarrow> Inr x)
            }
            else Some (Inr ([], [])))
       (\<lambda>(matches, ignores).
         bindE (map_option (wrapE ''failed to match by exact package'')
             (MatchPackageByEcosystemAndCPEs G vp p JavaMatcher (java_UseCPEs cfg))) (\<lambda>(criteriaMatches, ignored).
         Some (Inr (matches @ criteriaMatches, ignores @ ignored))))"

section \<open>All matchers\<close>

record MatcherConfig =
  mc_Java :: JavaMatcherConfig
  mc_Ruby :: bool
  mc_Python :: bool
  mc_Dotnet :: bool
  mc_Javascript :: bool
  mc_Golang :: GolangMatcherConfig
  mc_Rust :: bool
  mc_Hex :: bool
  mc_Stock :: bool
  mc_Dpkg :: DpkgMatcherConfig
  mc_Rpm :: RpmMatcherConfig

definition outcome :: "match_result \<Rightarrow> match_outcome" where
  "outcome r =
     (case r of
        None \<Rightarrow> Panics (ErrorText ''runtime error'')
      | Some (Inl e) \<Rightarrow> Returns [] [] (Some e)
      | Some (Inr (ms, is)) \<Rightarrow> Returns ms is None)"

definition matcher_of :: "(Package \<Rightarrow> MPackage) \<Rightarrow> string \<Rightarrow> string list \<Rightarrow> (MPackage \<Rightarrow> match_result) \<Rightarrow> Matcher" where
  "matcher_of catalog ty types f = \<lparr>mt_Type = ty, mt_PackageTypes = types, mt_Match = (\<lambda>p. outcome (f (catalog p)))\<rparr>"

definition NewDefaultMatchers ::
  "'o genv \<Rightarrow> (Package \<Rightarrow> MPackage) \<Rightarrow> 'o Provider \<Rightarrow> mavenSearch \<Rightarrow> MatcherConfig \<Rightarrow> Matcher list" where
  "NewDefaultMatchers G catalog vp ms mc =
     [matcher_of catalog DpkgMatcher [DebPkg] (Dpkg_Match G (mc_Dpkg mc) vp),
      matcher_of catalog RubyGemMatcher [GemPkg] (Ruby_Match G (mc_Ruby mc) vp),
      matcher_of catalog PythonMatcher [PythonPkg] (Python_Match G (mc_Python mc) vp),
      matcher_of catalog DotnetMatcher [''dotnet''] (Dotnet_Match G (mc_Dotnet mc) vp),
      matcher_of catalog RpmMatcher [RpmPkg] (Rpm_Match G (mc_Rpm mc) vp),
      matcher_of catalog JavaMatcher [JavaPkg, ''jenkins-plugin''] (Java_Match G ms (mc_Java mc) vp),
      matcher_of catalog JavascriptMatcher [NpmPkg] (Javascript_Match G (mc_Javascript mc) vp),
      matcher_of catalog ApkMatcher [ApkPkg] (Apk_Match G vp),
      matcher_of catalog GoModuleMatcher [GoModulePkg] (Golang_Match G (mc_Golang mc) vp),
      matcher_of catalog MsrcMatcher [KbPkg] (Msrc_Match G vp),
      matcher_of catalog PortageMatcher [PortagePkg] (Portage_Match G vp),
      matcher_of catalog RustMatcher [''rust-crate''] (Rust_Match G (mc_Rust mc) vp),
      matcher_of catalog HexMatcher [''hex'', ''erlang-otp''] (Hex_Match G (mc_Hex mc) vp),
      matcher_of catalog StockMatcher [] (Stock_Match G (mc_Stock mc) vp),
      matcher_of catalog BitnamiMatcher [BitnamiPkg] (Bitnami_Match G vp),
      matcher_of catalog PacmanMatcher [AlpmPkg] (Pacman_Match G vp)]"

end
