(* ===== verification/Matcher_Properties.thy ===== *)
theory Matcher_Properties
  imports Matcher_Common
begin

text \<open>
  What the searches by distribution and by language report.  \<open>represents p s vs\<close> relates a set of results to the list of
  vulnerability records it was made of; every operation on sets of results implements one on lists, and the matchers'
  answers are computed on the lists.
\<close>

section \<open>Sets of results as lists of records\<close>

definition represents :: "MPackage \<Rightarrow> 'o rset \<Rightarrow> 'o SVuln list \<Rightarrow> bool" where
  "represents p s vs \<longleftrightarrow>
     rset_ok s \<and> of_package p s \<and> (\<forall>i. vulns_at s i = filter (\<lambda>v. vuln_ID v = i \<and> i \<noteq> []) vs)"

definition with_ID :: "'o SVuln list \<Rightarrow> 'o SVuln list" where
  "with_ID vs = filter (\<lambda>v. vuln_ID v \<noteq> []) vs"

text \<open>No identifier of the records that share the record's identifier is known to \<open>ws\<close>.\<close>

definition unrelated :: "'o SVuln list \<Rightarrow> 'o SVuln list \<Rightarrow> 'o SVuln \<Rightarrow> bool" where
  "unrelated vs ws v \<longleftrightarrow> identifiers (filter (\<lambda>w. vuln_ID w = vuln_ID v) vs) \<inter> identifiers (with_ID ws) = {}"

lemma represents_Nil [simp]: "represents p [] []"
  by (simp add: represents_def vulns_at_def)

lemma represents_find:
  assumes "vp_FindVulnerabilities vp ls = Inr vs" "ls \<noteq> []"
  obtains s where "FindResults P vp p matcher (map Leaf ls) = Inr s" "represents p s vs"
  using FindResults_facts [OF assms] by (metis represents_def)

lemma represents_Merge:
  assumes "represents p s vs" "represents p t ws"
  shows "represents p (rset_Merge G s t) (vs @ ws)"
proof -
  have ok: "rset_ok s" "rset_ok t" using assms by (simp_all add: represents_def)
  have look: "get_fps (rset_Merge G s t) i = get_fps s i @ get_fps t i" for i
    using rs.look_merge [OF ok] .
  then have "vulns_at (rset_Merge G s t) i = vulns_at s i @ vulns_at t i" for i by (simp add: vulns_at_def)
  moreover have "of_package p (rset_Merge G s t)"
    using assms look by (auto simp: represents_def of_package_def)
  ultimately show ?thesis using assms rs.ok_merge [OF ok] by (simp add: represents_def)
qed

lemma represents_Filter:
  assumes "represents p s vs" "\<And>v. v \<in> set vs \<Longrightarrow> MatchesVulnerability L c v = Some (hit v, None)"
  obtains s' where "rset_Filter L [c] s = Some s'" "represents p s' (filter hit vs)"
proof -
  have s: "rset_ok s" "of_package p s" using assms(1) by (simp_all add: represents_def)
  have dec: "MatchesVulnerability L c v = Some (hit v, None)" if "v \<in> set (vulns_at s i)" for i v
    using assms that by (auto simp: represents_def)
  obtain s' where "rset_Filter L [c] s = Some s'" "rset_ok s'" "of_package p s'"
    and at_i: "\<forall>i. vulns_at s' i = filter hit (vulns_at s i)"
    by (rule Filter_facts [where P = hit, OF s dec]) blast+
  moreover have "filter hit (filter (\<lambda>v. vuln_ID v = i \<and> i \<noteq> []) vs) = filter (\<lambda>v. vuln_ID v = i \<and> i \<noteq> []) (filter hit vs)" for i
    by (simp add: conj_commute)
  ultimately show thesis using that at_i assms(1) by (simp add: represents_def)
qed

lemma identifiers_represented:
  assumes "represents p s vs"
  shows "(\<Union>i. identifiers (vulns_at s i)) = identifiers (with_ID vs)"
  using assms by (auto simp: represents_def identifiers_def with_ID_def)

lemma represents_Remove:
  assumes s: "represents p s vs" and t: "represents q t ws"
  shows "represents p (rset_Remove s t) (filter (unrelated vs ws) vs)"
proof -
  have ok: "rset_ok s" "rset_ok t" using s t by (simp_all add: represents_def)
  have at_i: "vulns_at s i = filter (\<lambda>v. vuln_ID v = i \<and> i \<noteq> []) vs" for i using s by (simp add: represents_def)
  have "vulns_at (rset_Remove s t) i = filter (\<lambda>v. vuln_ID v = i \<and> i \<noteq> []) (filter (unrelated vs ws) vs)" for i
  proof (cases "i = []")
    case True
    then show ?thesis using vulns_at_Remove [OF ok, of i] at_i [of i] by simp
  next
    case False
    let ?u = "identifiers (filter (\<lambda>w. vuln_ID w = i) vs) \<inter> identifiers (with_ID ws) = {}"
    have "filter (\<lambda>v. vuln_ID v = i) (filter (unrelated vs ws) vs) = filter (\<lambda>v. vuln_ID v = i \<and> ?u) vs"
      unfolding filter_filter by (rule filter_cong) (auto simp: unrelated_def)
    then show ?thesis
      using vulns_at_Remove [OF ok, of i] at_i [of i] False identifiers_represented [OF t] by simp
  qed
  then show ?thesis using s of_package_Remove [OF ok(1)] Remove_ok [OF ok(1)] by (simp add: represents_def)
qed

lemma represented_vulns:
  assumes "represents p s vs"
  shows "(\<Union>i. set (vulns_at s i)) = set (with_ID vs)"
  using assms by (auto simp: represents_def with_ID_def)

lemma represents_Vulnerabilities: "represents p s vs \<Longrightarrow> set (rset_Vulnerabilities G s) = set (with_ID vs)"
  by (simp add: set_rset_Vulnerabilities represented_vulns)

lemma represents_ToMatches:
  assumes "represents p s vs"
  shows "m_Vulnerability ` set (ToMatches G s) = Vulnerability.truncate ` set (with_ID vs)"
    and "m \<in> set (ToMatches G s) \<Longrightarrow> m_Package m = Package.truncate p"
proof -
  have "set (ToMatches G s) = {\<lparr>m_Vulnerability = Vulnerability.truncate v, m_Package = Package.truncate p,
      m_Details = NewMatchDetailsSet (g_menv G) (concat (map r_Details (get_fps s i)))\<rparr> | i v. v \<in> set (vulns_at s i)}"
    using assms by (intro set_ToMatches) (simp_all add: represents_def)
  then have ms: "set (ToMatches G s) = (\<Union>i. (\<lambda>v. \<lparr>m_Vulnerability = Vulnerability.truncate v, m_Package = Package.truncate p,
      m_Details = NewMatchDetailsSet (g_menv G) (concat (map r_Details (get_fps s i)))\<rparr>) ` set (vulns_at s i))" by auto
  then show "m \<in> set (ToMatches G s) \<Longrightarrow> m_Package m = Package.truncate p" by auto
  from ms have "m_Vulnerability ` set (ToMatches G s) = Vulnerability.truncate ` (\<Union>i. set (vulns_at s i))"
    by (simp add: image_UN image_image)
  then show "m_Vulnerability ` set (ToMatches G s) = Vulnerability.truncate ` set (with_ID vs)"
    by (simp add: represented_vulns [OF assms])
qed

lemma search_names_represents:
  assumes "\<And>n. n \<in> set ns \<Longrightarrow> \<exists>s. search n = Inr s \<and> represents p s (f n)" "represents p acc va"
  shows "\<exists>s. search_names G search ns acc = Inr s \<and> represents p s (va @ concat (map f ns))"
  using assms
proof (induction ns arbitrary: acc va)
  case (Cons n ns)
  from Cons.prems(1) [of n] obtain s where s: "search n = Inr s" "represents p s (f n)" by auto
  from Cons.IH [OF Cons.prems(1) represents_Merge [OF Cons.prems(2) s(2)]] s(1) show ?case by simp
qed simp

lemma with_ID_simps [simp]:
  "with_ID [] = []" "with_ID (vs @ ws) = with_ID vs @ with_ID ws" "with_ID (filter P vs) = filter P (with_ID vs)"
  by (simp_all add: with_ID_def conj_commute)

section \<open>Leaves\<close>

definition qualified_leaf :: "penv \<Rightarrow> MPackage \<Rightarrow> 'o leaf" where
  "qualified_leaf P p = FuncCriteria (\<lambda>vuln. Some (qualifiers_loop P p (sv_PackageQualifiers vuln)))"

definition version_leaf :: "'o Version option \<Rightarrow> 'o leaf" where
  "version_leaf v = (case OnlyVulnerableVersions v of Leaf l \<Rightarrow> l | _ \<Rightarrow> UnaffectedCriteria)"

lemma OnlyQualifiedPackages_leaf: "OnlyQualifiedPackages P p = Leaf (qualified_leaf P p)"
  by (simp add: OnlyQualifiedPackages_def qualified_leaf_def)

lemma OnlyVulnerableVersions_leaf: "OnlyVulnerableVersions v = Leaf (version_leaf v)"
  by (simp add: version_leaf_def OnlyVulnerableVersions_def split: option.split)

lemma bindE_simps [simp]:
  "bindE None f = None" "bindE (Some (Inl e)) f = Some (Inl e)" "bindE (Some (Inr x)) f = f x"
  by (simp_all add: bindE_def)

lemma wrapE_simps [simp]: "wrapE msg (Inr x) = Inr x" "wrapE msg (Inl e) = Inl (WrapError msg e)"
  by (simp_all add: wrapE_def)

lemma set_collect_related: "set (collect_related ids rs) = set ids \<union> ref_ID ` set rs"
  by (induction rs arbitrary: ids) auto

lemma set_OwnershipIgnores:
  "set (OwnershipIgnores p reason vs) = (\<lambda>i. RelatedFilter \<lparr>irp_Reason = reason, irp_RelationshipType = ''ownership-by-file-overlap'',
     irp_VulnerabilityID = i, irp_RelatedPackageID = pkg_ID p\<rparr>) ` identifiers vs"
  by (auto simp: OwnershipIgnores_def identifiers_def collectVulnerabilityIDs_def set_collect_related)

section \<open>By distribution\<close>

definition disclosure_row :: "'o genv \<Rightarrow> MPackage \<Rightarrow> Distro \<Rightarrow> string \<Rightarrow> 'o leaf list" where
  "disclosure_row G p d n = [PackageNameCriteria n, DistroCriteria [d] False, qualified_leaf (g_penv G) p]"

definition unaffected_row :: "Distro \<Rightarrow> 'o Version \<Rightarrow> string \<Rightarrow> 'o leaf list" where
  "unaffected_row d ver n = [DistroCriteria [d] False, PackageNameCriteria n, UnaffectedCriteria, version_leaf (Some ver)]"

lemma find_wrapped:
  assumes "vp_FindVulnerabilities vp ls = Inr vs" "ls \<noteq> []" "cs = map Leaf ls"
  shows "\<exists>s. wrapE msg (FindResults P vp p matcher cs) = Inr s \<and> represents p s vs"
  using represents_find [OF assms(1,2), of P p matcher] assms(3) by (metis wrapE_simps(1))

text \<open>The search by distribution on lists: what is vulnerable, and what is known to be fixed.\<close>

definition disclosed :: "('o SVuln \<Rightarrow> bool) \<Rightarrow> 'o SVuln list \<Rightarrow> 'o SVuln list \<Rightarrow> 'o SVuln list" where
  "disclosed hit found safe = filter (unrelated (filter hit found) safe) (filter hit (with_ID found))"

definition known_fixed :: "('o SVuln \<Rightarrow> bool) \<Rightarrow> 'o SVuln list \<Rightarrow> 'o SVuln list \<Rightarrow> 'o SVuln list" where
  "known_fixed hit found safe = filter (unrelated found (filter hit found)) (with_ID found) @ with_ID safe"

lemma MatchPackageByDistro_represents:
  fixes G :: "'o genv" and p :: MPackage and cfg catalogPkg
  defines "ver \<equiv> package_version p cfg" and "mp \<equiv> matchPackage p catalogPkg"
  assumes "mp_Distro p = Some d" "\<not> isUnknownVersion (pkg_Version p)"
    and "\<forall>n \<in> set (vp_PackageSearchNames vp p). vp_FindVulnerabilities vp (disclosure_row G p d n) = Inr (found n)"
    and "\<forall>n \<in> set (vp_PackageSearchNames vp p). vp_FindVulnerabilities vp (unaffected_row d ver n) = Inr (safe n)"
    and "\<forall>n \<in> set (vp_PackageSearchNames vp p). \<forall>v \<in> set (found n).
          leaf_MatchesVulnerability (g_libs G) (version_leaf (Some ver)) v = Some (hit v, None)"
    and "F = concat (map found (vp_PackageSearchNames vp p))" "S = concat (map safe (vp_PackageSearchNames vp p))"
  shows "\<exists>r fx. MatchPackageByDistro G vp p catalogPkg matcher cfg
      = Some (Inr (ToMatches G r, OwnershipIgnores mp ''DistroPackageFixed'' (rset_Vulnerabilities G fx)))
    \<and> represents mp r (filter (unrelated (filter hit F) S) (filter hit F))
    \<and> represents mp fx (filter (unrelated F (filter hit F)) F @ S)"
proof -
  let ?names = "vp_PackageSearchNames vp p"
  let ?P = "g_penv G"
  define search1 where "search1 = (\<lambda>name. wrapE ''matcher failed to fetch distro'' (FindResults ?P vp mp matcher
      [Leaf (PackageNameCriteria name), Leaf (DistroCriteria [d] False), OnlyQualifiedPackages ?P p]))"
  define search2 where "search2 = (\<lambda>name. wrapE ''matcher failed to fetch unaffected'' (FindResults ?P vp mp matcher
      [Leaf (DistroCriteria [d] False), Leaf (PackageNameCriteria name), Leaf UnaffectedCriteria, OnlyVulnerableVersions (Some ver)]))"
  have "\<exists>s. search1 n = Inr s \<and> represents mp s (found n)" if "n \<in> set ?names" for n
    unfolding search1_def using bspec [OF assms(5) that]
    by (rule find_wrapped) (simp_all add: disclosure_row_def OnlyQualifiedPackages_leaf)
  from search_names_represents [where ns = ?names and search = search1 and f = found and G = G, OF this represents_Nil] assms(8) obtain al where
    al: "search_names G search1 ?names [] = Inr al" "represents mp al F" by auto
  have "\<exists>s. search2 n = Inr s \<and> represents mp s (safe n)" if "n \<in> set ?names" for n
    unfolding search2_def using bspec [OF assms(6) that]
    by (rule find_wrapped) (simp_all add: unaffected_row_def OnlyVulnerableVersions_leaf)
  from search_names_represents [where ns = ?names and search = search2 and f = safe and G = G, OF this represents_Nil] assms(9) obtain un where
    un: "search_names G search2 ?names [] = Inr un" "represents mp un S" by auto
  have dec: "MatchesVulnerability (g_libs G) (OnlyVulnerableVersions (Some ver)) v = Some (hit v, None)" if "v \<in> set F" for v
    using that assms(7,8) by (auto simp: OnlyVulnerableVersions_leaf)
  obtain vl where vl: "rset_Filter (g_libs G) [OnlyVulnerableVersions (Some ver)] al = Some vl" "represents mp vl (filter hit F)"
    by (rule represents_Filter [OF al(2) dec])
  show ?thesis
    using represents_Remove [OF vl(2) un(2)] represents_Merge [OF represents_Remove [OF al(2) vl(2)] un(2), of G]
    by (simp add: MatchPackageByDistro_def assms(3,4) Let_def flip: ver_def mp_def search1_def search2_def)
      (auto simp: al(1) un(1) vl(1))
qed

lemma distro_answers:
  assumes "represents mp r (filter (unrelated (filter hit F) S) (filter hit F))" "represents mp fx (filter (unrelated F (filter hit F)) F @ S)"
  shows "m_Vulnerability ` set (ToMatches G r) = Vulnerability.truncate ` set (disclosed hit F S)"
    and "\<forall>m \<in> set (ToMatches G r). m_Package m = Package.truncate mp"
    and "set (OwnershipIgnores mp reason (rset_Vulnerabilities G fx)) = (\<lambda>i. RelatedFilter \<lparr>irp_Reason = reason,
        irp_RelationshipType = ''ownership-by-file-overlap'', irp_VulnerabilityID = i, irp_RelatedPackageID = pkg_ID mp\<rparr>)
        ` identifiers (known_fixed hit F S)"
proof -
  have "set (rset_Vulnerabilities G fx) = set (known_fixed hit F S)"
    using represents_Vulnerabilities [OF assms(2), of G] by (simp add: known_fixed_def)
  then have "identifiers (rset_Vulnerabilities G fx) = identifiers (known_fixed hit F S)" by (simp add: identifiers_def)
  then show "m_Vulnerability ` set (ToMatches G r) = Vulnerability.truncate ` set (disclosed hit F S)"
    "\<forall>m \<in> set (ToMatches G r). m_Package m = Package.truncate mp"
    "set (OwnershipIgnores mp reason (rset_Vulnerabilities G fx)) = (\<lambda>i. RelatedFilter \<lparr>irp_Reason = reason,
        irp_RelationshipType = ''ownership-by-file-overlap'', irp_VulnerabilityID = i, irp_RelatedPackageID = pkg_ID mp\<rparr>)
        ` identifiers (known_fixed hit F S)"
    using represents_ToMatches [OF assms(1), where G = G] by (simp_all add: set_OwnershipIgnores disclosed_def)
qed

section \<open>An example\<close>

text \<open>An RPM package of version 1.0 and a provider that knows three records of it, one already fixed, and an unaffected record
  with an alias of the third.\<close>

definition example_penv :: penv where
  "example_penv = \<lparr>pe_cpe_New = (\<lambda>_. None), pe_BindToFmtString = cpe_Product, pe_cpe_String = cpe_Product, pe_strset = (\<lambda>ss. ss),
     pe_LanguageByName = (\<lambda>_. []), pe_TargetSoftwareToPackageType = (\<lambda>_. [])\<rparr>"

definition example_genv :: "string genv" where
  "example_genv = \<lparr>g_libs = text_libs, g_penv = example_penv, g_menv = example_env, g_order = (\<lambda>ks. ks), g_versions = (\<lambda>vs. vs)\<rparr>"

definition example_distro :: Distro where
  "example_distro = \<lparr>distro_Type = ''redhat'', distro_Version = ''9.4'', distro_Codename = [], distro_Channels = [], distro_IDLike = [],
     distro_major = ''9'', distro_minor = ''4'', distro_remaining = []\<rparr>"

definition example_rpm :: MPackage where
  "example_rpm = \<lparr>pkg_ID = ''p1'', pkg_Name = ''openssl'', pkg_Version = ''1.0'', pkg_Locations = [], pkg_Language = [],
     pkg_Type = RpmPkg, pkg_Upstreams = [], pkg_Distro = None, pkg_RelatedPackages = [], pkg_PURL = [],
     mp_Distro = Some example_distro, mp_CPEs = [], mp_Metadata = NoMetadata\<rparr>"

definition below :: "string \<Rightarrow> 'o constraint" where
  "below v = Generic \<lparr>gc_Raw = ''< '' @ v, gc_Expression = [[\<lparr>ru_Operator = LT, ru_Version = v\<rparr>]], gc_Fmt = RpmFormat\<rparr>"

definition example_vuln :: "string \<Rightarrow> string list \<Rightarrow> string \<Rightarrow> 'o SVuln" where
  "example_vuln i aliases fixed = \<lparr>vuln_ID = i, vuln_Namespace = ''redhat:distro:redhat:9'',
     vuln_Fix = \<lparr>fix_Versions = [fixed], fix_State = ''fixed''\<rparr>,
     vuln_RelatedVulnerabilities = map (\<lambda>a. \<lparr>ref_ID = a, ref_Namespace = []\<rparr>) aliases, vuln_CPEs = [],
     sv_PackageName = ''openssl'', sv_Constraint = Some (below fixed), sv_CPEs = [], sv_Unaffected = False, sv_Status = [],
     sv_PackageQualifiers = [], sv_Advisories = []\<rparr>"

definition example_records :: "'o SVuln list" where
  "example_records = [example_vuln ''CVE-1'' [] ''2.0'', example_vuln ''CVE-2'' [] ''0.5'', example_vuln ''CVE-3'' [''GHSA-3''] ''2.0'']"

definition example_safe :: "'o SVuln list" where
  "example_safe = [example_vuln ''ADV-3'' [''GHSA-3''] ''1.0'']"

definition example_provider :: "'o Provider" where
  "example_provider = \<lparr>vp_FindVulnerabilities = (\<lambda>ls. Inr (if list_ex (\<lambda>l. case l of UnaffectedCriteria \<Rightarrow> True | _ \<Rightarrow> False) ls
       then example_safe else example_records)),
     vp_PackageSearchNames = (\<lambda>p. [pkg_Name p]), vp_OperatingSystemEOL = None, vp_now = 0\<rparr>"

lemma example_hit:
  assumes "v \<in> set example_records"
  shows "version_criteria text_libs (New ''1.0'' RpmFormat) (the (sv_Constraint v)) = Some (vuln_ID v \<noteq> ''CVE-2'', None)"
proof -
  have "version_criteria text_libs (New ''1.0'' RpmFormat) (below ''2.0'') = Some (True, None)"
    "version_criteria text_libs (New ''1.0'' RpmFormat) (below ''0.5'') = Some (False, None)" by code_simp+
  with assms show ?thesis by (auto simp: example_records_def example_vuln_def)
qed

lemma example_rpm_facts:
  "mp_Distro example_rpm = Some example_distro" "\<not> isUnknownVersion (pkg_Version example_rpm)"
  "vp_PackageSearchNames (example_provider :: string Provider) example_rpm = [''openssl'']"
  "package_version example_rpm None = (New ''1.0'' RpmFormat :: string Version)"
  "New (pkg_Version example_rpm) (VersionFormat example_rpm) = (New ''1.0'' RpmFormat :: string Version)"
  by (simp_all add: example_rpm_def isUnknownVersion_def strings_ToLower_def to_lower_def example_provider_def
      package_version_def VersionFormat_def ApkPkg_def BitnamiPkg_def DebPkg_def JavaPkg_def RpmPkg_def)

lemma example_version_hit:
  assumes "v \<in> set example_records"
  shows "leaf_MatchesVulnerability (g_libs example_genv) (version_leaf (Some (New ''1.0'' RpmFormat))) v
    = Some (vuln_ID v \<noteq> ''CVE-2'', None)"
  using assms example_hit [OF assms]
  by (auto simp: example_genv_def version_leaf_def OnlyVulnerableVersions_def New_def NewWithConfig_def
      ConstraintFunc_MatchesVulnerability_def example_records_def example_vuln_def)

lemma example_disclosed:
  "disclosed (\<lambda>v. vuln_ID v \<noteq> ''CVE-2'') example_records example_safe = [example_vuln ''CVE-1'' [] ''2.0'']"
  by (simp add: disclosed_def unrelated_def with_ID_def identifiers_def example_records_def example_safe_def example_vuln_def)

text \<open>C10: searching a package's distribution under each of its names, when every search answers and the version can be checked
  against every record, reports exactly the records that apply to the version and share no identifier (their own, or the aliases
  of records with the same identifier) with an unaffected record; the package is the one of the catalog.  What applies to no
  version searched for, and every unaffected record, is turned into filters for the packages the package owns.\<close>

theorem MatchPackageByDistro_exact:
  fixes G :: "'o genv"
  assumes "mp_Distro p = Some d" "\<not> isUnknownVersion (pkg_Version p)"
    and "\<forall>n \<in> set (vp_PackageSearchNames vp p). vp_FindVulnerabilities vp (disclosure_row G p d n) = Inr (found n)"
    and "\<forall>n \<in> set (vp_PackageSearchNames vp p).
          vp_FindVulnerabilities vp (unaffected_row d (package_version p cfg) n) = Inr (safe n)"
    and "\<forall>n \<in> set (vp_PackageSearchNames vp p). \<forall>v \<in> set (found n).
          leaf_MatchesVulnerability (g_libs G) (version_leaf (Some (package_version p cfg))) v = Some (hit v, None)"
    and "F = concat (map found (vp_PackageSearchNames vp p))" "S = concat (map safe (vp_PackageSearchNames vp p))"
  shows "\<exists>ms igs. MatchPackageByDistro G vp p catalogPkg matcher cfg = Some (Inr (ms, igs))
    \<and> m_Vulnerability ` set ms = Vulnerability.truncate ` set (disclosed hit F S)
    \<and> (\<forall>m \<in> set ms. m_Package m = Package.truncate (matchPackage p catalogPkg))
    \<and> set igs = (\<lambda>i. RelatedFilter \<lparr>irp_Reason = ''DistroPackageFixed'', irp_RelationshipType = ''ownership-by-file-overlap'',
        irp_VulnerabilityID = i, irp_RelatedPackageID = pkg_ID (matchPackage p catalogPkg)\<rparr>) ` identifiers (known_fixed hit F S)"
proof -
  obtain r fx where r: "MatchPackageByDistro G vp p catalogPkg matcher cfg
      = Some (Inr (ToMatches G r, OwnershipIgnores (matchPackage p catalogPkg) ''DistroPackageFixed'' (rset_Vulnerabilities G fx)))"
    "represents (matchPackage p catalogPkg) r (filter (unrelated (filter hit F) S) (filter hit F))"
    "represents (matchPackage p catalogPkg) fx (filter (unrelated F (filter hit F)) F @ S)"
    using MatchPackageByDistro_represents [OF assms] by blast
  show ?thesis using r(1) distro_answers [OF r(2,3), where G = G] by simp
qed

theorem MatchPackageByDistro_exact_witness:
  "\<exists>ms igs. MatchPackageByDistro example_genv example_provider example_rpm None ''rpm-matcher'' None = Some (Inr (ms, igs))
    \<and> m_Vulnerability ` set ms = {Vulnerability.truncate (example_vuln ''CVE-1'' [] ''2.0'' :: string SVuln)}"
proof -
  let ?hit = "\<lambda>v :: string SVuln. vuln_ID v \<noteq> ''CVE-2''"
  have found: "vp_FindVulnerabilities example_provider (disclosure_row example_genv p d n) = Inr (example_records :: string SVuln list)"
    "vp_FindVulnerabilities example_provider (unaffected_row d ver n) = Inr (example_safe :: string SVuln list)" for p d n ver
    by (simp_all add: example_provider_def disclosure_row_def unaffected_row_def qualified_leaf_def)
  show ?thesis
    using MatchPackageByDistro_exact [OF example_rpm_facts(1,2), where vp = example_provider and G = example_genv and cfg = None
        and found = "\<lambda>_. example_records" and safe = "\<lambda>_. example_safe" and hit = ?hit and catalogPkg = None
        and matcher = "''rpm-matcher''", OF _ _ _ refl refl]
    by (simp add: example_rpm_facts(3,4) found example_disclosed example_version_hit) blast
qed

section \<open>By language\<close>

definition language_row :: "'o genv \<Rightarrow> MPackage \<Rightarrow> string \<Rightarrow> 'o leaf list" where
  "language_row G p n = [EcosystemCriteria (pkg_Language p) (pkg_Type p), PackageNameCriteria n, qualified_leaf (g_penv G) p,
     FuncCriteria (\<lambda>v. Some (\<not> (sv_Status v = ''withdrawn'' \<or> sv_Status v = ''rejected''), None))]"

definition language_unaffected_row :: "'o genv \<Rightarrow> MPackage \<Rightarrow> 'o Version \<Rightarrow> string \<Rightarrow> 'o leaf list" where
  "language_unaffected_row G p ver n = language_row G p n @ [UnaffectedCriteria, version_leaf (Some ver)]"

lemma language_criteria_leaves: "language_criteria (g_penv G) p n = map Leaf (language_row G p n)"
  by (simp add: language_criteria_def language_row_def OnlyQualifiedPackages_leaf OnlyNonWithdrawnVulnerabilities_def)

lemma language_loop_represents:
  fixes G :: "'o genv"
  assumes "\<forall>n \<in> set names. vp_FindVulnerabilities vp (language_row G p n) = Inr (found n)"
    and "\<forall>n \<in> set names. vp_FindVulnerabilities vp (language_unaffected_row G p ver n) = Inr (safe n)"
    and "\<forall>n \<in> set names. \<forall>v \<in> set (found n). leaf_MatchesVulnerability (g_libs G) (version_leaf (Some ver)) v = Some (hit v, None)"
    and "represents p ds vd" "represents p us vu"
  shows "\<exists>d u. language_loop G vp p matcher (OnlyVulnerableVersions (Some ver)) names ds us = Some (Inr (d, u))
    \<and> represents p d (vd @ filter hit (concat (map found names))) \<and> represents p u (vu @ concat (map safe names))"
  using assms
proof (induction names arbitrary: ds us vd vu)
  case (Cons n names)
  let ?c = "OnlyVulnerableVersions (Some ver)"
  from find_wrapped [of vp "language_row G p n" "found n"] Cons.prems(1) obtain f where
    f: "wrapE ''matcher failed to fetch disclosure'' (FindResults (g_penv G) vp p matcher (language_criteria (g_penv G) p n)) = Inr f"
    "represents p f (found n)" by (fastforce simp: language_criteria_leaves language_row_def)
  from find_wrapped [of vp "language_unaffected_row G p ver n" "safe n"] Cons.prems(2) obtain u where
    u: "wrapE ''matcher failed to fetch resolution'' (FindResults (g_penv G) vp p matcher
          (language_criteria (g_penv G) p n @ [Leaf UnaffectedCriteria, ?c])) = Inr u"
    "represents p u (safe n)"
    by (fastforce simp: language_criteria_leaves language_unaffected_row_def OnlyVulnerableVersions_leaf)
  have "MatchesVulnerability (g_libs G) ?c v = Some (hit v, None)" if "v \<in> set (found n)" for v
    using that Cons.prems(3) by (simp add: OnlyVulnerableVersions_leaf)
  then obtain fl where fl: "rset_Filter (g_libs G) [?c] f = Some fl" "represents p fl (filter hit (found n))"
    by (rule represents_Filter [OF f(2)])
  from Cons.IH [OF _ _ _ represents_Merge [OF Cons.prems(4) fl(2), of G] represents_Merge [OF Cons.prems(5) u(2), of G]] Cons.prems(1-3)
  show ?case by (simp add: Let_def f(1) fl(1) u(1))
qed simp

lemma set_vuln_ids: "set (vuln_ids ids v) = set ids \<union> identifiers [v]"
  by (auto simp: vuln_ids_def identifiers_def set_collect_related)

lemma fold_vuln_ids: "set (fold (\<lambda>v ids. vuln_ids ids v) vs ids) = set ids \<union> identifiers vs"
  by (induction vs arbitrary: ids) (auto simp: set_vuln_ids identifiers_def)

lemma unaffected_ids_identifiers:
  assumes "represents p s vs"
  shows "set (unaffected_ids G s) = identifiers (with_ID vs)"
proof -
  let ?add = "\<lambda>r ids. fold (\<lambda>v ids. vuln_ids ids v) (r_Vulnerabilities r) (ids @ [r_ID r])"
  have ok: "rset_ok s" using assms by (simp add: represents_def)
  have step: "set (fold ?add rs ids) = set ids \<union> (\<Union>r \<in> set rs. insert (r_ID r) (identifiers (r_Vulnerabilities r)))" for rs ids
    by (induction rs arbitrary: ids) (auto simp: fold_vuln_ids)
  have own: "insert (r_ID r) (identifiers (r_Vulnerabilities r)) = identifiers (r_Vulnerabilities r)" if "result_ok k r" for k r
    using that by (cases "r_Vulnerabilities r") (auto simp: result_ok_def identifiers_def)
  have "(\<Union>r \<in> set (get_fps s k). insert (r_ID r) (identifiers (r_Vulnerabilities r))) = identifiers (vulns_at s k)" for k
  proof -
    have "(\<Union>r \<in> set (get_fps s k). insert (r_ID r) (identifiers (r_Vulnerabilities r)))
        = (\<Union>r \<in> set (get_fps s k). identifiers (r_Vulnerabilities r))"
      using rset_ok_get [OF ok, of k] by (intro SUP_cong refl own) (auto simp: list_all_iff)
    then show ?thesis by (auto simp: vulns_at_def identifiers_def)
  qed
  then have "set (unaffected_ids G s) = (\<Union>k \<in> fst ` set s. identifiers (vulns_at s k))"
    by (simp add: unaffected_ids_def step set_rset_range)
  also have "\<dots> = (\<Union>k. identifiers (vulns_at s k))"
    by (rule UN_all_keys) (simp add: vulns_at_def identifiers_def)
  finally show ?thesis using identifiers_represented [OF assms] by simp
qed

text \<open>C11: searching by language, under the same conditions, reports exactly the records that apply to the version and share no
  identifier with an unaffected record; and it returns one rule per identifier of the unaffected records, which ignores the
  vulnerability and its aliases for packages of this name, version and type.\<close>

theorem MatchPackageByLanguage_exact:
  fixes G :: "'o genv"
  assumes "\<not> isUnknownVersion (pkg_Version p)"
    and "\<forall>n \<in> set (vp_PackageSearchNames vp p). vp_FindVulnerabilities vp (language_row G p n) = Inr (found n)"
    and "\<forall>n \<in> set (vp_PackageSearchNames vp p).
          vp_FindVulnerabilities vp (language_unaffected_row G p (New (pkg_Version p) (VersionFormat p)) n) = Inr (safe n)"
    and "\<forall>n \<in> set (vp_PackageSearchNames vp p). \<forall>v \<in> set (found n).
          leaf_MatchesVulnerability (g_libs G) (version_leaf (Some (New (pkg_Version p) (VersionFormat p)))) v = Some (hit v, None)"
    and "F = concat (map found (vp_PackageSearchNames vp p))" "S = concat (map safe (vp_PackageSearchNames vp p))"
  shows "\<exists>ms igs. MatchPackageByLanguage G vp p matcher = Some (Inr (ms, igs))
    \<and> m_Vulnerability ` set ms = Vulnerability.truncate ` set (disclosed hit F S)
    \<and> (\<forall>m \<in> set ms. m_Package m = Package.truncate p)
    \<and> set igs = (\<lambda>i. RuleFilter (zero_IgnoreRule\<lparr>ir_Vulnerability := i, ir_IncludeAliases := True, ir_Reason := ''UnaffectedPackageEntry'',
        ir_Package := (ir_Package zero_IgnoreRule)\<lparr>rp_Type := pkg_Type p, rp_Name := pkg_Name p, rp_Version := pkg_Version p\<rparr>\<rparr>))
          ` identifiers (with_ID S)"
proof -
  from language_loop_represents [OF assms(2-4) represents_Nil represents_Nil, of matcher] assms(5,6) obtain d u where
    l: "language_loop G vp p matcher (OnlyVulnerableVersions (Some (New (pkg_Version p) (VersionFormat p))))
          (vp_PackageSearchNames vp p) [] [] = Some (Inr (d, u))"
    "represents p d (filter hit F)" "represents p u S" by auto
  have "represents p (rset_Remove d u) (filter (unrelated (filter hit F) S) (filter hit F))"
    by (rule represents_Remove [OF l(2,3)])
  from represents_ToMatches [OF this, where G = G] unaffected_ids_identifiers [OF l(3), of G] show ?thesis
    by (simp add: MatchPackageByLanguage_def assms(1) Let_def l(1) constructIgnoreFilters_def disclosed_def)
qed

theorem MatchPackageByLanguage_exact_witness:
  "\<exists>ms igs. MatchPackageByLanguage example_genv example_provider example_rpm ''stock-matcher'' = Some (Inr (ms, igs))
    \<and> m_Vulnerability ` set ms = {Vulnerability.truncate (example_vuln ''CVE-1'' [] ''2.0'' :: string SVuln)}"
proof -
  let ?hit = "\<lambda>v :: string SVuln. vuln_ID v \<noteq> ''CVE-2''"
  have found: "vp_FindVulnerabilities example_provider (language_row example_genv p n) = Inr (example_records :: string SVuln list)"
    "vp_FindVulnerabilities example_provider (language_unaffected_row example_genv p ver n) = Inr (example_safe :: string SVuln list)"
    for p n ver
    by (simp_all add: example_provider_def language_row_def language_unaffected_row_def qualified_leaf_def)
  show ?thesis
    using MatchPackageByLanguage_exact [OF example_rpm_facts(2), where vp = example_provider and G = example_genv
        and found = "\<lambda>_. example_records" and safe = "\<lambda>_. example_safe" and hit = ?hit
        and matcher = "''stock-matcher''", OF _ _ _ refl refl]
    by (simp add: example_rpm_facts(3-5) found example_disclosed example_version_hit) blast
qed

end
