(* ===== verification/Version_State.thy ===== *)
theory Version_State
  imports Constraints
begin

text \<open>
  The version a matcher passes from check to check: whatever a constraint check or a comparison does to the comparator cache,
  the version stays the same one, and the comparator of its own format stays the one its text gives.
\<close>

definition fits :: "'o Version \<Rightarrow> 'o comparator \<Rightarrow> 'o Version \<Rightarrow> bool" where
  "fits v0 c v \<longleftrightarrow> ver_Raw v = ver_Raw v0 \<and> ver_Format v = ver_Format v0 \<and> ver_Config v = ver_Config v0
     \<and> (case ver_comparators v of None \<Rightarrow> True | Some m \<Rightarrow> m (ver_Format v0) = None \<or> m (ver_Format v0) = Some c)"

definition parses_as :: "'o libs \<Rightarrow> 'o Version \<Rightarrow> 'o comparator \<Rightarrow> bool" where
  "parses_as L v c \<longleftrightarrow> new_comparator L (ver_Format v) (ver_Raw v) = (c, None)"

lemma fits_start: "ver_comparators v = None \<Longrightarrow> fits v c v"
  by (simp add: fits_def)

lemma getComparator_fits:
  assumes "parses_as L v0 c" "fits v0 c v" "getComparator L v f = (v', c', e)"
  shows "fits v0 c v'"
  using assms by (auto simp: getComparator_def fits_def parses_as_def Let_def split: option.splits prod.splits if_splits)

lemma getComparator_own:
  assumes "parses_as L v0 c" "fits v0 c v"
  shows "\<exists>v'. getComparator L v (ver_Format v) = (v', c, None) \<and> fits v0 c v'"
proof -
  obtain v' c' e where g: "getComparator L v (ver_Format v) = (v', c', e)" by (cases "getComparator L v (ver_Format v)")
  with assms have "c' = c \<and> e = None"
    by (auto simp: getComparator_def fits_def parses_as_def Let_def split: option.splits prod.splits)
  with g getComparator_fits [OF assms g] show ?thesis by simp
qed

lemma persist_fits: "fits v0 c v \<Longrightarrow> fits v0 c v' \<Longrightarrow> fits v0 c (persist v v')"
  by (simp add: persist_def split: option.split)

lemma compare_as_fits:
  assumes "parses_as L v0 c" "fits v0 c v" "compare_as L v f other = Some (v', r)"
  shows "fits v0 c v'"
  using assms getComparator_fits [OF assms(1,2)] by (auto simp: compare_as_def split: prod.splits option.splits)

lemma Version_Compare_fits:
  assumes "parses_as L v0 c" "fits v0 c v" "Version_Compare L v other = Some (v', r)"
  shows "fits v0 c v'"
  using assms(3)
  by (auto simp: Version_Compare_def split: option.splits prod.splits if_splits bind_splits
      intro!: persist_fits [OF assms(2)] intro: compare_as_fits [OF assms(1)] assms(2))
    (metis assms(1,2) compare_as_fits)+

lemma compareWithConfig_fits:
  assumes "parses_as L v0 c" "fits v0 c v" "compareWithConfig L v other cfg = Some (v', r)"
  shows "fits v0 c v'"
  using assms(3) by (auto simp: compareWithConfig_def split: option.splits prod.splits
      intro: getComparator_fits [OF assms(1,2)])

lemma unit_compare_fits:
  assumes "parses_as L v0 c" "fits v0 c v" "unit_compare L format cfg v u = Some (v', r)"
  shows "fits v0 c v'"
  using assms(3) by (auto simp: unit_compare_def split: if_splits
      intro: compareWithConfig_fits [OF assms(1,2)] Version_Compare_fits [OF assms(1,2)])

lemma and_loop_fits:
  assumes "parses_as L v0 c" "fits v0 c v" "and_loop L format cfg v us = Some (v', r)"
  shows "fits v0 c v'"
  using assms(2,3)
proof (induction us arbitrary: v v' r)
  case (Cons u us)
  from Cons.prems obtain v1 x where 1: "unit_compare L format cfg v u = Some (v1, x)" by (auto split: bind_splits)
  from unit_compare_fits [OF assms(1) Cons.prems(1) this] have "fits v0 c v1" .
  with Cons.IH [OF this] Cons.prems(2) 1 show ?case
    by (auto split: bind_splits prod.splits option.splits)
qed simp

lemma or_loop_fits:
  assumes "parses_as L v0 c" "fits v0 c v" "or_loop L format cfg v gs = Some (v', r)"
  shows "fits v0 c v'"
  using assms(2,3)
proof (induction gs arbitrary: v v' r)
  case (Cons g gs)
  from Cons.prems obtain v1 x where 1: "and_loop L format cfg v g = Some (v1, x)" by (auto split: bind_splits)
  from and_loop_fits [OF assms(1) Cons.prems(1) this] have "fits v0 c v1" .
  with Cons.IH [OF this] Cons.prems(2) 1 show ?case
    by (auto split: bind_splits prod.splits option.splits)
qed simp

lemma satisfied_fits:
  assumes "parses_as L v0 c" "fits v0 c v" "some_version (satisfied L e format v) = Some (v', r)"
  shows "\<exists>w. v' = Some w \<and> fits v0 c w"
  using assms(3) by (auto simp: some_version_def satisfied_def satisfiedWithConfig_def intro: or_loop_fits [OF assms(1,2)])

lemma generic_Satisfied_fits:
  assumes "parses_as L v0 c" "fits v0 c v" "generic_Satisfied L g (Some v) = Some (v', r)"
  shows "\<exists>w. v' = Some w \<and> fits v0 c w"
  using assms(2,3) satisfied_fits [OF assms(1,2)] by (auto simp: generic_Satisfied_def split: if_splits)

lemma kb_Satisfied_fits:
  assumes "parses_as L v0 c" "fits v0 c v" "kb_Satisfied L k (Some v) = Some (v', r)"
  shows "\<exists>w. v' = Some w \<and> fits v0 c w"
  using assms(2,3) satisfied_fits [OF assms(1,2)] by (auto simp: kb_Satisfied_def split: if_splits)

lemma fuzzy_fallback_fits:
  assumes "parses_as L v0 c" "fits v0 c v" "fuzzy_fallback L f v = Some (v', r)"
  shows "\<exists>w. v' = Some w \<and> fits v0 c w"
  using assms(2,3) satisfied_fits [OF assms(1,2)]
  by (auto simp: fuzzy_fallback_def Let_def split: option.splits if_splits sum.splits)

lemma fuzzy_Satisfied_fits:
  assumes L: "parses_as L v0 c" and v: "fits v0 c v" and r: "fuzzy_Satisfied L f (Some v) = Some (v', r)"
  shows "\<exists>w. v' = Some w \<and> fits v0 c w"
proof -
  have fb: "fuzzy_fallback L f w = Some (v', r) \<Longrightarrow> fits v0 c w \<Longrightarrow> ?thesis" for w
    using fuzzy_fallback_fits [OF L] by blast
  show ?thesis
    using r v fb generic_Satisfied_fits [OF L v] kb_Satisfied_fits [OF L v]
    by (fastforce simp: fuzzy_Satisfied_def split: if_splits sum.splits constraint.splits option.splits prod.splits bind_splits)
qed

lemma constraint_Satisfied_fits:
  assumes "parses_as L v0 c"
  shows "constraint_Satisfied L k (Some v) = Some (v', r) \<Longrightarrow> fits v0 c v \<Longrightarrow> \<exists>w. v' = Some w \<and> fits v0 c w"
proof (induction k arbitrary: v v' r)
  case (Combined ks)
  have "combined_loop L ks (Some v) = Some (v', r) \<Longrightarrow> fits v0 c v \<Longrightarrow> \<exists>w. v' = Some w \<and> fits v0 c w" for v v' r
    using Combined.IH
  proof (induction ks arbitrary: v v' r)
    case (Cons k ks)
    from Cons.prems(1) obtain v1 x where 1: "constraint_Satisfied L k (Some v) = Some (v1, x)" by (auto split: bind_splits)
    from Cons.prems(3) [OF _ this Cons.prems(2)] obtain w where w: "v1 = Some w" "fits v0 c w" by auto
    have ih: "combined_loop L ks (Some w) = Some (v', r) \<Longrightarrow> \<exists>w. v' = Some w \<and> fits v0 c w"
      by (rule Cons.IH [OF _ w(2)]) (auto intro: Cons.prems(3))
    from ih Cons.prems(1) 1 w show ?case by (auto split: prod.splits option.splits if_splits)
  qed simp
  with Combined.prems show ?case by simp
qed (use assms generic_Satisfied_fits kb_Satisfied_fits fuzzy_Satisfied_fits in \<open>simp_all, blast+\<close>)

lemma Version_Is_LT:
  assumes "parses_as L v0 c" "fits v0 c v" "Version_Is L (Some v) LT (Some w) = Some (v', b, e)"
  shows "\<exists>u. v' = Some u \<and> fits v0 c u" and "b \<Longrightarrow> \<exists>r. compareUsing L v0 c (Some (ver_Raw w)) = Some (r, None) \<and> r < 0"
proof -
  from getComparator_own [OF assms(1,2)] obtain v1 where v1: "getComparator L v (ver_Format v) = (v1, c, None)" "fits v0 c v1" by blast
  have "compareUsing L v1 c s = compareUsing L v0 c s" for s using v1(2) by (intro compareUsing_cong) (simp add: fits_def)
  with assms(3) v1 show "\<exists>u. v' = Some u \<and> fits v0 c u" and "b \<Longrightarrow> \<exists>r. compareUsing L v0 c (Some (ver_Raw w)) = Some (r, None) \<and> r < 0"
    by (auto simp: Version_Is_def op_holds_def split: bind_splits prod.splits option.splits)
qed

end
