(* ===== verification/Eus_Properties.thy ===== *)
theory Eus_Properties
  imports Rpm_Matcher Dpkg_Matcher Matcher_Properties Version_State
begin

text \<open>
  Extended update support: which disclosures survive the overlay of advisories, which fix versions they then name, and that the
  code for Ubuntu's extended maintenance is the code for Red Hat's without a distribution to check against.
\<close>

section \<open>Fixes\<close>

text \<open>The comparison of the version with a fix says it is earlier.\<close>

definition later :: "'o libs \<Rightarrow> 'o Version \<Rightarrow> 'o comparator \<Rightarrow> string \<Rightarrow> bool" where
  "later L v c raw \<longleftrightarrow> (\<exists>r. compareUsing L v c (Some raw) = Some (r, None) \<and> r < 0)"

lemma Version_Is_exact:
  assumes "parses_as L v0 c" "fits v0 c v" "Version_Is L (Some v) LT (Some w) = Some (v', b, e)"
  shows "(\<exists>u. v' = Some u \<and> fits v0 c u) \<and> (e = None \<and> b \<longleftrightarrow> later L v0 c (ver_Raw w))"
proof -
  from getComparator_own [OF assms(1,2)] obtain v1 where v1: "getComparator L v (ver_Format v) = (v1, c, None)" "fits v0 c v1" by blast
  have "compareUsing L v1 c s = compareUsing L v0 c s" for s using v1(2) by (intro compareUsing_cong) (simp add: fits_def)
  with assms(3) v1 show ?thesis
    by (auto simp: Version_Is_def op_holds_def later_def split: bind_splits prod.splits option.splits)
qed

lemma neededFixes_exact:
  assumes "parses_as L v0 c" "fits v0 c v" "neededFixes L v fs format = Some (needed, v')"
  shows "fits v0 c v' \<and> map ver_Raw needed = filter (later L v0 c) fs"
  using assms(2,3)
proof (induction fs arbitrary: v needed)
  case (Cons f fs)
  from Cons.prems(2) obtain v1 b e n where
    1: "Version_Is L (Some v) LT (Some (New f format)) = Some (v1, b, e)"
    "neededFixes L (case v1 of Some w \<Rightarrow> w | None \<Rightarrow> v) fs format = Some (n, v')"
    "needed = (if e = None \<and> b then New f format # n else n)"
    by (auto simp: Let_def split: bind_splits prod.splits)
  from Version_Is_exact [OF assms(1) Cons.prems(1) 1(1)] obtain u where
    u: "v1 = Some u" "fits v0 c u" "e = None \<and> b \<longleftrightarrow> later L v0 c f" by auto
  from Cons.IH [OF u(2)] 1(2,3) u(1,3) show ?case by auto
qed simp

definition set_raws :: "'o Set \<Rightarrow> string set" where
  "set_raws s = ver_Raw ` snd ` set (case set_versions s of None \<Rightarrow> [] | Some m \<Rightarrow> m)"

lemma set_raws_Add: "set_raws (Set_Add (map Some ws) s) \<subseteq> set_raws s \<union> ver_Raw ` set ws"
proof -
  have "snd ` set (fold (\<lambda>v m. case v of None \<Rightarrow> m | Some w \<Rightarrow> AList.update (getKey b v) w m) (map Some ws) m) \<subseteq> snd ` set m \<union> set ws" for b m
  proof (induction ws arbitrary: m)
    case (Cons w ws)
    have "snd ` set (AList.update (getKey b (Some w)) w m) \<subseteq> insert w (snd ` set m)"
      using set_update_subset [of "getKey b (Some w)" w m] by force
    with Cons [of "AList.update (getKey b (Some w)) w m"] show ?case by auto
  qed simp
  from image_mono [OF this [of "set_ignoreFormat s" "case set_versions s of None \<Rightarrow> [] | Some m \<Rightarrow> m"], of ver_Raw] show ?thesis
    unfolding set_raws_def Set_Add_def Let_def image_Un by (cases "set_versions s") simp_all
qed

lemma set_raws_NewSet [simp]: "set_raws (NewSet b []) = {}"
  by (simp add: set_raws_def NewSet_def Set_Add_def)

lemma Set_Values_raws:
  assumes "Set_Values L order s = Some vs" "\<forall>xs. set (order xs) = set xs"
  shows "ver_Raw ` set vs = set_raws s"
proof (cases "case set_versions s of None \<Rightarrow> [] | Some m \<Rightarrow> m")
  case Nil
  with assms(1) show ?thesis by (auto simp: Set_Values_def set_raws_def split: option.splits if_splits)
next
  case (Cons x m)
  then have "sort_go (version_less L) (order (map snd (x # m))) [] = Some vs"
    using assms(1) by (auto simp: Set_Values_def split: option.splits)
  from mset_eq_setD [OF sort_go_mset [OF this, simplified]] assms(2) have "set vs = snd ` set (x # m)" by auto
  then show ?thesis by (simp add: set_raws_def Cons)
qed

section \<open>The overlay\<close>

text \<open>What an advisory offers a version: the fixes it lists that are later; and of these, what can be reached.\<close>

definition offers :: "'o libs \<Rightarrow> 'o Version \<Rightarrow> 'o comparator \<Rightarrow> 'o SVuln \<Rightarrow> string set" where
  "offers L v c a = {raw \<in> set (fix_Versions (vuln_Fix a)). later L v c raw}"

definition reachable_offers :: "'o libs \<Rightarrow> 'o Version \<Rightarrow> 'o comparator \<Rightarrow> Distro option \<Rightarrow> 'o SVuln \<Rightarrow> string set" where
  "reachable_offers L v c d a = {raw \<in> offers L v c a. isFixReachableForEUS raw d}"

lemma filterFixesForEUS_raws: "ver_Raw ` set (filterFixesForEUS fxs d) = {raw \<in> ver_Raw ` set fxs. isFixReachableForEUS raw d}"
  by (auto simp: filterFixesForEUS_def isFixReachableForEUS_def)

definition fixed_is_constrained :: "'o overlay \<Rightarrow> bool" where
  "fixed_is_constrained ov \<longleftrightarrow> (ov_state ov = FixStateFixed \<longrightarrow> ov_constraints ov \<noteq> [])"

lemma overlay_advisory_step:
  assumes L: "parses_as L v0 c" and v: "fits v0 c v" and r: "overlay_advisory L d a (ov, keep, v) = Some (ov', keep', v')"
    and f: "fixed_is_constrained ov"
  shows "fits v0 c v' \<and> fixed_is_constrained ov' \<and> (ov_constraints ov' = [] \<longleftrightarrow> ov_constraints ov = [] \<and> offers L v0 c a = {})
    \<and> set_raws (ov_fixVersions ov') \<subseteq> set_raws (ov_fixVersions ov) \<union> reachable_offers L v0 c d a"
proof -
  define won where "won = (if fix_State (vuln_Fix a) = FixStateWontFix \<and> ov_state ov \<noteq> FixStateFixed
              then ov\<lparr>ov_state := fix_State (vuln_Fix a)\<rparr> else ov)"
  have won: "ov_state won = FixStateFixed \<longleftrightarrow> ov_state ov = FixStateFixed" "ov_constraints won = ov_constraints ov"
    "ov_fixVersions won = ov_fixVersions ov"
    by (auto simp: won_def FixStateWontFix_def FixStateFixed_def)
  from r obtain k fxs where k: "sv_Constraint a = Some k"
    and n: "neededFixes L v (fix_Versions (vuln_Fix a)) (constraint_Format k) = Some (fxs, v')"
    by (auto simp: overlay_advisory_def Let_def split: bind_splits if_splits)
  from neededFixes_exact [OF L v n] have fits': "fits v0 c v'" and raws: "map ver_Raw fxs = filter (later L v0 c) (fix_Versions (vuln_Fix a))"
    by auto
  have off: "ver_Raw ` set fxs = offers L v0 c a" using arg_cong [OF raws, of set] by (auto simp: offers_def)
  then have none: "fxs = [] \<longleftrightarrow> offers L v0 c a = {}" by auto
  have reach: "ver_Raw ` set (filterFixesForEUS fxs d) = reachable_offers L v0 c d a"
    by (simp add: filterFixesForEUS_raws off reachable_offers_def)
  have all_reach: "d = None \<Longrightarrow> filterFixesForEUS fxs d = fxs" by (simp add: filterFixesForEUS_def)
  have r': "(if filterFixesForEUS fxs d = [] then
        (if fxs \<noteq> [] \<and> d \<noteq> None \<and> ov_state won \<noteq> FixStateFixed
         then (won\<lparr>ov_state := FixStateNotFixed, ov_constraints := ov_constraints won @ [Some k]\<rparr>, True, v')
         else (won, keep, v'))
      else (won\<lparr>ov_constraints := ov_constraints won @ [Some k],
          ov_fixVersions := Set_Add (map Some (filterFixesForEUS fxs d)) (ov_fixVersions won),
          ov_state := (if ov_state won \<noteq> FixStateFixed then fix_State (vuln_Fix a) else ov_state won)\<rparr>, True, v')) = (ov', keep', v')"
    using r unfolding overlay_advisory_def prod.case Let_def won_def [symmetric] k n Option.bind.bind_lunit prod.case
    by (auto split: if_splits)
  show ?thesis
  proof (cases "filterFixesForEUS fxs d = []")
    case True
    with r' all_reach none won f fits' show ?thesis
      by (auto simp: fixed_is_constrained_def FixStateNotFixed_def FixStateFixed_def split: if_splits)
  next
    case False
    moreover have "offers L v0 c a \<noteq> {}" using False reach by (auto simp: reachable_offers_def)
    moreover have "set_raws (Set_Add (map Some (filterFixesForEUS fxs d)) (ov_fixVersions ov))
        \<subseteq> set_raws (ov_fixVersions ov) \<union> reachable_offers L v0 c d a"
      using set_raws_Add [of "filterFixesForEUS fxs d" "ov_fixVersions ov"] reach by simp
    ultimately show ?thesis using r' won fits' by (auto simp: fixed_is_constrained_def)
  qed
qed

definition overlaid :: "'o libs \<Rightarrow> 'o Version \<Rightarrow> 'o comparator \<Rightarrow> Distro option \<Rightarrow> 'o SVuln list \<Rightarrow> 'o overlay \<Rightarrow> 'o overlay \<Rightarrow> bool" where
  "overlaid L v c d as ov ov' \<longleftrightarrow> fixed_is_constrained ov'
     \<and> (ov_constraints ov' = [] \<longleftrightarrow> ov_constraints ov = [] \<and> (\<forall>a \<in> set as. offers L v c a = {}))
     \<and> set_raws (ov_fixVersions ov') \<subseteq> set_raws (ov_fixVersions ov) \<union> (\<Union>a \<in> set as. reachable_offers L v c d a)"

lemma overlaid_Nil: "fixed_is_constrained ov \<Longrightarrow> overlaid L v c d [] ov ov"
  by (simp add: overlaid_def)

lemma overlaid_append:
  assumes "overlaid L v c d as ov ov1" "overlaid L v c d bs ov1 ov2"
  shows "overlaid L v c d (as @ bs) ov ov2"
  using assms unfolding overlaid_def by (auto 4 3)

lemma overlaid_details: "overlaid L v c d as ov ov' \<Longrightarrow> overlaid L v c d as ov (ov'\<lparr>ov_details := ds\<rparr>)"
  by (auto simp: overlaid_def fixed_is_constrained_def)

lemma overlay_advisories_step:
  assumes L: "parses_as L v0 c"
  shows "fits v0 c v \<Longrightarrow> fixed_is_constrained ov \<Longrightarrow> overlay_advisories L d as (ov, keep, v) = Some (ov', keep', v') \<Longrightarrow>
    fits v0 c v' \<and> overlaid L v0 c d as ov ov'"
proof (induction as arbitrary: ov keep v)
  case (Cons a as)
  from Cons.prems(3) obtain ov1 keep1 v1 where 1: "overlay_advisory L d a (ov, keep, v) = Some (ov1, keep1, v1)"
    "overlay_advisories L d as (ov1, keep1, v1) = Some (ov', keep', v')" by (auto split: bind_splits)
  from overlay_advisory_step [OF L Cons.prems(1) 1(1) Cons.prems(2)] have
    s: "fits v0 c v1" "fixed_is_constrained ov1" "overlaid L v0 c d [a] ov ov1" by (auto simp: overlaid_def)
  from Cons.IH [OF s(1,2) 1(2)] overlaid_append [OF s(3)] show ?case by fastforce
qed (simp add: overlaid_Nil)

lemma collect_overlays_step:
  assumes L: "parses_as L v0 c"
  shows "fits v0 c v \<Longrightarrow> fixed_is_constrained ov \<Longrightarrow> collect_overlays L d rs (ov, v) = Some (ov', v') \<Longrightarrow>
    overlaid L v0 c d (concat (map r_Vulnerabilities rs)) ov ov'"
proof (induction rs arbitrary: ov v)
  case (Cons r rs)
  from Cons.prems(3) obtain ov1 keep ov2 v1 where 1: "overlay_advisories L d (r_Vulnerabilities r) (ov, False, v) = Some (ov1, keep, v1)"
    "collect_overlays L d rs (ov2, v1) = Some (ov', v')"
    "ov2 = (if keep then ov1\<lparr>ov_details := ov_details ov1 @ r_Details r\<rparr> else ov1)"
    by (auto simp: collectMatchingConstraintsDetailsAndFixState_def split: bind_splits)
  from overlay_advisories_step [OF L Cons.prems(1,2) 1(1)] overlaid_details have
    s: "fits v0 c v1" "overlaid L v0 c d (r_Vulnerabilities r) ov ov2" by (auto simp: 1(3))
  have "fixed_is_constrained ov2" using s(2) by (simp add: overlaid_def)
  from overlaid_append [OF s(2) Cons.IH [OF s(1) this 1(2)]] show ?case by simp
qed (simp add: overlaid_Nil)

lemma isVulnerableVersion_fits:
  assumes "parses_as L v0 c" "fits v0 c v" "isVulnerableVersion L v k = Some (b, v')"
  shows "fits v0 c v'"
  using assms(2,3) constraint_Satisfied_fits [OF assms(1)]
  by (fastforce simp: isVulnerableVersion_def split: option.splits bind_splits prod.splits)

lemma single_disclosure:
  assumes L: "parses_as (g_libs G) v c" and v: "ver_comparators v = None"
    and r: "mergeEUSAdvisoryIntoSingleDisclosure G d rs disclosure v = Some (res, v')"
  obtains b w ov where "isVulnerableVersion (g_libs G) v (sv_Constraint disclosure) = Some (b, w)"
    "overlaid (g_libs G) v c d (concat (map r_Vulnerabilities rs))
       \<lparr>ov_fixVersions = NewSet True [], ov_constraints = (if b then [sv_Constraint disclosure] else []), ov_state = [], ov_details = []\<rparr> ov"
    "res = None \<longleftrightarrow> ov_constraints ov = []"
    "\<forall>p ds. res = Some (p, ds) \<longrightarrow> buildPatchedVulnerabilityRecord G (ver_Format v) disclosure ov = Some p \<and> ds = ov_details ov"
proof -
  let ?ov = "\<lambda>b. \<lparr>ov_fixVersions = NewSet True [], ov_constraints = (if b then [sv_Constraint disclosure] else []), ov_state = [], ov_details = []\<rparr>"
  from r obtain b w ov v2 where 1: "isVulnerableVersion (g_libs G) v (sv_Constraint disclosure) = Some (b, w)"
    "collect_overlays (g_libs G) d rs (?ov b, w) = Some (ov, v2)"
    "if ov_constraints ov = [] then res = None
     else \<exists>p. buildPatchedVulnerabilityRecord G (ver_Format v) disclosure ov = Some p \<and> res = Some (p, ov_details ov)"
    by (auto simp: mergeEUSAdvisoryIntoSingleDisclosure_def split: bind_splits if_splits)
  from isVulnerableVersion_fits [OF L fits_start [OF v] 1(1)] have "fits v c w" .
  from collect_overlays_step [OF L this _ 1(2)] 1(3) show thesis
    by (intro that [OF 1(1), of ov]) (auto simp: fixed_is_constrained_def FixStateFixed_def split: if_splits)
qed

section \<open>An example\<close>

definition example_result :: "'o SVuln \<Rightarrow> 'o Result" where
  "example_result v = \<lparr>r_ID = vuln_ID v, r_Vulnerabilities = [v], r_Details = [], r_Package = None\<rparr>"

text \<open>The record a disclosure with a fix becomes: its fix versions and fix state.\<close>

definition example_merge :: "string \<Rightarrow> string list \<Rightarrow> (string list \<times> string) option go" where
  "example_merge disclosed_fix advised =
     map_option (\<lambda>(res, _). map_option (\<lambda>(p, _). (fix_Versions (vuln_Fix p), fix_State (vuln_Fix p))) res)
       (mergeEUSAdvisoryIntoSingleDisclosure example_genv (Some example_distro)
         (map (\<lambda>x. example_result (example_vuln ''CVE-1'' [] x)) advised) (example_vuln ''CVE-1'' [] disclosed_fix) (New ''1.0'' RpmFormat))"

lemma example_merge_fixed: "example_merge ''2.0'' [''2.0'', ''1.5-1.el9_2'', ''3.0-1.el9_6''] = Some (Some ([''1.5-1.el9_2'', ''2.0''], ''fixed''))"
  by code_simp

lemma example_merge_dropped: "example_merge ''0.9'' [''0.8'', ''1.0''] = Some None"
  by code_simp

lemma example_parses: "\<exists>c. parses_as text_libs (New ''1.0'' RpmFormat) c"
proof -
  have "snd (new_comparator text_libs RpmFormat ''1.0'') = None" by code_simp
  then show ?thesis by (cases "new_comparator text_libs RpmFormat ''1.0''") (simp add: parses_as_def)
qed

section \<open>Properties\<close>

text \<open>C12: a disclosure of the base distribution is dropped by the overlay of advisories exactly if the version is not in the range
  of the disclosure and no advisory lists a fix later than the version.\<close>

theorem eus_disclosure_dropped:
  assumes "parses_as (g_libs G) v c" "ver_comparators v = None"
    and "mergeEUSAdvisoryIntoSingleDisclosure G d rs disclosure v = Some (res, v')"
  shows "\<exists>b w. isVulnerableVersion (g_libs G) v (sv_Constraint disclosure) = Some (b, w)
    \<and> (res = None \<longleftrightarrow> \<not> b \<and> (\<forall>r \<in> set rs. \<forall>a \<in> set (r_Vulnerabilities r). offers (g_libs G) v c a = {}))"
proof -
  from single_disclosure [OF assms] obtain b w ov where
    1: "isVulnerableVersion (g_libs G) v (sv_Constraint disclosure) = Some (b, w)"
    "overlaid (g_libs G) v c d (concat (map r_Vulnerabilities rs))
       \<lparr>ov_fixVersions = NewSet True [], ov_constraints = (if b then [sv_Constraint disclosure] else []), ov_state = [], ov_details = []\<rparr> ov"
    "res = None \<longleftrightarrow> ov_constraints ov = []" by metis
  then show ?thesis by (auto simp: overlaid_def)
qed

theorem eus_disclosure_dropped_witness:
  "\<exists>c v'. mergeEUSAdvisoryIntoSingleDisclosure example_genv (Some example_distro)
        [example_result (example_vuln ''CVE-1'' [] ''0.8''), example_result (example_vuln ''CVE-1'' [] ''1.0'')]
        (example_vuln ''CVE-1'' [] ''0.9'') (New ''1.0'' RpmFormat) = Some (None, v')
      \<and> offers text_libs (New ''1.0'' RpmFormat) c (example_vuln ''CVE-1'' [] ''0.8'') = {}"
proof -
  obtain c where c: "parses_as (g_libs example_genv) (New ''1.0'' RpmFormat) c" using example_parses by (auto simp: example_genv_def)
  from example_merge_dropped obtain v' where
    r: "mergeEUSAdvisoryIntoSingleDisclosure example_genv (Some example_distro)
        [example_result (example_vuln ''CVE-1'' [] ''0.8''), example_result (example_vuln ''CVE-1'' [] ''1.0'')]
        (example_vuln ''CVE-1'' [] ''0.9'') (New ''1.0'' RpmFormat) = Some (None, v')"
    by (auto simp: example_merge_def)
  from eus_disclosure_dropped [OF c _ r] have "offers (g_libs example_genv) (New ''1.0'' RpmFormat) c (example_vuln ''CVE-1'' [] ''0.8'') = {}"
    by (auto simp: example_result_def)
  with r show ?thesis by (auto simp: example_genv_def)
qed



text \<open>A disclosure whose only fix cannot be reached is reported as not fixed, and still names that fix version.\<close>

theorem eus_unreachable_fix_kept:
  "\<not> isFixReachableForEUS ''3.0-1.el9_6'' (Some example_distro)
   \<and> example_merge ''3.0-1.el9_6'' [''3.0-1.el9_6''] = Some (Some ([''3.0-1.el9_6''], ''not-fixed''))"
  by code_simp

section \<open>Extended security maintenance\<close>

lemma esm_neededFixes_eq: "esm_neededFixes L v fs format = neededFixes L v fs format"
  by (induction fs arbitrary: v) (simp_all add: Let_def)

lemma esm_overlay_advisory_eq: "esm_overlay_advisory L a st = overlay_advisory L None a st"
  unfolding esm_overlay_advisory_def overlay_advisory_def esm_neededFixes_eq filterFixesForEUS_def Let_def
  by (simp only: simp_thms if_True if_False)

lemma esm_overlay_advisories_eq: "esm_overlay_advisories L as = overlay_advisories L None as"
proof (induction as)
  case (Cons a as)
  show ?case by (rule ext) (simp add: esm_overlay_advisory_eq Cons)
qed (rule ext, simp)

lemma esm_collect_overlays_eq: "esm_collect_overlays L rs = collect_overlays L None rs"
proof (induction rs)
  case (Cons r rs)
  show ?case
    unfolding fun_eq_iff esm_collect_overlays.simps collect_overlays.simps esm_collectMatchingConstraintsDetailsAndFixState_def
      collectMatchingConstraintsDetailsAndFixState_def esm_overlay_advisories_eq Cons by simp
qed (rule ext, simp)

lemma esm_record_eq: "esm_buildPatchedVulnerabilityRecord = buildPatchedVulnerabilityRecord"
  by (intro ext) (simp add: esm_buildPatchedVulnerabilityRecord_def buildPatchedVulnerabilityRecord_def esm_finalizeFixState_def
      finalizeFixState_def)

lemma esm_single_eq: "mergeESMAdvisoryIntoSingleDisclosure G = mergeEUSAdvisoryIntoSingleDisclosure G None"
  unfolding fun_eq_iff mergeESMAdvisoryIntoSingleDisclosure_def mergeEUSAdvisoryIntoSingleDisclosure_def esm_isVulnerableVersion_def
    isVulnerableVersion_def esm_collect_overlays_eq esm_record_eq by simp

lemma esm_merge_disclosures_eq: "esm_merge_disclosures G rs ds = merge_disclosures G None rs ds"
proof (induction ds)
  case (Cons d ds)
  show ?case unfolding fun_eq_iff esm_merge_disclosures.simps merge_disclosures.simps esm_single_eq Cons by simp
qed (rule ext, simp)

lemma esm_main_eq: "mergeESMAdvisoryIntoMainDisclosure G = mergeEUSAdvisoryIntoMainDisclosure G None"
  unfolding fun_eq_iff mergeESMAdvisoryIntoMainDisclosure_def mergeEUSAdvisoryIntoMainDisclosure_def esm_merge_disclosures_eq
    esm_finalizeMatchDetails_def finalizeMatchDetails_def by simp

text \<open>Laying Ubuntu's ESM advisories over the disclosures of the base distribution is laying Red Hat's EUS advisories over them
  with no distribution given, although the two are written out separately.\<close>

theorem esm_overlay_is_eus_overlay:
  "mergeESMAdvisoriesIntoMainDisclosures G disclosures overlays v = mergeEUSAdvisoriesIntoMainDisclosures G None disclosures overlays v"
proof (induction disclosures arbitrary: v)
  case (Cons d ds)
  show ?case
    unfolding mergeESMAdvisoriesIntoMainDisclosures.simps mergeEUSAdvisoriesIntoMainDisclosures.simps esm_main_eq Cons by simp
qed simp

end
