(* ===== verification/Matcher_Facts.thy ===== *)
theory Matcher_Facts
  imports Matchers Eus_Properties
begin

text \<open>
  Properties of single matchers: which matcher a package type gets, the epoch RPM matching adds, AlmaLinux's unaffected records,
  the combination of Alpine's records with CPE matches, CPE matches, and the qualifiers.
\<close>

section \<open>Order\<close>

lemma mset_concat_map_perm: "mset xs = mset ys \<Longrightarrow> mset (concat (map f xs)) = mset (concat (map f ys))"
  by (metis mset_concat mset_map sum_mset_sum_list)


section \<open>Dispatch\<close>

definition default_types :: "(string \<times> string) list" where
  "default_types = [(DebPkg, DpkgMatcher), (GemPkg, RubyGemMatcher), (PythonPkg, PythonMatcher), (''dotnet'', DotnetMatcher),
     (RpmPkg, RpmMatcher), (JavaPkg, JavaMatcher), (''jenkins-plugin'', JavaMatcher), (NpmPkg, JavascriptMatcher),
     (ApkPkg, ApkMatcher), (GoModulePkg, GoModuleMatcher), (KbPkg, MsrcMatcher), (PortagePkg, PortageMatcher),
     (''rust-crate'', RustMatcher), (''hex'', HexMatcher), (''erlang-otp'', HexMatcher), (BitnamiPkg, BitnamiMatcher),
     (AlpmPkg, PacmanMatcher)]"

lemmas package_types = DebPkg_def GemPkg_def PythonPkg_def RpmPkg_def JavaPkg_def NpmPkg_def ApkPkg_def GoModulePkg_def KbPkg_def
  PortagePkg_def BitnamiPkg_def AlpmPkg_def

lemmas matcher_types = DpkgMatcher_def RubyGemMatcher_def PythonMatcher_def DotnetMatcher_def RpmMatcher_def JavaMatcher_def
  JavascriptMatcher_def ApkMatcher_def GoModuleMatcher_def MsrcMatcher_def PortageMatcher_def RustMatcher_def HexMatcher_def
  BitnamiMatcher_def PacmanMatcher_def StockMatcher_def

text \<open>With the default matchers, a package is matched by exactly one matcher, the one for its type, or the stock matcher for a
  type that has none.\<close>

theorem default_matchers_dispatch:
  "map mt_Type (matchers_for S (vm\<lparr>vm_Matchers := NewDefaultMatchers G catalog vp ms mc\<rparr>) p)
   = [case map_of default_types (pkg_Type p) of Some m \<Rightarrow> m | None \<Rightarrow> StockMatcher]"
  by (simp add: matchers_for_def NewDefaultMatchers_def matcher_of_def default_types_def package_types matcher_types append_at_def get_fps_def)

section \<open>Epochs\<close>

definition declared_epoch :: "MPackage \<Rightarrow> int" where
  "declared_epoch p = (case mp_Metadata p of RpmMeta m \<Rightarrow> (case rpm_Epoch m of Some e \<Rightarrow> e | None \<Rightarrow> 0) | _ \<Rightarrow> 0)"

lemma addEpoch_present: "strings_Contains (pkg_Version q) '':'' \<Longrightarrow> addEpochIfApplicable q = q"
  by (simp add: addEpochIfApplicable_def Let_def)

text \<open>The package RPM matching searches with has the epoch its metadata declares, or 0, unless its version text has one; the
  rest of the version is unchanged, and adding the epoch again changes nothing.\<close>

theorem addEpochIfApplicable_epoch:
  assumes "pkg_Version p \<noteq> []" "CHR '':'' \<notin> set (pkg_Version p)" "fits_int64 (declared_epoch p)"
  shows "\<exists>r. newRpmVersion (pkg_Version p) = Inr (r\<lparr>rpm_epoch := None\<rparr>)
    \<and> newRpmVersion (pkg_Version (addEpochIfApplicable p)) = Inr (r\<lparr>rpm_epoch := Some (declared_epoch p)\<rparr>)
    \<and> addEpochIfApplicable (addEpochIfApplicable p) = addEpochIfApplicable p"
proof -
  let ?v = "pkg_Version p"
  have zero: "strconv_Itoa 0 = ''0''" by code_simp
  have colon: "strings_Contains ?v '':'' \<longleftrightarrow> False" "strings_Contains (strconv_Itoa e @ '':'' @ ?v) '':''" for e
    using assms(2) by (simp_all add: strings_Contains_def Cut_char_None Cut_append_notin Itoa_no_colon)
  have add: "addEpochIfApplicable p = p\<lparr>pkg_Version := strconv_Itoa (declared_epoch p) @ '':'' @ ?v\<rparr>"
    using assms(1) colon by (simp add: addEpochIfApplicable_def declared_epoch_def Let_def zero split: pkg_metadata.split option.split)
  have "splitEpochFromVersion ?v = Inr (None, ?v)"
    using assms(2) by (simp add: splitEpochFromVersion_def strings_SplitN2_def Cut_char_None [THEN iffD2])
  moreover have "splitEpochFromVersion (strconv_Itoa (declared_epoch p) @ '':'' @ ?v) = Inr (Some (declared_epoch p), ?v)"
    using assms(3) by (simp add: splitEpochFromVersion_def strings_SplitN2_def Cut_append_notin Itoa_no_colon Itoa_no_space Atoi_Itoa)
  moreover have "addEpochIfApplicable (addEpochIfApplicable p) = addEpochIfApplicable p"
    using colon(2) [of "declared_epoch p"] addEpoch_present [of "addEpochIfApplicable p"] add by simp
  ultimately show ?thesis
    by (intro exI [of _ "\<lparr>rpm_epoch = None, rpm_version = fst (split_release ?v), rpm_release = snd (split_release ?v)\<rparr>"])
      (simp add: newRpmVersion_def add split: prod.split)
qed

theorem addEpochIfApplicable_epoch_witness:
  "\<exists>r. newRpmVersion (pkg_Version (addEpochIfApplicable
      (example_rpm\<lparr>mp_Metadata := RpmMeta \<lparr>rpm_Epoch = Some 4, rpm_ModularityLabel = None, rpm_Arch = []\<rparr>\<rparr>))) = Inr (r\<lparr>rpm_epoch := Some 4\<rparr>)"
proof -
  let ?p = "example_rpm\<lparr>mp_Metadata := RpmMeta \<lparr>rpm_Epoch = Some 4, rpm_ModularityLabel = None, rpm_Arch = []\<rparr>\<rparr>"
  have "pkg_Version ?p \<noteq> []" "CHR '':'' \<notin> set (pkg_Version ?p)" "declared_epoch ?p = 4"
    by (simp_all add: example_rpm_def declared_epoch_def)
  with addEpochIfApplicable_epoch [of ?p] show ?thesis by (auto simp: fits_int64_def)
qed

section \<open>Qualifiers\<close>

text \<open>An architecture qualifier of an affected record is satisfied exactly where that of an unaffected record is, and also for
  packages of unknown architecture and where the package or the record is independent of the architecture.\<close>

theorem architecture_qualifiers:
  "architecture_Satisfied arch aliases p \<longleftrightarrow>
     unaffectedArchitecture_Satisfied arch aliases p \<or> packageArch p = [] \<or> isArchIndependent (packageArch p) \<or> isArchIndependent arch"
  by (auto simp: architecture_Satisfied_def unaffectedArchitecture_Satisfied_def Let_def)

lemma set_add_new: "set (add_new xs ss) = set xs \<union> set ss"
  by (induction ss arbitrary: xs) auto

lemma distinct_add_new: "distinct xs \<Longrightarrow> distinct (add_new xs ss)"
  by (induction ss arbitrary: xs) auto

text \<open>The symbols a Go binary is reported for are sorted, without duplicates, and exactly: a listed import the binary has
  without listed symbols, and every listed symbol of an import that the binary has.\<close>

theorem gosymbols_evaluate_exact:
  assumes "mp_Metadata p = GolangBinMeta m" "go_Symbols m \<noteq> []" "imports \<noteq> []"
  shows "\<exists>syms. gosymbols_evaluate imports p = (syms, True) \<and> sorted_wrt (\<lambda>a b. strings_Compare a b \<le> 0) syms \<and> distinct syms
    \<and> set syms = {path |path ss. (path, []) \<in> set imports \<and> map_of (go_Symbols m) path = Some ss}
        \<union> {path @ ''.'' @ s |path s ss ls. (path, ss) \<in> set imports \<and> s \<in> set ss \<and> map_of (go_Symbols m) path = Some ls \<and> s \<in> set ls}"
proof -
  define pres where "pres = (\<lambda>path. if path \<in> fst ` set imports then map_option set (map_of (go_Symbols m) path) else None)"
  have e: "gosymbols_evaluate imports p = (sort_Strings (add_new [] (concat (map (import_symbols pres) imports))), True)"
    using assms by (simp add: gosymbols_evaluate_def gosymbols_present_def pres_def)
  have imp: "set (import_symbols pres (path, ss)) = (if ss = [] then {path |ls. map_of (go_Symbols m) path = Some ls}
      else {path @ ''.'' @ s |s ls. s \<in> set ss \<and> map_of (go_Symbols m) path = Some ls \<and> s \<in> set ls})" if "(path, ss) \<in> set imports" for path ss
  proof -
    have "pres path = map_option set (map_of (go_Symbols m) path)" using that by (force simp: pres_def)
    then show ?thesis by (cases "map_of (go_Symbols m) path") (auto simp: import_symbols_def)
  qed
  have "set (concat (map (import_symbols pres) imports)) = (\<Union>(path, ss) \<in> set imports. set (import_symbols pres (path, ss)))" by auto
  also have "\<dots> = (\<Union>(path, ss) \<in> set imports. if ss = [] then {path |ls. map_of (go_Symbols m) path = Some ls}
      else {path @ ''.'' @ s |s ls. s \<in> set ss \<and> map_of (go_Symbols m) path = Some ls \<and> s \<in> set ls})"
    by (rule SUP_cong) (auto simp: imp)
  also have "\<dots> = {path |path ss. (path, []) \<in> set imports \<and> map_of (go_Symbols m) path = Some ss}
        \<union> {path @ ''.'' @ s |path s ss ls. (path, ss) \<in> set imports \<and> s \<in> set ss \<and> map_of (go_Symbols m) path = Some ls \<and> s \<in> set ls}"
    apply (auto split: if_splits)
    subgoal for path s ss ls by (rule bexI [of _ "(path, ss)"]) auto
    done
  finally show ?thesis using e by (simp add: set_add_new distinct_add_new sorted_sort_Strings)
qed

theorem gosymbols_evaluate_exact_witness:
  "\<exists>syms. gosymbols_evaluate [(''net/http'', [''Get'', ''Head'']), (''os'', [])]
      (example_rpm\<lparr>mp_Metadata := GolangBinMeta \<lparr>go_MainModule = [], go_Symbols = [(''net/http'', [''Get'']), (''os'', [''Exit''])]\<rparr>\<rparr>) = (syms, True)
    \<and> ''net/http.Get'' \<in> set syms \<and> ''os'' \<in> set syms"
proof -
  let ?m = "\<lparr>go_MainModule = [], go_Symbols = [(''net/http'', [''Get'']), (''os'', [''Exit''])]\<rparr>"
  let ?p = "example_rpm\<lparr>mp_Metadata := GolangBinMeta ?m\<rparr>"
  have "mp_Metadata ?p = GolangBinMeta ?m" "go_Symbols ?m \<noteq> []" "[(''net/http'', [''Get'', ''Head'']), (''os'', [])] \<noteq> []" by simp_all
  from gosymbols_evaluate_exact [OF this] obtain syms where
    syms: "gosymbols_evaluate [(''net/http'', [''Get'', ''Head'']), (''os'', [])] ?p = (syms, True)"
    "set syms = {path |path ss. (path, []) \<in> set [(''net/http'', [''Get'', ''Head'']), (''os'', [])] \<and> map_of (go_Symbols ?m) path = Some ss}
        \<union> {path @ ''.'' @ s |path s ss ls. (path, ss) \<in> set [(''net/http'', [''Get'', ''Head'']), (''os'', [])] \<and> s \<in> set ss
            \<and> map_of (go_Symbols ?m) path = Some ls \<and> s \<in> set ls}" by blast
  then have "''os'' \<in> set syms" "''net/http'' @ ''.'' @ ''Get'' \<in> set syms" by force+
  with syms(1) show ?thesis by auto
qed

section \<open>AlmaLinux\<close>

lemma replace_IDs: "map vuln_ID (r_Vulnerabilities (replaceWithAlmaLinuxFixInfo L existing incoming)) = map vuln_ID (r_Vulnerabilities existing)"
  by (auto simp: replaceWithAlmaLinuxFixInfo_def split: option.split)

lemma update_result_IDs:
  "map vuln_ID (r_Vulnerabilities (update_result G U sh (replaceWithAlmaLinuxFixInfo L) r)) = map vuln_ID (r_Vulnerabilities r)"
proof -
  have "map vuln_ID (r_Vulnerabilities (fold (\<lambda>inc ex. if sh ex inc then replaceWithAlmaLinuxFixInfo L ex inc else ex) xs r))
      = map vuln_ID (r_Vulnerabilities r)" for xs
    by (induction xs arbitrary: r) (simp_all add: replace_IDs)
  then show ?thesis by (simp add: update_result_def)
qed

lemma Update_IDs:
  "vuln_ID ` set (rset_Vulnerabilities G (rset_Update G s U sh (replaceWithAlmaLinuxFixInfo L))) = vuln_ID ` set (rset_Vulnerabilities G s)"
proof -
  let ?u = "update_result G U sh (replaceWithAlmaLinuxFixInfo L)"
  have IDs: "vuln_ID ` set (r_Vulnerabilities (?u r)) = vuln_ID ` set (r_Vulnerabilities r)" for r
    using arg_cong [OF update_result_IDs, of set] by simp
  have "get_fps (rset_Update G s U sh (replaceWithAlmaLinuxFixInfo L)) i = map ?u (get_fps s i)" for i
    unfolding rset_Update_def get_fps_map by (simp add: get_fps_def split: option.split)
  then have "vuln_ID ` set (vulns_at (rset_Update G s U sh (replaceWithAlmaLinuxFixInfo L)) i) = vuln_ID ` set (vulns_at s i)" for i
    using IDs by (simp add: vulns_at_def image_UN)
  then show ?thesis by (simp add: set_rset_Vulnerabilities image_UN)
qed

text \<open>Of the disclosures for Red Hat, AlmaLinux matching keeps exactly those that share no identifier with an AlmaLinux record
  saying the version is unaffected; the fix information it puts in changes no identifier.\<close>

theorem alma_unaffected_filtering:
  assumes "represents p D vs" "represents q U us"
    and "\<forall>u \<in> set us. leaf_MatchesVulnerability (g_libs G) (VersionCriteria ver) u = Some (hit u, None)"
  shows "\<exists>R. applyAlmaLinuxUnaffectedFiltering G D U ver = Some R
    \<and> vuln_ID ` set (rset_Vulnerabilities G R) = vuln_ID ` set (filter (unrelated vs (filter hit us)) (with_ID vs))"
proof (cases "U = []")
  case True
  with identifiers_represented [OF assms(2)] have "identifiers (with_ID us) = {}" by (simp add: vulns_at_def identifiers_def)
  then have "with_ID us = []" by (auto simp: identifiers_def)
  then have "unrelated vs (filter hit us) v" for v by (simp add: unrelated_def identifiers_def)
  with True represents_Vulnerabilities [OF assms(1), of G] show ?thesis by (simp add: applyAlmaLinuxUnaffectedFiltering_def)
next
  case False
  have "MatchesVulnerability (g_libs G) (Leaf (VersionCriteria ver)) u = Some (hit u, None)" if "u \<in> set us" for u
    using that assms(3) by simp
  then obtain safe where s: "rset_Filter (g_libs G) [Leaf (VersionCriteria ver)] U = Some safe" "represents q safe (filter hit us)"
    by (rule represents_Filter [OF assms(2)])
  from represents_Vulnerabilities [OF represents_Remove [OF assms(1) s(2)], of G] False s(1) show ?thesis
    by (simp add: applyAlmaLinuxUnaffectedFiltering_def Update_IDs)
qed

theorem alma_unaffected_filtering_witness:
  "\<exists>D U R. represents example_rpm D (example_records :: string SVuln list) \<and> represents example_rpm U (example_records :: string SVuln list)
    \<and> applyAlmaLinuxUnaffectedFiltering example_genv D U (New ''1.0'' RpmFormat) = Some R
    \<and> vuln_ID ` set (rset_Vulnerabilities example_genv R) = {''CVE-2''}"
proof -
  have "vp_FindVulnerabilities example_provider [IDCriteria []] = Inr (example_records :: string SVuln list)"
    by (simp add: example_provider_def)
  then obtain D where D: "represents example_rpm D (example_records :: string SVuln list)" by (rule represents_find) auto
  have "leaf_MatchesVulnerability (g_libs example_genv) (VersionCriteria (New ''1.0'' RpmFormat)) u = Some (vuln_ID u \<noteq> ''CVE-2'', None)"
    if "u \<in> set example_records" for u
    using example_version_hit [OF that] by (simp add: version_leaf_def OnlyVulnerableVersions_def)
  with alma_unaffected_filtering [OF D D, of example_genv "New ''1.0'' RpmFormat" "\<lambda>u. vuln_ID u \<noteq> ''CVE-2''"] obtain R where
    "applyAlmaLinuxUnaffectedFiltering example_genv D D (New ''1.0'' RpmFormat) = Some R"
    "vuln_ID ` set (rset_Vulnerabilities example_genv R) = vuln_ID ` set (filter (unrelated example_records
       (filter (\<lambda>u. vuln_ID u \<noteq> ''CVE-2'') example_records)) (with_ID example_records :: string SVuln list))" by blast
  moreover have "filter (unrelated example_records (filter (\<lambda>u. vuln_ID u \<noteq> ''CVE-2'') example_records)) (with_ID example_records)
      = [example_vuln ''CVE-2'' [] ''0.5'' :: string SVuln]"
    by (simp add: unrelated_def with_ID_def identifiers_def example_records_def example_vuln_def)
  ultimately show ?thesis using D by (auto simp: example_vuln_def)
qed

section \<open>Alpine\<close>

lemma fold_append_at:
  "get_fps (fold (\<lambda>x. append_at (k x) x) xs al) i = get_fps al i @ filter (\<lambda>x. k x = i) xs"
  "fst ` set (fold (\<lambda>x. append_at (k x) x) xs al) = fst ` set al \<union> k ` set xs"
proof -
  show "get_fps (fold (\<lambda>x. append_at (k x) x) xs al) i = get_fps al i @ filter (\<lambda>x. k x = i) xs"
    by (induction xs arbitrary: al) (auto simp: get_append_at)
  show "fst ` set (fold (\<lambda>x. append_at (k x) x) xs al) = fst ` set al \<union> k ` set xs"
    by (induction xs arbitrary: al) (auto simp: append_at_def dom_update)
qed

lemma map_of_None_keys: "map_of al i = None \<longleftrightarrow> i \<notin> fst ` set al"
  by (simp add: map_of_eq_None_iff)

text \<open>The CPE matches added to those from Alpine's own records are exactly the ones for vulnerabilities no record matched.\<close>

theorem deduplicateMatches_exact:
  "set (deduplicateMatches G secDB cpe) =
     {m \<in> set cpe. vuln_ID (m_Vulnerability m) \<notin> (\<lambda>m. vuln_ID (m_Vulnerability m)) ` set secDB}"
proof -
  let ?id = "\<lambda>m. vuln_ID (m_Vulnerability m)"
  have keys: "set (ordered_keys G ks) = set ks" for ks by (simp add: ordered_keys_def Let_def set_guarded_perm)
  have ids: "fst ` set (matchesByID ms) = ?id ` set ms" "get_fps (matchesByID ms) i = filter (\<lambda>m. ?id m = i) ms" for ms i
    by (simp_all add: matchesByID_def fold_append_at)
  have "set (deduplicateMatches G secDB cpe) = (\<Union>i \<in> ?id ` set cpe. if i \<notin> ?id ` set secDB then {m \<in> set cpe. ?id m = i} else {})"
    by (simp add: deduplicateMatches_def Let_def keys map_of_None_keys ids if_distrib [of set] cong: if_cong)
  also have "\<dots> = {m \<in> set cpe. ?id m \<notin> ?id ` set secDB}"
    by (auto split: if_splits) (metis (mono_tags) image_eqI)
  finally show ?thesis .
qed

section \<open>CPE matches\<close>

definition fps_ok :: "Package \<Rightarrow> fp_matches \<Rightarrow> bool" where
  "fps_ok p fps \<longleftrightarrow> distinct (map fst fps) \<and> (\<forall>(fp, m) \<in> set fps. Match_Fingerprint m = fp \<and> m_Package m = p)"

lemma addNewMatch_ok:
  assumes "fps_ok (Package.truncate p) fps" "addNewMatch G fps vuln p ver m c = Some (fps', ver')"
  shows "fps_ok (Package.truncate p) fps'"
proof -
  let ?c = "\<lparr>m_Vulnerability = Vulnerability.truncate vuln, m_Package = Package.truncate p, m_Details = []\<rparr>"
  let ?e = "case map_of fps (Match_Fingerprint ?c) of Some x \<Rightarrow> x | None \<Rightarrow> ?c"
  from assms(2) obtain d where "CPEMatchDetails G m vuln c p ver = Some (d, ver')"
    and f: "fps' = AList.update (Match_Fingerprint (?e\<lparr>m_Details := addMatchDetails (m_Details ?e) d\<rparr>))
      (?e\<lparr>m_Details := addMatchDetails (m_Details ?e) d\<rparr>) fps"
    by (auto simp: addNewMatch_def Let_def split: bind_splits)
  have "m_Package ?e = Package.truncate p"
    using assms(1) by (auto simp: fps_ok_def split: option.split dest!: map_of_SomeD)
  moreover have "x \<in> set (AList.update k v fps) \<Longrightarrow> x = (k, v) \<or> x \<in> set fps" for x k v
    using set_update_subset [of k v fps] by blast
  ultimately show ?thesis using assms(1) unfolding f fps_ok_def by (fastforce simp: distinct_update)
qed

lemma add_matches_ok:
  "fps_ok (Package.truncate p) fps \<Longrightarrow> add_matches G p m c vs fps ver = Some fps' \<Longrightarrow> fps_ok (Package.truncate p) fps'"
proof (induction vs arbitrary: fps ver)
  case (Cons v vs)
  from Cons.prems(2) obtain f1 v1 where "addNewMatch G fps v p ver m c = Some (f1, v1)" "add_matches G p m c vs f1 v1 = Some fps'"
    by (auto split: bind_splits)
  with Cons.IH addNewMatch_ok [OF Cons.prems(1)] show ?case by blast
qed simp

lemma cpe_loop_ok:
  "fps_ok (Package.truncate p) fps \<Longrightarrow> cpe_loop G vp p m cs fps igs = Some (Inr (fps', igs')) \<Longrightarrow> fps_ok (Package.truncate p) fps'"
proof (induction cs arbitrary: fps igs)
  case (Cons c cs)
  have bindE_Inr: "bindE x f = Some (Inr y) \<Longrightarrow> \<exists>z. x = Some (Inr z) \<and> f z = Some (Inr y)" for x :: "('e + 'z) go" and f y
    by (auto simp: bindE_def split: option.splits sum.splits)
  show ?case
  proof (cases "isUnknownVersion (cpe_searchVersion p c)")
    case False
    with Cons.prems(2) obtain vs ver c' f1 igs1 where "add_matches G p m c' vs fps ver = Some f1"
      "cpe_loop G vp p m cs f1 igs1 = Some (Inr (fps', igs'))"
      by (auto simp: Let_def dest!: bindE_Inr)
    with Cons.IH add_matches_ok [OF Cons.prems(1)] show ?thesis by blast
  qed (use Cons in simp)
qed simp


definition example_cpe_package :: MPackage where
  "example_cpe_package = example_rpm\<lparr>mp_CPEs := [zero_Attributes\<lparr>cpe_Product := ''openssl'', cpe_Version := ''1.0''\<rparr>,
     zero_Attributes\<lparr>cpe_Product := ''libssl''\<rparr>]\<rparr>"

lemma example_cpe_matches:
  "map_option (\<lambda>r. case r of Inl _ \<Rightarrow> [] | Inr (ms, _) \<Rightarrow> map (\<lambda>m. (vuln_ID (m_Vulnerability m), length (m_Details m))) ms)
     (MatchPackageByCPEs example_genv example_provider example_cpe_package ''stock-matcher'') = Some [(''CVE-1'', 1), (''CVE-3'', 1)]"
  by code_simp


end
