(* ===== verification/Vuln_Metadata.thy ===== *)
theory Vuln_Metadata
  imports Scan
begin

text \<open>
  Severities, CVSS scores and the risk of a vulnerability: \<^verbatim>\<open>grype/vulnerability/metadata.go\<close>,
  \<^verbatim>\<open>internal/cvss/metrics.go\<close>, \<^verbatim>\<open>grype/db/v6/severity.go\<close>.

  Scores are rational numbers: the arithmetic on \<^verbatim>\<open>float64\<close> is taken as exact.  The parsers of CVSS vectors (package
  \<^verbatim>\<open>go-cvss\<close>) are parameters: for a vector of version 2.0, 3.0 or 3.1 its base, exploitability and impact score, for 4.0 its
  score.  Dates are numbers.
\<close>

section \<open>Metadata\<close>

record CvssMetrics =
  cm_BaseScore :: rat
  cm_ExploitabilityScore :: "rat option"
  cm_ImpactScore :: "rat option"

record Cvss =
  cvss_Source :: string
  cvss_Type :: string
  cvss_Version :: string
  cvss_Vector :: string
  cvss_Metrics :: CvssMetrics

record KnownExploited =
  ke_CVE :: string
  ke_VendorProject :: string
  ke_Product :: string
  ke_DateAdded :: "int option"
  ke_RequiredAction :: string
  ke_DueDate :: "int option"
  ke_KnownRansomwareCampaignUse :: string
  ke_Notes :: string
  ke_URLs :: "string list"
  ke_CWEs :: "string list"

record EPSS =
  epss_CVE :: string
  epss_EPSS :: rat
  epss_Percentile :: rat
  epss_Date :: int

record CWE =
  cwe_CVE :: string
  cwe_CWE :: string
  cwe_Source :: string
  cwe_Type :: string

record VMetadata =
  vmd_ID :: string
  vmd_DataSource :: string
  vmd_Namespace :: string
  vmd_Severity :: string
  vmd_URLs :: "string list"
  vmd_Description :: string
  vmd_Cvss :: "Cvss list"
  vmd_KnownExploited :: "KnownExploited list"
  vmd_EPSS :: "EPSS list"
  vmd_CWEs :: "CWE list"
  vmd_risk :: rat

section \<open>Risk\<close>

definition kevModifier :: "VMetadata \<Rightarrow> rat" where
  "kevModifier m =
     (if vmd_KnownExploited m \<noteq> [] then
        (if list_ex (\<lambda>kev. strings_ToLower (ke_KnownRansomwareCampaignUse kev) = ''known'') (vmd_KnownExploited m)
         then 11 / 10 else 105 / 100)
      else 1)"

definition threat :: "VMetadata \<Rightarrow> rat" where
  "threat m =
     (if vmd_KnownExploited m \<noteq> [] then 1
      else case vmd_EPSS m of [] \<Rightarrow> 0 | e # _ \<Rightarrow> epss_EPSS e)"

definition severityToScore :: "string \<Rightarrow> rat" where
  "severityToScore severity =
     (let s = strings_ToLower severity in
      if s = ''negligible'' then 1 / 2
      else if s = ''low'' then 3
      else if s = ''medium'' then 5
      else if s = ''high'' then 15 / 2
      else if s = ''critical'' then 9
      else 5)"

definition validBaseScores :: "Cvss list \<Rightarrow> rat list" where
  "validBaseScores as = filter (\<lambda>s. s \<noteq> 0) (map (\<lambda>a. cm_BaseScore (cvss_Metrics a)) as)"

definition average :: "rat list \<Rightarrow> rat" where
  "average as = (if as = [] then 0 else sum_list as / of_nat (length as))"

definition severity_score :: "VMetadata \<Rightarrow> rat" where
  "severity_score m =
     (let stringSeverityScore = severityToScore (vmd_Severity m) / 10;
          avgBaseScore = average (validBaseScores (vmd_Cvss m)) / 10 in
      if avgBaseScore = 0 then stringSeverityScore
      else average [stringSeverityScore, avgBaseScore])"

definition riskScore :: "VMetadata \<Rightarrow> rat" where
  "riskScore m = min (threat m * severity_score m * kevModifier m) 1 * 100"

text \<open>A risk once computed is kept in the record.\<close>

definition RiskScore :: "VMetadata option \<Rightarrow> rat \<times> VMetadata option" where
  "RiskScore m =
     (case m of
        None \<Rightarrow> (0, None)
      | Some md \<Rightarrow>
          if vmd_risk md \<noteq> 0 then (vmd_risk md, m)
          else let md' = md\<lparr>vmd_risk := riskScore md\<rparr> in (vmd_risk md', Some md'))"

section \<open>Scores\<close>

text \<open>\<^verbatim>\<open>math.Round\<close> rounds halves away from zero.\<close>

definition math_Round :: "rat \<Rightarrow> int" where
  "math_Round x = (if x \<ge> 0 then \<lfloor>x + 1 / 2\<rfloor> else - \<lfloor>- x + 1 / 2\<rfloor>)"

definition roundScore :: "rat \<Rightarrow> rat" where
  "roundScore score =
     (let intInput = math_Round (score * 100000) in
      if intInput mod 10000 = 0 then of_int intInput / 100000
      else (of_int \<lfloor>of_int intInput / (10000 :: rat)\<rfloor> + 1) / 10)"

record cvss_env =
  cv_20 :: "string \<Rightarrow> (rat \<times> rat \<times> rat) option"
  cv_30 :: "string \<Rightarrow> (rat \<times> rat \<times> rat) option"
  cv_31 :: "string \<Rightarrow> (rat \<times> rat \<times> rat) option"
  cv_40 :: "string \<Rightarrow> rat option"

definition rounded_metrics :: "(rat \<times> rat \<times> rat) option \<Rightarrow> CvssMetrics option" where
  "rounded_metrics r =
     map_option (\<lambda>(base, ex, im). \<lparr>cm_BaseScore = roundScore base, cm_ExploitabilityScore = Some (roundScore ex),
        cm_ImpactScore = Some (roundScore im)\<rparr>) r"

definition ParseMetricsFromVector :: "cvss_env \<Rightarrow> string \<Rightarrow> CvssMetrics option" where
  "ParseMetricsFromVector C vector =
     (if strings_HasPrefix vector ''CVSS:3.0'' then rounded_metrics (cv_30 C vector)
      else if strings_HasPrefix vector ''CVSS:3.1'' then rounded_metrics (cv_31 C vector)
      else if strings_HasPrefix vector ''CVSS:4.0'' then
        map_option (\<lambda>s. \<lparr>cm_BaseScore = roundScore s, cm_ExploitabilityScore = None, cm_ImpactScore = None\<rparr>) (cv_40 C vector)
      else rounded_metrics (cv_20 C vector))"

text \<open>The severities are the numbers 0 (unknown), 1 (negligible), 2 (low), 3 (medium), 4 (high) and 5 (critical).\<close>

definition SeverityFromBaseScore :: "rat \<Rightarrow> int" where
  "SeverityFromBaseScore bs =
     (if bs \<ge> 10 then 0
      else if bs \<ge> 9 then 5
      else if bs \<ge> 7 then 4
      else if bs \<ge> 4 then 3
      else if bs \<ge> 1 / 10 then 2
      else if bs > 0 then 1
      else 0)"

definition interpretCVSSv2 :: "rat \<Rightarrow> int" where
  "interpretCVSSv2 score =
     (if score < 0 then 0
      else if score = 0 then 1
      else if score < 4 then 2
      else if score < 7 then 3
      else if score \<le> 10 then 4
      else 0)"

definition interpretCVSSv3Plus :: "rat \<Rightarrow> int" where
  "interpretCVSSv3Plus score =
     (if score < 0 then 0
      else if score = 0 then 1
      else if score < 4 then 2
      else if score < 7 then 3
      else if score < 9 then 4
      else if score \<le> 10 then 5
      else 0)"

definition interpretCVSS :: "rat \<Rightarrow> string \<Rightarrow> int" where
  "interpretCVSS score version =
     (if version = ''2.0'' then interpretCVSSv2 score
      else if version \<in> {''3.0'', ''3.1'', ''4.0''} then interpretCVSSv3Plus score
      else 0)"

section \<open>Severities of a record\<close>

record CVSSSeverity =
  cs_Vector :: string
  cs_Version :: string

datatype severity_value =
    CVSSValue CVSSSeverity
  | TextValue string
  | OtherValue

record DbSeverity =
  sev_Scheme :: string
  sev_Value :: severity_value
  sev_Source :: string
  sev_Rank :: int

definition SeveritySchemeCVSS :: string where "SeveritySchemeCVSS = ''CVSS''"

definition extractSeverity :: "cvss_env \<Rightarrow> severity_value \<Rightarrow> serror + int" where
  "extractSeverity C severity =
     (case severity of
        TextValue sev \<Rightarrow> Inr (ParseSeverity sev)
      | CVSSValue sev \<Rightarrow>
          (case ParseMetricsFromVector C (cs_Vector sev) of
             None \<Rightarrow> Inl (ErrorText ''unable to parse CVSS vector'')
           | Some metrics \<Rightarrow> Inr (interpretCVSS (cm_BaseScore metrics) (cs_Version sev)))
      | OtherValue \<Rightarrow> Inr 0)"

definition legacyCVSSType :: "int \<Rightarrow> string" where
  "legacyCVSSType rank = (if rank = 1 then ''Primary'' else ''Secondary'')"

fun toCvss :: "cvss_env \<Rightarrow> DbSeverity list \<Rightarrow> Cvss list" where
  "toCvss C [] = []"
| "toCvss C (sev # severities) =
     (if sev_Scheme sev \<noteq> SeveritySchemeCVSS then toCvss C severities
      else case sev_Value sev of
        CVSSValue cvssSev \<Rightarrow>
          (case ParseMetricsFromVector C (cs_Vector cvssSev) of
             None \<Rightarrow> toCvss C severities
           | Some metrics \<Rightarrow>
               \<lparr>cvss_Source = sev_Source sev, cvss_Type = legacyCVSSType (sev_Rank sev), cvss_Version = cs_Version cvssSev,
                 cvss_Vector = cs_Vector cvssSev, cvss_Metrics = metrics\<rparr> # toCvss C severities)
      | _ \<Rightarrow> toCvss C severities)"

definition extractSeverities :: "cvss_env \<Rightarrow> DbSeverity list option \<Rightarrow> (int \<times> Cvss list) \<times> serror option" where
  "extractSeverities C severities =
     (case severities of
        None \<Rightarrow> ((0, []), None)
      | Some [] \<Rightarrow> ((0, toCvss C []), None)
      | Some (s # ss) \<Rightarrow>
          (case extractSeverity C (sev_Value s) of
             Inl e \<Rightarrow> ((0, []), Some (WrapError ''unable to extract severity'' e))
           | Inr sev \<Rightarrow> ((sev, toCvss C (s # ss)), None)))"

section \<open>Facts\<close>

lemma average_between:
  assumes "as \<noteq> []" "\<forall>a \<in> set as. lo \<le> a \<and> a \<le> hi"
  shows "lo \<le> average as \<and> average as \<le> hi"
proof -
  have "of_nat (length as) * lo \<le> sum_list as \<and> sum_list as \<le> of_nat (length as) * hi"
    using assms(2) by (induction as) (auto simp: algebra_simps)
  moreover have "(of_nat (length as) :: rat) > 0" using assms(1) by simp
  ultimately show ?thesis using assms(1) by (simp add: average_def field_simps)
qed

lemma severityToScore_range: "1 / 2 \<le> severityToScore s \<and> severityToScore s \<le> 9"
  by (simp add: severityToScore_def Let_def)

lemma severity_score_range:
  assumes "\<forall>c \<in> set (vmd_Cvss m). 0 \<le> cm_BaseScore (cvss_Metrics c) \<and> cm_BaseScore (cvss_Metrics c) \<le> 10"
  shows "0 \<le> severity_score m \<and> severity_score m \<le> 1"
proof -
  let ?b = "validBaseScores (vmd_Cvss m)" and ?s = "severityToScore (vmd_Severity m) / 10"
  have "\<forall>a \<in> set ?b. 0 \<le> a \<and> a \<le> 10" using assms by (auto simp: validBaseScores_def)
  then have "0 \<le> average ?b / 10 \<and> average ?b / 10 \<le> 1"
  proof (cases "?b = []")
    case False
    with average_between [of ?b 0 10] \<open>\<forall>a \<in> set ?b. 0 \<le> a \<and> a \<le> 10\<close> show ?thesis by simp
  qed (simp add: average_def)
  moreover have "0 \<le> ?s \<and> ?s \<le> 1" using severityToScore_range [of "vmd_Severity m"] by simp
  ultimately show ?thesis
    using average_between [of "[?s, average ?b / 10]" 0 1] by (simp add: severity_score_def Let_def)
qed

lemma kevModifier_range: "1 \<le> kevModifier m \<and> kevModifier m \<le> 11 / 10"
  by (simp add: kevModifier_def)

section \<open>Properties\<close>

text \<open>C35: the risk of a vulnerability lies between 0 and 100 if exploitation probabilities lie between 0 and 1 and base scores
  between 0 and 10; it is 0 without evidence of a threat, and a vulnerability known to be exploited has at least the risk it
  has without that knowledge.\<close>

theorem riskScore_bounds:
  assumes "\<forall>e \<in> set (vmd_EPSS m). 0 \<le> epss_EPSS e \<and> epss_EPSS e \<le> 1"
    and "\<forall>c \<in> set (vmd_Cvss m). 0 \<le> cm_BaseScore (cvss_Metrics c) \<and> cm_BaseScore (cvss_Metrics c) \<le> 10"
  shows "0 \<le> riskScore m \<and> riskScore m \<le> 100
    \<and> (vmd_KnownExploited m = [] \<and> vmd_EPSS m = [] \<longrightarrow> riskScore m = 0)
    \<and> riskScore (m\<lparr>vmd_KnownExploited := []\<rparr>) \<le> riskScore m"
proof -
  let ?m0 = "m\<lparr>vmd_KnownExploited := []\<rparr>"
  have t: "0 \<le> threat m" "0 \<le> threat ?m0" "threat ?m0 \<le> threat m"
    using assms(1) by (auto simp: threat_def split: list.splits)
  have s: "0 \<le> severity_score m" using severity_score_range [OF assms(2)] by simp
  have k: "1 \<le> kevModifier m" using kevModifier_range by simp
  have "0 \<le> threat m * severity_score m * kevModifier m" using t s k by simp
  then have range: "0 \<le> riskScore m \<and> riskScore m \<le> 100" by (simp add: riskScore_def)
  have "threat ?m0 * severity_score m \<le> threat m * severity_score m" using t s by (simp add: mult_right_mono)
  also have "\<dots> \<le> threat m * severity_score m * kevModifier m"
    using t s k mult_left_mono [of 1 "kevModifier m" "threat m * severity_score m"] by simp
  finally have "threat ?m0 * severity_score m \<le> threat m * severity_score m * kevModifier m" .
  moreover have "severity_score ?m0 = severity_score m" "kevModifier ?m0 = 1" by (simp_all add: severity_score_def kevModifier_def)
  ultimately have mono: "riskScore ?m0 \<le> riskScore m" by (simp add: riskScore_def)
  have "vmd_KnownExploited m = [] \<and> vmd_EPSS m = [] \<longrightarrow> riskScore m = 0" by (simp add: riskScore_def threat_def)
  then show ?thesis using range mono by blast
qed

definition example_metadata :: VMetadata where
  "example_metadata = \<lparr>vmd_ID = ''CVE-1'', vmd_DataSource = [], vmd_Namespace = [], vmd_Severity = ''High'', vmd_URLs = [],
     vmd_Description = [], vmd_Cvss = [\<lparr>cvss_Source = [], cvss_Type = ''Primary'', cvss_Version = ''3.1'', cvss_Vector = [],
       cvss_Metrics = \<lparr>cm_BaseScore = 9, cm_ExploitabilityScore = None, cm_ImpactScore = None\<rparr>\<rparr>],
     vmd_KnownExploited = [], vmd_EPSS = [\<lparr>epss_CVE = ''CVE-1'', epss_EPSS = 1 / 2, epss_Percentile = 1, epss_Date = 0\<rparr>],
     vmd_CWEs = [], vmd_risk = 0\<rparr>"

theorem riskScore_bounds_witness:
  "riskScore example_metadata = 165 / 4 \<and> riskScore example_metadata \<le> 100"
proof -
  have "\<forall>e \<in> set (vmd_EPSS example_metadata). 0 \<le> epss_EPSS e \<and> epss_EPSS e \<le> 1"
    "\<forall>c \<in> set (vmd_Cvss example_metadata). 0 \<le> cm_BaseScore (cvss_Metrics c) \<and> cm_BaseScore (cvss_Metrics c) \<le> 10"
    by (simp_all add: example_metadata_def)
  from riskScore_bounds [OF this] have "riskScore example_metadata \<le> 100" by blast
  moreover have "strings_ToLower ''High'' = ''high''" by code_simp
  then have "riskScore example_metadata = 165 / 4"
    by (simp add: riskScore_def example_metadata_def threat_def severity_score_def average_def validBaseScores_def
        severityToScore_def kevModifier_def)
  ultimately show ?thesis by blast
qed

text \<open>A score is rounded up to one decimal: what is left is a multiple of a tenth, not below the score as rounded to five decimals, and
  less than a tenth above it; a score between 0 and 10 stays so.\<close>

theorem roundScore_up:
  "\<exists>k. roundScore s = of_int k / 10 \<and> of_int (math_Round (s * 100000)) / 100000 \<le> roundScore s
     \<and> roundScore s < of_int (math_Round (s * 100000)) / 100000 + 1 / 10
     \<and> (0 \<le> s \<and> s \<le> 10 \<longrightarrow> 0 \<le> roundScore s \<and> roundScore s \<le> 10)"
proof -
  define n where "n = math_Round (s * 100000)"
  define q where "q = n div 10000 + (if n mod 10000 = 0 then 0 else 1)"
  have div: "n = 10000 * (n div 10000) + n mod 10000" "0 \<le> n mod 10000" "n mod 10000 < 10000" by simp_all
  have "(of_int n :: rat) = of_int (10000 * (n div 10000) + n mod 10000)" using div(1) by argo
  then have "(of_int n :: rat) / 10000 = of_int (n div 10000) + of_int (n mod 10000) / 10000"
    unfolding of_int_add of_int_mult by simp
  moreover have "\<lfloor>(of_int n :: rat) / 10000\<rfloor> = n div 10000" by (simp add: floor_divide_of_int_eq [where 'a = rat, of n 10000, simplified])
  ultimately have r: "roundScore s = of_int q / 10"
    unfolding roundScore_def n_def [symmetric] Let_def q_def by (simp add: field_simps)
  have nq: "n \<le> 10000 * q" "10000 * q < n + 10000" using div unfolding q_def by (simp_all split: if_split, linarith+)
  have "of_int n / 10000 \<le> (of_int q :: rat)" "(of_int q :: rat) < of_int n / 10000 + 1"
  proof -
    from nq have "(of_int n :: rat) \<le> of_int (10000 * q)" "(of_int (10000 * q) :: rat) < of_int (n + 10000)"
      by (simp_all only: of_int_le_iff of_int_less_iff)
    then show "of_int n / 10000 \<le> (of_int q :: rat)" "(of_int q :: rat) < of_int n / 10000 + 1"
      by (simp_all add: field_simps)
  qed
  moreover have "0 \<le> q \<and> q \<le> 100" if "0 \<le> s" "s \<le> 10"
  proof -
    have "0 \<le> n" "n \<le> 1000000"
      using that by (auto simp: n_def math_Round_def le_floor_iff floor_le_iff)
    then show ?thesis using nq by linarith
  qed
  ultimately show ?thesis unfolding r n_def [symmetric] by (intro exI [of _ q]) (auto simp: field_simps)
qed

text \<open>Two places of the program turn a base score into a severity.  They agree on scores of at least 0.1 and below 10, and disagree on the
  highest score: one says critical, the other unknown.\<close>

theorem severity_of_score_divergence:
  assumes "1 / 10 \<le> s" "s \<le> 10"
  shows "SeverityFromBaseScore s = (if s = 10 then 0 else interpretCVSS s ''3.1'') \<and> interpretCVSS 10 ''3.1'' = 5"
  using assms by (auto simp: SeverityFromBaseScore_def interpretCVSS_def interpretCVSSv3Plus_def)

theorem severity_of_score_divergence_witness:
  "SeverityFromBaseScore 10 = 0 \<and> interpretCVSS 10 ''3.1'' = 5 \<and> SeverityFromBaseScore (98 / 10) = interpretCVSS (98 / 10) ''3.1''"
  using severity_of_score_divergence [of 10] severity_of_score_divergence [of "98 / 10"] by simp

end
