(* ===== verification/Db_Model.thy ===== *)
theory Db_Model
  imports Search_Criteria Vuln_Metadata
begin

text \<open>
  The tables of the vulnerability database: \<^verbatim>\<open>grype/db/v6/models.go\<close>, \<^verbatim>\<open>blobs.go\<close>, \<^verbatim>\<open>enumerations.go\<close>, and the
  specifiers searches are given (\<^verbatim>\<open>operating_system_store.go\<close>, \<^verbatim>\<open>package_store.go\<close>, \<^verbatim>\<open>vulnerability_store.go\<close>).

  A row is a record; a pointer to another row is an option, \<^const>\<open>None\<close> until it is filled in.  A table is the list of its
  rows in the order of their primary keys, which is the order the database returns them in.  Blobs are stored as JSON text
  in one table; here the decoded values are kept, in one list per type.  Dates are numbers.  The columns that are never null
  are texts; SQL's comparison \<^verbatim>\<open>collate nocase\<close> folds the case of ASCII letters.
\<close>

section \<open>Enumerations\<close>

definition VulnerabilityActive :: string where "VulnerabilityActive = ''active''"
definition VulnerabilityAnalyzing :: string where "VulnerabilityAnalyzing = ''analyzing''"
definition VulnerabilityRejected :: string where "VulnerabilityRejected = ''rejected''"
definition VulnerabilityDisputed :: string where "VulnerabilityDisputed = ''disputed''"
definition FixedStatus :: string where "FixedStatus = ''fixed''"
definition NotFixedStatus :: string where "NotFixedStatus = ''not-fixed''"
definition WontFixStatus :: string where "WontFixStatus = ''wont-fix''"
definition NotAffectedFixStatus :: string where "NotAffectedFixStatus = ''not-affected''"

lemmas fix_statuses = FixedStatus_def NotFixedStatus_def WontFixStatus_def NotAffectedFixStatus_def

definition ParseVulnerabilityStatus :: "string \<Rightarrow> string" where
  "ParseVulnerabilityStatus s =
     (let t = strings_TrimSpace (strings_ToLower s) in
      if t = VulnerabilityActive \<or> t = [] then VulnerabilityActive
      else if t = VulnerabilityAnalyzing then VulnerabilityAnalyzing
      else if t = VulnerabilityRejected then VulnerabilityRejected
      else if t = VulnerabilityDisputed then VulnerabilityDisputed
      else [])"

fun replaceAny :: "string \<Rightarrow> string \<Rightarrow> string list \<Rightarrow> string" where
  "replaceAny input newStr [] = input"
| "replaceAny input newStr (s # searchFor) = replaceAny (strings_ReplaceAll input s newStr) newStr searchFor"

definition ParseFixStatus :: "string \<Rightarrow> string" where
  "ParseFixStatus s =
     (let t = replaceAny (strings_TrimSpace (strings_ToLower s)) ''-'' ['' '', ''_''] in
      if t = FixedStatus then FixedStatus
      else if t = NotFixedStatus then NotFixedStatus
      else if t = WontFixStatus then WontFixStatus
      else if t = NotAffectedFixStatus then NotAffectedFixStatus
      else [])"

definition ParseSeverityScheme :: "string \<Rightarrow> string" where
  "ParseSeverityScheme s =
     (let t = replaceAny (strings_TrimSpace (strings_ToLower s)) [] [''-'', ''_'', '' ''] in
      if t = ''cvss'' then ''CVSS''
      else if t = ''hml'' then ''HML''
      else if t = ''chml'' then ''CHML''
      else if t = ''chmln'' then ''CHMLN''
      else [])"

definition NormalizeReferenceTags :: "string list \<Rightarrow> string list" where
  "NormalizeReferenceTags tags =
     map (\<lambda>tag. replaceAny (strings_ToLower (strings_TrimSpace tag)) ''-'' ['' '', ''_'']) tags"

section \<open>Blobs\<close>

record DbReference =
  dref_URL :: string
  dref_ID :: string
  dref_Tags :: "string list"

record Modification =
  mod_URL :: string
  mod_Changes :: "string list"

record VulnerabilityBlob =
  vb_ID :: string
  vb_Assigners :: "string list"
  vb_Description :: string
  vb_References :: "DbReference list"
  vb_Aliases :: "string list"
  vb_Severities :: "DbSeverity list"
  vb_Modifications :: "Modification list"

record FixAvailability =
  fa_Date :: "int option"
  fa_Kind :: string

record FixDetail =
  fd_Available :: "FixAvailability option"
  fd_References :: "DbReference list"

record DbFix =
  dbf_Version :: string
  dbf_State :: string
  dbf_Detail :: "FixDetail option"

record DbVersion =
  dbv_Type :: string
  dbv_Constraint :: string

record Range =
  rg_Version :: DbVersion
  rg_Fix :: "DbFix option"

record PackageQualifiers =
  pq_RpmModularity :: "string option"
  pq_PlatformCPEs :: "string list"
  pq_Architecture :: "string option"
  pq_RootIO :: "bool option"
  pq_GoImports :: "(string \<times> string list) list"

record PackageBlob =
  pb_CVEs :: "string list"
  pb_Qualifiers :: "PackageQualifiers option"
  pb_Ranges :: "Range list"

record KnownExploitedVulnerabilityBlob =
  kb_Cve :: string
  kb_VendorProject :: string
  kb_Product :: string
  kb_DateAdded :: "int option"
  kb_RequiredAction :: string
  kb_DueDate :: "int option"
  kb_KnownRansomwareCampaignUse :: string
  kb_Notes :: string
  kb_URLs :: "string list"
  kb_CWEs :: "string list"

section \<open>Rows\<close>

record DbProvider =
  prv_ID :: string
  prv_Version :: string
  prv_Processor :: string
  prv_DateCaptured :: "int option"
  prv_InputDigest :: string

record VulnerabilityHandle =
  vh_ID :: int
  vh_Name :: string
  vh_Status :: string
  vh_PublishedDate :: "int option"
  vh_ModifiedDate :: "int option"
  vh_WithdrawnDate :: "int option"
  vh_ProviderID :: string
  vh_Provider :: "DbProvider option"
  vh_BlobID :: int
  vh_BlobValue :: "VulnerabilityBlob option"

record VulnerabilityAlias =
  va_Name :: string
  va_Alias :: string

record Cpe =
  dc_ID :: int
  dc_Part :: string
  dc_Vendor :: string
  dc_Product :: string
  dc_Edition :: string
  dc_Language :: string
  dc_SoftwareEdition :: string
  dc_TargetHardware :: string
  dc_TargetSoftware :: string
  dc_Other :: string

record DbPackage =
  dp_ID :: int
  dp_Ecosystem :: string
  dp_Name :: string
  dp_CPEs :: "Cpe list"

record OperatingSystem =
  os_ID :: int
  os_Name :: string
  os_ReleaseID :: string
  os_MajorVersion :: string
  os_MinorVersion :: string
  os_LabelVersion :: string
  os_Codename :: string
  os_Channel :: string
  os_EOLDate :: "int option"
  os_EOASDate :: "int option"

record packageHandle =
  ph_ID :: int
  ph_VulnerabilityID :: int
  ph_Vulnerability :: "VulnerabilityHandle option"
  ph_OperatingSystemID :: "int option"
  ph_OperatingSystem :: "OperatingSystem option"
  ph_PackageID :: int
  ph_Package :: "DbPackage option"
  ph_BlobID :: int
  ph_BlobValue :: "PackageBlob option"

record cpeHandle =
  ch_ID :: int
  ch_VulnerabilityID :: int
  ch_Vulnerability :: "VulnerabilityHandle option"
  ch_CpeID :: int
  ch_CPE :: "Cpe option"
  ch_BlobID :: int
  ch_BlobValue :: "PackageBlob option"

record OperatingSystemSpecifierOverride =
  oo_Alias :: string
  oo_Version :: string
  oo_VersionPattern :: string
  oo_Codename :: string
  oo_ReplacementName :: "string option"
  oo_ReplacementMajorVersion :: "string option"
  oo_ReplacementMinorVersion :: "string option"
  oo_ReplacementLabelVersion :: "string option"
  oo_ReplacementChannel :: "string option"
  oo_Rolling :: bool
  oo_ApplicableClientDBSchemas :: string

record PackageSpecifierOverride =
  po_Ecosystem :: string
  po_ReplacementEcosystem :: "string option"

record KnownExploitedVulnerabilityHandle =
  kh_Cve :: string
  kh_BlobID :: int
  kh_BlobValue :: "KnownExploitedVulnerabilityBlob option"

record EpssHandle =
  eh_Cve :: string
  eh_Epss :: rat
  eh_Percentile :: rat
  eh_Date :: int

record CWEHandle =
  wh_CVE :: string
  wh_CWE :: string
  wh_Source :: string
  wh_Type :: string

section \<open>Operations on rows\<close>

definition trimZeroes :: "string \<Rightarrow> string" where
  "trimZeroes s =
     (if s = [] then s
      else let s = (if s ! 0 = CHR ''0'' then dropWhile (\<lambda>c. c = CHR ''0'') s else s) in
        if s = [] then ''0'' else s)"

definition OperatingSystem_clean :: "OperatingSystem \<Rightarrow> OperatingSystem" where
  "OperatingSystem_clean o1 = o1\<lparr>os_MajorVersion := trimZeroes (os_MajorVersion o1), os_MinorVersion := trimZeroes (os_MinorVersion o1)\<rparr>"

definition VersionNumber :: "OperatingSystem option \<Rightarrow> string" where
  "VersionNumber os =
     (case os of
        None \<Rightarrow> []
      | Some o1 \<Rightarrow> if os_MinorVersion o1 \<noteq> [] then os_MajorVersion o1 @ ''.'' @ os_MinorVersion o1 else os_MajorVersion o1)"

definition OperatingSystem_Version :: "OperatingSystem option \<Rightarrow> string" where
  "OperatingSystem_Version os =
     (case os of
        None \<Rightarrow> []
      | Some o1 \<Rightarrow>
          if os_LabelVersion o1 \<noteq> [] then os_LabelVersion o1
          else
            let suffix = (if os_Channel o1 \<noteq> [] then ''+'' @ os_Channel o1 else []) in
            if os_MajorVersion o1 \<noteq> [] then
              (if os_MinorVersion o1 \<noteq> [] then os_MajorVersion o1 @ ''.'' @ os_MinorVersion o1 @ suffix
               else os_MajorVersion o1 @ suffix)
            else os_Codename o1)"

definition OperatingSystem_String :: "OperatingSystem \<Rightarrow> string" where
  "OperatingSystem_String o1 = os_Name o1 @ ''@'' @ OperatingSystem_Version (Some o1)"

definition OperatingSystem_cacheKey :: "OperatingSystem \<Rightarrow> string" where
  "OperatingSystem_cacheKey o1 = strings_ToLower (OperatingSystem_String o1)"

definition Cpe_String :: "Cpe \<Rightarrow> string" where
  "Cpe_String c =
     strings_Join (map (\<lambda>part. if part = [] then ''*'' else part)
       [''cpe:2.3'', dc_Part c, dc_Vendor c, dc_Product c, ''*'', ''*'', dc_Edition c, dc_Language c, dc_SoftwareEdition c,
        dc_TargetSoftware c, dc_TargetHardware c, dc_Other c]) '':''"

definition Cpe_cacheKey :: "Cpe \<Rightarrow> string" where
  "Cpe_cacheKey c = strings_ToLower (Cpe_String c)"

definition Package_String :: "DbPackage \<Rightarrow> string" where
  "Package_String p =
     (let cpes = map Cpe_String (dp_CPEs p) in
      if dp_Ecosystem p \<noteq> [] \<and> dp_Name p \<noteq> [] then
        (let base = dp_Ecosystem p @ ''/'' @ dp_Name p in
         if cpes = [] then base else base @ '' ('' @ strings_Join cpes '', '' @ '')'')
      else strings_Join cpes '', '')"

definition Package_cacheKey :: "DbPackage \<Rightarrow> string" where
  "Package_cacheKey p =
     (if dp_Ecosystem p = [] \<and> dp_Name p = [] then []
      else strings_ToLower (dp_Ecosystem p @ ''/'' @ dp_Name p))"

definition VulnerabilityHandle_cacheKey :: "VulnerabilityHandle \<Rightarrow> string" where
  "VulnerabilityHandle_cacheKey v =
     (let provider = (case vh_Provider v of None \<Rightarrow> ''none'' | Some p \<Rightarrow> prv_ID p) in
      strings_ToLower (vh_Name v @ '' from '' @ provider @ '' with '' @ strconv_Itoa (vh_BlobID v)))"

text \<open>The name of the vulnerability of a row, for logging.\<close>

definition packageHandle_vulnerability :: "packageHandle \<Rightarrow> string" where
  "packageHandle_vulnerability ph =
     (case ph_Vulnerability ph of
        Some v \<Rightarrow> vh_Name v
      | None \<Rightarrow> (case ph_BlobValue ph of Some b \<Rightarrow> (case pb_CVEs b of [] \<Rightarrow> [] | cve # _ \<Rightarrow> cve) | None \<Rightarrow> []))"

definition CVSSSeverity_String :: "CVSSSeverity \<Rightarrow> string" where
  "CVSSSeverity_String c =
     (if \<not> strings_HasPrefix (strings_ToLower (cs_Vector c)) ''cvss:'' \<and> cs_Version c \<noteq> []
      then ''CVSS:'' @ cs_Version c @ ''/'' @ cs_Vector c else cs_Vector c)"

section \<open>The database\<close>

record db =
  t_Providers :: "DbProvider list"
  t_Vulnerabilities :: "VulnerabilityHandle list"
  t_Aliases :: "VulnerabilityAlias list"
  t_AffectedPackages :: "packageHandle list"
  t_UnaffectedPackages :: "packageHandle list"
  t_OperatingSystems :: "OperatingSystem list"
  t_OSOverrides :: "OperatingSystemSpecifierOverride list"
  t_Packages :: "DbPackage list"
  t_PackageCpes :: "(int \<times> int) list"
  t_PackageOverrides :: "PackageSpecifierOverride list"
  t_ArchitectureAliases :: "(string \<times> string) list option"
  t_AffectedCPEs :: "cpeHandle list"
  t_UnaffectedCPEs :: "cpeHandle list"
  t_Cpes :: "Cpe list"
  t_KEVs :: "KnownExploitedVulnerabilityHandle list"
  t_EpssMetadata :: "int list"
  t_Epss :: "EpssHandle list"
  t_CWEs :: "CWEHandle list"
  t_VulnerabilityBlobs :: "(int \<times> VulnerabilityBlob) list"
  t_PackageBlobs :: "(int \<times> PackageBlob) list"
  t_KEVBlobs :: "(int \<times> KnownExploitedVulnerabilityBlob) list"

section \<open>Specifiers\<close>

record OSSpecifier =
  oss_Name :: string
  oss_MajorVersion :: string
  oss_MinorVersion :: string
  oss_RemainingVersion :: string
  oss_LabelVersion :: string
  oss_Channel :: string
  oss_DisableAliasing :: bool
  oss_DisableFallback :: bool

definition NoOSSpecified :: OSSpecifier where
  "NoOSSpecified = \<lparr>oss_Name = [], oss_MajorVersion = [], oss_MinorVersion = [], oss_RemainingVersion = [], oss_LabelVersion = [],
     oss_Channel = [], oss_DisableAliasing = False, oss_DisableFallback = False\<rparr>"

record PackageSpecifier =
  ps_Name :: string
  ps_Ecosystem :: string
  ps_CPE :: "Attributes option"

definition zero_PackageSpecifier :: PackageSpecifier where
  "zero_PackageSpecifier = \<lparr>ps_Name = [], ps_Ecosystem = [], ps_CPE = None\<rparr>"

record VulnerabilitySpecifier =
  vs_Name :: string
  vs_ID :: int
  vs_Status :: string
  vs_PublishedAfter :: "int option"
  vs_ModifiedAfter :: "int option"
  vs_IncludeAliases :: bool
  vs_Providers :: "string list"

definition zero_VulnerabilitySpecifier :: VulnerabilitySpecifier where
  "zero_VulnerabilitySpecifier = \<lparr>vs_Name = [], vs_ID = 0, vs_Status = [], vs_PublishedAfter = None, vs_ModifiedAfter = None,
     vs_IncludeAliases = False, vs_Providers = []\<rparr>"

end
