(* ===== verification/Schema_Ver.thy ===== *)
theory Schema_Ver
  imports Comparison
begin

text \<open>
  Versions of database schemas: \<^verbatim>\<open>internal/schemaver/schema_ver.go\<close>.
\<close>

record SchemaVer =
  sv_Model :: int
  sv_Revision :: int
  sv_Addition :: int

definition schemaver_New :: "int \<Rightarrow> int \<Rightarrow> int \<Rightarrow> SchemaVer" where
  "schemaver_New model revision addition = \<lparr>sv_Model = model, sv_Revision = revision, sv_Addition = addition\<rparr>"

definition schemaver_Parse :: "string \<Rightarrow> SchemaVer option" where
  "schemaver_Parse s =
     (case split_char (CHR ''.'') (strings_TrimSpace s) of
        [a, b, c] \<Rightarrow>
          (case strconv_Atoi (strings_TrimPrefix a ''v'') of
             None \<Rightarrow> None
           | Some model \<Rightarrow>
               if model < 1 then None
               else case strconv_Atoi b of
                 None \<Rightarrow> None
               | Some revision \<Rightarrow>
                   if revision < 0 then None
                   else case strconv_Atoi c of
                     None \<Rightarrow> None
                   | Some addition \<Rightarrow> if addition < 0 then None else Some (schemaver_New model revision addition))
      | _ \<Rightarrow> None)"

definition SchemaVer_Valid :: "SchemaVer \<Rightarrow> bool" where
  "SchemaVer_Valid s \<longleftrightarrow> sv_Model s > 0 \<and> sv_Revision s \<ge> 0 \<and> sv_Addition s \<ge> 0"

definition SchemaVer_String :: "SchemaVer \<Rightarrow> string" where
  "SchemaVer_String s = ''v'' @ strconv_Itoa (sv_Model s) @ ''.'' @ strconv_Itoa (sv_Revision s) @ ''.'' @ strconv_Itoa (sv_Addition s)"

definition SchemaVer_LessThan :: "SchemaVer \<Rightarrow> SchemaVer \<Rightarrow> bool" where
  "SchemaVer_LessThan s other =
     (if sv_Model s \<noteq> sv_Model other then sv_Model s < sv_Model other
      else if sv_Revision s \<noteq> sv_Revision other then sv_Revision s < sv_Revision other
      else sv_Addition s < sv_Addition other)"

definition SchemaVer_Equal :: "SchemaVer \<Rightarrow> SchemaVer \<Rightarrow> bool" where
  "SchemaVer_Equal s other \<longleftrightarrow>
     sv_Model s = sv_Model other \<and> sv_Revision s = sv_Revision other \<and> sv_Addition s = sv_Addition other"

definition SchemaVer_LessThanOrEqualTo :: "SchemaVer \<Rightarrow> SchemaVer \<Rightarrow> bool" where
  "SchemaVer_LessThanOrEqualTo s other \<longleftrightarrow> SchemaVer_LessThan s other \<or> SchemaVer_Equal s other"

definition SchemaVer_GreaterThan :: "SchemaVer \<Rightarrow> SchemaVer \<Rightarrow> bool" where
  "SchemaVer_GreaterThan s other =
     (if sv_Model s \<noteq> sv_Model other then sv_Model s > sv_Model other
      else if sv_Revision s \<noteq> sv_Revision other then sv_Revision s > sv_Revision other
      else sv_Addition s > sv_Addition other)"

definition SchemaVer_GreaterOrEqualTo :: "SchemaVer \<Rightarrow> SchemaVer \<Rightarrow> bool" where
  "SchemaVer_GreaterOrEqualTo s other \<longleftrightarrow> SchemaVer_GreaterThan s other \<or> SchemaVer_Equal s other"

section \<open>Facts\<close>

definition SchemaVer_cmp :: "SchemaVer \<Rightarrow> SchemaVer \<Rightarrow> int" where
  "SchemaVer_cmp a b = (if SchemaVer_LessThan a b then -1 else if SchemaVer_Equal a b then 0 else 1)"

lemmas schemaver_order = SchemaVer_LessThan_def SchemaVer_Equal_def SchemaVer_GreaterThan_def SchemaVer_LessThanOrEqualTo_def
  SchemaVer_GreaterOrEqualTo_def

interpretation schemaver: three_way_order SchemaVer_cmp
  by unfold_locales (auto simp: SchemaVer_cmp_def schemaver_order split: if_splits)

lemma schema_part_no_dot: "CHR ''.'' \<notin> set (strconv_Itoa i)"
  by (simp add: Itoa_no_sep is_digit_def byte_val_def)

lemma schema_part_no_space: "\<forall>c \<in> set (strconv_Itoa i). \<not> is_space c"
proof
  fix c assume "c \<in> set (strconv_Itoa i)"
  then have "is_digit c \<or> c = CHR ''-''" using Itoa_no_sep by blast
  then show "\<not> is_space c" by (auto simp: is_digit_def is_space_def byte_val_def)
qed

section \<open>Properties\<close>

text \<open>C36: a valid schema version is printed and parsed back to itself, and a text that parses gives a valid version; the order on
  versions is total, the four comparisons agreeing with it.\<close>

theorem schemaver_roundtrip:
  "(SchemaVer_Valid s \<and> fits_int64 (sv_Model s) \<and> fits_int64 (sv_Revision s) \<and> fits_int64 (sv_Addition s)
     \<longrightarrow> schemaver_Parse (SchemaVer_String s) = Some s)
   \<and> (schemaver_Parse t = Some s \<longrightarrow> SchemaVer_Valid s)
   \<and> (SchemaVer_GreaterOrEqualTo s r \<longleftrightarrow> \<not> SchemaVer_LessThan s r)
   \<and> (SchemaVer_GreaterThan s r \<longleftrightarrow> SchemaVer_LessThan r s)
   \<and> (SchemaVer_LessThanOrEqualTo s r \<longleftrightarrow> \<not> SchemaVer_LessThan r s)"
proof (intro conjI impI)
  assume a: "SchemaVer_Valid s \<and> fits_int64 (sv_Model s) \<and> fits_int64 (sv_Revision s) \<and> fits_int64 (sv_Addition s)"
  let ?a = "CHR ''v'' # strconv_Itoa (sv_Model s)" and ?b = "strconv_Itoa (sv_Revision s)" and ?c = "strconv_Itoa (sv_Addition s)"
  have str: "SchemaVer_String s = ?a @ CHR ''.'' # ?b @ CHR ''.'' # ?c" by (simp add: SchemaVer_String_def)
  have "\<forall>c \<in> set (SchemaVer_String s). \<not> is_space c"
    unfolding str using schema_part_no_space by (auto simp: is_space_def byte_val_def)
  then have trim: "strings_TrimSpace (SchemaVer_String s) = SchemaVer_String s" by (intro TrimSpace_id) auto
  have "split_char (CHR ''.'') (SchemaVer_String s) = [?a, ?b, ?c]"
    unfolding str using schema_part_no_dot split_char_append [of "CHR ''.''" ?a] split_char_append [of "CHR ''.''" ?b] split_char_notin [of "CHR ''.''" ?c]
    by simp
  moreover have "strings_TrimPrefix ?a ''v'' = strconv_Itoa (sv_Model s)"
    by (simp add: strings_TrimPrefix_def strings_HasPrefix_def)
  ultimately show "schemaver_Parse (SchemaVer_String s) = Some s"
    using a by (simp add: schemaver_Parse_def trim Atoi_Itoa SchemaVer_Valid_def schemaver_New_def)
next
  assume "schemaver_Parse t = Some s"
  then show "SchemaVer_Valid s"
    by (auto simp: schemaver_Parse_def schemaver_New_def SchemaVer_Valid_def split: list.splits option.splits if_splits)
qed (auto simp: schemaver_order)

theorem schemaver_roundtrip_witness:
  "schemaver_Parse (SchemaVer_String (schemaver_New 6 1 9)) = Some (schemaver_New 6 1 9)"
  using schemaver_roundtrip [of "schemaver_New 6 1 9"] by (simp add: SchemaVer_Valid_def schemaver_New_def fits_int64_def)

end
