(* ===== verification/Db_Store.thy ===== *)
theory Db_Store
  imports Db_Model Schema_Ver
begin

text \<open>
  Searching the tables: \<^verbatim>\<open>operating_system_store.go\<close>, \<^verbatim>\<open>package_store.go\<close>, \<^verbatim>\<open>cpe_store.go\<close>, \<^verbatim>\<open>vulnerability_store.go\<close>,
  \<^verbatim>\<open>vulnerability_decorator_store.go\<close>, \<^verbatim>\<open>provider_store.go\<close>, \<^verbatim>\<open>architecture_alias_store.go\<close>, \<^verbatim>\<open>blob_store.go\<close>,
  \<^verbatim>\<open>refs.go\<close> and \<^verbatim>\<open>fillers.go\<close> of \<^verbatim>\<open>grype/db/v6\<close>.

  A query built with \<^verbatim>\<open>gorm\<close> is the list of rows it selects: \<^verbatim>\<open>Where\<close> filters it, \<^verbatim>\<open>Joins\<close> repeats a row for each row it
  is joined with.  Statements do not fail; reading in batches is reading.  What searches write, the aliases applied to
  a specifier, is the specifier returned.  Regular expressions of version patterns are the parameter \<open>de_regexp\<close>.
\<close>

record 'o db_env =
  de_libs :: "'o libs"
  de_names :: ecosystem_names
  de_regexp :: "string \<Rightarrow> (string \<Rightarrow> bool) option"
  de_cvss :: cvss_env
  de_ToCamel :: "string \<Rightarrow> string"
  de_purl :: "string \<Rightarrow> (string \<times> string) option"
  de_penv :: penv
  de_dbVersion :: SchemaVer
  de_SwiplPackPkg :: string
  de_UnknownPkg :: string

text \<open>\<^verbatim>\<open>errors.Is\<close> for the errors the searches announce.\<close>

definition ErrMissingOSIdentification :: serror where "ErrMissingOSIdentification = ErrorText ''missing OS name or codename''"
definition ErrOSNotPresent :: serror where "ErrOSNotPresent = ErrorText ''OS not present''"
definition ErrLimitReached :: serror where "ErrLimitReached = ErrorText ''query limit reached''"

fun errors_Is :: "serror \<Rightarrow> serror \<Rightarrow> bool" where
  "errors_Is (WrapError s e) target = (WrapError s e = target \<or> errors_Is e target)"
| "errors_Is (FatalError s e) target = (FatalError s e = target \<or> errors_Is e target)"
| "errors_Is (JoinError es) target = (JoinError es = target \<or> list_ex (\<lambda>e. errors_Is e target) es)"
| "errors_Is e target = (e = target)"

section \<open>Operating systems\<close>

definition OSSpecifier_clean :: "OSSpecifier \<Rightarrow> OSSpecifier" where
  "OSSpecifier_clean d =
     d\<lparr>oss_MajorVersion := trimZeroes (oss_MajorVersion d), oss_MinorVersion := trimZeroes (oss_MinorVersion d)\<rparr>"

definition OSSpecifier_version :: "OSSpecifier \<Rightarrow> string" where
  "OSSpecifier_version d =
     (if oss_MajorVersion d \<noteq> [] then
        (if oss_MinorVersion d \<noteq> [] then
           (if oss_RemainingVersion d \<noteq> []
            then oss_MajorVersion d @ ''.'' @ oss_MinorVersion d @ ''.'' @ oss_RemainingVersion d
            else oss_MajorVersion d @ ''.'' @ oss_MinorVersion d)
         else oss_MajorVersion d)
      else oss_LabelVersion d)"

definition matchesVersionPattern :: "'o db_env \<Rightarrow> OSSpecifier \<Rightarrow> string \<Rightarrow> bool" where
  "matchesVersionPattern E d pattern =
     (case de_regexp E pattern of
        None \<Rightarrow> False
      | Some r \<Rightarrow>
          if r (OSSpecifier_version d) then True
          else if oss_LabelVersion d \<noteq> [] then r (oss_LabelVersion d)
          else False)"

text \<open>The version of the schema this client knows: \<^verbatim>\<open>ModelVersion\<close>, \<^verbatim>\<open>Revision\<close>, \<^verbatim>\<open>Addition\<close>.\<close>

definition db_clientVersion :: "'o Version" where
  "db_clientVersion = New ''6.1.9'' SemanticFormat"

definition canUseOverride :: "'o libs \<Rightarrow> OperatingSystemSpecifierOverride \<Rightarrow> 'o Version option \<Rightarrow> (bool \<times> verror option) go" where
  "canUseOverride L override clientVersion =
     (case clientVersion of
        None \<Rightarrow> Some (True, None)
      | Some v \<Rightarrow>
          if oo_ApplicableClientDBSchemas override = [] then Some (True, None)
          else case GetConstraint L (oo_ApplicableClientDBSchemas override) SemanticFormat of
            Inl e \<Rightarrow> Some (True, Some (Wrap ''unable to parse version constraint'' e))
          | Inr c \<Rightarrow>
              map_option (\<lambda>(_, ok, err).
                  case err of
                    Some e \<Rightarrow> (True, Some (Wrap ''unable to check if client constraint'' e))
                  | None \<Rightarrow> (ok, None))
                (constraint_Satisfied L c (Some v)))"

definition applyOverride :: "OSSpecifier \<Rightarrow> OperatingSystemSpecifierOverride \<Rightarrow> OSSpecifier \<times> bool" where
  "applyOverride d override =
     (let d1 = (case oo_ReplacementName override of Some n \<Rightarrow> d\<lparr>oss_Name := n\<rparr> | None \<Rightarrow> d);
          d2 = (if oo_Rolling override then d1\<lparr>oss_MajorVersion := [], oss_MinorVersion := []\<rparr> else d1);
          d3 = (case oo_ReplacementMajorVersion override of Some v \<Rightarrow> d2\<lparr>oss_MajorVersion := v\<rparr> | None \<Rightarrow> d2);
          d4 = (case oo_ReplacementMinorVersion override of Some v \<Rightarrow> d3\<lparr>oss_MinorVersion := v\<rparr> | None \<Rightarrow> d3);
          d5 = (case oo_ReplacementLabelVersion override of Some v \<Rightarrow> d4\<lparr>oss_LabelVersion := v\<rparr> | None \<Rightarrow> d4);
          d6 = (case oo_ReplacementChannel override of Some v \<Rightarrow> d5\<lparr>oss_Channel := v\<rparr> | None \<Rightarrow> d5) in
      (d6, oo_ReplacementName override \<noteq> None \<or> oo_Rolling override \<or> oo_ReplacementMajorVersion override \<noteq> None
         \<or> oo_ReplacementMinorVersion override \<noteq> None \<or> oo_ReplacementLabelVersion override \<noteq> None
         \<or> oo_ReplacementChannel override \<noteq> None))"

fun applyOSSpecifierOverrides ::
  "'o db_env \<Rightarrow> OSSpecifier \<Rightarrow> OperatingSystemSpecifierOverride list \<Rightarrow> 'o Version option \<Rightarrow> OSSpecifier go" where
  "applyOSSpecifierOverrides E d [] clientVersion = Some d"
| "applyOSSpecifierOverrides E d (o1 # overrides) clientVersion = do {
     r \<leftarrow> canUseOverride (de_libs E) o1 clientVersion;
     (case r of (canUse, err) \<Rightarrow>
        if err = None \<and> \<not> canUse then applyOSSpecifierOverrides E d overrides clientVersion
        else if oo_Codename o1 \<noteq> [] \<and> oo_Codename o1 \<noteq> oss_LabelVersion d then applyOSSpecifierOverrides E d overrides clientVersion
        else if oo_Version o1 \<noteq> [] \<and> oo_Version o1 \<noteq> OSSpecifier_version d then applyOSSpecifierOverrides E d overrides clientVersion
        else if oo_VersionPattern o1 \<noteq> [] \<and> \<not> matchesVersionPattern E d (oo_VersionPattern o1)
          then applyOSSpecifierOverrides E d overrides clientVersion
        else Some (fst (applyOverride d o1)))
   }"

definition applyOSAlias :: "'o db_env \<Rightarrow> db \<Rightarrow> OSSpecifier \<Rightarrow> OSSpecifier go" where
  "applyOSAlias E T d =
     (if oss_Name d = [] then Some d
      else applyOSSpecifierOverrides E d (filter (\<lambda>a. strings_EqualFold (oo_Alias a) (oss_Name d)) (t_OSOverrides T))
             (Some db_clientVersion))"

definition prepareQuery :: "OSSpecifier \<Rightarrow> OperatingSystem list \<Rightarrow> OperatingSystem list" where
  "prepareQuery d rows =
     (let rows = (if oss_Name d \<noteq> []
            then filter (\<lambda>r. strings_EqualFold (os_Name r) (oss_Name d) \<or> strings_EqualFold (os_ReleaseID r) (oss_Name d)) rows else rows);
          rows = (if oss_LabelVersion d \<noteq> []
            then filter (\<lambda>r. strings_EqualFold (os_Codename r) (oss_LabelVersion d)
                             \<or> strings_EqualFold (os_LabelVersion r) (oss_LabelVersion d)) rows else rows) in
      if oss_Channel d \<noteq> [] then filter (\<lambda>r. strings_EqualFold (os_Channel r) (oss_Channel d)) rows
      else filter (\<lambda>r. os_Channel r = []) rows)"

definition searchForOSExactVersions :: "OSSpecifier \<Rightarrow> OperatingSystem list \<Rightarrow> OperatingSystem list" where
  "searchForOSExactVersions d query =
     (let byVersion = (\<lambda>major minor. filter (\<lambda>r. os_MajorVersion r = major \<and> os_MinorVersion r = minor) query) in
      if oss_MajorVersion d = [] \<and> oss_MinorVersion d = [] then query
      else if oss_MajorVersion d \<noteq> [] then
        let result = byVersion (oss_MajorVersion d) (oss_MinorVersion d) in
        if result \<noteq> [] then result
        else if oss_DisableFallback d then []
        else
          let result = byVersion (oss_MajorVersion d) [] in
          if result \<noteq> [] then result
          else filter (\<lambda>r. os_MajorVersion r = oss_MajorVersion d) query
      else [])"

definition GetOperatingSystems :: "'o db_env \<Rightarrow> db \<Rightarrow> OSSpecifier \<Rightarrow> (serror + OperatingSystem list) go" where
  "GetOperatingSystems E T d =
     (if oss_Name d = [] \<and> oss_LabelVersion d = [] then Some (Inl ErrMissingOSIdentification)
      else do {
        d \<leftarrow> (if oss_DisableAliasing d then Some d else applyOSAlias E T d);
        let d = OSSpecifier_clean d;
        Some (Inr (searchForOSExactVersions d (prepareQuery d (t_OperatingSystems T))))
      })"

definition UpdateOperatingSystemEOL ::
  "db \<Rightarrow> OSSpecifier \<Rightarrow> int option \<Rightarrow> int option \<Rightarrow> db \<times> nat" where
  "UpdateOperatingSystemEOL T spec eolDate eoasDate =
     (let spec = OSSpecifier_clean spec;
          hit = (\<lambda>r. (oss_Name spec \<noteq> [] \<longrightarrow> strings_EqualFold (os_Name r) (oss_Name spec))
            \<and> (oss_MajorVersion spec \<noteq> [] \<longrightarrow> os_MajorVersion r = oss_MajorVersion spec)
            \<and> (oss_MinorVersion spec \<noteq> [] \<longrightarrow> os_MinorVersion r = oss_MinorVersion spec)
            \<and> (oss_LabelVersion spec \<noteq> [] \<longrightarrow> strings_EqualFold (os_Codename r) (oss_LabelVersion spec)
                 \<or> strings_EqualFold (os_LabelVersion r) (oss_LabelVersion spec))) in
      (T\<lparr>t_OperatingSystems := map (\<lambda>r. if hit r then r\<lparr>os_EOLDate := eolDate, os_EOASDate := eoasDate\<rparr> else r) (t_OperatingSystems T)\<rparr>,
       length (filter hit (t_OperatingSystems T))))"

section \<open>Vulnerabilities\<close>

text \<open>The conditions a specifier sets on a row of the vulnerabilities, joined with one of the aliases of its name.  A specifier
  that sets none is dropped from the disjunction.\<close>

definition spec_conditions :: "VulnerabilitySpecifier \<Rightarrow> (VulnerabilityHandle \<times> VulnerabilityAlias option \<Rightarrow> bool) list" where
  "spec_conditions config =
     (if vs_Name config = [] then []
      else if vs_IncludeAliases config
        then [\<lambda>(v, a). strings_EqualFold (vh_Name v) (vs_Name config)
                        \<or> (case a of None \<Rightarrow> False | Some a \<Rightarrow> strings_EqualFold (va_Alias a) (vs_Name config))]
        else [\<lambda>(v, a). strings_EqualFold (vh_Name v) (vs_Name config)])
     @ (if vs_ID config = 0 then [] else [\<lambda>(v, a). vh_ID v = vs_ID config])
     @ (case vs_PublishedAfter config of None \<Rightarrow> [] | Some t \<Rightarrow> [\<lambda>(v, a). case vh_PublishedDate v of None \<Rightarrow> False | Some d \<Rightarrow> d > t])
     @ (case vs_ModifiedAfter config of None \<Rightarrow> [] | Some t \<Rightarrow> [\<lambda>(v, a). case vh_ModifiedDate v of None \<Rightarrow> False | Some d \<Rightarrow> d > t])
     @ (if vs_Status config = [] then [] else [\<lambda>(v, a). vh_Status v = vs_Status config])
     @ (if vs_Providers config = [] then [] else [\<lambda>(v, a). vh_ProviderID v \<in> set (vs_Providers config)])"

definition alias_rows :: "db \<Rightarrow> bool \<Rightarrow> VulnerabilityHandle \<Rightarrow> VulnerabilityAlias option list" where
  "alias_rows T includeAliasJoin v =
     (if includeAliasJoin then
        (let as = filter (\<lambda>a. strings_EqualFold (va_Name a) (vh_Name v)) (t_Aliases T) in
         if as = [] then [None] else map Some as)
      else [None])"

definition vulnerability_rows :: "db \<Rightarrow> VulnerabilitySpecifier list \<Rightarrow> VulnerabilityHandle list \<Rightarrow> VulnerabilityHandle list" where
  "vulnerability_rows T configs rows =
     (if configs = [] then rows
      else
        let includeAliasJoin = list_ex (\<lambda>c. vs_Name c \<noteq> [] \<and> vs_IncludeAliases c) configs;
            orConditions = filter (\<lambda>cs. cs \<noteq> []) (map spec_conditions configs) in
        concat (map (\<lambda>v. map (\<lambda>_. v) (filter (\<lambda>a. orConditions = [] \<or> list_ex (list_all (\<lambda>p. p (v, a))) orConditions)
          (alias_rows T includeAliasJoin v))) rows))"

text \<open>Rows up to the limit; a limit that is reached is reported.\<close>

definition limited :: "nat \<Rightarrow> 'a list \<Rightarrow> 'a list \<times> serror option" where
  "limited limit rows =
     (if limit > 0 \<and> limit \<le> length rows then (take limit rows, Some ErrLimitReached) else (rows, None))"

text \<open>Decoded blobs are attached where there is a blob and no value yet.\<close>

definition attach_vulnerability :: "db \<Rightarrow> VulnerabilityHandle \<Rightarrow> VulnerabilityHandle" where
  "attach_vulnerability T v =
     (if vh_BlobID v = 0 \<or> vh_BlobValue v \<noteq> None then v else v\<lparr>vh_BlobValue := map_of (t_VulnerabilityBlobs T) (vh_BlobID v)\<rparr>)"

definition AllProviders :: "db \<Rightarrow> DbProvider list" where
  "AllProviders T = go_sort (\<lambda>a b. strings_Compare (prv_ID a) (prv_ID b) < 0) (t_Providers T)"

definition provider_of :: "db \<Rightarrow> string \<Rightarrow> DbProvider option" where
  "provider_of T i = map_of (rev (map (\<lambda>p. (prv_ID p, p)) (AllProviders T))) i"

definition GetProvider :: "db \<Rightarrow> string \<Rightarrow> serror + DbProvider" where
  "GetProvider T name =
     (case filter (\<lambda>p. prv_ID p = name) (t_Providers T) of
        [] \<Rightarrow> Inl (WrapError ''failed to fetch provider'' (ErrorText ''record not found''))
      | p # _ \<Rightarrow> Inr p)"

definition GetVulnerabilities ::
  "db \<Rightarrow> VulnerabilitySpecifier option \<Rightarrow> bool \<Rightarrow> nat \<Rightarrow> VulnerabilityHandle list \<times> serror option" where
  "GetVulnerabilities T vuln preload limit =
     (let rows = (case vuln of None \<Rightarrow> t_Vulnerabilities T | Some config \<Rightarrow> vulnerability_rows T [config] (t_Vulnerabilities T));
          (rows, err) = limited limit rows;
          loaded = (if preload then map (\<lambda>v. attach_vulnerability T (v\<lparr>vh_Provider := provider_of T (vh_ProviderID v)\<rparr>)) rows else rows) in
      (loaded, map_option (WrapError ''unable to fetch vulnerability records'') err))"

section \<open>Packages and CPEs\<close>

definition applyPackageAlias :: "db \<Rightarrow> PackageSpecifier \<Rightarrow> PackageSpecifier" where
  "applyPackageAlias T d =
     (if ps_Ecosystem d = [] then d
      else
        let aliases = filter (\<lambda>a. strings_EqualFold (po_Ecosystem a) (ps_Ecosystem d)) (t_PackageOverrides T) in
        case filter (\<lambda>a. po_Ecosystem a \<noteq> []) aliases of
          [] \<Rightarrow> d
        | alias # _ \<Rightarrow> (case po_ReplacementEcosystem alias of Some e \<Rightarrow> d\<lparr>ps_Ecosystem := e\<rparr> | None \<Rightarrow> d))"

definition queryCPEAttributeScope :: "string \<Rightarrow> string \<Rightarrow> bool \<Rightarrow> bool" where
  "queryCPEAttributeScope v column allowBroad =
     (if v = [] then True
      else if allowBroad then strings_EqualFold column v \<or> strings_EqualFold column []
      else strings_EqualFold column v)"

definition handleCPEOptions :: "Attributes \<Rightarrow> bool \<Rightarrow> Cpe \<Rightarrow> bool" where
  "handleCPEOptions c allowBroad row \<longleftrightarrow>
     queryCPEAttributeScope (cpe_Part c) (dc_Part row) allowBroad
     \<and> queryCPEAttributeScope (cpe_Vendor c) (dc_Vendor row) allowBroad
     \<and> queryCPEAttributeScope (cpe_Product c) (dc_Product row) allowBroad
     \<and> queryCPEAttributeScope (cpe_Edition c) (dc_Edition row) allowBroad
     \<and> queryCPEAttributeScope (cpe_Language c) (dc_Language row) allowBroad
     \<and> queryCPEAttributeScope (cpe_SWEdition c) (dc_SoftwareEdition row) allowBroad
     \<and> queryCPEAttributeScope (cpe_TargetSW c) (dc_TargetSoftware row) allowBroad
     \<and> queryCPEAttributeScope (cpe_TargetHW c) (dc_TargetHardware row) allowBroad
     \<and> queryCPEAttributeScope (cpe_Other c) (dc_Other row) allowBroad"

text \<open>A row of packages joined with the CPEs of its package.\<close>

definition package_cpe_rows :: "db \<Rightarrow> int \<Rightarrow> Cpe list" where
  "package_cpe_rows T pid = concat (map (\<lambda>(_, cid). filter (\<lambda>c. dc_ID c = cid) (t_Cpes T)) (filter (\<lambda>(p, _). p = pid) (t_PackageCpes T)))"

definition handlePackage :: "db \<Rightarrow> packageHandle list \<Rightarrow> PackageSpecifier option \<Rightarrow> bool \<Rightarrow> packageHandle list" where
  "handlePackage T rows pkg allowBroad =
     (case pkg of
        None \<Rightarrow> rows
      | Some p \<Rightarrow>
          let p = applyPackageAlias T p in
          concat (map (\<lambda>h. concat (map (\<lambda>row.
              if (ps_Name p \<noteq> [] \<longrightarrow> strings_EqualFold (dp_Name row) (ps_Name p))
                 \<and> (ps_Ecosystem p \<noteq> [] \<longrightarrow> strings_EqualFold (dp_Ecosystem row) (ps_Ecosystem p))
              then (case ps_CPE p of
                      None \<Rightarrow> [h]
                    | Some c \<Rightarrow> map (\<lambda>_. h) (filter (handleCPEOptions c allowBroad) (package_cpe_rows T (dp_ID row))))
              else []) (filter (\<lambda>row. dp_ID row = ph_PackageID h) (t_Packages T)))) rows))"

definition join_vulnerabilities :: "db \<Rightarrow> VulnerabilitySpecifier list \<Rightarrow> ('h \<Rightarrow> int) \<Rightarrow> 'h list \<Rightarrow> 'h list" where
  "join_vulnerabilities T configs vid rows =
     (if configs = [] then rows
      else concat (map (\<lambda>h. map (\<lambda>_. h) (vulnerability_rows T configs (filter (\<lambda>v. vh_ID v = vid h) (t_Vulnerabilities T)))) rows))"

definition hasOSSpecified :: "OSSpecifier option \<Rightarrow> bool" where
  "hasOSSpecified d = (case d of None \<Rightarrow> False | Some s \<Rightarrow> s \<noteq> NoOSSpecified)"

text \<open>What the specifiers of operating systems select: the identifiers found, and whether there was a specific system, any, or
  none among them.\<close>

fun os_options :: "'o db_env \<Rightarrow> db \<Rightarrow> OSSpecifier option list \<Rightarrow> (serror + int list \<times> bool \<times> bool \<times> bool) go" where
  "os_options E T [] = Some (Inr ([], False, False, False))"
| "os_options E T (config # configs) =
     (case config of
        Some d \<Rightarrow>
          if d \<noteq> NoOSSpecified then do {
            r \<leftarrow> GetOperatingSystems E T d;
            (case r of
               Inl e \<Rightarrow> Some (Inl (WrapError ''unable to resolve operating system'' e))
             | Inr oss \<Rightarrow>
                 map_option (map_sum id (\<lambda>(ids, hasAny, hasNone, hasSpecific). (map os_ID oss @ ids, hasAny, hasNone, True)))
                   (os_options E T configs))
          }
          else map_option (map_sum id (\<lambda>(ids, hasAny, hasNone, hasSpecific). (ids, hasAny, True, hasSpecific))) (os_options E T configs)
      | None \<Rightarrow> map_option (map_sum id (\<lambda>(ids, hasAny, hasNone, hasSpecific). (ids, True, hasNone, hasSpecific))) (os_options E T configs))"

definition handleOSOptions ::
  "'o db_env \<Rightarrow> db \<Rightarrow> packageHandle list \<Rightarrow> OSSpecifier option list \<Rightarrow> (serror + packageHandle list) go" where
  "handleOSOptions E T rows configs =
     (let configs = (if configs = [] then [None] else configs) in
      map_option (\<lambda>r. case r of
          Inl e \<Rightarrow> Inl e
        | Inr (ids, hasAny, hasNone, hasSpecific) \<Rightarrow>
            if (hasAny \<or> hasNone) \<and> hasSpecific
              then Inl (ErrorText ''cannot mix specific OS with any or none OS specifiers'')
            else if hasAny then Inr rows
            else if hasNone then Inr (filter (\<lambda>h. ph_OperatingSystemID h = None) rows)
            else if ids = [] then Inl ErrOSNotPresent
            else Inr (filter (\<lambda>h. case ph_OperatingSystemID h of None \<Rightarrow> False | Some i \<Rightarrow> i \<in> set ids) rows))
        (os_options E T configs))"

definition attach_package :: "db \<Rightarrow> packageHandle \<Rightarrow> packageHandle" where
  "attach_package T h =
     (if ph_BlobID h = 0 \<or> ph_BlobValue h \<noteq> None then h else h\<lparr>ph_BlobValue := map_of (t_PackageBlobs T) (ph_BlobID h)\<rparr>)"

definition attach_cpe :: "db \<Rightarrow> cpeHandle \<Rightarrow> cpeHandle" where
  "attach_cpe T h =
     (if ch_BlobID h = 0 \<or> ch_BlobValue h \<noteq> None then h else h\<lparr>ch_BlobValue := map_of (t_PackageBlobs T) (ch_BlobID h)\<rparr>)"

text \<open>The options of a search for packages that the provider sets: specifiers, and that blobs are loaded.  The limit and
  broad matching of CPEs are those of the command line's search.\<close>

record GetPackageOptions =
  gp_OSs :: "OSSpecifier option list"
  gp_Vulnerabilities :: "VulnerabilitySpecifier list"
  gp_PreloadBlob :: bool
  gp_AllowBroadCPEMatching :: bool
  gp_Limit :: nat

definition getPackages ::
  "'o db_env \<Rightarrow> db \<Rightarrow> packageHandle list \<Rightarrow> PackageSpecifier option \<Rightarrow> GetPackageOptions
   \<Rightarrow> (packageHandle list \<times> serror option) go" where
  "getPackages E T tbl pkg config =
     (let rows = join_vulnerabilities T (gp_Vulnerabilities config) ph_VulnerabilityID
                   (handlePackage T tbl pkg (gp_AllowBroadCPEMatching config)) in
      map_option (\<lambda>r. case r of
          Inl e \<Rightarrow> ([], Some e)
        | Inr rows \<Rightarrow>
            (let (rows, err) = limited (gp_Limit config) rows in
             (if gp_PreloadBlob config then map (attach_package T) rows else rows,
              map_option (WrapError ''unable to fetch package records'') err)))
        (handleOSOptions E T rows (gp_OSs config)))"

record GetCPEOptions =
  gc_Vulnerabilities :: "VulnerabilitySpecifier list"
  gc_PreloadBlob :: bool
  gc_AllowBroadCPEMatching :: bool
  gc_Limit :: nat

definition handleCPE :: "db \<Rightarrow> cpeHandle list \<Rightarrow> Attributes option \<Rightarrow> bool \<Rightarrow> cpeHandle list" where
  "handleCPE T rows c allowBroad =
     (case c of
        None \<Rightarrow> rows
      | Some a \<Rightarrow> concat (map (\<lambda>h. map (\<lambda>_. h) (filter (handleCPEOptions a allowBroad) (filter (\<lambda>row. dc_ID row = ch_CpeID h) (t_Cpes T)))) rows))"

definition getCPEHandles :: "db \<Rightarrow> cpeHandle list \<Rightarrow> Attributes option \<Rightarrow> GetCPEOptions \<Rightarrow> cpeHandle list \<times> serror option" where
  "getCPEHandles T tbl c config =
     (let rows = join_vulnerabilities T (gc_Vulnerabilities config) ch_VulnerabilityID (handleCPE T tbl c (gc_AllowBroadCPEMatching config));
          (rows, err) = limited (gc_Limit config) rows in
      (if gc_PreloadBlob config then map (attach_cpe T) rows else rows,
       map_option (WrapError ''unable to fetch CPE records'') err))"

section \<open>Decorations\<close>

definition GetKnownExploitedVulnerabilities :: "'o db_env \<Rightarrow> db \<Rightarrow> string \<Rightarrow> KnownExploitedVulnerabilityHandle list" where
  "GetKnownExploitedVulnerabilities E T cve =
     (if \<not> SchemaVer_GreaterOrEqualTo (de_dbVersion E) (schemaver_New 6 0 1) then []
      else map (\<lambda>h. if kh_BlobID h = 0 \<or> kh_BlobValue h \<noteq> None then h else h\<lparr>kh_BlobValue := map_of (t_KEVBlobs T) (kh_BlobID h)\<rparr>)
        (filter (\<lambda>h. strings_EqualFold (kh_Cve h) cve) (t_KEVs T)))"

definition GetEpss :: "'o db_env \<Rightarrow> db \<Rightarrow> string \<Rightarrow> serror + EpssHandle list" where
  "GetEpss E T cve =
     (if \<not> SchemaVer_GreaterOrEqualTo (de_dbVersion E) (schemaver_New 6 0 2) then Inr []
      else case t_EpssMetadata T of
        [] \<Rightarrow> Inl (WrapError ''unable to fetch EPSS metadata'' (ErrorText ''record not found''))
      | date # _ \<Rightarrow> Inr (map (\<lambda>h. h\<lparr>eh_Date := date\<rparr>) (filter (\<lambda>h. strings_EqualFold (eh_Cve h) cve) (t_Epss T))))"

definition GetCWEs :: "'o db_env \<Rightarrow> db \<Rightarrow> string \<Rightarrow> CWEHandle list" where
  "GetCWEs E T cve =
     (if \<not> SchemaVer_GreaterOrEqualTo (de_dbVersion E) (schemaver_New 6 1 2) then []
      else filter (\<lambda>h. strings_EqualFold (wh_CVE h) cve) (t_CWEs T))"

definition GetArchitectureAliases :: "db \<Rightarrow> (string \<times> string) list" where
  "GetArchitectureAliases T = (case t_ArchitectureAliases T of None \<Rightarrow> [] | Some rows \<Rightarrow> rev rows)"

section \<open>Filling in references\<close>

text \<open>The last row with an identifier wins; without an identifier the reference is left alone, without a row it becomes nil.\<close>

definition row_by_id :: "('r \<Rightarrow> int) \<Rightarrow> 'r list \<Rightarrow> int \<Rightarrow> 'r option" where
  "row_by_id refID rows i = map_of (rev (map (\<lambda>r. (refID r, r)) rows)) i"

text \<open>A handle whose vulnerability has no row is a panic: the address of a field of nil is taken.\<close>

definition fill_vulnerability :: "db \<Rightarrow> int \<Rightarrow> VulnerabilityHandle go" where
  "fill_vulnerability T i =
     map_option (\<lambda>v. attach_vulnerability T v\<lparr>vh_Provider := provider_of T (vh_ProviderID v)\<rparr>)
       (row_by_id vh_ID (t_Vulnerabilities T) i)"

definition fill_package :: "db \<Rightarrow> packageHandle \<Rightarrow> packageHandle go" where
  "fill_package T h = do {
     let h = attach_package T h;
     let h = (case ph_OperatingSystemID h of
                None \<Rightarrow> h
              | Some i \<Rightarrow> h\<lparr>ph_OperatingSystem := row_by_id os_ID (t_OperatingSystems T) i\<rparr>);
     let h = h\<lparr>ph_Package := row_by_id dp_ID (t_Packages T) (ph_PackageID h)\<rparr>;
     v \<leftarrow> fill_vulnerability T (ph_VulnerabilityID h);
     Some (h\<lparr>ph_Vulnerability := Some v\<rparr>)
   }"

definition fill_cpe :: "db \<Rightarrow> cpeHandle \<Rightarrow> cpeHandle go" where
  "fill_cpe T h = do {
     let h = attach_cpe T h;
     let h = h\<lparr>ch_CPE := row_by_id dc_ID (t_Cpes T) (ch_CpeID h)\<rparr>;
     v \<leftarrow> fill_vulnerability T (ch_VulnerabilityID h);
     Some (h\<lparr>ch_Vulnerability := Some v\<rparr>)
   }"

fun map_go :: "('a \<Rightarrow> 'b go) \<Rightarrow> 'a list \<Rightarrow> 'b list go" where
  "map_go f [] = Some []"
| "map_go f (x # xs) = do { y \<leftarrow> f x; ys \<leftarrow> map_go f xs; Some (y # ys) }"

definition fillPackageHandles :: "db \<Rightarrow> packageHandle list \<Rightarrow> packageHandle list go" where
  "fillPackageHandles T = map_go (fill_package T)"

definition fillCPEHandles :: "db \<Rightarrow> cpeHandle list \<Rightarrow> cpeHandle list go" where
  "fillCPEHandles T = map_go (fill_cpe T)"

end
