(* ===== verification/Db_Provider.thy ===== *)
theory Db_Provider
  imports Db_Store Result_Set
begin

text \<open>
  The vulnerability provider over the database: \<^verbatim>\<open>vulnerability.go\<close>, \<^verbatim>\<open>search_query.go\<close>, \<^verbatim>\<open>vulnerability_provider.go\<close> and
  the package \<^verbatim>\<open>name\<close> of \<^verbatim>\<open>grype/db/v6\<close>.

  A dereference of nil is a panic (\<^const>\<open>None\<close>).  The pointer a vulnerability keeps to its row is left out.  Handles of affected
  and of unaffected packages (and CPEs) are rows of the same record; the code has each step twice, once for each type.
\<close>

section \<open>Names of packages\<close>

fun pythonNormalize :: "string \<Rightarrow> string" where
  "pythonNormalize [] = []"
| "pythonNormalize (c # cs) =
     (if c \<in> {CHR ''-'', CHR ''_'', CHR ''.''} then
        (case cs of
           d # _ \<Rightarrow> if d \<in> {CHR ''-'', CHR ''_'', CHR ''.''} then pythonNormalize cs else CHR ''-'' # pythonNormalize cs
         | [] \<Rightarrow> ''-'')
      else c # pythonNormalize cs)"

definition JenkinsPluginPkg :: string where "JenkinsPluginPkg = ''jenkins-plugin''"

definition java_Names :: "'o db_env \<Rightarrow> MPackage \<Rightarrow> string list" where
  "java_Names E p =
     (let fromPom = (case mp_Metadata p of
            JavaMeta md \<Rightarrow>
              if java_PomGroupID md \<noteq> [] then
                (if java_PomArtifactID md \<noteq> [] then [java_PomGroupID md @ '':'' @ java_PomArtifactID md] else [])
                @ (if java_ManifestName md \<noteq> [] then [java_PomGroupID md @ '':'' @ java_ManifestName md] else [])
              else []
          | _ \<Rightarrow> []);
          fromPurl = (if pkg_PURL p \<noteq> [] then
              (case de_purl E (pkg_PURL p) of None \<Rightarrow> [] | Some (ns, n) \<Rightarrow> [ns @ '':'' @ n])
            else []) in
      strset_List (de_penv E) (fromPom @ fromPurl))"

definition name_Normalize :: "string \<Rightarrow> string \<Rightarrow> string" where
  "name_Normalize name pkgType = (if pkgType = PythonPkg then pythonNormalize name else name)"

definition appendRootIONameVariants :: "string list \<Rightarrow> string \<Rightarrow> string list" where
  "appendRootIONameVariants names t =
     fold (\<lambda>candidate out. if candidate = [] \<or> candidate \<in> set out then out else out @ [candidate])
       (concat (map (\<lambda>n. [StripPrefix n t, AddPrefix n t]) names)) names"

definition PackageNames :: "'o db_env \<Rightarrow> MPackage \<Rightarrow> string list" where
  "PackageNames E p =
     (let parts = (if pkg_Type p = PythonPkg then [pythonNormalize (pkg_Name p)]
                   else if pkg_Type p = JavaPkg \<or> pkg_Type p = JenkinsPluginPkg then java_Names E p
                   else []);
          names = (if parts \<noteq> [] then parts else [pkg_Name p]) in
      if rootio_IsPackage (pkg_Name p) (pkg_Version p) (pkg_Type p) (javaGroupID p)
      then appendRootIONameVariants names (pkg_Type p) else names)"

section \<open>Vulnerabilities from rows\<close>

record FixAvailable =
  fav_Version :: string
  fav_Date :: int
  fav_Kind :: string

record 'o DVulnerability = "'o SVulnerability" +
  dv_Available :: "FixAvailable list"
  dv_Metadata :: "VMetadata option"

definition getVersionConstraint :: "'o db_env \<Rightarrow> Range list \<Rightarrow> verror + 'o constraint" where
  "getVersionConstraint E affectedRanges =
     (let stated = filter (\<lambda>r. dbv_Constraint (rg_Version r) \<noteq> []) affectedRanges;
          constraints = map (\<lambda>r. dbv_Constraint (rg_Version r)) stated;
          types = remdups (filter (\<lambda>t. t \<noteq> []) (map (\<lambda>r. dbv_Type (rg_Version r)) stated));
          ty = (case sort_Strings types of [] \<Rightarrow> [] | t # _ \<Rightarrow> t) in
      GetConstraint (de_libs E) (strings_Join constraints ''||'') (ParseFormat (de_names E) ty))"

definition mimicV5GithubNamespace :: "'o db_env \<Rightarrow> string \<Rightarrow> string \<Rightarrow> string" where
  "mimicV5GithubNamespace E provider language =
     (let l = strings_ToLower language;
          language =
            (if l \<in> {''golang'', ''go-module''} then ''go''
             else if l \<in> {''composer'', ''php-composer''} then ''php''
             else if l \<in> {''cargo'', ''rust-crate''} then ''rust''
             else if l \<in> {''pub'', ''dart-pub''} then ''dart''
             else if l \<in> {''nuget'', ''dotnet''} then ''dotnet''
             else if l \<in> {''maven'', ''java-archive'', ''jenkins-plugin''} then ''java''
             else if l \<in> {''swifturl'', de_SwiplPackPkg E, ''swift''} then ''swift''
             else if l \<in> {''node'', ''npm''} then ''javascript''
             else if l \<in> {''pypi'', ''pip'', ''python''} then ''python''
             else if l \<in> {''rubygems'', ''gem''} then ''ruby''
             else language) in
      provider @ '':language:'' @ language)"

definition nvdProvider :: string where "nvdProvider = ''nvd''"
definition githubProvider :: string where "githubProvider = ''github''"
definition v5NvdNamespace :: string where "v5NvdNamespace = ''nvd:cpe''"

fun related_refs :: "'o db_env \<Rightarrow> VulnerabilityHandle \<Rightarrow> string \<Rightarrow> string list \<Rightarrow> string list \<Rightarrow> Reference list" where
  "related_refs E vuln language encountered [] = []"
| "related_refs E vuln language encountered (i # ids) =
     (if i \<in> set encountered then related_refs E vuln language encountered ids
      else
        let lowerID = strings_ToLower i in
        if strings_HasPrefix lowerID ''cve-'' then
          (if vh_ProviderID vuln = nvdProvider \<and> strings_EqualFold (vh_Name vuln) i
           then related_refs E vuln language encountered ids
           else \<lparr>ref_ID = i, ref_Namespace = v5NvdNamespace\<rparr> # related_refs E vuln language (i # encountered) ids)
        else if strings_HasPrefix lowerID ''ghsa-'' then
          (if vh_ProviderID vuln = githubProvider \<and> strings_EqualFold (vh_Name vuln) i
           then related_refs E vuln language encountered ids
           else \<lparr>ref_ID = i, ref_Namespace = mimicV5GithubNamespace E githubProvider language\<rparr>
                # related_refs E vuln language (i # encountered) ids)
        else related_refs E vuln language (i # encountered) ids)"

definition getRelatedVulnerabilities :: "'o db_env \<Rightarrow> VulnerabilityHandle \<Rightarrow> VulnerabilityBlob \<Rightarrow> PackageBlob option \<Rightarrow> string \<Rightarrow> Reference list" where
  "getRelatedVulnerabilities E vuln blob affected language =
     related_refs E vuln language []
       (vh_Name vuln # vb_Aliases blob @ (case affected of None \<Rightarrow> [] | Some b \<Rightarrow> pb_CVEs b))"

definition v5_distro :: "OperatingSystem \<Rightarrow> string \<times> string" where
  "v5_distro os =
     (let ver = OperatingSystem_Version (Some os); name = os_Name os; fields = split_char (CHR ''.'') ver in
      if name = ''amazon'' then (''amazonlinux'', ver)
      else if name \<in> {''mariner'', ''azurelinux''} then
        (let major = hd fields;
             ver = (case fields of _ # minor # _ \<Rightarrow> major @ ''.'' @ minor | _ \<Rightarrow> major @ ''.0'') in
         (if major \<in> {''1'', ''2''} then ''mariner'' else ''azurelinux'', ver))
      else if name = ''ubuntu'' then
        (case fields of
           [major, minor] \<Rightarrow> (name, if length minor = 1 then major @ ''.0'' @ minor else ver)
         | _ \<Rightarrow> (name, ver))
      else if name = ''oracle'' then (''oraclelinux'', ver)
      else (name, ver))"

definition MimicV5Namespace :: "'o db_env \<Rightarrow> VulnerabilityHandle \<Rightarrow> packageHandle option \<Rightarrow> string go" where
  "MimicV5Namespace E vuln affected =
     (let providerID = map_option prv_ID (vh_Provider vuln); cpe = map_option (\<lambda>p. p @ '':cpe'') providerID in
      case affected of
        None \<Rightarrow> cpe
      | Some h \<Rightarrow>
          (case ph_Package h of
             None \<Rightarrow> cpe
           | Some pkg \<Rightarrow>
               (case ph_OperatingSystem h of
                  Some os \<Rightarrow> do {
                    p \<leftarrow> providerID;
                    let (family, ver) = v5_distro os;
                    let pr = (if p = ''rhel'' then ''redhat'' else p);
                    let ver = (if p \<in> {''rhel'', ''oracle''} then hd (split_char (CHR ''.'') ver) else ver);
                    Some (pr @ '':distro:'' @ family @ '':'' @ ver)
                  }
                | None \<Rightarrow>
                    let language = strings_ToLower (dp_Ecosystem pkg) in
                    if language = ''msrc'' \<or> language = KbPkg
                      then map_option (\<lambda>p. p @ '':distro:windows:'' @ dp_Name pkg) providerID
                    else if language = BitnamiPkg then Some ''bitnami''
                    else if language = [] then cpe
                    else map_option (\<lambda>p. mimicV5GithubNamespace E p (dp_Ecosystem pkg)) providerID)))"

definition toPackageQualifiers ::
  "PackageQualifiers option \<Rightarrow> (string \<times> string) list \<Rightarrow> (string \<Rightarrow> (string \<times> string) list \<Rightarrow> Qualifier) \<Rightarrow> Qualifier list" where
  "toPackageQualifiers qualifiers archAliases newArch =
     (case qualifiers of
        None \<Rightarrow> []
      | Some q \<Rightarrow>
          map PlatformCPE (pq_PlatformCPEs q)
          @ (case pq_RpmModularity q of None \<Rightarrow> [] | Some m \<Rightarrow> [RpmModularity m])
          @ (case pq_Architecture q of None \<Rightarrow> [] | Some a \<Rightarrow> [newArch a archAliases])
          @ (if pq_RootIO q = Some True then [RootIO] else [])
          @ (if pq_GoImports q \<noteq> [] then [GoSymbols (pq_GoImports q)] else []))"

definition getPackageQualifiers ::
  "PackageBlob option \<Rightarrow> (string \<times> string) list \<Rightarrow> (string \<Rightarrow> (string \<times> string) list \<Rightarrow> Qualifier) \<Rightarrow> Qualifier list" where
  "getPackageQualifiers affected archAliases newArch =
     (case affected of None \<Rightarrow> [] | Some b \<Rightarrow> toPackageQualifiers (pb_Qualifiers b) archAliases newArch)"

text \<open>One range after the other changes state, versions and dates of availability.\<close>

definition fix_step :: "string \<times> string list \<times> FixAvailable list \<Rightarrow> Range \<Rightarrow> string \<times> string list \<times> FixAvailable list" where
  "fix_step acc r =
     (case acc of (state, versions, availables) \<Rightarrow>
        case rg_Fix r of
          None \<Rightarrow> acc
        | Some f \<Rightarrow>
            if dbf_State f = FixedStatus then
              (FixStateFixed, versions @ [dbf_Version f],
               case Option.bind (dbf_Detail f) fd_Available of
                 None \<Rightarrow> availables
               | Some a \<Rightarrow>
                   (case fa_Date a of
                      None \<Rightarrow> availables
                    | Some d \<Rightarrow> availables @ [\<lparr>fav_Version = dbf_Version f, fav_Date = d, fav_Kind = fa_Kind a\<rparr>]))
            else if dbf_State f = WontFixStatus then
              (if state \<noteq> FixStateFixed then ''wont-fix'' else state, versions, availables)
            else if dbf_State f = NotFixedStatus then
              (if state \<noteq> FixStateFixed then ''not-fixed'' else state, versions, availables)
            else acc)"

definition toFix :: "Range list \<Rightarrow> Fix \<times> FixAvailable list" where
  "toFix affectedRanges =
     (case foldl fix_step ([], [], []) affectedRanges of
        (state, versions, availables) \<Rightarrow>
          if versions = [] \<and> state = [] then (\<lparr>fix_Versions = [], fix_State = []\<rparr>, [])
          else (\<lparr>fix_Versions = versions, fix_State = state\<rparr>, availables))"

definition toAdvisories :: "Range list \<Rightarrow> (string \<times> string) list" where
  "toAdvisories affectedRanges =
     concat (map (\<lambda>r. case Option.bind (rg_Fix r) dbf_Detail of
         None \<Rightarrow> []
       | Some detail \<Rightarrow> map (\<lambda>u. (dref_ID u, dref_URL u)) (filter (\<lambda>u. dref_URL u \<noteq> []) (fd_References detail))) affectedRanges)"

definition cpe_of_row :: "Cpe \<Rightarrow> Attributes" where
  "cpe_of_row c = \<lparr>cpe_Part = dc_Part c, cpe_Vendor = dc_Vendor c, cpe_Product = dc_Product c, cpe_Version = [], cpe_Update = [],
     cpe_Language = dc_Language c, cpe_SWEdition = dc_SoftwareEdition c, cpe_TargetSW = dc_TargetSoftware c,
     cpe_TargetHW = dc_TargetHardware c, cpe_Other = dc_Other c, cpe_Edition = dc_Edition c\<rparr>"

definition toCPEs :: "packageHandle option \<Rightarrow> cpeHandle option \<Rightarrow> Attributes list go" where
  "toCPEs ph ch = do {
     cpes \<leftarrow> (case ph of None \<Rightarrow> Some [] | Some h \<Rightarrow> map_option dp_CPEs (ph_Package h));
     Some (map cpe_of_row (cpes @ (case Option.bind ch ch_CPE of None \<Rightarrow> [] | Some c \<Rightarrow> [c])))
   }"

definition newVulnerabilityFromParts ::
  "'o db_env \<Rightarrow> string \<Rightarrow> VulnerabilityHandle \<Rightarrow> PackageBlob option \<Rightarrow> Range list \<Rightarrow> packageHandle option \<Rightarrow> cpeHandle option
   \<Rightarrow> Qualifier list \<Rightarrow> (serror + 'o DVulnerability option) go" where
  "newVulnerabilityFromParts E packageName vuln pkgBlob ranges ph ch qualifiers =
     (case vh_BlobValue vuln of
        None \<Rightarrow> Some (Inl (ErrorText ''vuln has no blob value''))
      | Some blob \<Rightarrow>
          (case getVersionConstraint E ranges of
             Inl _ \<Rightarrow> Some (Inr None)
           | Inr constraint \<Rightarrow> do {
               let language = (case Option.bind ph ph_Package of None \<Rightarrow> [] | Some p \<Rightarrow> dp_Ecosystem p);
               v5namespace \<leftarrow> MimicV5Namespace E vuln ph;
               cpes \<leftarrow> toCPEs ph ch;
               Some (Inr (Some
                 \<lparr>vuln_ID = vh_Name vuln, vuln_Namespace = v5namespace, vuln_Fix = fst (toFix ranges),
                  vuln_RelatedVulnerabilities = getRelatedVulnerabilities E vuln blob pkgBlob language,
                  vuln_CPEs = map (pe_cpe_String (de_penv E)) cpes, sv_PackageName = packageName, sv_Constraint = Some constraint,
                  sv_CPEs = cpes, sv_Unaffected = False, sv_Status = vh_Status vuln, sv_PackageQualifiers = qualifiers,
                  sv_Advisories = toAdvisories ranges, dv_Available = snd (toFix ranges), dv_Metadata = None\<rparr>))
             }))"

definition newVulnerabilityFromPackageHandle ::
  "'o db_env \<Rightarrow> packageHandle \<Rightarrow> Range list \<Rightarrow> (string \<times> string) list \<Rightarrow> (string \<Rightarrow> (string \<times> string) list \<Rightarrow> Qualifier)
   \<Rightarrow> (serror + 'o DVulnerability option) go" where
  "newVulnerabilityFromPackageHandle E h ranges archAliases newArch =
     (let packageName = (case ph_Package h of None \<Rightarrow> [] | Some p \<Rightarrow> dp_Name p) in
      case ph_Vulnerability h of
        None \<Rightarrow> Some (Inl (ErrorText ''nil data when attempting to create vulnerability''))
      | Some vuln \<Rightarrow>
          if vh_BlobValue vuln = None \<or> ph_BlobValue h = None
          then Some (Inl (ErrorText ''nil data when attempting to create vulnerability''))
          else newVulnerabilityFromParts E packageName vuln (ph_BlobValue h) ranges (Some h) None
                 (getPackageQualifiers (ph_BlobValue h) archAliases newArch))"

definition newVulnerabilityFromCPEHandle ::
  "'o db_env \<Rightarrow> cpeHandle \<Rightarrow> Range list \<Rightarrow> (string \<times> string) list \<Rightarrow> (string \<Rightarrow> (string \<times> string) list \<Rightarrow> Qualifier)
   \<Rightarrow> (serror + 'o DVulnerability option) go" where
  "newVulnerabilityFromCPEHandle E h ranges archAliases newArch =
     (case ch_Vulnerability h of
        None \<Rightarrow> Some (Inl (ErrorText ''nil data when attempting to create vulnerability''))
      | Some vuln \<Rightarrow>
          if vh_BlobValue vuln = None \<or> ch_BlobValue h = None
          then Some (Inl (ErrorText ''nil data when attempting to create vulnerability''))
          else do {
            c \<leftarrow> ch_CPE h;
            newVulnerabilityFromParts E (dc_Product c) vuln (ch_BlobValue h) ranges None (Some h)
              (getPackageQualifiers (ch_BlobValue h) archAliases newArch)
          })"

text \<open>The four constructors: affected or unaffected, by package or by CPE.\<close>

definition mark_unaffected :: "serror + 'o DVulnerability option \<Rightarrow> serror + 'o DVulnerability option" where
  "mark_unaffected r = map_sum id (map_option (\<lambda>v. v\<lparr>sv_Unaffected := True\<rparr>)) r"

definition newVulnerabilityFromAffectedPackageHandle where
  "newVulnerabilityFromAffectedPackageHandle E h ranges archAliases =
     newVulnerabilityFromPackageHandle E h ranges archAliases ArchitectureQualifier"

definition newVulnerabilityFromUnaffectedPackageHandle where
  "newVulnerabilityFromUnaffectedPackageHandle E h ranges archAliases =
     map_option mark_unaffected (newVulnerabilityFromPackageHandle E h ranges archAliases UnaffectedArchitectureQualifier)"

definition newVulnerabilityFromAffectedCPEHandle where
  "newVulnerabilityFromAffectedCPEHandle E h ranges archAliases =
     newVulnerabilityFromCPEHandle E h ranges archAliases ArchitectureQualifier"

definition newVulnerabilityFromUnaffectedCPEHandle where
  "newVulnerabilityFromUnaffectedCPEHandle E h ranges archAliases =
     map_option mark_unaffected (newVulnerabilityFromCPEHandle E h ranges archAliases UnaffectedArchitectureQualifier)"

section \<open>Metadata\<close>

definition toSeverityString :: "'o db_env \<Rightarrow> int \<Rightarrow> string" where
  "toSeverityString E sev = de_ToCamel E (Severity_String sev)"

definition firstReferenceURL :: "VulnerabilityBlob \<Rightarrow> string" where
  "firstReferenceURL b = (case vb_References b of [] \<Rightarrow> [] | r # _ \<Rightarrow> dref_URL r)"

definition lastReferenceURLs :: "VulnerabilityBlob \<Rightarrow> string list" where
  "lastReferenceURLs b = map dref_URL (drop 1 (vb_References b))"

definition addCVE :: "string \<Rightarrow> string list \<Rightarrow> string list" where
  "addCVE i cves =
     (if strings_HasPrefix (strings_ToLower i) ''cve-'' \<and> strings_ToLower i \<notin> strings_ToLower ` set cves then cves @ [i] else cves)"

definition getCVEs :: "VulnerabilityHandle option \<Rightarrow> string list" where
  "getCVEs vuln =
     (case vuln of
        None \<Rightarrow> []
      | Some v \<Rightarrow>
          let cves = addCVE (vh_Name v) [] in
          (case vh_BlobValue v of
             None \<Rightarrow> cves
           | Some b \<Rightarrow> fold addCVE (vb_Aliases b) (addCVE (vb_ID b) cves)))"

definition kev_of :: "KnownExploitedVulnerabilityHandle \<Rightarrow> KnownExploited go" where
  "kev_of h = map_option (\<lambda>b. \<lparr>ke_CVE = kh_Cve h, ke_VendorProject = kb_VendorProject b, ke_Product = kb_Product b,
     ke_DateAdded = kb_DateAdded b, ke_RequiredAction = kb_RequiredAction b, ke_DueDate = kb_DueDate b,
     ke_KnownRansomwareCampaignUse = kb_KnownRansomwareCampaignUse b, ke_Notes = kb_Notes b, ke_URLs = kb_URLs b,
     ke_CWEs = kb_CWEs b\<rparr>) (kh_BlobValue h)"

definition fetchKnownExploited :: "'o db_env \<Rightarrow> db \<Rightarrow> string list \<Rightarrow> KnownExploited list go" where
  "fetchKnownExploited E T cves = map_go kev_of (concat (map (GetKnownExploitedVulnerabilities E T) cves))"

text \<open>Names for which the search fails are left out; the error is only logged.\<close>

definition fetchEpss :: "'o db_env \<Rightarrow> db \<Rightarrow> string list \<Rightarrow> EPSS list" where
  "fetchEpss E T cves =
     concat (map (\<lambda>cve. case GetEpss E T cve of
         Inl _ \<Rightarrow> []
       | Inr entries \<Rightarrow> map (\<lambda>h. \<lparr>epss_CVE = eh_Cve h, epss_EPSS = eh_Epss h, epss_Percentile = eh_Percentile h, epss_Date = eh_Date h\<rparr>) entries) cves)"

definition fetchCWE :: "'o db_env \<Rightarrow> db \<Rightarrow> string list \<Rightarrow> CWE list" where
  "fetchCWE E T cves =
     concat (map (\<lambda>cve. map (\<lambda>h. \<lparr>cwe_CVE = wh_CVE h, cwe_CWE = wh_CWE h, cwe_Source = wh_Source h, cwe_Type = wh_Type h\<rparr>) (GetCWEs E T cve)) cves)"

definition newVulnerabilityMetadata ::
  "'o db_env \<Rightarrow> VulnerabilityHandle \<Rightarrow> string \<Rightarrow> KnownExploited list \<Rightarrow> EPSS list \<Rightarrow> CWE list \<Rightarrow> VMetadata go" where
  "newVulnerabilityMetadata E vuln namespace kevs epss cwes =
     (case fst (extractSeverities (de_cvss E) (map_option vb_Severities (vh_BlobValue vuln))) of
        (sev, cvss) \<Rightarrow> do {
          b \<leftarrow> vh_BlobValue vuln;
          Some \<lparr>vmd_ID = vh_Name vuln, vmd_DataSource = firstReferenceURL b, vmd_Namespace = namespace,
            vmd_Severity = toSeverityString E sev, vmd_URLs = lastReferenceURLs b, vmd_Description = vb_Description b,
            vmd_Cvss = cvss, vmd_KnownExploited = kevs, vmd_EPSS = epss, vmd_CWEs = cwes, vmd_risk = 0\<rparr>
        })"

definition getVulnerabilityMetadata :: "'o db_env \<Rightarrow> db \<Rightarrow> VulnerabilityHandle \<Rightarrow> string \<Rightarrow> VMetadata go" where
  "getVulnerabilityMetadata E T vuln namespace = do {
     let cves = getCVEs (Some vuln);
     kevs \<leftarrow> fetchKnownExploited E T cves;
     newVulnerabilityMetadata E vuln namespace kevs (fetchEpss E T cves) (fetchCWE E T cves)
   }"

definition fetchVulnerability :: "db \<Rightarrow> Reference \<Rightarrow> serror + VulnerabilityHandle option" where
  "fetchVulnerability T ref =
     (let provider = hd (split_char (CHR '':'') (ref_Namespace ref)) in
      case GetVulnerabilities T (Some (zero_VulnerabilitySpecifier\<lparr>vs_Name := ref_ID ref, vs_Providers := [provider]\<rparr>)) True 0 of
        (_, Some e) \<Rightarrow> Inl e
      | ([], None) \<Rightarrow> Inr None
      | (v # _, None) \<Rightarrow> Inr (Some v))"

text \<open>The metadata for a reference, which may come with the row it was made from.\<close>

definition VulnerabilityMetadata ::
  "'o db_env \<Rightarrow> db \<Rightarrow> Reference \<Rightarrow> VulnerabilityHandle option option \<Rightarrow> (serror + VMetadata) go" where
  "VulnerabilityMetadata E T ref internal =
     (case (case internal of Some v \<Rightarrow> Inr v | None \<Rightarrow> fetchVulnerability T ref) of
        Inl e \<Rightarrow> Some (Inl e)
      | Inr None \<Rightarrow>
          Some (Inr \<lparr>vmd_ID = ref_ID ref, vmd_DataSource = hd (split_char (CHR '':'') (ref_Namespace ref)), vmd_Namespace = ref_Namespace ref,
            vmd_Severity = toSeverityString E 0, vmd_URLs = [], vmd_Description = [], vmd_Cvss = [], vmd_KnownExploited = [], vmd_EPSS = [],
            vmd_CWEs = [], vmd_risk = 0\<rparr>)
      | Inr (Some vuln) \<Rightarrow> map_option Inr (getVulnerabilityMetadata E T vuln (ref_Namespace ref)))"

type_synonym metadata_cache = "(string \<times> VMetadata) list"

definition getCachedMetadata ::
  "'o db_env \<Rightarrow> db \<Rightarrow> VulnerabilityHandle option \<Rightarrow> string \<Rightarrow> metadata_cache \<Rightarrow> (VMetadata option \<times> metadata_cache) go" where
  "getCachedMetadata E T vuln namespace cache =
     (case vuln of
        None \<Rightarrow> Some (None, cache)
      | Some v \<Rightarrow>
          (case map_of cache (vh_Name v) of
             Some m \<Rightarrow> Some (Some m, cache)
           | None \<Rightarrow> map_option (\<lambda>m. (Some m, (vh_Name v, m) # cache)) (getVulnerabilityMetadata E T v namespace)))"

definition DataProvenance :: "db \<Rightarrow> (string \<times> int option \<times> string) list" where
  "DataProvenance T =
     fold (\<lambda>p dps. AList.update (prv_ID p) (prv_DateCaptured p, prv_InputDigest p) dps) (AllProviders T) []"

section \<open>Queries\<close>

record 'o searchQuery =
  q_pkgSpec :: "PackageSpecifier option"
  q_cpeSpec :: "Attributes option"
  q_osSpecs :: "OSSpecifier option list"
  q_vulnSpecs :: "VulnerabilitySpecifier list"
  q_pkgType :: string
  q_versionMatcher :: "('o constraint \<Rightarrow> (bool \<times> verror option) go) option"
  q_unaffectedOnly :: bool

definition empty_query :: "'o searchQuery" where
  "empty_query = \<lparr>q_pkgSpec = None, q_cpeSpec = None, q_osSpecs = [], q_vulnSpecs = [], q_pkgType = [], q_versionMatcher = None,
     q_unaffectedOnly = False\<rparr>"

definition update_pkgSpec :: "(PackageSpecifier \<Rightarrow> PackageSpecifier) \<Rightarrow> 'o searchQuery \<Rightarrow> 'o searchQuery" where
  "update_pkgSpec f q = q\<lparr>q_pkgSpec := Some (f (case q_pkgSpec q of None \<Rightarrow> zero_PackageSpecifier | Some p \<Rightarrow> p))\<rparr>"

definition handlePackageName :: "string \<Rightarrow> 'o searchQuery \<Rightarrow> 'o searchQuery" where
  "handlePackageName n q = update_pkgSpec (\<lambda>p. p\<lparr>ps_Name := n\<rparr>) q"

definition handleEcosystem :: "'o db_env \<Rightarrow> string \<Rightarrow> string \<Rightarrow> 'o searchQuery \<Rightarrow> 'o searchQuery" where
  "handleEcosystem E language packageType q =
     (let q = update_pkgSpec (\<lambda>p. p) q in
      if packageType \<noteq> [] \<and> packageType \<noteq> de_UnknownPkg E
        then update_pkgSpec (\<lambda>p. p\<lparr>ps_Ecosystem := packageType\<rparr>) (q\<lparr>q_pkgType := packageType\<rparr>)
      else if language \<noteq> [] then update_pkgSpec (\<lambda>p. p\<lparr>ps_Ecosystem := language\<rparr>) q
      else if packageType = de_UnknownPkg E
        then update_pkgSpec (\<lambda>p. p\<lparr>ps_Ecosystem := packageType\<rparr>) (q\<lparr>q_pkgType := packageType\<rparr>)
      else q)"

definition handleID :: "string \<Rightarrow> 'o searchQuery \<Rightarrow> 'o searchQuery" where
  "handleID i q = q\<lparr>q_vulnSpecs := q_vulnSpecs q @ [zero_VulnerabilitySpecifier\<lparr>vs_Name := i\<rparr>]\<rparr>"

definition handleCPECriteria :: "Attributes \<Rightarrow> 'o searchQuery \<Rightarrow> serror + 'o searchQuery" where
  "handleCPECriteria c q =
     (if cpe_Product c = [] then Inl (ErrorText ''must specify product to search by CPE'')
      else Inr (update_pkgSpec (\<lambda>p. p\<lparr>ps_CPE := Some c\<rparr>) (q\<lparr>q_cpeSpec := Some c\<rparr>)))"

definition os_spec :: "Distro \<Rightarrow> string \<Rightarrow> bool \<Rightarrow> OSSpecifier" where
  "os_spec d channel exact = \<lparr>oss_Name = distro_Type d, oss_MajorVersion = distro_major d, oss_MinorVersion = distro_minor d,
     oss_RemainingVersion = distro_remaining d, oss_LabelVersion = LabelVersion d, oss_Channel = channel, oss_DisableAliasing = exact,
     oss_DisableFallback = False\<rparr>"

definition distro_specs :: "bool \<Rightarrow> Distro \<Rightarrow> OSSpecifier list" where
  "distro_specs exact d =
     (let channels = filter (\<lambda>ch. ch \<noteq> []) (distro_Channels d) in
      if channels = [] then [os_spec d [] exact] else map (\<lambda>ch. os_spec d ch exact) channels)"

definition handleDistro :: "Distro list \<Rightarrow> bool \<Rightarrow> 'o searchQuery \<Rightarrow> 'o searchQuery" where
  "handleDistro distros exact q = q\<lparr>q_osSpecs := q_osSpecs q @ map Some (concat (map (distro_specs exact) distros))\<rparr>"

fun ApplyCriteria :: "'o db_env \<Rightarrow> 'o leaf list \<Rightarrow> 'o searchQuery \<times> 'o leaf list \<Rightarrow> serror + ('o searchQuery \<times> 'o leaf list)" where
  "ApplyCriteria E [] (q, remaining) = Inr (q, remaining)"
| "ApplyCriteria E (c # criteriaSet) (q, remaining) =
     (case c of
        PackageNameCriteria n \<Rightarrow> ApplyCriteria E criteriaSet (handlePackageName n q, remaining)
      | UnaffectedCriteria \<Rightarrow> ApplyCriteria E criteriaSet (q\<lparr>q_unaffectedOnly := True\<rparr>, remaining)
      | EcosystemCriteria l t \<Rightarrow> ApplyCriteria E criteriaSet (handleEcosystem E l t q, remaining)
      | IDCriteria i \<Rightarrow> ApplyCriteria E criteriaSet (handleID i q, remaining)
      | CPECriteria a \<Rightarrow>
          (case handleCPECriteria a q of Inl e \<Rightarrow> Inl e | Inr q' \<Rightarrow> ApplyCriteria E criteriaSet (q', remaining))
      | DistroCriteria ds exact \<Rightarrow> ApplyCriteria E criteriaSet (handleDistro ds exact q, remaining)
      | _ \<Rightarrow> ApplyCriteria E criteriaSet (q, remaining @ [c]))"

definition setDefaultOS :: "'o searchQuery \<Rightarrow> 'o searchQuery" where
  "setDefaultOS q = (if q_osSpecs q = [] then q\<lparr>q_osSpecs := [Some NoOSSpecified]\<rparr> else q)"

definition normalizePackageName :: "'o searchQuery \<Rightarrow> 'o searchQuery" where
  "normalizePackageName q =
     (case q_pkgSpec q of
        None \<Rightarrow> q
      | Some p \<Rightarrow>
          if q_pkgType q \<noteq> [] \<and> ps_Name p \<noteq> [] then q\<lparr>q_pkgSpec := Some (p\<lparr>ps_Name := name_Normalize (ps_Name p) (q_pkgType q)\<rparr>)\<rparr> else q)"

fun extractVersionMatcher ::
  "'o libs \<Rightarrow> 'o leaf list \<Rightarrow> ('o constraint \<Rightarrow> (bool \<times> verror option) go) option
   \<Rightarrow> ('o constraint \<Rightarrow> (bool \<times> verror option) go) option \<times> 'o leaf list" where
  "extractVersionMatcher L [] matcher = (matcher, [])"
| "extractVersionMatcher L (c # cs) matcher =
     (case c of
        VersionCriteria ver \<Rightarrow>
          extractVersionMatcher L cs (Some (case matcher of
              None \<Rightarrow> version_criteria L ver
            | Some m \<Rightarrow> MultiConstraintMatcher m (version_criteria L ver)))
      | ConstraintFuncCriteria fn \<Rightarrow>
          extractVersionMatcher L cs (Some (case matcher of None \<Rightarrow> fn | Some m \<Rightarrow> MultiConstraintMatcher m fn))
      | _ \<Rightarrow> (case extractVersionMatcher L cs matcher of (m, remaining) \<Rightarrow> (m, c # remaining)))"

definition newSearchQuery :: "'o db_env \<Rightarrow> 'o leaf list \<Rightarrow> serror + ('o searchQuery \<times> 'o leaf list)" where
  "newSearchQuery E criteriaSet =
     (case ApplyCriteria E criteriaSet (empty_query, []) of
        Inl e \<Rightarrow> Inl e
      | Inr (q, remaining) \<Rightarrow>
          (case extractVersionMatcher (de_libs E) remaining None of
             (matcher, remaining) \<Rightarrow> Inr ((normalizePackageName (setDefaultOS q))\<lparr>q_versionMatcher := matcher\<rparr>, remaining)))"

section \<open>Finding vulnerabilities\<close>

text \<open>The constraints of ranges that do not match.  A constraint that cannot be parsed does not count as one; an error of the matcher
  is logged and its answer kept.\<close>

fun unmatchedConstraints ::
  "'o db_env \<Rightarrow> ('o constraint \<Rightarrow> (bool \<times> verror option) go) \<Rightarrow> Range list \<Rightarrow> string list go" where
  "unmatchedConstraints E matcher [] = Some []"
| "unmatchedConstraints E matcher (r # ranges) =
     (let v = rg_Version r in
      case GetConstraint (de_libs E) (dbv_Constraint v) (ParseFormat (de_names E) (dbv_Type v)) of
        Inl _ \<Rightarrow> unmatchedConstraints E matcher ranges
      | Inr constraint \<Rightarrow> do {
          m \<leftarrow> matcher constraint;
          rest \<leftarrow> unmatchedConstraints E matcher ranges;
          Some (if fst m then rest else dbv_Constraint v # rest)
        })"

definition filterAffectedPackageRanges ::
  "'o db_env \<Rightarrow> ('o constraint \<Rightarrow> (bool \<times> verror option) go) \<Rightarrow> PackageBlob option \<Rightarrow> (bool \<times> string list) go" where
  "filterAffectedPackageRanges E matcher b = do {
     blob \<leftarrow> b;
     if pb_Ranges blob = [] then Some (False, [])
     else do {
       unmatched \<leftarrow> unmatchedConstraints E matcher (pb_Ranges blob);
       Some (length (pb_Ranges blob) = length unmatched, unmatched)
     }
   }"

text \<open>The filters for the four types of handles.\<close>

fun keep_versions ::
  "'o db_env \<Rightarrow> ('o constraint \<Rightarrow> (bool \<times> verror option) go) \<Rightarrow> ('h \<Rightarrow> PackageBlob option) \<Rightarrow> 'h list \<Rightarrow> 'h list go" where
  "keep_versions E matcher blob [] = Some []"
| "keep_versions E matcher blob (h # hs) = do {
     r \<leftarrow> filterAffectedPackageRanges E matcher (blob h);
     rest \<leftarrow> keep_versions E matcher blob hs;
     Some (if fst r then rest else h # rest)
   }"

definition filterPackageVersions ::
  "'o db_env \<Rightarrow> ('o constraint \<Rightarrow> (bool \<times> verror option) go) option \<Rightarrow> packageHandle list \<Rightarrow> packageHandle list go" where
  "filterPackageVersions E constraintMatcher packages =
     (case constraintMatcher of None \<Rightarrow> Some packages | Some m \<Rightarrow> keep_versions E m ph_BlobValue packages)"

definition filterCPEVersions ::
  "'o db_env \<Rightarrow> ('o constraint \<Rightarrow> (bool \<times> verror option) go) option \<Rightarrow> cpeHandle list \<Rightarrow> cpeHandle list go" where
  "filterCPEVersions E constraintMatcher handles =
     (case constraintMatcher of None \<Rightarrow> Some handles | Some m \<Rightarrow> keep_versions E m ch_BlobValue handles)"

text \<open>Handles become vulnerabilities in order; the metadata are read through a cache.\<close>

fun process_handles ::
  "'o db_env \<Rightarrow> db \<Rightarrow> ('h \<Rightarrow> PackageBlob option) \<Rightarrow> ('h \<Rightarrow> VulnerabilityHandle option)
   \<Rightarrow> ('h \<Rightarrow> Range list \<Rightarrow> (serror + 'o DVulnerability option) go) \<Rightarrow> 'h list \<Rightarrow> metadata_cache
   \<Rightarrow> (serror + 'o DVulnerability list) go" where
  "process_handles E T blob vuln new [] cache = Some (Inr [])"
| "process_handles E T blob vuln new (h # hs) cache =
     (case blob h of
        None \<Rightarrow> process_handles E T blob vuln new hs cache
      | Some b \<Rightarrow> do {
          r \<leftarrow> new h (pb_Ranges b);
          (case r of
             Inl e \<Rightarrow> Some (Inl e)
           | Inr None \<Rightarrow> process_handles E T blob vuln new hs cache
           | Inr (Some v) \<Rightarrow> do {
               mc \<leftarrow> getCachedMetadata E T (vuln h) (vuln_Namespace v) cache;
               (case mc of (meta, cache') \<Rightarrow>
                  map_option (map_sum id (\<lambda>vs. v\<lparr>dv_Metadata := meta\<rparr> # vs)) (process_handles E T blob vuln new hs cache'))
             })
        })"

definition processAffectedPackageHandles where
  "processAffectedPackageHandles E T aliases handles =
     process_handles E T ph_BlobValue ph_Vulnerability (\<lambda>h rs. newVulnerabilityFromAffectedPackageHandle E h rs aliases) handles []"

definition processUnaffectedPackageHandles where
  "processUnaffectedPackageHandles E T aliases handles =
     process_handles E T ph_BlobValue ph_Vulnerability (\<lambda>h rs. newVulnerabilityFromUnaffectedPackageHandle E h rs aliases) handles []"

definition processAffectedCPEHandles where
  "processAffectedCPEHandles E T aliases handles =
     process_handles E T ch_BlobValue ch_Vulnerability (\<lambda>h rs. newVulnerabilityFromAffectedCPEHandle E h rs aliases) handles []"

definition processUnaffectedCPEHandles where
  "processUnaffectedCPEHandles E T aliases handles =
     process_handles E T ch_BlobValue ch_Vulnerability (\<lambda>h rs. newVulnerabilityFromUnaffectedCPEHandle E h rs aliases) handles []"

definition handleOSError :: "serror \<Rightarrow> serror option" where
  "handleOSError err = (if errors_Is err ErrOSNotPresent then None else Some err)"

definition query_options :: "'o searchQuery \<Rightarrow> GetPackageOptions" where
  "query_options q = \<lparr>gp_OSs = q_osSpecs q, gp_Vulnerabilities = q_vulnSpecs q, gp_PreloadBlob = True, gp_AllowBroadCPEMatching = False,
     gp_Limit = 0\<rparr>"

definition fetch_packages ::
  "'o db_env \<Rightarrow> db \<Rightarrow> packageHandle list \<Rightarrow> (packageHandle list \<Rightarrow> (serror + 'o DVulnerability list) go) \<Rightarrow> 'o searchQuery
   \<Rightarrow> (serror + 'o DVulnerability list) go" where
  "fetch_packages E T tbl process query = do {
     found \<leftarrow> getPackages E T tbl (q_pkgSpec query) (query_options query);
     (case found of
        (_, Some err) \<Rightarrow> (case handleOSError err of Some e \<Rightarrow> Some (Inl e) | None \<Rightarrow> Some (Inr []))
      | (packages, None) \<Rightarrow> do {
          packages \<leftarrow> filterPackageVersions E (q_versionMatcher query) packages;
          packages \<leftarrow> fillPackageHandles T packages;
          process packages
        })
   }"

definition fetchAndProcessAffectedPackages where
  "fetchAndProcessAffectedPackages E T aliases query =
     fetch_packages E T (t_AffectedPackages T) (processAffectedPackageHandles E T aliases) query"

definition fetchAndProcessUnaffectedPackages where
  "fetchAndProcessUnaffectedPackages E T aliases query =
     fetch_packages E T (t_UnaffectedPackages T) (processUnaffectedPackageHandles E T aliases) query"

definition fetchAndProcessPackages ::
  "'o db_env \<Rightarrow> db \<Rightarrow> (string \<times> string) list \<Rightarrow> 'o searchQuery \<Rightarrow> (serror + 'o DVulnerability list) go" where
  "fetchAndProcessPackages E T aliases query =
     (if q_pkgSpec query = None \<and> q_vulnSpecs query = [] then Some (Inr [])
      else if q_unaffectedOnly query then fetchAndProcessUnaffectedPackages E T aliases query
      else fetchAndProcessAffectedPackages E T aliases query)"

definition fetch_cpes ::
  "'o db_env \<Rightarrow> db \<Rightarrow> cpeHandle list \<Rightarrow> (cpeHandle list \<Rightarrow> (serror + 'o DVulnerability list) go) \<Rightarrow> 'o searchQuery
   \<Rightarrow> (serror + 'o DVulnerability list) go" where
  "fetch_cpes E T tbl process query =
     (case getCPEHandles T tbl (q_cpeSpec query)
         \<lparr>gc_Vulnerabilities = q_vulnSpecs query, gc_PreloadBlob = True, gc_AllowBroadCPEMatching = False, gc_Limit = 0\<rparr> of
        (_, Some e) \<Rightarrow> Some (Inl e)
      | (handles, None) \<Rightarrow> do {
          handles \<leftarrow> filterCPEVersions E (q_versionMatcher query) handles;
          handles \<leftarrow> fillCPEHandles T handles;
          process handles
        })"

definition fetchAndProcessCPEs ::
  "'o db_env \<Rightarrow> db \<Rightarrow> (string \<times> string) list \<Rightarrow> 'o searchQuery \<Rightarrow> (serror + 'o DVulnerability list) go" where
  "fetchAndProcessCPEs E T aliases query =
     (if q_cpeSpec query = None then Some (Inr [])
      else if q_unaffectedOnly query then fetch_cpes E T (t_UnaffectedCPEs T) (processUnaffectedCPEHandles E T aliases) query
      else fetch_cpes E T (t_AffectedCPEs T) (processAffectedCPEHandles E T aliases) query)"

definition to_SVuln :: "'o DVulnerability \<Rightarrow> 'o SVuln" where
  "to_SVuln v = SVulnerability.truncate v"

fun isMatch :: "'o libs \<Rightarrow> 'o leaf list \<Rightarrow> 'o SVuln \<Rightarrow> (bool \<times> verror option) go" where
  "isMatch L [] v = Some (True, None)"
| "isMatch L (c # criteria) v =
     (case c of
        VersionCriteria _ \<Rightarrow> isMatch L criteria v
      | ConstraintFuncCriteria _ \<Rightarrow> isMatch L criteria v
      | _ \<Rightarrow> do {
          r \<leftarrow> leaf_MatchesVulnerability L c v;
          (case r of (m, err) \<Rightarrow> if \<not> m \<or> err \<noteq> None then Some (False, err) else isMatch L criteria v)
        })"

fun filterVulnerabilities :: "'o libs \<Rightarrow> 'o leaf list \<Rightarrow> 'o DVulnerability list \<Rightarrow> (serror + 'o DVulnerability list) go" where
  "filterVulnerabilities L criteria [] = Some (Inr [])"
| "filterVulnerabilities L criteria (v # vulns) = do {
     r \<leftarrow> isMatch L criteria (to_SVuln v);
     (case r of
        (_, Some _) \<Rightarrow> Some (Inl (ErrorText ''failed to match criteria''))
      | (m, None) \<Rightarrow> map_option (map_sum id (\<lambda>vs. if m then v # vs else vs)) (filterVulnerabilities L criteria vulns))
   }"

definition find_criteria_row ::
  "'o db_env \<Rightarrow> db \<Rightarrow> (string \<times> string) list \<Rightarrow> 'o leaf list \<Rightarrow> (serror + 'o DVulnerability list) go" where
  "find_criteria_row E T aliases criteriaSet =
     (case newSearchQuery E criteriaSet of
        Inl e \<Rightarrow> Some (Inl e)
      | Inr (query, remainingCriteria) \<Rightarrow> do {
          pkgVulns \<leftarrow> fetchAndProcessPackages E T aliases query;
          (case pkgVulns of
             Inl e \<Rightarrow> Some (Inl e)
           | Inr pvs \<Rightarrow> do {
               cpeVulns \<leftarrow> fetchAndProcessCPEs E T aliases query;
               (case cpeVulns of
                  Inl e \<Rightarrow> Some (Inl e)
                | Inr cvs \<Rightarrow> filterVulnerabilities (de_libs E) remainingCriteria (pvs @ cvs))
             })
        })"

text \<open>Returning an error (or panicking) stops the iteration.\<close>

definition v6_FindVulnerabilities :: "'o db_env \<Rightarrow> db \<Rightarrow> 'o leaf criteria list \<Rightarrow> (serror + 'o DVulnerability list) go" where
  "v6_FindVulnerabilities E T criteria =
     (case ValidateCriteria criteria of
        Some e \<Rightarrow> Some (Inl (ErrorText ''multiple conflicting criteria specified''))
      | None \<Rightarrow>
          CriteriaIterator criteria (\<lambda>_ criteriaSet acc.
            case acc of
              Some (Inr out) \<Rightarrow>
                (case find_criteria_row E T (GetArchitectureAliases T) criteriaSet of
                   Some (Inr vs) \<Rightarrow> (True, Some (Inr (out @ vs)))
                 | r \<Rightarrow> (False, r))
            | _ \<Rightarrow> (False, acc)) (Some (Inr [])))"

definition eol_spec :: "Distro \<Rightarrow> OSSpecifier" where
  "eol_spec d = (os_spec d [] True)\<lparr>oss_DisableFallback := True\<rparr>"

definition GetOperatingSystemEOL :: "'o db_env \<Rightarrow> db \<Rightarrow> Distro option \<Rightarrow> (serror + int option \<times> int option) go" where
  "GetOperatingSystemEOL E T d =
     (case d of
        None \<Rightarrow> Some (Inr (None, None))
      | Some distro \<Rightarrow>
          map_option (\<lambda>r. case r of
              Inl e \<Rightarrow> if errors_Is e ErrMissingOSIdentification then Inr (None, None) else Inl e
            | Inr [] \<Rightarrow> Inr (None, None)
            | Inr (os # _) \<Rightarrow> Inr (os_EOLDate os, os_EOASDate os))
            (GetOperatingSystems E T (eol_spec distro)))"

text \<open>The provider as the matchers use it.  The searches of the matchers are rows of criteria; that a search of a database whose
  references are complete does not panic is proved below, so that the text for a panic is never seen.\<close>

definition v6_Provider :: "'o db_env \<Rightarrow> db \<Rightarrow> int \<Rightarrow> 'o Provider" where
  "v6_Provider E T now =
     \<lparr>vp_FindVulnerabilities = (\<lambda>row.
        case v6_FindVulnerabilities E T (map Leaf row) of
          Some r \<Rightarrow> map_sum id (map to_SVuln) r
        | None \<Rightarrow> Inl (ErrorText ''panic'')),
      vp_PackageSearchNames = PackageNames E,
      vp_OperatingSystemEOL = Some (\<lambda>d. case GetOperatingSystemEOL E T (Some d) of Some r \<Rightarrow> r | None \<Rightarrow> Inl (ErrorText ''panic'')),
      vp_now = now\<rparr>"

end
