(* ===== verification/Db_Facts.thy ===== *)
theory Db_Facts
  imports Db_Provider Matcher_Properties
begin

text \<open>
  What a search of the database finds, and matching by distribution over the database.
\<close>

section \<open>Complete databases\<close>

text \<open>Rows refer to rows and blobs that exist, and identifiers of packages are unique.\<close>

definition vulnerability_complete :: "db \<Rightarrow> int \<Rightarrow> bool" where
  "vulnerability_complete T i \<longleftrightarrow>
     (case row_by_id vh_ID (t_Vulnerabilities T) i of
        None \<Rightarrow> False
      | Some v \<Rightarrow> vh_BlobValue (attach_vulnerability T v) \<noteq> None \<and> provider_of T (vh_ProviderID v) \<noteq> None)"

definition package_complete :: "db \<Rightarrow> packageHandle \<Rightarrow> bool" where
  "package_complete T h \<longleftrightarrow>
     vulnerability_complete T (ph_VulnerabilityID h) \<and> ph_BlobValue (attach_package T h) \<noteq> None
     \<and> row_by_id dp_ID (t_Packages T) (ph_PackageID h) \<noteq> None"

definition db_complete :: "db \<Rightarrow> bool" where
  "db_complete T \<longleftrightarrow>
     list_all (package_complete T) (t_AffectedPackages T) \<and> list_all (package_complete T) (t_UnaffectedPackages T)
     \<and> distinct (map dp_ID (t_Packages T))
     \<and> list_all (\<lambda>k. kh_BlobValue k \<noteq> None \<or> kh_BlobID k \<noteq> 0 \<and> map_of (t_KEVBlobs T) (kh_BlobID k) \<noteq> None) (t_KEVs T)"

section \<open>Specification\<close>

text \<open>The package of a row has a name; it is of one of the operating systems; the vulnerability made of a row.\<close>

definition package_named :: "db \<Rightarrow> string \<Rightarrow> packageHandle \<Rightarrow> bool" where
  "package_named T n h = list_ex (\<lambda>p. dp_ID p = ph_PackageID h \<and> strings_EqualFold (dp_Name p) n) (t_Packages T)"

definition on_system :: "int list \<Rightarrow> packageHandle \<Rightarrow> bool" where
  "on_system ids h = (case ph_OperatingSystemID h of None \<Rightarrow> False | Some i \<Rightarrow> i \<in> set ids)"

definition made ::
  "('h \<Rightarrow> PackageBlob option) \<Rightarrow> ('h \<Rightarrow> Range list \<Rightarrow> (serror + 'o DVulnerability option) go) \<Rightarrow> 'h \<Rightarrow> 'o SVuln list" where
  "made blob new h =
     (case blob h of
        None \<Rightarrow> []
      | Some b \<Rightarrow> (case new h (pb_Ranges b) of Some (Inr (Some v)) \<Rightarrow> [to_SVuln v] | _ \<Rightarrow> []))"

definition affected_record :: "'o db_env \<Rightarrow> db \<Rightarrow> packageHandle \<Rightarrow> 'o SVuln list" where
  "affected_record E T h =
     (case fill_package T h of
        None \<Rightarrow> []
      | Some h' \<Rightarrow> made ph_BlobValue (\<lambda>h rs. newVulnerabilityFromAffectedPackageHandle E h rs (GetArchitectureAliases T)) h')"

definition unaffected_record :: "'o db_env \<Rightarrow> db \<Rightarrow> packageHandle \<Rightarrow> 'o SVuln list" where
  "unaffected_record E T h =
     (case fill_package T h of
        None \<Rightarrow> []
      | Some h' \<Rightarrow> made ph_BlobValue (\<lambda>h rs. newVulnerabilityFromUnaffectedPackageHandle E h rs (GetArchitectureAliases T)) h')"

text \<open>Some range of the row matches, or cannot be parsed; or it has no ranges.\<close>

definition in_range :: "'o db_env \<Rightarrow> ('o constraint \<Rightarrow> bool) \<Rightarrow> PackageBlob \<Rightarrow> bool" where
  "in_range E m b \<longleftrightarrow>
     pb_Ranges b = [] \<or> list_ex (\<lambda>r. case GetConstraint (de_libs E) (dbv_Constraint (rg_Version r)) (ParseFormat (de_names E) (dbv_Type (rg_Version r))) of
       Inl _ \<Rightarrow> True | Inr c \<Rightarrow> m c) (pb_Ranges b)"

text \<open>The matcher answers, without a panic, on every constraint of the ranges; its errors are not seen.\<close>

definition checks :: "'o db_env \<Rightarrow> ('o constraint \<Rightarrow> (bool \<times> verror option) go) \<Rightarrow> ('o constraint \<Rightarrow> bool) \<Rightarrow> PackageBlob \<Rightarrow> bool" where
  "checks E f m b \<longleftrightarrow>
     list_all (\<lambda>r. case GetConstraint (de_libs E) (dbv_Constraint (rg_Version r)) (ParseFormat (de_names E) (dbv_Type (rg_Version r))) of
       Inl _ \<Rightarrow> True | Inr c \<Rightarrow> map_option fst (f c) = Some (m c)) (pb_Ranges b)"

section \<open>Steps\<close>

lemma map_go_total:
  assumes "\<forall>x \<in> set xs. f x \<noteq> None"
  shows "map_go f xs = Some (map (\<lambda>x. the (f x)) xs)"
  using assms by (induction xs) auto

lemma handlePackage_named:
  assumes "n \<noteq> []" "distinct (map dp_ID (t_Packages T))"
  shows "handlePackage T rows (Some (zero_PackageSpecifier\<lparr>ps_Name := n\<rparr>)) broad = filter (package_named T n) rows"
proof -
  have one: "concat (map (\<lambda>row. if strings_EqualFold (dp_Name row) n then [h] else []) (filter (\<lambda>row. dp_ID row = i) ps))
      = (if list_ex (\<lambda>p. dp_ID p = i \<and> strings_EqualFold (dp_Name p) n) ps then [h] else [])"
    if "distinct (map dp_ID ps)" for ps i and h :: packageHandle
    using that
  proof (induction ps)
    case (Cons p ps)
    show ?case
    proof (cases "dp_ID p = i")
      case True
      then have no: "\<forall>q \<in> set ps. dp_ID q \<noteq> i" using Cons.prems by (fastforce simp: image_iff)
      then have "filter (\<lambda>row. dp_ID row = i) ps = []" by (simp add: filter_empty_conv)
      moreover have "\<not> list_ex (\<lambda>p. dp_ID p = i \<and> strings_EqualFold (dp_Name p) n) ps" using no by (auto simp: list_ex_iff)
      ultimately show ?thesis using True by simp
    next
      case False
      with Cons show ?thesis by simp
    qed
  qed simp
  have "concat (map (\<lambda>h. if package_named T n h then [h] else []) rows) = filter (package_named T n) rows"
    by (induction rows) auto
  then show ?thesis
    using assms one [of "t_Packages T"]
    by (simp add: handlePackage_def applyPackageAlias_def zero_PackageSpecifier_def package_named_def cong: map_cong if_cong)
qed

lemma to_SVuln_metadata [simp]: "to_SVuln (v\<lparr>dv_Metadata := m\<rparr>) = to_SVuln v"
  by (simp add: to_SVuln_def SVulnerability.truncate_def)

lemma process_handles_made:
  assumes "\<forall>h \<in> set hs. \<forall>b. blob h = Some b \<longrightarrow> (\<exists>r. new h (pb_Ranges b) = Some (Inr r))"
    and "\<forall>h \<in> set hs. \<forall>v ns. vuln h = Some v \<longrightarrow> getVulnerabilityMetadata E T v ns \<noteq> None"
  shows "\<exists>vs. process_handles E T blob vuln new hs cache = Some (Inr vs) \<and> map to_SVuln vs = concat (map (made blob new) hs)"
  using assms
proof (induction hs arbitrary: cache)
  case (Cons h hs)
  then have IH: "\<exists>vs. process_handles E T blob vuln new hs cache = Some (Inr vs) \<and> map to_SVuln vs = concat (map (made blob new) hs)" for cache
    by simp
  show ?case
  proof (cases "blob h")
    case None
    then have "made blob new h = []" by (simp add: made_def)
    then show ?thesis using IH None by simp
  next
    case (Some b)
    with Cons.prems(1) obtain r where r: "new h (pb_Ranges b) = Some (Inr r)" by fastforce
    show ?thesis
    proof (cases r)
      case None
      then have "made blob new h = []" using r \<open>blob h = Some b\<close> by (simp add: made_def)
      then show ?thesis using IH r None \<open>blob h = Some b\<close> by simp
    next
      case (Some v)
      obtain meta cache' where c: "getCachedMetadata E T (vuln h) (vuln_Namespace v) cache = Some (meta, cache')"
        using Cons.prems(2) by (fastforce simp: getCachedMetadata_def split: option.splits)
      from IH [of cache'] obtain vs where
        "process_handles E T blob vuln new hs cache' = Some (Inr vs)" "map to_SVuln vs = concat (map (made blob new) hs)" by blast
      moreover have "made blob new h = [to_SVuln v]" using r Some \<open>blob h = Some b\<close> by (simp add: made_def)
      ultimately show ?thesis using r c \<open>blob h = Some b\<close> Some by simp
    qed
  qed
qed simp

lemma unmatched_length:
  assumes "list_all (\<lambda>r. case GetConstraint (de_libs E) (dbv_Constraint (rg_Version r)) (ParseFormat (de_names E) (dbv_Type (rg_Version r))) of
       Inl _ \<Rightarrow> True | Inr c \<Rightarrow> map_option fst (matcher c) = Some (m c)) rs"
  shows "\<exists>us. unmatchedConstraints E matcher rs = Some us \<and> length us \<le> length rs
    \<and> (length us = length rs \<longleftrightarrow> \<not> list_ex (\<lambda>r. case GetConstraint (de_libs E) (dbv_Constraint (rg_Version r)) (ParseFormat (de_names E) (dbv_Type (rg_Version r))) of
       Inl _ \<Rightarrow> True | Inr c \<Rightarrow> m c) rs)"
  using assms
proof (induction rs)
  case (Cons r rs)
  from Cons.IH Cons.prems obtain us where us: "unmatchedConstraints E matcher rs = Some us" "length us \<le> length rs"
    "length us = length rs \<longleftrightarrow> \<not> list_ex (\<lambda>r. case GetConstraint (de_libs E) (dbv_Constraint (rg_Version r)) (ParseFormat (de_names E) (dbv_Type (rg_Version r))) of
       Inl _ \<Rightarrow> True | Inr c \<Rightarrow> m c) rs" by auto
  let ?c = "GetConstraint (de_libs E) (dbv_Constraint (rg_Version r)) (ParseFormat (de_names E) (dbv_Type (rg_Version r)))"
  show ?case
  proof (cases ?c)
    case (Inl e)
    then show ?thesis using us by (simp add: Let_def le_SucI)
  next
    case (Inr c)
    with Cons.prems obtain e where "matcher c = Some (m c, e)" by auto
    then show ?thesis using us Inr by (cases "m c") (simp_all add: Let_def le_SucI)
  qed
qed simp

lemma keep_versions_filter:
  assumes "\<forall>h \<in> set hs. blob h \<noteq> None \<and> checks E matcher m (the (blob h))"
  shows "keep_versions E matcher blob hs = Some (filter (\<lambda>h. in_range E m (the (blob h))) hs)"
  using assms
proof (induction hs)
  case (Cons h hs)
  from Cons.prems obtain b where b: "blob h = Some b" "checks E matcher m b" by auto
  from unmatched_length [OF b(2) [unfolded checks_def]]
  have "\<exists>us. filterAffectedPackageRanges E matcher (Some b) = Some (\<not> in_range E m b, us)"
    by (auto simp: filterAffectedPackageRanges_def in_range_def)
  then show ?case using Cons b(1) by auto
qed simp


lemma attach_package_twice [simp]: "attach_package T (attach_package T h) = attach_package T h"
  by (simp add: attach_package_def)

lemma fill_attached [simp]: "fill_package T (attach_package T h) = fill_package T h"
  by (simp add: fill_package_def)

lemma attach_package_simps [simp]:
  "ph_PackageID (attach_package T h) = ph_PackageID h" "ph_OperatingSystemID (attach_package T h) = ph_OperatingSystemID h"
  "ph_VulnerabilityID (attach_package T h) = ph_VulnerabilityID h"
  by (simp_all add: attach_package_def)

lemma fill_package_complete:
  assumes "package_complete T h"
  obtains h' v where "fill_package T h = Some h'" "ph_BlobValue h' = ph_BlobValue (attach_package T h)" "ph_BlobValue h' \<noteq> None"
    "ph_Vulnerability h' = Some v" "vh_BlobValue v \<noteq> None" "vh_Provider v \<noteq> None" "ph_Package h' \<noteq> None"
  using assms
  by (force simp: fill_package_def package_complete_def vulnerability_complete_def fill_vulnerability_def attach_vulnerability_def Let_def
      split: option.splits)

text \<open>A constructor that neither panics nor reports missing data on a handle that is filled in.\<close>

definition constructs :: "(packageHandle \<Rightarrow> Range list \<Rightarrow> (serror + 'o DVulnerability option) go) \<Rightarrow> bool" where
  "constructs new \<longleftrightarrow>
     (\<forall>h rs v. ph_Vulnerability h = Some v \<and> vh_BlobValue v \<noteq> None \<and> vh_Provider v \<noteq> None \<and> ph_Package h \<noteq> None
        \<and> ph_BlobValue h \<noteq> None \<longrightarrow> (\<exists>r. new h rs = Some (Inr r)))"

lemma constructs_package: "constructs (\<lambda>h rs. newVulnerabilityFromPackageHandle E h rs al newArch)"
  unfolding constructs_def
  by (auto simp: newVulnerabilityFromPackageHandle_def newVulnerabilityFromParts_def MimicV5Namespace_def toCPEs_def Let_def
      split: option.splits sum.splits prod.splits if_splits)

lemma constructs_affected: "constructs (\<lambda>h rs. newVulnerabilityFromAffectedPackageHandle E h rs al)"
  unfolding newVulnerabilityFromAffectedPackageHandle_def by (rule constructs_package)

lemma constructs_unaffected: "constructs (\<lambda>h rs. newVulnerabilityFromUnaffectedPackageHandle E h rs al)"
  using constructs_package [of E al UnaffectedArchitectureQualifier]
  by (fastforce simp: constructs_def newVulnerabilityFromUnaffectedPackageHandle_def mark_unaffected_def)

lemma metadata_total:
  assumes "db_complete T" "vh_BlobValue v \<noteq> None"
  shows "getVulnerabilityMetadata E T v ns \<noteq> None"
proof -
  have "kev_of h \<noteq> None" if "h \<in> set (GetKnownExploitedVulnerabilities E T cve)" for h cve
    using that assms(1)
    by (fastforce simp: GetKnownExploitedVulnerabilities_def kev_of_def db_complete_def list_all_iff split: if_splits)
  then have "\<exists>ks. fetchKnownExploited E T (getCVEs (Some v)) = Some ks"
    unfolding fetchKnownExploited_def by (subst map_go_total) auto
  then show ?thesis using assms(2)
    by (auto simp: getVulnerabilityMetadata_def newVulnerabilityMetadata_def Let_def split: prod.splits)
qed

lemma os_options_specific:
  assumes "\<forall>s \<in> set specs. GetOperatingSystems E T s = Some (Inr (systems s))"
  shows "os_options E T (map Some specs) = Some (Inr (concat (map (\<lambda>s. map os_ID (systems s)) specs), False, False, specs \<noteq> []))"
  using assms
proof (induction specs)
  case (Cons s specs)
  then have "GetOperatingSystems E T s = Some (Inr (systems s))" by simp
  moreover from this have "s \<noteq> NoOSSpecified"
    by (auto simp: GetOperatingSystems_def NoOSSpecified_def split: if_splits)
  ultimately show ?case using Cons by simp
qed simp


section \<open>Searches\<close>

lemma fetch_packages_rows:
  assumes T: "db_complete T" and tbl: "list_all (package_complete T) tbl" and n: "n \<noteq> []"
    and os: "\<forall>s \<in> set specs. GetOperatingSystems E T s = Some (Inr (systems s))" "specs \<noteq> []"
    and q: "q_pkgSpec q = Some (zero_PackageSpecifier\<lparr>ps_Name := n\<rparr>)" "q_vulnSpecs q = []" "q_osSpecs q = map Some specs"
    and m: "q_versionMatcher q = None \<and> M = (\<lambda>_. True)
      \<or> (\<exists>f. q_versionMatcher q = Some f \<and> (\<forall>h \<in> set tbl. checks E f M' (the (ph_BlobValue (attach_package T h)))) \<and> M = in_range E M')"
    and none: "process [] = Some (Inr [])"
  shows "fetch_packages E T tbl process q = process (map (\<lambda>h. the (fill_package T h)) (filter (\<lambda>h.
     package_named T n h \<and> on_system (concat (map (\<lambda>s. map os_ID (systems s)) specs)) h \<and> M (the (ph_BlobValue (attach_package T h)))) tbl))"
proof -
  let ?ids = "concat (map (\<lambda>s. map os_ID (systems s)) specs)"
  define R where "R = filter (on_system ?ids) (filter (package_named T n) tbl)"
  have pk: "handlePackage T tbl (Some (zero_PackageSpecifier\<lparr>ps_Name := n\<rparr>)) False = filter (package_named T n) tbl"
    using handlePackage_named [OF n, of T tbl False] T by (simp add: db_complete_def)
  have opt: "os_options E T (map Some specs) = Some (Inr (?ids, False, False, True))"
    using os_options_specific [OF os(1)] os(2) by simp
  show ?thesis
  proof (cases "?ids = []")
    case True
    then have "fetch_packages E T tbl process q = Some (Inr [])"
      using os(2) opt
      by (simp add: fetch_packages_def getPackages_def handleOSOptions_def query_options_def q pk join_vulnerabilities_def handleOSError_def
          ErrOSNotPresent_def)
    moreover have "on_system [] h = False" for h by (simp add: on_system_def split: option.splits)
    ultimately show ?thesis using none by (simp add: True)
  next
    case False
    then have rows: "getPackages E T tbl (q_pkgSpec q) (query_options q) = Some (map (attach_package T) R, None)"
      using os(2) opt
      by (simp add: getPackages_def handleOSOptions_def query_options_def q pk join_vulnerabilities_def limited_def R_def on_system_def [abs_def])
    have complete: "package_complete T h" if "h \<in> set R" for h using that tbl by (auto simp: R_def list_all_iff)
    have keep: "filterPackageVersions E (q_versionMatcher q) (map (attach_package T) R)
        = Some (map (attach_package T) (filter (\<lambda>h. M (the (ph_BlobValue (attach_package T h)))) R))"
      using m
    proof (elim disjE conjE exE)
      assume "q_versionMatcher q = None" "M = (\<lambda>_. True)"
      then show ?thesis by (simp add: filterPackageVersions_def)
    next
      fix f assume f: "q_versionMatcher q = Some f" "M = in_range E M'"
        "\<forall>h \<in> set tbl. checks E f M' (the (ph_BlobValue (attach_package T h)))"
      have "\<forall>h \<in> set (map (attach_package T) R). ph_BlobValue h \<noteq> None \<and> checks E f M' (the (ph_BlobValue h))"
        using complete f(3) by (auto simp: package_complete_def R_def)
      from keep_versions_filter [OF this] f(1,2) show ?thesis
        by (simp add: filterPackageVersions_def filter_map o_def)
    qed
    have fill: "fillPackageHandles T (map (attach_package T) hs) = Some (map (\<lambda>h. the (fill_package T h)) hs)"
      if "set hs \<subseteq> set R" for hs
      unfolding fillPackageHandles_def using that complete
      by (subst map_go_total) (fastforce elim: fill_package_complete)+
    have "filter (\<lambda>h. M (the (ph_BlobValue (attach_package T h)))) R
        = filter (\<lambda>h. package_named T n h \<and> on_system ?ids h \<and> M (the (ph_BlobValue (attach_package T h)))) tbl"
      by (simp add: R_def conj_commute conj_left_commute)
    moreover have "fetch_packages E T tbl process q
        = process (map (\<lambda>h. the (fill_package T h)) (filter (\<lambda>h. M (the (ph_BlobValue (attach_package T h)))) R))"
      by (simp add: fetch_packages_def rows keep fill)
    ultimately show ?thesis by simp
  qed
qed

lemma process_package_handles:
  assumes T: "db_complete T" and hs: "list_all (package_complete T) hs"
    and new: "constructs new"
  shows "\<exists>vs. process_handles E T ph_BlobValue ph_Vulnerability new (map (\<lambda>h. the (fill_package T h)) hs) [] = Some (Inr vs)
    \<and> map to_SVuln vs = concat (map (\<lambda>h. case fill_package T h of None \<Rightarrow> [] | Some h' \<Rightarrow> made ph_BlobValue new h') hs)"
proof -
  have h: "(\<exists>r. new (the (fill_package T h)) rs = Some (Inr r))
      \<and> (\<exists>v. ph_Vulnerability (the (fill_package T h)) = Some v \<and> vh_BlobValue v \<noteq> None) \<and> fill_package T h \<noteq> None"
    if "h \<in> set hs" for h rs
  proof -
    from that hs have "package_complete T h" by (simp add: list_all_iff)
    then show ?thesis by (rule fill_package_complete) (use new in \<open>auto simp: constructs_def\<close>)
  qed
  have "\<exists>vs. process_handles E T ph_BlobValue ph_Vulnerability new (map (\<lambda>h. the (fill_package T h)) hs) [] = Some (Inr vs)
      \<and> map to_SVuln vs = concat (map (made ph_BlobValue new) (map (\<lambda>h. the (fill_package T h)) hs))"
  proof (rule process_handles_made)
    show "\<forall>h \<in> set (map (\<lambda>h. the (fill_package T h)) hs). \<forall>b. ph_BlobValue h = Some b \<longrightarrow> (\<exists>r. new h (pb_Ranges b) = Some (Inr r))"
      using h by auto
    show "\<forall>h \<in> set (map (\<lambda>h. the (fill_package T h)) hs). \<forall>v ns. ph_Vulnerability h = Some v \<longrightarrow> getVulnerabilityMetadata E T v ns \<noteq> None"
      using h metadata_total [OF T] by fastforce
  qed
  moreover have "\<forall>x \<in> set hs. fill_package T x \<noteq> None" using h by blast
  then have "map (made ph_BlobValue new) (map (\<lambda>h. the (fill_package T h)) hs)
      = map (\<lambda>h. case fill_package T h of None \<Rightarrow> [] | Some h' \<Rightarrow> made ph_BlobValue new h') hs"
    by (auto split: option.splits)
  ultimately show ?thesis by metis
qed


lemma filterVulnerabilities_func:
  assumes "\<forall>v \<in> set vs. fn (to_SVuln v) = Some (keep (to_SVuln v), None)"
  shows "filterVulnerabilities L [FuncCriteria fn] vs = Some (Inr (filter (keep \<circ> to_SVuln) vs))"
  using assms by (induction vs) simp_all

lemma filterVulnerabilities_Nil: "filterVulnerabilities L [] vs = Some (Inr vs)"
  by (induction vs) simp_all

lemma find_row:
  assumes "find_criteria_row E T (GetArchitectureAliases T) row = Some (Inr vs)" "ValidateCriteria (map Leaf row) = None" "row \<noteq> []"
  shows "vp_FindVulnerabilities (v6_Provider E T now) row = Inr (map to_SVuln vs)"
  using assms by (simp add: v6_Provider_def v6_FindVulnerabilities_def CriteriaIterator_def processRemaining_leaves)

lemma normalize_untyped:
  "q_pkgType q = [] \<Longrightarrow> normalizePackageName q = q"
  by (simp add: normalizePackageName_def split: option.split)

lemma distro_specs_nonempty [simp]: "distro_specs exact d \<noteq> []"
  by (simp add: distro_specs_def Let_def)

text \<open>The identifiers of the systems a distribution selects.\<close>

definition system_ids :: "(OSSpecifier \<Rightarrow> OperatingSystem list) \<Rightarrow> bool \<Rightarrow> Distro \<Rightarrow> int list" where
  "system_ids systems exact d = concat (map (\<lambda>s. map os_ID (systems s)) (distro_specs exact d))"

definition affected_rows :: "'o db_env \<Rightarrow> db \<Rightarrow> string \<Rightarrow> int list \<Rightarrow> 'o SVuln list" where
  "affected_rows E T n ids =
     concat (map (affected_record E T) (filter (\<lambda>h. package_named T n h \<and> on_system ids h) (t_AffectedPackages T)))"

definition unaffected_rows :: "'o db_env \<Rightarrow> db \<Rightarrow> string \<Rightarrow> int list \<Rightarrow> ('o constraint \<Rightarrow> bool) \<Rightarrow> 'o SVuln list" where
  "unaffected_rows E T n ids m =
     concat (map (unaffected_record E T) (filter (\<lambda>h. package_named T n h \<and> on_system ids h
       \<and> in_range E m (the (ph_BlobValue (attach_package T h)))) (t_UnaffectedPackages T)))"

lemma package_rows:
  assumes T: "db_complete T" and tbl: "list_all (package_complete T) tbl" and n: "n \<noteq> []"
    and os: "\<forall>s \<in> set (distro_specs exact d). GetOperatingSystems E T s = Some (Inr (systems s))"
    and q: "q_pkgSpec q = Some (zero_PackageSpecifier\<lparr>ps_Name := n\<rparr>)" "q_vulnSpecs q = []" "q_osSpecs q = map Some (distro_specs exact d)"
    and m: "q_versionMatcher q = None \<and> M = (\<lambda>_. True)
      \<or> (\<exists>f. q_versionMatcher q = Some f \<and> (\<forall>h \<in> set tbl. checks E f M' (the (ph_BlobValue (attach_package T h)))) \<and> M = in_range E M')"
    and new: "constructs new"
  obtains vs where "fetch_packages E T tbl (\<lambda>hs. process_handles E T ph_BlobValue ph_Vulnerability new hs []) q = Some (Inr vs)"
    "map to_SVuln vs = concat (map (\<lambda>h. case fill_package T h of None \<Rightarrow> [] | Some h' \<Rightarrow> made ph_BlobValue new h')
       (filter (\<lambda>h. package_named T n h \<and> on_system (system_ids systems exact d) h \<and> M (the (ph_BlobValue (attach_package T h)))) tbl))"
proof -
  let ?rows = "filter (\<lambda>h. package_named T n h \<and> on_system (system_ids systems exact d) h \<and> M (the (ph_BlobValue (attach_package T h)))) tbl"
  have "list_all (package_complete T) ?rows" using tbl by (simp add: list_all_iff)
  from process_package_handles [OF T this new] obtain vs where vs:
    "process_handles E T ph_BlobValue ph_Vulnerability new (map (\<lambda>h. the (fill_package T h)) ?rows) [] = Some (Inr vs)"
    "map to_SVuln vs = concat (map (\<lambda>h. case fill_package T h of None \<Rightarrow> [] | Some h' \<Rightarrow> made ph_BlobValue new h') ?rows)" by blast
  have "fetch_packages E T tbl (\<lambda>hs. process_handles E T ph_BlobValue ph_Vulnerability new hs []) q = Some (Inr vs)"
    using fetch_packages_rows [OF T tbl n os distro_specs_nonempty q m, of "\<lambda>hs. process_handles E T ph_BlobValue ph_Vulnerability new hs []"] vs(1)
    by (simp add: system_ids_def)
  then show thesis using vs(2) that by blast
qed

lemma search_affected:
  fixes E :: "'o db_env"
  assumes T: "db_complete T" and n: "n \<noteq> []"
    and os: "\<forall>s \<in> set (distro_specs exact d). GetOperatingSystems E T s = Some (Inr (systems s))"
    and fn: "\<forall>v \<in> set (affected_rows E T n (system_ids systems exact d)). fn v = Some (keep v, None)"
  shows "vp_FindVulnerabilities (v6_Provider E T now) [PackageNameCriteria n, DistroCriteria [d] exact, FuncCriteria fn]
    = Inr (filter keep (affected_rows E T n (system_ids systems exact d)))"
proof -
  let ?q = "\<lparr>q_pkgSpec = Some (zero_PackageSpecifier\<lparr>ps_Name := n\<rparr>), q_cpeSpec = None, q_osSpecs = map Some (distro_specs exact d),
    q_vulnSpecs = [], q_pkgType = [], q_versionMatcher = None, q_unaffectedOnly = False\<rparr> :: 'o searchQuery"
  let ?new = "\<lambda>h rs. newVulnerabilityFromAffectedPackageHandle E h rs (GetArchitectureAliases T)"
  have query: "newSearchQuery E [PackageNameCriteria n, DistroCriteria [d] exact, FuncCriteria fn] = Inr (?q, [FuncCriteria fn])"
    by (simp add: newSearchQuery_def handlePackageName_def handleDistro_def update_pkgSpec_def empty_query_def setDefaultOS_def normalize_untyped)
  have tbl: "list_all (package_complete T) (t_AffectedPackages T)" using T by (simp add: db_complete_def)
  obtain vs where
    fetch: "fetch_packages E T (t_AffectedPackages T) (\<lambda>hs. process_handles E T ph_BlobValue ph_Vulnerability ?new hs []) ?q = Some (Inr vs)"
    and vs: "map to_SVuln vs = affected_rows E T n (system_ids systems exact d)"
    by (rule package_rows [OF T tbl n os, where q = ?q and M = "\<lambda>_. True" and new = ?new])
      (auto simp: constructs_affected affected_rows_def affected_record_def [abs_def])
  have "find_criteria_row E T (GetArchitectureAliases T) [PackageNameCriteria n, DistroCriteria [d] exact, FuncCriteria fn]
      = Some (Inr (filter (keep \<circ> to_SVuln) vs))"
    using fn vs [symmetric] fetch
    by (simp add: find_criteria_row_def query fetchAndProcessPackages_def fetchAndProcessCPEs_def fetchAndProcessAffectedPackages_def
        processAffectedPackageHandles_def [abs_def] filterVulnerabilities_func)
  from find_row [OF this] show ?thesis
    by (simp add: ValidateCriteria_def CriteriaIterator_def filter_map flip: vs)
qed


lemma search_unaffected:
  fixes E :: "'o db_env"
  assumes T: "db_complete T" and n: "n \<noteq> []"
    and os: "\<forall>s \<in> set (distro_specs exact d). GetOperatingSystems E T s = Some (Inr (systems s))"
    and ver: "\<forall>h \<in> set (t_UnaffectedPackages T). checks E (version_criteria (de_libs E) ver) m (the (ph_BlobValue (attach_package T h)))"
  shows "vp_FindVulnerabilities (v6_Provider E T now) [DistroCriteria [d] exact, PackageNameCriteria n, UnaffectedCriteria, VersionCriteria ver]
    = Inr (unaffected_rows E T n (system_ids systems exact d) m)"
proof -
  let ?row = "[DistroCriteria [d] exact, PackageNameCriteria n, UnaffectedCriteria, VersionCriteria ver]"
  let ?q = "\<lparr>q_pkgSpec = Some (zero_PackageSpecifier\<lparr>ps_Name := n\<rparr>), q_cpeSpec = None, q_osSpecs = map Some (distro_specs exact d),
    q_vulnSpecs = [], q_pkgType = [], q_versionMatcher = Some (version_criteria (de_libs E) ver), q_unaffectedOnly = True\<rparr> :: 'o searchQuery"
  let ?new = "\<lambda>h rs. newVulnerabilityFromUnaffectedPackageHandle E h rs (GetArchitectureAliases T)"
  have query: "newSearchQuery E ?row = Inr (?q, [])"
    by (simp add: newSearchQuery_def handlePackageName_def handleDistro_def update_pkgSpec_def empty_query_def setDefaultOS_def normalize_untyped)
  have tbl: "list_all (package_complete T) (t_UnaffectedPackages T)" using T by (simp add: db_complete_def)
  obtain vs where
    fetch: "fetch_packages E T (t_UnaffectedPackages T) (\<lambda>hs. process_handles E T ph_BlobValue ph_Vulnerability ?new hs []) ?q = Some (Inr vs)"
    and vs: "map to_SVuln vs = unaffected_rows E T n (system_ids systems exact d) m"
    by (rule package_rows [OF T tbl n os, where q = ?q and M = "in_range E m" and M' = m and new = ?new])
      (use ver in \<open>auto simp: constructs_unaffected unaffected_rows_def unaffected_record_def [abs_def]\<close>)
  have "find_criteria_row E T (GetArchitectureAliases T) ?row = Some (Inr vs)"
    using fetch
    by (simp add: find_criteria_row_def query fetchAndProcessPackages_def fetchAndProcessCPEs_def fetchAndProcessUnaffectedPackages_def
        processUnaffectedPackageHandles_def [abs_def] filterVulnerabilities_Nil)
  from find_row [OF this] show ?thesis
    by (simp add: ValidateCriteria_def CriteriaIterator_def flip: vs)
qed


end
