(* ===== verification/Db_Properties.thy ===== *)
theory Db_Properties
  imports Db_Facts
begin

text \<open>
  Examples for the theorem of the database, and what its operations promise one by one: which operating systems a distribution
  selects, what the ranges of a record say of fixes, and to which vulnerabilities a record is related.
\<close>

section \<open>An example\<close>

definition example_names :: ecosystem_names where
  "example_names = \<lparr>purl_semver_types = [], purl_TypeDebian = ''deb'', purl_TypeGolang = ''golang'', purl_TypePyPi = ''pypi'',
     pkg_ApkPkg = ''apk'', pkg_BitnamiPkg = ''bitnami'', pkg_DebPkg = ''deb'', pkg_GoModulePkg = ''go-module'', pkg_JavaPkg = ''java-archive'',
     pkg_JenkinsPluginPkg = ''jenkins-plugin'', pkg_RpmPkg = ''rpm'', pkg_PythonPkg = ''python'', pkg_KbPkg = ''msrc-kb'', pkg_GemPkg = ''gem'',
     pkg_PortagePkg = ''portage'', pkg_AlpmPkg = ''alpm''\<rparr>"

definition example_dbenv :: "string db_env" where
  "example_dbenv = \<lparr>de_libs = text_libs, de_names = example_names, de_regexp = (\<lambda>_. None),
     de_cvss = \<lparr>cv_20 = (\<lambda>_. None), cv_30 = (\<lambda>_. None), cv_31 = (\<lambda>_. None), cv_40 = (\<lambda>_. None)\<rparr>, de_ToCamel = (\<lambda>s. s),
     de_purl = (\<lambda>_. None), de_penv = example_penv, de_dbVersion = schemaver_New 6 1 9, de_SwiplPackPkg = ''swiplpack'',
     de_UnknownPkg = ''UnknownPackage''\<rparr>"

definition example_vh :: "int \<Rightarrow> string \<Rightarrow> VulnerabilityHandle" where
  "example_vh i name = \<lparr>vh_ID = i, vh_Name = name, vh_Status = ''active'', vh_PublishedDate = None, vh_ModifiedDate = None,
     vh_WithdrawnDate = None, vh_ProviderID = ''rhel'', vh_Provider = None, vh_BlobID = i, vh_BlobValue = None\<rparr>"

definition example_vb :: "string \<Rightarrow> string list \<Rightarrow> VulnerabilityBlob" where
  "example_vb name aliases = \<lparr>vb_ID = name, vb_Assigners = [], vb_Description = [], vb_References = [], vb_Aliases = aliases, vb_Severities = [],
     vb_Modifications = []\<rparr>"

definition example_range :: "string \<Rightarrow> Range" where
  "example_range fixed = \<lparr>rg_Version = \<lparr>dbv_Type = ''rpm'', dbv_Constraint = ''< '' @ fixed\<rparr>,
     rg_Fix = Some \<lparr>dbf_Version = fixed, dbf_State = ''fixed'', dbf_Detail = None\<rparr>\<rparr>"

definition example_row :: "int \<Rightarrow> int \<Rightarrow> int \<Rightarrow> packageHandle" where
  "example_row i v b = \<lparr>ph_ID = i, ph_VulnerabilityID = v, ph_Vulnerability = None, ph_OperatingSystemID = Some 1, ph_OperatingSystem = None,
     ph_PackageID = 1, ph_Package = None, ph_BlobID = b, ph_BlobValue = None\<rparr>"

text \<open>Three disclosures for openssl on system 1, one of them fixed before version 1.0, and a record of systems that are not affected
  by what the third is an alias of.\<close>

definition example_db :: db where
  "example_db = \<lparr>t_Providers = [\<lparr>prv_ID = ''rhel'', prv_Version = [], prv_Processor = [], prv_DateCaptured = None, prv_InputDigest = []\<rparr>],
     t_Vulnerabilities = [example_vh 1 ''CVE-1'', example_vh 2 ''CVE-2'', example_vh 3 ''CVE-3'', example_vh 4 ''ADV-3''], t_Aliases = [],
     t_AffectedPackages = [example_row 1 1 1, example_row 2 2 2, example_row 3 3 1], t_UnaffectedPackages = [example_row 4 4 1],
     t_OperatingSystems = [\<lparr>os_ID = 1, os_Name = ''redhat'', os_ReleaseID = ''rhel'', os_MajorVersion = ''9'', os_MinorVersion = [],
       os_LabelVersion = [], os_Codename = [], os_Channel = [], os_EOLDate = None, os_EOASDate = None\<rparr>],
     t_OSOverrides = [], t_Packages = [\<lparr>dp_ID = 1, dp_Ecosystem = ''rpm'', dp_Name = ''openssl'', dp_CPEs = []\<rparr>], t_PackageCpes = [],
     t_PackageOverrides = [], t_ArchitectureAliases = None, t_AffectedCPEs = [], t_UnaffectedCPEs = [], t_Cpes = [], t_KEVs = [],
     t_EpssMetadata = [0], t_Epss = [], t_CWEs = [],
     t_VulnerabilityBlobs = [(1, example_vb ''CVE-1'' []), (2, example_vb ''CVE-2'' []), (3, example_vb ''CVE-3'' [''GHSA-3'']),
       (4, example_vb ''ADV-3'' [''GHSA-3''])],
     t_PackageBlobs = [(1, \<lparr>pb_CVEs = [], pb_Qualifiers = None, pb_Ranges = [example_range ''2.0'']\<rparr>),
       (2, \<lparr>pb_CVEs = [], pb_Qualifiers = None, pb_Ranges = [example_range ''0.5'']\<rparr>)],
     t_KEVBlobs = []\<rparr>"

definition example_systems :: "OSSpecifier \<Rightarrow> OperatingSystem list" where
  "example_systems s = t_OperatingSystems example_db"

lemma example_db_facts:
  "db_complete example_db"
  "PackageNames example_dbenv example_rpm = [''openssl'']"
  "\<forall>s \<in> set (distro_specs False example_distro). GetOperatingSystems example_dbenv example_db s = Some (Inr (example_systems s))"
  "system_ids example_systems False example_distro = [1]"
  "ver_Raw (New ''1.0'' RpmFormat :: string Version) = ''1.0''"
  by code_simp+

lemma example_found:
  "list_all (\<lambda>v. qualifiers_loop (g_penv example_genv) example_rpm (sv_PackageQualifiers v) = (True, None)
     \<and> leaf_MatchesVulnerability (g_libs example_genv) (version_leaf (Some (New ''1.0'' RpmFormat))) v = Some (vuln_ID v \<noteq> ''CVE-2'', None))
     (affected_rows example_dbenv example_db ''openssl'' [1])"
  by code_simp

definition example_check :: "string constraint \<Rightarrow> bool" where
  "example_check c = (case version_criteria text_libs (New ''1.0'' RpmFormat) c of Some (b, _) \<Rightarrow> b | None \<Rightarrow> False)"

lemma example_checked:
  "list_all (\<lambda>h. checks example_dbenv (version_criteria (g_libs example_genv) (New ''1.0'' RpmFormat)) example_check
     (the (ph_BlobValue (attach_package example_db h)))) (t_UnaffectedPackages example_db)"
  by code_simp

lemma example_reported:
  "vuln_ID ` set (disclosed (\<lambda>v. vuln_ID v \<noteq> ''CVE-2'') (affected_rows example_dbenv example_db ''openssl'' [1])
     (unaffected_rows example_dbenv example_db ''openssl'' [1] example_check)) = {''CVE-1''}"
  by code_simp

section \<open>Matching over the database\<close>

text \<open>C2: matching a package of a distribution against a complete database reports exactly the records of rows whose package has one
  of the package's search names, whose operating system is among those the distribution selects, whose qualifiers and version apply,
  and that share no identifier with a record of an unaffected row of the same names and systems that has a matching range; the search
  neither fails nor panics.\<close>

theorem distro_matching_over_database:
  fixes G :: "'o genv" and E :: "'o db_env"
  assumes "db_complete T" "de_libs E = g_libs G" "mp_Distro p = Some d" "\<not> isUnknownVersion (pkg_Version p)"
    and "names = PackageNames E p" "[] \<notin> set names" "ver = package_version p cfg" "ver_Raw ver \<noteq> []"
    and "\<forall>s \<in> set (distro_specs False d). GetOperatingSystems E T s = Some (Inr (systems s))" "ids = system_ids systems False d"
    and "\<forall>n \<in> set names. \<forall>v \<in> set (affected_rows E T n ids). qualifiers_loop (g_penv G) p (sv_PackageQualifiers v) = (keep v, None)
      \<and> (keep v \<longrightarrow> leaf_MatchesVulnerability (g_libs G) (version_leaf (Some ver)) v = Some (hit v, None))"
    and "\<forall>h \<in> set (t_UnaffectedPackages T). checks E (version_criteria (g_libs G) ver) m (the (ph_BlobValue (attach_package T h)))"
    and "F = concat (map (\<lambda>n. filter keep (affected_rows E T n ids)) names)" "S = concat (map (\<lambda>n. unaffected_rows E T n ids m) names)"
  shows "\<exists>ms igs. MatchPackageByDistro G (v6_Provider E T now) p catalogPkg matcher cfg = Some (Inr (ms, igs))
    \<and> m_Vulnerability ` set ms = Vulnerability.truncate ` set (disclosed hit F S)
    \<and> set igs = (\<lambda>i. RelatedFilter \<lparr>irp_Reason = ''DistroPackageFixed'', irp_RelationshipType = ''ownership-by-file-overlap'',
        irp_VulnerabilityID = i, irp_RelatedPackageID = pkg_ID (matchPackage p catalogPkg)\<rparr>) ` identifiers (known_fixed hit F S)"
proof -
  let ?vp = "v6_Provider E T now"
  have vp: "vp_PackageSearchNames ?vp p = names" by (simp add: v6_Provider_def assms(5))
  have found: "\<forall>n \<in> set names. vp_FindVulnerabilities ?vp (disclosure_row G p d n) = Inr (filter keep (affected_rows E T n ids))"
    using assms(1,6,9-11) by (auto simp: disclosure_row_def qualified_leaf_def intro!: search_affected)
  have leaf: "version_leaf (Some ver) = VersionCriteria ver" using assms(8) by (simp add: version_leaf_def OnlyVulnerableVersions_def)
  have safe: "\<forall>n \<in> set names. vp_FindVulnerabilities ?vp (unaffected_row d ver n) = Inr (unaffected_rows E T n ids m)"
    using assms(1,2,6,9,10,12) by (auto simp: unaffected_row_def leaf intro!: search_unaffected)
  have hits: "\<forall>n \<in> set names. \<forall>v \<in> set (filter keep (affected_rows E T n ids)).
      leaf_MatchesVulnerability (g_libs G) (version_leaf (Some ver)) v = Some (hit v, None)"
    using assms(11) by simp
  obtain r fx where r: "MatchPackageByDistro G ?vp p catalogPkg matcher cfg
      = Some (Inr (ToMatches G r, OwnershipIgnores (matchPackage p catalogPkg) ''DistroPackageFixed'' (rset_Vulnerabilities G fx)))"
    "represents (matchPackage p catalogPkg) r (filter (unrelated (filter hit F) S) (filter hit F))"
    "represents (matchPackage p catalogPkg) fx (filter (unrelated F (filter hit F)) F @ S)"
    using MatchPackageByDistro_represents [OF assms(3,4), where vp = ?vp and G = G and cfg = cfg, unfolded vp,
        folded assms(7), OF found safe hits assms(13,14)] by blast
  show ?thesis using r(1) distro_answers [OF r(2,3), where G = G] by simp
qed

theorem distro_matching_over_database_witness:
  "\<exists>ms igs. MatchPackageByDistro example_genv (v6_Provider example_dbenv example_db 0) example_rpm None ''rpm-matcher'' None = Some (Inr (ms, igs))
    \<and> (vuln_ID \<circ> m_Vulnerability) ` set ms = {''CVE-1''}"
proof -
  let ?hit = "\<lambda>v :: string SVuln. vuln_ID v \<noteq> ''CVE-2''"
  let ?ver = "New ''1.0'' RpmFormat :: string Version"
  have libs: "de_libs example_dbenv = g_libs example_genv" by (simp add: example_dbenv_def example_genv_def)
  have ver: "?ver = package_version example_rpm None" "ver_Raw ?ver \<noteq> []"
    using example_rpm_facts(4) example_db_facts(5) by simp_all
  have "\<exists>ms igs. MatchPackageByDistro example_genv (v6_Provider example_dbenv example_db 0) example_rpm None ''rpm-matcher'' None = Some (Inr (ms, igs))
    \<and> m_Vulnerability ` set ms = Vulnerability.truncate ` set (disclosed ?hit (affected_rows example_dbenv example_db ''openssl'' [1])
        (unaffected_rows example_dbenv example_db ''openssl'' [1] example_check))"
    using distro_matching_over_database [OF example_db_facts(1) libs example_rpm_facts(1,2) example_db_facts(2) [symmetric] _ ver
        example_db_facts(3) example_db_facts(4) [symmetric], where keep = "\<lambda>_. True" and hit = ?hit and m = example_check and now = 0
        and catalogPkg = None and matcher = "''rpm-matcher''", OF _ _ _ refl refl]
      example_found example_checked
    by (simp add: list_all_iff) blast
  then obtain ms igs where ms:
    "MatchPackageByDistro example_genv (v6_Provider example_dbenv example_db 0) example_rpm None ''rpm-matcher'' None = Some (Inr (ms, igs))"
    "m_Vulnerability ` set ms = Vulnerability.truncate ` set (disclosed ?hit (affected_rows example_dbenv example_db ''openssl'' [1])
        (unaffected_rows example_dbenv example_db ''openssl'' [1] example_check))" by blast
  have "(vuln_ID \<circ> m_Vulnerability) ` set ms = vuln_ID ` (m_Vulnerability ` set ms)" by (simp add: image_comp)
  also have "\<dots> = {''CVE-1''}"
    unfolding ms(2) image_image Vulnerability.truncate_def using example_reported by simp
  finally show ?thesis using ms(1) by blast
qed


section \<open>Operating systems\<close>

text \<open>A row of the tables is what a specifier asks for, apart from its version.\<close>

definition asked_for :: "OSSpecifier \<Rightarrow> OperatingSystem \<Rightarrow> bool" where
  "asked_for d os \<longleftrightarrow>
     (oss_Name d \<noteq> [] \<longrightarrow> strings_EqualFold (os_Name os) (oss_Name d) \<or> strings_EqualFold (os_ReleaseID os) (oss_Name d))
     \<and> (oss_LabelVersion d \<noteq> [] \<longrightarrow> strings_EqualFold (os_Codename os) (oss_LabelVersion d) \<or> strings_EqualFold (os_LabelVersion os) (oss_LabelVersion d))
     \<and> (if oss_Channel d = [] then os_Channel os = [] else strings_EqualFold (os_Channel os) (oss_Channel d))"

lemma prepareQuery_filter: "prepareQuery d rows = filter (asked_for d) rows"
  by (auto simp: prepareQuery_def asked_for_def Let_def intro!: filter_cong)

lemma clean_simps [simp]:
  "asked_for (OSSpecifier_clean d) = asked_for d" "oss_MajorVersion (OSSpecifier_clean d) = trimZeroes (oss_MajorVersion d)"
  "oss_MinorVersion (OSSpecifier_clean d) = trimZeroes (oss_MinorVersion d)" "oss_DisableFallback (OSSpecifier_clean d) = oss_DisableFallback d"
  by (auto simp: OSSpecifier_clean_def asked_for_def fun_eq_iff)

lemma trimZeroes_empty [simp]: "trimZeroes s = [] \<longleftrightarrow> s = []"
  by (simp add: trimZeroes_def Let_def)

lemma GetOperatingSystems_eq:
  assumes "oss_Name d \<noteq> []" "oss_MajorVersion d \<noteq> []" "oss_DisableAliasing d"
    and "same_major = filter (\<lambda>os. asked_for d os \<and> os_MajorVersion os = trimZeroes (oss_MajorVersion d)) (t_OperatingSystems T)"
    and "exact = filter (\<lambda>os. os_MinorVersion os = trimZeroes (oss_MinorVersion d)) same_major"
  shows "GetOperatingSystems E T d = Some (Inr (if exact \<noteq> [] then exact else if oss_DisableFallback d then []
    else if filter (\<lambda>os. os_MinorVersion os = []) same_major \<noteq> [] then filter (\<lambda>os. os_MinorVersion os = []) same_major else same_major))"
proof -
  let ?q = "filter (asked_for d) (t_OperatingSystems T)"
  have ex: "filter (\<lambda>r. os_MajorVersion r = trimZeroes (oss_MajorVersion d) \<and> os_MinorVersion r = m) ?q
      = filter (\<lambda>os. os_MinorVersion os = m) same_major" for m
    by (simp add: assms(4) conj_assoc)
  have maj: "filter (\<lambda>r. os_MajorVersion r = trimZeroes (oss_MajorVersion d)) ?q = same_major"
    by (simp add: assms(4))
  have "GetOperatingSystems E T d = Some (Inr (searchForOSExactVersions (OSSpecifier_clean d) ?q))"
    using assms(1,3) by (simp add: GetOperatingSystems_def prepareQuery_filter)
  then show ?thesis
    using assms(2) unfolding searchForOSExactVersions_def Let_def clean_simps trimZeroes_empty ex maj assms(5) by simp
qed



section \<open>Fixes\<close>

text \<open>The states the ranges of a record give it: the versions of those that are fixed, and, when there are none, the last statement.\<close>

definition fixed_versions :: "Range list \<Rightarrow> string list" where
  "fixed_versions rs = concat (map (\<lambda>r. case rg_Fix r of Some f \<Rightarrow> if dbf_State f = FixedStatus then [dbf_Version f] else [] | None \<Rightarrow> []) rs)"

definition unfixed_states :: "Range list \<Rightarrow> string list" where
  "unfixed_states rs = concat (map (\<lambda>r. case rg_Fix r of
      Some f \<Rightarrow> if dbf_State f = WontFixStatus then [''wont-fix''] else if dbf_State f = NotFixedStatus then [''not-fixed''] else []
    | None \<Rightarrow> []) rs)"

lemma fix_snoc:
  "fixed_versions (rs @ [r]) = fixed_versions rs @ (case rg_Fix r of Some f \<Rightarrow> if dbf_State f = FixedStatus then [dbf_Version f] else [] | None \<Rightarrow> [])"
  "unfixed_states (rs @ [r]) = unfixed_states rs @ (case rg_Fix r of
      Some f \<Rightarrow> if dbf_State f = WontFixStatus then [''wont-fix''] else if dbf_State f = NotFixedStatus then [''not-fixed''] else []
    | None \<Rightarrow> [])"
  by (simp_all add: fixed_versions_def unfixed_states_def)

lemma toFix_fold:
  "\<exists>av. foldl fix_step ([], [], []) rs =
     (if fixed_versions rs \<noteq> [] then FixStateFixed else if unfixed_states rs \<noteq> [] then last (unfixed_states rs) else [],
      fixed_versions rs, av)"
proof (induction rs rule: rev_induct)
  case (snoc r rs)
  then obtain av where "foldl fix_step ([], [], []) rs =
     (if fixed_versions rs \<noteq> [] then FixStateFixed else if unfixed_states rs \<noteq> [] then last (unfixed_states rs) else [],
      fixed_versions rs, av)" by blast
  moreover have "set (unfixed_states rs) \<subseteq> {''wont-fix'', ''not-fixed''}"
    by (auto simp: unfixed_states_def split: option.splits if_splits)
  then have "unfixed_states rs \<noteq> [] \<Longrightarrow> last (unfixed_states rs) \<in> {''wont-fix'', ''not-fixed''}"
    using last_in_set by blast
  then have "unfixed_states rs \<noteq> [] \<Longrightarrow> last (unfixed_states rs) \<noteq> FixStateFixed" by (auto simp: FixStateFixed_def)
  moreover have "FixStateFixed \<noteq> []" by (simp add: FixStateFixed_def)
  ultimately show ?case
    by (auto simp: fix_step_def [of "(st, vs, av)" for st vs av] fix_snoc FixedStatus_def WontFixStatus_def NotFixedStatus_def split: option.splits)
qed (simp add: fixed_versions_def unfixed_states_def)

text \<open>C34: the fix of a record lists the versions of its fixed ranges in their order; its state is fixed exactly if there is one, and
  otherwise what the last range that states anything says, whatever the ranges before it say.\<close>

theorem toFix_characterization:
  "fst (toFix rs) = \<lparr>fix_Versions = fixed_versions rs,
     fix_State = (if fixed_versions rs \<noteq> [] then FixStateFixed
                  else if unfixed_states rs \<noteq> [] then last (unfixed_states rs) else [])\<rparr>"
proof -
  obtain av where "foldl fix_step ([], [], []) rs =
     (if fixed_versions rs \<noteq> [] then FixStateFixed else if unfixed_states rs \<noteq> [] then last (unfixed_states rs) else [],
      fixed_versions rs, av)" using toFix_fold by blast
  then show ?thesis by (simp add: toFix_def)
qed

section \<open>Related vulnerabilities\<close>

text \<open>An identifier that names a vulnerability of the NVD or of GitHub, and is not the record itself.\<close>

definition relatable :: "VulnerabilityHandle \<Rightarrow> string \<Rightarrow> bool" where
  "relatable v i \<longleftrightarrow>
     (if strings_HasPrefix (strings_ToLower i) ''cve-'' then \<not> (vh_ProviderID v = nvdProvider \<and> strings_EqualFold (vh_Name v) i)
      else strings_HasPrefix (strings_ToLower i) ''ghsa-'' \<and> \<not> (vh_ProviderID v = githubProvider \<and> strings_EqualFold (vh_Name v) i))"

definition reference_to :: "'o db_env \<Rightarrow> string \<Rightarrow> string \<Rightarrow> Reference" where
  "reference_to E language i = \<lparr>ref_ID = i, ref_Namespace =
     (if strings_HasPrefix (strings_ToLower i) ''cve-'' then v5NvdNamespace else mimicV5GithubNamespace E githubProvider language)\<rparr>"

lemma related_refs_spec:
  "distinct (map ref_ID (related_refs E v language seen ids))
   \<and> set (related_refs E v language seen ids) = reference_to E language ` {i \<in> set ids. relatable v i \<and> i \<notin> set seen}"
proof (induction ids arbitrary: seen)
  case (Cons i ids)
  have "{j \<in> set (i # ids). relatable v j \<and> j \<notin> set seen}
      = (if relatable v i \<and> i \<notin> set seen then {i} else {}) \<union> {j \<in> set ids. relatable v j \<and> j \<notin> set (i # seen)}"
    by auto
  moreover have "{j \<in> set ids. relatable v j \<and> j \<notin> set (i # seen)} = {j \<in> set ids. relatable v j \<and> j \<notin> set seen}"
    if "\<not> relatable v i \<or> i \<in> set seen" using that by auto
  moreover have "ref_ID ` reference_to E language ` A = A" for A by (force simp: reference_to_def image_image)
  ultimately show ?case
    using Cons.IH [of seen] Cons.IH [of "i # seen"]
    by (auto simp: Let_def relatable_def reference_to_def image_iff)
qed simp

text \<open>The vulnerabilities a record is related to are, once each, the identifiers among its name, its aliases and the CVEs of its
  package that name a vulnerability of the NVD or a GitHub advisory, except the record itself.\<close>

theorem getRelatedVulnerabilities_exact:
  "distinct (map ref_ID (getRelatedVulnerabilities E v blob affected language))
   \<and> set (getRelatedVulnerabilities E v blob affected language)
     = reference_to E language ` {i \<in> {vh_Name v} \<union> set (vb_Aliases blob) \<union> (case affected of None \<Rightarrow> {} | Some b \<Rightarrow> set (pb_CVEs b)). relatable v i}"
proof -
  let ?ids = "vh_Name v # vb_Aliases blob @ (case affected of None \<Rightarrow> [] | Some b \<Rightarrow> pb_CVEs b)"
  have "set ?ids = {vh_Name v} \<union> set (vb_Aliases blob) \<union> (case affected of None \<Rightarrow> {} | Some b \<Rightarrow> set (pb_CVEs b))"
    by (auto split: option.split)
  moreover have "getRelatedVulnerabilities E v blob affected language = related_refs E v language [] ?ids"
    by (simp only: getRelatedVulnerabilities_def)
  ultimately show ?thesis using related_refs_spec [of E v language "[]" ?ids] by (simp del: related_refs.simps list.set(2))
qed

section \<open>Metadata\<close>

text \<open>Metadata read once per name stay the same for the rows that follow, whichever provider they are of.\<close>

lemma cached_metadata_kept:
  assumes "getCachedMetadata E T (Some v) ns cache = Some (Some m, cache')" "vh_Name w = vh_Name v"
  shows "getCachedMetadata E T (Some w) ns' cache' = Some (Some m, cache')"
  using assms by (auto simp: getCachedMetadata_def split: option.splits)

text \<open>Two records of the same vulnerability from two providers, read in one search, get the metadata of the first: the second
  carries a namespace and a description that are not of the row it was made from.\<close>

theorem metadata_of_another_provider:
  assumes "new h (pb_Ranges b) = Some (Inr (Some v))" "new h' (pb_Ranges b') = Some (Inr (Some v'))"
    and "blob h = Some b" "blob h' = Some b'" "vuln h = Some w" "vuln h' = Some w'" "vh_Name w = vh_Name w'"
    and "getVulnerabilityMetadata E T w (vuln_Namespace v) = Some m"
  shows "process_handles E T blob vuln new [h, h'] [] = Some (Inr [v\<lparr>dv_Metadata := Some m\<rparr>, v'\<lparr>dv_Metadata := Some m\<rparr>])
    \<and> vmd_Namespace m = vuln_Namespace v"
proof -
  have "vmd_Namespace m = vuln_Namespace v"
    using assms(8) by (auto simp: getVulnerabilityMetadata_def newVulnerabilityMetadata_def Let_def split: option.splits prod.splits bind_splits)
  then show ?thesis using assms by (simp add: getCachedMetadata_def)
qed

definition example_handle :: "string \<Rightarrow> packageHandle" where
  "example_handle provider = (example_row 1 1 1)\<lparr>
     ph_Vulnerability := Some ((example_vh 1 ''CVE-1'')\<lparr>vh_ProviderID := provider, vh_BlobValue := Some (example_vb ''CVE-1'' []),
       vh_Provider := Some \<lparr>prv_ID = provider, prv_Version = [], prv_Processor = [], prv_DateCaptured = None, prv_InputDigest = []\<rparr>\<rparr>),
     ph_Package := Some \<lparr>dp_ID = 1, dp_Ecosystem = ''rpm'', dp_Name = ''openssl'', dp_CPEs = []\<rparr>,
     ph_BlobValue := Some \<lparr>pb_CVEs = [], pb_Qualifiers = None, pb_Ranges = [example_range ''2.0'']\<rparr>\<rparr>"

definition example_made :: "string \<Rightarrow> string DVulnerability" where
  "example_made provider =
     (case newVulnerabilityFromAffectedPackageHandle example_dbenv (example_handle provider) [example_range ''2.0''] [] of
        Some (Inr (Some v)) \<Rightarrow> v)"

lemma example_made_total:
  "list_all (\<lambda>provider. case newVulnerabilityFromAffectedPackageHandle example_dbenv (example_handle provider) [example_range ''2.0''] [] of
     Some (Inr (Some v)) \<Rightarrow> True | _ \<Rightarrow> False) [''alpha'', ''beta'']"
  by code_simp

theorem metadata_of_another_provider_witness:
  "\<exists>m. process_handles example_dbenv example_db ph_BlobValue ph_Vulnerability
      (\<lambda>h rs. newVulnerabilityFromAffectedPackageHandle example_dbenv h rs []) [example_handle ''alpha'', example_handle ''beta''] []
      = Some (Inr [(example_made ''alpha'')\<lparr>dv_Metadata := Some m\<rparr>, (example_made ''beta'')\<lparr>dv_Metadata := Some m\<rparr>])
    \<and> vmd_Namespace m = vuln_Namespace (example_made ''alpha'') \<and> vmd_Namespace m \<noteq> vuln_Namespace (example_made ''beta'')"
proof -
  let ?new = "\<lambda>h rs. newVulnerabilityFromAffectedPackageHandle example_dbenv h rs []"
  let ?b = "\<lparr>pb_CVEs = [], pb_Qualifiers = None, pb_Ranges = [example_range ''2.0'']\<rparr>"
  have new: "?new (example_handle ''alpha'') (pb_Ranges ?b) = Some (Inr (Some (example_made ''alpha'')))"
    "?new (example_handle ''beta'') (pb_Ranges ?b) = Some (Inr (Some (example_made ''beta'')))"
    using example_made_total by (simp_all add: example_made_def split: option.splits sum.splits)
  have vals: "ph_BlobValue (example_handle i) = Some ?b" "ph_Vulnerability (example_handle i) \<noteq> None"
    "vh_Name (the (ph_Vulnerability (example_handle i))) = ''CVE-1''" for i
    by (simp_all add: example_handle_def example_vh_def)
  obtain w w' where w: "ph_Vulnerability (example_handle ''alpha'') = Some w" "ph_Vulnerability (example_handle ''beta'') = Some w'"
    using vals(2) by blast
  have "vh_BlobValue w \<noteq> None" using w(1) by (auto simp: example_handle_def)
  from metadata_total [OF example_db_facts(1) this] obtain m where m: "getVulnerabilityMetadata example_dbenv example_db w (vuln_Namespace (example_made ''alpha'')) = Some m" by blast
  have "vuln_Namespace (example_made ''alpha'') \<noteq> vuln_Namespace (example_made ''beta'')" by code_simp
  then show ?thesis
    using metadata_of_another_provider [where blob = ph_BlobValue and vuln = ph_Vulnerability and new = ?new, OF new vals(1) vals(1) w _ m]
      vals(3) [of "''alpha''"] vals(3) [of "''beta''"] w by auto
qed

end
