(* ===== verification/Build_Common.thy ===== *)
theory Build_Common
  imports Db_Provider
begin

text \<open>
  What the transformers of feed records into database rows share: \<^verbatim>\<open>grype/db/internal/versionutil\<close>,
  \<^verbatim>\<open>grype/db/internal/codename\<close>, \<^verbatim>\<open>grype/db/provider/model.go\<close>, and \<^verbatim>\<open>entry.go\<close>, \<^verbatim>\<open>references.go\<close> and
  \<^verbatim>\<open>internal/\<close> of \<^verbatim>\<open>grype/db/v6/build/transformers\<close>.

  Parsing of dates is a parameter of the definitions that use it; \<open>parse_time\<close> is what the code passes there, with the parsing of one
  layout and the third-party package that guesses layouts as its own parameters.
\<close>

section \<open>Versions and constraints\<close>

definition CleanFixedInVersion :: "string \<Rightarrow> string" where
  "CleanFixedInVersion v = (if strings_TrimSpace (strings_ToLower v) \<in> {''none'', []} then [] else v)"

definition CleanConstraint :: "string \<Rightarrow> string" where
  "CleanConstraint constraint = (if strings_ToLower constraint = ''none'' then [] else constraint)"

definition forceSemVerPattern :: re where
  "forceSemVerPattern =
     Seq (Plus (Cls (\<lambda>c. c \<in> {CHR ''>'', CHR ''<'', CHR ''=''})))
       (Seq (Star (Cls (\<lambda>c. c \<in> {CHR '' '', CHR 0x09, CHR 0x0A, CHR 0x0C, CHR 0x0D})))
         (Plus (Cls (\<lambda>c. c \<notin> {CHR ''<'', CHR ''>'', CHR ''=''}))))"

definition EnforceSemVerConstraint :: "string \<Rightarrow> string" where
  "EnforceSemVerConstraint constraint =
     (let constraint = CleanConstraint constraint in
      if constraint = [] then []
      else filter (\<lambda>c. c \<noteq> CHR '' '') (strings_Join (regexp_FindAllString forceSemVerPattern constraint) '', ''))"

definition AndConstraints :: "string list \<Rightarrow> string" where
  "AndConstraints cs = strings_Join cs '' ''"

definition OrConstraints :: "string list \<Rightarrow> string" where
  "OrConstraints cs = strings_Join cs '' || ''"

text \<open>A range is kept in its format only if its constraint can be checked in it.\<close>

definition ValidateAffectedVersion :: "'o db_env \<Rightarrow> DbVersion \<Rightarrow> verror option go" where
  "ValidateAffectedVersion E v =
     (let versionFormat = ParseFormat (de_names E) (dbv_Type v) in
      case GetConstraint (de_libs E) (dbv_Constraint v) versionFormat of
        Inl e \<Rightarrow> Some (Some e)
      | Inr c \<Rightarrow>
          (case Version_Validate (de_libs E) (New ''1.0.0'' versionFormat) of
             (ver, Some _) \<Rightarrow> Some None
           | (ver, None) \<Rightarrow> map_option (\<lambda>(_, _, err). err) (constraint_Satisfied (de_libs E) c (Some ver))))"

section \<open>Code names\<close>

definition normalizedOSCodenames :: "(string \<times> (string \<times> (string \<times> string) list) list) list" where
  "normalizedOSCodenames =
    [(''debian'',
       [(''1'', [(''1'', ''buzz''), (''2'', ''rex''), (''3'', ''bo'')]),
        (''10'', [(''*'', ''buster'')]),
        (''11'', [(''*'', ''bullseye'')]),
        (''12'', [(''*'', ''bookworm'')]),
        (''13'', [(''*'', ''trixie'')]),
        (''2'', [(''0'', ''hamm''), (''1'', ''slink''), (''2'', ''potato'')]),
        (''3'', [(''0'', ''woody''), (''1'', ''sarge'')]),
        (''4'', [(''*'', ''etch'')]),
        (''5'', [(''*'', ''lenny'')]),
        (''6'', [(''*'', ''squeeze'')]),
        (''7'', [(''*'', ''wheezy'')]),
        (''8'', [(''*'', ''jessie'')]),
        (''9'', [(''*'', ''stretch'')])]),
     (''ubuntu'',
       [(''10'', [(''10'', ''maverick''), (''4'', ''lucid'')]),
        (''11'', [(''10'', ''oneiric''), (''4'', ''natty'')]),
        (''12'', [(''10'', ''quantal''), (''4'', ''precise'')]),
        (''13'', [(''10'', ''saucy''), (''4'', ''raring'')]),
        (''14'', [(''10'', ''utopic''), (''4'', ''trusty'')]),
        (''15'', [(''10'', ''wily''), (''4'', ''vivid'')]),
        (''16'', [(''10'', ''yakkety''), (''4'', ''xenial'')]),
        (''17'', [(''10'', ''artful''), (''4'', ''zesty'')]),
        (''18'', [(''10'', ''cosmic''), (''4'', ''bionic'')]),
        (''19'', [(''10'', ''eoan''), (''4'', ''disco'')]),
        (''20'', [(''10'', ''groovy''), (''4'', ''focal'')]),
        (''21'', [(''10'', ''impish''), (''4'', ''hirsute'')]),
        (''22'', [(''10'', ''kinetic''), (''4'', ''jammy'')]),
        (''23'', [(''10'', ''mantic''), (''4'', ''lunar'')]),
        (''24'', [(''10'', ''oracular''), (''4'', ''noble'')]),
        (''25'', [(''10'', ''questing''), (''4'', ''plucky'')]),
        (''26'', [(''4'', ''resolute'')]),
        (''4'', [(''10'', ''warty'')]),
        (''5'', [(''10'', ''breezy''), (''4'', ''hoary'')]),
        (''6'', [(''10'', ''edgy''), (''6'', ''dapper'')]),
        (''7'', [(''10'', ''gutsy''), (''4'', ''feisty'')]),
        (''8'', [(''10'', ''intrepid''), (''4'', ''hardy'')]),
        (''9'', [(''10'', ''karmic''), (''4'', ''jaunty'')])])]"

definition LookupOS :: "string \<Rightarrow> string \<Rightarrow> string \<Rightarrow> string" where
  "LookupOS osName majorVersion minorVersion =
     (let majorVersion = trim_left (\<lambda>c. c = CHR ''0'') majorVersion;
          minorVersion = (if minorVersion \<noteq> ''0'' then trim_left (\<lambda>c. c = CHR ''0'') minorVersion else minorVersion) in
      case map_of normalizedOSCodenames osName of
        None \<Rightarrow> []
      | Some versions \<Rightarrow>
          (case map_of versions majorVersion of
             None \<Rightarrow> []
           | Some minorMap \<Rightarrow>
               (case map_of minorMap minorVersion of
                  Some codename \<Rightarrow> codename
                | None \<Rightarrow> (case map_of minorMap ''*'' of Some codename \<Rightarrow> codename | None \<Rightarrow> []))))"

section \<open>Entries\<close>

text \<open>The state of a provider as far as it is written to the database; the listing is its algorithm and digest.\<close>

record ProviderState =
  pst_Provider :: string
  pst_Version :: int
  pst_Processor :: string
  pst_Timestamp :: int
  pst_Listing :: "(string \<times> string) option"

definition provider_Model :: "ProviderState \<Rightarrow> DbProvider" where
  "provider_Model state =
     \<lparr>prv_ID = pst_Provider state, prv_Version = strconv_Itoa (pst_Version state), prv_Processor = pst_Processor state,
      prv_DateCaptured = Some (pst_Timestamp state),
      prv_InputDigest = (case pst_Listing state of
          None \<Rightarrow> []
        | Some (algorithm, digest) \<Rightarrow> if algorithm \<noteq> [] \<and> digest \<noteq> [] then algorithm @ '':'' @ digest else [])\<rparr>"

record OperatingSystemEOLHandle =
  eolh_Name :: string
  eolh_MajorVersion :: string
  eolh_MinorVersion :: string
  eolh_Codename :: string
  eolh_EOLDate :: "int option"
  eolh_EOASDate :: "int option"

record GoVulnDBAffectedPackage =
  gv_Handle :: packageHandle
  gv_PseudoVersionFix :: string
  gv_CustomRanges :: "Range list"

datatype build_model =
    VulnerabilityModel VulnerabilityHandle
  | AffectedPackageModel packageHandle
  | UnaffectedPackageModel packageHandle
  | AffectedCPEModel cpeHandle
  | UnaffectedCPEModel cpeHandle
  | KEVModel KnownExploitedVulnerabilityHandle
  | EpssModel EpssHandle
  | CWEModel CWEHandle
  | EOLModel OperatingSystemEOLHandle
  | GoVulnDBModel GoVulnDBAffectedPackage
  | ProviderModel DbProvider

record RelatedEntries =
  re_VulnerabilityHandle :: "VulnerabilityHandle option"
  re_Provider :: "DbProvider option"
  re_Related :: "build_model list"

definition add_model :: "build_model \<Rightarrow> RelatedEntries \<Rightarrow> RelatedEntries" where
  "add_model m e =
     (case m of
        VulnerabilityModel v \<Rightarrow> e\<lparr>re_VulnerabilityHandle := Some v\<rparr>
      | ProviderModel p \<Rightarrow> e\<lparr>re_Provider := Some p\<rparr>
      | _ \<Rightarrow> e\<lparr>re_Related := re_Related e @ [m]\<rparr>)"

definition NewEntries :: "build_model list \<Rightarrow> RelatedEntries" where
  "NewEntries models = fold add_model models \<lparr>re_VulnerabilityHandle = None, re_Provider = None, re_Related = []\<rparr>"

section \<open>References\<close>

definition refsAreEqual :: "DbReference \<Rightarrow> DbReference \<Rightarrow> bool" where
  "refsAreEqual a b \<longleftrightarrow> dref_URL a = dref_URL b \<and> dref_Tags a = dref_Tags b"

fun dedup_refs :: "DbReference list \<Rightarrow> DbReference list \<Rightarrow> DbReference list" where
  "dedup_refs seen [] = []"
| "dedup_refs seen (r # rs) =
     (if list_ex (\<lambda>already. dref_URL already = dref_URL r \<and> refsAreEqual already r) seen then dedup_refs seen rs
      else r # dedup_refs (seen @ [r]) rs)"

definition DeduplicateReferences :: "DbReference list \<Rightarrow> DbReference list" where
  "DeduplicateReferences references = dedup_refs [] references"

section \<open>Order of handles\<close>

definition operatingSystemSortKey :: "OperatingSystem option \<Rightarrow> string" where
  "operatingSystemSortKey os =
     (case os of
        None \<Rightarrow> []
      | Some o1 \<Rightarrow> strings_Join [os_Name o1, os_ReleaseID o1, os_MajorVersion o1, os_MinorVersion o1, os_LabelVersion o1, os_Channel o1,
          os_Codename o1] [CHR 0x00])"

definition string_less :: "string \<Rightarrow> string \<Rightarrow> bool" where
  "string_less a b \<longleftrightarrow> strings_Compare a b < 0"

text \<open>The first pair of ranges, in the order of the nested loops, whose constraints differ.\<close>

definition differing_constraints :: "Range list \<Rightarrow> Range list \<Rightarrow> (string \<times> string) list" where
  "differing_constraints ranges1 ranges2 =
     filter (\<lambda>(c1, c2). c1 \<noteq> c2)
       (concat (map (\<lambda>r1. map (\<lambda>r2. (dbv_Constraint (rg_Version r1), dbv_Constraint (rg_Version r2))) ranges2) ranges1))"

definition comparePackageHandles ::
  "DbPackage \<Rightarrow> OperatingSystem option \<Rightarrow> Range list \<Rightarrow> DbPackage \<Rightarrow> OperatingSystem option \<Rightarrow> Range list \<Rightarrow> bool" where
  "comparePackageHandles pkg1 os1 ranges1 pkg2 os2 ranges2 =
     (if dp_Name pkg1 \<noteq> dp_Name pkg2 then string_less (dp_Name pkg1) (dp_Name pkg2)
      else if dp_Ecosystem pkg1 \<noteq> dp_Ecosystem pkg2 then string_less (dp_Ecosystem pkg1) (dp_Ecosystem pkg2)
      else case differing_constraints ranges1 ranges2 of
        (c1, c2) # _ \<Rightarrow> string_less c1 c2
      | [] \<Rightarrow> string_less (operatingSystemSortKey os1) (operatingSystemSortKey os2))"

text \<open>Handles without a package or blob, which transformers do not make, would be a panic; here they are the least.\<close>

definition ByAffectedPackage_Less :: "packageHandle \<Rightarrow> packageHandle \<Rightarrow> bool" where
  "ByAffectedPackage_Less a b =
     (case (ph_Package a, ph_BlobValue a, ph_Package b, ph_BlobValue b) of
        (Some p, Some s, Some q, Some t) \<Rightarrow>
          comparePackageHandles p (ph_OperatingSystem a) (pb_Ranges s) q (ph_OperatingSystem b) (pb_Ranges t)
      | _ \<Rightarrow> False)"

definition sort_handles :: "packageHandle list \<Rightarrow> packageHandle list" where
  "sort_handles hs = go_sort ByAffectedPackage_Less hs"

text \<open>A handle before it is written: it has a package, a blob and perhaps an operating system, and no identifiers.\<close>

definition new_handle :: "OperatingSystem option \<Rightarrow> DbPackage \<Rightarrow> PackageBlob \<Rightarrow> packageHandle" where
  "new_handle os pkg blob =
     \<lparr>ph_ID = 0, ph_VulnerabilityID = 0, ph_Vulnerability = None, ph_OperatingSystemID = None, ph_OperatingSystem = os, ph_PackageID = 0,
      ph_Package = Some pkg, ph_BlobID = 0, ph_BlobValue = Some blob\<rparr>"

definition new_package :: "string \<Rightarrow> string \<Rightarrow> DbPackage" where
  "new_package ecosystem name = \<lparr>dp_ID = 0, dp_Ecosystem = ecosystem, dp_Name = name, dp_CPEs = []\<rparr>"

definition AdvisoryReferenceTag :: string where "AdvisoryReferenceTag = ''advisory''"

section \<open>Dates\<close>

definition time_RFC3339 :: string where "time_RFC3339 = ''2006-01-02T15:04:05Z07:00''"

fun first_layout :: "(string \<Rightarrow> string \<Rightarrow> int option) \<Rightarrow> string list \<Rightarrow> string \<Rightarrow> int option" where
  "first_layout time_Parse [] s = None"
| "first_layout time_Parse (format # formats) s =
     (case time_Parse format s of Some t \<Rightarrow> Some t | None \<Rightarrow> first_layout time_Parse formats s)"

definition parse_time :: "(string \<Rightarrow> string \<Rightarrow> int option) \<Rightarrow> (string \<Rightarrow> int option) \<Rightarrow> string \<Rightarrow> int option" where
  "parse_time time_Parse ParseAny s =
     (let s = strings_TrimSpace s in
      if s = [] then None
      else case time_Parse time_RFC3339 s of
        Some t \<Rightarrow> Some t
      | None \<Rightarrow>
          let no_zone = (\<not> strings_Contains s ''Z'' \<and> \<not> strings_Contains s ''+'' \<and> \<not> strings_Contains s ''-'');
              s = (if no_zone then s @ ''Z'' else s) in
          case (if no_zone then time_Parse time_RFC3339 s else None) of
            Some t \<Rightarrow> Some t
          | None \<Rightarrow>
              (case first_layout time_Parse [''2006-01-02T15:04:05.000'', ''2006-01-02T15:04:05.000Z''] s of
                 Some t \<Rightarrow> Some t
               | None \<Rightarrow> ParseAny s))"

end
