(* ===== verification/Os_Transform.thy ===== *)
theory Os_Transform
  imports Build_Common
begin

text \<open>
  Records of operating system feeds become rows: \<^verbatim>\<open>grype/db/v6/build/transformers/os/transform.go\<close> and
  \<^verbatim>\<open>grype/db/internal/provider/unmarshal/os_vulnerability.go\<close>.  The order in which the groups of a record are visited, that of a Go
  map, is the parameter \<open>order\<close>; dates are parsed by the parameter \<open>ParseTime\<close>.
\<close>

section \<open>Records\<close>

record OSAdvisory =
  oa_Advisory :: string
  oa_Version :: string
  oa_Minor :: "int option"
  oa_Channels :: "string list"

record OSFixedIn =
  fi_Module :: "string option"
  fi_Name :: string
  fi_NamespaceName :: string
  fi_AdvisorySummary :: "(string \<times> string) list"
  fi_NoAdvisory :: bool
  fi_Version :: string
  fi_VersionFormat :: string
  fi_Arch :: "string option"
  fi_VulnerableRange :: string
  fi_AvailableDate :: string
  fi_AvailableKind :: string
  fi_Advisories :: "OSAdvisory list"

text \<open>Of a CVSS entry the vector and version, of a CVE its name and link.\<close>

record OSVulnerability =
  ov_Name :: string
  ov_NamespaceName :: string
  ov_Description :: string
  ov_Severity :: string
  ov_CVSS :: "(string \<times> string) list"
  ov_FixedIn :: "OSFixedIn list"
  ov_Link :: string
  ov_Issued :: string
  ov_Updated :: string
  ov_CVE :: "(string \<times> string) list"

definition OSVulnerability_IsEmpty :: "OSVulnerability \<Rightarrow> bool" where
  "OSVulnerability_IsEmpty o1 \<longleftrightarrow> ov_Name o1 = []"

section \<open>Modules\<close>

definition moduleVersionConstraint :: "'o libs \<Rightarrow> string \<Rightarrow> ('o Version \<times> 'o constraint) go" where
  "moduleVersionConstraint L moduleVersion =
     (case GetConstraint L (''> '' @ moduleVersion) UnknownFormat of
        Inl _ \<Rightarrow> None
      | Inr c \<Rightarrow> Some (New moduleVersion UnknownFormat, c))"

text \<open>The name, version and constraint of a module whose last part starts with a digit.\<close>

definition moduleNameAndVersion :: "'o libs \<Rightarrow> string option \<Rightarrow> (string \<times> 'o Version \<times> 'o constraint) option go" where
  "moduleNameAndVersion L m0 =
     (case m0 of
        None \<Rightarrow> Some None
      | Some m \<Rightarrow>
          if m = [] then Some None
          else
            let moduleComponents = split_char (CHR '':'') m in
            if length moduleComponents < 2 then Some None
            else
              let moduleName = strings_Join (butlast moduleComponents) '':''; moduleVersion = last moduleComponents in
              map_option (\<lambda>(v, c). if moduleVersion \<noteq> [] \<and> is_digit (hd moduleVersion) then Some (moduleName, v, c) else None)
                (moduleVersionConstraint L moduleVersion))"

fun modularity_loop ::
  "'o libs \<Rightarrow> OSFixedIn list \<Rightarrow> OSFixedIn list \<times> (string \<times> 'o constraint \<times> OSFixedIn) list
   \<Rightarrow> (OSFixedIn list \<times> (string \<times> 'o constraint \<times> OSFixedIn) list) go" where
  "modularity_loop L [] st = Some st"
| "modularity_loop L (f # fixes) (keep, highest) = do {
     m \<leftarrow> moduleNameAndVersion L (fi_Module f);
     (case m of
        None \<Rightarrow> modularity_loop L fixes (keep @ [f], highest)
      | Some (moduleName, v, c) \<Rightarrow>
          let k = fi_Name f @ ''|'' @ fi_NamespaceName f @ ''|'' @ moduleName in
          (case map_of highest k of
             None \<Rightarrow> modularity_loop L fixes (keep, AList.update k (c, f) highest)
           | Some (constraint, _) \<Rightarrow> do {
               r \<leftarrow> constraint_Satisfied L constraint (Some v);
               (case r of
                  (_, _, Some _) \<Rightarrow> modularity_loop L fixes (keep @ [f], highest)
                | (_, sat, None) \<Rightarrow>
                    if sat then modularity_loop L fixes (keep, AList.update k (c, f) highest)
                    else modularity_loop L fixes (keep, highest))
             }))
   }"

definition FilterToHighestModularity :: "'o libs \<Rightarrow> OSFixedIn list \<Rightarrow> OSFixedIn list go" where
  "FilterToHighestModularity L fixes =
     (if length fixes < 2 then Some fixes
      else map_option (\<lambda>(keep, highest). keep @ concat (map (\<lambda>k. case map_of highest k of Some (_, f) \<Rightarrow> [f] | None \<Rightarrow> []) (sort_Strings (map fst highest))))
             (modularity_loop L fixes ([], [])))"

section \<open>Groups\<close>

record groupIndex =
  gi_name :: string
  gi_id :: string
  gi_osName :: string
  gi_osVersion :: string
  gi_osChannel :: string
  gi_hasModule :: bool
  gi_module :: string
  gi_format :: string
  gi_arch :: string

record osInfo =
  oi_name :: string
  oi_id :: string
  oi_version :: string
  oi_channel :: string

definition normalizeOsName :: "string \<Rightarrow> string" where
  "normalizeOsName i = (case map_of IDMapping i of None \<Rightarrow> i | Some d \<Rightarrow> d)"

text \<open>A namespace without a colon is a panic.\<close>

definition getOSInfo :: "string \<Rightarrow> osInfo go" where
  "getOSInfo grp =
     (case split_char (CHR '':'') grp of
        i # v # _ \<Rightarrow>
          (let (ver, channel) = (case split_char (CHR ''+'') v of ver # channel # _ \<Rightarrow> (ver, channel) | _ \<Rightarrow> (v, []));
               i = (if strings_ToLower i = ''mariner'' then
                      (case strconv_Atoi (hd (split_char (CHR ''.'') ver)) of
                         Some majorVer \<Rightarrow> if majorVer \<ge> 3 then ''azurelinux'' else i
                       | None \<Rightarrow> i)
                    else i) in
           Some \<lparr>oi_name = normalizeOsName i, oi_id = i, oi_version = ver, oi_channel = channel\<rparr>)
      | _ \<Rightarrow> None)"

definition group_of :: "osInfo \<Rightarrow> OSFixedIn \<Rightarrow> groupIndex" where
  "group_of oi fixedIn =
     \<lparr>gi_name = fi_Name fixedIn, gi_id = oi_id oi, gi_osName = oi_name oi, gi_osVersion = oi_version oi, gi_osChannel = oi_channel oi,
      gi_hasModule = (fi_Module fixedIn \<noteq> None), gi_module = (case fi_Module fixedIn of None \<Rightarrow> [] | Some m \<Rightarrow> m),
      gi_format = fi_VersionFormat fixedIn, gi_arch = (case fi_Arch fixedIn of None \<Rightarrow> [] | Some a \<Rightarrow> a)\<rparr>"

definition groupFixedIns :: "OSVulnerability \<Rightarrow> (groupIndex \<times> OSFixedIn list) list go" where
  "groupFixedIns vuln = do {
     oi \<leftarrow> getOSInfo (ov_NamespaceName vuln);
     Some (fold (\<lambda>fixedIn. append_at (group_of oi fixedIn) fixedIn) (ov_FixedIn vuln) [])
   }"

definition isNotAffectedGroup :: "OSFixedIn list \<Rightarrow> bool" where
  "isNotAffectedGroup fixedIns = list_all (\<lambda>f. CleanFixedInVersion (fi_Version f) = ''0'') fixedIns"

definition getPackageType :: "string \<Rightarrow> string" where
  "getPackageType osName =
     (if osName \<in> {''arch'', ''archlinux''} then AlpmPkg
      else if osName \<in> {''redhat'', ''amazonlinux'', ''oraclelinux'', ''sles'', ''mariner'', ''azurelinux'', ''photon'', ''fedora'', ''rocky'',
        ''rockylinux'', ''almalinux'', ''centos'', ''hummingbird''} then RpmPkg
      else if osName \<in> {''ubuntu'', ''debian'', ''echo''} then DebPkg
      else if osName \<in> {''alpine'', ''chainguard'', ''wolfi'', ''minimos'', ''secureos''} then ApkPkg
      else if osName = ''windows'' then KbPkg
      else [])"

definition os_getPackage :: "groupIndex \<Rightarrow> DbPackage" where
  "os_getPackage grp = (let t = getPackageType (gi_osName grp) in new_package t (name_Normalize (gi_name grp) t))"

section \<open>Operating systems\<close>

definition getOperatingSystem :: "string \<Rightarrow> string \<Rightarrow> string \<Rightarrow> string \<Rightarrow> OperatingSystem option" where
  "getOperatingSystem osName osID osVersion channel =
     (if osName = [] \<or> osVersion = [] then None
      else
        let versionFields = split_char (CHR ''.'') osVersion;
            first = hd versionFields;
            (majorVersion, minorVersion, labelVersion) =
              (if first \<noteq> [] then
                 (if strconv_Atoi (take 1 first) = None then ([], [], first)
                  else if length versionFields > 1 then (first, versionFields ! 1, []) else (first, [], []))
               else (first, [], [])) in
        Some \<lparr>os_ID = 0, os_Name = osName, os_ReleaseID = osID, os_MajorVersion = majorVersion, os_MinorVersion = minorVersion,
          os_LabelVersion = labelVersion, os_Codename = LookupOS osName majorVersion minorVersion, os_Channel = channel, os_EOLDate = None,
          os_EOASDate = None\<rparr>)"

definition getOperatingSystemWithMinor :: "string \<Rightarrow> string \<Rightarrow> string \<Rightarrow> string \<Rightarrow> string \<Rightarrow> OperatingSystem option" where
  "getOperatingSystemWithMinor osName osID osVersion minor channel =
     map_option (\<lambda>os. os\<lparr>os_MinorVersion := minor, os_Codename := LookupOS osName (os_MajorVersion os) minor\<rparr>)
       (getOperatingSystem osName osID osVersion channel)"

definition rhelMinorSpan :: "(string \<times> nat) list" where
  "rhelMinorSpan = [(''10'', 10), (''5'', 11), (''6'', 10), (''7'', 9), (''8'', 10), (''9'', 10)]"

definition rhelGAExpansionMinors :: "groupIndex \<Rightarrow> string list option" where
  "rhelGAExpansionMinors grp =
     (if gi_format grp \<noteq> ''rpm'' \<or> gi_osName grp \<noteq> ''redhat'' \<or> gi_osChannel grp \<noteq> [] then None
      else if CHR ''.'' \<in> set (gi_osVersion grp) then None
      else case map_of rhelMinorSpan (gi_osVersion grp) of
        None \<Rightarrow> None
      | Some hi \<Rightarrow>
          if getOperatingSystemWithMinor (gi_osName grp) (gi_id grp) (gi_osVersion grp) [] (gi_osChannel grp) = None then None
          else Some (map (\<lambda>m. strconv_Itoa (int m)) [0..<Suc hi] @ [[]]))"

section \<open>Fixes and ranges\<close>

definition os_getFixAvailability :: "(string \<Rightarrow> int option) \<Rightarrow> OSFixedIn \<Rightarrow> FixAvailability option" where
  "os_getFixAvailability ParseTime f =
     (if fi_AvailableDate f = [] then None
      else map_option (\<lambda>t. \<lparr>fa_Date = Some t, fa_Kind = fi_AvailableKind f\<rparr>) (ParseTime (fi_AvailableDate f)))"

fun advisory_order :: "string list \<Rightarrow> (string \<times> string) list \<Rightarrow> (string \<times> string) list" where
  "advisory_order links [] = []"
| "advisory_order links ((i, link) # summary) =
     (if link \<noteq> [] \<and> link \<notin> set links then (i, link) # advisory_order (link # links) summary else advisory_order links summary)"

definition advisory_refs :: "(string \<times> string) list \<Rightarrow> DbReference list" where
  "advisory_refs order = map (\<lambda>(i, link). \<lparr>dref_URL = link, dref_ID = i, dref_Tags = [AdvisoryReferenceTag]\<rparr>) order"

definition fix_detail :: "DbReference list \<Rightarrow> FixAvailability option \<Rightarrow> FixDetail option" where
  "fix_detail refs availability =
     (if refs \<noteq> [] \<or> availability \<noteq> None then Some \<lparr>fd_Available = availability, fd_References = refs\<rparr> else None)"

definition os_getFix :: "(string \<Rightarrow> int option) \<Rightarrow> OSFixedIn \<Rightarrow> DbFix" where
  "os_getFix ParseTime f =
     (let fixedInVersion = CleanFixedInVersion (fi_Version f) in
      \<lparr>dbf_Version = fixedInVersion,
       dbf_State = (if fixedInVersion \<noteq> [] then FixedStatus else if fi_NoAdvisory f then WontFixStatus else NotFixedStatus),
       dbf_Detail = fix_detail (advisory_refs (advisory_order [] (fi_AdvisorySummary f))) (os_getFixAvailability ParseTime f)\<rparr>)"

definition deriveConstraintFromFix :: "string \<Rightarrow> string \<Rightarrow> string" where
  "deriveConstraintFromFix fixVersion vulnerabilityID =
     (if strings_HasPrefix vulnerabilityID ''ALASKERNEL-'' then
        (case split_char (CHR ''-'') vulnerabilityID of
           [_, base, _, _] \<Rightarrow> ''>= '' @ base @ '', < '' @ fixVersion
         | _ \<Rightarrow> ''< '' @ fixVersion)
      else ''< '' @ fixVersion)"

definition enforceConstraint :: "string \<Rightarrow> string \<Rightarrow> string \<Rightarrow> string \<Rightarrow> string" where
  "enforceConstraint fixedVersion vulnerableRange format vulnerabilityID =
     (if vulnerableRange \<noteq> [] then vulnerableRange
      else
        let fixedVersion = CleanConstraint fixedVersion in
        if fixedVersion = [] then []
        else if strings_ToLower format = ''semver'' then EnforceSemVerConstraint fixedVersion
        else deriveConstraintFromFix fixedVersion vulnerabilityID)"

definition range_of :: "(string \<Rightarrow> int option) \<Rightarrow> OSVulnerability \<Rightarrow> OSFixedIn \<Rightarrow> Range" where
  "range_of ParseTime vuln f =
     \<lparr>rg_Version = \<lparr>dbv_Type = fi_VersionFormat f,
        dbv_Constraint = enforceConstraint (fi_Version f) (fi_VulnerableRange f) (fi_VersionFormat f) (ov_Name vuln)\<rparr>,
      rg_Fix = Some (os_getFix ParseTime f)\<rparr>"

definition buildRanges :: "(string \<Rightarrow> int option) \<Rightarrow> OSVulnerability \<Rightarrow> OSFixedIn list \<Rightarrow> Range list" where
  "buildRanges ParseTime vuln fixedIns = map (range_of ParseTime vuln) fixedIns"

record minorFix =
  mf_minor :: int
  mf_version :: string
  mf_advisory :: string
  mf_availability :: "FixAvailability option"

definition advisoryReference :: "string \<Rightarrow> DbReference option" where
  "advisoryReference rhsaID =
     (if rhsaID = [] then None
      else Some \<lparr>dref_URL = ''https://access.redhat.com/errata/'' @ rhsaID, dref_ID = rhsaID, dref_Tags = [AdvisoryReferenceTag]\<rparr>)"

text \<open>The advisories with a minor version, paired with the entry they are listed in; a later one replaces an earlier of the same minor.\<close>

definition minor_advisories :: "OSFixedIn list \<Rightarrow> (OSFixedIn \<times> OSAdvisory) list" where
  "minor_advisories fixedIns = concat (map (\<lambda>f. map (\<lambda>adv. (f, adv)) (filter (\<lambda>adv. oa_Minor adv \<noteq> None) (fi_Advisories f))) fixedIns)"

definition collectKnownMinorFixes :: "(string \<Rightarrow> int option) \<Rightarrow> OSFixedIn list \<Rightarrow> minorFix list \<times> string" where
  "collectKnownMinorFixes ParseTime fixedIns =
     (let advs = minor_advisories fixedIns;
          known = fold (\<lambda>(f, adv). AList.update (the (oa_Minor adv)) \<lparr>mf_minor = the (oa_Minor adv), mf_version = oa_Version adv,
            mf_advisory = oa_Advisory adv, mf_availability = os_getFixAvailability ParseTime f\<rparr>) advs [] in
      (go_sort (\<lambda>a b. mf_minor a < mf_minor b) (map snd known),
       case advs of [] \<Rightarrow> [] | _ \<Rightarrow> fi_VersionFormat (fst (last advs))))"

definition hasVulnerableRange :: "OSFixedIn list \<Rightarrow> bool" where
  "hasVulnerableRange fixedIns = list_ex (\<lambda>f. fi_VulnerableRange f \<noteq> []) fixedIns"

definition pinned_range :: "OSVulnerability \<Rightarrow> string \<Rightarrow> minorFix \<Rightarrow> Range" where
  "pinned_range vuln versionFormat maxFix =
     \<lparr>rg_Version = \<lparr>dbv_Type = versionFormat, dbv_Constraint = deriveConstraintFromFix (CleanConstraint (mf_version maxFix)) (ov_Name vuln)\<rparr>,
      rg_Fix = Some \<lparr>dbf_Version = CleanFixedInVersion (mf_version maxFix), dbf_State = FixedStatus,
        dbf_Detail = fix_detail (case advisoryReference (mf_advisory maxFix) of None \<Rightarrow> [] | Some r \<Rightarrow> [r]) (mf_availability maxFix)\<rparr>\<rparr>"

text \<open>The ranges of the row for a minor version; the empty text is the row for the major version.\<close>

definition rangesFor :: "(string \<Rightarrow> int option) \<Rightarrow> OSVulnerability \<Rightarrow> OSFixedIn list \<Rightarrow> string \<Rightarrow> Range list" where
  "rangesFor ParseTime vuln fixedIns minor =
     (let (fixes, versionFormat) = collectKnownMinorFixes ParseTime fixedIns;
          perMinor = (fixes \<noteq> [] \<and> \<not> hasVulnerableRange fixedIns);
          baseRanges = buildRanges ParseTime vuln fixedIns in
      if \<not> perMinor \<or> minor = [] then baseRanges
      else
        let m = (case strconv_Atoi minor of Some m \<Rightarrow> m | None \<Rightarrow> 0);
            minorFixes = filter (\<lambda>fx. mf_minor fx = m) fixes in
        if minorFixes = [] then baseRanges else [pinned_range vuln versionFormat (last minorFixes)])"

section \<open>Packages\<close>

definition os_getAliases :: "OSVulnerability \<Rightarrow> string list" where
  "os_getAliases vuln = map fst (ov_CVE vuln)"

definition group_qualifiers :: "groupIndex \<Rightarrow> PackageQualifiers option" where
  "group_qualifiers grp =
     (if gi_format grp = ''rpm'' then
        Some \<lparr>pq_RpmModularity = Some (if gi_hasModule grp then gi_module grp else []), pq_PlatformCPEs = [],
          pq_Architecture = (if gi_arch grp \<noteq> [] then Some (gi_arch grp) else None), pq_RootIO = None, pq_GoImports = []\<rparr>
      else None)"

definition expandRHELMinorRows ::
  "(string \<Rightarrow> int option) \<Rightarrow> OSVulnerability \<Rightarrow> groupIndex \<Rightarrow> OSFixedIn list \<Rightarrow> PackageQualifiers option \<Rightarrow> packageHandle list option" where
  "expandRHELMinorRows ParseTime vuln grp fixedIns qualifiers =
     map_option (map (\<lambda>minor. new_handle
         (getOperatingSystemWithMinor (gi_osName grp) (gi_id grp) (gi_osVersion grp) minor (gi_osChannel grp))
         (os_getPackage grp)
         \<lparr>pb_CVEs = os_getAliases vuln, pb_Qualifiers = qualifiers, pb_Ranges = rangesFor ParseTime vuln fixedIns minor\<rparr>))
       (rhelGAExpansionMinors grp)"

definition unaffected_handle :: "OSVulnerability \<Rightarrow> groupIndex \<Rightarrow> OSFixedIn list \<Rightarrow> OperatingSystem option \<Rightarrow> packageHandle" where
  "unaffected_handle vuln grp fixedIns os =
     new_handle os (os_getPackage grp)
       \<lparr>pb_CVEs = os_getAliases vuln, pb_Qualifiers = None,
        pb_Ranges = [\<lparr>rg_Version = \<lparr>dbv_Type = fi_VersionFormat (hd fixedIns), dbv_Constraint = []\<rparr>,
          rg_Fix = Some \<lparr>dbf_Version = [], dbf_State = NotAffectedFixStatus, dbf_Detail = None\<rparr>\<rparr>]\<rparr>"

definition expandUnaffectedHandles :: "OSVulnerability \<Rightarrow> groupIndex \<Rightarrow> OSFixedIn list \<Rightarrow> packageHandle list" where
  "expandUnaffectedHandles vuln grp fixedIns =
     (case rhelGAExpansionMinors grp of
        None \<Rightarrow> [unaffected_handle vuln grp fixedIns
          (getOperatingSystem (gi_osName grp) (gi_id grp) (gi_osVersion grp) (gi_osChannel grp))]
      | Some minors \<Rightarrow> map (\<lambda>minor. unaffected_handle vuln grp fixedIns
          (getOperatingSystemWithMinor (gi_osName grp) (gi_id grp) (gi_osVersion grp) minor (gi_osChannel grp))) minors)"

definition affected_handles :: "(string \<Rightarrow> int option) \<Rightarrow> OSVulnerability \<Rightarrow> groupIndex \<times> OSFixedIn list \<Rightarrow> packageHandle list" where
  "affected_handles ParseTime vuln gf =
     (case gf of (grp, fixedIns) \<Rightarrow>
        let qualifiers = group_qualifiers grp in
        case expandRHELMinorRows ParseTime vuln grp fixedIns qualifiers of
          Some expanded \<Rightarrow> expanded
        | None \<Rightarrow> [new_handle (getOperatingSystem (gi_osName grp) (gi_id grp) (gi_osVersion grp) (gi_osChannel grp)) (os_getPackage grp)
            \<lparr>pb_CVEs = os_getAliases vuln, pb_Qualifiers = qualifiers, pb_Ranges = buildRanges ParseTime vuln fixedIns\<rparr>])"

definition suppressed :: "groupIndex \<times> OSFixedIn list \<Rightarrow> bool" where
  "suppressed gf \<longleftrightarrow> getPackageType (gi_osName (fst gf)) \<noteq> ApkPkg \<and> isNotAffectedGroup (snd gf)"

definition os_getPackages ::
  "(string \<Rightarrow> int option) \<Rightarrow> ((groupIndex \<times> OSFixedIn list) list \<Rightarrow> (groupIndex \<times> OSFixedIn list) list) \<Rightarrow> OSVulnerability
   \<Rightarrow> (packageHandle list \<times> packageHandle list) go" where
  "os_getPackages ParseTime order vuln = do {
     groups \<leftarrow> groupFixedIns vuln;
     let groups = (if is_perm (order groups) groups then order groups else groups);
     Some (sort_handles (concat (map (affected_handles ParseTime vuln) (filter (\<lambda>gf. \<not> suppressed gf) groups))),
           sort_handles (concat (map (\<lambda>gf. expandUnaffectedHandles vuln (fst gf) (snd gf)) (filter suppressed groups))))
   }"

section \<open>The vulnerability\<close>

definition os_getReferences :: "OSVulnerability \<Rightarrow> DbReference list" where
  "os_getReferences vuln =
     (if strings_TrimSpace (ov_Link vuln) = [] then []
      else
        let linkSet = (if ov_Link vuln \<noteq> [] then [ov_Link vuln] else []);
            linkOrder = linkSet @ filter (\<lambda>l. l \<noteq> [] \<and> l \<notin> set linkSet) (map snd (ov_CVE vuln)) in
        map (\<lambda>l. \<lparr>dref_URL = l, dref_ID = [], dref_Tags = []\<rparr>) linkOrder)"

definition SeveritySchemeCHMLN :: string where "SeveritySchemeCHMLN = ''CHMLN''"

definition os_getSeverities :: "OSVulnerability \<Rightarrow> DbSeverity list" where
  "os_getSeverities vuln =
     (if ov_Severity vuln \<noteq> [] \<and> strings_ToLower (ov_Severity vuln) \<noteq> ''unknown''
      then [\<lparr>sev_Scheme = SeveritySchemeCHMLN, sev_Value = TextValue (strings_ToLower (ov_Severity vuln)), sev_Source = [], sev_Rank = 1\<rparr>] else [])
     @ map (\<lambda>(vector, ver). \<lparr>sev_Scheme = SeveritySchemeCVSS, sev_Value = CVSSValue \<lparr>cs_Vector = vector, cs_Version = ver\<rparr>, sev_Source = [],
         sev_Rank = 2\<rparr>) (ov_CVSS vuln)"

definition new_vulnerability ::
  "ProviderState \<Rightarrow> string \<Rightarrow> string \<Rightarrow> int option \<Rightarrow> int option \<Rightarrow> int option \<Rightarrow> VulnerabilityBlob \<Rightarrow> VulnerabilityHandle" where
  "new_vulnerability state name status modified published withdrawn blob =
     \<lparr>vh_ID = 0, vh_Name = name, vh_Status = status, vh_PublishedDate = published, vh_ModifiedDate = modified, vh_WithdrawnDate = withdrawn,
      vh_ProviderID = pst_Provider state, vh_Provider = Some (provider_Model state), vh_BlobID = 0, vh_BlobValue = Some blob\<rparr>"

definition os_Transform ::
  "(string \<Rightarrow> int option) \<Rightarrow> ((groupIndex \<times> OSFixedIn list) list \<Rightarrow> (groupIndex \<times> OSFixedIn list) list) \<Rightarrow> OSVulnerability \<Rightarrow> ProviderState
   \<Rightarrow> RelatedEntries go" where
  "os_Transform ParseTime order vuln state = do {
     (affected, unaffected) \<leftarrow> os_getPackages ParseTime order vuln;
     Some (NewEntries (VulnerabilityModel (new_vulnerability state (ov_Name vuln) VulnerabilityActive (ParseTime (ov_Updated vuln))
         (ParseTime (ov_Issued vuln)) None
         \<lparr>vb_ID = ov_Name vuln, vb_Assigners = [], vb_Description = strings_TrimSpace (ov_Description vuln), vb_References = os_getReferences vuln,
          vb_Aliases = os_getAliases vuln, vb_Severities = os_getSeverities vuln, vb_Modifications = []\<rparr>)
       # map AffectedPackageModel affected @ map UnaffectedPackageModel unaffected))
   }"

end
