(* ===== verification/Os_Properties.thy ===== *)
theory Os_Properties
  imports Os_Transform Db_Properties Matcher_Facts
begin

text \<open>
  What is proved of the transformer for operating system feeds: no fix of a record is lost, the rows for the minor versions of Red Hat
  Enterprise Linux are complete and found by a search, and what their ranges are.  The order of handles is not one.
\<close>

section \<open>Groups\<close>

lemma distinct_append_at: "distinct (map fst al) \<Longrightarrow> distinct (map fst (append_at k v al))"
  by (simp add: append_at_def distinct_update)

lemma groups_of:
  assumes "gs = fold (\<lambda>f. append_at (key f) f) fs []"
  shows "distinct (map fst gs)" "fst ` set gs = key ` set fs" "(g, xs) \<in> set gs \<Longrightarrow> xs = filter (\<lambda>f. key f = g) fs \<and> xs \<noteq> []"
proof -
  have "distinct (map fst (fold (\<lambda>f. append_at (key f) f) fs al))" if "distinct (map fst al)" for al
    using that by (induction fs arbitrary: al) (simp_all add: distinct_append_at)
  then show d: "distinct (map fst gs)" by (simp add: assms)
  show keys: "fst ` set gs = key ` set fs" by (simp add: assms fold_append_at)
  assume gx: "(g, xs) \<in> set gs"
  then have "get_fps gs g = xs" using d by (simp add: get_fps_def)
  then have "xs = filter (\<lambda>f. key f = g) fs" using fold_append_at(1) [of key fs "[]" g] by (simp add: assms get_fps_def)
  moreover have "g \<in> key ` set fs" using gx keys by force
  ultimately show "xs = filter (\<lambda>f. key f = g) fs \<and> xs \<noteq> []" by (auto simp: filter_empty_conv)
qed

lemma group_found:
  assumes "gs = fold (\<lambda>f. append_at (key f) f) fs []" "f \<in> set fs"
  obtains xs where "(key f, xs) \<in> set gs" "xs = filter (\<lambda>x. key x = key f) fs" "f \<in> set xs"
proof -
  from groups_of(2) [OF assms(1)] assms(2) obtain xs where "(key f, xs) \<in> set gs" by force
  with groups_of(3) [OF assms(1) this] assms(2) that show thesis by auto
qed

section \<open>Rows for minor versions\<close>

lemma Itoa_nat: "strconv_Itoa (int m) = show_nat m"
  by (simp add: strconv_Itoa_def)

lemma expansion_minors:
  assumes "rhelGAExpansionMinors g = Some minors"
  obtains hi where "map_of rhelMinorSpan (gi_osVersion g) = Some hi" "minors = map show_nat [0..<Suc hi] @ [[]]"
    "gi_osName g = ''redhat''" "gi_osChannel g = []" "gi_format g = ''rpm''"
  using assms by (auto simp: rhelGAExpansionMinors_def Itoa_nat split: if_splits option.splits)

lemma distinct_minors:
  assumes "rhelGAExpansionMinors g = Some minors"
  shows "distinct minors"
proof -
  obtain hi where m: "minors = map show_nat [0..<Suc hi] @ [[]]" using expansion_minors [OF assms] by blast
  have "inj_on show_nat A" for A by (auto intro: inj_onI)
  moreover have "[] \<notin> range show_nat" using show_nat_not_Nil by (metis rangeE)
  ultimately show ?thesis unfolding m by (auto simp: distinct_map simp del: upt_Suc)
qed

text \<open>The systems of the rows for a group.\<close>

definition minor_systems :: "groupIndex \<Rightarrow> string list \<Rightarrow> OperatingSystem option list" where
  "minor_systems g minors =
     map (\<lambda>minor. getOperatingSystemWithMinor (gi_osName g) (gi_id g) (gi_osVersion g) minor (gi_osChannel g)) minors"

lemma new_handle_simps [simp]:
  "ph_OperatingSystem (new_handle os p b) = os" "ph_Package (new_handle os p b) = Some p" "ph_BlobValue (new_handle os p b) = Some b"
  by (simp_all add: new_handle_def)

lemma rows_of_group:
  assumes "rhelGAExpansionMinors g = Some minors"
  shows "map ph_OperatingSystem (affected_handles PT v (g, fs)) = minor_systems g minors"
    and "map ph_OperatingSystem (expandUnaffectedHandles v' g fs') = minor_systems g minors"
    and "map (\<lambda>h. map_option pb_Ranges (ph_BlobValue h)) (affected_handles PT v (g, fs)) = map (\<lambda>m. Some (rangesFor PT v fs m)) minors"
  using assms by (simp_all add: affected_handles_def expandRHELMinorRows_def expandUnaffectedHandles_def unaffected_handle_def minor_systems_def)


lemma minor_system:
  assumes "map_of rhelMinorSpan v = Some hi"
  shows "getOperatingSystemWithMinor ''redhat'' i v m [] = Some \<lparr>os_ID = 0, os_Name = ''redhat'', os_ReleaseID = i, os_MajorVersion = v,
    os_MinorVersion = m, os_LabelVersion = [], os_Codename = [], os_Channel = [], os_EOLDate = None, os_EOASDate = None\<rparr>"
    and "trimZeroes v = v" "v \<noteq> []"
proof -
  have v: "v \<in> {''10'', ''5'', ''6'', ''7'', ''8'', ''9''}" using assms by (auto simp: rhelMinorSpan_def split: if_splits)
  have "map_of normalizedOSCodenames ''redhat'' = None" by (simp add: normalizedOSCodenames_def)
  then have look: "LookupOS ''redhat'' a b = []" for a b by (simp add: LookupOS_def)
  have "list_all (\<lambda>v. split_char (CHR ''.'') v = [v] \<and> \<not> Option.is_none (strconv_Atoi (take 1 v)) \<and> trimZeroes v = v \<and> v \<noteq> [])
      [''10'', ''5'', ''6'', ''7'', ''8'', ''9'']" by code_simp
  with v have first: "split_char (CHR ''.'') v = [v] \<and> strconv_Atoi (take 1 v) \<noteq> None \<and> trimZeroes v = v \<and> v \<noteq> []"
    by (auto simp: list_all_iff Option.is_none_def)
  then show "getOperatingSystemWithMinor ''redhat'' i v m [] = Some \<lparr>os_ID = 0, os_Name = ''redhat'', os_ReleaseID = i, os_MajorVersion = v,
    os_MinorVersion = m, os_LabelVersion = [], os_Codename = [], os_Channel = [], os_EOLDate = None, os_EOASDate = None\<rparr>"
    by (auto simp: getOperatingSystemWithMinor_def getOperatingSystem_def look Let_def)
  from first show "trimZeroes v = v" "v \<noteq> []" by auto
qed

lemma trimZeroes_id: "s \<noteq> [] \<Longrightarrow> hd s \<noteq> CHR ''0'' \<Longrightarrow> trimZeroes s = s"
  by (simp add: trimZeroes_def Let_def hd_conv_nth)

lemma trimZeroes_number: "trimZeroes (show_nat k) = show_nat k"
proof (cases "k = 0")
  case True
  have "trimZeroes (show_nat 0) = show_nat 0" by code_simp
  then show ?thesis by (simp only: True)
next
  case False
  then have "hd (show_nat k) \<noteq> CHR ''0''" using hd_show_nat [of k] by (auto simp: digit_val_def byte_val_def simp del: show_nat.simps)
  then show ?thesis using show_nat_not_Nil by (rule trimZeroes_id [rotated])
qed

lemma trimZeroes_minor:
  assumes "rhelGAExpansionMinors g = Some minors" "m \<in> set minors"
  shows "trimZeroes m = m"
proof -
  obtain hi where "minors = map show_nat [0..<Suc hi] @ [[]]" using expansion_minors [OF assms(1)] by blast
  then have "m = [] \<or> m \<in> range show_nat" using assms(2) by (auto simp del: upt_Suc)
  moreover have "trimZeroes [] = []" by (simp add: trimZeroes_def)
  ultimately show ?thesis by (elim disjE) (auto simp: trimZeroes_number simp del: show_nat.simps)
qed

text \<open>C40: the rows for a package that is affected and those for one that is not, in the same namespace of Red Hat Enterprise Linux, are for
  the same operating systems in the same order: each minor version from 0 to the last one of the major version, once, and the
  major version alone.\<close>

theorem rhel_rows_uniform:
  assumes "rhelGAExpansionMinors g = Some minors"
    and "gi_osName g' = gi_osName g" "gi_id g' = gi_id g" "gi_osVersion g' = gi_osVersion g" "gi_osChannel g' = gi_osChannel g"
      "gi_format g' = gi_format g"
  shows "map ph_OperatingSystem (affected_handles PT v (g, fs)) = map ph_OperatingSystem (expandUnaffectedHandles v' g' fs')
    \<and> (\<exists>hi. map_of rhelMinorSpan (gi_osVersion g) = Some hi
        \<and> map (map_option os_MinorVersion \<circ> ph_OperatingSystem) (affected_handles PT v (g, fs)) = map Some (map show_nat [0..<Suc hi] @ [[]]))"
proof -
  obtain hi where hi: "map_of rhelMinorSpan (gi_osVersion g) = Some hi" "minors = map show_nat [0..<Suc hi] @ [[]]"
    "gi_osName g = ''redhat''" "gi_osChannel g = []" using expansion_minors [OF assms(1)] by blast
  have "rhelGAExpansionMinors g' = rhelGAExpansionMinors g" unfolding rhelGAExpansionMinors_def assms(2-6) ..
  then have g': "rhelGAExpansionMinors g' = Some minors" using assms(1) by simp
  have "minor_systems g' minors = minor_systems g minors" using assms(2-5) by (simp add: minor_systems_def)
  then have "map ph_OperatingSystem (affected_handles PT v (g, fs)) = map ph_OperatingSystem (expandUnaffectedHandles v' g' fs')"
    using rows_of_group(1) [OF assms(1)] rows_of_group(2) [OF g'] by simp
  moreover have "map (map_option os_MinorVersion \<circ> ph_OperatingSystem) (affected_handles PT v (g, fs))
      = map (map_option os_MinorVersion) (minor_systems g minors)"
    using rows_of_group(1) [OF assms(1), of PT v fs] by (metis map_map)
  moreover have "map (map_option os_MinorVersion) (minor_systems g minors) = map Some minors"
    using hi(3,4) minor_system(1) [OF hi(1)] by (simp add: minor_systems_def)
  ultimately show ?thesis using hi(1,2) by auto
qed


definition example_group :: groupIndex where
  "example_group = \<lparr>gi_name = ''openssl'', gi_id = ''rhel'', gi_osName = ''redhat'', gi_osVersion = ''9'', gi_osChannel = [], gi_hasModule = False,
     gi_module = [], gi_format = ''rpm'', gi_arch = []\<rparr>"

definition example_fixedIn :: "string \<Rightarrow> OSAdvisory list \<Rightarrow> OSFixedIn" where
  "example_fixedIn v advs = \<lparr>fi_Module = None, fi_Name = ''openssl'', fi_NamespaceName = ''rhel:9'', fi_AdvisorySummary = [], fi_NoAdvisory = False,
     fi_Version = v, fi_VersionFormat = ''rpm'', fi_Arch = None, fi_VulnerableRange = [], fi_AvailableDate = [], fi_AvailableKind = [],
     fi_Advisories = advs\<rparr>"

definition example_osvuln :: OSVulnerability where
  "example_osvuln = \<lparr>ov_Name = ''CVE-1'', ov_NamespaceName = ''rhel:9'', ov_Description = [], ov_Severity = ''High'', ov_CVSS = [],
     ov_FixedIn = [example_fixedIn ''3.0'' [\<lparr>oa_Advisory = ''RHSA-1'', oa_Version = ''2.0.el9_2'', oa_Minor = Some 2, oa_Channels = []\<rparr>]],
     ov_Link = [], ov_Issued = [], ov_Updated = [], ov_CVE = []\<rparr>"

lemma example_minors: "rhelGAExpansionMinors example_group = Some (map show_nat [0..<11] @ [[]])"
  by code_simp

theorem rhel_rows_uniform_witness:
  "map ph_OperatingSystem (affected_handles (\<lambda>_. None) example_osvuln (example_group, ov_FixedIn example_osvuln))
    = map ph_OperatingSystem (expandUnaffectedHandles example_osvuln (example_group\<lparr>gi_name := ''curl''\<rparr>) [example_fixedIn ''0'' []])"
  by (rule rhel_rows_uniform [OF example_minors, THEN conjunct1]) simp_all

section \<open>Searching the rows\<close>

lemma filter_key_unique:
  assumes "distinct (map f xs)" "x \<in> set xs"
  shows "filter (\<lambda>y. f y = f x) xs = [x]"
  using assms
proof (induction xs)
  case (Cons y ys)
  show ?case
  proof (cases "x = y")
    case True
    have "filter (\<lambda>z. f z = f y) ys = []" using Cons.prems(1) by (force simp: filter_empty_conv image_iff)
    then show ?thesis using True by simp
  next
    case False
    with Cons show ?thesis by (auto simp: image_iff)
  qed
qed simp



definition example_rows :: db where
  "example_rows = example_db\<lparr>t_OperatingSystems :=
     map (the \<circ> ph_OperatingSystem) (affected_handles (\<lambda>_. None) example_osvuln (example_group, ov_FixedIn example_osvuln))\<rparr>"


section \<open>Ranges of a minor version\<close>

text \<open>The advisories of a minor version, in the order of the record.\<close>

definition advisories_for :: "OSFixedIn list \<Rightarrow> int \<Rightarrow> (OSFixedIn \<times> OSAdvisory) list" where
  "advisories_for fs m = filter (\<lambda>(f, adv). oa_Minor adv = Some m) (minor_advisories fs)"

definition fix_of :: "(string \<Rightarrow> int option) \<Rightarrow> OSFixedIn \<times> OSAdvisory \<Rightarrow> minorFix" where
  "fix_of PT fa = \<lparr>mf_minor = the (oa_Minor (snd fa)), mf_version = oa_Version (snd fa), mf_advisory = oa_Advisory (snd fa),
     mf_availability = os_getFixAvailability PT (fst fa)\<rparr>"

lemma fold_update_last:
  "map_of (fold (\<lambda>x. AList.update (k x) (v x)) xs al) i = (case filter (\<lambda>x. k x = i) xs of [] \<Rightarrow> map_of al i | ys \<Rightarrow> Some (v (last ys)))"
proof (induction xs rule: rev_induct)
  case (snoc x xs)
  then show ?case by (auto simp: update_conv' split: list.splits)
qed simp

lemma fold_update_distinct: "distinct (map fst al) \<Longrightarrow> distinct (map fst (fold (\<lambda>x. AList.update (k x) (v x)) xs al))"
  by (induction xs arbitrary: al) (simp_all add: distinct_update)

lemma filter_map_of:
  assumes "distinct (map fst al)"
  shows "map snd (filter (\<lambda>kv. fst kv = m) al) = (case map_of al m of None \<Rightarrow> [] | Some v \<Rightarrow> [v])"
  using assms
proof (induction al)
  case (Cons kv al)
  then have new: "fst kv \<notin> fst ` set al" and "distinct (map fst al)" by auto
  have "filter (\<lambda>kv'. fst kv' = fst kv) al = []"
    unfolding filter_empty_conv using new by (metis image_eqI)
  with \<open>distinct (map fst al)\<close> show ?case using Cons.IH by (cases kv) auto
qed simp

lemma known_fixes:
  assumes "fxs = fst (collectKnownMinorFixes PT fs)"
  shows "filter (\<lambda>fx. mf_minor fx = m) fxs = (case advisories_for fs m of [] \<Rightarrow> [] | ys \<Rightarrow> [fix_of PT (last ys)])"
proof -
  let ?advs = "minor_advisories fs"
  let ?known = "fold (\<lambda>x. AList.update (the (oa_Minor (snd x))) (fix_of PT x)) ?advs []"
  have d: "distinct (map fst ?known)" by (simp add: fold_update_distinct)
  have key: "mf_minor fx = k" if "(k, fx) \<in> set ?known" for k fx
  proof -
    from that d have "map_of ?known k = Some fx" by simp
    then show ?thesis
      by (auto simp: fold_update_last fix_of_def filter_eq_Cons_iff split: list.splits dest!: last_in_set)
  qed
  have k: "fst (collectKnownMinorFixes PT fs) = go_sort (\<lambda>a b. mf_minor a < mf_minor b) (map snd ?known)"
    by (simp add: collectKnownMinorFixes_def Let_def fix_of_def case_prod_unfold)
  have "filter (\<lambda>fx. mf_minor fx = m) (map snd ?known) = map snd (filter (\<lambda>kv. fst kv = m) ?known)"
    using key by (force simp: filter_map o_def intro!: arg_cong [of _ _ "map snd"] filter_cong)
  also have "\<dots> = (case map_of ?known m of None \<Rightarrow> [] | Some fx \<Rightarrow> [fx])" by (rule filter_map_of [OF d])
  also have "\<dots> = (case advisories_for fs m of [] \<Rightarrow> [] | ys \<Rightarrow> [fix_of PT (last ys)])"
  proof -
    have "filter (\<lambda>x. the (oa_Minor (snd x)) = m) ?advs = advisories_for fs m"
      unfolding advisories_for_def by (rule filter_cong) (auto simp: minor_advisories_def)
    then show ?thesis by (simp add: fold_update_last split: list.splits)
  qed
  finally show ?thesis
    unfolding assms k by (metis (no_types, lifting) list.simps(4,5) list.exhaust mset_filter mset_go_sort mset_single_iff mset_zero_iff)
qed

lemma Atoi_show_nat: "fits_int64 (int k) \<Longrightarrow> strconv_Atoi (show_nat k) = Some (int k)"
  using Atoi_Itoa [of "int k"] by (simp add: Itoa_nat del: show_nat.simps)

text \<open>C39: the row for a minor version of Red Hat Enterprise Linux has, when no entry of the record states its own range and some advisory is
  for that minor version, the single range below the version of the last such advisory, fixed there and with that advisory as
  reference; otherwise, and in the row for the major version, it has one range for each entry of the record.\<close>

theorem rangesFor_characterization:
  assumes "fits_int64 (int k)" "fmt = fi_VersionFormat (fst (last (minor_advisories fs)))"
  shows "rangesFor PT v fs (show_nat k) =
      (if hasVulnerableRange fs \<or> advisories_for fs (int k) = [] then map (range_of PT v) fs
       else [pinned_range v fmt (fix_of PT (last (advisories_for fs (int k))))])
    \<and> rangesFor PT v fs [] = map (range_of PT v) fs"
proof -
  obtain fxs f where c: "collectKnownMinorFixes PT fs = (fxs, f)" by (meson surj_pair)
  have k: "filter (\<lambda>fx. mf_minor fx = int k) fxs = (case advisories_for fs (int k) of [] \<Rightarrow> [] | ys \<Rightarrow> [fix_of PT (last ys)])"
    using known_fixes [of fxs PT fs "int k"] c by simp
  have f: "f = fmt" if "advisories_for fs (int k) \<noteq> []"
  proof -
    have "minor_advisories fs \<noteq> []" using that by (auto simp: advisories_for_def)
    then show ?thesis using c assms(2) by (auto simp: collectKnownMinorFixes_def Let_def split: list.splits)
  qed
  have "fxs \<noteq> []" if "advisories_for fs (int k) \<noteq> []" using k that by (auto split: list.splits)
  then have "rangesFor PT v fs (show_nat k) =
      (if hasVulnerableRange fs \<or> advisories_for fs (int k) = [] then map (range_of PT v) fs
       else [pinned_range v fmt (fix_of PT (last (advisories_for fs (int k))))])"
    using k f show_nat_not_Nil [of k] Atoi_show_nat [OF assms(1)]
    by (auto simp: rangesFor_def c buildRanges_def Let_def simp del: show_nat.simps split: list.splits)
  moreover have "rangesFor PT v fs [] = map (range_of PT v) fs" by (simp add: rangesFor_def c buildRanges_def)
  ultimately show ?thesis by (rule conjI)
qed

theorem rangesFor_characterization_witness:
  "map (dbv_Constraint \<circ> rg_Version) (rangesFor (\<lambda>_. None) example_osvuln (ov_FixedIn example_osvuln) (show_nat 2)) = [''< 2.0.el9_2'']
   \<and> map (dbv_Constraint \<circ> rg_Version) (rangesFor (\<lambda>_. None) example_osvuln (ov_FixedIn example_osvuln) (show_nat 3)) = [''< 3.0'']"
proof -
  have two: "fits_int64 (int 2)" "fits_int64 (int 3)" by code_simp+
  show ?thesis
    unfolding rangesFor_characterization [OF two(1) refl, THEN conjunct1] rangesFor_characterization [OF two(2) refl, THEN conjunct1]
    by code_simp
qed

section \<open>Entries of a record\<close>

lemma os_getPackages_groups:
  assumes "os_getPackages PT order vuln = Some (aff, unaff)" "getOSInfo (ov_NamespaceName vuln) = Some oi"
    and "gs = fold (\<lambda>f. append_at (group_of oi f) f) (ov_FixedIn vuln) []"
  shows "set aff = (\<Union>gf\<in>{gf\<in>set gs. \<not> suppressed gf}. set (affected_handles PT vuln gf))"
    and "set unaff = (\<Union>gf\<in>{gf\<in>set gs. suppressed gf}. set (expandUnaffectedHandles vuln (fst gf) (snd gf)))"
proof -
  let ?gs = "if is_perm (order gs) gs then order gs else gs"
  have "aff = sort_handles (concat (map (affected_handles PT vuln) (filter (\<lambda>gf. \<not> suppressed gf) ?gs)))"
    "unaff = sort_handles (concat (map (\<lambda>gf. expandUnaffectedHandles vuln (fst gf) (snd gf)) (filter suppressed ?gs)))"
    using assms(1) by (simp_all add: os_getPackages_def groupFixedIns_def assms(2) Let_def flip: assms(3))
  then show "set aff = (\<Union>gf\<in>{gf\<in>set gs. \<not> suppressed gf}. set (affected_handles PT vuln gf))"
    and "set unaff = (\<Union>gf\<in>{gf\<in>set gs. suppressed gf}. set (expandUnaffectedHandles vuln (fst gf) (snd gf)))"
    by (simp_all only: sort_handles_def set_go_sort set_concat set_map set_filter set_guarded_perm image_image)
qed

lemma rangesFor_major: "rangesFor PT v fs [] = buildRanges PT v fs"
  by (simp add: rangesFor_def case_prod_unfold Let_def)

lemma affected_row:
  obtains h where "h \<in> set (affected_handles PT v (g, fs))" "ph_Package h = Some (os_getPackage g)"
    "ph_BlobValue h = Some \<lparr>pb_CVEs = os_getAliases v, pb_Qualifiers = group_qualifiers g, pb_Ranges = buildRanges PT v fs\<rparr>"
proof (cases "rhelGAExpansionMinors g")
  case None
  then show thesis using that by (simp add: affected_handles_def expandRHELMinorRows_def)
next
  case (Some minors)
  then have "[] \<in> set minors" using expansion_minors by fastforce
  let ?h = "\<lambda>minor. new_handle (getOperatingSystemWithMinor (gi_osName g) (gi_id g) (gi_osVersion g) minor (gi_osChannel g)) (os_getPackage g)
    \<lparr>pb_CVEs = os_getAliases v, pb_Qualifiers = group_qualifiers g, pb_Ranges = rangesFor PT v fs minor\<rparr>"
  have "?h [] \<in> set (affected_handles PT v (g, fs))"
    using Some \<open>[] \<in> set minors\<close> by (simp add: affected_handles_def expandRHELMinorRows_def)
  then show thesis using that [of "?h []"] by (simp add: rangesFor_major)
qed

lemma unaffected_row: "\<exists>h. h \<in> set (expandUnaffectedHandles v g fs)"
  unfolding ex_in_conv using expansion_minors [of g] by (auto simp: expandUnaffectedHandles_def split: option.splits)

lemma packages_of_rows:
  "h \<in> set (affected_handles PT v (g, fs)) \<Longrightarrow> ph_Package h = Some (os_getPackage g)"
  "h \<in> set (expandUnaffectedHandles v g fs) \<Longrightarrow> ph_Package h = Some (os_getPackage g)"
  by (auto simp: affected_handles_def expandRHELMinorRows_def expandUnaffectedHandles_def unaffected_handle_def Let_def split: option.splits)

lemma entries_represented:
  assumes "os_getPackages PT order vuln = Some (aff, unaff)" "getOSInfo (ov_NamespaceName vuln) = Some oi" "f \<in> set (ov_FixedIn vuln)"
    and "g = group_of oi f" "fs = filter (\<lambda>x. group_of oi x = g) (ov_FixedIn vuln)"
  shows "(if suppressed (g, fs) then \<exists>h\<in>set unaff. ph_Package h = Some (os_getPackage g)
      else \<exists>h\<in>set aff. \<exists>b. ph_Package h = Some (os_getPackage g) \<and> ph_BlobValue h = Some b
        \<and> pb_Qualifiers b = group_qualifiers g \<and> range_of PT vuln f \<in> set (pb_Ranges b))
    \<and> ph_Package ` (set aff \<union> set unaff) \<subseteq> (\<lambda>f. Some (os_getPackage (group_of oi f))) ` set (ov_FixedIn vuln)"
proof (rule conjI)
  let ?gs = "fold (\<lambda>f. append_at (group_of oi f) f) (ov_FixedIn vuln) []"
  note sets = os_getPackages_groups [OF assms(1,2) refl]
  obtain xs where "(group_of oi f, xs) \<in> set ?gs" "xs = filter (\<lambda>x. group_of oi x = group_of oi f) (ov_FixedIn vuln)" "f \<in> set xs"
    by (rule group_found [OF refl assms(3)])
  then have g: "(g, fs) \<in> set ?gs" and f: "f \<in> set fs" by (simp_all add: assms(4,5))
  show "if suppressed (g, fs) then \<exists>h\<in>set unaff. ph_Package h = Some (os_getPackage g)
      else \<exists>h\<in>set aff. \<exists>b. ph_Package h = Some (os_getPackage g) \<and> ph_BlobValue h = Some b
        \<and> pb_Qualifiers b = group_qualifiers g \<and> range_of PT vuln f \<in> set (pb_Ranges b)"
  proof (cases "suppressed (g, fs)")
    case True
    then have "set (expandUnaffectedHandles vuln g fs) \<subseteq> set unaff" using g unfolding sets by force
    moreover obtain h where h: "h \<in> set (expandUnaffectedHandles vuln g fs)" using unaffected_row by metis
    ultimately show ?thesis using True packages_of_rows(2) [OF h] by auto
  next
    case False
    then have sub: "set (affected_handles PT vuln (g, fs)) \<subseteq> set aff" using g unfolding sets by force
    obtain h where h: "h \<in> set (affected_handles PT vuln (g, fs))" "ph_Package h = Some (os_getPackage g)"
      "ph_BlobValue h = Some \<lparr>pb_CVEs = os_getAliases vuln, pb_Qualifiers = group_qualifiers g, pb_Ranges = buildRanges PT vuln fs\<rparr>"
      by (rule affected_row)
    with sub have "h \<in> set aff" by blast
    moreover have "range_of PT vuln f \<in> set (buildRanges PT vuln fs)" using f by (simp add: buildRanges_def)
    ultimately show ?thesis using False h(2,3) by auto
  qed
  show "ph_Package ` (set aff \<union> set unaff) \<subseteq> (\<lambda>f. Some (os_getPackage (group_of oi f))) ` set (ov_FixedIn vuln)"
  proof (rule image_subsetI)
    fix h
    assume "h \<in> set aff \<union> set unaff"
    then obtain gf where gf: "gf \<in> set ?gs"
      "h \<in> set (affected_handles PT vuln (fst gf, snd gf)) \<or> h \<in> set (expandUnaffectedHandles vuln (fst gf) (snd gf))"
      unfolding sets by auto
    then have p: "ph_Package h = Some (os_getPackage (fst gf))" by (meson packages_of_rows)
    from groups_of(2) [OF refl, of "group_of oi" "ov_FixedIn vuln"] gf(1) have "fst gf \<in> group_of oi ` set (ov_FixedIn vuln)" by force
    with p show "ph_Package h \<in> (\<lambda>f. Some (os_getPackage (group_of oi f))) ` set (ov_FixedIn vuln)" by auto
  qed
qed

text \<open>C38: every entry of a record is represented in what the transformer makes of it: an entry of a package whose entries all say version
  zero, outside the systems with apk packages, by a handle of the unaffected packages; any other by a handle of the affected packages,
  with the range of that entry and the qualifiers of its group.  And only packages named by an entry have handles.\<close>

theorem os_entries_represented:
  assumes "os_getPackages PT order vuln = Some (aff, unaff)" "getOSInfo (ov_NamespaceName vuln) = Some oi" "f \<in> set (ov_FixedIn vuln)"
    and "g = group_of oi f" "fs = filter (\<lambda>x. group_of oi x = g) (ov_FixedIn vuln)"
  shows "(if suppressed (g, fs) then \<exists>h\<in>set unaff. ph_Package h = Some (os_getPackage g)
      else \<exists>h\<in>set aff. \<exists>b. ph_Package h = Some (os_getPackage g) \<and> ph_BlobValue h = Some b
        \<and> pb_Qualifiers b = group_qualifiers g \<and> range_of PT vuln f \<in> set (pb_Ranges b))
    \<and> ph_Package ` (set aff \<union> set unaff) \<subseteq> (\<lambda>f. Some (os_getPackage (group_of oi f))) ` set (ov_FixedIn vuln)"
  by (rule entries_represented [OF assms])

definition example_packages :: "(packageHandle list \<times> packageHandle list) go" where
  "example_packages = os_getPackages (\<lambda>_. None) (\<lambda>gs. gs) (example_osvuln\<lparr>ov_NamespaceName := ''debian:12''\<rparr>)"

theorem os_entries_represented_witness:
  "\<exists>aff unaff. example_packages = Some (aff, unaff) \<and> aff \<noteq> []"
proof -
  let ?v = "example_osvuln\<lparr>ov_NamespaceName := ''debian:12''\<rparr>"
  have some: "example_packages \<noteq> None" "getOSInfo ''debian:12'' \<noteq> None"
    "list_all (\<lambda>oi. \<not> suppressed (group_of oi (hd (ov_FixedIn ?v)), filter (\<lambda>x. group_of oi x = group_of oi (hd (ov_FixedIn ?v))) (ov_FixedIn ?v)))
       (case getOSInfo ''debian:12'' of None \<Rightarrow> [] | Some oi \<Rightarrow> [oi])"
    "hd (ov_FixedIn ?v) \<in> set (ov_FixedIn ?v)"
    by code_simp+
  then obtain aff unaff oi where p: "example_packages = Some (aff, unaff)" and oi: "getOSInfo ''debian:12'' = Some oi" by fastforce
  have ns: "getOSInfo (ov_NamespaceName ?v) = Some oi" using oi by simp
  from os_entries_represented [OF p [unfolded example_packages_def] ns some(4) refl refl, THEN conjunct1] some(3) oi have "aff \<noteq> []" by auto
  with p show ?thesis by blast
qed

section \<open>Order of handles\<close>

text \<open>What a handle with one range is ordered by.\<close>

definition handle_key :: "packageHandle \<Rightarrow> string list" where
  "handle_key h = [dp_Name (the (ph_Package h)), dp_Ecosystem (the (ph_Package h)),
     dbv_Constraint (rg_Version (hd (pb_Ranges (the (ph_BlobValue h))))), operatingSystemSortKey (ph_OperatingSystem h)]"

definition one_range :: "packageHandle \<Rightarrow> bool" where
  "one_range h \<longleftrightarrow> ph_Package h \<noteq> None \<and> (case ph_BlobValue h of None \<Rightarrow> False | Some b \<Rightarrow> length (pb_Ranges b) = 1)"

definition handle_cmp :: "packageHandle \<Rightarrow> packageHandle \<Rightarrow> int" where
  "handle_cmp a b = lexcmp strings_Compare (handle_key a) (handle_key b)"

interpretation handles: three_way_order handle_cmp
  unfolding handle_cmp_def by (rule three_way_order.pull_back_order [OF str.lexcmp_order])

lemma lexcmp_strings_eq_0 [simp]: "lexcmp strings_Compare a b = 0 \<longleftrightarrow> a = b"
  by (induction a b rule: list_induct2') auto

lemma Less_handle_cmp:
  assumes "one_range a" "one_range b"
  shows "ByAffectedPackage_Less a b \<longleftrightarrow> handle_cmp a b < 0"
proof -
  from assms obtain p s r q t u where "ph_Package a = Some p" "ph_BlobValue a = Some s" "pb_Ranges s = [r]"
    "ph_Package b = Some q" "ph_BlobValue b = Some t" "pb_Ranges t = [u]"
    by (auto simp: one_range_def length_Suc_conv split: option.splits)
  then show ?thesis
    by (simp add: ByAffectedPackage_Less_def comparePackageHandles_def differing_constraints_def string_less_def handle_cmp_def handle_key_def str.refl)
qed

lemma sorted_keys_unique:
  assumes "sorted_wrt (\<lambda>a b. handle_cmp a b \<le> 0) xs" "sorted_wrt (\<lambda>a b. handle_cmp a b \<le> 0) ys"
    and "inj_on handle_key (set xs)" "mset xs = mset ys"
  shows "xs = ys"
  using assms
proof (induction xs arbitrary: ys)
  case (Cons x xs)
  then obtain y ys' where ys: "ys = y # ys'" by (cases ys) auto
  have same: "set (x # xs) = set ys" using Cons.prems(4) by (rule mset_eq_setD)
  have "handle_cmp x y \<le> 0" "handle_cmp y x \<le> 0"
    using same Cons.prems(1,2) ys handles.refl by (metis list.set_intros(1) order_refl set_ConsD sorted_wrt.simps(2))+
  then have "handle_cmp x y = 0" using handles.flip [of x y] by simp
  then have "handle_key x = handle_key y" by (simp add: handle_cmp_def)
  then have "x = y" using Cons.prems(3) same ys by (metis inj_onD list.set_intros(1))
  moreover have "xs = ys'" using Cons.IH [of ys'] Cons.prems ys \<open>x = y\<close> by (simp add: inj_on_insert)
  ultimately show ?case using ys by simp
qed simp

text \<open>Handles that have one range each and differ in name, ecosystem, constraint or operating system are written in the same order
  whatever order they were made in.\<close>

theorem sort_handles_deterministic:
  assumes "list_all one_range xs" "inj_on handle_key (set xs)" "mset xs = mset ys"
  shows "sort_handles xs = sort_handles ys"
proof -
  have sorted: "sort_handles zs = go_sort (\<lambda>a b. handle_cmp a b < 0) zs" if "set zs = set xs" for zs
    unfolding sort_handles_def using assms(1) that by (intro go_sort_cong Less_handle_cmp) (auto simp: list_all_iff)
  have "set ys = set xs" using assms(3) by (metis mset_eq_setD)
  then show ?thesis
    unfolding sorted [OF refl] sorted [OF \<open>set ys = set xs\<close>]
    using assms(2,3) by (intro sorted_keys_unique) (simp_all add: handles.sorted_go_sort)
qed

definition example_handle :: "string \<Rightarrow> string list \<Rightarrow> packageHandle" where
  "example_handle name cs = new_handle None (new_package ''rpm'' name) \<lparr>pb_CVEs = [], pb_Qualifiers = None,
     pb_Ranges = map (\<lambda>c. \<lparr>rg_Version = \<lparr>dbv_Type = ''rpm'', dbv_Constraint = c\<rparr>, rg_Fix = None\<rparr>) cs\<rparr>"

theorem sort_handles_deterministic_witness:
  "sort_handles [example_handle ''b'' [''< 1''], example_handle ''a'' [''< 1'']] = sort_handles [example_handle ''a'' [''< 1''], example_handle ''b'' [''< 1'']]"
proof (rule sort_handles_deterministic)
  show "inj_on handle_key (set [example_handle ''b'' [''< 1''], example_handle ''a'' [''< 1'']])" by code_simp
qed (code_simp, simp add: add_mset_commute)

text \<open>The order of handles is not an order when handles have two constraints, the first before the second: two handles of the same package
  with these constraints come before each other whatever their operating systems are, and so their order in the database depends on
  the order they were made in.\<close>

theorem handle_order_cycle:
  assumes "ph_Package a = Some p" "ph_Package b = Some q" "dp_Name p = dp_Name q" "dp_Ecosystem p = dp_Ecosystem q"
    and "ph_BlobValue a = Some s" "ph_BlobValue b = Some t" "pb_Ranges s = r # r' # rs" "pb_Ranges t = pb_Ranges s"
    and "string_less (dbv_Constraint (rg_Version r)) (dbv_Constraint (rg_Version r'))"
  shows "ByAffectedPackage_Less a b \<and> ByAffectedPackage_Less b a \<and> sort_handles [a, b] = [b, a] \<and> sort_handles [b, a] = [a, b]"
proof -
  have "dbv_Constraint (rg_Version r) \<noteq> dbv_Constraint (rg_Version r')" using assms(9) by (auto simp: string_less_def str.refl)
  then have "\<exists>rest. differing_constraints (r # r' # rs) (r # r' # rs) = (dbv_Constraint (rg_Version r), dbv_Constraint (rg_Version r')) # rest"
    by (simp add: differing_constraints_def)
  then have "ByAffectedPackage_Less a b" "ByAffectedPackage_Less b a"
    using assms by (auto simp: ByAffectedPackage_Less_def comparePackageHandles_def)
  then show ?thesis by (simp add: sort_handles_def go_sort_def)
qed

theorem handle_order_cycle_witness:
  "sort_handles [example_handle ''a'' [''< 1'', ''< 2''], (example_handle ''a'' [''< 1'', ''< 2''])\<lparr>ph_ID := 1\<rparr>]
    = [(example_handle ''a'' [''< 1'', ''< 2''])\<lparr>ph_ID := 1\<rparr>, example_handle ''a'' [''< 1'', ''< 2'']]"
proof -
  let ?a = "example_handle ''a'' [''< 1'', ''< 2'']"
  let ?r = "\<lambda>c. \<lparr>rg_Version = \<lparr>dbv_Type = ''rpm'', dbv_Constraint = c\<rparr>, rg_Fix = None\<rparr>"
  let ?b = "\<lparr>pb_CVEs = [], pb_Qualifiers = None, pb_Ranges = [?r ''< 1'', ?r ''< 2'']\<rparr>"
  have a: "ph_Package ?a = Some (new_package ''rpm'' ''a'')" "ph_BlobValue ?a = Some ?b"
    by (simp_all add: example_handle_def)
  have "string_less (dbv_Constraint (rg_Version (?r ''< 1''))) (dbv_Constraint (rg_Version (?r ''< 2'')))" by code_simp
  then have "sort_handles [?a, ?a\<lparr>ph_ID := 1\<rparr>] = [?a\<lparr>ph_ID := 1\<rparr>, ?a]"
    using handle_order_cycle [of ?a "new_package ''rpm'' ''a''" "?a\<lparr>ph_ID := 1\<rparr>" "new_package ''rpm'' ''a''" ?b ?b "?r ''< 1''" "?r ''< 2''" "[]"] a
    by simp
  then show ?thesis .
qed

end
