(* ===== verification/Db_Write.thy ===== *)
theory Db_Write
  imports Db_Store
begin

text \<open>
  Writing rows: \<^verbatim>\<open>cache.go\<close>, the hooks of \<^verbatim>\<open>models.go\<close>, the part of \<^verbatim>\<open>blob_store.go\<close> that writes, and the \<^verbatim>\<open>Add\<close> functions of
  the stores of \<^verbatim>\<open>grype/db/v6\<close>.

  The store is explicit state: the tables, the cache of keys of rows already written, and the digests of blobs.  The functions change
  the handles they are given through pointers; here they return them changed.  What the database engine does is what its schema in
  the tags of the models says: a row without an identifier gets the next one, and a row that violates a uniqueness or a foreign key
  constraint is an error.  An error ends the build, so no state is returned with it.  Saving the CPEs of a package with the package
  is done by \<^verbatim>\<open>gorm\<close> and is the parameter \<open>we_createWithCPEs\<close>.  Blobs of the three kinds share one table and its identifiers; they are
  stored as JSON and compared by a digest of that text, the parameter \<open>we_digest\<close>.
\<close>

section \<open>State\<close>

record wstore =
  ws_db :: db
  ws_idKeys :: "string \<rightharpoonup> (string \<rightharpoonup> int)"
  ws_strKeys :: "string \<rightharpoonup> (string \<rightharpoonup> string)"
  ws_idsByDigest :: "string \<rightharpoonup> int"
  ws_epssDate :: "int option"

datatype blob_value =
    BlobOfVulnerability VulnerabilityBlob
  | BlobOfPackage PackageBlob
  | BlobOfKEV KnownExploitedVulnerabilityBlob

record write_env =
  we_digest :: "blob_value \<Rightarrow> string"
  we_quote :: "string \<Rightarrow> string"
  we_formatTime :: "int \<Rightarrow> string"
  we_createWithCPEs :: "wstore \<Rightarrow> DbPackage \<Rightarrow> serror + wstore \<times> DbPackage"
  we_dbVersion :: SchemaVer

text \<open>The keys under which the cache keeps its tables.\<close>

definition cpesTableCacheKey :: string where "cpesTableCacheKey = ''cpes''"
definition packagesTableCacheKey :: string where "packagesTableCacheKey = ''packages''"
definition operatingSystemsTableCacheKey :: string where "operatingSystemsTableCacheKey = ''operating_systems''"
definition vulnerabilitiesTableCacheKey :: string where "vulnerabilitiesTableCacheKey = ''vulnerabilities''"

lemmas cache_tables = cpesTableCacheKey_def packagesTableCacheKey_def operatingSystemsTableCacheKey_def vulnerabilitiesTableCacheKey_def

section \<open>The cache\<close>

definition cache_getID :: "wstore \<Rightarrow> string \<Rightarrow> string \<Rightarrow> int option" where
  "cache_getID w table key = (case ws_idKeys w table of None \<Rightarrow> None | Some t \<Rightarrow> t key)"

definition cache_getString :: "wstore \<Rightarrow> string \<Rightarrow> string \<Rightarrow> string option" where
  "cache_getString w table key = (case ws_strKeys w table of None \<Rightarrow> None | Some t \<Rightarrow> t key)"

definition cache_setIDEntry :: "string \<Rightarrow> string \<Rightarrow> int \<Rightarrow> wstore \<Rightarrow> wstore" where
  "cache_setIDEntry table key i w =
     w\<lparr>ws_idKeys := (ws_idKeys w)(table \<mapsto> (case ws_idKeys w table of None \<Rightarrow> Map.empty | Some t \<Rightarrow> t)(key \<mapsto> i))\<rparr>"

definition cache_setStringEntry :: "string \<Rightarrow> string \<Rightarrow> string \<Rightarrow> wstore \<Rightarrow> wstore" where
  "cache_setStringEntry table key i w =
     w\<lparr>ws_strKeys := (ws_strKeys w)(table \<mapsto> (case ws_strKeys w table of None \<Rightarrow> Map.empty | Some t \<Rightarrow> t)(key \<mapsto> i))\<rparr>"

section \<open>Rows\<close>

definition next_id :: "int list \<Rightarrow> int" where
  "next_id ids = fold max ids 0 + 1"

definition ErrUnique :: serror where "ErrUnique = ErrorText ''UNIQUE constraint failed''"
definition ErrForeignKey :: serror where "ErrForeignKey = ErrorText ''FOREIGN KEY constraint failed''"

text \<open>A row is added to a table, with the next identifier if it has none.\<close>

definition insert_row ::
  "('r \<Rightarrow> int) \<Rightarrow> (int \<Rightarrow> 'r \<Rightarrow> 'r) \<Rightarrow> ('r \<Rightarrow> 'r \<Rightarrow> bool) \<Rightarrow> 'r list \<Rightarrow> 'r \<Rightarrow> serror + 'r list \<times> 'r" where
  "insert_row rowID setRowID clash rows r =
     (let i = (if rowID r = 0 then next_id (map rowID rows) else rowID r) in
      if list_ex (\<lambda>s. rowID s = i \<or> clash s r) rows then Inl ErrUnique else Inr (rows @ [setRowID i r], setRowID i r))"

section \<open>Blobs\<close>

definition blob_ids :: "db \<Rightarrow> int list" where
  "blob_ids T = map fst (t_VulnerabilityBlobs T) @ map fst (t_PackageBlobs T) @ map fst (t_KEVBlobs T)"

definition store_blob :: "int \<Rightarrow> blob_value \<Rightarrow> db \<Rightarrow> db" where
  "store_blob i b T =
     (case b of
        BlobOfVulnerability v \<Rightarrow> T\<lparr>t_VulnerabilityBlobs := t_VulnerabilityBlobs T @ [(i, v)]\<rparr>
      | BlobOfPackage v \<Rightarrow> T\<lparr>t_PackageBlobs := t_PackageBlobs T @ [(i, v)]\<rparr>
      | BlobOfKEV v \<Rightarrow> T\<lparr>t_KEVBlobs := t_KEVBlobs T @ [(i, v)]\<rparr>)"

definition addBlobs :: "write_env \<Rightarrow> wstore \<Rightarrow> blob_value \<Rightarrow> wstore \<times> int" where
  "addBlobs E w b =
     (let digest = we_digest E b in
      case (case ws_idsByDigest w digest of Some i \<Rightarrow> if i \<noteq> 0 then Some i else None | None \<Rightarrow> None) of
        Some i \<Rightarrow> (w, i)
      | None \<Rightarrow>
          let i = next_id (blob_ids (ws_db w)) in
          (w\<lparr>ws_db := store_blob i b (ws_db w), ws_idsByDigest := (ws_idsByDigest w)(digest \<mapsto> i)\<rparr>, i))"

definition addBlobable :: "write_env \<Rightarrow> ('h \<Rightarrow> blob_value option) \<Rightarrow> (int \<Rightarrow> 'h \<Rightarrow> 'h) \<Rightarrow> wstore \<Rightarrow> 'h \<Rightarrow> wstore \<times> 'h" where
  "addBlobable E getBlobValue setBlobID w h =
     (case getBlobValue h of
        None \<Rightarrow> (w, h)
      | Some b \<Rightarrow> (case addBlobs E w b of (w', i) \<Rightarrow> (w', setBlobID i h)))"

section \<open>Objects that handles refer to\<close>

text \<open>
  The functions that write the operating systems, packages, CPEs and providers of handles are one another's copies but for the type:
  objects whose key is in the cache are not written again; of the others the first of each key is; then every object gets the
  identifier the cache has for its key, and every handle that of its object.  Packages with CPEs are always written.
\<close>

record ('h, 'r, 'i) ref_ops =
  ro_obj :: "'h \<Rightarrow> 'r option"
  ro_setObj :: "'r \<Rightarrow> 'h \<Rightarrow> 'h"
  ro_setFK :: "'i \<Rightarrow> 'h \<Rightarrow> 'h"
  ro_key :: "'r \<Rightarrow> string"
  ro_always :: "'r \<Rightarrow> bool"
  ro_rowID :: "'r \<Rightarrow> 'i"
  ro_setRowID :: "'i \<Rightarrow> 'r \<Rightarrow> 'r"
  ro_cached :: "wstore \<Rightarrow> string \<Rightarrow> 'i option"
  ro_cacheSet :: "string \<Rightarrow> 'i \<Rightarrow> wstore \<Rightarrow> wstore"
  ro_create :: "wstore \<Rightarrow> 'r \<Rightarrow> serror + wstore \<times> 'r"

fun mark_new :: "('h, 'r, 'i) ref_ops \<Rightarrow> wstore \<Rightarrow> string list \<Rightarrow> 'h list \<Rightarrow> ('h \<times> bool) list" where
  "mark_new R w seen [] = []"
| "mark_new R w seen (h # hs) =
     (case ro_obj R h of
        None \<Rightarrow> (h, False) # mark_new R w seen hs
      | Some r \<Rightarrow>
          if ro_always R r then (h, True) # mark_new R w seen hs
          else (case ro_cached R w (ro_key R r) of
              Some i \<Rightarrow> (ro_setFK R i h, False)
            | None \<Rightarrow> (h, ro_key R r \<notin> set seen)) # mark_new R w (ro_key R r # seen) hs)"

fun create_marked :: "('h, 'r, 'i) ref_ops \<Rightarrow> wstore \<Rightarrow> ('h \<times> bool) list \<Rightarrow> serror + wstore \<times> 'h list" where
  "create_marked R w [] = Inr (w, [])"
| "create_marked R w ((h, new) # hs) =
     (case (if new then ro_obj R h else None) of
        None \<Rightarrow> (case create_marked R w hs of Inl e \<Rightarrow> Inl e | Inr (w', hs') \<Rightarrow> Inr (w', h # hs'))
      | Some r \<Rightarrow>
          (case ro_create R w r of
             Inl e \<Rightarrow> Inl e
           | Inr (w1, r1) \<Rightarrow>
               (case create_marked R (ro_cacheSet R (ro_key R r1) (ro_rowID R r1) w1) hs of
                  Inl e \<Rightarrow> Inl e
                | Inr (w', hs') \<Rightarrow> Inr (w', ro_setObj R r1 h # hs'))))"

definition resolve_ref :: "('h, 'r, 'i) ref_ops \<Rightarrow> wstore \<Rightarrow> 'h \<Rightarrow> 'h" where
  "resolve_ref R w h =
     (case ro_obj R h of
        None \<Rightarrow> h
      | Some r \<Rightarrow>
          let r = (case (if ro_always R r then None else ro_cached R w (ro_key R r)) of Some i \<Rightarrow> ro_setRowID R i r | None \<Rightarrow> r) in
          ro_setFK R (ro_rowID R r) (ro_setObj R r h))"

definition add_objects :: "('h, 'r, 'i) ref_ops \<Rightarrow> wstore \<Rightarrow> 'h list \<Rightarrow> serror + wstore \<times> 'h list" where
  "add_objects R w hs =
     (let marked = mark_new R w [] hs in
      if \<not> list_ex snd marked then Inr (w, map fst marked)
      else case create_marked R w marked of
        Inl e \<Rightarrow> Inl e
      | Inr (w', hs') \<Rightarrow> Inr (w', map (resolve_ref R w') hs'))"

section \<open>Operating systems\<close>

definition same_os_index :: "OperatingSystem \<Rightarrow> OperatingSystem \<Rightarrow> bool" where
  "same_os_index a b \<longleftrightarrow> os_Name a = os_Name b \<and> os_ReleaseID a = os_ReleaseID b \<and> os_MajorVersion a = os_MajorVersion b
     \<and> os_MinorVersion a = os_MinorVersion b \<and> os_LabelVersion a = os_LabelVersion b \<and> os_Channel a = os_Channel b"

definition OperatingSystem_BeforeCreate :: "wstore \<Rightarrow> OperatingSystem \<Rightarrow> OperatingSystem" where
  "OperatingSystem_BeforeCreate w o1 =
     (let o1 = OperatingSystem_clean o1 in
      case cache_getID w operatingSystemsTableCacheKey (OperatingSystem_cacheKey o1) of Some i \<Rightarrow> o1\<lparr>os_ID := i\<rparr> | None \<Rightarrow> o1)"

definition create_os :: "wstore \<Rightarrow> OperatingSystem \<Rightarrow> serror + wstore \<times> OperatingSystem" where
  "create_os w o1 =
     (case insert_row os_ID (\<lambda>i r. r\<lparr>os_ID := i\<rparr>) same_os_index (t_OperatingSystems (ws_db w)) (OperatingSystem_BeforeCreate w o1) of
        Inl e \<Rightarrow> Inl (WrapError ''unable to create OS records'' e)
      | Inr (rows, r) \<Rightarrow> Inr (w\<lparr>ws_db := (ws_db w)\<lparr>t_OperatingSystems := rows\<rparr>\<rparr>, r))"

definition os_ops :: "(packageHandle, OperatingSystem, int) ref_ops" where
  "os_ops = \<lparr>ro_obj = ph_OperatingSystem, ro_setObj = (\<lambda>o1 h. h\<lparr>ph_OperatingSystem := Some o1\<rparr>),
     ro_setFK = (\<lambda>i h. h\<lparr>ph_OperatingSystemID := Some i\<rparr>), ro_key = OperatingSystem_cacheKey, ro_always = (\<lambda>_. False), ro_rowID = os_ID,
     ro_setRowID = (\<lambda>i r. r\<lparr>os_ID := i\<rparr>), ro_cached = (\<lambda>w. cache_getID w operatingSystemsTableCacheKey),
     ro_cacheSet = cache_setIDEntry operatingSystemsTableCacheKey, ro_create = create_os\<rparr>"

definition addOsFromPackages :: "wstore \<Rightarrow> packageHandle list \<Rightarrow> serror + wstore \<times> packageHandle list" where
  "addOsFromPackages w phs =
     add_objects os_ops w (map (\<lambda>h. h\<lparr>ph_OperatingSystem := map_option OperatingSystem_clean (ph_OperatingSystem h)\<rparr>) phs)"

section \<open>Packages\<close>

definition same_package :: "DbPackage \<Rightarrow> DbPackage \<Rightarrow> bool" where
  "same_package a b \<longleftrightarrow> strings_EqualFold (dp_Ecosystem a) (dp_Ecosystem b) \<and> strings_EqualFold (dp_Name a) (dp_Name b)"

text \<open>The hook replaces a package that exists by the row; a conflicting row is then not written again.\<close>

definition create_package :: "write_env \<Rightarrow> wstore \<Rightarrow> DbPackage \<Rightarrow> serror + wstore \<times> DbPackage" where
  "create_package E w p =
     (if dp_CPEs p \<noteq> [] then we_createWithCPEs E w p
      else case filter (\<lambda>q. same_package q p) (t_Packages (ws_db w)) of
        q # _ \<Rightarrow> Inr (w, q)
      | [] \<Rightarrow>
          (case insert_row dp_ID (\<lambda>i r. r\<lparr>dp_ID := i\<rparr>) same_package (t_Packages (ws_db w)) p of
             Inl e \<Rightarrow> Inr (w, p)
           | Inr (rows, r) \<Rightarrow> Inr (w\<lparr>ws_db := (ws_db w)\<lparr>t_Packages := rows\<rparr>\<rparr>, r)))"

definition package_ops :: "write_env \<Rightarrow> (packageHandle, DbPackage, int) ref_ops" where
  "package_ops E = \<lparr>ro_obj = ph_Package, ro_setObj = (\<lambda>p h. h\<lparr>ph_Package := Some p\<rparr>), ro_setFK = (\<lambda>i h. h\<lparr>ph_PackageID := i\<rparr>),
     ro_key = Package_cacheKey, ro_always = (\<lambda>p. dp_CPEs p \<noteq> []), ro_rowID = dp_ID, ro_setRowID = (\<lambda>i r. r\<lparr>dp_ID := i\<rparr>),
     ro_cached = (\<lambda>w. cache_getID w packagesTableCacheKey), ro_cacheSet = cache_setIDEntry packagesTableCacheKey, ro_create = create_package E\<rparr>"

definition addPackages :: "write_env \<Rightarrow> wstore \<Rightarrow> packageHandle list \<Rightarrow> serror + wstore \<times> packageHandle list" where
  "addPackages E w phs = add_objects (package_ops E) w phs"

definition stored_package_handle :: "packageHandle \<Rightarrow> packageHandle" where
  "stored_package_handle h =
     h\<lparr>ph_Vulnerability := None, ph_OperatingSystem := None, ph_Package := None, ph_BlobValue := None\<rparr>"

definition package_keys_exist :: "db \<Rightarrow> packageHandle \<Rightarrow> bool" where
  "package_keys_exist T h \<longleftrightarrow>
     list_ex (\<lambda>v. vh_ID v = ph_VulnerabilityID h) (t_Vulnerabilities T)
     \<and> (case ph_OperatingSystemID h of None \<Rightarrow> True | Some i \<Rightarrow> list_ex (\<lambda>r. os_ID r = i) (t_OperatingSystems T))
     \<and> list_ex (\<lambda>p. dp_ID p = ph_PackageID h) (t_Packages T)"

definition package_table :: "bool \<Rightarrow> db \<Rightarrow> packageHandle list" where
  "package_table affected T = (if affected then t_AffectedPackages T else t_UnaffectedPackages T)"

definition set_package_table :: "bool \<Rightarrow> packageHandle list \<Rightarrow> db \<Rightarrow> db" where
  "set_package_table affected rows T = (if affected then T\<lparr>t_AffectedPackages := rows\<rparr> else T\<lparr>t_UnaffectedPackages := rows\<rparr>)"

definition create_package_handle :: "bool \<Rightarrow> wstore \<Rightarrow> packageHandle \<Rightarrow> serror + wstore \<times> packageHandle" where
  "create_package_handle affected w h =
     (if \<not> package_keys_exist (ws_db w) h then Inl ErrForeignKey
      else case insert_row ph_ID (\<lambda>i r. r\<lparr>ph_ID := i\<rparr>) (\<lambda>_ _. False) (package_table affected (ws_db w)) (stored_package_handle h) of
        Inl e \<Rightarrow> Inl e
      | Inr (rows, r) \<Rightarrow> Inr (w\<lparr>ws_db := set_package_table affected rows (ws_db w)\<rparr>, h\<lparr>ph_ID := ph_ID r\<rparr>))"

definition package_blob :: "packageHandle \<Rightarrow> blob_value option" where
  "package_blob h = map_option BlobOfPackage (ph_BlobValue h)"

fun add_each :: "(wstore \<Rightarrow> 'h \<Rightarrow> serror + wstore \<times> 'h) \<Rightarrow> wstore \<Rightarrow> 'h list \<Rightarrow> serror + wstore \<times> 'h list" where
  "add_each f w [] = Inr (w, [])"
| "add_each f w (h # hs) =
     (case f w h of
        Inl e \<Rightarrow> Inl e
      | Inr (w1, h1) \<Rightarrow> (case add_each f w1 hs of Inl e \<Rightarrow> Inl e | Inr (w', hs') \<Rightarrow> Inr (w', h1 # hs')))"

definition write_package :: "write_env \<Rightarrow> bool \<Rightarrow> wstore \<Rightarrow> packageHandle \<Rightarrow> serror + wstore \<times> packageHandle" where
  "write_package E affected w h =
     (case addBlobable E package_blob (\<lambda>i h. h\<lparr>ph_BlobID := i\<rparr>) w h of (w1, h1) \<Rightarrow> create_package_handle affected w1 h1)"

definition write_os :: "wstore \<Rightarrow> packageHandle \<Rightarrow> serror + wstore \<times> packageHandle" where
  "write_os w h = (case addOsFromPackages w [h] of Inl e \<Rightarrow> Inl e | Inr (w', hs') \<Rightarrow> Inr (w', case hs' of [h'] \<Rightarrow> h' | _ \<Rightarrow> h))"

definition addPackagesWithOS :: "write_env \<Rightarrow> bool \<Rightarrow> wstore \<Rightarrow> packageHandle list \<Rightarrow> serror + wstore \<times> packageHandle list" where
  "addPackagesWithOS E affected w phs =
     (case add_each write_os w phs of
        Inl e \<Rightarrow> Inl (WrapError ''unable to add package OS'' e)
      | Inr (w1, hs1) \<Rightarrow>
          (case addPackages E w1 hs1 of
             Inl e \<Rightarrow> Inl (WrapError ''unable to add packages'' e)
           | Inr (w2, hs2) \<Rightarrow> add_each (write_package E affected) w2 hs2))"

definition AddAffectedPackages :: "write_env \<Rightarrow> wstore \<Rightarrow> packageHandle list \<Rightarrow> serror + wstore \<times> packageHandle list" where
  "AddAffectedPackages E w phs = addPackagesWithOS E True w phs"

definition AddUnaffectedPackages :: "write_env \<Rightarrow> wstore \<Rightarrow> packageHandle list \<Rightarrow> serror + wstore \<times> packageHandle list" where
  "AddUnaffectedPackages E w phs = addPackagesWithOS E False w phs"

section \<open>CPEs\<close>

definition same_cpe :: "Cpe \<Rightarrow> Cpe \<Rightarrow> bool" where
  "same_cpe a b \<longleftrightarrow> strings_EqualFold (dc_Part a) (dc_Part b) \<and> strings_EqualFold (dc_Vendor a) (dc_Vendor b)
     \<and> strings_EqualFold (dc_Product a) (dc_Product b) \<and> strings_EqualFold (dc_Edition a) (dc_Edition b)
     \<and> strings_EqualFold (dc_Language a) (dc_Language b) \<and> strings_EqualFold (dc_SoftwareEdition a) (dc_SoftwareEdition b)
     \<and> strings_EqualFold (dc_TargetHardware a) (dc_TargetHardware b) \<and> strings_EqualFold (dc_TargetSoftware a) (dc_TargetSoftware b)
     \<and> strings_EqualFold (dc_Other a) (dc_Other b)"

definition Cpe_BeforeCreate :: "wstore \<Rightarrow> Cpe \<Rightarrow> Cpe" where
  "Cpe_BeforeCreate w c =
     (case cache_getID w cpesTableCacheKey (Cpe_cacheKey c) of
        None \<Rightarrow> c
      | Some i \<Rightarrow> (case filter (\<lambda>r. dc_ID r = i) (t_Cpes (ws_db w)) of [] \<Rightarrow> c | r # _ \<Rightarrow> r)\<lparr>dc_ID := i\<rparr>)"

definition create_cpe :: "wstore \<Rightarrow> Cpe \<Rightarrow> serror + wstore \<times> Cpe" where
  "create_cpe w c =
     (case insert_row dc_ID (\<lambda>i r. r\<lparr>dc_ID := i\<rparr>) same_cpe (t_Cpes (ws_db w)) (Cpe_BeforeCreate w c) of
        Inl e \<Rightarrow> Inl (WrapError ''unable to create CPE records'' e)
      | Inr (rows, r) \<Rightarrow> Inr (w\<lparr>ws_db := (ws_db w)\<lparr>t_Cpes := rows\<rparr>\<rparr>, r))"

definition cpe_ops :: "(cpeHandle, Cpe, int) ref_ops" where
  "cpe_ops = \<lparr>ro_obj = ch_CPE, ro_setObj = (\<lambda>c h. h\<lparr>ch_CPE := Some c\<rparr>), ro_setFK = (\<lambda>i h. h\<lparr>ch_CpeID := i\<rparr>), ro_key = Cpe_cacheKey,
     ro_always = (\<lambda>_. False), ro_rowID = dc_ID, ro_setRowID = (\<lambda>i r. r\<lparr>dc_ID := i\<rparr>), ro_cached = (\<lambda>w. cache_getID w cpesTableCacheKey),
     ro_cacheSet = cache_setIDEntry cpesTableCacheKey, ro_create = create_cpe\<rparr>"

definition addCPEs :: "wstore \<Rightarrow> cpeHandle list \<Rightarrow> serror + wstore \<times> cpeHandle list" where
  "addCPEs w chs = add_objects cpe_ops w chs"

definition cpe_table :: "bool \<Rightarrow> db \<Rightarrow> cpeHandle list" where
  "cpe_table affected T = (if affected then t_AffectedCPEs T else t_UnaffectedCPEs T)"

definition set_cpe_table :: "bool \<Rightarrow> cpeHandle list \<Rightarrow> db \<Rightarrow> db" where
  "set_cpe_table affected rows T = (if affected then T\<lparr>t_AffectedCPEs := rows\<rparr> else T\<lparr>t_UnaffectedCPEs := rows\<rparr>)"

definition cpe_keys_exist :: "db \<Rightarrow> cpeHandle \<Rightarrow> bool" where
  "cpe_keys_exist T h \<longleftrightarrow>
     list_ex (\<lambda>v. vh_ID v = ch_VulnerabilityID h) (t_Vulnerabilities T) \<and> list_ex (\<lambda>c. dc_ID c = ch_CpeID h) (t_Cpes T)"

definition create_cpe_handle :: "bool \<Rightarrow> wstore \<Rightarrow> cpeHandle \<Rightarrow> serror + wstore \<times> cpeHandle" where
  "create_cpe_handle affected w h =
     (if \<not> cpe_keys_exist (ws_db w) h then Inl ErrForeignKey
      else case insert_row ch_ID (\<lambda>i r. r\<lparr>ch_ID := i\<rparr>) (\<lambda>_ _. False) (cpe_table affected (ws_db w))
          (h\<lparr>ch_Vulnerability := None, ch_CPE := None, ch_BlobValue := None\<rparr>) of
        Inl e \<Rightarrow> Inl e
      | Inr (rows, r) \<Rightarrow> Inr (w\<lparr>ws_db := set_cpe_table affected rows (ws_db w)\<rparr>, h\<lparr>ch_ID := ch_ID r\<rparr>))"

definition write_cpe :: "write_env \<Rightarrow> bool \<Rightarrow> wstore \<Rightarrow> cpeHandle \<Rightarrow> serror + wstore \<times> cpeHandle" where
  "write_cpe E affected w h =
     (case addBlobable E (\<lambda>h. map_option BlobOfPackage (ch_BlobValue h)) (\<lambda>i h. h\<lparr>ch_BlobID := i\<rparr>) w h of
        (w1, h1) \<Rightarrow> create_cpe_handle affected w1 h1)"

definition addCPEHandles :: "write_env \<Rightarrow> bool \<Rightarrow> wstore \<Rightarrow> cpeHandle list \<Rightarrow> serror + wstore \<times> cpeHandle list" where
  "addCPEHandles E affected w chs =
     (case addCPEs w chs of
        Inl e \<Rightarrow> Inl (WrapError ''unable to add CPEs from CPE handles'' e)
      | Inr (w1, hs1) \<Rightarrow> add_each (write_cpe E affected) w1 hs1)"

definition AddAffectedCPEs :: "write_env \<Rightarrow> wstore \<Rightarrow> cpeHandle list \<Rightarrow> serror + wstore \<times> cpeHandle list" where
  "AddAffectedCPEs E w chs = addCPEHandles E True w chs"

definition AddUnaffectedCPEs :: "write_env \<Rightarrow> wstore \<Rightarrow> cpeHandle list \<Rightarrow> serror + wstore \<times> cpeHandle list" where
  "AddUnaffectedCPEs E w chs = addCPEHandles E False w chs"

section \<open>Providers\<close>

definition Provider_String :: "write_env \<Rightarrow> DbProvider \<Rightarrow> string" where
  "Provider_String E p =
     (let date = (case prv_DateCaptured p of None \<Rightarrow> ''?'' | Some t \<Rightarrow> we_formatTime E t) in
      prv_ID p @ ''@v'' @ prv_Version p @ '' from '' @ prv_Processor p @ '' using '' @ we_quote E (prv_InputDigest p) @ '' at '' @ date)"

definition Provider_cacheKey :: "write_env \<Rightarrow> DbProvider \<Rightarrow> string" where
  "Provider_cacheKey E p = strings_ToLower (Provider_String E p)"

text \<open>The table name of a provider in the cache is the key of the table of CPEs; the two kinds of keys are kept apart.\<close>

definition create_provider :: "write_env \<Rightarrow> wstore \<Rightarrow> DbProvider \<Rightarrow> serror + wstore \<times> DbProvider" where
  "create_provider E w p =
     (let p = (case cache_getString w cpesTableCacheKey (Provider_cacheKey E p) of Some i \<Rightarrow> p\<lparr>prv_ID := i\<rparr> | None \<Rightarrow> p) in
      if list_ex (\<lambda>q. prv_ID q = prv_ID p) (t_Providers (ws_db w)) then Inl (WrapError ''unable to create provider records'' ErrUnique)
      else Inr (w\<lparr>ws_db := (ws_db w)\<lparr>t_Providers := t_Providers (ws_db w) @ [p]\<rparr>\<rparr>, p))"

definition provider_ops :: "write_env \<Rightarrow> (VulnerabilityHandle, DbProvider, string) ref_ops" where
  "provider_ops E = \<lparr>ro_obj = vh_Provider, ro_setObj = (\<lambda>p v. v\<lparr>vh_Provider := Some p\<rparr>), ro_setFK = (\<lambda>i v. v\<lparr>vh_ProviderID := i\<rparr>),
     ro_key = Provider_cacheKey E, ro_always = (\<lambda>_. False), ro_rowID = prv_ID, ro_setRowID = (\<lambda>i p. p\<lparr>prv_ID := i\<rparr>),
     ro_cached = (\<lambda>w. cache_getString w cpesTableCacheKey), ro_cacheSet = cache_setStringEntry cpesTableCacheKey,
     ro_create = create_provider E\<rparr>"

definition addProviders :: "write_env \<Rightarrow> wstore \<Rightarrow> VulnerabilityHandle list \<Rightarrow> serror + wstore \<times> VulnerabilityHandle list" where
  "addProviders E w vs = add_objects (provider_ops E) w vs"

text \<open>\<^verbatim>\<open>FirstOrCreate\<close> looks for the primary key.\<close>

definition AddProvider :: "write_env \<Rightarrow> wstore \<Rightarrow> DbProvider \<Rightarrow> serror + wstore" where
  "AddProvider E w p =
     (if list_ex (\<lambda>q. prv_ID q = prv_ID p) (t_Providers (ws_db w)) then Inr w
      else case create_provider E w p of
        Inl e \<Rightarrow> Inl (WrapError ''failed to create provider record'' e)
      | Inr (w', p') \<Rightarrow> Inr (cache_setStringEntry cpesTableCacheKey (Provider_cacheKey E p') (prv_ID p') w'))"

section \<open>Vulnerabilities\<close>

definition add_alias :: "string \<Rightarrow> string \<Rightarrow> wstore \<Rightarrow> wstore" where
  "add_alias name alias w =
     (let row = \<lparr>va_Name = name, va_Alias = alias\<rparr> in
      if row \<in> set (t_Aliases (ws_db w)) then w else w\<lparr>ws_db := (ws_db w)\<lparr>t_Aliases := t_Aliases (ws_db w) @ [row]\<rparr>\<rparr>)"

definition create_vulnerability :: "wstore \<Rightarrow> VulnerabilityHandle \<Rightarrow> serror + wstore \<times> VulnerabilityHandle" where
  "create_vulnerability w v =
     (let v = (case cache_getID w vulnerabilitiesTableCacheKey (VulnerabilityHandle_cacheKey v) of Some i \<Rightarrow> v\<lparr>vh_ID := i\<rparr> | None \<Rightarrow> v) in
      if \<not> list_ex (\<lambda>p. prv_ID p = vh_ProviderID v) (t_Providers (ws_db w)) then Inl ErrForeignKey
      else case insert_row vh_ID (\<lambda>i r. r\<lparr>vh_ID := i\<rparr>) (\<lambda>_ _. False) (t_Vulnerabilities (ws_db w))
          (v\<lparr>vh_Provider := None, vh_BlobValue := None\<rparr>) of
        Inl e \<Rightarrow> Inl e
      | Inr (rows, r) \<Rightarrow> Inr (w\<lparr>ws_db := (ws_db w)\<lparr>t_Vulnerabilities := rows\<rparr>\<rparr>, v\<lparr>vh_ID := vh_ID r\<rparr>))"

text \<open>It is called with one record at a time.\<close>

definition createRecordsWithCache :: "wstore \<Rightarrow> VulnerabilityHandle \<Rightarrow> serror + wstore \<times> VulnerabilityHandle" where
  "createRecordsWithCache w v =
     (case cache_getID w vulnerabilitiesTableCacheKey (VulnerabilityHandle_cacheKey v) of
        Some i \<Rightarrow> Inr (w, v\<lparr>vh_ID := i\<rparr>)
      | None \<Rightarrow>
          (case create_vulnerability w v of
             Inl e \<Rightarrow> Inl (WrapError ''unable to create record'' e)
           | Inr (w', v') \<Rightarrow> Inr (cache_setIDEntry vulnerabilitiesTableCacheKey (VulnerabilityHandle_cacheKey v') (vh_ID v') w', v')))"

text \<open>The aliases are written in the order of the record; the code takes them from a set.\<close>

definition write_vulnerability :: "write_env \<Rightarrow> wstore \<Rightarrow> VulnerabilityHandle \<Rightarrow> serror + wstore \<times> VulnerabilityHandle" where
  "write_vulnerability E w v =
     (case addBlobable E (\<lambda>v. map_option BlobOfVulnerability (vh_BlobValue v)) (\<lambda>i v. v\<lparr>vh_BlobID := i\<rparr>) w v of (w1, v1) \<Rightarrow>
        let v2 = (if vh_PublishedDate v1 \<noteq> None \<and> vh_ModifiedDate v1 = None then v1\<lparr>vh_ModifiedDate := vh_PublishedDate v1\<rparr> else v1);
            aliases = (case vh_BlobValue v2 of None \<Rightarrow> [] | Some b \<Rightarrow> removeAll (vh_Name v2) (remdups (vb_Aliases b))) in
        createRecordsWithCache (fold (add_alias (vh_Name v2)) aliases w1) v2)"

definition AddVulnerabilities :: "write_env \<Rightarrow> wstore \<Rightarrow> VulnerabilityHandle list \<Rightarrow> serror + wstore \<times> VulnerabilityHandle list" where
  "AddVulnerabilities E w vs =
     (case addProviders E w vs of
        Inl e \<Rightarrow> Inl (WrapError ''unable to add providers'' e)
      | Inr (w1, vs1) \<Rightarrow> add_each (write_vulnerability E) w1 vs1)"

section \<open>Decorations\<close>

definition ErrDBCapabilityNotSupported :: serror where
  "ErrDBCapabilityNotSupported = ErrorText ''capability not supported by DB''"

definition setEPSSMetadata :: "write_env \<Rightarrow> wstore \<Rightarrow> int \<Rightarrow> serror + wstore" where
  "setEPSSMetadata E w date =
     (if \<not> SchemaVer_GreaterOrEqualTo (we_dbVersion E) (schemaver_New 6 0 2) then Inl ErrDBCapabilityNotSupported
      else case ws_epssDate w of
        Some d \<Rightarrow> if d = date then Inr w else Inl (ErrorText ''observed multiple EPSS dates'')
      | None \<Rightarrow> Inr (w\<lparr>ws_db := (ws_db w)\<lparr>t_EpssMetadata := [date]\<rparr>, ws_epssDate := Some date\<rparr>))"

fun epss_loop :: "write_env \<Rightarrow> wstore \<Rightarrow> EpssHandle list \<Rightarrow> serror + wstore" where
  "epss_loop E w [] = Inr w"
| "epss_loop E w (e # es) =
     (case setEPSSMetadata E (w\<lparr>ws_db := (ws_db w)\<lparr>t_Epss := t_Epss (ws_db w) @ [e\<lparr>eh_Date := 0\<rparr>]\<rparr>\<rparr>) (eh_Date e) of
        Inl err \<Rightarrow> Inl (WrapError ''unable to set EPSS metadata'' err)
      | Inr w' \<Rightarrow> epss_loop E w' es)"

definition AddEpss :: "write_env \<Rightarrow> wstore \<Rightarrow> EpssHandle list \<Rightarrow> serror + wstore" where
  "AddEpss E w epss =
     (if \<not> SchemaVer_GreaterOrEqualTo (we_dbVersion E) (schemaver_New 6 0 2) then Inl ErrDBCapabilityNotSupported else epss_loop E w epss)"

definition AddCWE :: "write_env \<Rightarrow> wstore \<Rightarrow> CWEHandle list \<Rightarrow> serror + wstore" where
  "AddCWE E w cwes =
     (if \<not> SchemaVer_GreaterOrEqualTo (we_dbVersion E) (schemaver_New 6 1 2) then Inl ErrDBCapabilityNotSupported
      else Inr (w\<lparr>ws_db := (ws_db w)\<lparr>t_CWEs := t_CWEs (ws_db w) @ cwes\<rparr>\<rparr>))"

fun kev_loop :: "write_env \<Rightarrow> wstore \<Rightarrow> KnownExploitedVulnerabilityHandle list \<Rightarrow> wstore" where
  "kev_loop E w [] = w"
| "kev_loop E w (k # ks) =
     (case addBlobable E (\<lambda>k. map_option BlobOfKEV (kh_BlobValue k)) (\<lambda>i k. k\<lparr>kh_BlobID := i\<rparr>) w k of (w1, k1) \<Rightarrow>
        kev_loop E (w1\<lparr>ws_db := (ws_db w1)\<lparr>t_KEVs := t_KEVs (ws_db w1) @ [k1\<lparr>kh_BlobValue := None\<rparr>]\<rparr>\<rparr>) ks)"

definition AddKnownExploitedVulnerabilities :: "write_env \<Rightarrow> wstore \<Rightarrow> KnownExploitedVulnerabilityHandle list \<Rightarrow> serror + wstore" where
  "AddKnownExploitedVulnerabilities E w kevs =
     (if \<not> SchemaVer_GreaterOrEqualTo (we_dbVersion E) (schemaver_New 6 0 1) then Inl ErrDBCapabilityNotSupported else Inr (kev_loop E w kevs))"

end
