(* ===== verification/Write_Facts.thy ===== *)
theory Write_Facts
  imports Db_Write Db_Facts
begin

text \<open>
  What writing keeps and gives.  The locale \<open>reference_store\<close> is the contract that the four kinds of objects handles refer to share: an
  object is written once per key and the handle gets the identifier of a row with that key.  It is interpreted on operating systems,
  packages, CPEs and providers.  The invariant of the store, \<open>store_ok\<close>, holds of the empty store and is kept by every operation; with
  it no operation fails, and the database is complete.
\<close>

section \<open>Identifiers\<close>

lemma fold_max_le: "m \<le> fold max ids (m :: int)"
proof (induction ids arbitrary: m)
  case (Cons i ids)
  from Cons [of "max i m"] show ?case by simp
qed simp

lemma fold_max_member: "i \<in> set ids \<Longrightarrow> (i :: int) \<le> fold max ids m"
proof (induction ids arbitrary: m)
  case (Cons j ids)
  then show ?case using fold_max_le [of "max j m" ids] by auto
qed simp

lemma next_id_fresh: "i \<in> set ids \<Longrightarrow> i < next_id ids"
  using fold_max_member [of i ids 0] by (simp add: next_id_def)

lemma next_id_pos: "0 < next_id ids"
  using fold_max_le [of 0 ids] by (simp add: next_id_def)

lemma insert_row_new:
  assumes "rowID r = 0" "\<And>s. s \<in> set rows \<Longrightarrow> \<not> clash s r"
  shows "insert_row rowID setRowID clash rows r
    = Inr (rows @ [setRowID (next_id (map rowID rows)) r], setRowID (next_id (map rowID rows)) r)"
proof -
  have "rowID s \<noteq> next_id (map rowID rows)" if "s \<in> set rows" for s
    using next_id_fresh [of "rowID s" "map rowID rows"] that by auto
  then show ?thesis using assms by (auto simp: insert_row_def list_ex_iff Let_def)
qed

section \<open>Growing tables\<close>

text \<open>Rows are only added; those of operating systems keep their identifiers and keys.\<close>

definition grows :: "db \<Rightarrow> db \<Rightarrow> bool" where
  "grows T T' \<longleftrightarrow> set (t_Providers T) \<subseteq> set (t_Providers T') \<and> set (t_Vulnerabilities T) \<subseteq> set (t_Vulnerabilities T')
     \<and> set (t_AffectedPackages T) \<subseteq> set (t_AffectedPackages T') \<and> set (t_UnaffectedPackages T) \<subseteq> set (t_UnaffectedPackages T')
     \<and> (\<lambda>r. (os_ID r, OperatingSystem_cacheKey r)) ` set (t_OperatingSystems T)
         \<subseteq> (\<lambda>r. (os_ID r, OperatingSystem_cacheKey r)) ` set (t_OperatingSystems T') \<and> set (t_Packages T) \<subseteq> set (t_Packages T')
     \<and> set (t_AffectedCPEs T) \<subseteq> set (t_AffectedCPEs T') \<and> set (t_UnaffectedCPEs T) \<subseteq> set (t_UnaffectedCPEs T')
     \<and> set (t_Cpes T) \<subseteq> set (t_Cpes T') \<and> set (t_KEVs T) \<subseteq> set (t_KEVs T') \<and> set (t_Epss T) \<subseteq> set (t_Epss T') \<and> set (t_CWEs T) \<subseteq> set (t_CWEs T')
     \<and> map_of (t_VulnerabilityBlobs T) \<subseteq>\<^sub>m map_of (t_VulnerabilityBlobs T') \<and> map_of (t_PackageBlobs T) \<subseteq>\<^sub>m map_of (t_PackageBlobs T')
     \<and> map_of (t_KEVBlobs T) \<subseteq>\<^sub>m map_of (t_KEVBlobs T')"

lemma grows_refl [simp]: "grows T T"
  by (simp add: grows_def)

lemma grows_trans [trans]: "grows T T' \<Longrightarrow> grows T' T'' \<Longrightarrow> grows T T''"
  unfolding grows_def by (meson map_le_trans order_trans)

section \<open>The contract of references\<close>

locale reference_store =
  fixes R :: "('h, 'r, 'i) ref_ops"
    and I :: "wstore \<Rightarrow> bool"
    and row :: "db \<Rightarrow> string \<Rightarrow> 'i \<Rightarrow> bool"
    and ok :: "'r \<Rightarrow> bool"
  assumes cached_row: "I w \<Longrightarrow> ro_cached R w k = Some i \<Longrightarrow> row (ws_db w) k i"
    and create_row: "I w \<Longrightarrow> ok r \<Longrightarrow> ro_cached R w (ro_key R r) = None
      \<Longrightarrow> \<exists>w' r'. ro_create R w r = Inr (w', r') \<and> ro_key R r' = ro_key R r \<and> ro_setRowID R (ro_rowID R r') r' = r'
        \<and> I (ro_cacheSet R (ro_key R r') (ro_rowID R r') w') \<and> grows (ws_db w) (ws_db (ro_cacheSet R (ro_key R r') (ro_rowID R r') w'))
        \<and> ro_cached R (ro_cacheSet R (ro_key R r') (ro_rowID R r') w') (ro_key R r') = Some (ro_rowID R r') \<and> \<not> ro_always R r'"
    and not_always: "ok r \<Longrightarrow> \<not> ro_always R r"
    and obj_setObj: "ro_obj R (ro_setObj R r h) = Some r"
    and setObj_obj: "ro_obj R h = Some r \<Longrightarrow> ro_setObj R r h = h"
begin

lemma add_one:
  assumes "I w" "\<And>r. ro_obj R h = Some r \<Longrightarrow> ok r"
  shows "\<exists>w' h'. add_objects R w [h] = Inr (w', [h']) \<and> I w' \<and> grows (ws_db w) (ws_db w')
    \<and> (case ro_obj R h of None \<Rightarrow> h' = h
       | Some r \<Rightarrow> \<exists>i r'. h' = ro_setFK R i (ro_setObj R r' h) \<and> row (ws_db w') (ro_key R r) i)"
proof (cases "ro_obj R h")
  case None
  then show ?thesis using assms(1) by (simp add: add_objects_def)
next
  case (Some r)
  then have r: "ok r" "\<not> ro_always R r" using assms(2) not_always by blast+
  show ?thesis
  proof (cases "ro_cached R w (ro_key R r)")
    case None
    from create_row [OF assms(1) r(1) None] obtain w' r' where c: "ro_create R w r = Inr (w', r')" "ro_key R r' = ro_key R r"
      "ro_setRowID R (ro_rowID R r') r' = r'" "I (ro_cacheSet R (ro_key R r') (ro_rowID R r') w')"
      "grows (ws_db w) (ws_db (ro_cacheSet R (ro_key R r') (ro_rowID R r') w'))"
      "ro_cached R (ro_cacheSet R (ro_key R r') (ro_rowID R r') w') (ro_key R r') = Some (ro_rowID R r')" "\<not> ro_always R r'" by blast
    let ?w = "ro_cacheSet R (ro_key R r') (ro_rowID R r') w'"
    have "resolve_ref R ?w (ro_setObj R r' h) = ro_setFK R (ro_rowID R r') (ro_setObj R r' (ro_setObj R r' h))"
      using c(3,6,7) by (simp add: resolve_ref_def obj_setObj)
    also have "ro_setObj R r' (ro_setObj R r' h) = ro_setObj R r' h" by (rule setObj_obj [OF obj_setObj])
    finally have "add_objects R w [h] = Inr (?w, [ro_setFK R (ro_rowID R r') (ro_setObj R r' h)])"
      using Some None r(2) c(1) by (simp add: add_objects_def)
    then show ?thesis using Some c cached_row [OF c(4,6)] by auto
  next
    case (Some i)
    have "add_objects R w [h] = Inr (w, [ro_setFK R i (ro_setObj R r h)])"
      using \<open>ro_obj R h = Some r\<close> Some r(2) setObj_obj by (simp add: add_objects_def)
    then show ?thesis using \<open>ro_obj R h = Some r\<close> assms(1) cached_row [OF assms(1) Some] by auto
  qed
qed

end

section \<open>The cache\<close>

lemma cache_tables_distinct [simp]:
  "cpesTableCacheKey \<noteq> packagesTableCacheKey" "packagesTableCacheKey \<noteq> cpesTableCacheKey"
  "cpesTableCacheKey \<noteq> operatingSystemsTableCacheKey" "operatingSystemsTableCacheKey \<noteq> cpesTableCacheKey"
  "cpesTableCacheKey \<noteq> vulnerabilitiesTableCacheKey" "vulnerabilitiesTableCacheKey \<noteq> cpesTableCacheKey"
  "packagesTableCacheKey \<noteq> operatingSystemsTableCacheKey" "operatingSystemsTableCacheKey \<noteq> packagesTableCacheKey"
  "packagesTableCacheKey \<noteq> vulnerabilitiesTableCacheKey" "vulnerabilitiesTableCacheKey \<noteq> packagesTableCacheKey"
  "operatingSystemsTableCacheKey \<noteq> vulnerabilitiesTableCacheKey" "vulnerabilitiesTableCacheKey \<noteq> operatingSystemsTableCacheKey"
  by (simp_all add: cache_tables)

lemma cache_simps [simp]:
  "cache_getID (w\<lparr>ws_db := T\<rparr>) = cache_getID w" "cache_getString (w\<lparr>ws_db := T\<rparr>) = cache_getString w"
  "cache_getID (w\<lparr>ws_idsByDigest := D\<rparr>) = cache_getID w" "cache_getString (w\<lparr>ws_idsByDigest := D\<rparr>) = cache_getString w"
  "cache_getID (w\<lparr>ws_epssDate := d\<rparr>) = cache_getID w" "cache_getString (w\<lparr>ws_epssDate := d\<rparr>) = cache_getString w"
  "cache_getID (cache_setStringEntry t k s w) = cache_getID w" "cache_getString (cache_setIDEntry t k i w) = cache_getString w"
  "cache_getID (cache_setIDEntry t k i w) t' k' = (if t = t' \<and> k = k' then Some i else cache_getID w t' k')"
  "cache_getString (cache_setStringEntry t k s w) t' k' = (if t = t' \<and> k = k' then Some s else cache_getString w t' k')"
  "ws_db (cache_setIDEntry t k i w) = ws_db w" "ws_db (cache_setStringEntry t k s w) = ws_db w"
  "ws_idsByDigest (cache_setIDEntry t k i w) = ws_idsByDigest w" "ws_idsByDigest (cache_setStringEntry t k s w) = ws_idsByDigest w"
  "ws_epssDate (cache_setIDEntry t k i w) = ws_epssDate w" "ws_epssDate (cache_setStringEntry t k s w) = ws_epssDate w"
  by (auto simp: cache_getID_def cache_getString_def cache_setIDEntry_def cache_setStringEntry_def fun_eq_iff split: option.splits)

section \<open>The invariant\<close>

text \<open>Where a blob is; what rows refer to.\<close>

definition blob_at :: "db \<Rightarrow> int \<Rightarrow> blob_value \<Rightarrow> bool" where
  "blob_at T i b \<longleftrightarrow>
     (case b of
        BlobOfVulnerability v \<Rightarrow> map_of (t_VulnerabilityBlobs T) i = Some v
      | BlobOfPackage v \<Rightarrow> map_of (t_PackageBlobs T) i = Some v
      | BlobOfKEV v \<Rightarrow> map_of (t_KEVBlobs T) i = Some v)"

definition vulnerability_refs :: "db \<Rightarrow> VulnerabilityHandle \<Rightarrow> bool" where
  "vulnerability_refs T v \<longleftrightarrow> vh_BlobValue v = None \<and> 0 < vh_BlobID v \<and> (\<exists>b. blob_at T (vh_BlobID v) (BlobOfVulnerability b))
     \<and> (\<exists>p\<in>set (t_Providers T). prv_ID p = vh_ProviderID v)"

definition package_refs :: "db \<Rightarrow> packageHandle \<Rightarrow> bool" where
  "package_refs T h \<longleftrightarrow> ph_BlobValue h = None \<and> ph_BlobID h \<noteq> 0 \<and> (\<exists>b. blob_at T (ph_BlobID h) (BlobOfPackage b))
     \<and> (\<exists>v\<in>set (t_Vulnerabilities T). vh_ID v = ph_VulnerabilityID h) \<and> (\<exists>p\<in>set (t_Packages T). dp_ID p = ph_PackageID h)"

definition kev_refs :: "db \<Rightarrow> KnownExploitedVulnerabilityHandle \<Rightarrow> bool" where
  "kev_refs T k \<longleftrightarrow> kh_BlobID k \<noteq> 0 \<and> (\<exists>b. blob_at T (kh_BlobID k) (BlobOfKEV b))"

definition refs_ok :: "db \<Rightarrow> bool" where
  "refs_ok T \<longleftrightarrow> (\<forall>v\<in>set (t_Vulnerabilities T). vulnerability_refs T v) \<and> (\<forall>h\<in>set (t_AffectedPackages T). package_refs T h)
     \<and> (\<forall>h\<in>set (t_UnaffectedPackages T). package_refs T h) \<and> (\<forall>k\<in>set (t_KEVs T). kev_refs T k)
     \<and> distinct (map dp_ID (t_Packages T)) \<and> distinct (map vh_ID (t_Vulnerabilities T))"

definition os_row :: "db \<Rightarrow> string \<Rightarrow> int \<Rightarrow> bool" where
  "os_row T k i \<longleftrightarrow> (\<exists>r\<in>set (t_OperatingSystems T). os_ID r = i \<and> OperatingSystem_cacheKey r = k)"

definition package_row :: "db \<Rightarrow> string \<Rightarrow> int \<Rightarrow> bool" where
  "package_row T k i \<longleftrightarrow> (\<exists>p\<in>set (t_Packages T). dp_ID p = i \<and> Package_cacheKey p = k)"

definition cpe_row :: "db \<Rightarrow> string \<Rightarrow> int \<Rightarrow> bool" where
  "cpe_row T k i \<longleftrightarrow> (\<exists>c\<in>set (t_Cpes T). dc_ID c = i \<and> Cpe_cacheKey c = k)"

definition provider_row :: "write_env \<Rightarrow> db \<Rightarrow> string \<Rightarrow> string \<Rightarrow> bool" where
  "provider_row E T k i \<longleftrightarrow> (\<exists>p\<in>set (t_Providers T). prv_ID p = i \<and> Provider_cacheKey E p = k)"

text \<open>Where the cache says a row is, there is one; of operating systems, CPEs and providers every row is in the cache.\<close>

definition os_cache_ok :: "wstore \<Rightarrow> bool" where
  "os_cache_ok w \<longleftrightarrow> (\<forall>k i. cache_getID w operatingSystemsTableCacheKey k = Some i \<longrightarrow> os_row (ws_db w) k i)
     \<and> (\<forall>r\<in>set (t_OperatingSystems (ws_db w)). cache_getID w operatingSystemsTableCacheKey (OperatingSystem_cacheKey r) \<noteq> None)"

definition package_cache_ok :: "wstore \<Rightarrow> bool" where
  "package_cache_ok w \<longleftrightarrow> (\<forall>k i. cache_getID w packagesTableCacheKey k = Some i \<longrightarrow> package_row (ws_db w) k i)
     \<and> (\<forall>p\<in>set (t_Packages (ws_db w)). dp_CPEs p = [])"

definition cpe_cache_ok :: "wstore \<Rightarrow> bool" where
  "cpe_cache_ok w \<longleftrightarrow> (\<forall>k i. cache_getID w cpesTableCacheKey k = Some i \<longrightarrow> cpe_row (ws_db w) k i)
     \<and> (\<forall>c\<in>set (t_Cpes (ws_db w)). cache_getID w cpesTableCacheKey (Cpe_cacheKey c) \<noteq> None)"

definition provider_cache_ok :: "write_env \<Rightarrow> DbProvider set \<Rightarrow> wstore \<Rightarrow> bool" where
  "provider_cache_ok E P w \<longleftrightarrow> (\<forall>k i. cache_getString w cpesTableCacheKey k = Some i \<longrightarrow> provider_row E (ws_db w) k i)
     \<and> (\<forall>p\<in>set (t_Providers (ws_db w)). p \<in> P \<and> cache_getString w cpesTableCacheKey (Provider_cacheKey E p) \<noteq> None)"

definition vulnerability_cache_ok :: "wstore \<Rightarrow> bool" where
  "vulnerability_cache_ok w \<longleftrightarrow>
     (\<forall>k i. cache_getID w vulnerabilitiesTableCacheKey k = Some i \<longrightarrow>
        (\<exists>r\<in>set (t_Vulnerabilities (ws_db w)). \<exists>v. vh_ID r = i \<and> vh_BlobID r = vh_BlobID v \<and> VulnerabilityHandle_cacheKey v = k))"

definition digests_ok :: "write_env \<Rightarrow> wstore \<Rightarrow> bool" where
  "digests_ok E w \<longleftrightarrow>
     (\<forall>d i. ws_idsByDigest w d = Some i \<longrightarrow> 0 < i \<and> (\<exists>b. we_digest E b = d \<and> blob_at (ws_db w) i b))"

definition store_ok :: "write_env \<Rightarrow> DbProvider set \<Rightarrow> int \<Rightarrow> wstore \<Rightarrow> bool" where
  "store_ok E P D w \<longleftrightarrow> os_cache_ok w \<and> package_cache_ok w \<and> cpe_cache_ok w \<and> provider_cache_ok E P w \<and> vulnerability_cache_ok w
     \<and> digests_ok E w \<and> refs_ok (ws_db w) \<and> inj_on prv_ID P \<and> inj_on (Provider_cacheKey E) P \<and> ws_epssDate w \<in> {None, Some D}"

lemmas cache_ok_defs = os_cache_ok_def package_cache_ok_def cpe_cache_ok_def provider_cache_ok_def vulnerability_cache_ok_def
lemmas row_defs = os_row_def package_row_def cpe_row_def provider_row_def

lemma blob_at_grows: "grows T T' \<Longrightarrow> blob_at T i b \<Longrightarrow> blob_at T' i b"
  by (cases b) (auto simp: blob_at_def grows_def map_le_def dom_def)

lemma refs_grow:
  assumes "grows T T'"
  shows "vulnerability_refs T v \<Longrightarrow> vulnerability_refs T' v" "package_refs T h \<Longrightarrow> package_refs T' h" "kev_refs T k \<Longrightarrow> kev_refs T' k"
proof -
  have "set (t_Providers T) \<subseteq> set (t_Providers T')" "set (t_Vulnerabilities T) \<subseteq> set (t_Vulnerabilities T')" "set (t_Packages T) \<subseteq> set (t_Packages T')"
    using assms by (simp_all add: grows_def)
  then show "vulnerability_refs T v \<Longrightarrow> vulnerability_refs T' v" "package_refs T h \<Longrightarrow> package_refs T' h" "kev_refs T k \<Longrightarrow> kev_refs T' k"
    unfolding vulnerability_refs_def package_refs_def kev_refs_def using blob_at_grows [OF assms] by blast+
qed

lemma digests_grow: "grows (ws_db w) (ws_db w') \<Longrightarrow> ws_idsByDigest w' = ws_idsByDigest w \<Longrightarrow> digests_ok E w \<Longrightarrow> digests_ok E w'"
  unfolding digests_ok_def by (metis blob_at_grows)

lemma row_by_id_exists: "(\<exists>r\<in>set rows. f r = i) \<Longrightarrow> row_by_id f rows i \<noteq> None"
  by (auto simp: row_by_id_def map_of_eq_None_iff image_iff simp del: not_None_eq)

lemma provider_exists: "(\<exists>p\<in>set (t_Providers T). prv_ID p = i) \<Longrightarrow> provider_of T i \<noteq> None"
  by (auto simp: provider_of_def map_of_eq_None_iff AllProviders_def image_iff simp del: not_None_eq)

lemma row_by_id_member: "row_by_id f rows i = Some r \<Longrightarrow> r \<in> set rows \<and> f r = i"
  unfolding row_by_id_def by (drule map_of_SomeD) auto

text \<open>The database of a store that satisfies the invariant is complete.\<close>

lemma store_complete:
  assumes "store_ok E P D w"
  shows "db_complete (ws_db w)"
proof -
  let ?T = "ws_db w"
  have r: "refs_ok ?T" using assms by (simp add: store_ok_def)
  have v: "vulnerability_complete ?T i" if "\<exists>v\<in>set (t_Vulnerabilities ?T). vh_ID v = i" for i
  proof -
    from row_by_id_exists [OF that] obtain v where v: "row_by_id vh_ID (t_Vulnerabilities ?T) i = Some v" by blast
    from row_by_id_member [OF v] r have "vulnerability_refs ?T v" by (simp add: refs_ok_def)
    then show ?thesis using v provider_exists [of ?T]
      by (auto simp: vulnerability_complete_def vulnerability_refs_def attach_vulnerability_def blob_at_def)
  qed
  have p: "package_complete ?T h" if "package_refs ?T h" for h
    using that v row_by_id_exists [of "t_Packages ?T" dp_ID]
    by (auto simp: package_complete_def package_refs_def attach_package_def blob_at_def)
  show ?thesis
    using r p by (auto simp: db_complete_def refs_ok_def list_all_iff kev_refs_def blob_at_def)
qed

section \<open>Objects\<close>

lemma prefix_table_grows:
  "grows T (T\<lparr>t_OperatingSystems := t_OperatingSystems T @ xs\<rparr>)" "grows T (T\<lparr>t_Packages := t_Packages T @ ps\<rparr>)"
  "grows T (T\<lparr>t_Cpes := t_Cpes T @ cs\<rparr>)" "grows T (T\<lparr>t_Providers := t_Providers T @ qs\<rparr>)"
  "grows T (T\<lparr>t_Vulnerabilities := t_Vulnerabilities T @ vs\<rparr>)" "grows T (T\<lparr>t_Aliases := as\<rparr>)"
  by (auto simp: grows_def)

text \<open>An operating system that a feed names has a version number or a label, and no identifier yet.\<close>

definition os_ok :: "OperatingSystem \<Rightarrow> bool" where
  "os_ok r \<longleftrightarrow> os_ID r = 0 \<and> (os_LabelVersion r \<noteq> [] \<or> os_MajorVersion r \<noteq> []) \<and> OperatingSystem_clean r = r"

definition package_ok :: "DbPackage \<Rightarrow> bool" where
  "package_ok p \<longleftrightarrow> dp_ID p = 0 \<and> dp_CPEs p = []"

lemma same_os_key: "os_ok b \<Longrightarrow> same_os_index a b \<Longrightarrow> OperatingSystem_cacheKey a = OperatingSystem_cacheKey b"
  by (auto simp: os_ok_def same_os_index_def OperatingSystem_cacheKey_def OperatingSystem_String_def OperatingSystem_Version_def)

lemma same_package_key: "same_package a b \<Longrightarrow> Package_cacheKey a = Package_cacheKey b"
  by (auto simp: same_package_def Package_cacheKey_def strings_EqualFold_def strings_ToLower_def)

lemma EqualFold_star: "strings_EqualFold a b \<Longrightarrow> map to_lower (if a = [] then s else a) = map to_lower (if b = [] then s else b)"
  by (auto simp: strings_EqualFold_def)

lemma map_Join: "map f (strings_Join xs sep) = strings_Join (map (map f) xs) (map f sep)"
  by (induction xs sep rule: strings_Join.induct) auto

lemma same_cpe_key:
  assumes "same_cpe a b"
  shows "Cpe_cacheKey a = Cpe_cacheKey b"
proof -
  let ?f = "\<lambda>part. map to_lower (if part = [] then ''*'' else part)"
  let ?parts = "\<lambda>c. [''cpe:2.3'', dc_Part c, dc_Vendor c, dc_Product c, ''*'', ''*'', dc_Edition c, dc_Language c, dc_SoftwareEdition c,
        dc_TargetSoftware c, dc_TargetHardware c, dc_Other c]"
  have "map ?f (?parts a) = map ?f (?parts b)"
    unfolding list.map list.inject using assms by (intro conjI EqualFold_star refl) (simp_all only: same_cpe_def)
  then show ?thesis
    by (simp only: Cpe_cacheKey_def Cpe_String_def strings_ToLower_def map_Join map_map comp_def)
qed

lemma store_os:
  assumes "store_ok E P D w" "os_ok r" "cache_getID w operatingSystemsTableCacheKey (OperatingSystem_cacheKey r) = None"
    and "i = next_id (map os_ID (t_OperatingSystems (ws_db w)))"
    and "w' = w\<lparr>ws_db := (ws_db w)\<lparr>t_OperatingSystems := t_OperatingSystems (ws_db w) @ [r\<lparr>os_ID := i\<rparr>]\<rparr>\<rparr>"
  shows "create_os w r = Inr (w', r\<lparr>os_ID := i\<rparr>)"
    and "store_ok E P D (cache_setIDEntry operatingSystemsTableCacheKey (OperatingSystem_cacheKey r) i w')"
    and "OperatingSystem_cacheKey (r\<lparr>os_ID := i\<rparr>) = OperatingSystem_cacheKey r"
proof -
  have b: "OperatingSystem_BeforeCreate w r = r" using assms(2,3) by (simp add: OperatingSystem_BeforeCreate_def os_ok_def)
  have "\<not> same_os_index s r" if "s \<in> set (t_OperatingSystems (ws_db w))" for s
    using same_os_key [OF assms(2)] that assms(1,3) by (fastforce simp: store_ok_def os_cache_ok_def)
  then show "create_os w r = Inr (w', r\<lparr>os_ID := i\<rparr>)"
    using assms(2) by (simp add: create_os_def b insert_row_new os_ok_def assms(4,5))
  show k: "OperatingSystem_cacheKey (r\<lparr>os_ID := i\<rparr>) = OperatingSystem_cacheKey r"
    by (simp add: OperatingSystem_cacheKey_def OperatingSystem_String_def OperatingSystem_Version_def)
  have g: "grows (ws_db w) (ws_db w')" by (simp add: assms(5) prefix_table_grows)
  show "store_ok E P D (cache_setIDEntry operatingSystemsTableCacheKey (OperatingSystem_cacheKey r) i w')"
    using assms(1) digests_grow [OF g, of E] refs_grow [OF g] k
    by (auto simp: store_ok_def cache_ok_defs row_defs refs_ok_def digests_ok_def assms(5))
qed

lemma distinct_next: "distinct (map f rows) \<Longrightarrow> f r = next_id (map f rows) \<Longrightarrow> distinct (map f (rows @ [r]))"
  using next_id_fresh [of _ "map f rows"] by auto

lemma Package_key_id [simp]: "Package_cacheKey (p\<lparr>dp_ID := i\<rparr>) = Package_cacheKey p"
  by (simp add: Package_cacheKey_def)

lemma store_package:
  assumes "store_ok E P D w" "package_ok p"
  shows "\<exists>w' p'. create_package E w p = Inr (w', p') \<and> Package_cacheKey p' = Package_cacheKey p \<and> dp_CPEs p' = []
    \<and> store_ok E P D (cache_setIDEntry packagesTableCacheKey (Package_cacheKey p) (dp_ID p') w') \<and> grows (ws_db w) (ws_db w')"
proof (cases "filter (\<lambda>q. same_package q p) (t_Packages (ws_db w))")
  case (Cons q qs)
  then have q: "q \<in> set (t_Packages (ws_db w))" "same_package q p" by (auto simp: filter_eq_Cons_iff)
  have k: "Package_cacheKey q = Package_cacheKey p" by (rule same_package_key [OF q(2)])
  have "store_ok E P D (cache_setIDEntry packagesTableCacheKey (Package_cacheKey p) (dp_ID q) w)"
    using assms(1) k q(1) by (auto simp: store_ok_def cache_ok_defs row_defs digests_ok_def)
  moreover have "create_package E w p = Inr (w, q)" using Cons assms(2) by (simp add: create_package_def package_ok_def)
  ultimately show ?thesis using k q(1) assms(1) by (auto simp: store_ok_def package_cache_ok_def)
next
  case Nil
  let ?i = "next_id (map dp_ID (t_Packages (ws_db w)))"
  let ?p = "p\<lparr>dp_ID := ?i\<rparr>"
  let ?w = "w\<lparr>ws_db := (ws_db w)\<lparr>t_Packages := t_Packages (ws_db w) @ [?p]\<rparr>\<rparr>"
  have "create_package E w p = Inr (?w, ?p)"
    using Nil assms(2) by (simp add: create_package_def package_ok_def insert_row_new filter_empty_conv)
  moreover have g: "grows (ws_db w) (ws_db ?w)" by (simp add: prefix_table_grows)
  moreover have "store_ok E P D (cache_setIDEntry packagesTableCacheKey (Package_cacheKey p) ?i ?w)"
    using assms digests_grow [OF g, of E] refs_grow [OF g] distinct_next [of dp_ID "t_Packages (ws_db w)" ?p]
    by (auto simp: store_ok_def cache_ok_defs row_defs refs_ok_def digests_ok_def package_ok_def)
  ultimately show ?thesis using assms(2) by (auto simp: package_ok_def)
qed

lemma Cpe_key_id [simp]: "Cpe_cacheKey (c\<lparr>dc_ID := i\<rparr>) = Cpe_cacheKey c"
  by (simp add: Cpe_cacheKey_def Cpe_String_def)

lemma store_cpe:
  assumes "store_ok E P D w" "dc_ID c = 0" "cache_getID w cpesTableCacheKey (Cpe_cacheKey c) = None"
    and "i = next_id (map dc_ID (t_Cpes (ws_db w)))"
    and "w' = w\<lparr>ws_db := (ws_db w)\<lparr>t_Cpes := t_Cpes (ws_db w) @ [c\<lparr>dc_ID := i\<rparr>]\<rparr>\<rparr>"
  shows "create_cpe w c = Inr (w', c\<lparr>dc_ID := i\<rparr>)"
    and "store_ok E P D (cache_setIDEntry cpesTableCacheKey (Cpe_cacheKey c) i w')"
proof -
  have "\<not> same_cpe s c" if "s \<in> set (t_Cpes (ws_db w))" for s
    using same_cpe_key [of s c] that assms(1,3) by (fastforce simp: store_ok_def cpe_cache_ok_def)
  then show "create_cpe w c = Inr (w', c\<lparr>dc_ID := i\<rparr>)"
    using assms(2,3) by (simp add: create_cpe_def Cpe_BeforeCreate_def insert_row_new assms(4,5))
  have g: "grows (ws_db w) (ws_db w')" by (simp add: assms(5) prefix_table_grows)
  show "store_ok E P D (cache_setIDEntry cpesTableCacheKey (Cpe_cacheKey c) i w')"
    using assms(1) digests_grow [OF g, of E] refs_grow [OF g]
    by (auto simp: store_ok_def cache_ok_defs row_defs refs_ok_def digests_ok_def assms(5))
qed

lemma store_provider:
  assumes "store_ok E P D w" "p \<in> P" "cache_getString w cpesTableCacheKey (Provider_cacheKey E p) = None"
    and "w' = w\<lparr>ws_db := (ws_db w)\<lparr>t_Providers := t_Providers (ws_db w) @ [p]\<rparr>\<rparr>"
  shows "create_provider E w p = Inr (w', p)"
    and "store_ok E P D (cache_setStringEntry cpesTableCacheKey (Provider_cacheKey E p) (prv_ID p) w')"
proof -
  have "prv_ID q \<noteq> prv_ID p" if "q \<in> set (t_Providers (ws_db w))" for q
  proof
    assume "prv_ID q = prv_ID p"
    moreover have "q \<in> P" using assms(1) that by (auto simp: store_ok_def provider_cache_ok_def)
    ultimately have "q = p" using assms(1,2) by (auto simp: store_ok_def dest: inj_onD)
    then show False using assms(1,3) that by (auto simp: store_ok_def provider_cache_ok_def)
  qed
  then show "create_provider E w p = Inr (w', p)" using assms(3,4) by (auto simp: create_provider_def list_ex_iff)
  have g: "grows (ws_db w) (ws_db w')" by (simp add: assms(4) prefix_table_grows)
  show "store_ok E P D (cache_setStringEntry cpesTableCacheKey (Provider_cacheKey E p) (prv_ID p) w')"
    using assms(1,2) digests_grow [OF g, of E] refs_grow [OF g]
    by (auto simp: store_ok_def cache_ok_defs row_defs refs_ok_def digests_ok_def assms(4))
qed

section \<open>The stores of objects\<close>

interpretation systems: reference_store os_ops "store_ok E P D" os_row os_ok
proof
  fix w k i
  assume "store_ok E P D w" "ro_cached os_ops w k = Some i"
  then show "os_row (ws_db w) k i" by (auto simp: store_ok_def os_cache_ok_def os_ops_def)
next
  fix w r
  assume "store_ok E P D w" "os_ok r" "ro_cached os_ops w (ro_key os_ops r) = None"
  then show "\<exists>w' r'. ro_create os_ops w r = Inr (w', r') \<and> ro_key os_ops r' = ro_key os_ops r \<and> ro_setRowID os_ops (ro_rowID os_ops r') r' = r'
        \<and> store_ok E P D (ro_cacheSet os_ops (ro_key os_ops r') (ro_rowID os_ops r') w')
        \<and> grows (ws_db w) (ws_db (ro_cacheSet os_ops (ro_key os_ops r') (ro_rowID os_ops r') w'))
        \<and> ro_cached os_ops (ro_cacheSet os_ops (ro_key os_ops r') (ro_rowID os_ops r') w') (ro_key os_ops r') = Some (ro_rowID os_ops r') \<and> \<not> ro_always os_ops r'"
    using store_os [of E P D w r, OF _ _ _ refl refl] prefix_table_grows(1) by (simp add: os_ops_def)
qed (simp_all add: os_ops_def)

interpretation cpes: reference_store cpe_ops "store_ok E P D" cpe_row "\<lambda>c. dc_ID c = 0"
proof
  fix w k i
  assume "store_ok E P D w" "ro_cached cpe_ops w k = Some i"
  then show "cpe_row (ws_db w) k i" by (auto simp: store_ok_def cpe_cache_ok_def cpe_ops_def)
next
  fix w r
  assume "store_ok E P D w" "dc_ID r = 0" "ro_cached cpe_ops w (ro_key cpe_ops r) = None"
  then show "\<exists>w' r'. ro_create cpe_ops w r = Inr (w', r') \<and> ro_key cpe_ops r' = ro_key cpe_ops r \<and> ro_setRowID cpe_ops (ro_rowID cpe_ops r') r' = r'
        \<and> store_ok E P D (ro_cacheSet cpe_ops (ro_key cpe_ops r') (ro_rowID cpe_ops r') w')
        \<and> grows (ws_db w) (ws_db (ro_cacheSet cpe_ops (ro_key cpe_ops r') (ro_rowID cpe_ops r') w'))
        \<and> ro_cached cpe_ops (ro_cacheSet cpe_ops (ro_key cpe_ops r') (ro_rowID cpe_ops r') w') (ro_key cpe_ops r') = Some (ro_rowID cpe_ops r') \<and> \<not> ro_always cpe_ops r'"
    using store_cpe [of E P D w r, OF _ _ _ refl refl] prefix_table_grows(3) by (simp add: cpe_ops_def)
qed (simp_all add: cpe_ops_def)

interpretation packages: reference_store "package_ops E" "store_ok E P D" package_row package_ok
proof
  fix w k i
  assume "store_ok E P D w" "ro_cached (package_ops E) w k = Some i"
  then show "package_row (ws_db w) k i" by (auto simp: store_ok_def package_cache_ok_def package_ops_def)
next
  fix w r
  let ?R = "package_ops E"
  assume "store_ok E P D w" "package_ok r" "ro_cached ?R w (ro_key ?R r) = None"
  then show "\<exists>w' r'. ro_create ?R w r = Inr (w', r') \<and> ro_key ?R r' = ro_key ?R r \<and> ro_setRowID ?R (ro_rowID ?R r') r' = r'
        \<and> store_ok E P D (ro_cacheSet ?R (ro_key ?R r') (ro_rowID ?R r') w')
        \<and> grows (ws_db w) (ws_db (ro_cacheSet ?R (ro_key ?R r') (ro_rowID ?R r') w'))
        \<and> ro_cached ?R (ro_cacheSet ?R (ro_key ?R r') (ro_rowID ?R r') w') (ro_key ?R r') = Some (ro_rowID ?R r') \<and> \<not> ro_always ?R r'"
    using store_package [of E P D w r] by (fastforce simp: package_ops_def)
qed (auto simp: package_ops_def package_ok_def)

interpretation providers: reference_store "provider_ops E" "store_ok E P D" "provider_row E" "\<lambda>p. p \<in> P"
proof
  fix w k i
  assume "store_ok E P D w" "ro_cached (provider_ops E) w k = Some i"
  then show "provider_row E (ws_db w) k i" by (auto simp: store_ok_def provider_cache_ok_def provider_ops_def)
next
  fix w r
  let ?R = "provider_ops E"
  assume "store_ok E P D w" "r \<in> P" "ro_cached ?R w (ro_key ?R r) = None"
  then show "\<exists>w' r'. ro_create ?R w r = Inr (w', r') \<and> ro_key ?R r' = ro_key ?R r \<and> ro_setRowID ?R (ro_rowID ?R r') r' = r'
        \<and> store_ok E P D (ro_cacheSet ?R (ro_key ?R r') (ro_rowID ?R r') w')
        \<and> grows (ws_db w) (ws_db (ro_cacheSet ?R (ro_key ?R r') (ro_rowID ?R r') w'))
        \<and> ro_cached ?R (ro_cacheSet ?R (ro_key ?R r') (ro_rowID ?R r') w') (ro_key ?R r') = Some (ro_rowID ?R r') \<and> \<not> ro_always ?R r'"
    using store_provider [of E P D w r, OF _ _ _ refl] prefix_table_grows(4) by (simp add: provider_ops_def)
qed (simp_all add: provider_ops_def)

section \<open>Blobs\<close>

lemma map_of_append_fresh: "i \<notin> fst ` set xs \<Longrightarrow> map_of xs \<subseteq>\<^sub>m map_of (xs @ [(i, v)]) \<and> map_of (xs @ [(i, v)]) i = Some v"
proof -
  assume "i \<notin> fst ` set xs"
  then have "map_of xs i = None" by (simp add: map_of_eq_None_iff)
  then show ?thesis by (auto simp: map_le_def map_add_def split: option.splits)
qed

lemma store_blob_fresh:
  assumes "i = next_id (blob_ids T)"
  shows "grows T (store_blob i b T) \<and> blob_at (store_blob i b T) i b"
proof -
  have "i \<notin> set (blob_ids T)" using next_id_fresh [of i "blob_ids T"] assms by auto
  then have f: "i \<notin> fst ` set (t_VulnerabilityBlobs T)" "i \<notin> fst ` set (t_PackageBlobs T)" "i \<notin> fst ` set (t_KEVBlobs T)"
    by (auto simp: blob_ids_def)
  show ?thesis
    using map_of_append_fresh [OF f(1)] map_of_append_fresh [OF f(2)] map_of_append_fresh [OF f(3)]
    by (cases b) (simp_all add: store_blob_def blob_at_def grows_def del: map_of_append)
qed

lemma store_blob_tables [simp]:
  "t_OperatingSystems (store_blob i b T) = t_OperatingSystems T" "t_Packages (store_blob i b T) = t_Packages T"
  "t_Cpes (store_blob i b T) = t_Cpes T" "t_Providers (store_blob i b T) = t_Providers T"
  "t_Vulnerabilities (store_blob i b T) = t_Vulnerabilities T" "t_AffectedPackages (store_blob i b T) = t_AffectedPackages T"
  "t_UnaffectedPackages (store_blob i b T) = t_UnaffectedPackages T" "t_KEVs (store_blob i b T) = t_KEVs T"
  by (cases b; simp add: store_blob_def)+

lemma add_blob:
  assumes "store_ok E P D w" "inj (we_digest E)"
  obtains w' i where "addBlobs E w b = (w', i)" "store_ok E P D w'" "grows (ws_db w) (ws_db w')" "0 < i" "blob_at (ws_db w') i b"
proof (cases "ws_idsByDigest w (we_digest E b)")
  case (Some i)
  then have i: "0 < i" "blob_at (ws_db w) i b"
    using assms by (auto simp: store_ok_def digests_ok_def dest: injD)
  moreover have "addBlobs E w b = (w, i)" using Some i(1) by (simp add: addBlobs_def)
  ultimately show thesis using that assms(1) by auto
next
  case None
  let ?i = "next_id (blob_ids (ws_db w))"
  let ?T = "store_blob ?i b (ws_db w)"
  let ?w = "w\<lparr>ws_db := ?T, ws_idsByDigest := (ws_idsByDigest w)(we_digest E b \<mapsto> ?i)\<rparr>"
  have g: "grows (ws_db w) ?T" and b: "blob_at ?T ?i b" using store_blob_fresh by blast+
  have i: "0 < ?i" by (rule next_id_pos)
  have "addBlobs E w b = (?w, ?i)" using None by (simp add: addBlobs_def Let_def)
  moreover have "digests_ok E ?w"
    using assms(1) b i blob_at_grows [OF g] unfolding store_ok_def digests_ok_def by (simp split: if_splits) blast
  then have "store_ok E P D ?w"
    using assms(1) refs_grow [OF g] by (auto simp: store_ok_def cache_ok_defs row_defs refs_ok_def)
  ultimately show thesis using that g b i by simp
qed

section \<open>Vulnerabilities\<close>

lemma lower_digit: "is_digit c \<Longrightarrow> to_lower c = c"
  by (simp add: to_lower_def is_digit_def is_upper_def)

lemma cacheKey_BlobID:
  assumes "VulnerabilityHandle_cacheKey v = VulnerabilityHandle_cacheKey u" "0 < vh_BlobID v" "0 < vh_BlobID u"
  shows "vh_BlobID v = vh_BlobID u"
proof -
  let ?d = "\<lambda>v. show_nat (nat (vh_BlobID v))"
  have lower: "map to_lower (?d v) = ?d v" for v
    using show_nat_digits(1) [of "nat (vh_BlobID v)"] lower_digit by (auto simp: list_all_iff map_idI simp del: show_nat.simps)
  have key: "\<exists>xs. VulnerabilityHandle_cacheKey v = xs @ '' '' @ ?d v" if "0 < vh_BlobID v" for v
  proof -
    let ?p = "case vh_Provider v of None \<Rightarrow> ''none'' | Some p \<Rightarrow> prv_ID p"
    have "VulnerabilityHandle_cacheKey v = map to_lower ((vh_Name v @ '' from '' @ ?p @ '' with'') @ '' '' @ ?d v)"
      using that by (simp add: VulnerabilityHandle_cacheKey_def strings_ToLower_def strconv_Itoa_def Let_def del: show_nat.simps)
    then have "VulnerabilityHandle_cacheKey v = map to_lower (vh_Name v @ '' from '' @ ?p @ '' with'') @ map to_lower '' '' @ ?d v"
      unfolding map_append lower by simp
    moreover have "map to_lower '' '' = '' ''" by code_simp
    ultimately show ?thesis by metis
  qed
  have tail: "takeWhile (\<lambda>c. c \<noteq> CHR '' '') (rev (xs @ '' '' @ ?d v)) = rev (?d v)" for xs v
  proof -
    have "\<forall>c\<in>set (?d v). c \<noteq> CHR '' ''"
      using show_nat_digits(1) [of "nat (vh_BlobID v)"] by (auto simp: list_all_iff is_digit_def byte_val_def simp del: show_nat.simps)
    then show ?thesis by (simp add: takeWhile_append del: show_nat.simps)
  qed
  from key [OF assms(2)] key [OF assms(3)] assms(1) obtain xs ys where "xs @ '' '' @ ?d v = ys @ '' '' @ ?d u" by metis
  then have "rev (?d v) = rev (?d u)" using tail [of xs v] tail [of ys u] by metis
  then have "show_nat (nat (vh_BlobID v)) = show_nat (nat (vh_BlobID u))" by simp
  then have "nat (vh_BlobID v) = nat (vh_BlobID u)" by simp
  then show ?thesis using assms(2,3) by simp
qed

lemma aliases_only: "\<exists>X. fold (add_alias n) as w = w\<lparr>ws_db := (ws_db w)\<lparr>t_Aliases := X\<rparr>\<rparr>"
proof (induction as arbitrary: w)
  case Nil
  have "fold (add_alias n) [] w = w\<lparr>ws_db := (ws_db w)\<lparr>t_Aliases := t_Aliases (ws_db w)\<rparr>\<rparr>" by simp
  then show ?case by blast
next
  case (Cons a as)
  obtain Y where "add_alias n a w = w\<lparr>ws_db := (ws_db w)\<lparr>t_Aliases := Y\<rparr>\<rparr>"
  proof (cases "\<lparr>va_Name = n, va_Alias = a\<rparr> \<in> set (t_Aliases (ws_db w))")
    case True
    then show thesis using that [of "t_Aliases (ws_db w)"] by (simp add: add_alias_def)
  next
    case False
    then show thesis using that by (simp add: add_alias_def)
  qed
  then show ?case using Cons [of "add_alias n a w"] by auto
qed

lemma store_aliases: "store_ok E P D w \<Longrightarrow> store_ok E P D (w\<lparr>ws_db := (ws_db w)\<lparr>t_Aliases := X\<rparr>\<rparr>)"
proof -
  have g: "grows (ws_db w) ((ws_db w)\<lparr>t_Aliases := X\<rparr>)" by (rule prefix_table_grows)
  show "store_ok E P D w \<Longrightarrow> store_ok E P D (w\<lparr>ws_db := (ws_db w)\<lparr>t_Aliases := X\<rparr>\<rparr>)"
    using digests_grow [of w "w\<lparr>ws_db := (ws_db w)\<lparr>t_Aliases := X\<rparr>\<rparr>" E] refs_grow [OF g] g
    by (auto simp: store_ok_def cache_ok_defs row_defs refs_ok_def)
qed

lemma store_vulnerability:
  assumes "store_ok E P D w" "vh_ID v = 0" "0 < vh_BlobID v" "blob_at (ws_db w) (vh_BlobID v) (BlobOfVulnerability b)"
    and "\<exists>p\<in>set (t_Providers (ws_db w)). prv_ID p = vh_ProviderID v"
  obtains w' v' where "createRecordsWithCache w v = Inr (w', v')" "store_ok E P D w'" "grows (ws_db w) (ws_db w')"
    "\<exists>r\<in>set (t_Vulnerabilities (ws_db w')). vh_ID r = vh_ID v' \<and> vh_BlobID r = vh_BlobID v" "vh_BlobValue v' = vh_BlobValue v"
proof (cases "cache_getID w vulnerabilitiesTableCacheKey (VulnerabilityHandle_cacheKey v)")
  case (Some i)
  then obtain r u where r: "r \<in> set (t_Vulnerabilities (ws_db w))" "vh_ID r = i" "vh_BlobID r = vh_BlobID u"
    "VulnerabilityHandle_cacheKey u = VulnerabilityHandle_cacheKey v"
    using assms(1) unfolding store_ok_def vulnerability_cache_ok_def by blast
  have "0 < vh_BlobID u" using assms(1) r(1,3) by (auto simp: store_ok_def refs_ok_def vulnerability_refs_def)
  then have "vh_BlobID u = vh_BlobID v" using cacheKey_BlobID [OF r(4)] assms(3) by simp
  then show thesis using that [of w "v\<lparr>vh_ID := i\<rparr>"] Some assms(1) r by (auto simp: createRecordsWithCache_def)
next
  case None
  let ?i = "next_id (map vh_ID (t_Vulnerabilities (ws_db w)))"
  let ?r = "v\<lparr>vh_Provider := None, vh_BlobValue := None, vh_ID := ?i\<rparr>"
  let ?w = "w\<lparr>ws_db := (ws_db w)\<lparr>t_Vulnerabilities := t_Vulnerabilities (ws_db w) @ [?r]\<rparr>\<rparr>"
  have key: "VulnerabilityHandle_cacheKey (v\<lparr>vh_ID := ?i\<rparr>) = VulnerabilityHandle_cacheKey v" by (simp add: VulnerabilityHandle_cacheKey_def)
  have "create_vulnerability w v = Inr (?w, v\<lparr>vh_ID := ?i\<rparr>)"
    using None assms(2,5) by (auto simp: create_vulnerability_def insert_row_new list_ex_iff)
  then have c: "createRecordsWithCache w v
      = Inr (cache_setIDEntry vulnerabilitiesTableCacheKey (VulnerabilityHandle_cacheKey v) ?i ?w, v\<lparr>vh_ID := ?i\<rparr>)"
    using None key by (simp add: createRecordsWithCache_def)
  have g: "grows (ws_db w) (ws_db ?w)" by (simp add: prefix_table_grows)
  have "vulnerability_refs (ws_db ?w) ?r"
    using assms(3-5) blob_at_grows [OF g assms(4)] by (auto simp: vulnerability_refs_def)
  moreover have "distinct (map vh_ID (t_Vulnerabilities (ws_db w) @ [?r]))"
    using assms(1) by (intro distinct_next) (auto simp: store_ok_def refs_ok_def)
  ultimately have "refs_ok (ws_db ?w)" using assms(1) refs_grow [OF g] by (auto simp: store_ok_def refs_ok_def)
  moreover have "vulnerability_cache_ok (cache_setIDEntry vulnerabilitiesTableCacheKey (VulnerabilityHandle_cacheKey v) ?i ?w)"
    using assms(1) by (fastforce simp: store_ok_def vulnerability_cache_ok_def)
  ultimately have "store_ok E P D (cache_setIDEntry vulnerabilitiesTableCacheKey (VulnerabilityHandle_cacheKey v) ?i ?w)"
    using assms(1) digests_grow [OF g, of E]
    by (auto simp: store_ok_def os_cache_ok_def package_cache_ok_def cpe_cache_ok_def provider_cache_ok_def row_defs digests_ok_def)
  then show thesis using that [OF c] g by simp
qed

definition vulnerability_ok :: "DbProvider set \<Rightarrow> VulnerabilityHandle \<Rightarrow> bool" where
  "vulnerability_ok P v \<longleftrightarrow> vh_ID v = 0 \<and> vh_BlobValue v \<noteq> None \<and> (case vh_Provider v of None \<Rightarrow> False | Some p \<Rightarrow> p \<in> P)"

text \<open>A row for a vulnerability has been written: it has the identifier and the blob.\<close>

definition vulnerability_stored :: "db \<Rightarrow> int \<Rightarrow> VulnerabilityBlob \<Rightarrow> bool" where
  "vulnerability_stored T i b \<longleftrightarrow> (\<exists>r\<in>set (t_Vulnerabilities T). vh_ID r = i \<and> blob_at T (vh_BlobID r) (BlobOfVulnerability b))"

lemma vulnerability_stored_grows: "grows T T' \<Longrightarrow> vulnerability_stored T i b \<Longrightarrow> vulnerability_stored T' i b"
proof -
  assume g: "grows T T'"
  then have "set (t_Vulnerabilities T) \<subseteq> set (t_Vulnerabilities T')" by (simp add: grows_def)
  then show "vulnerability_stored T i b \<Longrightarrow> vulnerability_stored T' i b"
    unfolding vulnerability_stored_def using blob_at_grows [OF g] by blast
qed

lemma AddVulnerabilities_one:
  assumes "store_ok E P D w" "inj (we_digest E)" "vulnerability_ok P v" "vh_BlobValue v = Some b"
  obtains w' v' where "AddVulnerabilities E w [v] = Inr (w', [v'])" "store_ok E P D w'" "grows (ws_db w) (ws_db w')"
    "vulnerability_stored (ws_db w') (vh_ID v') b" "vh_BlobValue v' = vh_BlobValue v"
proof -
  obtain p where p: "vh_Provider v = Some p" "p \<in> P" "vh_ID v = 0" using assms(3) by (auto simp: vulnerability_ok_def split: option.splits)
  obtain w1 i p' where w1: "addProviders E w [v] = Inr (w1, [v\<lparr>vh_Provider := Some p', vh_ProviderID := i\<rparr>])" "store_ok E P D w1"
    "grows (ws_db w) (ws_db w1)" "provider_row E (ws_db w1) (Provider_cacheKey E p) i"
    using providers.add_one [OF assms(1), of v] p by (auto simp: addProviders_def provider_ops_def)
  let ?v = "v\<lparr>vh_Provider := Some p', vh_ProviderID := i\<rparr>"
  obtain w2 j where w2: "addBlobs E w1 (BlobOfVulnerability b) = (w2, j)" "store_ok E P D w2" "grows (ws_db w1) (ws_db w2)" "0 < j"
    "blob_at (ws_db w2) j (BlobOfVulnerability b)"
    by (rule add_blob [OF w1(2) assms(2)])
  define v1 where "v1 = (if vh_PublishedDate v \<noteq> None \<and> vh_ModifiedDate v = None
      then ?v\<lparr>vh_BlobID := j, vh_ModifiedDate := vh_PublishedDate v\<rparr> else ?v\<lparr>vh_BlobID := j\<rparr>)"
  have v1: "vh_ID v1 = 0" "vh_BlobID v1 = j" "vh_ProviderID v1 = i" by (simp_all add: v1_def p(3))
  have "write_vulnerability E w1 ?v
      = createRecordsWithCache (fold (add_alias (vh_Name v)) (removeAll (vh_Name v) (remdups (vb_Aliases b))) w2) v1"
    using w2(1) assms(4)
    by (cases "vh_PublishedDate v \<noteq> None \<and> vh_ModifiedDate v = None") (auto simp: write_vulnerability_def addBlobable_def v1_def)
  then obtain X where "write_vulnerability E w1 ?v = createRecordsWithCache (w2\<lparr>ws_db := (ws_db w2)\<lparr>t_Aliases := X\<rparr>\<rparr>) v1"
    using aliases_only by metis
  moreover have w3: "store_ok E P D (w2\<lparr>ws_db := (ws_db w2)\<lparr>t_Aliases := X\<rparr>\<rparr>)" (is "store_ok E P D ?w3") by (rule store_aliases [OF w2(2)])
  have g: "grows (ws_db w2) (ws_db ?w3)" by (simp add: prefix_table_grows)
  have "\<exists>p\<in>set (t_Providers (ws_db ?w3)). prv_ID p = vh_ProviderID v1"
    using w1(4) w2(3) by (auto simp: provider_row_def grows_def v1(3))
  with w3 v1 w2(4) blob_at_grows [OF g w2(5)] obtain w' v' where w': "createRecordsWithCache ?w3 v1 = Inr (w', v')" "store_ok E P D w'"
    "grows (ws_db ?w3) (ws_db w')" "\<exists>r\<in>set (t_Vulnerabilities (ws_db w')). vh_ID r = vh_ID v' \<and> vh_BlobID r = j"
    "vh_BlobValue v' = vh_BlobValue v1"
    using store_vulnerability [of E P D ?w3 v1 b] by metis
  ultimately have "AddVulnerabilities E w [v] = Inr (w', [v'])" using w1(1) by (simp add: AddVulnerabilities_def)
  moreover have "grows (ws_db w2) (ws_db w')" using g w'(3) by (rule grows_trans)
  then have "vulnerability_stored (ws_db w') (vh_ID v') b" "grows (ws_db w) (ws_db w')"
    using w'(4) blob_at_grows [OF _ w2(5)] grows_trans [OF grows_trans [OF w1(3) w2(3)]] by (auto simp: vulnerability_stored_def)
  moreover have "vh_BlobValue v' = vh_BlobValue v" using w'(5) by (simp add: v1_def)
  ultimately show thesis using that w'(2) by blast
qed

section \<open>Rows of packages\<close>

definition package_handle_ok :: "packageHandle \<Rightarrow> bool" where
  "package_handle_ok h \<longleftrightarrow> ph_ID h = 0 \<and> ph_BlobValue h \<noteq> None \<and> (case ph_Package h of None \<Rightarrow> False | Some p \<Rightarrow> package_ok p)
     \<and> (case ph_OperatingSystem h of None \<Rightarrow> ph_OperatingSystemID h = None | Some r \<Rightarrow> os_ok (OperatingSystem_clean r))"

text \<open>A row for a handle has been written: of the vulnerability, with the blob, for a package and a system with the keys of those of the
  handle.\<close>

definition package_stored :: "db \<Rightarrow> bool \<Rightarrow> int \<Rightarrow> packageHandle \<Rightarrow> bool" where
  "package_stored T affected v h \<longleftrightarrow>
     (\<exists>r\<in>set (package_table affected T). ph_VulnerabilityID r = v
        \<and> (\<forall>b. ph_BlobValue h = Some b \<longrightarrow> blob_at T (ph_BlobID r) (BlobOfPackage b))
        \<and> (\<forall>p. ph_Package h = Some p \<longrightarrow> package_row T (Package_cacheKey p) (ph_PackageID r))
        \<and> (case ph_OperatingSystem h of None \<Rightarrow> ph_OperatingSystemID r = None
           | Some s \<Rightarrow> \<exists>i. ph_OperatingSystemID r = Some i \<and> os_row T (OperatingSystem_cacheKey (OperatingSystem_clean s)) i))"

lemma rows_grow:
  assumes "grows T T'"
  shows "os_row T k i \<Longrightarrow> os_row T' k i" "package_row T k i \<Longrightarrow> package_row T' k i" "cpe_row T k i \<Longrightarrow> cpe_row T' k i"
    "set (package_table a T) \<subseteq> set (package_table a T')"
proof -
  have "(\<lambda>r. (os_ID r, OperatingSystem_cacheKey r)) ` set (t_OperatingSystems T)
      \<subseteq> (\<lambda>r. (os_ID r, OperatingSystem_cacheKey r)) ` set (t_OperatingSystems T')" using assms by (simp add: grows_def)
  then show "os_row T k i \<Longrightarrow> os_row T' k i" by (auto simp: os_row_def image_subset_iff image_iff) metis
qed (use assms in \<open>auto simp: row_defs grows_def package_table_def\<close>)

lemma package_stored_grows: "grows T T' \<Longrightarrow> package_stored T a v h \<Longrightarrow> package_stored T' a v h"
proof -
  assume g: "grows T T'"
  assume "package_stored T a v h"
  then obtain r where r: "r \<in> set (package_table a T)" "ph_VulnerabilityID r = v"
    "\<forall>b. ph_BlobValue h = Some b \<longrightarrow> blob_at T (ph_BlobID r) (BlobOfPackage b)"
    "\<forall>p. ph_Package h = Some p \<longrightarrow> package_row T (Package_cacheKey p) (ph_PackageID r)"
    "case ph_OperatingSystem h of None \<Rightarrow> ph_OperatingSystemID r = None
       | Some s \<Rightarrow> \<exists>i. ph_OperatingSystemID r = Some i \<and> os_row T (OperatingSystem_cacheKey (OperatingSystem_clean s)) i"
    unfolding package_stored_def by blast
  have "r \<in> set (package_table a T')" using r(1) rows_grow(4) [OF g] by blast
  moreover have "case ph_OperatingSystem h of None \<Rightarrow> ph_OperatingSystemID r = None
       | Some s \<Rightarrow> \<exists>i. ph_OperatingSystemID r = Some i \<and> os_row T' (OperatingSystem_cacheKey (OperatingSystem_clean s)) i"
    using r(5) rows_grow(1) [OF g] by (auto split: option.splits)
  ultimately show "package_stored T' a v h"
    unfolding package_stored_def using r(2-4) blob_at_grows [OF g] rows_grow(2) [OF g] by blast
qed

lemma set_package_table_simps [simp]:
  "package_table a (set_package_table a rows T) = rows"
  "t_OperatingSystems (set_package_table a rows T) = t_OperatingSystems T" "t_Packages (set_package_table a rows T) = t_Packages T"
  "t_Cpes (set_package_table a rows T) = t_Cpes T" "t_Providers (set_package_table a rows T) = t_Providers T"
  "t_Vulnerabilities (set_package_table a rows T) = t_Vulnerabilities T" "t_KEVs (set_package_table a rows T) = t_KEVs T"
  "blob_at (set_package_table a rows T) i b = blob_at T i b"
  by (simp_all add: package_table_def set_package_table_def blob_at_def split: blob_value.splits)

lemma store_package_handle:
  assumes "store_ok E P D w" "ph_ID h = 0" "package_keys_exist (ws_db w) h" "0 < ph_BlobID h" "blob_at (ws_db w) (ph_BlobID h) (BlobOfPackage b)"
  obtains w' h' where "create_package_handle a w h = Inr (w', h')" "store_ok E P D w'" "grows (ws_db w) (ws_db w')"
    "\<exists>i. (stored_package_handle h)\<lparr>ph_ID := i\<rparr> \<in> set (package_table a (ws_db w'))"
proof -
  let ?i = "next_id (map ph_ID (package_table a (ws_db w)))"
  let ?r = "(stored_package_handle h)\<lparr>ph_ID := ?i\<rparr>"
  let ?w = "w\<lparr>ws_db := set_package_table a (package_table a (ws_db w) @ [?r]) (ws_db w)\<rparr>"
  have c: "create_package_handle a w h = Inr (?w, h\<lparr>ph_ID := ?i\<rparr>)"
    using assms(2,3) by (simp add: create_package_handle_def insert_row_new stored_package_handle_def)
  have g: "grows (ws_db w) (ws_db ?w)" by (auto simp: grows_def set_package_table_def package_table_def)
  have "package_refs (ws_db ?w) ?r"
    using assms(3-5) by (auto simp: package_refs_def package_keys_exist_def stored_package_handle_def list_ex_iff)
  then have "refs_ok (ws_db ?w)"
    using assms(1) refs_grow [OF g]
    by (auto simp: store_ok_def refs_ok_def set_package_table_def package_table_def)
  then have "store_ok E P D ?w"
    using assms(1) digests_grow [OF g, of E] by (auto simp: store_ok_def cache_ok_defs row_defs)
  then show thesis using that [OF c] g by auto
qed

lemma add_os_one:
  assumes "store_ok E P D w" "package_handle_ok h"
  obtains w' h' where "write_os w h = Inr (w', h')" "store_ok E P D w'" "grows (ws_db w) (ws_db w')"
    "ph_VulnerabilityID h' = ph_VulnerabilityID h" "ph_BlobValue h' = ph_BlobValue h" "ph_Package h' = ph_Package h" "ph_ID h' = 0"
    "case ph_OperatingSystem h of None \<Rightarrow> ph_OperatingSystemID h' = None
       | Some s \<Rightarrow> \<exists>i. ph_OperatingSystemID h' = Some i \<and> os_row (ws_db w') (OperatingSystem_cacheKey (OperatingSystem_clean s)) i"
proof -
  let ?h = "h\<lparr>ph_OperatingSystem := map_option OperatingSystem_clean (ph_OperatingSystem h)\<rparr>"
  have ok: "os_ok r" if "ro_obj os_ops ?h = Some r" for r
    using that assms(2) by (auto simp: os_ops_def package_handle_ok_def)
  obtain w' h' where w': "add_objects os_ops w [?h] = Inr (w', [h'])" "store_ok E P D w'" "grows (ws_db w) (ws_db w')"
    "case ro_obj os_ops ?h of None \<Rightarrow> h' = ?h
       | Some r \<Rightarrow> \<exists>i r'. h' = ro_setFK os_ops i (ro_setObj os_ops r' ?h) \<and> os_row (ws_db w') (ro_key os_ops r) i"
    using systems.add_one [OF assms(1) ok] by blast
  have "write_os w h = Inr (w', h')" using w'(1) by (simp add: write_os_def addOsFromPackages_def)
  then show thesis
    using w'(2-4) assms(2) that [of w' h'] by (auto simp: os_ops_def package_handle_ok_def split: option.splits)
qed

lemma addPackagesWithOS_one:
  assumes "store_ok E P D w" "inj (we_digest E)" "package_handle_ok h" "\<exists>v\<in>set (t_Vulnerabilities (ws_db w)). vh_ID v = ph_VulnerabilityID h"
  obtains w' h' where "addPackagesWithOS E a w [h] = Inr (w', [h'])" "store_ok E P D w'" "grows (ws_db w) (ws_db w')"
    "package_stored (ws_db w') a (ph_VulnerabilityID h) h"
proof -
  obtain p b where p: "ph_Package h = Some p" "package_ok p" "ph_BlobValue h = Some b"
    using assms(3) by (auto simp: package_handle_ok_def split: option.splits)
  obtain w1 h1 where w1: "write_os w h = Inr (w1, h1)" "store_ok E P D w1" "grows (ws_db w) (ws_db w1)"
    "ph_VulnerabilityID h1 = ph_VulnerabilityID h" "ph_BlobValue h1 = ph_BlobValue h" "ph_Package h1 = ph_Package h" "ph_ID h1 = 0"
    "case ph_OperatingSystem h of None \<Rightarrow> ph_OperatingSystemID h1 = None
       | Some s \<Rightarrow> \<exists>i. ph_OperatingSystemID h1 = Some i \<and> os_row (ws_db w1) (OperatingSystem_cacheKey (OperatingSystem_clean s)) i"
    by (rule add_os_one [OF assms(1,3)])
  obtain w2 i p' where w2: "addPackages E w1 [h1] = Inr (w2, [h1\<lparr>ph_Package := Some p', ph_PackageID := i\<rparr>])" "store_ok E P D w2"
    "grows (ws_db w1) (ws_db w2)" "package_row (ws_db w2) (Package_cacheKey p) i"
    using packages.add_one [OF w1(2), of h1] p w1(6) by (auto simp: addPackages_def package_ops_def)
  obtain w3 j where w3: "addBlobs E w2 (BlobOfPackage b) = (w3, j)" "store_ok E P D w3" "grows (ws_db w2) (ws_db w3)" "0 < j"
    "blob_at (ws_db w3) j (BlobOfPackage b)"
    by (rule add_blob [OF w2(2) assms(2)])
  let ?h = "h1\<lparr>ph_Package := Some p', ph_PackageID := i, ph_BlobID := j\<rparr>"
  have g: "grows (ws_db w1) (ws_db w3)" "grows (ws_db w) (ws_db w3)"
    using grows_trans [OF w2(3) w3(3)] grows_trans [OF w1(3)] by blast+
  have os: "case ph_OperatingSystem h of None \<Rightarrow> ph_OperatingSystemID h1 = None
       | Some s \<Rightarrow> \<exists>i. ph_OperatingSystemID h1 = Some i \<and> os_row (ws_db w3) (OperatingSystem_cacheKey (OperatingSystem_clean s)) i"
    using w1(8) rows_grow(1) [OF g(1)] by (auto split: option.splits)
  have pr: "package_row (ws_db w3) (Package_cacheKey p) i" using rows_grow(2) [OF w3(3) w2(4)] .
  have "package_keys_exist (ws_db w3) ?h"
    using assms(4) g(2) os pr w1(4)
    by (auto simp: package_keys_exist_def list_ex_iff grows_def row_defs split: option.splits)
  then obtain w' h' where w': "create_package_handle a w3 ?h = Inr (w', h')" "store_ok E P D w'" "grows (ws_db w3) (ws_db w')"
    "\<exists>i. (stored_package_handle ?h)\<lparr>ph_ID := i\<rparr> \<in> set (package_table a (ws_db w'))"
    using store_package_handle [OF w3(2), of ?h b a] w1(7) w3(4,5) by auto
  have "addPackagesWithOS E a w [h] = Inr (w', [h'])"
    using w1(1,5) w2(1) w3(1) w'(1) p(3)
    by (simp add: addPackagesWithOS_def write_package_def addBlobable_def package_blob_def)
  moreover have "package_stored (ws_db w') a (ph_VulnerabilityID h) h"
  proof -
    obtain k where "(stored_package_handle ?h)\<lparr>ph_ID := k\<rparr> \<in> set (package_table a (ws_db w'))" (is "?r \<in> _") using w'(4) by blast
    moreover have "ph_VulnerabilityID ?r = ph_VulnerabilityID h" "blob_at (ws_db w') (ph_BlobID ?r) (BlobOfPackage b)"
      "package_row (ws_db w') (Package_cacheKey p) (ph_PackageID ?r)"
      using w1(4) blob_at_grows [OF w'(3) w3(5)] rows_grow(2) [OF w'(3) pr] by (simp_all add: stored_package_handle_def)
    moreover have "case ph_OperatingSystem h of None \<Rightarrow> ph_OperatingSystemID ?r = None
       | Some s \<Rightarrow> \<exists>i. ph_OperatingSystemID ?r = Some i \<and> os_row (ws_db w') (OperatingSystem_cacheKey (OperatingSystem_clean s)) i"
      using os rows_grow(1) [OF w'(3)] by (auto simp: stored_package_handle_def split: option.splits)
    ultimately show ?thesis unfolding package_stored_def using p(1,3) by fastforce
  qed
  ultimately show thesis using that w'(2) grows_trans [OF g(2) w'(3)] by blast
qed

section \<open>Rows of CPEs\<close>

definition cpe_handle_ok :: "cpeHandle \<Rightarrow> bool" where
  "cpe_handle_ok h \<longleftrightarrow> ch_ID h = 0 \<and> ch_BlobValue h \<noteq> None \<and> (case ch_CPE h of None \<Rightarrow> False | Some c \<Rightarrow> dc_ID c = 0)"

definition cpe_stored :: "db \<Rightarrow> bool \<Rightarrow> int \<Rightarrow> cpeHandle \<Rightarrow> bool" where
  "cpe_stored T affected v h \<longleftrightarrow>
     (\<exists>r\<in>set (cpe_table affected T). ch_VulnerabilityID r = v
        \<and> (\<forall>b. ch_BlobValue h = Some b \<longrightarrow> blob_at T (ch_BlobID r) (BlobOfPackage b))
        \<and> (\<forall>c. ch_CPE h = Some c \<longrightarrow> cpe_row T (Cpe_cacheKey c) (ch_CpeID r)))"

lemma cpe_stored_grows:
  assumes "grows T T'" "cpe_stored T a v h"
  shows "cpe_stored T' a v h"
proof -
  have "set (cpe_table a T) \<subseteq> set (cpe_table a T')" using assms(1) by (simp add: grows_def cpe_table_def)
  then show ?thesis using assms(2) blob_at_grows [OF assms(1)] rows_grow(3) [OF assms(1)] unfolding cpe_stored_def by blast
qed

lemma set_cpe_table_simps [simp]:
  "cpe_table a (set_cpe_table a rows T) = rows"
  "t_OperatingSystems (set_cpe_table a rows T) = t_OperatingSystems T" "t_Packages (set_cpe_table a rows T) = t_Packages T"
  "t_Cpes (set_cpe_table a rows T) = t_Cpes T" "t_Providers (set_cpe_table a rows T) = t_Providers T"
  "t_Vulnerabilities (set_cpe_table a rows T) = t_Vulnerabilities T" "t_KEVs (set_cpe_table a rows T) = t_KEVs T"
  "t_AffectedPackages (set_cpe_table a rows T) = t_AffectedPackages T" "t_UnaffectedPackages (set_cpe_table a rows T) = t_UnaffectedPackages T"
  by (simp_all add: cpe_table_def set_cpe_table_def)

lemma addCPEHandles_one:
  assumes "store_ok E P D w" "inj (we_digest E)" "cpe_handle_ok h" "\<exists>v\<in>set (t_Vulnerabilities (ws_db w)). vh_ID v = ch_VulnerabilityID h"
  obtains w' h' where "addCPEHandles E a w [h] = Inr (w', [h'])" "store_ok E P D w'" "grows (ws_db w) (ws_db w')"
    "cpe_stored (ws_db w') a (ch_VulnerabilityID h) h"
proof -
  obtain c b where c: "ch_CPE h = Some c" "dc_ID c = 0" "ch_BlobValue h = Some b" "ch_ID h = 0"
    using assms(3) by (auto simp: cpe_handle_ok_def split: option.splits)
  obtain w1 i c' where w1: "addCPEs w [h] = Inr (w1, [h\<lparr>ch_CPE := Some c', ch_CpeID := i\<rparr>])" "store_ok E P D w1"
    "grows (ws_db w) (ws_db w1)" "cpe_row (ws_db w1) (Cpe_cacheKey c) i"
    using cpes.add_one [OF assms(1), of h] c by (auto simp: addCPEs_def cpe_ops_def)
  obtain w2 j where w2: "addBlobs E w1 (BlobOfPackage b) = (w2, j)" "store_ok E P D w2" "grows (ws_db w1) (ws_db w2)" "0 < j"
    "blob_at (ws_db w2) j (BlobOfPackage b)"
    by (rule add_blob [OF w1(2) assms(2)])
  let ?h = "h\<lparr>ch_CPE := Some c', ch_CpeID := i, ch_BlobID := j\<rparr>"
  let ?i = "next_id (map ch_ID (cpe_table a (ws_db w2)))"
  let ?r = "?h\<lparr>ch_Vulnerability := None, ch_CPE := None, ch_BlobValue := None, ch_ID := ?i\<rparr>"
  let ?w = "w2\<lparr>ws_db := set_cpe_table a (cpe_table a (ws_db w2) @ [?r]) (ws_db w2)\<rparr>"
  have row: "cpe_row (ws_db w2) (Cpe_cacheKey c) i" by (rule rows_grow(3) [OF w2(3) w1(4)])
  have g2: "grows (ws_db w) (ws_db w2)" by (rule grows_trans [OF w1(3) w2(3)])
  have "cpe_keys_exist (ws_db w2) ?h"
    using assms(4) g2 row by (auto simp: cpe_keys_exist_def list_ex_iff grows_def cpe_row_def)
  then have "create_cpe_handle a w2 ?h = Inr (?w, ?h\<lparr>ch_ID := ?i\<rparr>)"
    using c(4) by (simp add: create_cpe_handle_def insert_row_new)
  then have "addCPEHandles E a w [h] = Inr (?w, [?h\<lparr>ch_ID := ?i\<rparr>])"
    using w1(1) w2(1) c(3) by (simp add: addCPEHandles_def write_cpe_def addBlobable_def)
  moreover have g: "grows (ws_db w2) (ws_db ?w)" by (auto simp: grows_def set_cpe_table_def cpe_table_def)
  moreover have "store_ok E P D ?w"
    using w2(2) digests_grow [OF g, of E] refs_grow [OF g] by (auto simp: store_ok_def cache_ok_defs row_defs refs_ok_def)
  moreover have "cpe_stored (ws_db ?w) a (ch_VulnerabilityID h) h"
    unfolding cpe_stored_def
  proof (rule bexI [of _ ?r], intro conjI allI impI)
    fix b' c' assume "ch_BlobValue h = Some b'"
    then show "blob_at (ws_db ?w) (ch_BlobID ?r) (BlobOfPackage b')" using c(3) blob_at_grows [OF g w2(5)] by simp
  next
    fix d assume "ch_CPE h = Some d"
    then show "cpe_row (ws_db ?w) (Cpe_cacheKey d) (ch_CpeID ?r)" using c(1) rows_grow(3) [OF g row] by simp
  qed simp_all
  ultimately show thesis using that grows_trans [OF g2 g] by blast
qed

section \<open>Other rows\<close>

lemma AddProvider_one:
  assumes "store_ok E P D w" "p \<in> P"
  obtains w' where "AddProvider E w p = Inr w'" "store_ok E P D w'" "grows (ws_db w) (ws_db w')"
proof (cases "list_ex (\<lambda>q. prv_ID q = prv_ID p) (t_Providers (ws_db w))")
  case True
  then show thesis using that [of w] assms(1) by (simp add: AddProvider_def)
next
  case new: False
  show thesis
  proof (cases "cache_getString w cpesTableCacheKey (Provider_cacheKey E p)")
    case None
    then show thesis
      using that store_provider [OF assms None refl] new prefix_table_grows(4) by (simp add: AddProvider_def)
  next
    case (Some i)
    then obtain q where q: "q \<in> set (t_Providers (ws_db w))" "prv_ID q = i" "Provider_cacheKey E q = Provider_cacheKey E p"
      using assms(1) by (auto simp: store_ok_def provider_cache_ok_def provider_row_def)
    moreover have "q \<in> P" "inj_on (Provider_cacheKey E) P" using assms(1) q(1) by (auto simp: store_ok_def provider_cache_ok_def)
    ultimately have "q = p" using assms(2) by (auto dest: inj_onD)
    then show thesis using q(1) new by (auto simp: list_ex_iff)
  qed
qed

definition kev_stored :: "db \<Rightarrow> KnownExploitedVulnerabilityHandle \<Rightarrow> bool" where
  "kev_stored T k \<longleftrightarrow> (\<exists>r\<in>set (t_KEVs T). kh_Cve r = kh_Cve k \<and> (\<forall>b. kh_BlobValue k = Some b \<longrightarrow> blob_at T (kh_BlobID r) (BlobOfKEV b)))"

lemma kev_stored_grows: "grows T T' \<Longrightarrow> kev_stored T k \<Longrightarrow> kev_stored T' k"
proof -
  assume g: "grows T T'"
  then have "set (t_KEVs T) \<subseteq> set (t_KEVs T')" by (simp add: grows_def)
  then show "kev_stored T k \<Longrightarrow> kev_stored T' k" unfolding kev_stored_def using blob_at_grows [OF g] by blast
qed

lemma AddKEV_one:
  assumes "store_ok E P D w" "inj (we_digest E)" "kh_BlobValue k \<noteq> None"
  shows "store_ok E P D (kev_loop E w [k]) \<and> grows (ws_db w) (ws_db (kev_loop E w [k])) \<and> kev_stored (ws_db (kev_loop E w [k])) k"
proof -
  obtain b where b: "kh_BlobValue k = Some b" using assms(3) by blast
  obtain w1 j where w1: "addBlobs E w (BlobOfKEV b) = (w1, j)" "store_ok E P D w1" "grows (ws_db w) (ws_db w1)" "0 < j"
    "blob_at (ws_db w1) j (BlobOfKEV b)"
    by (rule add_blob [OF assms(1,2)])
  let ?w = "w1\<lparr>ws_db := (ws_db w1)\<lparr>t_KEVs := t_KEVs (ws_db w1) @ [k\<lparr>kh_BlobID := j, kh_BlobValue := None\<rparr>]\<rparr>\<rparr>"
  have k: "kev_loop E w [k] = ?w" using w1(1) b by (simp add: addBlobable_def)
  have g: "grows (ws_db w1) (ws_db ?w)" by (auto simp: grows_def)
  have "kev_refs (ws_db ?w) (k\<lparr>kh_BlobID := j, kh_BlobValue := None\<rparr>)"
    using w1(4) blob_at_grows [OF g w1(5)] by (auto simp: kev_refs_def)
  then have "store_ok E P D ?w"
    using w1(2) digests_grow [OF g, of E] refs_grow [OF g] by (auto simp: store_ok_def cache_ok_defs row_defs refs_ok_def)
  moreover have "kev_stored (ws_db ?w) k" using blob_at_grows [OF g w1(5)] b by (simp add: kev_stored_def)
  ultimately show ?thesis unfolding k using grows_trans [OF w1(3) g] by simp
qed

text \<open>Tables that nothing refers to.\<close>

lemma store_plain:
  assumes "store_ok E P D w" "t_OperatingSystems T = t_OperatingSystems (ws_db w)" "t_Packages T = t_Packages (ws_db w)"
    "t_Cpes T = t_Cpes (ws_db w)" "t_Providers T = t_Providers (ws_db w)" "t_Vulnerabilities T = t_Vulnerabilities (ws_db w)"
    "t_KEVs T = t_KEVs (ws_db w)" "t_AffectedPackages T = t_AffectedPackages (ws_db w)"
    "t_UnaffectedPackages T = t_UnaffectedPackages (ws_db w)" "t_VulnerabilityBlobs T = t_VulnerabilityBlobs (ws_db w)"
    "t_PackageBlobs T = t_PackageBlobs (ws_db w)" "t_KEVBlobs T = t_KEVBlobs (ws_db w)" "t_AffectedCPEs T = t_AffectedCPEs (ws_db w)"
    "t_UnaffectedCPEs T = t_UnaffectedCPEs (ws_db w)" "set (t_Epss (ws_db w)) \<subseteq> set (t_Epss T)" "set (t_CWEs (ws_db w)) \<subseteq> set (t_CWEs T)"
  shows "store_ok E P D (w\<lparr>ws_db := T\<rparr>) \<and> grows (ws_db w) T"
proof -
  have g: "grows (ws_db w) T" using assms(2-) by (simp add: grows_def)
  show ?thesis
    using assms digests_grow [of w "w\<lparr>ws_db := T\<rparr>" E] refs_grow [OF g] g
    by (auto simp: store_ok_def cache_ok_defs row_defs refs_ok_def)
qed

lemma store_epssDate: "store_ok E P D w \<Longrightarrow> store_ok E P D (w\<lparr>ws_epssDate := Some D\<rparr>)"
  by (simp add: store_ok_def cache_ok_defs digests_ok_def)

lemma AddEpss_one:
  assumes "store_ok E P D w" "SchemaVer_GreaterOrEqualTo (we_dbVersion E) (schemaver_New 6 0 2)" "eh_Date e = D"
  obtains w' where "AddEpss E w [e] = Inr w'" "store_ok E P D w'" "grows (ws_db w) (ws_db w')"
    "e\<lparr>eh_Date := 0\<rparr> \<in> set (t_Epss (ws_db w'))"
proof -
  let ?T = "(ws_db w)\<lparr>t_Epss := t_Epss (ws_db w) @ [e\<lparr>eh_Date := 0\<rparr>]\<rparr>"
  show thesis
  proof (cases "ws_epssDate w")
    case None
    let ?T' = "?T\<lparr>t_EpssMetadata := [eh_Date e]\<rparr>"
    have "AddEpss E w [e] = Inr (w\<lparr>ws_db := ?T', ws_epssDate := Some (eh_Date e)\<rparr>)"
      using assms(2) None by (simp add: AddEpss_def setEPSSMetadata_def)
    then show thesis using that store_plain [OF assms(1), of ?T'] store_epssDate [of E P D "w\<lparr>ws_db := ?T'\<rparr>"] assms(3) by (simp add: subset_insertI)
  next
    case (Some d)
    then have "AddEpss E w [e] = Inr (w\<lparr>ws_db := ?T\<rparr>)" using assms(1-3) by (simp add: AddEpss_def setEPSSMetadata_def store_ok_def)
    then show thesis using that store_plain [OF assms(1), of ?T] Some assms(3) by (simp add: subset_insertI)
  qed
qed

lemma AddCWE_one:
  assumes "store_ok E P D w" "SchemaVer_GreaterOrEqualTo (we_dbVersion E) (schemaver_New 6 1 2)"
  shows "\<exists>T. AddCWE E w [c] = Inr (w\<lparr>ws_db := T\<rparr>) \<and> store_ok E P D (w\<lparr>ws_db := T\<rparr>) \<and> grows (ws_db w) T \<and> c \<in> set (t_CWEs T)"
  using assms(2) store_plain [OF assms(1), of "(ws_db w)\<lparr>t_CWEs := t_CWEs (ws_db w) @ [c]\<rparr>"]
  by (intro exI [of _ "(ws_db w)\<lparr>t_CWEs := t_CWEs (ws_db w) @ [c]\<rparr>"]) (auto simp: AddCWE_def)

lemma store_systems:
  assumes "store_ok E P D w" "\<And>r. os_ID (f r) = os_ID r \<and> OperatingSystem_cacheKey (f r) = OperatingSystem_cacheKey r"
    and "T = (ws_db w)\<lparr>t_OperatingSystems := map f (t_OperatingSystems (ws_db w))\<rparr>"
  shows "store_ok E P D (w\<lparr>ws_db := T\<rparr>) \<and> grows (ws_db w) T"
proof -
  have g: "grows (ws_db w) T" using assms(2) by (auto simp: grows_def assms(3) image_image)
  have "os_cache_ok (w\<lparr>ws_db := T\<rparr>)"
    using assms(1,2) by (auto simp: store_ok_def os_cache_ok_def os_row_def assms(3))
  then show ?thesis
    using assms(1) digests_grow [of w "w\<lparr>ws_db := T\<rparr>" E] refs_grow [OF g] g
    by (auto simp: store_ok_def package_cache_ok_def cpe_cache_ok_def provider_cache_ok_def vulnerability_cache_ok_def row_defs refs_ok_def assms(3))
qed

text \<open>The empty store.\<close>

definition empty_tables :: db where
  "empty_tables = \<lparr>t_Providers = [], t_Vulnerabilities = [], t_Aliases = [], t_AffectedPackages = [], t_UnaffectedPackages = [],
     t_OperatingSystems = [], t_OSOverrides = [], t_Packages = [], t_PackageCpes = [], t_PackageOverrides = [], t_ArchitectureAliases = None,
     t_AffectedCPEs = [], t_UnaffectedCPEs = [], t_Cpes = [], t_KEVs = [], t_EpssMetadata = [], t_Epss = [], t_CWEs = [],
     t_VulnerabilityBlobs = [], t_PackageBlobs = [], t_KEVBlobs = []\<rparr>"

definition empty_store :: wstore where
  "empty_store = \<lparr>ws_db = empty_tables, ws_idKeys = Map.empty, ws_strKeys = Map.empty, ws_idsByDigest = Map.empty, ws_epssDate = None\<rparr>"

lemma empty_store_ok: "inj_on prv_ID P \<Longrightarrow> inj_on (Provider_cacheKey E) P \<Longrightarrow> store_ok E P D empty_store"
  by (simp add: store_ok_def cache_ok_defs digests_ok_def refs_ok_def empty_store_def empty_tables_def cache_getID_def cache_getString_def)

end
