(* ===== verification/Go_Merge.thy ===== *)
theory Go_Merge
  imports Build_Common
begin

text \<open>
  Reconciling the records of the Go vulnerability database with the GitHub advisories they are aliases of:
  \<^verbatim>\<open>grype/db/v6/build/govulndb_merge.go\<close>.  Records are held back while feeds are read (\<open>hold\<close>) and reconciled at the end
  (\<open>reconcile\<close>).

  Entries are values: the code changes them through pointers, but every blob belongs to one row.  The map of held advisories is
  a map; the order in which they are written is the order of their arrival.
\<close>

section \<open>Vulnerable symbols\<close>

fun new_symbols :: "string list \<Rightarrow> string list \<Rightarrow> string list" where
  "new_symbols have [] = []"
| "new_symbols have (s # ss) = (if s \<in> set have then new_symbols have ss else s # new_symbols (s # have) ss)"

definition mergeGoSymbols :: "string \<times> string list \<Rightarrow> string \<times> string list \<Rightarrow> (string \<times> string list) \<times> bool" where
  "mergeGoSymbols existing incoming =
     (if snd existing = [] then (existing, False)
      else if snd incoming = [] then ((fst existing, []), True)
      else
        let symbols = snd existing @ new_symbols (snd existing) (snd incoming) in
        if length symbols = length (snd existing) then (existing, False) else ((fst existing, symbols), True))"

text \<open>The position of the last import of a path.\<close>

fun import_index :: "string \<Rightarrow> (string \<times> string list) list \<Rightarrow> nat option" where
  "import_index path [] = None"
| "import_index path (imp # imps) =
     (case import_index path imps of Some i \<Rightarrow> Some (Suc i) | None \<Rightarrow> if fst imp = path then Some 0 else None)"

fun add_imports ::
  "(string \<times> string list) list \<Rightarrow> (string \<times> string list) list \<Rightarrow> (string \<times> string list) list \<times> (string \<times> string list) list" where
  "add_imports cur [] = (cur, [])"
| "add_imports cur (imp # imports) =
     (case import_index (fst imp) cur of
        None \<Rightarrow> (let (cur', changed) = add_imports (cur @ [imp]) imports in (cur', imp # changed))
      | Some i \<Rightarrow>
          (case mergeGoSymbols (cur ! i) imp of (merged, grew) \<Rightarrow>
             if grew then (let (cur', changed) = add_imports (cur[i := merged]) imports in (cur', imp # changed))
             else add_imports cur imports))"

definition zero_qualifiers :: PackageQualifiers where
  "zero_qualifiers = \<lparr>pq_RpmModularity = None, pq_PlatformCPEs = [], pq_Architecture = None, pq_RootIO = None, pq_GoImports = []\<rparr>"

definition addGoImports :: "PackageBlob \<Rightarrow> (string \<times> string list) list \<Rightarrow> PackageBlob \<times> (string \<times> string list) list" where
  "addGoImports blob imports =
     (if imports = [] then (blob, [])
      else
        let q = (case pb_Qualifiers blob of None \<Rightarrow> zero_qualifiers | Some q \<Rightarrow> q);
            (cur, changed) = add_imports (pq_GoImports q) imports in
        (blob\<lparr>pb_Qualifiers := Some (q\<lparr>pq_GoImports := cur\<rparr>)\<rparr>, changed))"

section \<open>Patching an advisory\<close>

text \<open>The name and the blob of a row the reconciliation looks at.\<close>

definition patchable :: "build_model \<Rightarrow> (packageHandle \<times> DbPackage \<times> PackageBlob) option" where
  "patchable m =
     (case m of
        AffectedPackageModel h \<Rightarrow>
          (case (ph_Package h, ph_BlobValue h) of (Some p, Some b) \<Rightarrow> Some (h, p, b) | _ \<Rightarrow> None)
      | _ \<Rightarrow> None)"

definition go_imports_of :: "packageHandle \<Rightarrow> (string \<times> string list) list" where
  "go_imports_of h =
     (case ph_BlobValue h of
        None \<Rightarrow> []
      | Some b \<Rightarrow> (case pb_Qualifiers b of None \<Rightarrow> [] | Some q \<Rightarrow> pq_GoImports q))"

definition imports_for :: "string \<Rightarrow> string \<Rightarrow> (string \<times> string list) list \<Rightarrow> (string \<times> string list) list" where
  "imports_for name moduleName goImports =
     (if strings_EqualFold name moduleName then goImports else filter (\<lambda>imp. strings_EqualFold name (fst imp)) goImports)"

definition patch_row :: "string \<Rightarrow> (string \<times> string list) list \<Rightarrow> build_model \<Rightarrow> build_model \<times> string list" where
  "patch_row moduleName goImports m =
     (case patchable m of
        None \<Rightarrow> (m, [])
      | Some (h, p, b) \<Rightarrow>
          let (b', changed) = addGoImports b (imports_for (dp_Name p) moduleName goImports) in
          (AffectedPackageModel (h\<lparr>ph_BlobValue := Some b'\<rparr>),
           map (\<lambda>imp. ''added vulnerable go symbols for import '' @ fst imp @ '' to affected package '' @ dp_Name p) changed))"

definition has_module :: "string \<Rightarrow> build_model \<Rightarrow> bool" where
  "has_module moduleName m =
     (case patchable m of None \<Rightarrow> False | Some (h, p, b) \<Rightarrow> strings_EqualFold (dp_Name p) moduleName)"

text \<open>The package of the record is not nil where this is called; a nil package would be a panic.\<close>

definition patchGHSAWithGoImports :: "RelatedEntries \<Rightarrow> packageHandle \<Rightarrow> RelatedEntries \<times> bool \<times> string list" where
  "patchGHSAWithGoImports held goAPH =
     (let moduleName = (case ph_Package goAPH of Some p \<Rightarrow> dp_Name p | None \<Rightarrow> []);
          goImports = go_imports_of goAPH;
          rows = map (patch_row moduleName goImports) (re_Related held) in
      (held\<lparr>re_Related := map fst rows\<rparr>, list_ex (has_module moduleName) (re_Related held), concat (map snd rows)))"

definition rangeConstraints :: "Range list \<Rightarrow> string" where
  "rangeConstraints ranges = strings_Join (map (\<lambda>r. dbv_Constraint (rg_Version r)) ranges) '' || ''"

definition keep_detail :: "DbFix \<Rightarrow> Range \<Rightarrow> Range" where
  "keep_detail old r =
     (case rg_Fix r of
        None \<Rightarrow> r
      | Some f \<Rightarrow> if dbf_Detail f \<noteq> None then r else r\<lparr>rg_Fix := Some (f\<lparr>dbf_Detail := dbf_Detail old\<rparr>)\<rparr>)"

text \<open>Quoting of texts in the descriptions of changes (\<^verbatim>\<open>%q\<close>) is the parameter \<open>quote\<close>.\<close>

definition replace_row ::
  "(string \<Rightarrow> string) \<Rightarrow> string \<Rightarrow> GoVulnDBAffectedPackage \<Rightarrow> build_model \<Rightarrow> build_model \<times> string list" where
  "replace_row quote moduleName wrapped m =
     (case patchable m of
        None \<Rightarrow> (m, [])
      | Some (h, p, b) \<Rightarrow>
          if \<not> strings_EqualFold (dp_Name p) moduleName then (m, [])
          else case pb_Ranges b of
            [rng] \<Rightarrow>
              (case rg_Fix rng of
                 None \<Rightarrow> (m, [])
               | Some f \<Rightarrow>
                   if dbf_Version f \<noteq> gv_PseudoVersionFix wrapped then (m, [])
                   else (AffectedPackageModel (h\<lparr>ph_BlobValue := Some (b\<lparr>pb_Ranges := map (keep_detail f) (gv_CustomRanges wrapped)\<rparr>)\<rparr>),
                     [''replaced pseudo-version range '' @ quote (dbv_Constraint (rg_Version rng)) @ '' with ''
                       @ quote (rangeConstraints (gv_CustomRanges wrapped)) @ '' for affected package '' @ dp_Name p]))
          | _ \<Rightarrow> (m, []))"

definition replaceGHSAPseudoVersionRanges ::
  "(string \<Rightarrow> string) \<Rightarrow> RelatedEntries \<Rightarrow> packageHandle \<Rightarrow> GoVulnDBAffectedPackage \<Rightarrow> RelatedEntries \<times> string list" where
  "replaceGHSAPseudoVersionRanges quote held goAPH wrapped =
     (let moduleName = (case ph_Package goAPH of Some p \<Rightarrow> dp_Name p | None \<Rightarrow> []);
          rows = map (replace_row quote moduleName wrapped) (re_Related held) in
      (held\<lparr>re_Related := map fst rows\<rparr>, concat (map snd rows)))"

section \<open>Reconciling a record\<close>

type_synonym held_entries = "string \<rightharpoonup> RelatedEntries"

definition entry_rejected :: "RelatedEntries \<Rightarrow> bool" where
  "entry_rejected e = (case re_VulnerabilityHandle e of None \<Rightarrow> False | Some v \<Rightarrow> vh_Status v = VulnerabilityRejected)"

fun reconcilePackage ::
  "(string \<Rightarrow> string) \<Rightarrow> held_entries \<Rightarrow> packageHandle \<Rightarrow> GoVulnDBAffectedPackage option \<Rightarrow> string list \<Rightarrow> (string \<Rightarrow> string list)
   \<Rightarrow> held_entries \<times> (string \<Rightarrow> string list) \<times> bool" where
  "reconcilePackage quote M aph wrapped [] changes = (M, changes, False)"
| "reconcilePackage quote M aph wrapped (key # keys) changes =
     (case M key of
        None \<Rightarrow> reconcilePackage quote M aph wrapped keys changes
      | Some held \<Rightarrow>
          if entry_rejected held then reconcilePackage quote M aph wrapped keys changes
          else case patchGHSAWithGoImports held aph of (held1, moduleMatched, ch1) \<Rightarrow>
            (case (case wrapped of None \<Rightarrow> (held1, []) | Some w \<Rightarrow> replaceGHSAPseudoVersionRanges quote held1 aph w) of (held2, ch2) \<Rightarrow>
              (case reconcilePackage quote (M(key \<mapsto> held2)) aph wrapped keys (changes(key := changes key @ ch1 @ ch2)) of
                 (M', changes', covered) \<Rightarrow> (M', changes', moduleMatched \<or> covered))))"

definition ghsaAliasKeys :: "string list \<Rightarrow> string list" where
  "ghsaAliasKeys aliases = filter (\<lambda>a. strings_HasPrefix a ''ghsa-'') (map strings_ToLower aliases)"

definition goVulnDBAdvisoryURL :: "string \<Rightarrow> string" where
  "goVulnDBAdvisoryURL name = ''https://vuln.go.dev/ID/'' @ name @ ''.json''"

text \<open>A wrapped row becomes its plain handle; the wrapper is kept where it replaces a range.\<close>

definition unwrap_row :: "build_model \<Rightarrow> build_model \<times> GoVulnDBAffectedPackage option" where
  "unwrap_row m =
     (case m of
        GoVulnDBModel w \<Rightarrow>
          (AffectedPackageModel (gv_Handle w), if gv_PseudoVersionFix w \<noteq> [] \<and> gv_CustomRanges w \<noteq> [] then Some w else None)
      | _ \<Rightarrow> (m, None))"

definition unwrapGoVulnDBPackages :: "RelatedEntries \<Rightarrow> RelatedEntries \<times> (build_model \<times> GoVulnDBAffectedPackage option) list" where
  "unwrapGoVulnDBPackages entry =
     (let rows = map unwrap_row (re_Related entry) in (entry\<lparr>re_Related := map fst rows\<rparr>, rows))"

fun reconcile_rows ::
  "(string \<Rightarrow> string) \<Rightarrow> held_entries \<Rightarrow> string list \<Rightarrow> (build_model \<times> GoVulnDBAffectedPackage option) list \<Rightarrow> (string \<Rightarrow> string list)
   \<Rightarrow> held_entries \<times> (string \<Rightarrow> string list) \<times> build_model list \<times> nat" where
  "reconcile_rows quote M keys [] changes = (M, changes, [], 0)"
| "reconcile_rows quote M keys ((m, w) # rows) changes =
     (case m of
        AffectedPackageModel h \<Rightarrow>
          (if ph_Package h = None then
             (case reconcile_rows quote M keys rows changes of (M', c, remaining, n) \<Rightarrow> (M', c, m # remaining, n))
           else case reconcilePackage quote M h w keys changes of (M1, c1, covered) \<Rightarrow>
             (case reconcile_rows quote M1 keys rows c1 of (M', c, remaining, n) \<Rightarrow>
                if covered then (M', c, remaining, n) else (M', c, m # remaining, Suc n)))
      | _ \<Rightarrow> (case reconcile_rows quote M keys rows changes of (M', c, remaining, n) \<Rightarrow> (M', c, m # remaining, n)))"

definition add_modification :: "string \<Rightarrow> string list \<Rightarrow> RelatedEntries \<Rightarrow> RelatedEntries" where
  "add_modification url changes e =
     (case re_VulnerabilityHandle e of
        None \<Rightarrow> e
      | Some v \<Rightarrow>
          (case vh_BlobValue v of
             None \<Rightarrow> e
           | Some b \<Rightarrow> e\<lparr>re_VulnerabilityHandle := Some (v\<lparr>vh_BlobValue :=
               Some (b\<lparr>vb_Modifications := vb_Modifications b @ [\<lparr>mod_URL = url, mod_Changes = changes\<rparr>]\<rparr>)\<rparr>)\<rparr>))"

definition record_changes :: "string \<Rightarrow> (string \<Rightarrow> string list) \<Rightarrow> string \<Rightarrow> held_entries \<Rightarrow> held_entries" where
  "record_changes url changes key M =
     (if changes key = [] then M else case M key of None \<Rightarrow> M | Some e \<Rightarrow> M(key \<mapsto> add_modification url (changes key) e))"

text \<open>Entries without a vulnerability are not held; a nil handle would be a panic.  So would be a held advisory without a blob that
  has changes to record; held advisories have one.\<close>

definition handleEntry :: "(string \<Rightarrow> string) \<Rightarrow> held_entries \<Rightarrow> RelatedEntries \<Rightarrow> held_entries \<times> RelatedEntries \<times> bool" where
  "handleEntry quote M entry0 =
     (case unwrapGoVulnDBPackages entry0 of (entry, rows) \<Rightarrow>
        (case re_VulnerabilityHandle entry of
           None \<Rightarrow> (M, entry, True)
         | Some v \<Rightarrow>
             (case vh_BlobValue v of
                None \<Rightarrow> (M, entry, True)
              | Some b \<Rightarrow>
                  if vh_Status v = VulnerabilityRejected then (M, entry, True)
                  else
                    let keys = ghsaAliasKeys (vb_Aliases b) in
                    if keys = [] then (M, entry, True)
                    else case reconcile_rows quote M keys rows (\<lambda>_. []) of (M1, changes, remaining, n) \<Rightarrow>
                      (fold (record_changes (goVulnDBAdvisoryURL (vh_Name v)) changes) keys M1, entry\<lparr>re_Related := remaining\<rparr>, 0 < n))))"

section \<open>Holding entries back\<close>

record goVulnDBMerger =
  gm_goGHSAEntries :: held_entries
  gm_goGHSAOrder :: "string list"
  gm_govulndbEntries :: "RelatedEntries list"

definition newGoVulnDBMerger :: goVulnDBMerger where
  "newGoVulnDBMerger = \<lparr>gm_goGHSAEntries = Map.empty, gm_goGHSAOrder = [], gm_govulndbEntries = []\<rparr>"

definition hasGoModulePackages :: "RelatedEntries \<Rightarrow> bool" where
  "hasGoModulePackages entry =
     list_ex (\<lambda>m. case m of
         AffectedPackageModel h \<Rightarrow> (case ph_Package h of None \<Rightarrow> False | Some p \<Rightarrow> dp_Ecosystem p = GoModulePkg)
       | _ \<Rightarrow> False) (re_Related entry)"

definition hold :: "goVulnDBMerger \<Rightarrow> RelatedEntries \<Rightarrow> goVulnDBMerger \<times> bool" where
  "hold m entry =
     (case re_VulnerabilityHandle entry of
        None \<Rightarrow> (m, False)
      | Some v \<Rightarrow>
          let name = strings_ToLower (vh_Name v) in
          if strings_HasPrefix name ''go-'' then (m\<lparr>gm_govulndbEntries := gm_govulndbEntries m @ [entry]\<rparr>, True)
          else if strings_HasPrefix name ''ghsa-'' \<and> hasGoModulePackages entry then
            (if gm_goGHSAEntries m name \<noteq> None then (m, False)
             else (m\<lparr>gm_goGHSAEntries := (gm_goGHSAEntries m)(name \<mapsto> entry), gm_goGHSAOrder := gm_goGHSAOrder m @ [name]\<rparr>, True))
          else (m, False))"

section \<open>Dates of fixes\<close>

text \<open>The zero time of Go is the parameter \<open>zero\<close>.\<close>

definition hasFixDate :: "int \<Rightarrow> DbFix \<Rightarrow> bool" where
  "hasFixDate zero fix1 =
     (case dbf_Detail fix1 of
        None \<Rightarrow> False
      | Some d \<Rightarrow> (case fd_Available d of None \<Rightarrow> False | Some a \<Rightarrow> (case fa_Date a of None \<Rightarrow> False | Some t \<Rightarrow> t \<noteq> zero)))"

definition backfill_range :: "int \<Rightarrow> int \<Rightarrow> Range \<Rightarrow> Range" where
  "backfill_range zero fallback r =
     (case rg_Fix r of
        None \<Rightarrow> r
      | Some f \<Rightarrow>
          if dbf_State f \<noteq> FixedStatus \<or> hasFixDate zero f then r
          else r\<lparr>rg_Fix := Some (f\<lparr>dbf_Detail := Some
            (case dbf_Detail f of None \<Rightarrow> \<lparr>fd_Available = Some \<lparr>fa_Date = Some fallback, fa_Kind = ''first-observed-record''\<rparr>, fd_References = []\<rparr>
             | Some d \<Rightarrow> d\<lparr>fd_Available := Some \<lparr>fa_Date = Some fallback, fa_Kind = ''first-observed-record''\<rparr>\<rparr>)\<rparr>)\<rparr>)"

definition backfill_row :: "int \<Rightarrow> int \<Rightarrow> build_model \<Rightarrow> build_model" where
  "backfill_row zero fallback m =
     (case m of
        AffectedPackageModel h \<Rightarrow>
          (case ph_BlobValue h of
             None \<Rightarrow> m
           | Some b \<Rightarrow> AffectedPackageModel (h\<lparr>ph_BlobValue := Some (b\<lparr>pb_Ranges := map (backfill_range zero fallback) (pb_Ranges b)\<rparr>)\<rparr>))
      | _ \<Rightarrow> m)"

definition fallback_date :: "int \<Rightarrow> VulnerabilityHandle \<Rightarrow> int option" where
  "fallback_date zero v =
     (let usable = (\<lambda>d. d \<noteq> None \<and> d \<noteq> Some zero);
          d = (if usable (vh_PublishedDate v) then vh_PublishedDate v else vh_ModifiedDate v) in
      if usable d then d else None)"

definition backfillFixDates :: "int \<Rightarrow> RelatedEntries \<Rightarrow> RelatedEntries" where
  "backfillFixDates zero entry =
     (case re_VulnerabilityHandle entry of
        None \<Rightarrow> entry
      | Some v \<Rightarrow>
          (case fallback_date zero v of
             None \<Rightarrow> entry
           | Some fallback \<Rightarrow> entry\<lparr>re_Related := map (backfill_row zero fallback) (re_Related entry)\<rparr>))"

section \<open>Reconciling all held entries\<close>

fun reconcile_entries ::
  "(string \<Rightarrow> string) \<Rightarrow> held_entries \<Rightarrow> RelatedEntries list \<Rightarrow> held_entries \<times> RelatedEntries list" where
  "reconcile_entries quote M [] = (M, [])"
| "reconcile_entries quote M (e # es) =
     (case handleEntry quote M e of (M1, e1, survives) \<Rightarrow>
        (case reconcile_entries quote M1 es of (M', surviving) \<Rightarrow> (M', if survives then e1 # surviving else surviving)))"

definition reconcile :: "(string \<Rightarrow> string) \<Rightarrow> int \<Rightarrow> goVulnDBMerger \<Rightarrow> goVulnDBMerger \<times> RelatedEntries list" where
  "reconcile quote zero m =
     (case reconcile_entries quote (gm_goGHSAEntries m) (gm_govulndbEntries m) of (M, surviving) \<Rightarrow>
        (newGoVulnDBMerger,
         map (backfillFixDates zero) (concat (map (\<lambda>key. case M key of None \<Rightarrow> [] | Some e \<Rightarrow> [e]) (gm_goGHSAOrder m)) @ surviving)))"

end
