(* ===== verification/Db_Writer.thy ===== *)
theory Db_Writer
  imports Db_Write Go_Merge
begin

text \<open>
  The writer that fills the database from the entries of the transformers: \<^verbatim>\<open>grype/db/v6/build/writer.go\<close>.

  The vulnerability of an entry is shared, through a pointer, by the operation that writes it and those that write the rows that
  refer to it: the operations wait in two buffers and read the identifier only when they run.  Here such vulnerabilities are kept in
  a list and operations name them by their position.  The mutex that protects the buffers is left out; so are the counters of batches.
  Opening and closing the database file is left out.
\<close>

section \<open>State\<close>

datatype parent_op = ParentVulnerability nat | ParentProvider DbProvider

datatype child_op =
    ChildPackage bool "nat option" packageHandle
  | ChildCPE bool "nat option" cpeHandle
  | ChildKEV KnownExploitedVulnerabilityHandle
  | ChildEpss EpssHandle
  | ChildCWE CWEHandle
  | ChildEOL OperatingSystemEOLHandle

record writer =
  wr_failOnMissingFixDate :: bool
  wr_store :: wstore
  wr_severityCache :: "string \<rightharpoonup> DbSeverity"
  wr_goMerge :: goVulnDBMerger
  wr_parentBatchSize :: nat
  wr_childBatchSize :: nat
  wr_handles :: "VulnerabilityHandle list"
  wr_parentBuffer :: "parent_op list"
  wr_childBuffer :: "child_op list"

definition NewWriter :: "wstore \<Rightarrow> bool \<Rightarrow> nat \<Rightarrow> writer" where
  "NewWriter st failOnMissingFixDate batchSize =
     (let batchSize = (if batchSize = 0 then 2000 else batchSize) in
      \<lparr>wr_failOnMissingFixDate = failOnMissingFixDate, wr_store = st, wr_severityCache = Map.empty, wr_goMerge = newGoVulnDBMerger,
       wr_parentBatchSize = batchSize, wr_childBatchSize = batchSize, wr_handles = [], wr_parentBuffer = [], wr_childBuffer = []\<rparr>)"

section \<open>Severities\<close>

definition isKnownSeverity :: "DbSeverity \<Rightarrow> bool" where
  "isKnownSeverity s =
     (case sev_Value s of TextValue v \<Rightarrow> v \<noteq> [] \<and> strings_ToLower v \<noteq> ''unknown'' | _ \<Rightarrow> True)"

definition filterUnknownSeverities :: "DbSeverity list \<Rightarrow> DbSeverity list" where
  "filterUnknownSeverities sevs = filter isKnownSeverity sevs"

definition cacheNVDSeverity :: "string \<Rightarrow> DbSeverity \<Rightarrow> (string \<rightharpoonup> DbSeverity) \<Rightarrow> (string \<rightharpoonup> DbSeverity)" where
  "cacheNVDSeverity cveID sev c = c(strings_ToLower cveID \<mapsto> sev)"

fun alias_severity :: "(string \<rightharpoonup> DbSeverity) \<Rightarrow> string list \<Rightarrow> DbSeverity option" where
  "alias_severity c [] = None"
| "alias_severity c (alias # aliases) =
     (let a = strings_ToLower alias in
      if strings_HasPrefix a ''cve-'' \<and> c a \<noteq> None then c a else alias_severity c aliases)"

definition lookupNVDSeverity :: "(string \<rightharpoonup> DbSeverity) \<Rightarrow> string \<Rightarrow> string list \<Rightarrow> DbSeverity option" where
  "lookupNVDSeverity c name aliases =
     (let name = strings_ToLower name in
      if strings_HasPrefix name ''cve-'' \<and> c name \<noteq> None then c name else alias_severity c aliases)"

definition fillInMissingSeverity ::
  "(string \<rightharpoonup> DbSeverity) \<Rightarrow> VulnerabilityHandle \<Rightarrow> (string \<rightharpoonup> DbSeverity) \<times> VulnerabilityHandle" where
  "fillInMissingSeverity c handle =
     (case vh_BlobValue handle of
        None \<Rightarrow> (c, handle)
      | Some blob \<Rightarrow>
          let name = strings_ToLower (vb_ID blob); isCVE = strings_HasPrefix name ''cve-'' in
          if strings_ToLower (vh_ProviderID handle) = ''nvd'' \<and> isCVE then
            (case vb_Severities blob of [] \<Rightarrow> (c, handle) | s # _ \<Rightarrow> (cacheNVDSeverity name s c, handle))
          else if filterUnknownSeverities (vb_Severities blob) \<noteq> [] then (c, handle)
          else case lookupNVDSeverity c name (vb_Aliases blob) of
            None \<Rightarrow> (c, handle)
          | Some s \<Rightarrow> (c, handle\<lparr>vh_BlobValue := Some (blob\<lparr>vb_Severities := [s]\<rparr>)\<rparr>))"

section \<open>Dates of fixes\<close>

definition isFixVersion :: "string \<Rightarrow> bool" where
  "isFixVersion v \<longleftrightarrow> v \<noteq> [] \<and> v \<noteq> ''0'' \<and> strings_ToLower v \<noteq> ''none''"

definition range_dated :: "int \<Rightarrow> Range \<Rightarrow> bool" where
  "range_dated zero r =
     (case rg_Fix r of
        None \<Rightarrow> True
      | Some f \<Rightarrow> \<not> isFixVersion (dbf_Version f) \<or> dbf_State f \<noteq> FixedStatus \<or> hasFixDate zero f)"

definition ensureFixDates :: "int \<Rightarrow> packageHandle \<Rightarrow> serror option" where
  "ensureFixDates zero row =
     (case ph_BlobValue row of
        None \<Rightarrow> None
      | Some b \<Rightarrow> if list_all (range_dated zero) (pb_Ranges b) then None else Some (ErrorText ''missing fix date''))"

section \<open>Operations\<close>

definition writeOperatingSystemEOL :: "db \<Rightarrow> OperatingSystemEOLHandle \<Rightarrow> db" where
  "writeOperatingSystemEOL T row =
     fst (UpdateOperatingSystemEOL T
       (NoOSSpecified\<lparr>oss_Name := eolh_Name row, oss_MajorVersion := eolh_MajorVersion row, oss_MinorVersion := eolh_MinorVersion row,
          oss_LabelVersion := eolh_Codename row\<rparr>) (eolh_EOLDate row) (eolh_EOASDate row))"

definition run_parent :: "write_env \<Rightarrow> writer \<Rightarrow> parent_op \<Rightarrow> serror + writer" where
  "run_parent E w p =
     (case p of
        ParentVulnerability i \<Rightarrow>
          (case AddVulnerabilities E (wr_store w) [wr_handles w ! i] of
             Inl e \<Rightarrow> Inl e
           | Inr (st, vs) \<Rightarrow> Inr (w\<lparr>wr_store := st, wr_handles := (wr_handles w)[i := hd vs]\<rparr>))
      | ParentProvider p \<Rightarrow>
          (case AddProvider E (wr_store w) p of Inl e \<Rightarrow> Inl e | Inr st \<Rightarrow> Inr (w\<lparr>wr_store := st\<rparr>)))"

definition vulnerability_id :: "writer \<Rightarrow> nat option \<Rightarrow> int \<Rightarrow> int" where
  "vulnerability_id w v old = (case v of None \<Rightarrow> old | Some i \<Rightarrow> vh_ID (wr_handles w ! i))"

definition run_child :: "write_env \<Rightarrow> writer \<Rightarrow> child_op \<Rightarrow> serror + writer" where
  "run_child E w c =
     map_sum (\<lambda>e. e) (\<lambda>st. w\<lparr>wr_store := st\<rparr>)
       (case c of
          ChildPackage affected v h \<Rightarrow>
            map_sum (\<lambda>e. e) fst ((if affected then AddAffectedPackages else AddUnaffectedPackages) E (wr_store w)
              [h\<lparr>ph_VulnerabilityID := vulnerability_id w v (ph_VulnerabilityID h)\<rparr>])
        | ChildCPE affected v h \<Rightarrow>
            map_sum (\<lambda>e. e) fst ((if affected then AddAffectedCPEs else AddUnaffectedCPEs) E (wr_store w)
              [h\<lparr>ch_VulnerabilityID := vulnerability_id w v (ch_VulnerabilityID h)\<rparr>])
        | ChildKEV k \<Rightarrow> AddKnownExploitedVulnerabilities E (wr_store w) [k]
        | ChildEpss e \<Rightarrow> AddEpss E (wr_store w) [e]
        | ChildCWE e \<Rightarrow> AddCWE E (wr_store w) [e]
        | ChildEOL e \<Rightarrow> Inr ((wr_store w)\<lparr>ws_db := writeOperatingSystemEOL (ws_db (wr_store w)) e\<rparr>))"

fun run_all :: "string \<Rightarrow> (writer \<Rightarrow> 'p \<Rightarrow> serror + writer) \<Rightarrow> writer \<Rightarrow> 'p list \<Rightarrow> serror + writer" where
  "run_all what f w [] = Inr w"
| "run_all what f w (p # ps) = (case f w p of Inl e \<Rightarrow> Inl (WrapError what e) | Inr w' \<Rightarrow> run_all what f w' ps)"

definition flushParentBatch :: "write_env \<Rightarrow> writer \<Rightarrow> serror + writer" where
  "flushParentBatch E w =
     map_sum (\<lambda>e. e) (\<lambda>w. w\<lparr>wr_parentBuffer := []\<rparr>) (run_all ''parent operation failed'' (run_parent E) w (wr_parentBuffer w))"

definition flushChildBatch :: "write_env \<Rightarrow> writer \<Rightarrow> serror + writer" where
  "flushChildBatch E w =
     map_sum (\<lambda>e. e) (\<lambda>w. w\<lparr>wr_childBuffer := []\<rparr>) (run_all ''child operation failed'' (run_child E) w (wr_childBuffer w))"

definition addToParentBatch :: "write_env \<Rightarrow> parent_op \<Rightarrow> writer \<Rightarrow> serror + writer" where
  "addToParentBatch E p w =
     (let w = w\<lparr>wr_parentBuffer := wr_parentBuffer w @ [p]\<rparr> in
      if wr_parentBatchSize w \<le> length (wr_parentBuffer w) then flushParentBatch E w else Inr w)"

definition addToChildBatch :: "write_env \<Rightarrow> child_op \<Rightarrow> writer \<Rightarrow> serror + writer" where
  "addToChildBatch E c w =
     (let w = w\<lparr>wr_childBuffer := wr_childBuffer w @ [c]\<rparr> in
      if wr_childBatchSize w \<le> length (wr_childBuffer w)
      then (case flushParentBatch E w of Inl e \<Rightarrow> Inl e | Inr w' \<Rightarrow> flushChildBatch E w')
      else Inr w)"

section \<open>Entries\<close>

definition ErrEntryType :: serror where
  "ErrEntryType = ErrorText ''data entry is not of type vulnerability, vulnerability metadata, or exclusion''"

definition writeRelatedEntry :: "write_env \<Rightarrow> int \<Rightarrow> nat option \<Rightarrow> build_model \<Rightarrow> writer \<Rightarrow> serror + writer" where
  "writeRelatedEntry E zero v row w =
     (case row of
        AffectedPackageModel h \<Rightarrow>
          (case (if wr_failOnMissingFixDate w then ensureFixDates zero h else None) of
             Some e \<Rightarrow> Inl (WrapError ''unable to validate fix dates'' e)
           | None \<Rightarrow> addToChildBatch E (ChildPackage True v h) w)
      | UnaffectedPackageModel h \<Rightarrow> addToChildBatch E (ChildPackage False v h) w
      | AffectedCPEModel h \<Rightarrow> addToChildBatch E (ChildCPE True v h) w
      | UnaffectedCPEModel h \<Rightarrow> addToChildBatch E (ChildCPE False v h) w
      | KEVModel k \<Rightarrow> addToChildBatch E (ChildKEV k) w
      | EpssModel e \<Rightarrow> addToChildBatch E (ChildEpss e) w
      | CWEModel c \<Rightarrow> addToChildBatch E (ChildCWE c) w
      | EOLModel e \<Rightarrow> addToChildBatch E (ChildEOL e) w
      | _ \<Rightarrow> Inl ErrEntryType)"

fun write_related :: "write_env \<Rightarrow> int \<Rightarrow> nat option \<Rightarrow> build_model list \<Rightarrow> writer \<Rightarrow> serror + writer" where
  "write_related E zero v [] w = Inr w"
| "write_related E zero v (row # rows) w =
     (case writeRelatedEntry E zero v row w of Inl e \<Rightarrow> Inl e | Inr w' \<Rightarrow> write_related E zero v rows w')"

text \<open>The vulnerability of an entry, with its severity filled in, is the next of the list.\<close>

definition writeEntryToBatch :: "write_env \<Rightarrow> int \<Rightarrow> RelatedEntries \<Rightarrow> writer \<Rightarrow> serror + writer" where
  "writeEntryToBatch E zero entry w =
     (case re_VulnerabilityHandle entry of
        Some v \<Rightarrow>
          (case fillInMissingSeverity (wr_severityCache w) v of (c, v') \<Rightarrow>
             let i = length (wr_handles w) in
             (case addToParentBatch E (ParentVulnerability i) (w\<lparr>wr_severityCache := c, wr_handles := wr_handles w @ [v']\<rparr>) of
                Inl e \<Rightarrow> Inl (WrapError ''unable to batch vulnerability write'' e)
              | Inr w' \<Rightarrow> write_related E zero (Some i) (re_Related entry) w'))
      | None \<Rightarrow>
          (case (case re_Provider entry of None \<Rightarrow> Inr w | Some p \<Rightarrow> addToParentBatch E (ParentProvider p) w) of
             Inl e \<Rightarrow> Inl (WrapError ''unable to batch provider write'' e)
           | Inr w' \<Rightarrow> write_related E zero None (re_Related entry) w'))"

definition writeEntry :: "write_env \<Rightarrow> int \<Rightarrow> RelatedEntries \<Rightarrow> writer \<Rightarrow> serror + writer" where
  "writeEntry E zero entry w =
     (case hold (wr_goMerge w) entry of (m, held) \<Rightarrow>
        if held then Inr (w\<lparr>wr_goMerge := m\<rparr>) else writeEntryToBatch E zero entry w)"

text \<open>Entries are of the schema of this version and hold related rows; other entries, which no transformer makes, are errors.\<close>

fun writer_Write :: "write_env \<Rightarrow> int \<Rightarrow> RelatedEntries list \<Rightarrow> writer \<Rightarrow> serror + writer" where
  "writer_Write E zero [] w = Inr w"
| "writer_Write E zero (entry # entries) w =
     (case writeEntry E zero entry w of
        Inl e \<Rightarrow> Inl (WrapError ''unable to write entry to store'' e)
      | Inr w' \<Rightarrow> writer_Write E zero entries w')"

fun write_batches :: "write_env \<Rightarrow> int \<Rightarrow> RelatedEntries list \<Rightarrow> writer \<Rightarrow> serror + writer" where
  "write_batches E zero [] w = Inr w"
| "write_batches E zero (entry # entries) w =
     (case writeEntryToBatch E zero entry w of
        Inl e \<Rightarrow> Inl (WrapError ''unable to write reconciled go entry'' e)
      | Inr w' \<Rightarrow> write_batches E zero entries w')"

definition writer_Close :: "write_env \<Rightarrow> int \<Rightarrow> writer \<Rightarrow> serror + writer" where
  "writer_Close E zero w =
     (case reconcile (we_quote E) zero (wr_goMerge w) of (m, entries) \<Rightarrow>
        (case write_batches E zero entries (w\<lparr>wr_goMerge := m\<rparr>) of
           Inl e \<Rightarrow> Inl e
         | Inr w1 \<Rightarrow>
             (case flushParentBatch E w1 of
                Inl e \<Rightarrow> Inl (WrapError ''unable to flush parent batch'' e)
              | Inr w2 \<Rightarrow>
                  (case flushChildBatch E w2 of Inl e \<Rightarrow> Inl (WrapError ''unable to flush child batch'' e) | Inr w3 \<Rightarrow> Inr w3))))"

end
