(* ===== verification/Writer_Facts.thy ===== *)
theory Writer_Facts
  imports Write_Facts Db_Writer
begin

text \<open>
  What the buffers of the writer keep.  The invariant names the operations that wait: every vulnerability of the list is either
  written or waits exactly once, and the operations on rows refer to vulnerabilities of the list.  Flushing runs the operations in
  order and never fails; a row that waits is stored once the buffers are flushed (\<open>leads\<close>).
\<close>

section \<open>Invariant\<close>

fun pending :: "parent_op list \<Rightarrow> nat list" where
  "pending [] = []"
| "pending (ParentVulnerability i # ps) = i # pending ps"
| "pending (ParentProvider p # ps) = pending ps"

lemma pending_append [simp]: "pending (ps @ qs) = pending ps @ pending qs"
  by (induction ps rule: pending.induct) simp_all

definition handle_written :: "db \<Rightarrow> VulnerabilityHandle \<Rightarrow> bool" where
  "handle_written T v \<longleftrightarrow> (\<exists>b. vh_BlobValue v = Some b \<and> vulnerability_stored T (vh_ID v) b)"

definition child_ok :: "write_env \<Rightarrow> int \<Rightarrow> nat \<Rightarrow> child_op \<Rightarrow> bool" where
  "child_ok E D n c \<longleftrightarrow>
     (case c of
        ChildPackage a v h \<Rightarrow> (\<exists>i<n. v = Some i) \<and> package_handle_ok h
      | ChildCPE a v h \<Rightarrow> (\<exists>i<n. v = Some i) \<and> cpe_handle_ok h
      | ChildKEV k \<Rightarrow> kh_BlobValue k \<noteq> None \<and> SchemaVer_GreaterOrEqualTo (we_dbVersion E) (schemaver_New 6 0 1)
      | ChildEpss e \<Rightarrow> eh_Date e = D \<and> SchemaVer_GreaterOrEqualTo (we_dbVersion E) (schemaver_New 6 0 2)
      | ChildCWE e \<Rightarrow> SchemaVer_GreaterOrEqualTo (we_dbVersion E) (schemaver_New 6 1 2)
      | ChildEOL e \<Rightarrow> True)"

definition waits_ok :: "write_env \<Rightarrow> DbProvider set \<Rightarrow> int \<Rightarrow> parent_op list \<Rightarrow> writer \<Rightarrow> bool" where
  "waits_ok E P D ps w \<longleftrightarrow> inj (we_digest E) \<and> store_ok E P D (wr_store w) \<and> distinct (pending ps) \<and> set (pending ps) \<subseteq> {..<length (wr_handles w)}
     \<and> (\<forall>i<length (wr_handles w). if i \<in> set (pending ps) then vulnerability_ok P (wr_handles w ! i)
          else handle_written (ws_db (wr_store w)) (wr_handles w ! i))
     \<and> (\<forall>p. ParentProvider p \<in> set ps \<longrightarrow> p \<in> P)"

definition writer_ok :: "write_env \<Rightarrow> DbProvider set \<Rightarrow> int \<Rightarrow> writer \<Rightarrow> bool" where
  "writer_ok E P D w \<longleftrightarrow> waits_ok E P D (wr_parentBuffer w) w \<and> (\<forall>c\<in>set (wr_childBuffer w). child_ok E D (length (wr_handles w)) c)"

text \<open>What a row leaves in the database.\<close>

definition child_stored :: "writer \<Rightarrow> child_op \<Rightarrow> bool" where
  "child_stored w c \<longleftrightarrow>
     (case c of
        ChildPackage a v h \<Rightarrow> \<exists>i<length (wr_handles w). v = Some i \<and> i \<notin> set (pending (wr_parentBuffer w))
          \<and> package_stored (ws_db (wr_store w)) a (vh_ID (wr_handles w ! i)) h
      | ChildCPE a v h \<Rightarrow> \<exists>i<length (wr_handles w). v = Some i \<and> i \<notin> set (pending (wr_parentBuffer w))
          \<and> cpe_stored (ws_db (wr_store w)) a (vh_ID (wr_handles w ! i)) h
      | ChildKEV k \<Rightarrow> kev_stored (ws_db (wr_store w)) k
      | ChildEpss e \<Rightarrow> e\<lparr>eh_Date := 0\<rparr> \<in> set (t_Epss (ws_db (wr_store w)))
      | ChildCWE e \<Rightarrow> e \<in> set (t_CWEs (ws_db (wr_store w)))
      | ChildEOL e \<Rightarrow> True)"

definition covered :: "writer \<Rightarrow> child_op \<Rightarrow> bool" where
  "covered w c \<longleftrightarrow> c \<in> set (wr_childBuffer w) \<or> child_stored w c"

text \<open>Progress: rows are only added, vulnerabilities keep their contents, and those written their identifiers.\<close>

definition advances :: "writer \<Rightarrow> writer \<Rightarrow> bool" where
  "advances w w' \<longleftrightarrow> grows (ws_db (wr_store w)) (ws_db (wr_store w')) \<and> length (wr_handles w) \<le> length (wr_handles w')
     \<and> (\<forall>i<length (wr_handles w). vh_BlobValue (wr_handles w' ! i) = vh_BlobValue (wr_handles w ! i)
          \<and> (i \<notin> set (pending (wr_parentBuffer w)) \<longrightarrow>
               i \<notin> set (pending (wr_parentBuffer w')) \<and> wr_handles w' ! i = wr_handles w ! i))
     \<and> wr_failOnMissingFixDate w' = wr_failOnMissingFixDate w"

definition leads :: "writer \<Rightarrow> writer \<Rightarrow> bool" where
  "leads w w' \<longleftrightarrow> advances w w' \<and> wr_goMerge w' = wr_goMerge w \<and> (\<forall>c. covered w c \<longrightarrow> covered w' c)"

lemma advances_refl [simp]: "advances w w"
  by (simp add: advances_def)

lemma advances_trans: "advances w w' \<Longrightarrow> advances w' w'' \<Longrightarrow> advances w w''"
  unfolding advances_def using grows_trans by (metis order_trans order_less_le_trans)

lemma leads_refl [simp]: "leads w w"
  by (simp add: leads_def)

lemma leads_trans: "leads w w' \<Longrightarrow> leads w' w'' \<Longrightarrow> leads w w''"
  unfolding leads_def using advances_trans by metis

lemma leads_covered: "leads w w' \<Longrightarrow> covered w c \<Longrightarrow> covered w' c"
  by (simp add: leads_def)

lemma child_stored_advances:
  assumes "advances w w'" "child_stored w c"
  shows "child_stored w' c"
proof -
  have g: "grows (ws_db (wr_store w)) (ws_db (wr_store w'))" using assms(1) by (simp add: advances_def)
  have "set (t_Epss (ws_db (wr_store w))) \<subseteq> set (t_Epss (ws_db (wr_store w')))" "set (t_CWEs (ws_db (wr_store w))) \<subseteq> set (t_CWEs (ws_db (wr_store w')))"
    using g by (simp_all add: grows_def)
  moreover have h: "\<exists>i<length (wr_handles w'). v = Some i \<and> i \<notin> set (pending (wr_parentBuffer w')) \<and> Q' (vh_ID (wr_handles w' ! i))"
    if "\<exists>i<length (wr_handles w). v = Some i \<and> i \<notin> set (pending (wr_parentBuffer w)) \<and> Q (vh_ID (wr_handles w ! i))" "\<And>x. Q x \<Longrightarrow> Q' x"
    for v :: "nat option" and Q Q' :: "int \<Rightarrow> bool"
    using that assms(1) unfolding advances_def by (metis order_less_le_trans)
  ultimately show ?thesis
  proof (cases c)
    case (ChildPackage a v x)
    then show ?thesis using assms(2) h [of v, OF _ package_stored_grows [OF g, of a _ x]] by (simp add: child_stored_def)
  next
    case (ChildCPE a v x)
    then show ?thesis using assms(2) h [of v, OF _ cpe_stored_grows [OF g, of a _ x]] by (simp add: child_stored_def)
  qed (use assms(2) kev_stored_grows [OF g] in \<open>auto simp: child_stored_def\<close>)
qed

section \<open>Running operations\<close>

lemma handle_written_grows: "grows T T' \<Longrightarrow> handle_written T v \<Longrightarrow> handle_written T' v"
  unfolding handle_written_def using vulnerability_stored_grows by blast

text \<open>Between the operations of one flush the buffer still holds those that have run; so what is kept is said of the rest.\<close>

definition keeps :: "nat set \<Rightarrow> writer \<Rightarrow> writer \<Rightarrow> bool" where
  "keeps I w w' \<longleftrightarrow> grows (ws_db (wr_store w)) (ws_db (wr_store w')) \<and> length (wr_handles w') = length (wr_handles w)
     \<and> (\<forall>i<length (wr_handles w). vh_BlobValue (wr_handles w' ! i) = vh_BlobValue (wr_handles w ! i) \<and> (i \<notin> I \<longrightarrow> wr_handles w' ! i = wr_handles w ! i))
     \<and> wr_parentBuffer w' = wr_parentBuffer w \<and> wr_childBuffer w' = wr_childBuffer w \<and> wr_goMerge w' = wr_goMerge w
     \<and> wr_failOnMissingFixDate w' = wr_failOnMissingFixDate w"

lemma keeps_refl [simp]: "keeps I w w"
  by (simp add: keeps_def)

lemma keeps_trans: "keeps I w w' \<Longrightarrow> keeps J w' w'' \<Longrightarrow> I \<subseteq> K \<Longrightarrow> J \<subseteq> K \<Longrightarrow> keeps K w w''"
proof -
  assume 1: "keeps I w w'" and 2: "keeps J w' w''" and "I \<subseteq> K" "J \<subseteq> K"
  then have "grows (ws_db (wr_store w)) (ws_db (wr_store w''))" unfolding keeps_def using grows_trans by blast
  moreover have "vh_BlobValue (wr_handles w'' ! i) = vh_BlobValue (wr_handles w ! i) \<and> (i \<notin> K \<longrightarrow> wr_handles w'' ! i = wr_handles w ! i)"
    if "i < length (wr_handles w)" for i
    using that 1 2 \<open>I \<subseteq> K\<close> \<open>J \<subseteq> K\<close> unfolding keeps_def by (metis subsetD)
  ultimately show "keeps K w w''" using 1 2 unfolding keeps_def by auto
qed

lemma run_parent_ok:
  assumes "waits_ok E P D (p # ps) w"
  obtains w' where "run_parent E w p = Inr w'" "waits_ok E P D ps w'" "keeps (set (pending [p])) w w'"
proof (cases p)
  case (ParentVulnerability i)
  let ?v = "wr_handles w ! i"
  have i: "i < length (wr_handles w)" "vulnerability_ok P ?v" "i \<notin> set (pending ps)"
    using assms ParentVulnerability by (auto simp: waits_ok_def)
  then obtain b where b: "vh_BlobValue ?v = Some b" by (auto simp: vulnerability_ok_def)
  obtain st v' where st: "AddVulnerabilities E (wr_store w) [?v] = Inr (st, [v'])" "store_ok E P D st" "grows (ws_db (wr_store w)) (ws_db st)"
    "vulnerability_stored (ws_db st) (vh_ID v') b" "vh_BlobValue v' = vh_BlobValue ?v"
    using AddVulnerabilities_one [OF _ _ i(2) b] assms unfolding waits_ok_def by metis
  let ?w = "w\<lparr>wr_store := st, wr_handles := (wr_handles w)[i := v']\<rparr>"
  have "run_parent E w p = Inr ?w" using st(1) ParentVulnerability by (simp add: run_parent_def)
  moreover have "handle_written (ws_db st) v'" using st(4,5) b by (simp add: handle_written_def)
  then have "waits_ok E P D ps ?w"
    using assms i st(2) handle_written_grows [OF st(3)] ParentVulnerability by (auto simp: waits_ok_def nth_list_update)
  moreover have "keeps (set (pending [p])) w ?w"
    using st(3,5) ParentVulnerability i(1) by (auto simp: keeps_def nth_list_update)
  ultimately show thesis using that by blast
next
  case (ParentProvider q)
  then have "q \<in> P" using assms by (simp add: waits_ok_def)
  then obtain st where st: "AddProvider E (wr_store w) q = Inr st" "store_ok E P D st" "grows (ws_db (wr_store w)) (ws_db st)"
    using AddProvider_one assms unfolding waits_ok_def by metis
  let ?w = "w\<lparr>wr_store := st\<rparr>"
  have "run_parent E w p = Inr ?w" using st(1) ParentProvider by (simp add: run_parent_def)
  moreover have "waits_ok E P D ps ?w"
    using assms st(2) handle_written_grows [OF st(3)] ParentProvider by (auto simp: waits_ok_def)
  moreover have "keeps (set (pending [p])) w ?w"
    using st(3) by (auto simp: keeps_def)
  ultimately show thesis using that by blast
qed

lemma run_parents_ok:
  assumes "waits_ok E P D ps w"
  shows "\<exists>w'. run_all m (run_parent E) w ps = Inr w' \<and> waits_ok E P D [] w' \<and> keeps (set (pending ps)) w w'"
  using assms
proof (induction ps arbitrary: w)
  case (Cons p ps)
  obtain w1 where w1: "run_parent E w p = Inr w1" "waits_ok E P D ps w1" "keeps (set (pending [p])) w w1"
    by (rule run_parent_ok [OF Cons.prems])
  from Cons.IH [OF w1(2)] obtain w2 where w2: "run_all m (run_parent E) w1 ps = Inr w2" "waits_ok E P D [] w2" "keeps (set (pending ps)) w1 w2"
    by blast
  have "keeps (set (pending (p # ps))) w w2" using keeps_trans [OF w1(3) w2(3)] pending_append [of "[p]" ps] by auto
  then show ?case using w1(1) w2(1,2) by simp
qed simp

lemma eol_ok: "store_ok E P D w \<Longrightarrow> store_ok E P D (w\<lparr>ws_db := writeOperatingSystemEOL (ws_db w) e\<rparr>) \<and> grows (ws_db w) (writeOperatingSystemEOL (ws_db w) e)"
  unfolding writeOperatingSystemEOL_def UpdateOperatingSystemEOL_def Let_def fst_conv
  by (rule store_systems [OF _ _ refl])
     (simp_all add: OperatingSystem_cacheKey_def OperatingSystem_String_def OperatingSystem_Version_def)

lemma vulnerability_exists:
  "waits_ok E P D [] w \<Longrightarrow> i < length (wr_handles w) \<Longrightarrow> \<exists>v\<in>set (t_Vulnerabilities (ws_db (wr_store w))). vh_ID v = vh_ID (wr_handles w ! i)"
  by (fastforce simp: waits_ok_def handle_written_def vulnerability_stored_def)

text \<open>An operation on a row replaces the store by a larger one.\<close>

lemma child_step:
  assumes "waits_ok E P D [] w" "store_ok E P D st" "grows (ws_db (wr_store w)) (ws_db st)"
  shows "waits_ok E P D [] (w\<lparr>wr_store := st\<rparr>)" "keeps {} w (w\<lparr>wr_store := st\<rparr>)"
  using assms handle_written_grows [OF assms(3)] by (auto simp: waits_ok_def keeps_def)

lemma stored_any_id [simp]:
  "package_stored T a v (h\<lparr>ph_VulnerabilityID := i\<rparr>) = package_stored T a v h" "cpe_stored T a v (k\<lparr>ch_VulnerabilityID := i\<rparr>) = cpe_stored T a v k"
  by (simp_all add: package_stored_def cpe_stored_def)

lemma run_child_ok:
  assumes "waits_ok E P D [] w" "child_ok E D (length (wr_handles w)) c" "wr_parentBuffer w = []"
  obtains w' where "run_child E w c = Inr w'" "waits_ok E P D [] w'" "keeps {} w w'" "child_stored w' c"
proof -
  have E: "inj (we_digest E)" and s: "store_ok E P D (wr_store w)" using assms(1) by (simp_all add: waits_ok_def)
  have "\<exists>st. run_child E w c = Inr (w\<lparr>wr_store := st\<rparr>) \<and> store_ok E P D st \<and> grows (ws_db (wr_store w)) (ws_db st)
      \<and> child_stored (w\<lparr>wr_store := st\<rparr>) c"
  proof (cases c)
    case (ChildPackage a v h)
    then obtain i where i: "v = Some i" "i < length (wr_handles w)" "package_handle_ok h" using assms(2) by (auto simp: child_ok_def)
    let ?h = "h\<lparr>ph_VulnerabilityID := vh_ID (wr_handles w ! i)\<rparr>"
    have "package_handle_ok ?h" using i(3) by (simp add: package_handle_ok_def split: option.splits)
    then obtain st h' where st: "addPackagesWithOS E a (wr_store w) [?h] = Inr (st, [h'])" "store_ok E P D st"
      "grows (ws_db (wr_store w)) (ws_db st)" "package_stored (ws_db st) a (ph_VulnerabilityID ?h) ?h"
      using addPackagesWithOS_one [OF s E, of ?h a] vulnerability_exists [OF assms(1) i(2)] by auto
    then show ?thesis
      using ChildPackage i(1,2) assms(3)
      by (intro exI [of _ st]) (auto simp: run_child_def vulnerability_id_def AddAffectedPackages_def AddUnaffectedPackages_def child_stored_def)
  next
    case (ChildCPE a v h)
    then obtain i where i: "v = Some i" "i < length (wr_handles w)" "cpe_handle_ok h" using assms(2) by (auto simp: child_ok_def)
    let ?h = "h\<lparr>ch_VulnerabilityID := vh_ID (wr_handles w ! i)\<rparr>"
    have "cpe_handle_ok ?h" using i(3) by (simp add: cpe_handle_ok_def split: option.splits)
    then obtain st h' where st: "addCPEHandles E a (wr_store w) [?h] = Inr (st, [h'])" "store_ok E P D st"
      "grows (ws_db (wr_store w)) (ws_db st)" "cpe_stored (ws_db st) a (ch_VulnerabilityID ?h) ?h"
      using addCPEHandles_one [OF s E, of ?h a] vulnerability_exists [OF assms(1) i(2)] by auto
    then show ?thesis
      using ChildCPE i(1,2) assms(3)
      by (intro exI [of _ st]) (auto simp: run_child_def vulnerability_id_def AddAffectedCPEs_def AddUnaffectedCPEs_def child_stored_def)
  next
    case (ChildKEV k)
    then show ?thesis
      using AddKEV_one [OF s E, of k] assms(2)
      by (simp add: run_child_def child_ok_def child_stored_def AddKnownExploitedVulnerabilities_def del: kev_loop.simps) blast
  next
    case (ChildEpss e)
    then obtain st where "AddEpss E (wr_store w) [e] = Inr st" "store_ok E P D st" "grows (ws_db (wr_store w)) (ws_db st)"
      "e\<lparr>eh_Date := 0\<rparr> \<in> set (t_Epss (ws_db st))"
      using AddEpss_one [OF s, of e] assms(2) by (auto simp: child_ok_def)
    then show ?thesis using ChildEpss by (auto simp: run_child_def child_stored_def)
  next
    case (ChildCWE e)
    then show ?thesis using AddCWE_one [OF s, of e] assms(2) by (auto simp: run_child_def child_ok_def child_stored_def)
  next
    case (ChildEOL e)
    then show ?thesis using eol_ok [OF s, of e] by (auto simp: run_child_def child_stored_def)
  qed
  then show thesis using that child_step [OF assms(1)] by blast
qed

lemma child_ok_keeps: "keeps I w w' \<Longrightarrow> child_ok E D (length (wr_handles w')) c = child_ok E D (length (wr_handles w)) c"
  by (simp add: keeps_def)

lemma keeps_advances: "keeps I w w' \<Longrightarrow> I \<subseteq> set (pending (wr_parentBuffer w)) \<Longrightarrow> advances w w'"
  unfolding keeps_def advances_def by auto

lemma run_children_ok:
  assumes "waits_ok E P D [] w" "\<forall>c\<in>set cs. child_ok E D (length (wr_handles w)) c" "wr_parentBuffer w = []"
  shows "\<exists>w'. run_all m (run_child E) w cs = Inr w' \<and> waits_ok E P D [] w' \<and> keeps {} w w' \<and> (\<forall>c\<in>set cs. child_stored w' c)"
  using assms
proof (induction cs arbitrary: w)
  case (Cons c cs)
  obtain w1 where w1: "run_child E w c = Inr w1" "waits_ok E P D [] w1" "keeps {} w w1" "child_stored w1 c"
    using run_child_ok [OF Cons.prems(1) _ Cons.prems(3), of c] Cons.prems(2) by auto
  have "wr_parentBuffer w1 = []" "length (wr_handles w1) = length (wr_handles w)" using w1(3) Cons.prems(3) by (simp_all add: keeps_def)
  with Cons.IH [OF w1(2)] Cons.prems(2) obtain w2 where w2: "run_all m (run_child E) w1 cs = Inr w2" "waits_ok E P D [] w2" "keeps {} w1 w2"
    "\<forall>c\<in>set cs. child_stored w2 c"
    by auto
  have "child_stored w2 c" by (rule child_stored_advances [OF keeps_advances [OF w2(3)] w1(4)]) simp
  then show ?case using w1(1) w2 keeps_trans [OF w1(3) w2(3)] by simp
qed simp

section \<open>Flushing\<close>

lemma flushParentBatch_ok:
  assumes "writer_ok E P D w"
  obtains w' where "flushParentBatch E w = Inr w'" "writer_ok E P D w'" "leads w w'" "wr_parentBuffer w' = []" "wr_childBuffer w' = wr_childBuffer w"
    "length (wr_handles w') = length (wr_handles w)"
proof -
  obtain w1 where w1: "run_all ''parent operation failed'' (run_parent E) w (wr_parentBuffer w) = Inr w1" "waits_ok E P D [] w1"
    "keeps (set (pending (wr_parentBuffer w))) w w1"
    using run_parents_ok assms unfolding writer_ok_def by blast
  let ?w = "w1\<lparr>wr_parentBuffer := []\<rparr>"
  have "advances w ?w" using w1(3) by (auto simp: keeps_def advances_def)
  then have "leads w ?w" using child_stored_advances w1(3) by (auto simp: leads_def covered_def keeps_def)
  moreover have "writer_ok E P D ?w" using assms w1(2,3) by (auto simp: writer_ok_def waits_ok_def keeps_def)
  ultimately show thesis using that [of ?w] w1(1,3) by (simp add: flushParentBatch_def keeps_def)
qed

lemma flushChildBatch_ok:
  assumes "writer_ok E P D w" "wr_parentBuffer w = []"
  obtains w' where "flushChildBatch E w = Inr w'" "writer_ok E P D w'" "leads w w'" "wr_parentBuffer w' = []" "wr_childBuffer w' = []"
    "length (wr_handles w') = length (wr_handles w)"
proof -
  obtain w1 where w1: "run_all ''child operation failed'' (run_child E) w (wr_childBuffer w) = Inr w1" "waits_ok E P D [] w1" "keeps {} w w1"
    "\<forall>c\<in>set (wr_childBuffer w). child_stored w1 c"
    using run_children_ok [OF _ _ assms(2)] assms unfolding writer_ok_def by metis
  let ?w = "w1\<lparr>wr_childBuffer := []\<rparr>"
  have "advances w ?w" using w1(3) by (auto simp: keeps_def advances_def)
  moreover have "child_stored ?w c = child_stored w1 c" for c by (cases c) (simp_all add: child_stored_def)
  ultimately have "leads w ?w" using child_stored_advances [of w ?w] w1(3,4) by (auto simp: leads_def covered_def keeps_def)
  moreover have "writer_ok E P D ?w" using assms w1(2,3) by (auto simp: writer_ok_def waits_ok_def keeps_def)
  ultimately show thesis using that [of ?w] w1(1,3) assms(2) by (simp add: flushChildBatch_def keeps_def)
qed

lemma addToParentBatch_ok:
  assumes "writer_ok E P D (w\<lparr>wr_parentBuffer := wr_parentBuffer w @ [p]\<rparr>)"
  obtains w' where "addToParentBatch E p w = Inr w'" "writer_ok E P D w'" "leads (w\<lparr>wr_parentBuffer := wr_parentBuffer w @ [p]\<rparr>) w'"
proof (cases "wr_parentBatchSize w \<le> Suc (length (wr_parentBuffer w))")
  case True
  obtain w' where "flushParentBatch E (w\<lparr>wr_parentBuffer := wr_parentBuffer w @ [p]\<rparr>) = Inr w'" "writer_ok E P D w'"
    "leads (w\<lparr>wr_parentBuffer := wr_parentBuffer w @ [p]\<rparr>) w'"
    using flushParentBatch_ok [OF assms] by metis
  then show thesis using that True by (simp add: addToParentBatch_def)
next
  case False
  then show thesis using that [of "w\<lparr>wr_parentBuffer := wr_parentBuffer w @ [p]\<rparr>"] assms by (simp add: addToParentBatch_def)
qed

lemma addToChildBatch_ok:
  assumes "writer_ok E P D w" "child_ok E D (length (wr_handles w)) c"
  obtains w' where "addToChildBatch E c w = Inr w'" "writer_ok E P D w'" "leads w w'" "covered w' c"
proof -
  let ?w = "w\<lparr>wr_childBuffer := wr_childBuffer w @ [c]\<rparr>"
  have ok: "writer_ok E P D ?w" using assms by (auto simp: writer_ok_def waits_ok_def)
  have "child_stored ?w d = child_stored w d" for d by (cases d) (simp_all add: child_stored_def)
  then have l: "leads w ?w" and c: "covered ?w c" by (auto simp: leads_def advances_def covered_def)
  show thesis
  proof (cases "wr_childBatchSize w \<le> Suc (length (wr_childBuffer w))")
    case True
    obtain w1 where w1: "flushParentBatch E ?w = Inr w1" "writer_ok E P D w1" "leads ?w w1" "wr_parentBuffer w1 = []"
      using flushParentBatch_ok [OF ok] by metis
    obtain w2 where w2: "flushChildBatch E w1 = Inr w2" "writer_ok E P D w2" "leads w1 w2" using flushChildBatch_ok [OF w1(2,4)] by metis
    have "leads ?w w2" by (rule leads_trans [OF w1(3) w2(3)])
    then have "leads w w2" "covered w2 c" using leads_trans [OF l] leads_covered [OF _ c] by blast+
    moreover have "addToChildBatch E c w = Inr w2" using True w1(1) w2(1) by (simp add: addToChildBatch_def)
    ultimately show thesis using that w2(2) by blast
  next
    case False
    then have "addToChildBatch E c w = Inr ?w" by (simp add: addToChildBatch_def)
    then show thesis by (rule that [OF _ ok l c])
  qed
qed

section \<open>Entries\<close>

text \<open>The operation for a row.\<close>

definition child_of :: "nat option \<Rightarrow> build_model \<Rightarrow> child_op option" where
  "child_of v row =
     (case row of
        AffectedPackageModel h \<Rightarrow> Some (ChildPackage True v h)
      | UnaffectedPackageModel h \<Rightarrow> Some (ChildPackage False v h)
      | AffectedCPEModel h \<Rightarrow> Some (ChildCPE True v h)
      | UnaffectedCPEModel h \<Rightarrow> Some (ChildCPE False v h)
      | KEVModel k \<Rightarrow> Some (ChildKEV k)
      | EpssModel e \<Rightarrow> Some (ChildEpss e)
      | CWEModel e \<Rightarrow> Some (ChildCWE e)
      | EOLModel e \<Rightarrow> Some (ChildEOL e)
      | _ \<Rightarrow> None)"

text \<open>Rows that can be written: those of packages and CPEs belong to a vulnerability (\<open>owned\<close>).\<close>

definition row_ok :: "write_env \<Rightarrow> int \<Rightarrow> bool \<Rightarrow> build_model \<Rightarrow> bool" where
  "row_ok E D owned row \<longleftrightarrow>
     (case row of
        AffectedPackageModel h \<Rightarrow> owned \<and> package_handle_ok h
      | UnaffectedPackageModel h \<Rightarrow> owned \<and> package_handle_ok h
      | AffectedCPEModel h \<Rightarrow> owned \<and> cpe_handle_ok h
      | UnaffectedCPEModel h \<Rightarrow> owned \<and> cpe_handle_ok h
      | KEVModel k \<Rightarrow> kh_BlobValue k \<noteq> None \<and> SchemaVer_GreaterOrEqualTo (we_dbVersion E) (schemaver_New 6 0 1)
      | EpssModel e \<Rightarrow> eh_Date e = D \<and> SchemaVer_GreaterOrEqualTo (we_dbVersion E) (schemaver_New 6 0 2)
      | CWEModel e \<Rightarrow> SchemaVer_GreaterOrEqualTo (we_dbVersion E) (schemaver_New 6 1 2)
      | EOLModel e \<Rightarrow> True
      | _ \<Rightarrow> False)"

definition row_dated :: "int \<Rightarrow> build_model \<Rightarrow> bool" where
  "row_dated zero row \<longleftrightarrow> (case row of AffectedPackageModel h \<Rightarrow> ensureFixDates zero h = None | _ \<Rightarrow> True)"

lemma row_ok_child:
  assumes "row_ok E D (v \<noteq> None) row" "case v of None \<Rightarrow> True | Some i \<Rightarrow> i < n" "wr_failOnMissingFixDate w \<longrightarrow> row_dated zero row"
  shows "\<exists>c. child_of v row = Some c \<and> child_ok E D n c \<and> writeRelatedEntry E zero v row w = addToChildBatch E c w"
  using assms by (cases row) (auto simp: row_ok_def child_of_def child_ok_def row_dated_def writeRelatedEntry_def split: option.splits)

lemma write_related_ok:
  assumes "writer_ok E P D w" "\<forall>row\<in>set rows. row_ok E D (v \<noteq> None) row" "case v of None \<Rightarrow> True | Some i \<Rightarrow> i < length (wr_handles w)"
    "wr_failOnMissingFixDate w \<longrightarrow> (\<forall>row\<in>set rows. row_dated zero row)"
  shows "\<exists>w'. write_related E zero v rows w = Inr w' \<and> writer_ok E P D w' \<and> leads w w'
    \<and> (\<forall>row\<in>set rows. \<exists>c. child_of v row = Some c \<and> covered w' c)"
  using assms
proof (induction rows arbitrary: w)
  case (Cons row rows)
  obtain c where c: "child_of v row = Some c" "child_ok E D (length (wr_handles w)) c" "writeRelatedEntry E zero v row w = addToChildBatch E c w"
    using row_ok_child [OF _ Cons.prems(3), of E D row w zero] Cons.prems(2,4) by auto
  obtain w1 where w1: "addToChildBatch E c w = Inr w1" "writer_ok E P D w1" "leads w w1" "covered w1 c"
    using addToChildBatch_ok [OF Cons.prems(1) c(2)] by metis
  have "case v of None \<Rightarrow> True | Some i \<Rightarrow> i < length (wr_handles w1)" "wr_failOnMissingFixDate w1 = wr_failOnMissingFixDate w"
    using w1(3) Cons.prems(3) by (auto simp: leads_def advances_def split: option.splits)
  with Cons.IH [OF w1(2)] Cons.prems obtain w2 where w2: "write_related E zero v rows w1 = Inr w2" "writer_ok E P D w2" "leads w1 w2"
    "\<forall>row\<in>set rows. \<exists>c. child_of v row = Some c \<and> covered w2 c"
    by auto
  then have "covered w2 c" using leads_covered [OF _ w1(4)] by blast
  then show ?case using c(1,3) w1(1) w2 leads_trans [OF w1(3) w2(3)] by auto
qed simp

text \<open>A vulnerability is written with its contents, but for severities that the cache fills in.\<close>

definition severity_filled :: "VulnerabilityBlob \<Rightarrow> VulnerabilityBlob \<Rightarrow> bool" where
  "severity_filled b b' \<longleftrightarrow>
     b' = b \<or> filterUnknownSeverities (vb_Severities b) = [] \<and> (\<exists>s. b' = b\<lparr>vb_Severities := [s]\<rparr>)"

lemma fillInMissingSeverity_blob:
  assumes "fillInMissingSeverity c v = (c', v')"
  shows "v' = v \<or> (\<exists>b b'. vh_BlobValue v = Some b \<and> severity_filled b b' \<and> v' = v\<lparr>vh_BlobValue := Some b'\<rparr>)"
  using assms by (auto simp: fillInMissingSeverity_def severity_filled_def Let_def split: option.splits if_splits list.splits)

definition entry_ok :: "write_env \<Rightarrow> DbProvider set \<Rightarrow> int \<Rightarrow> RelatedEntries \<Rightarrow> bool" where
  "entry_ok E P D e \<longleftrightarrow>
     (case re_VulnerabilityHandle e of Some v \<Rightarrow> vulnerability_ok P v | None \<Rightarrow> (case re_Provider e of None \<Rightarrow> True | Some p \<Rightarrow> p \<in> P))
     \<and> (\<forall>row\<in>set (re_Related e). row_ok E D (re_VulnerabilityHandle e \<noteq> None) row)"

definition entry_written :: "writer \<Rightarrow> RelatedEntries \<Rightarrow> bool" where
  "entry_written w e \<longleftrightarrow>
     (case re_VulnerabilityHandle e of
        None \<Rightarrow> \<forall>row\<in>set (re_Related e). \<exists>c. child_of None row = Some c \<and> covered w c
      | Some v \<Rightarrow> \<exists>i<length (wr_handles w). (\<exists>b b'. vh_BlobValue v = Some b \<and> severity_filled b b' \<and> vh_BlobValue (wr_handles w ! i) = Some b')
          \<and> (\<forall>row\<in>set (re_Related e). \<exists>c. child_of (Some i) row = Some c \<and> covered w c))"

lemma entry_written_leads:
  assumes "leads w w'" "entry_written w e"
  shows "entry_written w' e"
proof -
  have a: "length (wr_handles w) \<le> length (wr_handles w')"
    "\<And>i. i < length (wr_handles w) \<Longrightarrow> vh_BlobValue (wr_handles w' ! i) = vh_BlobValue (wr_handles w ! i)"
    using assms(1) by (simp_all add: leads_def advances_def)
  show ?thesis
  proof (cases "re_VulnerabilityHandle e")
    case None
    then show ?thesis using assms(2) leads_covered [OF assms(1)] unfolding entry_written_def by (simp only: option.case) blast
  next
    case (Some v)
    then obtain i where i: "i < length (wr_handles w)"
      "\<exists>b b'. vh_BlobValue v = Some b \<and> severity_filled b b' \<and> vh_BlobValue (wr_handles w ! i) = Some b'"
      "\<forall>row\<in>set (re_Related e). \<exists>c. child_of (Some i) row = Some c \<and> covered w c"
      using assms(2) by (auto simp: entry_written_def)
    have "\<forall>row\<in>set (re_Related e). \<exists>c. child_of (Some i) row = Some c \<and> covered w' c" using i(3) leads_covered [OF assms(1)] by blast
    then show ?thesis using Some i(1,2) a by (auto simp: entry_written_def intro!: exI [of _ i])
  qed
qed

lemma new_handle_ok:
  assumes "writer_ok E P D w" "vulnerability_ok P v"
    and "w' = w\<lparr>wr_severityCache := c, wr_handles := wr_handles w @ [v], wr_parentBuffer := wr_parentBuffer w @ [ParentVulnerability (length (wr_handles w))]\<rparr>"
  shows "writer_ok E P D w'" "leads w w'"
proof -
  have "child_ok E D (Suc n) d" if "child_ok E D n d" for n d
    using that by (auto simp: child_ok_def less_Suc_eq split: child_op.splits)
  then show "writer_ok E P D w'"
    using assms by (auto simp: writer_ok_def waits_ok_def nth_append less_Suc_eq subset_iff)
  have "set (pending (wr_parentBuffer w)) \<subseteq> {..<length (wr_handles w)}" using assms(1) by (simp add: writer_ok_def waits_ok_def)
  then have a: "advances w w'" by (auto simp: advances_def assms(3) nth_append)
  then show "leads w w'" using child_stored_advances [OF a] by (auto simp: leads_def covered_def assms(3))
qed

lemma new_provider_ok:
  assumes "writer_ok E P D w" "p \<in> P" "w' = w\<lparr>wr_parentBuffer := wr_parentBuffer w @ [ParentProvider p]\<rparr>"
  shows "writer_ok E P D w'" "leads w w'"
proof -
  show "writer_ok E P D w'" using assms by (auto simp: writer_ok_def waits_ok_def)
  have a: "advances w w'" by (auto simp: advances_def assms(3))
  then show "leads w w'" using child_stored_advances [OF a] by (auto simp: leads_def covered_def assms(3))
qed

lemma writeEntryToBatch_ok:
  assumes "writer_ok E P D w" "entry_ok E P D e" "wr_failOnMissingFixDate w \<longrightarrow> (\<forall>row\<in>set (re_Related e). row_dated zero row)"
  obtains w' where "writeEntryToBatch E zero e w = Inr w'" "writer_ok E P D w'" "leads w w'" "entry_written w' e"
proof (cases "re_VulnerabilityHandle e")
  case (Some v)
  obtain c v' where f: "fillInMissingSeverity (wr_severityCache w) v = (c, v')" by fastforce
  let ?i = "length (wr_handles w)"
  let ?w = "w\<lparr>wr_severityCache := c, wr_handles := wr_handles w @ [v']\<rparr>"
  let ?w' = "?w\<lparr>wr_parentBuffer := wr_parentBuffer ?w @ [ParentVulnerability ?i]\<rparr>"
  have v: "vulnerability_ok P v" using assms(2) Some by (simp add: entry_ok_def)
  have v': "vulnerability_ok P v'" "\<exists>b b'. vh_BlobValue v = Some b \<and> severity_filled b b' \<and> vh_BlobValue v' = Some b'"
    using fillInMissingSeverity_blob [OF f] v by (auto simp: vulnerability_ok_def severity_filled_def)
  have n: "writer_ok E P D ?w'" "leads w ?w'" using new_handle_ok [OF assms(1) v'(1), of ?w' c] by simp_all
  obtain w1 where w1: "addToParentBatch E (ParentVulnerability ?i) ?w = Inr w1" "writer_ok E P D w1" "leads ?w' w1"
    using addToParentBatch_ok [OF n(1)] by metis
  have "wr_failOnMissingFixDate w1 = wr_failOnMissingFixDate w" "?i < length (wr_handles w1)" "vh_BlobValue (wr_handles w1 ! ?i) = vh_BlobValue v'"
    using w1(3) by (simp_all add: leads_def advances_def)
  with write_related_ok [OF w1(2), of "re_Related e" "Some ?i" zero] assms(2,3) Some obtain w2 where
    w2: "write_related E zero (Some ?i) (re_Related e) w1 = Inr w2" "writer_ok E P D w2" "leads w1 w2"
      "\<forall>row\<in>set (re_Related e). \<exists>c. child_of (Some ?i) row = Some c \<and> covered w2 c" and
    b: "?i < length (wr_handles w1)" "vh_BlobValue (wr_handles w1 ! ?i) = vh_BlobValue v'"
    by (auto simp: entry_ok_def)
  have "?i < length (wr_handles w2)" "vh_BlobValue (wr_handles w2 ! ?i) = vh_BlobValue v'"
    using w2(3) b by (auto simp: leads_def advances_def)
  then have "entry_written w2 e" using Some v'(2) w2(4) by (auto simp: entry_written_def)
  moreover have "writeEntryToBatch E zero e w = Inr w2" using Some f w1(1) w2(1) by (simp add: writeEntryToBatch_def)
  moreover have "leads w w2" by (rule leads_trans [OF n(2) leads_trans [OF w1(3) w2(3)]])
  ultimately show thesis using that w2(2) by blast
next
  case None
  obtain w1 where w1: "(case re_Provider e of None \<Rightarrow> Inr w | Some p \<Rightarrow> addToParentBatch E (ParentProvider p) w) = Inr w1" "writer_ok E P D w1" "leads w w1"
  proof (cases "re_Provider e")
    case (Some p)
    then have "p \<in> P" using assms(2) None by (simp add: entry_ok_def)
    note n = new_provider_ok [OF assms(1) this refl]
    obtain w1 where "addToParentBatch E (ParentProvider p) w = Inr w1" "writer_ok E P D w1" "leads (w\<lparr>wr_parentBuffer := wr_parentBuffer w @ [ParentProvider p]\<rparr>) w1"
      using addToParentBatch_ok [OF n(1)] by metis
    then show thesis using that Some leads_trans [OF n(2)] by simp
  qed (use that [of w] assms(1) in simp)
  have "wr_failOnMissingFixDate w1 = wr_failOnMissingFixDate w" using w1(3) by (simp add: leads_def advances_def)
  with write_related_ok [OF w1(2), of "re_Related e" None zero] assms(2,3) None obtain w2 where
    w2: "write_related E zero None (re_Related e) w1 = Inr w2" "writer_ok E P D w2" "leads w1 w2"
      "\<forall>row\<in>set (re_Related e). \<exists>c. child_of None row = Some c \<and> covered w2 c"
    by (auto simp: entry_ok_def)
  have "entry_written w2 e" using None w2(4) by (simp add: entry_written_def)
  moreover have "writeEntryToBatch E zero e w = Inr w2" using None w1(1) w2(1) by (simp add: writeEntryToBatch_def)
  ultimately show thesis using that w2(2) leads_trans [OF w1(3) w2(3)] by blast
qed

end
