(* ===== verification/Blob_Digest.thy ===== *)
theory Blob_Digest
  imports Db_Write "HOL-Library.Countable"
begin

text \<open>
  Blobs are countable, so a digest without collisions, as the theorems on writing assume it, exists.
\<close>

lemma countable_record: "(\<And>x y. f x = f y \<Longrightarrow> x = y) \<Longrightarrow> OFCLASS('a, countable_class)" for f :: "'a \<Rightarrow> 'b::countable"
  by (rule countable_classI [of "\<lambda>x. to_nat (f x)"]) simp

instance CVSSSeverity_ext :: (countable) countable
  by (rule countable_record [of "\<lambda>r. (cs_Vector r, cs_Version r, CVSSSeverity.more r)"]) simp

instance severity_value :: countable
  by countable_datatype

instance DbSeverity_ext :: (countable) countable
  by (rule countable_record [of "\<lambda>r. (sev_Scheme r, sev_Value r, sev_Source r, sev_Rank r, DbSeverity.more r)"]) simp

instance DbReference_ext :: (countable) countable
  by (rule countable_record [of "\<lambda>r. (dref_URL r, dref_ID r, dref_Tags r, DbReference.more r)"]) simp

instance Modification_ext :: (countable) countable
  by (rule countable_record [of "\<lambda>r. (mod_URL r, mod_Changes r, Modification.more r)"]) simp

instance VulnerabilityBlob_ext :: (countable) countable
  by (rule countable_record [of "\<lambda>r. (vb_ID r, vb_Assigners r, vb_Description r, vb_References r, vb_Aliases r, vb_Severities r, vb_Modifications r, VulnerabilityBlob.more r)"]) simp

instance FixAvailability_ext :: (countable) countable
  by (rule countable_record [of "\<lambda>r. (fa_Date r, fa_Kind r, FixAvailability.more r)"]) simp

instance FixDetail_ext :: (countable) countable
  by (rule countable_record [of "\<lambda>r. (fd_Available r, fd_References r, FixDetail.more r)"]) simp

instance DbFix_ext :: (countable) countable
  by (rule countable_record [of "\<lambda>r. (dbf_Version r, dbf_State r, dbf_Detail r, DbFix.more r)"]) simp

instance DbVersion_ext :: (countable) countable
  by (rule countable_record [of "\<lambda>r. (dbv_Type r, dbv_Constraint r, DbVersion.more r)"]) simp

instance Range_ext :: (countable) countable
  by (rule countable_record [of "\<lambda>r. (rg_Version r, rg_Fix r, Range.more r)"]) simp

instance PackageQualifiers_ext :: (countable) countable
  by (rule countable_record [of "\<lambda>r. (pq_RpmModularity r, pq_PlatformCPEs r, pq_Architecture r, pq_RootIO r, pq_GoImports r, PackageQualifiers.more r)"]) simp

instance PackageBlob_ext :: (countable) countable
  by (rule countable_record [of "\<lambda>r. (pb_CVEs r, pb_Qualifiers r, pb_Ranges r, PackageBlob.more r)"]) simp

instance KnownExploitedVulnerabilityBlob_ext :: (countable) countable
  by (rule countable_record [of "\<lambda>r. (kb_Cve r, kb_VendorProject r, kb_Product r, kb_DateAdded r, kb_RequiredAction r, kb_DueDate r, kb_KnownRansomwareCampaignUse r, kb_Notes r, kb_URLs r, kb_CWEs r, KnownExploitedVulnerabilityBlob.more r)"]) simp

instance blob_value :: countable
  by countable_datatype

definition sample_digest :: "blob_value \<Rightarrow> string" where
  "sample_digest b = replicate (to_nat b) CHR ''x''"

lemma inj_sample_digest: "inj sample_digest"
proof (rule injI)
  fix a b assume "sample_digest a = sample_digest b"
  then have "length (sample_digest a) = length (sample_digest b)" by simp
  then show "a = b" by (simp add: sample_digest_def)
qed

end
