(* ===== verification/Writer_Properties.thy ===== *)
theory Writer_Properties
  imports Writer_Facts Blob_Digest
begin

text \<open>
  The writer of the database as a whole: reconciling keeps entries writable, writing and closing succeed for any size of batches, and
  what they leave is complete and holds every row of every entry.
\<close>

section \<open>Reconciled entries can be written\<close>

text \<open>An entry of the Go database or an advisory on a Go module that is held back.\<close>

definition go_entry_ok :: "write_env \<Rightarrow> DbProvider set \<Rightarrow> int \<Rightarrow> bool \<Rightarrow> int \<Rightarrow> RelatedEntries \<Rightarrow> bool" where
  "go_entry_ok E P D strict zero e \<longleftrightarrow>
     entry_ok E P D e \<and> (\<exists>v. re_VulnerabilityHandle e = Some v \<and> (strict \<longrightarrow> fallback_date zero v \<noteq> None))"

lemma row_ok_blob: "row_ok E D own (AffectedPackageModel h) \<Longrightarrow> row_ok E D own (AffectedPackageModel (h\<lparr>ph_BlobValue := Some b\<rparr>))"
  by (simp add: row_ok_def package_handle_ok_def split: option.splits)

lemma patchable_row: "patchable m = Some (h, p, b) \<Longrightarrow> m = AffectedPackageModel h"
  by (auto simp: patchable_def split: build_model.splits option.splits)

lemma patch_row_ok: "row_ok E D own m \<Longrightarrow> row_ok E D own (fst (patch_row name imps m))"
  by (auto simp: patch_row_def Let_def row_ok_blob dest!: patchable_row split: option.splits prod.splits)

lemma replace_row_ok: "row_ok E D own m \<Longrightarrow> row_ok E D own (fst (replace_row quote name w m))"
  by (auto simp: replace_row_def row_ok_blob dest: patchable_row split: option.splits list.splits)

lemma backfill_row_ok: "row_ok E D own m \<Longrightarrow> row_ok E D own (backfill_row zero date m)"
  by (auto simp: backfill_row_def row_ok_blob split: build_model.splits option.splits)

lemma go_entry_rows:
  assumes "go_entry_ok E P D strict zero e" "\<And>r. r \<in> set rows \<Longrightarrow> row_ok E D True r"
  shows "go_entry_ok E P D strict zero (e\<lparr>re_Related := rows\<rparr>)"
  using assms by (auto simp: go_entry_ok_def entry_ok_def)

lemma go_entry_row: "go_entry_ok E P D strict zero e \<Longrightarrow> r \<in> set (re_Related e) \<Longrightarrow> row_ok E D True r"
  by (auto simp: go_entry_ok_def entry_ok_def)

lemma patch_entry_ok: "go_entry_ok E P D strict zero e \<Longrightarrow> go_entry_ok E P D strict zero (fst (patchGHSAWithGoImports e h))"
  unfolding patchGHSAWithGoImports_def Let_def fst_conv
  by (rule go_entry_rows) (auto simp: patch_row_ok dest: go_entry_row)

lemma replace_entry_ok: "go_entry_ok E P D strict zero e \<Longrightarrow> go_entry_ok E P D strict zero (fst (replaceGHSAPseudoVersionRanges quote e h w))"
  unfolding replaceGHSAPseudoVersionRanges_def Let_def fst_conv
  by (rule go_entry_rows) (auto simp: replace_row_ok dest: go_entry_row)

lemma modification_ok: "go_entry_ok E P D strict zero e \<Longrightarrow> go_entry_ok E P D strict zero (add_modification url ch e)"
  by (auto simp: go_entry_ok_def entry_ok_def add_modification_def vulnerability_ok_def fallback_date_def split: option.splits)

definition held_ok :: "write_env \<Rightarrow> DbProvider set \<Rightarrow> int \<Rightarrow> bool \<Rightarrow> int \<Rightarrow> held_entries \<Rightarrow> bool" where
  "held_ok E P D strict zero M \<longleftrightarrow> (\<forall>e\<in>ran M. go_entry_ok E P D strict zero e)"

lemma held_ok_upd: "held_ok E P D strict zero M \<Longrightarrow> go_entry_ok E P D strict zero e \<Longrightarrow> held_ok E P D strict zero (M(k \<mapsto> e))"
  by (auto simp: held_ok_def ran_def)

lemma held_ok_get: "held_ok E P D strict zero M \<Longrightarrow> M k = Some e \<Longrightarrow> go_entry_ok E P D strict zero e"
  by (auto simp: held_ok_def ran_def)

lemma reconcilePackage_ok: "held_ok E P D strict zero M \<Longrightarrow> held_ok E P D strict zero (fst (reconcilePackage quote M h w keys ch))"
proof (induction keys arbitrary: M ch)
  case (Cons key keys)
  show ?case
  proof (cases "\<exists>e. M key = Some e \<and> \<not> entry_rejected e")
    case False
    then show ?thesis using Cons by (auto split: option.splits)
  next
    case True
    then obtain e where e: "M key = Some e" "\<not> entry_rejected e" by blast
    obtain e1 m ch1 where p: "patchGHSAWithGoImports e h = (e1, m, ch1)" by (metis prod_cases3)
    obtain e2 ch2 where r: "(case w of None \<Rightarrow> (e1, []) | Some w \<Rightarrow> replaceGHSAPseudoVersionRanges quote e1 h w) = (e2, ch2)" by fastforce
    have "go_entry_ok E P D strict zero e1" using patch_entry_ok [OF held_ok_get [OF Cons.prems e(1)], of h] p by simp
    then have "go_entry_ok E P D strict zero e2" using r replace_entry_ok by (cases w) (auto, metis fst_conv)
    then have "held_ok E P D strict zero (fst (reconcilePackage quote (M(key \<mapsto> e2)) h w keys (ch(key := ch key @ ch1 @ ch2))))"
      using Cons held_ok_upd by blast
    then show ?thesis using e p r by (auto split: prod.splits)
  qed
qed simp

lemma reconcile_rows_ok:
  assumes "held_ok E P D strict zero M" "reconcile_rows quote M keys rows ch = (M', ch', remaining, n)"
  shows "held_ok E P D strict zero M' \<and> set remaining \<subseteq> fst ` set rows"
  using assms
proof (induction rows arbitrary: M ch M' ch' remaining n)
  case (Cons row rows)
  obtain m w where row: "row = (m, w)" by fastforce
  show ?case
  proof (cases "\<exists>h. m = AffectedPackageModel h \<and> ph_Package h \<noteq> None")
    case True
    then obtain h where h: "m = AffectedPackageModel h" "ph_Package h \<noteq> None" by blast
    obtain M1 c1 covered where p: "reconcilePackage quote M h w keys ch = (M1, c1, covered)" by (metis prod_cases3)
    obtain M2 c2 rest k where r: "reconcile_rows quote M1 keys rows c1 = (M2, c2, rest, k)" by (metis prod_cases4)
    have "held_ok E P D strict zero M1" using reconcilePackage_ok [OF Cons.prems(1)] p by (metis fst_conv)
    then have "held_ok E P D strict zero M2 \<and> set rest \<subseteq> fst ` set rows" using Cons.IH r by blast
    then show ?thesis using Cons.prems(2) row h p r by (auto split: if_splits)
  next
    case False
    obtain M2 c2 rest k where r: "reconcile_rows quote M keys rows ch = (M2, c2, rest, k)" by (metis prod_cases4)
    have "reconcile_rows quote M keys (row # rows) ch = (M2, c2, m # rest, k)" using False r row by (auto split: build_model.splits)
    then show ?thesis using Cons.prems Cons.IH [OF Cons.prems(1) r] row by auto
  qed
qed simp

lemma record_changes_ok: "held_ok E P D strict zero M \<Longrightarrow> held_ok E P D strict zero (fold (record_changes url ch) keys M)"
proof (induction keys arbitrary: M)
  case (Cons k keys)
  have "held_ok E P D strict zero (record_changes url ch k M)"
    using Cons.prems held_ok_upd [OF Cons.prems] modification_ok held_ok_get [OF Cons.prems] by (auto simp: record_changes_def split: option.splits)
  then show ?case using Cons.IH by simp
qed simp

abbreviation unwrapped :: "RelatedEntries \<Rightarrow> RelatedEntries" where
  "unwrapped e \<equiv> fst (unwrapGoVulnDBPackages e)"

lemma handleEntry_ok:
  assumes "held_ok E P D strict zero M" "go_entry_ok E P D strict zero (unwrapped e)" "handleEntry quote M e = (M', e', survives)"
  shows "held_ok E P D strict zero M' \<and> go_entry_ok E P D strict zero e'"
proof -
  let ?rows = "snd (unwrapGoVulnDBPackages e)"
  have u: "re_Related (unwrapped e) = map fst ?rows" by (simp add: unwrapGoVulnDBPackages_def Let_def)
  have "held_ok E P D strict zero (fold (record_changes url ch) keys M1) \<and> go_entry_ok E P D strict zero ((unwrapped e)\<lparr>re_Related := remaining\<rparr>)"
    if "reconcile_rows quote M keys ?rows (\<lambda>_. []) = (M1, ch, remaining, n)" for M1 ch remaining n keys url
  proof -
    from reconcile_rows_ok [OF assms(1) that] have "held_ok E P D strict zero M1" "set remaining \<subseteq> set (re_Related (unwrapped e))"
      by (auto simp: u)
    then show ?thesis using record_changes_ok go_entry_rows [OF assms(2)] go_entry_row [OF assms(2)] by blast
  qed
  then show ?thesis
    using assms by (auto simp: handleEntry_def Let_def split: prod.splits option.splits if_splits)
qed

lemma reconcile_entries_ok:
  assumes "held_ok E P D strict zero M" "\<forall>e\<in>set es. go_entry_ok E P D strict zero (unwrapped e)" "reconcile_entries quote M es = (M', out)"
  shows "held_ok E P D strict zero M' \<and> (\<forall>e\<in>set out. go_entry_ok E P D strict zero e)"
  using assms
proof (induction es arbitrary: M M' out)
  case (Cons e es)
  obtain M1 e1 survives where h: "handleEntry quote M e = (M1, e1, survives)" by (metis prod_cases3)
  obtain M2 rest where r: "reconcile_entries quote M1 es = (M2, rest)" by fastforce
  have "held_ok E P D strict zero M1" "go_entry_ok E P D strict zero e1" using handleEntry_ok [OF Cons.prems(1) _ h] Cons.prems(2) by simp_all
  then show ?case using Cons.IH [OF _ _ r] Cons.prems(2,3) h r by (auto split: if_splits)
qed simp

text \<open>Backfilling gives every fixed range a date.\<close>

lemma backfill_dated:
  assumes "date \<noteq> zero"
  shows "row_dated zero (backfill_row zero date m)"
proof -
  have "range_dated zero (backfill_range zero date r)" for r
    using assms by (auto simp: range_dated_def backfill_range_def hasFixDate_def split: option.splits)
  then show ?thesis by (auto simp: row_dated_def backfill_row_def ensureFixDates_def list_all_iff split: build_model.splits option.splits)
qed

lemma backfillFixDates_ok:
  assumes "go_entry_ok E P D strict zero e"
  shows "entry_ok E P D (backfillFixDates zero e) \<and> (strict \<longrightarrow> (\<forall>row\<in>set (re_Related (backfillFixDates zero e)). row_dated zero row))"
proof -
  obtain v where v: "re_VulnerabilityHandle e = Some v" "strict \<longrightarrow> fallback_date zero v \<noteq> None" "entry_ok E P D e"
    using assms by (auto simp: go_entry_ok_def)
  show ?thesis
  proof (cases "fallback_date zero v")
    case None
    then show ?thesis using v by (simp add: backfillFixDates_def)
  next
    case (Some date)
    then have "date \<noteq> zero" by (auto simp: fallback_date_def Let_def split: if_splits)
    then show ?thesis using v Some backfill_dated by (auto simp: backfillFixDates_def entry_ok_def backfill_row_ok)
  qed
qed

definition merger_ok :: "write_env \<Rightarrow> DbProvider set \<Rightarrow> int \<Rightarrow> bool \<Rightarrow> int \<Rightarrow> goVulnDBMerger \<Rightarrow> bool" where
  "merger_ok E P D strict zero m \<longleftrightarrow> held_ok E P D strict zero (gm_goGHSAEntries m)
     \<and> (\<forall>e\<in>set (gm_govulndbEntries m). go_entry_ok E P D strict zero (unwrapped e))"

lemma reconcile_ok:
  assumes "merger_ok E P D strict zero m" "e \<in> set (snd (reconcile quote zero m))"
  shows "entry_ok E P D e \<and> (strict \<longrightarrow> (\<forall>row\<in>set (re_Related e). row_dated zero row))"
proof -
  obtain M out where r: "reconcile_entries quote (gm_goGHSAEntries m) (gm_govulndbEntries m) = (M, out)" by fastforce
  with assms(1) reconcile_entries_ok have "held_ok E P D strict zero M" "\<forall>e\<in>set out. go_entry_ok E P D strict zero e"
    unfolding merger_ok_def by blast+
  then have "\<exists>f. go_entry_ok E P D strict zero f \<and> e = backfillFixDates zero f"
    using assms(2) r by (auto simp: reconcile_def split: option.splits) (metis held_ok_get)
  then show ?thesis using backfillFixDates_ok by blast
qed

section \<open>Writing all entries\<close>

text \<open>The entries that are held back go to the merger; the others are written at once.\<close>

fun hold_all :: "goVulnDBMerger \<Rightarrow> RelatedEntries list \<Rightarrow> goVulnDBMerger \<times> RelatedEntries list" where
  "hold_all m [] = (m, [])"
| "hold_all m (e # es) =
     (case hold m e of (m1, held) \<Rightarrow> case hold_all m1 es of (m', out) \<Rightarrow> (m', if held then out else e # out))"

definition named_go :: "RelatedEntries \<Rightarrow> bool" where
  "named_go e \<longleftrightarrow>
     (case re_VulnerabilityHandle e of None \<Rightarrow> False
      | Some v \<Rightarrow> strings_HasPrefix (strings_ToLower (vh_Name v)) ''go-'')"

definition named_ghsa :: "RelatedEntries \<Rightarrow> bool" where
  "named_ghsa e \<longleftrightarrow>
     (case re_VulnerabilityHandle e of None \<Rightarrow> False
      | Some v \<Rightarrow> strings_HasPrefix (strings_ToLower (vh_Name v)) ''ghsa-'')"

text \<open>What transformers make: rows wrapped for the merger are in records of the Go database only; where dates of fixes are
  required, the other rows have them, and records of the merger have a date to fall back to.\<close>

definition input_ok :: "write_env \<Rightarrow> DbProvider set \<Rightarrow> int \<Rightarrow> bool \<Rightarrow> int \<Rightarrow> RelatedEntries \<Rightarrow> bool" where
  "input_ok E P D strict zero e \<longleftrightarrow> entry_ok E P D (unwrapped e) \<and> (named_go e \<or> unwrapped e = e)
     \<and> (strict \<longrightarrow> (\<forall>row\<in>set (re_Related e). row_dated zero row))
     \<and> (strict \<and> (named_go e \<or> named_ghsa e) \<longrightarrow> (case re_VulnerabilityHandle e of None \<Rightarrow> False | Some v \<Rightarrow> fallback_date zero v \<noteq> None))"

lemma hold_ok:
  assumes "merger_ok E P D strict zero m" "input_ok E P D strict zero e" "hold m e = (m', held)"
  shows "merger_ok E P D strict zero m' \<and> (held \<or> m' = m \<and> entry_ok E P D e)"
proof -
  have u: "re_VulnerabilityHandle (unwrapped e) = re_VulnerabilityHandle e" by (simp add: unwrapGoVulnDBPackages_def Let_def)
  have "go_entry_ok E P D strict zero (unwrapped e)" if "named_go e \<or> named_ghsa e"
    using that assms(2) u by (cases "re_VulnerabilityHandle e") (auto simp: input_ok_def go_entry_ok_def named_go_def named_ghsa_def)
  then show ?thesis
    using assms held_ok_upd
    by (auto simp: hold_def Let_def merger_ok_def input_ok_def named_go_def named_ghsa_def split: option.splits if_splits)
qed

lemma writer_ok_merger [simp]:
  "writer_ok E P D (w\<lparr>wr_goMerge := m\<rparr>) = writer_ok E P D w" "entry_written (w\<lparr>wr_goMerge := m\<rparr>) e = entry_written w e"
proof -
  have "child_stored (w\<lparr>wr_goMerge := m\<rparr>) c = child_stored w c" for c by (cases c) (simp_all add: child_stored_def)
  then have "covered (w\<lparr>wr_goMerge := m\<rparr>) = covered w" by (simp add: covered_def fun_eq_iff)
  then show "entry_written (w\<lparr>wr_goMerge := m\<rparr>) e = entry_written w e" by (cases "re_VulnerabilityHandle e") (simp_all add: entry_written_def)
qed (simp add: writer_ok_def waits_ok_def)

lemma writer_Write_ok:
  assumes "writer_ok E P D w" "merger_ok E P D (wr_failOnMissingFixDate w) zero (wr_goMerge w)"
    "\<forall>e\<in>set es. input_ok E P D (wr_failOnMissingFixDate w) zero e" "hold_all (wr_goMerge w) es = (m, out)"
  shows "\<exists>w'. writer_Write E zero es w = Inr w' \<and> writer_ok E P D w' \<and> wr_failOnMissingFixDate w' = wr_failOnMissingFixDate w
    \<and> wr_goMerge w' = m \<and> merger_ok E P D (wr_failOnMissingFixDate w) zero m \<and> (\<forall>e. entry_written w e \<longrightarrow> entry_written w' e) \<and> (\<forall>e\<in>set out. entry_written w' e)"
  using assms
proof (induction es arbitrary: w out)
  case (Cons e es)
  obtain m1 held where h: "hold (wr_goMerge w) e = (m1, held)" by fastforce
  obtain out' where r: "hold_all m1 es = (m, out')" using Cons.prems(4) h by (auto split: prod.splits)
  have m: "merger_ok E P D (wr_failOnMissingFixDate w) zero m1" "held \<or> m1 = wr_goMerge w \<and> entry_ok E P D e"
    using hold_ok [OF Cons.prems(2) _ h] Cons.prems(3) by auto
  obtain w1 where w1: "writeEntry E zero e w = Inr w1" "writer_ok E P D w1" "wr_goMerge w1 = m1" "wr_failOnMissingFixDate w1 = wr_failOnMissingFixDate w"
    "\<And>e. entry_written w e \<Longrightarrow> entry_written w1 e" "held \<or> entry_written w1 e"
  proof (cases held)
    case True
    then show thesis using that [of "w\<lparr>wr_goMerge := m1\<rparr>"] h Cons.prems(1) by (simp add: writeEntry_def)
  next
    case False
    then obtain w1 where w1: "writeEntryToBatch E zero e w = Inr w1" "writer_ok E P D w1" "leads w w1" "entry_written w1 e"
      using writeEntryToBatch_ok [OF Cons.prems(1), of e zero] m(2) Cons.prems(3) by (auto simp: input_ok_def)
    moreover have "wr_goMerge w1 = wr_goMerge w" "wr_failOnMissingFixDate w1 = wr_failOnMissingFixDate w" using w1(3) by (simp_all add: leads_def advances_def)
    ultimately show thesis using that [of w1] False h m(2) entry_written_leads [OF w1(3)] by (simp add: writeEntry_def)
  qed
  with Cons.IH [of w1 out'] m(1) Cons.prems(3) r obtain w2 where w2: "writer_Write E zero es w1 = Inr w2" "writer_ok E P D w2"
    "wr_failOnMissingFixDate w2 = wr_failOnMissingFixDate w" "wr_goMerge w2 = m" "merger_ok E P D (wr_failOnMissingFixDate w) zero m"
    "\<forall>e. entry_written w1 e \<longrightarrow> entry_written w2 e" "\<forall>e\<in>set out'. entry_written w2 e"
    by auto
  have "out = (if held then out' else e # out')" using Cons.prems(4) h r by simp
  then show ?case using w1(1,5,6) w2 by auto
qed simp

lemma write_batches_ok:
  assumes "writer_ok E P D w"
    "\<forall>e\<in>set es. entry_ok E P D e \<and> (wr_failOnMissingFixDate w \<longrightarrow> (\<forall>row\<in>set (re_Related e). row_dated zero row))"
  shows "\<exists>w'. write_batches E zero es w = Inr w' \<and> writer_ok E P D w' \<and> leads w w' \<and> (\<forall>e\<in>set es. entry_written w' e)"
  using assms
proof (induction es arbitrary: w)
  case (Cons e es)
  obtain w1 where w1: "writeEntryToBatch E zero e w = Inr w1" "writer_ok E P D w1" "leads w w1" "entry_written w1 e"
    using writeEntryToBatch_ok [OF Cons.prems(1), of e zero] Cons.prems(2) by auto
  moreover have "wr_failOnMissingFixDate w1 = wr_failOnMissingFixDate w" using w1(3) by (simp add: leads_def advances_def)
  ultimately obtain w2 where w2: "write_batches E zero es w1 = Inr w2" "writer_ok E P D w2" "leads w1 w2" "\<forall>e\<in>set es. entry_written w2 e"
    using Cons.IH [OF w1(2)] Cons.prems(2) by auto
  then show ?case using w1(1) entry_written_leads [OF w2(3) w1(4)] leads_trans [OF w1(3) w2(3)] by simp
qed simp

section \<open>What the database holds\<close>

definition row_stored :: "db \<Rightarrow> int \<Rightarrow> build_model \<Rightarrow> bool" where
  "row_stored T i row \<longleftrightarrow>
     (case row of
        AffectedPackageModel h \<Rightarrow> package_stored T True i h
      | UnaffectedPackageModel h \<Rightarrow> package_stored T False i h
      | AffectedCPEModel h \<Rightarrow> cpe_stored T True i h
      | UnaffectedCPEModel h \<Rightarrow> cpe_stored T False i h
      | KEVModel k \<Rightarrow> kev_stored T k
      | EpssModel e \<Rightarrow> e\<lparr>eh_Date := 0\<rparr> \<in> set (t_Epss T)
      | CWEModel e \<Rightarrow> e \<in> set (t_CWEs T)
      | EOLModel e \<Rightarrow> True
      | _ \<Rightarrow> False)"

definition entry_stored :: "db \<Rightarrow> RelatedEntries \<Rightarrow> bool" where
  "entry_stored T e \<longleftrightarrow>
     (\<exists>i. (\<forall>row\<in>set (re_Related e). row_stored T i row)
        \<and> (case re_VulnerabilityHandle e of None \<Rightarrow> True
           | Some v \<Rightarrow> \<exists>b b'. vh_BlobValue v = Some b \<and> severity_filled b b' \<and> vulnerability_stored T i b'))"

lemma child_row_stored:
  assumes "child_of v row = Some c" "child_stored w c"
  shows "row_stored (ws_db (wr_store w)) (case v of None \<Rightarrow> 0 | Some i \<Rightarrow> vh_ID (wr_handles w ! i)) row"
  using assms by (cases row) (auto simp: child_of_def child_stored_def row_stored_def)

lemma entry_written_stored:
  assumes "writer_ok E P D w" "wr_parentBuffer w = []" "wr_childBuffer w = []" "entry_written w e"
  shows "entry_stored (ws_db (wr_store w)) e"
proof (cases "re_VulnerabilityHandle e")
  case None
  then show ?thesis using assms(3,4) child_row_stored [of None _ _ w] by (fastforce simp: entry_written_def entry_stored_def covered_def)
next
  case (Some v)
  then obtain i b b' where i: "i < length (wr_handles w)" "vh_BlobValue v = Some b" "severity_filled b b'" "vh_BlobValue (wr_handles w ! i) = Some b'"
    "\<forall>row\<in>set (re_Related e). \<exists>c. child_of (Some i) row = Some c \<and> covered w c"
    using assms(4) by (auto simp: entry_written_def)
  have "handle_written (ws_db (wr_store w)) (wr_handles w ! i)" using assms(1,2) i(1) by (simp add: writer_ok_def waits_ok_def)
  then have "vulnerability_stored (ws_db (wr_store w)) (vh_ID (wr_handles w ! i)) b'" using i(4) by (simp add: handle_written_def)
  moreover have "\<forall>row\<in>set (re_Related e). row_stored (ws_db (wr_store w)) (vh_ID (wr_handles w ! i)) row"
    using i(5) assms(3) child_row_stored [of "Some i" _ _ w] by (fastforce simp: covered_def)
  ultimately show ?thesis using Some i(2,3) by (auto simp: entry_stored_def)
qed

lemma writer_Close_ok:
  assumes "writer_ok E P D w" "merger_ok E P D (wr_failOnMissingFixDate w) zero (wr_goMerge w)"
  shows "\<exists>w'. writer_Close E zero w = Inr w' \<and> db_complete (ws_db (wr_store w'))
    \<and> (\<forall>e. entry_written w e \<longrightarrow> entry_stored (ws_db (wr_store w')) e)
    \<and> (\<forall>e\<in>set (snd (reconcile (we_quote E) zero (wr_goMerge w))). entry_stored (ws_db (wr_store w')) e)"
proof -
  obtain m es where r: "reconcile (we_quote E) zero (wr_goMerge w) = (m, es)" by fastforce
  obtain w1 where w1: "write_batches E zero es (w\<lparr>wr_goMerge := m\<rparr>) = Inr w1" "writer_ok E P D w1" "leads (w\<lparr>wr_goMerge := m\<rparr>) w1" "\<forall>e\<in>set es. entry_written w1 e"
    using write_batches_ok [of E P D "w\<lparr>wr_goMerge := m\<rparr>" es zero] assms reconcile_ok [OF assms(2), of _ "we_quote E"] r by auto
  obtain w2 where w2: "flushParentBatch E w1 = Inr w2" "writer_ok E P D w2" "leads w1 w2" "wr_parentBuffer w2 = []"
    using flushParentBatch_ok [OF w1(2)] by metis
  obtain w3 where w3: "flushChildBatch E w2 = Inr w3" "writer_ok E P D w3" "leads w2 w3" "wr_parentBuffer w3 = []" "wr_childBuffer w3 = []"
    using flushChildBatch_ok [OF w2(2,4)] by metis
  have l: "leads w1 w3" by (rule leads_trans [OF w2(3) w3(3)])
  have "entry_stored (ws_db (wr_store w3)) e" if "entry_written w1 e" for e
    by (rule entry_written_stored [OF w3(2,4,5) entry_written_leads [OF l that]])
  moreover have "entry_written w1 e" if "entry_written w e" for e
    using entry_written_leads [OF w1(3)] that by simp
  moreover have "db_complete (ws_db (wr_store w3))" using w3(2) store_complete by (auto simp: writer_ok_def waits_ok_def)
  moreover have "writer_Close E zero w = Inr w3" using r w1(1) w2(1) w3(1) by (simp add: writer_Close_def)
  ultimately show ?thesis using w1(4) r by auto
qed

lemma new_writer_ok:
  assumes "inj (we_digest E)" "store_ok E P D st"
  shows "writer_ok E P D (NewWriter st strict n)" "wr_failOnMissingFixDate (NewWriter st strict n) = strict" "wr_goMerge (NewWriter st strict n) = newGoVulnDBMerger"
  using assms by (simp_all add: NewWriter_def Let_def writer_ok_def waits_ok_def)

lemma stores_entries:
  assumes "inj (we_digest E)" "store_ok E P D st" "\<forall>e\<in>set entries. input_ok E P D strict zero e"
  shows "\<exists>w w'. writer_Write E zero entries (NewWriter st strict n) = Inr w \<and> writer_Close E zero w = Inr w' \<and> db_complete (ws_db (wr_store w'))
    \<and> (\<forall>e\<in>set (snd (hold_all newGoVulnDBMerger entries)) \<union> set (snd (reconcile (we_quote E) zero (fst (hold_all newGoVulnDBMerger entries)))).
         entry_stored (ws_db (wr_store w')) e)"
proof -
  obtain m direct where h: "hold_all newGoVulnDBMerger entries = (m, direct)" by fastforce
  note new = new_writer_ok [OF assms(1,2), of strict n]
  have "merger_ok E P D strict zero newGoVulnDBMerger" by (simp add: merger_ok_def held_ok_def newGoVulnDBMerger_def)
  then obtain w where w: "writer_Write E zero entries (NewWriter st strict n) = Inr w" "writer_ok E P D w" "wr_failOnMissingFixDate w = strict"
    "wr_goMerge w = m" "merger_ok E P D strict zero m" "\<forall>e\<in>set direct. entry_written w e"
    using writer_Write_ok [OF new(1), of zero entries m direct] new(2,3) assms(3) h by auto
  then show ?thesis using writer_Close_ok [OF w(2), of zero] h by auto
qed


text \<open>Three entries: a record of a distribution, an advisory on a Go module, and the record of the Go database that is an alias of it.\<close>

definition sample_provider :: DbProvider where
  "sample_provider = \<lparr>prv_ID = ''alpine'', prv_Version = ''1'', prv_Processor = ''vunnel'', prv_DateCaptured = None, prv_InputDigest = []\<rparr>"

definition sample_write_env :: write_env where
  "sample_write_env = \<lparr>we_digest = sample_digest, we_quote = (\<lambda>s. s), we_formatTime = (\<lambda>_. []), we_createWithCPEs = (\<lambda>w p. Inr (w, p)),
     we_dbVersion = schemaver_New 6 1 2\<rparr>"

definition sample_vulnerability :: "string \<Rightarrow> string list \<Rightarrow> VulnerabilityHandle" where
  "sample_vulnerability name aliases =
     \<lparr>vh_ID = 0, vh_Name = name, vh_Status = VulnerabilityActive, vh_PublishedDate = Some 7, vh_ModifiedDate = None, vh_WithdrawnDate = None,
      vh_ProviderID = prv_ID sample_provider, vh_Provider = Some sample_provider, vh_BlobID = 0,
      vh_BlobValue = Some \<lparr>vb_ID = name, vb_Assigners = [], vb_Description = [], vb_References = [], vb_Aliases = aliases, vb_Severities = [],
        vb_Modifications = []\<rparr>\<rparr>"

definition sample_package :: "string \<Rightarrow> string \<Rightarrow> OperatingSystem option \<Rightarrow> string list \<Rightarrow> packageHandle" where
  "sample_package ecosystem name sys symbols =
     \<lparr>ph_ID = 0, ph_VulnerabilityID = 0, ph_Vulnerability = None, ph_OperatingSystemID = None, ph_OperatingSystem = sys, ph_PackageID = 0,
      ph_Package = Some \<lparr>dp_ID = 0, dp_Ecosystem = ecosystem, dp_Name = name, dp_CPEs = []\<rparr>, ph_BlobID = 0,
      ph_BlobValue = Some \<lparr>pb_CVEs = [], pb_Qualifiers = (if symbols = [] then None else Some (zero_qualifiers\<lparr>pq_GoImports := [(name, symbols)]\<rparr>)),
        pb_Ranges = []\<rparr>\<rparr>"

definition sample_system :: OperatingSystem where
  "sample_system = \<lparr>os_ID = 0, os_Name = ''alpine'', os_ReleaseID = ''alpine'', os_MajorVersion = ''3'', os_MinorVersion = ''18'', os_LabelVersion = [],
     os_Codename = [], os_Channel = [], os_EOLDate = None, os_EOASDate = None\<rparr>"

definition sample_distro_entry :: RelatedEntries where
  "sample_distro_entry = \<lparr>re_VulnerabilityHandle = Some (sample_vulnerability ''CVE-1'' []), re_Provider = Some sample_provider,
     re_Related = [AffectedPackageModel (sample_package ''apk'' ''openssl'' (Some sample_system) [])]\<rparr>"

definition sample_ghsa_entry :: RelatedEntries where
  "sample_ghsa_entry = \<lparr>re_VulnerabilityHandle = Some (sample_vulnerability ''GHSA-1'' []), re_Provider = Some sample_provider,
     re_Related = [AffectedPackageModel (sample_package GoModulePkg ''m/x'' None [])]\<rparr>"

definition sample_go_entry :: RelatedEntries where
  "sample_go_entry = \<lparr>re_VulnerabilityHandle = Some (sample_vulnerability ''GO-1'' [''GHSA-1'']), re_Provider = Some sample_provider,
     re_Related = [GoVulnDBModel \<lparr>gv_Handle = sample_package GoModulePkg ''m/x'' None [''Parse''], gv_PseudoVersionFix = [], gv_CustomRanges = []\<rparr>]\<rparr>"

lemmas sample_defs = sample_provider_def sample_write_env_def sample_vulnerability_def sample_package_def sample_system_def
  sample_distro_entry_def sample_ghsa_entry_def sample_go_entry_def

lemma sample_hold: "snd (hold_all newGoVulnDBMerger [sample_distro_entry, sample_go_entry, sample_ghsa_entry]) = [sample_distro_entry]"
  by code_simp

lemma sample_input: "\<forall>e\<in>set [sample_distro_entry, sample_go_entry, sample_ghsa_entry]. input_ok sample_write_env {sample_provider} 0 True 5 e"
proof -
  have "input_ok sample_write_env {sample_provider} 0 True 5 sample_distro_entry"
    by code_simp
  moreover have "input_ok sample_write_env {sample_provider} 0 True 5 sample_go_entry"
    by code_simp
  moreover have "input_ok sample_write_env {sample_provider} 0 True 5 sample_ghsa_entry"
    by code_simp
  ultimately show ?thesis by simp
qed


end
