(* ===== verification/Feed_Properties.thy ===== *)
theory Feed_Properties
  imports Writer_Properties Os_Properties
begin

text \<open>
  From the feeds of distributions to the database: the entries their transformer makes are ones the writer can write, so every fix of
  every record ends up in the database.
\<close>

section \<open>Entries of distributions\<close>

lemma dropWhile_idem: "dropWhile p (dropWhile p xs) = dropWhile p xs"
  by (induction xs) auto

lemma trimZeroes_idem: "trimZeroes (trimZeroes s) = trimZeroes s"
proof (cases "dropWhile (\<lambda>c. c = CHR ''0'') s")
  case (Cons c cs)
  then have "c \<noteq> CHR ''0''" by (metis (mono_tags) hd_dropWhile list.distinct(1) list.sel(1))
  then show ?thesis using Cons by (auto simp: trimZeroes_def Let_def)
qed (auto simp: trimZeroes_def Let_def)

lemma trimZeroes_Nil: "trimZeroes s = [] \<longleftrightarrow> s = []"
  by (auto simp: trimZeroes_def Let_def)

text \<open>A version that is not empty starts with a number or a name.\<close>

definition versioned :: "osInfo \<Rightarrow> bool" where
  "versioned oi \<longleftrightarrow> oi_version oi \<noteq> [] \<longrightarrow> hd (split_char (CHR ''.'') (oi_version oi)) \<noteq> []"

lemma clean_system_ok:
  assumes "os_ID r = 0" "os_LabelVersion r \<noteq> [] \<or> os_MajorVersion r \<noteq> []"
  shows "os_ok (OperatingSystem_clean r)"
  using assms by (simp add: os_ok_def OperatingSystem_clean_def trimZeroes_idem trimZeroes_Nil)

lemma system_ok:
  assumes "getOperatingSystem name i v ch = Some r" "hd (split_char (CHR ''.'') v) \<noteq> []"
  shows "os_ID r = 0 \<and> (os_LabelVersion r \<noteq> [] \<or> os_MajorVersion r \<noteq> [])"
  using assms by (auto simp: getOperatingSystem_def Let_def split: if_splits)

lemma minor_system_ok:
  assumes "getOperatingSystemWithMinor name i v minor ch = Some r" "hd (split_char (CHR ''.'') v) \<noteq> []"
  shows "os_ID r = 0 \<and> (os_LabelVersion r \<noteq> [] \<or> os_MajorVersion r \<noteq> [])"
  using assms system_ok [OF _ assms(2)] by (fastforce simp: getOperatingSystemWithMinor_def)

lemma system_version: "getOperatingSystem name i v ch = Some r \<Longrightarrow> v \<noteq> []" "getOperatingSystemWithMinor name i v minor ch = Some r \<Longrightarrow> v \<noteq> []"
  by (auto simp: getOperatingSystemWithMinor_def getOperatingSystem_def split: if_splits)

lemma handle_of_system:
  assumes "\<And>r. sys = Some r \<Longrightarrow> os_ID r = 0 \<and> (os_LabelVersion r \<noteq> [] \<or> os_MajorVersion r \<noteq> [])" "package_ok p"
  shows "package_handle_ok (new_handle sys p b)"
  using assms clean_system_ok by (auto simp: package_handle_ok_def new_handle_def split: option.splits)

lemma os_package_ok: "package_ok (os_getPackage g)"
  by (simp add: package_ok_def os_getPackage_def new_package_def Let_def)

lemma group_handles_ok:
  assumes "gi_osVersion g \<noteq> [] \<longrightarrow> hd (split_char (CHR ''.'') (gi_osVersion g)) \<noteq> []"
  shows "h \<in> set (affected_handles PT v (g, fs)) \<Longrightarrow> package_handle_ok h" "h \<in> set (expandUnaffectedHandles v g fs) \<Longrightarrow> package_handle_ok h"
proof -
  have s: "os_ID r = 0 \<and> (os_LabelVersion r \<noteq> [] \<or> os_MajorVersion r \<noteq> [])"
    if "getOperatingSystem n i (gi_osVersion g) ch = Some r" for n i ch r
    using system_ok [OF that] system_version(1) [OF that] assms by blast
  have m: "os_ID r = 0 \<and> (os_LabelVersion r \<noteq> [] \<or> os_MajorVersion r \<noteq> [])"
    if "getOperatingSystemWithMinor n i (gi_osVersion g) minor ch = Some r" for n i minor ch r
    using minor_system_ok [OF that] system_version(2) [OF that] assms by blast
  show "h \<in> set (affected_handles PT v (g, fs)) \<Longrightarrow> package_handle_ok h" "h \<in> set (expandUnaffectedHandles v g fs) \<Longrightarrow> package_handle_ok h"
    using handle_of_system [OF s os_package_ok] handle_of_system [OF m os_package_ok]
    by (auto simp: affected_handles_def expandRHELMinorRows_def expandUnaffectedHandles_def unaffected_handle_def Let_def split: option.splits)
qed

lemma NewEntries_rows:
  assumes "\<And>m. m \<in> set ms \<Longrightarrow> (\<forall>v. m \<noteq> VulnerabilityModel v) \<and> (\<forall>p. m \<noteq> ProviderModel p)"
  shows "NewEntries (VulnerabilityModel v # ms) = \<lparr>re_VulnerabilityHandle = Some v, re_Provider = None, re_Related = ms\<rparr>"
proof -
  have "fold add_model ms e = e\<lparr>re_Related := re_Related e @ ms\<rparr>" for e
    using assms
  proof (induction ms arbitrary: e)
    case (Cons m ms)
    have "add_model m e = e\<lparr>re_Related := re_Related e @ [m]\<rparr>" using Cons.prems [of m] by (auto simp: add_model_def split: build_model.splits)
    then show ?case using Cons by simp
  qed simp
  then show ?thesis by (simp add: NewEntries_def add_model_def)
qed

lemma os_Transform_entry:
  assumes "os_Transform PT order v state = Some e"
  obtains aff unaff vh vb where "os_getPackages PT order v = Some (aff, unaff)"
    "e = \<lparr>re_VulnerabilityHandle = Some vh, re_Provider = None, re_Related = map AffectedPackageModel aff @ map UnaffectedPackageModel unaff\<rparr>"
    "vh_ID vh = 0" "vh_Name vh = ov_Name v" "vh_Provider vh = Some (provider_Model state)" "vh_BlobValue vh = Some vb" "vb_ID vb = ov_Name v"
proof -
  obtain aff unaff where p: "os_getPackages PT order v = Some (aff, unaff)" using assms by (cases "os_getPackages PT order v") (auto simp: os_Transform_def)
  have rows: "NewEntries (VulnerabilityModel vh # map AffectedPackageModel aff @ map UnaffectedPackageModel unaff)
      = \<lparr>re_VulnerabilityHandle = Some vh, re_Provider = None, re_Related = map AffectedPackageModel aff @ map UnaffectedPackageModel unaff\<rparr>" for vh
    by (rule NewEntries_rows) auto
  show thesis using assms p by (intro that [OF p]) (auto simp: os_Transform_def rows new_vulnerability_def)
qed

lemma os_handles:
  assumes "os_getPackages PT order v = Some (aff, unaff)" "getOSInfo (ov_NamespaceName v) = Some oi" "versioned oi" "h \<in> set aff \<union> set unaff"
  shows "package_handle_ok h \<and> (\<exists>g. ph_Package h = Some (os_getPackage g))"
proof -
  let ?gs = "fold (\<lambda>f. append_at (group_of oi f) f) (ov_FixedIn v) []"
  note sets = os_getPackages_groups [OF assms(1,2) refl]
  from assms(4) obtain g fs where g: "(g, fs) \<in> set ?gs"
    "h \<in> set (affected_handles PT v (g, fs)) \<or> h \<in> set (expandUnaffectedHandles v g fs)"
    unfolding sets by auto
  from groups_of(2) [OF refl, of "group_of oi" "ov_FixedIn v"] g(1) have "g \<in> group_of oi ` set (ov_FixedIn v)" by force
  then have "gi_osVersion g = oi_version oi" by (auto simp: group_of_def)
  then show ?thesis using g(2) group_handles_ok [of g] packages_of_rows assms(3) unfolding versioned_def by metis
qed

section \<open>Records of a feed\<close>

text \<open>A record with a namespace of a system and a known provider, whose name is not one of the Go database.\<close>

definition record_ok :: "DbProvider set \<Rightarrow> OSVulnerability \<times> ProviderState \<Rightarrow> bool" where
  "record_ok P vs \<longleftrightarrow>
     provider_Model (snd vs) \<in> P \<and> \<not> strings_HasPrefix (strings_ToLower (ov_Name (fst vs))) ''go-''
     \<and> (case getOSInfo (ov_NamespaceName (fst vs)) of None \<Rightarrow> False | Some oi \<Rightarrow> versioned oi)"

lemma not_go_type: "getPackageType n \<noteq> GoModulePkg"
  by (simp add: getPackageType_def AlpmPkg_def RpmPkg_def DebPkg_def ApkPkg_def KbPkg_def GoModulePkg_def)

lemma os_entry_ok:
  assumes "os_Transform PT order v state = Some e" "record_ok P (v, state)"
  shows "input_ok E P D False zero e" "hold m e = (m, False)"
proof -
  obtain oi where oi: "getOSInfo (ov_NamespaceName v) = Some oi" "versioned oi" using assms(2) by (auto simp: record_ok_def split: option.splits)
  obtain aff unaff vh vb where e: "os_getPackages PT order v = Some (aff, unaff)"
    "e = \<lparr>re_VulnerabilityHandle = Some vh, re_Provider = None, re_Related = map AffectedPackageModel aff @ map UnaffectedPackageModel unaff\<rparr>"
    "vh_ID vh = 0" "vh_Name vh = ov_Name v" "vh_Provider vh = Some (provider_Model state)" "vh_BlobValue vh = Some vb"
    by (rule os_Transform_entry [OF assms(1)])
  note h = os_handles [OF e(1) oi]
  have "entry_ok E P D e" using h e(2-6) assms(2) by (auto simp: entry_ok_def row_ok_def vulnerability_ok_def record_ok_def)
  moreover have "unwrapped e = e" by (simp add: unwrapGoVulnDBPackages_def e(2) unwrap_row_def Let_def comp_def)
  ultimately show "input_ok E P D False zero e" by (simp add: input_ok_def)
  have "dp_Ecosystem (os_getPackage g) \<noteq> GoModulePkg" for g by (simp add: os_getPackage_def new_package_def Let_def not_go_type)
  then have "\<not> hasGoModulePackages e" using h by (fastforce simp: hasGoModulePackages_def list_ex_iff e(2) split: option.splits)
  then show "hold m e = (m, False)" using assms(2) by (simp add: hold_def e(2,4) Let_def record_ok_def)
qed

lemma hold_none: "(\<And>e m. e \<in> set es \<Longrightarrow> hold m e = (m, False)) \<Longrightarrow> hold_all m es = (m, es)"
  by (induction es) simp_all

text \<open>What a fix of a record leaves in the database: a row of the affected packages, or of the unaffected ones where all entries of its
  group say version zero, for the package of its group and a vulnerability of the record's name; the blob of an affected row has the
  qualifiers of the group and the range of the fix.\<close>

definition fix_stored :: "(string \<Rightarrow> int option) \<Rightarrow> db \<Rightarrow> OSVulnerability \<Rightarrow> OSFixedIn \<Rightarrow> bool" where
  "fix_stored PT T v f \<longleftrightarrow>
     (case getOSInfo (ov_NamespaceName v) of
        None \<Rightarrow> False
      | Some oi \<Rightarrow>
          let g = group_of oi f; none_affected = suppressed (g, filter (\<lambda>x. group_of oi x = g) (ov_FixedIn v)) in
          \<exists>r\<in>set (package_table (\<not> none_affected) T). package_row T (Package_cacheKey (os_getPackage g)) (ph_PackageID r)
            \<and> (\<exists>vb. vulnerability_stored T (ph_VulnerabilityID r) vb \<and> vb_ID vb = ov_Name v)
            \<and> (none_affected \<or> (\<exists>b. blob_at T (ph_BlobID r) (BlobOfPackage b) \<and> pb_Qualifiers b = group_qualifiers g
                 \<and> range_of PT v f \<in> set (pb_Ranges b))))"

lemma fix_of_entry:
  assumes "os_Transform PT order v state = Some e" "record_ok P (v, state)" "entry_stored T e" "f \<in> set (ov_FixedIn v)"
  shows "fix_stored PT T v f"
proof -
  obtain oi where oi: "getOSInfo (ov_NamespaceName v) = Some oi" using assms(2) by (auto simp: record_ok_def split: option.splits)
  define g where "g = group_of oi f"
  define fs where "fs = filter (\<lambda>x. group_of oi x = g) (ov_FixedIn v)"
  obtain aff unaff vh vb where e: "os_getPackages PT order v = Some (aff, unaff)"
    "e = \<lparr>re_VulnerabilityHandle = Some vh, re_Provider = None, re_Related = map AffectedPackageModel aff @ map UnaffectedPackageModel unaff\<rparr>"
    "vh_BlobValue vh = Some vb" "vb_ID vb = ov_Name v"
    by (rule os_Transform_entry [OF assms(1)])
  obtain i vb' where i: "\<And>h. h \<in> set aff \<Longrightarrow> package_stored T True i h" "\<And>h. h \<in> set unaff \<Longrightarrow> package_stored T False i h"
    "vulnerability_stored T i vb'" "severity_filled vb vb'"
    using assms(3) e(3) by (auto simp: entry_stored_def e(2) row_stored_def ball_Un)
  have n: "vb_ID vb' = ov_Name v" using i(4) e(4) by (auto simp: severity_filled_def)
  have rep: "if suppressed (g, fs) then \<exists>h\<in>set unaff. ph_Package h = Some (os_getPackage g)
      else \<exists>h\<in>set aff. \<exists>b. ph_Package h = Some (os_getPackage g) \<and> ph_BlobValue h = Some b
        \<and> pb_Qualifiers b = group_qualifiers g \<and> range_of PT v f \<in> set (pb_Ranges b)"
    using entries_represented [OF e(1) oi assms(4) g_def fs_def] by blast
  have "\<exists>r\<in>set (package_table (\<not> suppressed (g, fs)) T). package_row T (Package_cacheKey (os_getPackage g)) (ph_PackageID r)
      \<and> ph_VulnerabilityID r = i
      \<and> (suppressed (g, fs) \<or> (\<exists>b. blob_at T (ph_BlobID r) (BlobOfPackage b) \<and> pb_Qualifiers b = group_qualifiers g \<and> range_of PT v f \<in> set (pb_Ranges b)))"
  proof (cases "suppressed (g, fs)")
    case True
    then obtain h where "h \<in> set unaff" "ph_Package h = Some (os_getPackage g)" using rep by auto
    then show ?thesis using True i(2) [of h] by (auto simp: package_stored_def)
  next
    case False
    then obtain h b where h: "h \<in> set aff" "ph_Package h = Some (os_getPackage g)" "ph_BlobValue h = Some b"
      "pb_Qualifiers b = group_qualifiers g" "range_of PT v f \<in> set (pb_Ranges b)" using rep by auto
    from i(1) [OF h(1)] h(2,3) obtain r where "r \<in> set (package_table True T)" "ph_VulnerabilityID r = i"
      "blob_at T (ph_BlobID r) (BlobOfPackage b)" "package_row T (Package_cacheKey (os_getPackage g)) (ph_PackageID r)"
      unfolding package_stored_def by blast
    then show ?thesis using False h(4,5) by auto
  qed
  then show ?thesis using oi i(3) n unfolding fix_stored_def g_def fs_def Let_def by auto
qed

lemma list_all2_member:
  assumes "list_all2 R xs ys"
  shows "x \<in> set xs \<Longrightarrow> \<exists>y\<in>set ys. R x y" "y \<in> set ys \<Longrightarrow> \<exists>x\<in>set xs. R x y"
  using assms by (induction rule: list_all2_induct) auto


definition sample_state :: ProviderState where
  "sample_state = \<lparr>pst_Provider = ''rhel'', pst_Version = 1, pst_Processor = ''vunnel'', pst_Timestamp = 0, pst_Listing = None\<rparr>"


end
