(* ===== verification/Merge_Properties.thy ===== *)
theory Merge_Properties
  imports Writer_Properties
begin

text \<open>
  What the reconciliation of the records of the Go database with advisories keeps: rows only gain symbols, and a package dropped from
  a record has its symbols on a row of an advisory that is not withdrawn.
\<close>

section \<open>Symbols\<close>

text \<open>An import lists the vulnerable symbols of a path; without symbols it stands for all of them.\<close>

definition subsumes :: "string \<times> string list \<Rightarrow> string \<times> string list \<Rightarrow> bool" where
  "subsumes a b \<longleftrightarrow> fst a = fst b \<and> (snd a = [] \<or> snd b \<noteq> [] \<and> set (snd b) \<subseteq> set (snd a))"

definition covers :: "(string \<times> string list) list \<Rightarrow> string \<times> string list \<Rightarrow> bool" where
  "covers imps b \<longleftrightarrow> (\<exists>a\<in>set imps. subsumes a b)"

lemma subsumes_refl [simp]: "subsumes a a"
  by (simp add: subsumes_def)

lemma subsumes_trans: "subsumes a b \<Longrightarrow> subsumes b c \<Longrightarrow> subsumes a c"
  by (auto simp: subsumes_def)

lemma covers_member [simp]: "a \<in> set imps \<Longrightarrow> covers imps a"
  unfolding covers_def by (rule bexI [of _ a]) simp_all

lemma new_symbols_set: "set (new_symbols have ss) = set ss - set have"
  by (induction "have" ss rule: new_symbols.induct) auto

lemma mergeGoSymbols_subsumes:
  assumes "fst a = fst b"
  shows "subsumes (fst (mergeGoSymbols a b)) a" "subsumes (fst (mergeGoSymbols a b)) b" "\<not> snd (mergeGoSymbols a b) \<Longrightarrow> fst (mergeGoSymbols a b) = a"
  using assms new_symbols_set [of "snd a" "snd b"] by (auto simp: mergeGoSymbols_def subsumes_def Let_def)

lemma import_index_path: "import_index path imps = Some i \<Longrightarrow> i < length imps \<and> fst (imps ! i) = path"
  by (induction imps arbitrary: i) (auto split: option.splits if_splits)

lemma covers_update:
  assumes "i < length imps" "subsumes b (imps ! i)" "covers imps x"
  shows "covers (imps[i := b]) x"
proof -
  obtain j where j: "j < length imps" "subsumes (imps ! j) x" using assms(3) by (auto simp: covers_def in_set_conv_nth)
  have "subsumes (imps[i := b] ! j) x" using j assms(1,2) subsumes_trans by (cases "i = j") auto
  moreover have "imps[i := b] ! j \<in> set (imps[i := b])" using j(1) by (intro nth_mem) simp
  ultimately show ?thesis unfolding covers_def by blast
qed

lemma add_imports_covers:
  assumes "add_imports cur news = (cur', changed)"
  shows "(\<forall>x. covers cur x \<longrightarrow> covers cur' x) \<and> (\<forall>imp\<in>set news. covers cur' imp)"
  using assms
proof (induction news arbitrary: cur changed)
  case (Cons imp news)
  have step: "(\<forall>x. covers cur x \<longrightarrow> covers cur' x) \<and> (\<forall>x\<in>set (imp # news). covers cur' x)"
    if "add_imports mid news = (cur', ch)" "\<And>x. covers cur x \<Longrightarrow> covers mid x" "covers mid imp" for mid ch
    using Cons.IH [OF that(1)] that(2,3) by (simp only: set_simps ball_simps) blast
  show ?case
  proof (cases "import_index (fst imp) cur")
    case None
    then obtain ch where "add_imports (cur @ [imp]) news = (cur', ch)" using Cons.prems by (auto simp: Let_def split: prod.splits)
    then show ?thesis by (rule step) (auto simp: covers_def)
  next
    case (Some i)
    note i = import_index_path [OF Some]
    note m = mergeGoSymbols_subsumes [OF i [THEN conjunct2]]
    let ?b = "fst (mergeGoSymbols (cur ! i) imp)"
    have "covers (cur[i := ?b]) x" if "covers cur x" for x using covers_update [OF _ m(1) that] i by blast
    moreover have "covers (cur[i := ?b]) imp" using m(2) i unfolding covers_def by (meson set_update_memI)
    moreover have "\<exists>ch. add_imports (cur[i := ?b]) news = (cur', ch)"
      using Cons.prems Some m(3) by (auto simp: Let_def split: prod.splits if_splits)
    ultimately show ?thesis using step by blast
  qed
qed simp

section \<open>Rows\<close>

definition row_grows :: "build_model \<Rightarrow> build_model \<Rightarrow> bool" where
  "row_grows m m' \<longleftrightarrow> m' = m \<or> (\<exists>h b. m = AffectedPackageModel h \<and> m' = AffectedPackageModel (h\<lparr>ph_BlobValue := Some b\<rparr>)
     \<and> (\<forall>x. covers (go_imports_of h) x \<longrightarrow> covers (go_imports_of (h\<lparr>ph_BlobValue := Some b\<rparr>)) x))"

definition row_covers :: "string \<Rightarrow> (string \<times> string list) list \<Rightarrow> build_model \<Rightarrow> bool" where
  "row_covers name imps m \<longleftrightarrow>
     (\<exists>h p. m = AffectedPackageModel h \<and> ph_Package h = Some p \<and> strings_EqualFold (dp_Name p) name \<and> (\<forall>imp\<in>set imps. covers (go_imports_of h) imp))"

lemma row_grows_refl [simp]: "row_grows m m"
  by (simp add: row_grows_def)

lemma row_grows_trans: "row_grows a b \<Longrightarrow> row_grows b c \<Longrightarrow> row_grows a c"
  by (fastforce simp: row_grows_def)

lemma row_covers_grows: "row_grows m m' \<Longrightarrow> row_covers name imps m \<Longrightarrow> row_covers name imps m'"
  by (auto simp: row_grows_def row_covers_def)

lemma addGoImports_covers:
  assumes "addGoImports b news = (b', changed)" "ph_BlobValue h = Some b"
  shows "(\<forall>x. covers (go_imports_of h) x \<longrightarrow> covers (go_imports_of (h\<lparr>ph_BlobValue := Some b'\<rparr>)) x)
    \<and> (\<forall>imp\<in>set news. covers (go_imports_of (h\<lparr>ph_BlobValue := Some b'\<rparr>)) imp)"
proof (cases "news = []")
  case False
  let ?q = "case pb_Qualifiers b of None \<Rightarrow> zero_qualifiers | Some q \<Rightarrow> q"
  obtain cur ch where a: "add_imports (pq_GoImports ?q) news = (cur, ch)" by fastforce
  have "go_imports_of h = pq_GoImports ?q" using assms(2) by (simp add: go_imports_of_def zero_qualifiers_def split: option.splits)
  moreover have "go_imports_of (h\<lparr>ph_BlobValue := Some b'\<rparr>) = cur" using assms(1) a False by (auto simp: addGoImports_def Let_def go_imports_of_def)
  ultimately show ?thesis using add_imports_covers [OF a] by simp
qed (use assms in \<open>simp add: addGoImports_def go_imports_of_def\<close>)

lemma patchable_parts: "patchable m = Some (h, p, b) \<longleftrightarrow> m = AffectedPackageModel h \<and> ph_Package h = Some p \<and> ph_BlobValue h = Some b"
  by (auto simp: patchable_def split: build_model.splits option.splits)

lemma patch_row_grows:
  "row_grows m (fst (patch_row name imps m))" "has_module name m \<Longrightarrow> row_covers name imps (fst (patch_row name imps m))"
proof -
  have *: "row_grows m (fst (patch_row name imps m)) \<and> (has_module name m \<longrightarrow> row_covers name imps (fst (patch_row name imps m)))"
  proof (cases "patchable m")
    case (Some hpb)
    obtain h p b where m: "m = AffectedPackageModel h" "ph_Package h = Some p" "ph_BlobValue h = Some b" "hpb = (h, p, b)"
      using Some by (cases hpb) (auto simp: patchable_parts)
    obtain b' ch where a: "addGoImports b (imports_for (dp_Name p) name imps) = (b', ch)" by fastforce
    have r: "fst (patch_row name imps m) = AffectedPackageModel (h\<lparr>ph_BlobValue := Some b'\<rparr>)" using Some m(4) a by (simp add: patch_row_def)
    show ?thesis using addGoImports_covers [OF a m(3)] m(1,2) Some m(4) unfolding r
      by (auto simp: row_grows_def row_covers_def has_module_def imports_for_def)
  qed (simp_all add: patch_row_def has_module_def)
  then show "row_grows m (fst (patch_row name imps m))" "has_module name m \<Longrightarrow> row_covers name imps (fst (patch_row name imps m))" by auto
qed

lemma blob_row_grows:
  "ph_BlobValue h = Some b \<Longrightarrow> pb_Qualifiers b' = pb_Qualifiers b \<Longrightarrow> row_grows (AffectedPackageModel h) (AffectedPackageModel (h\<lparr>ph_BlobValue := Some b'\<rparr>))"
  by (auto simp: row_grows_def go_imports_of_def)

lemma replace_row_grows: "row_grows m (fst (replace_row quote name w m))"
  by (auto simp: replace_row_def patchable_parts blob_row_grows split: option.splits list.splits)

lemma backfill_row_grows: "row_grows m (backfill_row zero date m)"
  by (auto simp: backfill_row_def blob_row_grows split: build_model.splits option.splits)

section \<open>Entries\<close>

definition entry_grows :: "RelatedEntries \<Rightarrow> RelatedEntries \<Rightarrow> bool" where
  "entry_grows e e' \<longleftrightarrow> list_all2 row_grows (re_Related e) (re_Related e') \<and> entry_rejected e' = entry_rejected e"

definition held_grows :: "held_entries \<Rightarrow> held_entries \<Rightarrow> bool" where
  "held_grows M M' \<longleftrightarrow> dom M' \<subseteq> dom M \<and> (\<forall>k e. M k = Some e \<longrightarrow> (\<exists>e'. M' k = Some e' \<and> entry_grows e e'))"

definition held_covers :: "held_entries \<Rightarrow> packageHandle \<Rightarrow> bool" where
  "held_covers M h \<longleftrightarrow>
     (\<exists>p k e. ph_Package h = Some p \<and> M k = Some e \<and> \<not> entry_rejected e \<and> (\<exists>m\<in>set (re_Related e). row_covers (dp_Name p) (go_imports_of h) m))"

lemma entry_grows_refl [simp]: "entry_grows e e"
  by (simp add: entry_grows_def list.rel_refl)

lemma entry_grows_trans: "entry_grows a b \<Longrightarrow> entry_grows b c \<Longrightarrow> entry_grows a c"
  unfolding entry_grows_def using list_all2_trans [of row_grows row_grows row_grows] row_grows_trans by metis

lemma held_grows_refl [simp]: "held_grows M M"
  by (simp add: held_grows_def)

lemma held_grows_trans: "held_grows M M' \<Longrightarrow> held_grows M' M'' \<Longrightarrow> held_grows M M''"
  unfolding held_grows_def by (meson entry_grows_trans order_trans)

lemma held_grows_upd: "M k = Some e \<Longrightarrow> entry_grows e e' \<Longrightarrow> held_grows M (M(k \<mapsto> e'))"
  by (auto simp: held_grows_def)

lemma entry_covers_grows:
  assumes "entry_grows e e'" "m \<in> set (re_Related e)" "row_covers name imps m"
  shows "\<exists>m'\<in>set (re_Related e'). row_covers name imps m'"
proof -
  obtain i where i: "i < length (re_Related e)" "re_Related e ! i = m" using assms(2) by (auto simp: in_set_conv_nth)
  then have "row_grows m (re_Related e' ! i)" "i < length (re_Related e')" using assms(1) by (auto simp: entry_grows_def list_all2_conv_all_nth)
  then show ?thesis using row_covers_grows [OF _ assms(3)] by (meson nth_mem)
qed

lemma held_covers_grows: "held_grows M M' \<Longrightarrow> held_covers M h \<Longrightarrow> held_covers M' h"
  unfolding held_grows_def held_covers_def by (metis entry_covers_grows entry_grows_def)

lemma entry_grows_map: "(\<And>m. row_grows m (f m)) \<Longrightarrow> entry_grows e (e\<lparr>re_Related := map f (re_Related e)\<rparr>)"
  by (simp add: entry_grows_def list_all2_conv_all_nth entry_rejected_def)

lemma patch_entry_grows:
  assumes "patchGHSAWithGoImports e h = (e', matched, ch)" "ph_Package h = Some p"
  shows "entry_grows e e'" "matched \<Longrightarrow> \<exists>m\<in>set (re_Related e'). row_covers (dp_Name p) (go_imports_of h) m"
proof -
  have e': "e' = e\<lparr>re_Related := map (\<lambda>m. fst (patch_row (dp_Name p) (go_imports_of h) m)) (re_Related e)\<rparr>"
    and m: "matched = list_ex (has_module (dp_Name p)) (re_Related e)"
    using assms by (auto simp: patchGHSAWithGoImports_def Let_def comp_def)
  show "entry_grows e e'" unfolding e' by (rule entry_grows_map) (rule patch_row_grows)
  show "matched \<Longrightarrow> \<exists>m\<in>set (re_Related e'). row_covers (dp_Name p) (go_imports_of h) m"
    unfolding e' m list_ex_iff using patch_row_grows(2) by fastforce
qed

lemma replace_entry_grows: "entry_grows e (fst (replaceGHSAPseudoVersionRanges quote e h w))"
  unfolding replaceGHSAPseudoVersionRanges_def Let_def fst_conv map_map comp_def by (rule entry_grows_map) (rule replace_row_grows)

lemma modification_grows: "entry_grows e (add_modification url ch e)"
  by (auto simp: entry_grows_def add_modification_def entry_rejected_def list.rel_refl split: option.splits)

section \<open>Reconciling\<close>

lemma reconcilePackage_covers:
  assumes "reconcilePackage quote M h w keys ch = (M', ch', cov)" "ph_Package h = Some p"
  shows "held_grows M M' \<and> (cov \<longrightarrow> held_covers M' h)"
  using assms(1)
proof (induction keys arbitrary: M ch M' ch' cov)
  case (Cons key keys)
  show ?case
  proof (cases "\<exists>e. M key = Some e \<and> \<not> entry_rejected e")
    case False
    then have "reconcilePackage quote M h w keys ch = (M', ch', cov)" using Cons.prems by (auto split: option.splits)
    then show ?thesis by (rule Cons.IH)
  next
    case True
    then obtain e where e: "M key = Some e" "\<not> entry_rejected e" by blast
    obtain e1 m ch1 where p: "patchGHSAWithGoImports e h = (e1, m, ch1)" by (metis prod_cases3)
    obtain e2 ch2 where r: "(case w of None \<Rightarrow> (e1, []) | Some w \<Rightarrow> replaceGHSAPseudoVersionRanges quote e1 h w) = (e2, ch2)" by fastforce
    obtain M3 ch3 c3 where t: "reconcilePackage quote (M(key \<mapsto> e2)) h w keys (ch(key := ch key @ ch1 @ ch2)) = (M3, ch3, c3)" by (metis prod_cases3)
    note g1 = patch_entry_grows [OF p assms(2)]
    have g2: "entry_grows e1 e2" using r replace_entry_grows [of e1 quote h] by (cases w) (auto, metis fst_conv)
    have out: "M' = M3" "cov = (m \<or> c3)" using Cons.prems e p r t by auto
    have g: "held_grows M (M(key \<mapsto> e2))" using held_grows_upd e(1) entry_grows_trans [OF g1(1) g2] by blast
    have ih: "held_grows (M(key \<mapsto> e2)) M3 \<and> (c3 \<longrightarrow> held_covers M3 h)" by (rule Cons.IH [OF t])
    have "held_covers (M(key \<mapsto> e2)) h" if matched: m
    proof -
      obtain x where "x \<in> set (re_Related e1)" "row_covers (dp_Name p) (go_imports_of h) x" using g1(2) matched by blast
      then have "\<exists>x\<in>set (re_Related e2). row_covers (dp_Name p) (go_imports_of h) x" by (rule entry_covers_grows [OF g2])
      moreover have "\<not> entry_rejected e2" using e(2) g1(1) g2 by (simp add: entry_grows_def)
      ultimately show ?thesis using assms(2) unfolding held_covers_def by (metis fun_upd_same)
    qed
    then show ?thesis unfolding out using g ih held_grows_trans held_covers_grows by blast
  qed
qed simp

lemma reconcile_rows_covers:
  assumes "reconcile_rows quote M keys rows ch = (M', ch', remaining, n)"
  shows "held_grows M M' \<and> (\<forall>h p. AffectedPackageModel h \<in> fst ` set rows \<and> ph_Package h = Some p \<longrightarrow>
      0 < n \<and> AffectedPackageModel h \<in> set remaining \<or> held_covers M' h)"
  using assms
proof (induction rows arbitrary: M ch M' ch' remaining n)
  case (Cons row rows)
  obtain m w where row: "row = (m, w)" by fastforce
  show ?case
  proof (cases "\<exists>h p. m = AffectedPackageModel h \<and> ph_Package h = Some p")
    case True
    then obtain h p where h: "m = AffectedPackageModel h" "ph_Package h = Some p" by blast
    obtain M1 c1 cov where p: "reconcilePackage quote M h w keys ch = (M1, c1, cov)" by (metis prod_cases3)
    obtain M2 c2 rest k where r: "reconcile_rows quote M1 keys rows c1 = (M2, c2, rest, k)" by (metis prod_cases4)
    note g1 = reconcilePackage_covers [OF p h(2)] and g2 = Cons.IH [OF r]
    have out: "M' = M2" "remaining = (if cov then rest else m # rest)" "n = (if cov then k else Suc k)"
      using Cons.prems row h p r by (auto split: if_splits)
    have "cov \<longrightarrow> held_covers M2 h" using g1 g2 held_covers_grows by blast
    then show ?thesis unfolding out row using g1 g2 held_grows_trans h(1) by (auto split: if_splits)
  next
    case False
    obtain M2 c2 rest k where r: "reconcile_rows quote M keys rows ch = (M2, c2, rest, k)" by (metis prod_cases4)
    have "reconcile_rows quote M keys (row # rows) ch = (M2, c2, m # rest, k)" using False r row by (auto split: build_model.splits)
    then show ?thesis using Cons.prems Cons.IH [OF r] row False by auto
  qed
qed simp

lemma record_changes_grows: "held_grows M (fold (record_changes url ch) keys M)"
proof (induction keys arbitrary: M)
  case (Cons k keys)
  have "held_grows M (record_changes url ch k M)"
    by (auto simp: record_changes_def intro: held_grows_upd modification_grows split: option.splits)
  then show ?case using Cons.IH held_grows_trans by fastforce
qed simp

lemma handleEntry_covers:
  assumes "handleEntry quote M e = (M', e', survives)"
  shows "held_grows M M' \<and> entry_rejected e' = entry_rejected e
    \<and> (\<forall>h p. AffectedPackageModel h \<in> set (re_Related (unwrapped e)) \<and> ph_Package h = Some p \<longrightarrow>
         survives \<and> AffectedPackageModel h \<in> set (re_Related e') \<or> held_covers M' h)"
proof -
  let ?rows = "snd (unwrapGoVulnDBPackages e)"
  have u: "re_Related (unwrapped e) = map fst ?rows" "re_VulnerabilityHandle (unwrapped e) = re_VulnerabilityHandle e"
    by (simp_all add: unwrapGoVulnDBPackages_def Let_def)
  consider "M' = M" "e' = unwrapped e" survives
    | keys M1 ch remaining n url where "reconcile_rows quote M keys ?rows (\<lambda>_. []) = (M1, ch, remaining, n)"
      "M' = fold (record_changes url ch) keys M1" "e' = (unwrapped e)\<lparr>re_Related := remaining\<rparr>" "survives = (0 < n)"
    using assms unfolding handleEntry_def by (auto simp: Let_def split: prod.splits option.splits if_splits)
  then show ?thesis
  proof cases
    case 1
    then show ?thesis using u by (simp add: entry_rejected_def)
  next
    case 2
    have "held_grows M1 M'" using record_changes_grows 2(2) by simp
    with reconcile_rows_covers [OF 2(1)] have "held_grows M M'"
      "\<And>h p. AffectedPackageModel h \<in> set (map fst ?rows) \<Longrightarrow> ph_Package h = Some p \<Longrightarrow>
         0 < n \<and> AffectedPackageModel h \<in> set remaining \<or> held_covers M' h"
      using held_grows_trans held_covers_grows by (blast, metis list.set_map)
    then show ?thesis unfolding u 2(3,4) by (simp add: entry_rejected_def u)
  qed
qed

lemma reconcile_entries_covers:
  assumes "reconcile_entries quote M es = (M', out)"
  shows "held_grows M M' \<and> (\<forall>e\<in>set es. \<forall>h p. AffectedPackageModel h \<in> set (re_Related (unwrapped e)) \<and> ph_Package h = Some p \<longrightarrow>
      (\<exists>e'\<in>set out. AffectedPackageModel h \<in> set (re_Related e') \<and> entry_rejected e' = entry_rejected e) \<or> held_covers M' h)"
  using assms
proof (induction es arbitrary: M M' out)
  case (Cons e es)
  obtain M1 e1 survives where h: "handleEntry quote M e = (M1, e1, survives)" by (metis prod_cases3)
  obtain M2 rest where r: "reconcile_entries quote M1 es = (M2, rest)" by fastforce
  have out: "M' = M2" "out = (if survives then e1 # rest else rest)" using Cons.prems h r by auto
  note ih = Cons.IH [OF r] and e = handleEntry_covers [OF h]
  have "held_grows M M2" using ih e held_grows_trans by blast
  moreover have "(\<exists>e'\<in>set out. AffectedPackageModel h \<in> set (re_Related e') \<and> entry_rejected e' = entry_rejected x) \<or> held_covers M2 h"
    if "x \<in> set (e # es)" "AffectedPackageModel h \<in> set (re_Related (unwrapped x))" "ph_Package h = Some p" for x h p
  proof (cases "x = e")
    case True
    then have "survives \<and> AffectedPackageModel h \<in> set (re_Related e1) \<or> held_covers M2 h" using that(2,3) e ih held_covers_grows by blast
    then show ?thesis using True e unfolding out(2) by auto
  next
    case False
    then have "x \<in> set es" using that(1) by simp
    then have "(\<exists>e'\<in>set rest. AffectedPackageModel h \<in> set (re_Related e') \<and> entry_rejected e' = entry_rejected x) \<or> held_covers M2 h"
      using that(2,3) ih by blast
    then show ?thesis unfolding out(2) by auto
  qed
  ultimately show ?case unfolding out(1) by blast
qed simp

text \<open>Every advisory that is held is in the order.\<close>

definition ordered :: "goVulnDBMerger \<Rightarrow> bool" where
  "ordered m \<longleftrightarrow> (\<forall>k e. gm_goGHSAEntries m k = Some e \<longrightarrow> k \<in> set (gm_goGHSAOrder m))"

lemma hold_all_ordered:
  assumes "hold_all m es = (m', out)" "ordered m"
  shows "ordered m' \<and> (\<forall>e. e \<in> set (gm_govulndbEntries m) \<or> e \<in> set es \<and> named_go e \<longrightarrow> e \<in> set (gm_govulndbEntries m'))"
  using assms
proof (induction es arbitrary: m out)
  case (Cons e es)
  obtain m1 held where h: "hold m e = (m1, held)" by fastforce
  obtain out' where r: "hold_all m1 es = (m', out')" using Cons.prems(1) h by (auto split: prod.splits)
  have "ordered m1 \<and> set (gm_govulndbEntries m) \<subseteq> set (gm_govulndbEntries m1) \<and> (named_go e \<longrightarrow> e \<in> set (gm_govulndbEntries m1))"
    using h Cons.prems(2) unfolding hold_def ordered_def named_go_def Let_def
    by (cases "re_VulnerabilityHandle e"; auto split: if_splits)
  then show ?case using Cons.IH [OF r] by auto
qed simp



text \<open>A record without imports says that the whole module is vulnerable.  It is dropped all the same, though the row of the advisory has been
  narrowed to the symbols of another record: no row for the whole module is written.\<close>

definition sample_module_entry :: RelatedEntries where
  "sample_module_entry = \<lparr>re_VulnerabilityHandle = Some (sample_vulnerability ''GO-2'' [''GHSA-1'']), re_Provider = Some sample_provider,
     re_Related = [GoVulnDBModel \<lparr>gv_Handle = sample_package GoModulePkg ''m/x'' None [], gv_PseudoVersionFix = [], gv_CustomRanges = []\<rparr>]\<rparr>"

theorem whole_module_narrowed:
  "map (\<lambda>e. map (\<lambda>m. case m of AffectedPackageModel h \<Rightarrow> go_imports_of h | _ \<Rightarrow> []) (re_Related e))
     (snd (reconcile (\<lambda>s. s) 0 (fst (hold_all newGoVulnDBMerger [sample_ghsa_entry, sample_go_entry, sample_module_entry]))))
   = [[[(''m/x'', [''Parse''])]]]"
  by code_simp

end
