(* ===== verification/Advisory_Feeds.thy ===== *)
theory Advisory_Feeds
  imports Os_Transform
begin

text \<open>
  The transformers of smaller feeds under \<^verbatim>\<open>grype/db/v6/build/transformers\<close>: known exploited vulnerabilities (\<^verbatim>\<open>kev\<close>), exploit
  prediction scores (\<^verbatim>\<open>epss\<close>), end-of-life dates (\<^verbatim>\<open>eol\<close>), Microsoft (\<^verbatim>\<open>msrc\<close>) and GitHub (\<^verbatim>\<open>github\<close>).

  Of the records of feeds (\<^verbatim>\<open>grype/db/internal/provider/unmarshal\<close>) the fields read are kept.  Parsing of dates is the parameter
  \<open>ParseTime\<close>; the types of packages that syft defines are the record \<open>syft_types\<close>.  The elements of lists of pointers in a record of
  GitHub are not nil.
\<close>

section \<open>Known exploited vulnerabilities\<close>

record KnownExploitedVulnerability =
  kv_CveID :: string
  kv_VendorProject :: string
  kv_Product :: string
  kv_DateAdded :: string
  kv_ShortDescription :: string
  kv_RequiredAction :: string
  kv_DueDate :: string
  kv_KnownRansomwareCampaignUse :: string
  kv_Notes :: string
  kv_CWEs :: "string list"

text \<open>All matches of a pattern, with their groups; as for \<^const>\<open>regexp_FindAllString\<close>, matches are not empty.\<close>

fun find_all_matches :: "nat \<Rightarrow> re \<Rightarrow> bool \<Rightarrow> string \<Rightarrow> re_match list" where
  "find_all_matches 0 r b s = []"
| "find_all_matches (Suc n) r b s =
     (case re_find r b s of
        None \<Rightarrow> []
      | Some m \<Rightarrow> if m_text m = [] then [] else m # find_all_matches n r False (m_after m))"

definition bracketURLPattern :: re where
  "bracketURLPattern =
     Seq (Chr (CHR ''['')) (Seq (Grp 1 (Seq (Lit ''http'') (Seq (Opt (Chr (CHR ''s''))) (Seq (Lit ''://'') (Plus (Cls (\<lambda>c. c \<noteq> CHR '']'')))))))
       (Chr (CHR '']'')))"

definition add_url :: "string \<Rightarrow> string list \<Rightarrow> string list" where
  "add_url url urls = (if url \<in> set urls then urls else urls @ [url])"

definition note_parts :: "string \<Rightarrow> string list" where
  "note_parts notes = map strings_TrimSpace (split_char (CHR '';'') notes)"

definition is_url :: "string \<Rightarrow> bool" where
  "is_url part \<longleftrightarrow> strings_HasPrefix (strings_ToLower part) ''http''"

definition getURLs :: "string list \<Rightarrow> string \<Rightarrow> string list \<times> string" where
  "getURLs aux notes =
     (let (urls, notes) =
        (if notes = [] then ([], notes)
         else (fold add_url (filter is_url (note_parts notes)) [],
               strings_Join (filter (\<lambda>part. \<not> is_url part \<and> part \<noteq> []) (note_parts notes)) ''; ''));
        found = concat (map (\<lambda>text. map (\<lambda>m. submatch m 1) (find_all_matches (Suc (length text)) bracketURLPattern True text)) aux) in
      (fold add_url found urls, notes))"

definition getKev :: "(string \<Rightarrow> int option) \<Rightarrow> KnownExploitedVulnerability \<Rightarrow> KnownExploitedVulnerabilityHandle" where
  "getKev ParseTime kev =
     (let (urls, notes) = getURLs [kv_ShortDescription kev, kv_RequiredAction kev] (kv_Notes kev) in
      \<lparr>kh_Cve = kv_CveID kev, kh_BlobID = 0, kh_BlobValue = Some
        \<lparr>kb_Cve = kv_CveID kev, kb_VendorProject = kv_VendorProject kev, kb_Product = kv_Product kev, kb_DateAdded = ParseTime (kv_DateAdded kev),
         kb_RequiredAction = kv_RequiredAction kev, kb_DueDate = ParseTime (kv_DueDate kev),
         kb_KnownRansomwareCampaignUse = strings_ToLower (kv_KnownRansomwareCampaignUse kev), kb_Notes = notes, kb_URLs = urls,
         kb_CWEs = kv_CWEs kev\<rparr>\<rparr>)"

definition kev_Transform :: "(string \<Rightarrow> int option) \<Rightarrow> KnownExploitedVulnerability \<Rightarrow> ProviderState \<Rightarrow> RelatedEntries" where
  "kev_Transform ParseTime kev state = NewEntries [ProviderModel (provider_Model state), KEVModel (getKev ParseTime kev)]"

section \<open>Exploit prediction scores\<close>

record unmarshal_EPSS =
  ep_CVE :: string
  ep_EPSS :: rat
  ep_Percentile :: rat
  ep_Date :: string

definition getEPSS :: "unmarshal_EPSS \<Rightarrow> int \<Rightarrow> EpssHandle" where
  "getEPSS entry date = \<lparr>eh_Cve = ep_CVE entry, eh_Epss = ep_EPSS entry, eh_Percentile = ep_Percentile entry, eh_Date = date\<rparr>"

definition epss_Transform :: "(string \<Rightarrow> int option) \<Rightarrow> unmarshal_EPSS \<Rightarrow> ProviderState \<Rightarrow> serror + RelatedEntries" where
  "epss_Transform ParseTime entry state =
     (case ParseTime (ep_Date entry) of
        None \<Rightarrow> Inl (ErrorText ''failed to parse date'')
      | Some date \<Rightarrow> Inr (NewEntries [ProviderModel (provider_Model state), EpssModel (getEPSS entry date)]))"

section \<open>End-of-life dates\<close>

record EndOfLifeDateRelease =
  el_Product :: string
  el_Name :: string
  el_EOASFrom :: "string option"
  el_EOLFrom :: "string option"

definition productNameMapping :: "(string \<times> string) list" where
  "productNameMapping = [(''alpine-linux'', ''alpine''), (''rhel'', ''redhat''), (''amazon-linux'', ''amazonlinux''), (''oracle-linux'', ''oraclelinux''),
     (''rocky-linux'', ''rockylinux''), (''centos-stream'', ''centos'')]"

definition supportedDistros :: "string list" where
  "supportedDistros = [''alpine'', ''amazonlinux'', ''centos'', ''debian'', ''fedora'', ''oraclelinux'', ''redhat'', ''rockylinux'', ''almalinux'', ''sles'',
     ''ubuntu'', ''photon'', ''mariner'', ''azurelinux'', ''wolfi'', ''chainguard'']"

definition translateProductName :: "string \<Rightarrow> string" where
  "translateProductName product = (case map_of productNameMapping product of Some mapped \<Rightarrow> mapped | None \<Rightarrow> product)"

definition normalizeVersion :: "string \<Rightarrow> string" where
  "normalizeVersion v = (case strconv_Atoi v of Some i \<Rightarrow> strconv_Itoa i | None \<Rightarrow> v)"

definition eol_parseVersion :: "string \<Rightarrow> string \<times> string" where
  "eol_parseVersion cycle =
     (let parts = split_char (CHR ''.'') cycle in
      (if length parts \<ge> 1 then normalizeVersion (parts ! 0) else [], if length parts \<ge> 2 then normalizeVersion (parts ! 1) else []))"

definition getOperatingSystemEOL :: "(string \<Rightarrow> int option) \<Rightarrow> EndOfLifeDateRelease \<Rightarrow> string \<Rightarrow> OperatingSystemEOLHandle option" where
  "getOperatingSystemEOL ParseTime entry distroName =
     (let (majorVersion, minorVersion) = eol_parseVersion (el_Name entry);
          date = (\<lambda>d. case d of None \<Rightarrow> None | Some t \<Rightarrow> ParseTime t) in
      if date (el_EOLFrom entry) = None \<and> date (el_EOASFrom entry) = None then None
      else Some \<lparr>eolh_Name = distroName, eolh_MajorVersion = majorVersion, eolh_MinorVersion = minorVersion, eolh_Codename = [],
        eolh_EOLDate = date (el_EOLFrom entry), eolh_EOASDate = date (el_EOASFrom entry)\<rparr>)"

definition eol_Transform :: "(string \<Rightarrow> int option) \<Rightarrow> EndOfLifeDateRelease \<Rightarrow> ProviderState \<Rightarrow> RelatedEntries option" where
  "eol_Transform ParseTime entry state =
     (let distroName = translateProductName (el_Product entry) in
      if distroName \<notin> set supportedDistros then None
      else map_option (\<lambda>handle. NewEntries [ProviderModel (provider_Model state), EOLModel handle]) (getOperatingSystemEOL ParseTime entry distroName))"

section \<open>Microsoft\<close>

record MSRCFixedIn =
  mf_ID :: string
  mf_IsLatest :: bool
  mf_AvailableDate :: string
  mf_AvailableKind :: string

record MSRCVulnerability =
  ms_CvssVector :: string
  ms_FixedIn :: "MSRCFixedIn list"
  ms_ID :: string
  ms_Link :: string
  ms_ProductID :: string
  ms_Severity :: string
  ms_Summary :: string
  ms_Vulnerable :: "string list"

definition SeveritySchemeCHML :: string where "SeveritySchemeCHML = ''CHML''"

fun fixedInKB :: "(string \<Rightarrow> int option) \<Rightarrow> MSRCFixedIn list \<Rightarrow> string \<times> FixDetail option" where
  "fixedInKB ParseTime [] = ([], None)"
| "fixedInKB ParseTime (f # fs) =
     (if mf_IsLatest f then
        (mf_ID f,
         if mf_AvailableDate f \<noteq> []
         then Some \<lparr>fd_Available = Some \<lparr>fa_Date = ParseTime (mf_AvailableDate f), fa_Kind = mf_AvailableKind f\<rparr>, fd_References = []\<rparr> else None)
      else fixedInKB ParseTime fs)"

definition msrc_getFix :: "(string \<Rightarrow> int option) \<Rightarrow> MSRCVulnerability \<Rightarrow> DbFix" where
  "msrc_getFix ParseTime vuln =
     (let (fixedInVersion, fixDetail) = fixedInKB ParseTime (ms_FixedIn vuln) in
      \<lparr>dbf_Version = fixedInVersion, dbf_State = (if fixedInVersion = [] then NotFixedStatus else FixedStatus), dbf_Detail = fixDetail\<rparr>)"

definition msrc_getRanges :: "(string \<Rightarrow> int option) \<Rightarrow> MSRCVulnerability \<Rightarrow> Range list" where
  "msrc_getRanges ParseTime vuln =
     [\<lparr>rg_Version = \<lparr>dbv_Type = ''kb'', dbv_Constraint = OrConstraints (ms_Vulnerable vuln @ [''base''])\<rparr>, rg_Fix = Some (msrc_getFix ParseTime vuln)\<rparr>]"

definition text_severity :: "string \<Rightarrow> string \<Rightarrow> DbSeverity" where
  "text_severity scheme v = \<lparr>sev_Scheme = scheme, sev_Value = TextValue v, sev_Source = [], sev_Rank = 0\<rparr>"

definition cvss_severity :: "string \<Rightarrow> string \<Rightarrow> DbSeverity" where
  "cvss_severity vector ver = \<lparr>sev_Scheme = SeveritySchemeCVSS, sev_Value = CVSSValue \<lparr>cs_Vector = vector, cs_Version = ver\<rparr>, sev_Source = [], sev_Rank = 0\<rparr>"

definition msrc_getSeverities :: "MSRCVulnerability \<Rightarrow> DbSeverity list" where
  "msrc_getSeverities vuln =
     (let cleanSeverity = strings_ToLower (strings_TrimSpace (ms_Severity vuln)) in
      (if cleanSeverity \<noteq> [] then [text_severity SeveritySchemeCHML cleanSeverity] else [])
      @ (if ms_CvssVector vuln \<noteq> [] then [cvss_severity (ms_CvssVector vuln) ''3.0''] else []))"

definition msrc_Transform :: "(string \<Rightarrow> int option) \<Rightarrow> MSRCVulnerability \<Rightarrow> ProviderState \<Rightarrow> RelatedEntries" where
  "msrc_Transform ParseTime vuln state =
     NewEntries [VulnerabilityModel (new_vulnerability state (ms_ID vuln) VulnerabilityActive None None None
         \<lparr>vb_ID = ms_ID vuln, vb_Assigners = [], vb_Description = strings_TrimSpace (ms_Summary vuln),
          vb_References = [\<lparr>dref_URL = ms_Link vuln, dref_ID = [], dref_Tags = []\<rparr>], vb_Aliases = [], vb_Severities = msrc_getSeverities vuln,
          vb_Modifications = []\<rparr>),
       AffectedPackageModel (new_handle None (new_package KbPkg (name_Normalize (ms_ProductID vuln) KbPkg))
         \<lparr>pb_CVEs = [], pb_Qualifiers = None, pb_Ranges = msrc_getRanges ParseTime vuln\<rparr>)]"

section \<open>GitHub\<close>

record GithubFixedIn =
  gf_Ecosystem :: string
  gf_Identifier :: string
  gf_Name :: string
  gf_Range :: string
  gf_AvailableDate :: string
  gf_AvailableKind :: string

record GitHubAdvisory =
  ga_CVE :: "string list"
  ga_CVSS :: "(string \<times> string) option"
  ga_CVSSSeverities :: "(string \<times> string) list"
  ga_FixedIn :: "GithubFixedIn list"
  ga_Severity :: string
  ga_Summary :: string
  ga_GhsaID :: string
  ga_URL :: string
  ga_Published :: string
  ga_Updated :: string
  ga_Withdrawn :: string
  ga_References :: "string list"

record syft_types =
  st_PhpComposerPkg :: string
  st_RustPkg :: string
  st_DartPubPkg :: string
  st_DotnetPkg :: string
  st_SwiftPkg :: string
  st_HexPkg :: string
  st_GithubActionPkg :: string
  st_UnknownPkg :: string
  st_TypeByName :: "string \<Rightarrow> string"

definition github_getVulnStatus :: "GitHubAdvisory \<Rightarrow> string" where
  "github_getVulnStatus vuln = (if ga_Withdrawn vuln = [] then VulnerabilityActive else VulnerabilityRejected)"

definition getAffectedVersionFormat :: "GithubFixedIn \<Rightarrow> string" where
  "getAffectedVersionFormat f = (let versionFormat = strings_ToLower (gf_Ecosystem f) in if versionFormat = ''pip'' then ''python'' else versionFormat)"

definition github_getFixAvailability :: "(string \<Rightarrow> int option) \<Rightarrow> GithubFixedIn \<Rightarrow> FixAvailability option" where
  "github_getFixAvailability ParseTime f =
     (if gf_AvailableDate f = [] then None
      else map_option (\<lambda>t. \<lparr>fa_Date = Some t, fa_Kind = gf_AvailableKind f\<rparr>) (ParseTime (gf_AvailableDate f)))"

definition github_getFix :: "(string \<Rightarrow> int option) \<Rightarrow> GithubFixedIn \<Rightarrow> DbFix" where
  "github_getFix ParseTime f =
     (let fixedInVersion = CleanFixedInVersion (gf_Identifier f) in
      \<lparr>dbf_Version = fixedInVersion, dbf_State = (if 0 < length fixedInVersion then FixedStatus else NotFixedStatus),
       dbf_Detail = map_option (\<lambda>a. \<lparr>fd_Available = Some a, fd_References = []\<rparr>) (github_getFixAvailability ParseTime f)\<rparr>)"

definition github_getRanges :: "'o db_env \<Rightarrow> (string \<Rightarrow> int option) \<Rightarrow> GithubFixedIn \<Rightarrow> Range list go" where
  "github_getRanges E ParseTime f =
     (let fixedVersion = \<lparr>dbv_Type = getAffectedVersionFormat f, dbv_Constraint = EnforceSemVerConstraint (gf_Range f)\<rparr> in
      map_option (\<lambda>err.
          [\<lparr>rg_Version = (case err of None \<Rightarrow> fixedVersion | Some _ \<Rightarrow> fixedVersion\<lparr>dbv_Type := Format_String UnknownFormat\<rparr>),
            rg_Fix = Some (github_getFix ParseTime f)\<rparr>])
        (ValidateAffectedVersion E fixedVersion))"

type_synonym github_group = "string \<times> string"

definition github_groupFixedIns :: "GitHubAdvisory \<Rightarrow> (github_group \<times> GithubFixedIn list) list" where
  "github_groupFixedIns vuln = fold (\<lambda>f. append_at (gf_Name f, gf_Ecosystem f) f) (ga_FixedIn vuln) []"

definition github_getPackageType :: "syft_types \<Rightarrow> string \<Rightarrow> string" where
  "github_getPackageType S ecosystem =
     (let e = strings_ToLower ecosystem in
      if e = ''composer'' then st_PhpComposerPkg S
      else if e \<in> {''rust'', ''cargo''} then st_RustPkg S
      else if e = ''dart'' then st_DartPubPkg S
      else if e \<in> {''nuget'', ''.net''} then st_DotnetPkg S
      else if e \<in> {''go'', ''golang''} then GoModulePkg
      else if e \<in> {''maven'', ''java''} then JavaPkg
      else if e = ''npm'' then NpmPkg
      else if e \<in> {''pypi'', ''python'', ''pip''} then PythonPkg
      else if e = ''swift'' then st_SwiftPkg S
      else if e \<in> {''rubygems'', ''ruby'', ''gem''} then GemPkg
      else if e \<in> {''erlang'', ''hex'', ''elixir''} then st_HexPkg S
      else if e = ''apk'' then ApkPkg
      else if e = ''rpm'' then RpmPkg
      else if e = ''deb'' then DebPkg
      else if e = ''github-action'' then st_GithubActionPkg S
      else let ty = st_TypeByName S e in if ty \<noteq> st_UnknownPkg S then ty else e)"

definition github_getPackage :: "syft_types \<Rightarrow> github_group \<Rightarrow> DbPackage" where
  "github_getPackage S grp = (let t = github_getPackageType S (snd grp) in new_package t (name_Normalize (fst grp) t))"

definition group_handles :: "'o db_env \<Rightarrow> syft_types \<Rightarrow> (string \<Rightarrow> int option) \<Rightarrow> GitHubAdvisory \<Rightarrow> github_group \<times> GithubFixedIn list
   \<Rightarrow> packageHandle list go" where
  "group_handles E S ParseTime vuln gf =
     those (map (\<lambda>f. map_option (\<lambda>ranges. new_handle None (github_getPackage S (fst gf)) \<lparr>pb_CVEs = ga_CVE vuln, pb_Qualifiers = None, pb_Ranges = ranges\<rparr>)
        (github_getRanges E ParseTime f)) (snd gf))"

definition github_getAffectedPackage ::
  "'o db_env \<Rightarrow> syft_types \<Rightarrow> (string \<Rightarrow> int option) \<Rightarrow> ((github_group \<times> GithubFixedIn list) list \<Rightarrow> (github_group \<times> GithubFixedIn list) list)
   \<Rightarrow> GitHubAdvisory \<Rightarrow> packageHandle list go" where
  "github_getAffectedPackage E S ParseTime order vuln =
     (let groups = github_groupFixedIns vuln; groups = (if is_perm (order groups) groups then order groups else groups) in
      map_option (\<lambda>afs. sort_handles (concat afs)) (those (map (group_handles E S ParseTime vuln) groups)))"

definition github_getSeverities :: "GitHubAdvisory \<Rightarrow> DbSeverity list" where
  "github_getSeverities vuln =
     (let cleanSeverity = strings_ToLower (strings_TrimSpace (ga_Severity vuln)) in
      (if cleanSeverity \<noteq> [] then [text_severity SeveritySchemeCHML cleanSeverity] else [])
      @ (case (ga_CVSSSeverities vuln, ga_CVSS vuln) of
           ([], Some (vector, ver)) \<Rightarrow> [cvss_severity vector ver]
         | (severities, _) \<Rightarrow> map (\<lambda>(vector, ver). cvss_severity vector ver) severities))"

definition github_getReferences :: "GitHubAdvisory \<Rightarrow> DbReference list" where
  "github_getReferences vuln =
     DeduplicateReferences (map (\<lambda>url. \<lparr>dref_URL = url, dref_ID = [], dref_Tags = []\<rparr>)
       (ga_URL vuln # filter (\<lambda>url. url \<noteq> []) (map strings_TrimSpace (ga_References vuln))))"

definition github_Transform ::
  "'o db_env \<Rightarrow> syft_types \<Rightarrow> (string \<Rightarrow> int option) \<Rightarrow> ((github_group \<times> GithubFixedIn list) list \<Rightarrow> (github_group \<times> GithubFixedIn list) list)
   \<Rightarrow> GitHubAdvisory \<Rightarrow> ProviderState \<Rightarrow> RelatedEntries go" where
  "github_Transform E S ParseTime order vuln state =
     map_option (\<lambda>afs. NewEntries (VulnerabilityModel (new_vulnerability state (ga_GhsaID vuln) (github_getVulnStatus vuln)
         (ParseTime (ga_Updated vuln)) (ParseTime (ga_Published vuln)) (ParseTime (ga_Withdrawn vuln))
         \<lparr>vb_ID = ga_GhsaID vuln, vb_Assigners = [], vb_Description = strings_TrimSpace (ga_Summary vuln), vb_References = github_getReferences vuln,
          vb_Aliases = ga_CVE vuln, vb_Severities = github_getSeverities vuln, vb_Modifications = []\<rparr>)
        # map AffectedPackageModel afs))
       (github_getAffectedPackage E S ParseTime order vuln)"

end
