(* ===== verification/Go_Slice.thy ===== *)
theory Go_Slice
  imports Main
begin

text \<open>
  Go's slices where sharing can be seen: a slice is the address of an array, a length and a capacity, and \<^verbatim>\<open>append\<close> writes into the array
  if the capacity allows it.  Slices that share an array share what is written behind their lengths.  The store is the list of the arrays
  that have been allocated.  By how much \<^verbatim>\<open>append\<close> enlarges an array is up to Go's runtime and a parameter.
\<close>

type_synonym 'a store = "'a list list"

record slice =
  sl_array :: nat
  sl_len :: nat
  sl_cap :: nat

definition nil_slice :: slice where
  "nil_slice = \<lparr>sl_array = 0, sl_len = 0, sl_cap = 0\<rparr>"

definition contents :: "'a store \<Rightarrow> slice \<Rightarrow> 'a list" where
  "contents h s = (if sl_len s = 0 then [] else take (sl_len s) (h ! sl_array s))"

definition go_append :: "(nat \<Rightarrow> nat \<Rightarrow> nat) \<Rightarrow> 'a \<Rightarrow> 'a list \<Rightarrow> 'a store \<times> slice \<Rightarrow> 'a store \<times> slice" where
  "go_append grow zero xs hs =
     (case hs of (h, s) \<Rightarrow>
        let n = sl_len s + length xs in
        if xs = [] then (h, s)
        else if n \<le> sl_cap s then
          (h[sl_array s := take (sl_len s) (h ! sl_array s) @ xs @ drop n (h ! sl_array s)], s\<lparr>sl_len := n\<rparr>)
        else
          let c = max n (grow (sl_cap s) n) in
          (h @ [contents h s @ xs @ replicate (c - n) zero], \<lparr>sl_array = length h, sl_len = n, sl_cap = c\<rparr>))"

text \<open>A slice of a store: its array exists and is as long as its capacity.\<close>

definition slice_ok :: "'a store \<Rightarrow> slice \<Rightarrow> bool" where
  "slice_ok h s \<longleftrightarrow> sl_len s \<le> sl_cap s \<and> (sl_cap s = 0 \<or> sl_array s < length h \<and> length (h ! sl_array s) = sl_cap s)"

lemma nil_slice_ok [simp]: "slice_ok h nil_slice" "contents h nil_slice = []"
  by (simp_all add: slice_ok_def nil_slice_def contents_def)

lemma length_contents: "slice_ok h s \<Longrightarrow> length (contents h s) = sl_len s"
  by (auto simp: slice_ok_def contents_def)

text \<open>The slice that is returned has the elements of the old one and the new ones.\<close>

lemma contents_append:
  assumes "slice_ok h s" "go_append grow zero xs (h, s) = (h', s')"
  shows "contents h' s' = contents h s @ xs" "slice_ok h' s'"
proof -
  have "contents h' s' = contents h s @ xs \<and> slice_ok h' s'"
    using assms length_contents [OF assms(1)]
    by (cases "sl_len s = 0") (auto simp: go_append_def Let_def contents_def slice_ok_def nth_append split: if_splits)
  then show "contents h' s' = contents h s @ xs" "slice_ok h' s'" by simp_all
qed

text \<open>Slices stay slices of the store, and those of other arrays, or whose length does not reach beyond that of the slice appended to,
  keep their elements.\<close>

lemma append_frame:
  assumes "slice_ok h s" "slice_ok h t" "go_append grow zero xs (h, s) = (h', s')"
  shows "slice_ok h' t" "sl_array t \<noteq> sl_array s \<or> sl_len t \<le> sl_len s \<Longrightarrow> contents h' t = contents h t"
  using assms by (auto simp: go_append_def Let_def contents_def slice_ok_def nth_append nth_list_update min_def split: if_splits) (cases xs; simp)

end
