(* ===== verification/Nvd_Transform.thy ===== *)
theory Nvd_Transform
  imports Advisory_Feeds Go_Slice
begin

text \<open>
  The transformer of the National Vulnerability Database (\<^verbatim>\<open>grype/db/v6/build/transformers/nvd\<close>, \<^verbatim>\<open>grype/db/v6/cpe_lookups.go\<close>).

  Of a record (\<^verbatim>\<open>unmarshal/nvd/cve.go\<close>) the fields the transformer reads are kept.  A pointer to the fix of a match is an address with
  what is there, since two ranges are the same only if their pointers are.  A set of ranges, which is a Go map, is the list of its elements in the order
  they were added; the platforms of candidates are slices, whose arrays candidates of one configuration share.  The names of records and the depth of nodes are only
  logged and left out.  Candidates have sets of ranges of their own, so those are values.
\<close>

section \<open>Records\<close>

type_synonym nvd_Operator = string

definition nvd_And :: nvd_Operator where "nvd_And = ''AND''"
definition nvd_Or :: nvd_Operator where "nvd_Or = ''OR''"

record FixInfo =
  fx_Version :: string
  fx_Date :: string
  fx_Kind :: string

record CpeMatch =
  cm_Criteria :: string
  cm_VersionEndExcluding :: "string option"
  cm_VersionEndIncluding :: "string option"
  cm_VersionStartExcluding :: "string option"
  cm_VersionStartIncluding :: "string option"
  cm_Vulnerable :: bool
  cm_Fix :: "(nat \<times> FixInfo) option"

record Node =
  nd_CpeMatch :: "CpeMatch list"
  nd_Operator :: nvd_Operator

record Configuration =
  cg_Nodes :: "Node list"
  cg_Operator :: "nvd_Operator option"

record CvssSummary =
  cv_Source :: string
  cv_Type :: string
  cv_Version :: string
  cv_Vector :: string

record Metrics =
  mt_CvssMetricV2 :: "CvssSummary list"
  mt_CvssMetricV30 :: "CvssSummary list"
  mt_CvssMetricV31 :: "CvssSummary list"
  mt_CvssMetricV40 :: "CvssSummary list"

record Weakness =
  wk_Description :: "(string \<times> string) list"
  wk_Source :: string
  wk_Type :: string

record CveItem =
  ci_ID :: string
  ci_Configurations :: "Configuration list"
  ci_Descriptions :: "(string \<times> string) list"
  ci_LastModified :: string
  ci_Metrics :: "Metrics option"
  ci_Published :: string
  ci_References :: "(string \<times> string list) list"
  ci_SourceIdentifier :: "string option"
  ci_VulnStatus :: "string option"
  ci_Weaknesses :: "Weakness list"

definition CveItem_Description :: "CveItem \<Rightarrow> string" where
  "CveItem_Description c = (case filter (\<lambda>(lang, _). lang = ''en'') (ci_Descriptions c) of [] \<Rightarrow> [] | (_, value) # _ \<Rightarrow> value)"

text \<open>The scores of all versions; the types of scores of one version differ from those of another in fields that are not read.\<close>

definition CveItem_CVSS :: "CveItem \<Rightarrow> CvssSummary list" where
  "CveItem_CVSS c =
     (case ci_Metrics c of
        None \<Rightarrow> []
      | Some m \<Rightarrow> mt_CvssMetricV2 m @ mt_CvssMetricV30 m @ mt_CvssMetricV31 m @ mt_CvssMetricV40 m)"

section \<open>What the transformer calls\<close>

record affectedCPERange =
  ra_ExactVersion :: string
  ra_ExactUpdate :: string
  ra_VersionStartIncluding :: string
  ra_VersionStartExcluding :: string
  ra_VersionEndIncluding :: string
  ra_VersionEndExcluding :: string
  ra_FixInfo :: "(nat \<times> FixInfo) option"

record affectedPackageCandidate =
  ac_VulnerableCPE :: Attributes
  ac_PlatformCPEs :: slice
  ac_Ranges :: "affectedCPERange list"

text \<open>The database's environment, syft's \<^verbatim>\<open>cpe.Any\<close> and \<^verbatim>\<open>cpe.NewAttributes\<close>, parsing of dates, the semantic versions of scores, the growth of slices, and the orders in
  which the maps of ranges, of candidates of one configuration and of candidates are iterated over.\<close>

record 'o nvd_env =
  ne_db :: "'o db_env"
  ne_Any :: string
  ne_NewAttributes :: "string \<Rightarrow> Attributes option"
  ne_ParseTime :: "string \<Rightarrow> int option"
  ne_semver_NewVersion :: "string \<Rightarrow> 'o option"
  ne_semver_MustParse :: "string \<Rightarrow> 'o"
  ne_semver_LessThan :: "'o \<Rightarrow> 'o \<Rightarrow> bool"
  ne_grow :: "nat \<Rightarrow> nat \<Rightarrow> nat"
  ne_ranges :: "affectedCPERange list \<Rightarrow> affectedCPERange list"
  ne_unique :: "(string \<times> affectedPackageCandidate) list \<Rightarrow> (string \<times> affectedPackageCandidate) list"
  ne_merged :: "(string \<times> affectedPackageCandidate) list \<Rightarrow> (string \<times> affectedPackageCandidate) list"

definition map_order :: "('a list \<Rightarrow> 'a list) \<Rightarrow> 'a list \<Rightarrow> 'a list" where
  "map_order order xs = (if is_perm (order xs) xs then order xs else xs)"

record Config =
  cf_CPEParts :: "string list"
  cf_InferNVDFixVersions :: bool

definition defaultConfig :: Config where
  "defaultConfig = \<lparr>cf_CPEParts = [''a'', ''h'', ''o''], cf_InferNVDFixVersions = True\<rparr>"

section \<open>Scores\<close>

definition nvd_Primary :: string where "nvd_Primary = ''Primary''"
definition nvd_Secondary :: string where "nvd_Secondary = ''Secondary''"

definition CvssSummary_version :: "'o nvd_env \<Rightarrow> CvssSummary \<Rightarrow> 'o" where
  "CvssSummary_version E c = (case ne_semver_NewVersion E (cv_Version c) of None \<Rightarrow> ne_semver_MustParse E ''2.0'' | Some v \<Rightarrow> v)"

definition CvssSummaries_Less :: "'o nvd_env \<Rightarrow> CvssSummary \<Rightarrow> CvssSummary \<Rightarrow> bool" where
  "CvssSummaries_Less E a b =
     (if cv_Type a \<noteq> cv_Type b then cv_Type a = nvd_Secondary
      else if cv_Source a \<noteq> cv_Source b then
        (if cv_Source a = ''nvd@nist.gov'' then False
         else if cv_Source b = ''nvd@nist.gov'' then True
         else string_less (cv_Source b) (cv_Source a))
      else ne_semver_LessThan E (CvssSummary_version E a) (CvssSummary_version E b))"

definition CvssSummaries_Sorted :: "'o nvd_env \<Rightarrow> CvssSummary list \<Rightarrow> CvssSummary list" where
  "CvssSummaries_Sorted E cs = go_sort (\<lambda>a b. CvssSummaries_Less E b a) cs"

definition nvd_getSeverities :: "'o nvd_env \<Rightarrow> CveItem \<Rightarrow> DbSeverity list" where
  "nvd_getSeverities E vuln =
     map (\<lambda>sev. \<lparr>sev_Scheme = SeveritySchemeCVSS, sev_Value = CVSSValue \<lparr>cs_Vector = cv_Vector sev, cs_Version = cv_Version sev\<rparr>,
         sev_Source = cv_Source sev, sev_Rank = (if cv_Type sev = nvd_Primary then 1 else 2)\<rparr>)
       (CvssSummaries_Sorted E (CveItem_CVSS vuln))"

section \<open>Ranges\<close>

definition nonEmptyValue :: "string option \<Rightarrow> string" where
  "nonEmptyValue v = (case v of None \<Rightarrow> [] | Some s \<Rightarrow> s)"

definition addRanges :: "affectedCPERange list \<Rightarrow> affectedCPERange list \<Rightarrow> affectedCPERange list" where
  "addRanges rs s = fold (\<lambda>r s. if r \<in> set s then s else s @ [r]) rs s"

definition newAffectedRanges :: "affectedCPERange list \<Rightarrow> affectedCPERange list" where
  "newAffectedRanges rs = addRanges rs []"

definition newAffectedRange :: "CpeMatch \<Rightarrow> affectedCPERange" where
  "newAffectedRange m =
     \<lparr>ra_ExactVersion = [], ra_ExactUpdate = [], ra_VersionStartIncluding = nonEmptyValue (cm_VersionStartIncluding m),
      ra_VersionStartExcluding = nonEmptyValue (cm_VersionStartExcluding m), ra_VersionEndIncluding = nonEmptyValue (cm_VersionEndIncluding m),
      ra_VersionEndExcluding = nonEmptyValue (cm_VersionEndExcluding m), ra_FixInfo = cm_Fix m\<rparr>"

definition range_texts :: "affectedCPERange \<Rightarrow> string list" where
  "range_texts r = [ra_ExactVersion r, ra_ExactUpdate r, ra_VersionStartIncluding r, ra_VersionStartExcluding r, ra_VersionEndIncluding r,
     ra_VersionEndExcluding r]"

fun texts_less :: "string list \<Rightarrow> string list \<Rightarrow> bool" where
  "texts_less (a # as) (b # bs) = (if a \<noteq> b then string_less a b else texts_less as bs)"
| "texts_less _ _ = False"

definition toSlice :: "'o nvd_env \<Rightarrow> affectedCPERange list \<Rightarrow> affectedCPERange list" where
  "toSlice E s = go_sort (\<lambda>a b. texts_less (range_texts a) (range_texts b)) (map_order (ne_ranges E) s)"

definition affectedCPERange_String :: "'o nvd_env \<Rightarrow> affectedCPERange \<Rightarrow> string" where
  "affectedCPERange_String E r =
     (let lower = (if ra_VersionStartIncluding r \<noteq> [] then [''>= '' @ ra_VersionStartIncluding r]
                   else if ra_VersionStartExcluding r \<noteq> [] then [''> '' @ ra_VersionStartExcluding r] else []);
          upper = (if ra_VersionEndExcluding r \<noteq> [] then [''< '' @ ra_VersionEndExcluding r]
                   else if ra_VersionEndIncluding r \<noteq> [] then [''<= '' @ ra_VersionEndIncluding r] else []);
          constraints = lower @ upper;
          ver = ra_ExactVersion r; update = ra_ExactUpdate r;
          exact = (if constraints = [] \<and> ver \<noteq> ne_Any E \<and> ver \<noteq> ''-''
                   then [''= '' @ (if update \<noteq> ne_Any E \<and> update \<noteq> ''-'' then ver @ ''-'' @ update else ver)] else []) in
      strings_Join (constraints @ exact) '', '')"

definition deriveRangesFromCPE :: "'o nvd_env \<Rightarrow> Attributes \<Rightarrow> affectedCPERange list" where
  "deriveRangesFromCPE E attr =
     (if cpe_Version attr = ne_Any E then []
      else [\<lparr>ra_ExactVersion = cpe_Version attr, ra_ExactUpdate = (if cpe_Update attr \<noteq> ''-'' then cpe_Update attr else []),
         ra_VersionStartIncluding = [], ra_VersionStartExcluding = [], ra_VersionEndIncluding = [], ra_VersionEndExcluding = [], ra_FixInfo = None\<rparr>])"

section \<open>Candidates\<close>

definition cpeKey :: "Attributes \<Rightarrow> string" where
  "cpeKey c = strings_Join [cpe_Part c, cpe_Vendor c, cpe_Product c, cpe_Edition c, cpe_SWEdition c, cpe_TargetSW c, cpe_TargetHW c, cpe_Other c,
     cpe_Language c] ''|''"

definition NewAttributes :: "'o nvd_env \<Rightarrow> string \<Rightarrow> serror + Attributes" where
  "NewAttributes E criteria =
     (case ne_NewAttributes E criteria of
        None \<Rightarrow> Inl (ErrorText (''unable to parse CPE '' @ criteria))
      | Some attr \<Rightarrow> Inr attr)"

definition match_ranges :: "'o nvd_env \<Rightarrow> CpeMatch \<Rightarrow> Attributes \<Rightarrow> affectedCPERange list" where
  "match_ranges E m attr =
     (if cm_VersionStartIncluding m \<noteq> None \<or> cm_VersionStartExcluding m \<noteq> None \<or> cm_VersionEndIncluding m \<noteq> None \<or> cm_VersionEndExcluding m \<noteq> None
      then newAffectedRanges [newAffectedRange m] else newAffectedRanges (deriveRangesFromCPE E attr))"

fun extract_vulnerable :: "'o nvd_env \<Rightarrow> Config \<Rightarrow> CpeMatch list \<Rightarrow> serror + affectedPackageCandidate list" where
  "extract_vulnerable E cfg [] = Inr []"
| "extract_vulnerable E cfg (m # ms) =
     (if \<not> cm_Vulnerable m then extract_vulnerable E cfg ms
      else case NewAttributes E (cm_Criteria m) of
        Inl e \<Rightarrow> Inl e
      | Inr attr \<Rightarrow>
          if cpe_Part attr \<notin> set (cf_CPEParts cfg) then extract_vulnerable E cfg ms
          else (case extract_vulnerable E cfg ms of
                  Inl e \<Rightarrow> Inl e
                | Inr cs \<Rightarrow> Inr (\<lparr>ac_VulnerableCPE = attr, ac_PlatformCPEs = nil_slice, ac_Ranges = match_ranges E m attr\<rparr> # cs)))"

definition extractVulnerableCPEs :: "'o nvd_env \<Rightarrow> Node \<Rightarrow> Config \<Rightarrow> serror + affectedPackageCandidate list" where
  "extractVulnerableCPEs E node cfg = extract_vulnerable E cfg (nd_CpeMatch node)"

text \<open>The platforms by key, the keys in the order they were met, and the keys that are of packages.  A key that is deleted and met again would be
  in the order twice, but it is then one of a package.\<close>

fun platform_loop ::
  "'o nvd_env \<Rightarrow> CpeMatch list \<Rightarrow> (string \<times> Attributes list) list \<Rightarrow> string list \<Rightarrow> string list
   \<Rightarrow> serror + ((string \<times> Attributes list) list \<times> string list)" where
  "platform_loop E [] platformCPEMap keyOrder packageCandidates = Inr (platformCPEMap, keyOrder)"
| "platform_loop E (m # ms) platformCPEMap keyOrder packageCandidates =
     (case NewAttributes E (cm_Criteria m) of
        Inl e \<Rightarrow> Inl e
      | Inr attr \<Rightarrow>
          let key = cpeKey attr in
          if cm_Vulnerable m then platform_loop E ms (AList.delete key platformCPEMap) keyOrder (key # packageCandidates)
          else if key \<notin> set packageCandidates then
            platform_loop E ms (append_at key attr platformCPEMap) (if map_of platformCPEMap key = None then keyOrder @ [key] else keyOrder) packageCandidates
          else platform_loop E ms platformCPEMap keyOrder packageCandidates)"

definition extractPlatformCPEs :: "'o nvd_env \<Rightarrow> Node \<Rightarrow> serror + Attributes list" where
  "extractPlatformCPEs E node =
     (case platform_loop E (nd_CpeMatch node) [] [] [] of
        Inl e \<Rightarrow> Inl e
      | Inr (platformCPEMap, keyOrder) \<Rightarrow>
          Inr (concat (map (\<lambda>key. case map_of platformCPEMap key of None \<Rightarrow> [] | Some platforms \<Rightarrow> platforms) keyOrder)))"

text \<open>The loop over the nodes of a conjunction: the candidates so far and the slice of all platforms.  Nodes that are conjunctions themselves are dropped.\<close>

fun and_nodes_loop ::
  "'o nvd_env \<Rightarrow> Config \<Rightarrow> Node list \<Rightarrow> affectedPackageCandidate list \<Rightarrow> Attributes store \<times> slice
   \<Rightarrow> serror + (affectedPackageCandidate list \<times> Attributes store \<times> slice)" where
  "and_nodes_loop E cfg [] vulns hs = Inr (vulns, hs)"
| "and_nodes_loop E cfg (node # nodes) vulns hs =
     (if nd_Operator node = nvd_Or then
        (case extractVulnerableCPEs E node cfg of
           Inl e \<Rightarrow> Inl e
         | Inr vulnCPEs \<Rightarrow>
             (case extractPlatformCPEs E node of
                Inl e \<Rightarrow> Inl e
              | Inr platformCPEs \<Rightarrow> and_nodes_loop E cfg nodes (vulns @ vulnCPEs) (go_append (ne_grow E) zero_Attributes platformCPEs hs)))
      else and_nodes_loop E cfg nodes vulns hs)"

definition add_unique :: "'o nvd_env \<Rightarrow> affectedPackageCandidate \<Rightarrow> (string \<times> affectedPackageCandidate) list
   \<Rightarrow> (string \<times> affectedPackageCandidate) list" where
  "add_unique E c al =
     (let key = cpeKey (ac_VulnerableCPE c) in
      case map_of al key of
        None \<Rightarrow> AList.update key c al
      | Some d \<Rightarrow> AList.update key (d\<lparr>ac_Ranges := addRanges (toSlice E (ac_Ranges c)) (ac_Ranges d)\<rparr>) al)"

definition processANDNodes ::
  "'o nvd_env \<Rightarrow> Config \<Rightarrow> Node list \<Rightarrow> Attributes store \<Rightarrow> serror + (Attributes store \<times> affectedPackageCandidate list)" where
  "processANDNodes E cfg nodes h =
     (case and_nodes_loop E cfg nodes [] (h, nil_slice) of
        Inl e \<Rightarrow> Inl e
      | Inr (vulns, h', platforms) \<Rightarrow>
          let uniqueVulnCPEs = fold (add_unique E) vulns [] in
          Inr (h', map (\<lambda>(_, c). if sl_len platforms = 0 then c else c\<lparr>ac_PlatformCPEs := platforms\<rparr>) (map_order (ne_unique E) uniqueVulnCPEs)))"

fun processORNodes ::
  "'o nvd_env \<Rightarrow> Config \<Rightarrow> Node list \<Rightarrow> Attributes store \<Rightarrow> serror + (Attributes store \<times> affectedPackageCandidate list)" where
  "processORNodes E cfg [] h = Inr (h, [])"
| "processORNodes E cfg (node # nodes) h =
     (case (if nd_Operator node = nvd_And then processANDNodes E cfg [node] h
            else if nd_Operator node = nvd_Or then (case extractVulnerableCPEs E node cfg of Inl e \<Rightarrow> Inl e | Inr cs \<Rightarrow> Inr (h, cs))
            else Inr (h, [])) of
        Inl e \<Rightarrow> Inl e
      | Inr (h1, cs) \<Rightarrow>
          (case processORNodes E cfg nodes h1 of
             Inl e \<Rightarrow> Inl e
           | Inr (h2, rest) \<Rightarrow> Inr (h2, cs @ rest)))"

definition processConfiguration ::
  "'o nvd_env \<Rightarrow> Config \<Rightarrow> Configuration \<Rightarrow> Attributes store \<Rightarrow> serror + (Attributes store \<times> affectedPackageCandidate list)" where
  "processConfiguration E cfg config h =
     (if (case cg_Operator config of None \<Rightarrow> nvd_Or | Some op \<Rightarrow> op) = nvd_And then processANDNodes E cfg (cg_Nodes config) h
      else processORNodes E cfg (cg_Nodes config) h)"

text \<open>Merging the platforms of a candidate into those of another: each is read from the store when its turn comes.\<close>

fun merge_platforms :: "'o nvd_env \<Rightarrow> slice \<Rightarrow> nat list \<Rightarrow> string list \<Rightarrow> Attributes store \<times> slice \<Rightarrow> Attributes store \<times> slice" where
  "merge_platforms E from [] seen hs = hs"
| "merge_platforms E from (i # is) seen (h, s) =
     (let platform = h ! sl_array from ! i; key = cpeKey platform in
      if key \<in> set seen then merge_platforms E from is seen (h, s)
      else merge_platforms E from is (key # seen) (go_append (ne_grow E) zero_Attributes [platform] (h, s)))"

definition merge_candidate ::
  "'o nvd_env \<Rightarrow> affectedPackageCandidate \<Rightarrow> Attributes store \<times> (string \<times> affectedPackageCandidate) list
   \<Rightarrow> Attributes store \<times> (string \<times> affectedPackageCandidate) list" where
  "merge_candidate E candidate hm =
     (case hm of (h, candidateMap) \<Rightarrow>
        let key = cpeKey (ac_VulnerableCPE candidate) in
        case map_of candidateMap key of
          None \<Rightarrow> (h, AList.update key candidate candidateMap)
        | Some existing \<Rightarrow>
            (case merge_platforms E (ac_PlatformCPEs candidate) [0..<sl_len (ac_PlatformCPEs candidate)]
                (map cpeKey (contents h (ac_PlatformCPEs existing))) (h, ac_PlatformCPEs existing) of
               (h', platforms) \<Rightarrow>
                 (h', AList.update key (existing\<lparr>ac_PlatformCPEs := platforms,
                    ac_Ranges := addRanges (toSlice E (ac_Ranges candidate)) (ac_Ranges existing)\<rparr>) candidateMap)))"

definition with_ranges :: "'o nvd_env \<Rightarrow> affectedPackageCandidate \<Rightarrow> affectedPackageCandidate" where
  "with_ranges E c = (if ac_Ranges c = [] then c\<lparr>ac_Ranges := addRanges (deriveRangesFromCPE E (ac_VulnerableCPE c)) (ac_Ranges c)\<rparr> else c)"

definition deduplicateCandidates ::
  "'o nvd_env \<Rightarrow> affectedPackageCandidate list \<Rightarrow> Attributes store \<Rightarrow> Attributes store \<times> affectedPackageCandidate list" where
  "deduplicateCandidates E cands h =
     (case fold (merge_candidate E) cands (h, []) of
        (h', candidateMap) \<Rightarrow>
          (h', go_sort (\<lambda>a b. string_less (pe_cpe_String (de_penv (ne_db E)) (ac_VulnerableCPE a)) (pe_cpe_String (de_penv (ne_db E)) (ac_VulnerableCPE b)))
             (map (\<lambda>(_, c). with_ranges E c) (map_order (ne_merged E) candidateMap))))"

fun process_configurations ::
  "'o nvd_env \<Rightarrow> Config \<Rightarrow> Configuration list \<Rightarrow> Attributes store \<Rightarrow> serror + (Attributes store \<times> affectedPackageCandidate list)" where
  "process_configurations E cfg [] h = Inr (h, [])"
| "process_configurations E cfg (config # configs) h =
     (case processConfiguration E cfg config h of
        Inl e \<Rightarrow> Inl e
      | Inr (h1, cs) \<Rightarrow>
          (case process_configurations E cfg configs h1 of
             Inl e \<Rightarrow> Inl e
           | Inr (h2, rest) \<Rightarrow> Inr (h2, cs @ rest)))"

definition allCandidates ::
  "'o nvd_env \<Rightarrow> Config \<Rightarrow> Configuration list \<Rightarrow> serror + (Attributes store \<times> affectedPackageCandidate list)" where
  "allCandidates E cfg configs =
     (case process_configurations E cfg configs [] of Inl e \<Rightarrow> Inl e | Inr (h, cs) \<Rightarrow> Inr (deduplicateCandidates E cs h))"

section \<open>Packages of CPEs\<close>

text \<open>Names and ecosystems of packages with the CPEs they are known by.\<close>

definition packageSpecifierLookups :: "((string \<times> string) \<times> string list) list" where
  "packageSpecifierLookups =
    [((''anchore-enterprise'', ''python''), [''cpe:2.3:a:anchore:anchore:*:*:*:*:enterprise:*:*:*'',
        ''cpe:2.3:a:anchore:anchore:*:*:*:*:enterprise:python:*:*'',
        ''cpe:2.3:a:anchore:anchore_enterprise:*:*:*:*:*:*:*:*'',
        ''cpe:2.3:a:anchore:anchore_enterprise:*:*:*:*:*:python:*:*'',
        ''cpe:2.3:a:anchore:enterprise:*:*:*:*:*:*:*:*'',
        ''cpe:2.3:a:anchore:enterprise:*:*:*:*:*:python:*:*'']),
     ((''anchore-engine'', ''python''), [''cpe:2.3:a:anchore:engine:*:*:*:*:*:*:*:*'',
        ''cpe:2.3:a:anchore:engine:*:*:*:*:*:python:*:*'',
        ''cpe:2.3:a:anchore:anchore_engine:*:*:*:*:*:*:*:*'',
        ''cpe:2.3:a:anchore:anchore_engine:*:*:*:*:*:python:*:*'']),
     ((''vunnel'', ''python''), [''cpe:2.3:a:anchore:vunnel:*:*:*:*:*:*:*:*'',
        ''cpe:2.3:a:anchore:vunnel:*:*:*:*:*:python:*:*'']),
     ((''github.com/anchore/anchorectl'', ''go-module''), [''cpe:2.3:a:anchore:anchorectl:*:*:*:*:*:*:*:*'',
        ''cpe:2.3:a:anchore:anchorectl:*:*:*:*:*:go:*:*'']),
     ((''github.com/anchore/k8s-inventory'', ''go-module''), [''cpe:2.3:a:anchore:k8s-inventory:*:*:*:*:*:*:*:*'',
        ''cpe:2.3:a:anchore:k8s-inventory:*:*:*:*:*:go:*:*'']),
     ((''github.com/anchore/ecs-inventory'', ''go-module''), [''cpe:2.3:a:anchore:ecs-inventory:*:*:*:*:*:*:*:*'',
        ''cpe:2.3:a:anchore:ecs-inventory:*:*:*:*:*:go:*:*'']),
     ((''github.com/anchore/syft'', ''go-module''), [''cpe:2.3:a:anchore:syft:*:*:*:*:*:*:*:*'',
        ''cpe:2.3:a:anchore:syft:*:*:*:*:*:go:*:*'']),
     ((''github.com/anchore/grype'', ''go-module''), [''cpe:2.3:a:anchore:grype:*:*:*:*:*:*:*:*'',
        ''cpe:2.3:a:anchore:grype:*:*:*:*:*:go:*:*'']),
     ((''github.com/anchore/grype-db'', ''go-module''), [''cpe:2.3:a:anchore:grype-db:*:*:*:*:*:*:*:*'',
        ''cpe:2.3:a:anchore:grype-db:*:*:*:*:*:go:*:*'']),
     ((''github.com/anchore/stereoscope'', ''go-module''), [''cpe:2.3:a:anchore:stereoscope:*:*:*:*:*:*:*:*'',
        ''cpe:2.3:a:anchore:stereoscope:*:*:*:*:*:go:*:*'']),
     ((''github.com/anchore/quill'', ''go-module''), [''cpe:2.3:a:anchore:quill:*:*:*:*:*:*:*:*'',
        ''cpe:2.3:a:anchore:quill:*:*:*:*:*:go:*:*'']),
     ((''github.com/anchore/grant'', ''go-module''), [''cpe:2.3:a:anchore:grant:*:*:*:*:*:*:*:*'',
        ''cpe:2.3:a:anchore:grant:*:*:*:*:*:go:*:*'']),
     ((''github.com/anchore/binny'', ''go-module''), [''cpe:2.3:a:anchore:binny:*:*:*:*:*:*:*:*'',
        ''cpe:2.3:a:anchore:binny:*:*:*:*:*:go:*:*'']),
     ((''yardstick'', ''python''), [''cpe:2.3:a:anchore:yardstick:*:*:*:*:*:*:*:*'',
        ''cpe:2.3:a:anchore:yardstick:*:*:*:*:*:python:*:*'']),
     ((''com.atlassian.confluence:confluence'', ''java-archive''), [''cpe:2.3:a:atlassian:confluence:*:*:*:*:*:*:*:*'',
        ''cpe:2.3:a:atlassian:confluence:*:*:*:*:*:maven:*:*'',
        ''cpe:2.3:a:atlassian:confluence_data_center:*:*:*:*:*:*:*:*'',
        ''cpe:2.3:a:atlassian:confluence_data_center:*:*:*:*:*:maven:*:*'',
        ''cpe:2.3:a:atlassian:confluence_server:*:*:*:*:*:*:*:*'',
        ''cpe:2.3:a:atlassian:confluence_server:*:*:*:*:*:maven:*:*'',
        ''cpe:2.3:a:com.atlassian.confluence:confluence:*:*:*:*:*:*:*:*'',
        ''cpe:2.3:a:com.atlassian.confluence:confluence:*:*:*:*:*:maven:*:*'']),
     ((''com.atlassian.jira:jira-core'', ''java-archive''), [''cpe:2.3:a:atlassian:jira:*:*:*:*:*:*:*:*'',
        ''cpe:2.3:a:atlassian:jira:*:*:*:*:*:maven:*:*'',
        ''cpe:2.3:a:atlassian:jira:*:*:*:*:data_center:*:*:*'',
        ''cpe:2.3:a:atlassian:jira:*:*:*:*:data_center:maven:*:*'',
        ''cpe:2.3:a:atlassian:data_center:*:*:*:*:*:*:*:*'',
        ''cpe:2.3:a:atlassian:data_center:*:*:*:*:*:maven:*:*'',
        ''cpe:2.3:a:atlassian:jira_data_center:*:*:*:*:*:*:*:*'',
        ''cpe:2.3:a:atlassian:jira_data_center:*:*:*:*:*:maven:*:*'',
        ''cpe:2.3:a:atlassian:jira_core_data_center:*:*:*:*:*:*:*:*'',
        ''cpe:2.3:a:atlassian:jira_core_data_center:*:*:*:*:*:maven:*:*'',
        ''cpe:2.3:a:atlassian:jira_software_data_center:*:*:*:*:*:*:*:*'',
        ''cpe:2.3:a:atlassian:jira_software_data_center:*:*:*:*:*:maven:*:*'',
        ''cpe:2.3:a:atlassian:jira_server:*:*:*:*:*:*:*:*'',
        ''cpe:2.3:a:atlassian:jira_server:*:*:*:*:*:maven:*:*'',
        ''cpe:2.3:a:com.atlassian.jira:jira-core:*:*:*:*:*:*:*:*'',
        ''cpe:2.3:a:com.atlassian.jira:jira-core:*:*:*:*:*:maven:*:*'']),
     ((''com.atlassian.bamboo:atlassian-bamboo'', ''java-archive''), [''cpe:2.3:a:atlassian:bamboo:*:*:*:*:*:*:*:*'',
        ''cpe:2.3:a:atlassian:bamboo:*:*:*:*:*:maven:*:*'',
        ''cpe:2.3:a:atlassian:bamboo_data_center:*:*:*:*:*:*:*:*'',
        ''cpe:2.3:a:atlassian:bamboo_data_center:*:*:*:*:*:maven:*:*'',
        ''cpe:2.3:a:atlassian:bamboo_server:*:*:*:*:*:*:*:*'',
        ''cpe:2.3:a:atlassian:bamboo_server:*:*:*:*:*:maven:*:*'',
        ''cpe:2.3:a:com.atlassian.bamboo:atlassian-bamboo:*:*:*:*:*:*:*:*'',
        ''cpe:2.3:a:com.atlassian.bamboo:atlassian-bamboo:*:*:*:*:*:maven:*:*'']),
     ((''com.atlassian.bitbucket.server:bitbucket-service-api'', ''java-archive''), [''cpe:2.3:a:atlassian:bitbucket_data_center:*:*:*:*:*:*:*:*'',
        ''cpe:2.3:a:atlassian:bitbucket_data_center:*:*:*:*:*:maven:*:*'',
        ''cpe:2.3:a:com.atlassian.bitbucket.server:bitbucket-service-api:*:*:*:*:*:*:*:*'',
        ''cpe:2.3:a:com.atlassian.bitbucket.server:bitbucket-service-api:*:*:*:*:*:maven:*:*'']),
     ((''com.atlassian.jira.plugins:insight-discovery'', ''java-archive''), [''cpe:2.3:a:atlassian:assets_discovery_data_center:*:*:*:*:*:*:*:*'',
        ''cpe:2.3:a:atlassian:assets_discovery_data_center:*:*:*:*:*:maven:*:*'',
        ''cpe:2.3:a:com.atlassian.jira.plugins:insight-discovery:*:*:*:*:*:*:*:*'',
        ''cpe:2.3:a:com.atlassian.jira.plugins:insight-discovery:*:*:*:*:*:maven:*:*''])]"

definition buildCPEPackageSpecifierLookup :: "((string \<times> string) \<times> string list) list \<Rightarrow> (string \<times> PackageSpecifier list) list" where
  "buildCPEPackageSpecifierLookup lookups =
     fold (\<lambda>((name, ecosystem), cpes). fold (\<lambda>cpe. append_at cpe \<lparr>ps_Name = name, ps_Ecosystem = ecosystem, ps_CPE = None\<rparr>) cpes) lookups []"

definition CPEPackageSpecifierLookup :: "(string \<times> PackageSpecifier list) list" where
  "CPEPackageSpecifierLookup = buildCPEPackageSpecifierLookup packageSpecifierLookups"

section \<open>Rows\<close>

definition getVersionFormat :: "'o nvd_env \<Rightarrow> Attributes \<Rightarrow> PackageSpecifier option \<Rightarrow> string" where
  "getVersionFormat E c packageSpec =
     (if HasJvmPackageName (cpe_Product c) then ''jvm''
      else let versionType = ParseFormat (de_names (ne_db E)) (case packageSpec of Some spec \<Rightarrow> ps_Ecosystem spec | None \<Rightarrow> cpe_TargetSW c) in
           if versionType \<noteq> UnknownFormat then strings_ToLower (Format_String versionType) else [])"

definition nvd_getFix :: "'o nvd_env \<Rightarrow> Config \<Rightarrow> Attributes \<Rightarrow> affectedCPERange \<Rightarrow> DbFix option" where
  "nvd_getFix E cfg vulnCPE ra =
     (if \<not> cf_InferNVDFixVersions cfg then None
      else
        let unspecified = [''*'', ''-''];
            specified = (\<lambda>v. v \<noteq> [] \<and> v \<notin> set unspecified);
            knownAffected = filter specified [ra_VersionStartIncluding ra, ra_VersionEndIncluding ra]
              @ (if cpe_Version vulnCPE \<notin> set unspecified then [cpe_Version vulnCPE] else []);
            possiblyFixed = filter (\<lambda>v. v \<notin> set knownAffected) (filter specified [ra_VersionEndExcluding ra]) in
        case possiblyFixed of
          [fixVersion] \<Rightarrow>
            Some \<lparr>dbf_Version = fixVersion, dbf_State = FixedStatus,
              dbf_Detail = (case ra_FixInfo ra of
                  None \<Rightarrow> None
                | Some (_, fi) \<Rightarrow>
                    if fixVersion = fx_Version fi
                    then Some \<lparr>fd_Available = Some \<lparr>fa_Date = ne_ParseTime E (fx_Date fi), fa_Kind = fx_Kind fi\<rparr>, fd_References = []\<rparr> else None)\<rparr>
        | _ \<Rightarrow> None)"

definition nvd_getRange :: "'o nvd_env \<Rightarrow> Config \<Rightarrow> Attributes \<Rightarrow> affectedCPERange \<Rightarrow> PackageSpecifier option \<Rightarrow> Range go" where
  "nvd_getRange E cfg c ra packageSpec =
     (let v = \<lparr>dbv_Type = getVersionFormat E c packageSpec, dbv_Constraint = affectedCPERange_String E ra\<rparr>;
          r = (\<lambda>v. \<lparr>rg_Version = v, rg_Fix = nvd_getFix E cfg c ra\<rparr>) in
      if dbv_Type v = [] then Some (r v)
      else map_option (\<lambda>err. r (case err of None \<Rightarrow> v | Some _ \<Rightarrow> v\<lparr>dbv_Type := []\<rparr>)) (ValidateAffectedVersion (ne_db E) v))"

definition nvd_getRanges :: "'o nvd_env \<Rightarrow> Config \<Rightarrow> Attributes \<Rightarrow> affectedCPERange list \<Rightarrow> PackageSpecifier option \<Rightarrow> Range list go" where
  "nvd_getRanges E cfg c ras packageSpec = those (map (\<lambda>ra. nvd_getRange E cfg c ra packageSpec) ras)"

definition getCPEFromAttributes :: "Attributes \<Rightarrow> Cpe" where
  "getCPEFromAttributes a =
     \<lparr>dc_ID = 0, dc_Part = cpe_Part a, dc_Vendor = cpe_Vendor a, dc_Product = cpe_Product a, dc_Edition = cpe_Edition a, dc_Language = cpe_Language a,
      dc_SoftwareEdition = cpe_SWEdition a, dc_TargetHardware = cpe_TargetHW a, dc_TargetSoftware = cpe_TargetSW a, dc_Other = cpe_Other a\<rparr>"

definition encodeCPEs :: "'o nvd_env \<Rightarrow> Attributes list \<Rightarrow> string list" where
  "encodeCPEs E cpes = map (pe_cpe_String (de_penv (ne_db E))) cpes"

definition nvd_package_handle :: "'o nvd_env \<Rightarrow> Config \<Rightarrow> string \<Rightarrow> affectedPackageCandidate \<Rightarrow> PackageSpecifier \<Rightarrow> packageHandle go" where
  "nvd_package_handle E cfg vulnID p spec =
     map_option (\<lambda>ranges. new_handle None
         \<lparr>dp_ID = 0, dp_Ecosystem = ps_Ecosystem spec, dp_Name = ps_Name spec, dp_CPEs = [getCPEFromAttributes (ac_VulnerableCPE p)]\<rparr>
         \<lparr>pb_CVEs = [vulnID], pb_Qualifiers = None, pb_Ranges = ranges\<rparr>)
       (nvd_getRanges E cfg (ac_VulnerableCPE p) (toSlice E (ac_Ranges p)) (Some spec))"

definition affectedApplicationPackage ::
  "'o nvd_env \<Rightarrow> Config \<Rightarrow> string \<Rightarrow> Attributes store \<Rightarrow> affectedPackageCandidate \<Rightarrow> (cpeHandle list \<times> packageHandle list) go" where
  "affectedApplicationPackage E cfg vulnID h p = do {
     let cpe = getCPEFromAttributes (ac_VulnerableCPE p);
     let platforms = contents h (ac_PlatformCPEs p);
     packageHandles \<leftarrow>
       (if platforms \<noteq> [] then Some []
        else case map_of CPEPackageSpecifierLookup (Cpe_String cpe) of
          None \<Rightarrow> Some []
        | Some packageSpecs \<Rightarrow> those (map (nvd_package_handle E cfg vulnID p) packageSpecs));
     ranges \<leftarrow> nvd_getRanges E cfg (ac_VulnerableCPE p) (toSlice E (ac_Ranges p)) None;
     Some ([\<lparr>ch_ID = 0, ch_VulnerabilityID = 0, ch_Vulnerability = None, ch_CpeID = 0, ch_CPE = Some cpe, ch_BlobID = 0,
        ch_BlobValue = Some \<lparr>pb_CVEs = [vulnID],
          pb_Qualifiers = (if platforms \<noteq> [] then Some \<lparr>pq_RpmModularity = None, pq_PlatformCPEs = encodeCPEs E platforms, pq_Architecture = None,
              pq_RootIO = None, pq_GoImports = []\<rparr> else None),
          pb_Ranges = ranges\<rparr>\<rparr>],
       packageHandles)
   }"

definition getAffected :: "'o nvd_env \<Rightarrow> Config \<Rightarrow> CveItem \<Rightarrow> (cpeHandle list \<times> packageHandle list) go" where
  "getAffected E cfg vuln =
     (case allCandidates E cfg (ci_Configurations vuln) of
        Inl _ \<Rightarrow> Some ([], [])
      | Inr (h, cands) \<Rightarrow>
          map_option (\<lambda>rows. (concat (map fst rows), concat (map snd rows)))
            (those (map (affectedApplicationPackage E cfg (ci_ID vuln) h) cands)))"

section \<open>The record\<close>

definition getAssigner :: "CveItem \<Rightarrow> string list" where
  "getAssigner vuln = (case ci_SourceIdentifier vuln of None \<Rightarrow> [] | Some assigner \<Rightarrow> if assigner = [] then [] else [assigner])"

definition UnknownVulnerabilityStatus :: string where "UnknownVulnerabilityStatus = []"

definition nvd_getVulnStatus :: "CveItem \<Rightarrow> string" where
  "nvd_getVulnStatus vuln =
     (case ci_VulnStatus vuln of
        None \<Rightarrow> UnknownVulnerabilityStatus
      | Some status \<Rightarrow>
          let s = strings_TrimSpace (strings_ReplaceAll (strings_ToLower status) '' '' []) in
          if s \<in> set [''reserved'', ''received''] then UnknownVulnerabilityStatus
          else if s \<in> set [''awaitinganalysis'', ''undergoinganalysis''] then VulnerabilityAnalyzing
          else if s = ''disputed'' then VulnerabilityDisputed
          else if s \<in> set [''rejected'', ''reject''] then VulnerabilityRejected
          else if s \<in> set [''modified'', ''analyzed'', ''published''] then VulnerabilityActive
          else UnknownVulnerabilityStatus)"

definition cwePattern :: re where
  "cwePattern = Seq Bol (Seq (Lit ''CWE-'') (Seq (Plus (Cls is_digit)) Eol))"

definition isValidCWE :: "string \<Rightarrow> bool" where
  "isValidCWE cwe =
     (if cwe = [] then False
      else if cwe = ''NVD-CWE-noinfo'' then False
      else if cwe = ''NVD-CWE-Other'' then True
      else regexp_MatchString cwePattern cwe)"

definition getCWEs :: "CveItem \<Rightarrow> CWEHandle list" where
  "getCWEs vuln =
     concat (map (\<lambda>w. map (\<lambda>(_, value). \<lparr>wh_CVE = ci_ID vuln, wh_CWE = value, wh_Source = wk_Source w, wh_Type = wk_Type w\<rparr>)
       (filter (\<lambda>(_, value). isValidCWE value) (wk_Description w))) (ci_Weaknesses vuln))"

definition nvd_getReferences :: "CveItem \<Rightarrow> DbReference list" where
  "nvd_getReferences vuln =
     DeduplicateReferences (\<lparr>dref_URL = ''https://nvd.nist.gov/vuln/detail/'' @ ci_ID vuln, dref_ID = [], dref_Tags = []\<rparr>
       # map (\<lambda>(url, tags). \<lparr>dref_URL = url, dref_ID = [], dref_Tags = sort_Strings (NormalizeReferenceTags tags)\<rparr>)
           (filter (\<lambda>(url, _). url \<noteq> []) (ci_References vuln)))"

definition nvd_transform :: "'o nvd_env \<Rightarrow> Config \<Rightarrow> CveItem \<Rightarrow> ProviderState \<Rightarrow> RelatedEntries go" where
  "nvd_transform E cfg vuln state =
     map_option (\<lambda>(cpeHandles, packageHandles).
         NewEntries (VulnerabilityModel (new_vulnerability state (ci_ID vuln) (nvd_getVulnStatus vuln) (ne_ParseTime E (ci_LastModified vuln))
             (ne_ParseTime E (ci_Published vuln)) None
             \<lparr>vb_ID = ci_ID vuln, vb_Assigners = getAssigner vuln, vb_Description = strings_TrimSpace (CveItem_Description vuln),
              vb_References = nvd_getReferences vuln, vb_Aliases = [], vb_Severities = nvd_getSeverities E vuln, vb_Modifications = []\<rparr>)
           # map AffectedCPEModel cpeHandles @ map AffectedPackageModel (sort_handles packageHandles) @ map CWEModel (getCWEs vuln)))
       (getAffected E cfg vuln)"

text \<open>The zero configuration, \<^const>\<open>None\<close> here, stands for the default one; others have a set of parts.\<close>

definition nvd_Transformer :: "'o nvd_env \<Rightarrow> Config option \<Rightarrow> CveItem \<Rightarrow> ProviderState \<Rightarrow> RelatedEntries go" where
  "nvd_Transformer E cfg = nvd_transform E (case cfg of None \<Rightarrow> defaultConfig | Some c \<Rightarrow> c)"

end
