(* ===== verification/Advisory_Properties.thy ===== *)
theory Advisory_Properties
  imports Feed_Properties Advisory_Feeds
begin

text \<open>
  From the smaller feeds to the database: what known exploited vulnerabilities, exploit prediction scores, end-of-life dates, advisories
  of Microsoft and of GitHub leave in a database that all of them are written to, in any order.
\<close>

section \<open>Records of the feeds\<close>

datatype advisory =
    KevRecord KnownExploitedVulnerability
  | EpssRecord unmarshal_EPSS
  | EolRecord EndOfLifeDateRelease
  | MsrcRecord MSRCVulnerability
  | GithubRecord GitHubAdvisory

text \<open>The entry of a record, if there is one: scores with no date fail, and releases of unknown systems or with no date are skipped.\<close>

definition advisory_entry ::
  "'o db_env \<Rightarrow> syft_types \<Rightarrow> (string \<Rightarrow> int option) \<Rightarrow> ((github_group \<times> GithubFixedIn list) list \<Rightarrow> (github_group \<times> GithubFixedIn list) list)
   \<Rightarrow> advisory \<times> ProviderState \<Rightarrow> RelatedEntries option" where
  "advisory_entry DE S PT order as =
     (case fst as of
        KevRecord k \<Rightarrow> Some (kev_Transform PT k (snd as))
      | EpssRecord e \<Rightarrow> (case epss_Transform PT e (snd as) of Inl _ \<Rightarrow> None | Inr entry \<Rightarrow> Some entry)
      | EolRecord e \<Rightarrow> eol_Transform PT e (snd as)
      | MsrcRecord v \<Rightarrow> Some (msrc_Transform PT v (snd as))
      | GithubRecord v \<Rightarrow> github_Transform DE S PT order v (snd as))"

text \<open>Records that a database of the current schema takes: the scores are all of one date, and no name is one of the Go database.\<close>

definition advisory_ok :: "write_env \<Rightarrow> DbProvider set \<Rightarrow> int \<Rightarrow> (string \<Rightarrow> int option) \<Rightarrow> advisory \<times> ProviderState \<Rightarrow> bool" where
  "advisory_ok E P D PT as \<longleftrightarrow> provider_Model (snd as) \<in> P
     \<and> (case fst as of
          KevRecord k \<Rightarrow> SchemaVer_GreaterOrEqualTo (we_dbVersion E) (schemaver_New 6 0 1)
        | EpssRecord e \<Rightarrow> SchemaVer_GreaterOrEqualTo (we_dbVersion E) (schemaver_New 6 0 2) \<and> PT (ep_Date e) = Some D
        | EolRecord e \<Rightarrow> True
        | MsrcRecord v \<Rightarrow> \<not> strings_HasPrefix (strings_ToLower (ms_ID v)) ''go-''
        | GithubRecord v \<Rightarrow> \<not> strings_HasPrefix (strings_ToLower (ga_GhsaID v)) ''go-'')"

text \<open>An advisory of GitHub on a Go module is held back for the reconciliation.\<close>

definition held_back :: "syft_types \<Rightarrow> advisory \<Rightarrow> bool" where
  "held_back S a \<longleftrightarrow>
     (case a of
        GithubRecord v \<Rightarrow> strings_HasPrefix (strings_ToLower (ga_GhsaID v)) ''ghsa-''
          \<and> (\<exists>f\<in>set (ga_FixedIn v). github_getPackageType S (gf_Ecosystem f) = GoModulePkg)
      | _ \<Rightarrow> False)"

text \<open>A row of the affected packages: for a package, of a vulnerability with a name, with a blob of aliases and ranges.\<close>

definition advisory_row :: "db \<Rightarrow> string \<Rightarrow> DbPackage \<Rightarrow> string list \<Rightarrow> Range list \<Rightarrow> bool" where
  "advisory_row T name pkg cves ranges \<longleftrightarrow>
     (\<exists>r\<in>set (package_table True T). package_row T (Package_cacheKey pkg) (ph_PackageID r)
        \<and> blob_at T (ph_BlobID r) (BlobOfPackage \<lparr>pb_CVEs = cves, pb_Qualifiers = None, pb_Ranges = ranges\<rparr>)
        \<and> (\<exists>vb. vulnerability_stored T (ph_VulnerabilityID r) vb \<and> vb_ID vb = name))"

definition advisory_stored :: "'o db_env \<Rightarrow> syft_types \<Rightarrow> (string \<Rightarrow> int option) \<Rightarrow> db \<Rightarrow> advisory \<Rightarrow> bool" where
  "advisory_stored DE S PT T a \<longleftrightarrow>
     (case a of
        KevRecord k \<Rightarrow> kev_stored T (getKev PT k)
      | EpssRecord e \<Rightarrow> \<exists>r\<in>set (t_Epss T). eh_Cve r = ep_CVE e \<and> eh_Epss r = ep_EPSS e \<and> eh_Percentile r = ep_Percentile e
      | EolRecord e \<Rightarrow> True
      | MsrcRecord v \<Rightarrow> advisory_row T (ms_ID v) (new_package KbPkg (name_Normalize (ms_ProductID v) KbPkg)) [] (msrc_getRanges PT v)
      | GithubRecord v \<Rightarrow> \<forall>f\<in>set (ga_FixedIn v). \<exists>ranges. github_getRanges DE PT f = Some ranges
          \<and> advisory_row T (ga_GhsaID v) (github_getPackage S (gf_Name f, gf_Ecosystem f)) (ga_CVE v) ranges)"

section \<open>Entries of GitHub\<close>

lemma new_package_handle_ok: "package_handle_ok (new_handle None (new_package t n) b)"
  by (simp add: package_handle_ok_def new_handle_def new_package_def package_ok_def)

lemma those_Some: "those xs = Some ys \<Longrightarrow> xs = map Some ys"
  by (induction xs arbitrary: ys) (auto split: option.splits)

text \<open>The handles of an advisory are those of its fixes.\<close>

definition fix_handle :: "syft_types \<Rightarrow> GitHubAdvisory \<Rightarrow> GithubFixedIn \<Rightarrow> Range list \<Rightarrow> packageHandle" where
  "fix_handle S v f ranges =
     new_handle None (github_getPackage S (gf_Name f, gf_Ecosystem f)) \<lparr>pb_CVEs = ga_CVE v, pb_Qualifiers = None, pb_Ranges = ranges\<rparr>"

lemma group_handles_set:
  assumes "group_handles DE S PT v (g, fs) = Some hs" "\<forall>f\<in>set fs. (gf_Name f, gf_Ecosystem f) = g"
  shows "set hs = {fix_handle S v f ranges |f ranges. f \<in> set fs \<and> github_getRanges DE PT f = Some ranges}"
    "\<forall>f\<in>set fs. github_getRanges DE PT f \<noteq> None"
proof -
  from assms(1) have m: "map (\<lambda>f. map_option (\<lambda>ranges. new_handle None (github_getPackage S g)
      \<lparr>pb_CVEs = ga_CVE v, pb_Qualifiers = None, pb_Ranges = ranges\<rparr>) (github_getRanges DE PT f)) fs = map Some hs"
    unfolding group_handles_def fst_conv snd_conv by (rule those_Some)
  then show "\<forall>f\<in>set fs. github_getRanges DE PT f \<noteq> None" using assms(2)
    by (induction fs arbitrary: hs) auto
  have "h \<in> set hs \<longleftrightarrow> (\<exists>f ranges. f \<in> set fs \<and> github_getRanges DE PT f = Some ranges
      \<and> h = new_handle None (github_getPackage S g) \<lparr>pb_CVEs = ga_CVE v, pb_Qualifiers = None, pb_Ranges = ranges\<rparr>)" for h
  proof -
    have "h \<in> set hs \<longleftrightarrow> Some h \<in> set (map Some hs)" by auto
    also have "\<dots> \<longleftrightarrow> (\<exists>f\<in>set fs. map_option (\<lambda>ranges. new_handle None (github_getPackage S g)
      \<lparr>pb_CVEs = ga_CVE v, pb_Qualifiers = None, pb_Ranges = ranges\<rparr>) (github_getRanges DE PT f) = Some h)"
      unfolding m [symmetric] by (auto simp: image_iff eq_commute [of "Some h"])
    finally show ?thesis by auto
  qed
  then show "set hs = {fix_handle S v f ranges |f ranges. f \<in> set fs \<and> github_getRanges DE PT f = Some ranges}"
    using assms(2) unfolding fix_handle_def set_eq_iff by simp (metis (no_types, lifting))
qed

lemma github_handles:
  assumes "github_getAffectedPackage DE S PT order v = Some afs"
  shows "set afs = {fix_handle S v f ranges |f ranges. f \<in> set (ga_FixedIn v) \<and> github_getRanges DE PT f = Some ranges}"
    "\<forall>f\<in>set (ga_FixedIn v). github_getRanges DE PT f \<noteq> None"
proof -
  let ?groups = "github_groupFixedIns v"
  let ?gs = "if is_perm (order ?groups) ?groups then order ?groups else ?groups"
  have set: "set ?gs = set ?groups" using is_perm_mset [of "order ?groups" ?groups] by (auto dest: mset_eq_setD)
  from assms obtain hss where hss: "map (group_handles DE S PT v) ?gs = map Some hss" "set afs = \<Union> (set ` set hss)"
    by (auto simp: github_getAffectedPackage_def Let_def sort_handles_def dest!: those_Some)
  note groups = groups_of [where key = "\<lambda>f. (gf_Name f, gf_Ecosystem f)" and fs = "ga_FixedIn v", OF refl, folded github_groupFixedIns_def]
  have of_group: "\<forall>f\<in>set fs. f \<in> set (ga_FixedIn v) \<and> (gf_Name f, gf_Ecosystem f) = g" if "(g, fs) \<in> set ?groups" for g fs
    using groups(3) [OF that] by auto
  have in_group: "\<exists>g fs. (g, fs) \<in> set ?groups \<and> f \<in> set fs" if f: "f \<in> set (ga_FixedIn v)" for f
  proof -
    have "(gf_Name f, gf_Ecosystem f) \<in> fst ` set ?groups" using f groups(2) by simp
    then obtain fs where "((gf_Name f, gf_Ecosystem f), fs) \<in> set ?groups" by auto
    then show ?thesis using groups(3) f by fastforce
  qed
  have hs: "\<exists>hs\<in>set hss. group_handles DE S PT v gf = Some hs" if "gf \<in> set ?groups" for gf
  proof -
    have "group_handles DE S PT v gf \<in> set (map Some hss)" unfolding hss(1) [symmetric] using that set by simp
    then show ?thesis by auto
  qed
  have gf: "\<exists>gf\<in>set ?groups. group_handles DE S PT v gf = Some hs" if "hs \<in> set hss" for hs
  proof -
    have "Some hs \<in> set (map (group_handles DE S PT v) ?gs)" unfolding hss(1) using that by simp
    then show ?thesis using set by auto
  qed
  show "\<forall>f\<in>set (ga_FixedIn v). github_getRanges DE PT f \<noteq> None"
    using in_group hs group_handles_set(2) of_group by (metis prod.collapse)
  show "set afs = {fix_handle S v f ranges |f ranges. f \<in> set (ga_FixedIn v) \<and> github_getRanges DE PT f = Some ranges}"
  proof (intro set_eqI iffI)
    fix h assume "h \<in> set afs"
    then obtain hs g fs where "hs \<in> set hss" "h \<in> set hs" "(g, fs) \<in> set ?groups" "group_handles DE S PT v (g, fs) = Some hs"
      using hss(2) gf by fastforce
    then show "h \<in> {fix_handle S v f ranges |f ranges. f \<in> set (ga_FixedIn v) \<and> github_getRanges DE PT f = Some ranges}"
      using group_handles_set(1) [of DE S PT v g fs hs] of_group [of g fs] by (smt (verit) mem_Collect_eq)
  next
    fix h assume "h \<in> {fix_handle S v f ranges |f ranges. f \<in> set (ga_FixedIn v) \<and> github_getRanges DE PT f = Some ranges}"
    then obtain f ranges g fs hs where "h = fix_handle S v f ranges" "github_getRanges DE PT f = Some ranges" "f \<in> set fs" "(g, fs) \<in> set ?groups"
      "hs \<in> set hss" "group_handles DE S PT v (g, fs) = Some hs"
      using in_group hs by (smt (verit) mem_Collect_eq)
    then show "h \<in> set afs" using group_handles_set(1) [of DE S PT v g fs hs] of_group [of g fs] hss(2) by auto
  qed
qed

lemma github_entry:
  assumes "github_Transform DE S PT order v state = Some e"
  obtains afs vh vb where "github_getAffectedPackage DE S PT order v = Some afs"
    "e = \<lparr>re_VulnerabilityHandle = Some vh, re_Provider = None, re_Related = map AffectedPackageModel afs\<rparr>"
    "vh_ID vh = 0" "vh_Name vh = ga_GhsaID v" "vh_Provider vh = Some (provider_Model state)" "vh_BlobValue vh = Some vb" "vb_ID vb = ga_GhsaID v"
proof -
  obtain afs where a: "github_getAffectedPackage DE S PT order v = Some afs" using assms by (auto simp: github_Transform_def)
  have rows: "NewEntries (VulnerabilityModel vh # map AffectedPackageModel afs)
      = \<lparr>re_VulnerabilityHandle = Some vh, re_Provider = None, re_Related = map AffectedPackageModel afs\<rparr>" for vh
    by (rule NewEntries_rows) auto
  show thesis using assms a by (intro that [OF a]) (auto simp: github_Transform_def rows new_vulnerability_def)
qed

section \<open>The entries can be written\<close>

lemma provided_entry: "(\<forall>v. m \<noteq> VulnerabilityModel v) \<and> (\<forall>p. m \<noteq> ProviderModel p) \<Longrightarrow> NewEntries [ProviderModel p, m] = \<lparr>re_VulnerabilityHandle = None, re_Provider = Some p, re_Related = [m]\<rparr>"
  by (auto simp: NewEntries_def add_model_def split: build_model.splits)

lemma plain_input:
  assumes "entry_ok E P D e" "\<forall>m\<in>set (re_Related e). \<forall>g. m \<noteq> GoVulnDBModel g"
  shows "input_ok E P D False zero e"
proof -
  have "fst (unwrap_row m) = m" if "m \<in> set (re_Related e)" for m using that assms(2) by (auto simp: unwrap_row_def split: build_model.splits)
  then have "unwrapped e = e" by (simp add: unwrapGoVulnDBPackages_def Let_def map_idI)
  then show ?thesis using assms(1) by (simp add: input_ok_def)
qed

lemma msrc_entry:
  "msrc_Transform PT v state =
     \<lparr>re_VulnerabilityHandle = Some (new_vulnerability state (ms_ID v) VulnerabilityActive None None None
         \<lparr>vb_ID = ms_ID v, vb_Assigners = [], vb_Description = strings_TrimSpace (ms_Summary v),
          vb_References = [\<lparr>dref_URL = ms_Link v, dref_ID = [], dref_Tags = []\<rparr>], vb_Aliases = [], vb_Severities = msrc_getSeverities v,
          vb_Modifications = []\<rparr>),
      re_Provider = None,
      re_Related = [AffectedPackageModel (new_handle None (new_package KbPkg (name_Normalize (ms_ProductID v) KbPkg))
         \<lparr>pb_CVEs = [], pb_Qualifiers = None, pb_Ranges = msrc_getRanges PT v\<rparr>)]\<rparr>"
  unfolding msrc_Transform_def by (rule NewEntries_rows) auto

lemma advisory_input:
  assumes "advisory_entry DE S PT order as = Some e" "advisory_ok E P D PT as"
  shows "input_ok E P D False zero e"
proof (cases "fst as")
  case (KevRecord k)
  then show ?thesis using assms by (intro plain_input)
    (auto simp: advisory_entry_def advisory_ok_def kev_Transform_def provided_entry entry_ok_def row_ok_def getKev_def split: prod.splits)
next
  case (EpssRecord x)
  then show ?thesis using assms by (intro plain_input)
    (auto simp: advisory_entry_def advisory_ok_def epss_Transform_def provided_entry entry_ok_def row_ok_def getEPSS_def split: option.splits)
next
  case (EolRecord x)
  then show ?thesis using assms by (intro plain_input)
    (auto simp: advisory_entry_def advisory_ok_def eol_Transform_def Let_def provided_entry entry_ok_def row_ok_def split: if_splits)
next
  case (MsrcRecord v)
  then show ?thesis using assms by (intro plain_input)
    (auto simp: advisory_entry_def advisory_ok_def msrc_entry new_vulnerability_def entry_ok_def row_ok_def vulnerability_ok_def new_package_handle_ok)
next
  case (GithubRecord v)
  with assms(1) have "github_Transform DE S PT order v (snd as) = Some e" by (simp add: advisory_entry_def)
  then obtain afs vh vb where g: "github_getAffectedPackage DE S PT order v = Some afs"
    "e = \<lparr>re_VulnerabilityHandle = Some vh, re_Provider = None, re_Related = map AffectedPackageModel afs\<rparr>"
    "vh_ID vh = 0" "vh_Provider vh = Some (provider_Model (snd as))" "vh_BlobValue vh = Some vb"
    by (rule github_entry)
  have "package_handle_ok h" if "h \<in> set afs" for h
    using that github_handles(1) [OF g(1)] by (auto simp: fix_handle_def github_getPackage_def Let_def new_package_handle_ok)
  then show ?thesis using g assms(2) by (intro plain_input) (auto simp: entry_ok_def row_ok_def vulnerability_ok_def advisory_ok_def)
qed

lemma written_at_once: "e \<in> set es \<Longrightarrow> (\<And>m. \<not> snd (hold m e)) \<Longrightarrow> e \<in> set (snd (hold_all m es))"
proof (induction es arbitrary: m)
  case (Cons a es)
  obtain m1 held where h: "hold m a = (m1, held)" by fastforce
  have "a = e \<Longrightarrow> \<not> held" using Cons.prems(2) [of m] h by auto
  then show ?case using Cons.IH [of m1] Cons.prems h by (auto split: prod.splits)
qed simp

lemma hold_no_vulnerability: "re_VulnerabilityHandle e = None \<Longrightarrow> \<not> snd (hold m e)"
  by (simp add: hold_def)

lemma advisory_not_held:
  assumes "advisory_entry DE S PT order as = Some e" "advisory_ok E P D PT as" "\<not> held_back S (fst as)"
  shows "\<not> snd (hold m e)"
proof (cases "fst as")
  case (MsrcRecord v)
  have "KbPkg \<noteq> GoModulePkg" by (simp add: KbPkg_def GoModulePkg_def)
  then show ?thesis using MsrcRecord assms
    by (auto simp: advisory_entry_def advisory_ok_def msrc_entry hold_def new_vulnerability_def hasGoModulePackages_def new_handle_def new_package_def Let_def)
next
  case (GithubRecord v)
  with assms(1) have "github_Transform DE S PT order v (snd as) = Some e" by (simp add: advisory_entry_def)
  then obtain afs vh where g: "github_getAffectedPackage DE S PT order v = Some afs"
    "e = \<lparr>re_VulnerabilityHandle = Some vh, re_Provider = None, re_Related = map AffectedPackageModel afs\<rparr>" "vh_Name vh = ga_GhsaID v"
    by (rule github_entry)
  have "hasGoModulePackages e \<Longrightarrow> \<exists>f\<in>set (ga_FixedIn v). github_getPackageType S (gf_Ecosystem f) = GoModulePkg"
    using github_handles(1) [OF g(1)]
    by (auto simp: hasGoModulePackages_def g(2) list_ex_iff fix_handle_def new_handle_def github_getPackage_def new_package_def Let_def)
  then show ?thesis using GithubRecord assms(2,3) g(2,3) by (auto simp: hold_def held_back_def advisory_ok_def Let_def)
qed (use assms in \<open>auto intro!: hold_no_vulnerability simp: advisory_entry_def kev_Transform_def epss_Transform_def eol_Transform_def
  provided_entry Let_def split: option.splits if_splits\<close>)

section \<open>What the entries leave\<close>

lemma entry_row:
  assumes "entry_stored T e" "re_VulnerabilityHandle e = Some vh" "vh_BlobValue vh = Some vb" "vb_ID vb = name"
    "AffectedPackageModel (new_handle None pkg \<lparr>pb_CVEs = cves, pb_Qualifiers = None, pb_Ranges = ranges\<rparr>) \<in> set (re_Related e)"
  shows "advisory_row T name pkg cves ranges"
proof -
  let ?h = "new_handle None pkg \<lparr>pb_CVEs = cves, pb_Qualifiers = None, pb_Ranges = ranges\<rparr>"
  obtain i vb' where i: "row_stored T i (AffectedPackageModel ?h)" "severity_filled vb vb'" "vulnerability_stored T i vb'"
    using assms by (auto simp: entry_stored_def)
  have "vb_ID vb' = name" using i(2) assms(4) by (auto simp: severity_filled_def)
  then show ?thesis using i(1,3) by (auto simp: row_stored_def package_stored_def advisory_row_def new_handle_def)
qed

lemma advisory_of_entry:
  assumes "advisory_entry DE S PT order as = Some e" "entry_stored T e"
  shows "advisory_stored DE S PT T (fst as)"
proof (cases "fst as")
  case (KevRecord k)
  then show ?thesis using assms by (auto simp: advisory_entry_def advisory_stored_def kev_Transform_def provided_entry entry_stored_def row_stored_def)
next
  case (EpssRecord x)
  then show ?thesis using assms
    by (auto simp: advisory_entry_def advisory_stored_def epss_Transform_def provided_entry entry_stored_def row_stored_def getEPSS_def split: option.splits
        intro!: bexI)
next
  case (MsrcRecord v)
  then have "advisory_row T (ms_ID v) (new_package KbPkg (name_Normalize (ms_ProductID v) KbPkg)) [] (msrc_getRanges PT v)"
    using assms by (intro entry_row [OF assms(2)]) (auto simp: advisory_entry_def msrc_entry new_vulnerability_def)
  then show ?thesis using MsrcRecord by (simp add: advisory_stored_def)
next
  case (GithubRecord v)
  with assms(1) have "github_Transform DE S PT order v (snd as) = Some e" by (simp add: advisory_entry_def)
  then obtain afs vh vb where g: "github_getAffectedPackage DE S PT order v = Some afs"
    "e = \<lparr>re_VulnerabilityHandle = Some vh, re_Provider = None, re_Related = map AffectedPackageModel afs\<rparr>"
    "vh_BlobValue vh = Some vb" "vb_ID vb = ga_GhsaID v"
    by (rule github_entry)
  have "\<exists>ranges. github_getRanges DE PT f = Some ranges \<and> advisory_row T (ga_GhsaID v) (github_getPackage S (gf_Name f, gf_Ecosystem f)) (ga_CVE v) ranges"
    if f: "f \<in> set (ga_FixedIn v)" for f
  proof -
    obtain ranges where r: "github_getRanges DE PT f = Some ranges" using github_handles(2) [OF g(1)] f by blast
    then have "fix_handle S v f ranges \<in> set afs" using github_handles(1) [OF g(1)] f by auto
    then have "AffectedPackageModel (fix_handle S v f ranges) \<in> set (re_Related e)" by (simp add: g(2))
    then show ?thesis using r entry_row [OF assms(2) _ g(3,4)] g(2) unfolding fix_handle_def by auto
  qed
  then show ?thesis using GithubRecord by (simp add: advisory_stored_def)
qed (simp add: advisory_stored_def)


text \<open>Releases of CentOS Stream are those of CentOS: a release of one and a release of the other with one version change the same rows.\<close>

theorem centos_stream_is_centos:
  "eol_Transform PT (entry\<lparr>el_Product := ''centos-stream''\<rparr>) state = eol_Transform PT (entry\<lparr>el_Product := ''centos''\<rparr>) state"
proof -
  have "translateProductName ''centos-stream'' = ''centos''" "translateProductName ''centos'' = ''centos''" by code_simp+
  moreover have "getOperatingSystemEOL PT (entry\<lparr>el_Product := a\<rparr>) n = getOperatingSystemEOL PT entry n" for a n
    by (cases entry) (simp only: getOperatingSystemEOL_def EndOfLifeDateRelease.simps EndOfLifeDateRelease.update_convs)
  ultimately show ?thesis by (simp add: eol_Transform_def Let_def)
qed

text \<open>A record of each feed; the advisory of GitHub is on a gem.\<close>

definition sample_types :: syft_types where
  "sample_types = \<lparr>st_PhpComposerPkg = ''php-composer'', st_RustPkg = ''rust-crate'', st_DartPubPkg = ''dart-pub'', st_DotnetPkg = ''dotnet'',
     st_SwiftPkg = ''swift'', st_HexPkg = ''hex'', st_GithubActionPkg = ''github-action'', st_UnknownPkg = ''UnknownPackage'',
     st_TypeByName = (\<lambda>_. ''UnknownPackage'')\<rparr>"

definition sample_kev :: KnownExploitedVulnerability where
  "sample_kev = \<lparr>kv_CveID = ''CVE-1'', kv_VendorProject = ''v'', kv_Product = ''p'', kv_DateAdded = ''2024-01-01'', kv_ShortDescription = ''see [http://a]'',
     kv_RequiredAction = [], kv_DueDate = [], kv_KnownRansomwareCampaignUse = ''Known'', kv_Notes = ''http://b; note'', kv_CWEs = []\<rparr>"

definition sample_epss :: unmarshal_EPSS where
  "sample_epss = \<lparr>ep_CVE = ''CVE-1'', ep_EPSS = 1 / 2, ep_Percentile = 9 / 10, ep_Date = ''2024-01-01''\<rparr>"

definition sample_msrc :: MSRCVulnerability where
  "sample_msrc = \<lparr>ms_CvssVector = [], ms_FixedIn = [\<lparr>mf_ID = ''4480961'', mf_IsLatest = True, mf_AvailableDate = [], mf_AvailableKind = []\<rparr>],
     ms_ID = ''CVE-2'', ms_Link = ''http://m'', ms_ProductID = ''10852'', ms_Severity = ''High'', ms_Summary = [], ms_Vulnerable = [''4480961'']\<rparr>"

definition sample_ghsa :: GitHubAdvisory where
  "sample_ghsa = \<lparr>ga_CVE = [''CVE-3''], ga_CVSS = None, ga_CVSSSeverities = [],
     ga_FixedIn = [\<lparr>gf_Ecosystem = ''gem'', gf_Identifier = ''1.2'', gf_Name = ''rails'', gf_Range = ''< 1.2'', gf_AvailableDate = [], gf_AvailableKind = []\<rparr>],
     ga_Severity = ''High'', ga_Summary = [], ga_GhsaID = ''GHSA-1'', ga_URL = ''http://g'', ga_Published = [], ga_Updated = [], ga_Withdrawn = [],
     ga_References = []\<rparr>"


end
