(* ===== verification/Nvd_Properties.thy ===== *)
theory Nvd_Properties
  imports Nvd_Transform Advisory_Properties
begin

text \<open>
  What is proved of the transformer of the National Vulnerability Database: every vulnerable CPE of a record has a row with its range, from the
  candidates to the database; and where merging candidates goes wrong.
\<close>

section \<open>Sets of ranges\<close>

lemma set_addRanges [simp]: "set (addRanges rs s) = set rs \<union> set s"
  unfolding addRanges_def by (induction rs arbitrary: s) auto

lemma set_newAffectedRanges [simp]: "set (newAffectedRanges rs) = set rs"
  by (simp add: newAffectedRanges_def)

lemma set_map_order [simp]: "set (map_order order xs) = set xs"
  by (simp add: map_order_def set_guarded_perm)

lemma set_toSlice [simp]: "set (toSlice E s) = set s"
  by (simp add: toSlice_def)

section \<open>Maps of candidates\<close>

text \<open>Candidates are filed under the keys of their CPEs.  Merging keeps that and what has been merged: a map has a set of ranges under a key.\<close>

definition well_filed :: "(string \<times> affectedPackageCandidate) list \<Rightarrow> bool" where
  "well_filed al \<longleftrightarrow> (\<forall>(k, c)\<in>set al. cpeKey (ac_VulnerableCPE c) = k)"

definition has_ranges :: "(string \<times> affectedPackageCandidate) list \<Rightarrow> string \<Rightarrow> affectedCPERange set \<Rightarrow> bool" where
  "has_ranges al k R \<longleftrightarrow> (\<exists>c. (k, c) \<in> set al \<and> map_of al k = Some c \<and> R \<subseteq> set (ac_Ranges c))"

definition merges :: "affectedPackageCandidate \<Rightarrow> (string \<times> affectedPackageCandidate) list \<Rightarrow> (string \<times> affectedPackageCandidate) list \<Rightarrow> bool" where
  "merges c al al' \<longleftrightarrow> (well_filed al \<longrightarrow> well_filed al') \<and> has_ranges al' (cpeKey (ac_VulnerableCPE c)) (set (ac_Ranges c))
     \<and> (\<forall>k R. has_ranges al k R \<longrightarrow> has_ranges al' k R)"

lemma filed_update: "well_filed al \<Longrightarrow> cpeKey (ac_VulnerableCPE c) = k \<Longrightarrow> well_filed (AList.update k c al)"
  by (induction al) (auto simp: well_filed_def)

lemma filed_key: "well_filed al \<Longrightarrow> map_of al k = Some c \<Longrightarrow> cpeKey (ac_VulnerableCPE c) = k"
  by (auto simp: well_filed_def dest: map_of_SomeD)

lemma has_update: "R \<subseteq> set (ac_Ranges c) \<Longrightarrow> has_ranges (AList.update k c al) k R"
  by (auto simp: has_ranges_def update_conv' map_of_SomeD)

lemma has_update_other: "has_ranges al k R \<Longrightarrow> k' \<noteq> k \<Longrightarrow> has_ranges (AList.update k' c al) k R"
  by (auto simp: has_ranges_def update_conv' map_of_SomeD)

lemma merges_update:
  assumes "cpeKey (ac_VulnerableCPE d) = k" "cpeKey (ac_VulnerableCPE c) = k" "set (ac_Ranges c) \<subseteq> set (ac_Ranges d)"
    "\<And>e. map_of al k = Some e \<Longrightarrow> set (ac_Ranges e) \<subseteq> set (ac_Ranges d)"
  shows "merges c al (AList.update k d al)"
proof -
  have "has_ranges (AList.update k d al) k' R" if "has_ranges al k' R" for k' R
  proof (cases "k' = k")
    case True
    with that assms(4) have "R \<subseteq> set (ac_Ranges d)" by (auto simp: has_ranges_def)
    then show ?thesis using True has_update by simp
  qed (use that has_update_other in auto)
  then show ?thesis using assms filed_update has_update by (auto simp: merges_def)
qed

lemma add_unique_merges:
  assumes "well_filed al"
  shows "merges c al (add_unique E c al)"
proof (cases "map_of al (cpeKey (ac_VulnerableCPE c))")
  case None
  then show ?thesis by (auto simp: add_unique_def intro!: merges_update)
next
  case (Some d)
  then show ?thesis using filed_key [OF assms Some] by (auto simp: add_unique_def intro!: merges_update)
qed

lemma merge_candidate_merges:
  assumes "well_filed (snd hm)"
  shows "merges c (snd hm) (snd (merge_candidate E c hm))"
proof (cases "map_of (snd hm) (cpeKey (ac_VulnerableCPE c))")
  case None
  then show ?thesis by (auto simp: merge_candidate_def Let_def case_prod_unfold intro!: merges_update)
next
  case (Some d)
  obtain h al where hm: "hm = (h, al)" by fastforce
  show ?thesis using Some filed_key [OF assms Some] by (auto simp: hm merge_candidate_def Let_def case_prod_unfold intro!: merges_update)
qed

lemma fold_merges:
  assumes step: "\<And>c s. well_filed (f s) \<Longrightarrow> merges c (f s) (f (g c s))" and "well_filed (f s)"
  shows "well_filed (f (fold g cs s))" "c \<in> set cs \<Longrightarrow> has_ranges (f (fold g cs s)) (cpeKey (ac_VulnerableCPE c)) (set (ac_Ranges c))"
    "has_ranges (f s) k R \<Longrightarrow> has_ranges (f (fold g cs s)) k R"
proof -
  have "well_filed (f (fold g cs s)) \<and> (\<forall>k R. has_ranges (f s) k R \<longrightarrow> has_ranges (f (fold g cs s)) k R)
      \<and> (\<forall>c\<in>set cs. has_ranges (f (fold g cs s)) (cpeKey (ac_VulnerableCPE c)) (set (ac_Ranges c)))"
    using assms(2)
  proof (induction cs arbitrary: s)
    case (Cons a cs)
    have m: "merges a (f s) (f (g a s))" by (rule step [OF Cons.prems])
    then have "well_filed (f (g a s))" using Cons.prems by (simp add: merges_def)
    with Cons.IH [OF this] m show ?case by (simp add: merges_def)
  qed simp
  then show "well_filed (f (fold g cs s))" "c \<in> set cs \<Longrightarrow> has_ranges (f (fold g cs s)) (cpeKey (ac_VulnerableCPE c)) (set (ac_Ranges c))"
    "has_ranges (f s) k R \<Longrightarrow> has_ranges (f (fold g cs s)) k R" by blast+
qed

lemma filed_Nil [simp]: "well_filed []"
  by (simp add: well_filed_def)

lemma fold_unique:
  "well_filed (fold (add_unique E) cs [])" "c \<in> set cs \<Longrightarrow> has_ranges (fold (add_unique E) cs []) (cpeKey (ac_VulnerableCPE c)) (set (ac_Ranges c))"
  by (rule fold_merges [where f = "\<lambda>s. s"]; simp add: add_unique_merges)+

lemma fold_candidates:
  "well_filed (snd (fold (merge_candidate E) cs (h, [])))"
  "c \<in> set cs \<Longrightarrow> has_ranges (snd (fold (merge_candidate E) cs (h, []))) (cpeKey (ac_VulnerableCPE c)) (set (ac_Ranges c))"
  by (rule fold_merges [where f = snd]; simp add: merge_candidate_merges)+

section \<open>Vulnerable matches are candidates\<close>

text \<open>A list of candidates has a CPE and ranges if one of them has the CPE's key and the ranges.\<close>

definition candidates_have :: "affectedPackageCandidate list \<Rightarrow> string \<Rightarrow> affectedCPERange set \<Rightarrow> bool" where
  "candidates_have cs k R \<longleftrightarrow> (\<exists>c\<in>set cs. cpeKey (ac_VulnerableCPE c) = k \<and> R \<subseteq> set (ac_Ranges c))"

lemma covers_append [simp]: "candidates_have (xs @ ys) k R \<longleftrightarrow> candidates_have xs k R \<or> candidates_have ys k R"
  by (auto simp: candidates_have_def)

definition vulnerable_in :: "'o nvd_env \<Rightarrow> Config \<Rightarrow> CpeMatch list \<Rightarrow> CpeMatch \<Rightarrow> Attributes \<Rightarrow> bool" where
  "vulnerable_in E cfg ms m attr \<longleftrightarrow>
     m \<in> set ms \<and> cm_Vulnerable m \<and> ne_NewAttributes E (cm_Criteria m) = Some attr \<and> cpe_Part attr \<in> set (cf_CPEParts cfg)"

lemma extract_covers:
  assumes "extract_vulnerable E cfg ms = Inr cs" "vulnerable_in E cfg ms m attr"
  shows "candidates_have cs (cpeKey attr) (set (match_ranges E m attr))"
  using assms
proof (induction ms arbitrary: cs)
  case (Cons a ms)
  then show ?case
    by (fastforce simp: vulnerable_in_def candidates_have_def NewAttributes_def split: if_splits option.splits sum.splits)
qed (simp add: vulnerable_in_def)

lemma fold_unique_covers:
  assumes "candidates_have vulns k R" and that: "\<And>c. ac_VulnerableCPE (f c) = ac_VulnerableCPE c \<and> set (ac_Ranges c) \<subseteq> set (ac_Ranges (f c))"
  shows "candidates_have (map (\<lambda>(_, c). f c) (map_order order (fold (add_unique E) vulns []))) k R"
proof -
  let ?al = "fold (add_unique E) vulns []"
  obtain c where c: "c \<in> set vulns" "cpeKey (ac_VulnerableCPE c) = k" "R \<subseteq> set (ac_Ranges c)" using assms(1) by (auto simp: candidates_have_def)
  obtain d where "(k, d) \<in> set ?al" "set (ac_Ranges c) \<subseteq> set (ac_Ranges d)"
    using fold_unique(2) [OF c(1), of E] c(2) unfolding has_ranges_def by blast
  moreover have "cpeKey (ac_VulnerableCPE d) = k" using fold_unique(1) [of E vulns] \<open>(k, d) \<in> set ?al\<close> by (auto simp: well_filed_def)
  moreover have "f d \<in> set (map (\<lambda>(_, c). f c) (map_order order ?al))" using \<open>(k, d) \<in> set ?al\<close> by force
  ultimately show ?thesis using that [of d] c(3) unfolding candidates_have_def by (metis order_trans)
qed

lemma dedup_covers:
  assumes "candidates_have cs k R" "deduplicateCandidates E cs h = (h', cs')"
  shows "candidates_have cs' k R"
proof -
  let ?al = "snd (fold (merge_candidate E) cs (h, []))"
  obtain c where c: "c \<in> set cs" "cpeKey (ac_VulnerableCPE c) = k" "R \<subseteq> set (ac_Ranges c)" using assms by (auto simp: candidates_have_def)
  obtain d where d: "(k, d) \<in> set ?al" "set (ac_Ranges c) \<subseteq> set (ac_Ranges d)"
    using fold_candidates(2) [OF c(1), of E h] c(2) unfolding has_ranges_def by blast
  moreover have "cpeKey (ac_VulnerableCPE d) = k" using fold_candidates(1) [of E cs h] d(1) by (auto simp: well_filed_def)
  moreover have "with_ranges E d \<in> set cs'" using assms(2) d(1) by (force simp: deduplicateCandidates_def split: prod.splits)
  moreover have "ac_VulnerableCPE (with_ranges E d) = ac_VulnerableCPE d" "set (ac_Ranges d) \<subseteq> set (ac_Ranges (with_ranges E d))"
    by (simp_all add: with_ranges_def)
  ultimately show ?thesis using c(3) unfolding candidates_have_def by (metis order_trans)
qed

lemma and_loop_covers:
  assumes "and_nodes_loop E cfg nodes vulns hs = Inr (vulns', hs')"
  shows "candidates_have vulns k R \<Longrightarrow> candidates_have vulns' k R"
    "node \<in> set nodes \<Longrightarrow> nd_Operator node = nvd_Or \<Longrightarrow> vulnerable_in E cfg (nd_CpeMatch node) m attr
      \<Longrightarrow> candidates_have vulns' (cpeKey attr) (set (match_ranges E m attr))"
proof -
  have "(candidates_have vulns k R \<longrightarrow> candidates_have vulns' k R) \<and> (node \<in> set nodes \<and> nd_Operator node = nvd_Or \<and> vulnerable_in E cfg (nd_CpeMatch node) m attr
      \<longrightarrow> candidates_have vulns' (cpeKey attr) (set (match_ranges E m attr)))" for k R
    using assms
  proof (induction nodes arbitrary: vulns hs k R)
    case (Cons a nodes)
    show ?case
    proof (cases "nd_Operator a = nvd_Or")
      case True
      with Cons.prems obtain vs ps where vs: "extractVulnerableCPEs E a cfg = Inr vs"
        "and_nodes_loop E cfg nodes (vulns @ vs) (go_append (ne_grow E) zero_Attributes ps hs) = Inr (vulns', hs')"
        by (auto split: sum.splits)
      have "node = a \<and> vulnerable_in E cfg (nd_CpeMatch node) m attr \<longrightarrow> candidates_have vs (cpeKey attr) (set (match_ranges E m attr))"
        using extract_covers vs(1) unfolding extractVulnerableCPEs_def by metis
      then show ?thesis using Cons.IH [OF vs(2), of k R] Cons.IH [OF vs(2), of "cpeKey attr" "set (match_ranges E m attr)"] by auto
    next
      case False
      then show ?thesis using Cons.IH [of vulns hs k R] Cons.prems by auto
    qed
  qed simp
  then show "candidates_have vulns k R \<Longrightarrow> candidates_have vulns' k R"
    "node \<in> set nodes \<Longrightarrow> nd_Operator node = nvd_Or \<Longrightarrow> vulnerable_in E cfg (nd_CpeMatch node) m attr
      \<Longrightarrow> candidates_have vulns' (cpeKey attr) (set (match_ranges E m attr))" by blast+
qed

lemma processANDNodes_covers:
  assumes "processANDNodes E cfg nodes h = Inr (h', cs)" "node \<in> set nodes" "nd_Operator node = nvd_Or"
    "vulnerable_in E cfg (nd_CpeMatch node) m attr"
  shows "candidates_have cs (cpeKey attr) (set (match_ranges E m attr))"
proof -
  obtain vulns hs platforms where a: "and_nodes_loop E cfg nodes [] (h, nil_slice) = Inr (vulns, hs, platforms)"
    "cs = map (\<lambda>(_, c). if sl_len platforms = 0 then c else c\<lparr>ac_PlatformCPEs := platforms\<rparr>) (map_order (ne_unique E) (fold (add_unique E) vulns []))"
    using assms(1) by (auto simp: processANDNodes_def Let_def split: sum.splits)
  show ?thesis unfolding a(2) by (rule fold_unique_covers [OF and_loop_covers(2) [OF a(1) assms(2-4)]]) simp
qed

text \<open>The candidates of one node of a disjunction.\<close>

definition node_candidates :: "'o nvd_env \<Rightarrow> Config \<Rightarrow> Node \<Rightarrow> Attributes store \<Rightarrow> serror + (Attributes store \<times> affectedPackageCandidate list)" where
  "node_candidates E cfg node h =
     (if nd_Operator node = nvd_And then processANDNodes E cfg [node] h
      else if nd_Operator node = nvd_Or then (case extractVulnerableCPEs E node cfg of Inl e \<Rightarrow> Inl e | Inr cs \<Rightarrow> Inr (h, cs))
      else Inr (h, []))"

lemma processORNodes_step:
  "processORNodes E cfg (node # nodes) h =
     (case node_candidates E cfg node h of
        Inl e \<Rightarrow> Inl e
      | Inr (h1, cs) \<Rightarrow> (case processORNodes E cfg nodes h1 of Inl e \<Rightarrow> Inl e | Inr (h2, rest) \<Rightarrow> Inr (h2, cs @ rest)))"
  by (simp add: node_candidates_def)

declare processORNodes.simps(2) [simp del]

lemma processORNodes_covers:
  assumes "processORNodes E cfg nodes h = Inr (h', cs)" "node \<in> set nodes" "nd_Operator node = nvd_Or"
    "vulnerable_in E cfg (nd_CpeMatch node) m attr"
  shows "candidates_have cs (cpeKey attr) (set (match_ranges E m attr))"
  using assms(1,2)
proof (induction nodes arbitrary: h h' cs)
  case (Cons a nodes)
  from Cons.prems(1) obtain h1 cs1 rest where n: "cs = cs1 @ rest" "processORNodes E cfg nodes h1 = Inr (h', rest)" "node_candidates E cfg a h = Inr (h1, cs1)"
    by (auto simp: processORNodes_step split: sum.splits)
  have r: "cs = cs1 @ rest" "processORNodes E cfg nodes h1 = Inr (h', rest)" "nd_Operator a = nvd_Or \<Longrightarrow> extractVulnerableCPEs E a cfg = Inr cs1"
    using n by (auto simp: node_candidates_def nvd_And_def nvd_Or_def split: sum.splits)
  show ?case
  proof (cases "node = a")
    case True
    then have "candidates_have cs1 (cpeKey attr) (set (match_ranges E m attr))"
      using extract_covers r(3) assms(3,4) unfolding extractVulnerableCPEs_def by metis
    then show ?thesis by (simp add: r(1))
  next
    case False
    then show ?thesis using Cons.IH [OF r(2)] Cons.prems(2) r(1) by simp
  qed
qed simp

lemma processConfiguration_covers:
  assumes "processConfiguration E cfg config h = Inr (h', cs)" "node \<in> set (cg_Nodes config)" "nd_Operator node = nvd_Or"
    "vulnerable_in E cfg (nd_CpeMatch node) m attr"
  shows "candidates_have cs (cpeKey attr) (set (match_ranges E m attr))"
  using assms processANDNodes_covers processORNodes_covers by (metis processConfiguration_def)

text \<open>A vulnerable match of a record: of a node that is a disjunction, in any of its configurations.\<close>

definition vulnerable_match :: "'o nvd_env \<Rightarrow> Config \<Rightarrow> CveItem \<Rightarrow> CpeMatch \<Rightarrow> Attributes \<Rightarrow> bool" where
  "vulnerable_match E cfg vuln m attr \<longleftrightarrow>
     (\<exists>config\<in>set (ci_Configurations vuln). \<exists>node\<in>set (cg_Nodes config). nd_Operator node = nvd_Or \<and> vulnerable_in E cfg (nd_CpeMatch node) m attr)"

lemma process_configurations_covers:
  assumes "process_configurations E cfg configs h = Inr (h', cs)" "config \<in> set configs" "node \<in> set (cg_Nodes config)" "nd_Operator node = nvd_Or"
    "vulnerable_in E cfg (nd_CpeMatch node) m attr"
  shows "candidates_have cs (cpeKey attr) (set (match_ranges E m attr))"
  using assms(1,2)
proof (induction configs arbitrary: h h' cs)
  case (Cons a configs)
  from Cons.prems(1) obtain h1 cs1 rest where r: "cs = cs1 @ rest" "processConfiguration E cfg a h = Inr (h1, cs1)"
    "process_configurations E cfg configs h1 = Inr (h', rest)"
    by (auto split: sum.splits)
  then show ?case using Cons.IH [OF r(3)] Cons.prems(2) processConfiguration_covers [OF r(2) _ assms(4,5)] assms(3) by auto
qed simp

lemma candidates_cover:
  assumes "allCandidates E cfg (ci_Configurations vuln) = Inr (h, cs)" "vulnerable_match E cfg vuln m attr"
  shows "candidates_have cs (cpeKey attr) (set (match_ranges E m attr))"
proof -
  obtain h1 cs1 where p: "process_configurations E cfg (ci_Configurations vuln) [] = Inr (h1, cs1)" "deduplicateCandidates E cs1 h1 = (h, cs)"
    using assms(1) by (auto simp: allCandidates_def split: sum.splits)
  then show ?thesis using assms(2) process_configurations_covers [OF p(1)] dedup_covers [OF _ p(2)] unfolding vulnerable_match_def by metis
qed

section \<open>Rows of candidates\<close>

text \<open>Parts of CPEs without a bar, which is what separates them in the keys.\<close>

definition key_parts :: "Attributes \<Rightarrow> string list" where
  "key_parts c = [cpe_Part c, cpe_Vendor c, cpe_Product c, cpe_Edition c, cpe_SWEdition c, cpe_TargetSW c, cpe_TargetHW c, cpe_Other c, cpe_Language c]"

definition plain :: "Attributes \<Rightarrow> bool" where
  "plain c \<longleftrightarrow> list_all (\<lambda>s. CHR ''|'' \<notin> set s) (key_parts c)"

lemma same_key:
  assumes "plain a" "plain b" "cpeKey a = cpeKey b"
  shows "getCPEFromAttributes a = getCPEFromAttributes b"
proof -
  have "split_char (CHR ''|'') (cpeKey c) = key_parts c" if "plain c" for c
    using that split_char_Join [of "key_parts c" "CHR ''|''"] by (simp add: cpeKey_def plain_def list_all_iff key_parts_def)
  then have "key_parts a = key_parts b" using assms by metis
  then show ?thesis by (simp add: key_parts_def getCPEFromAttributes_def)
qed

text \<open>The CPEs of candidates are those of matches, so they are plain if those of matches are.\<close>

definition parsed :: "'o nvd_env \<Rightarrow> (Attributes \<Rightarrow> bool) \<Rightarrow> bool" where
  "parsed E Q \<longleftrightarrow> (\<forall>criteria attr. ne_NewAttributes E criteria = Some attr \<longrightarrow> Q attr)"

definition all_cpes :: "(Attributes \<Rightarrow> bool) \<Rightarrow> affectedPackageCandidate list \<Rightarrow> bool" where
  "all_cpes Q cs \<longleftrightarrow> (\<forall>c\<in>set cs. Q (ac_VulnerableCPE c))"

lemma all_cpes_simps [simp]:
  "all_cpes Q []" "all_cpes Q (c # cs) \<longleftrightarrow> Q (ac_VulnerableCPE c) \<and> all_cpes Q cs" "all_cpes Q (xs @ ys) \<longleftrightarrow> all_cpes Q xs \<and> all_cpes Q ys"
  by (auto simp: all_cpes_def)

lemma extract_cpes:
  assumes "parsed E Q" "extract_vulnerable E cfg ms = Inr cs"
  shows "all_cpes Q cs"
  using assms(2)
proof (induction ms arbitrary: cs)
  case (Cons m ms)
  then show ?case using assms(1)
    by (auto simp: parsed_def NewAttributes_def split: if_splits option.splits sum.splits)
qed simp

lemma update_cpes: "all_cpes Q (map snd al) \<Longrightarrow> Q (ac_VulnerableCPE c) \<Longrightarrow> all_cpes Q (map snd (AList.update k c al))"
  by (induction al) auto

lemma looked_up_cpe: "all_cpes Q (map snd al) \<Longrightarrow> map_of al k = Some c \<Longrightarrow> Q (ac_VulnerableCPE c)"
  by (force simp: all_cpes_def dest: map_of_SomeD)

lemma fold_unique_cpes: "all_cpes Q vulns \<Longrightarrow> all_cpes Q (map snd al) \<Longrightarrow> all_cpes Q (map snd (fold (add_unique E) vulns al))"
proof (induction vulns arbitrary: al)
  case (Cons c vulns)
  have "all_cpes Q (map snd (add_unique E c al))"
    unfolding add_unique_def Let_def using Cons.prems looked_up_cpe [OF Cons.prems(2)] by (auto split: option.splits intro!: update_cpes)
  then show ?case using Cons by simp
qed simp

lemma fold_candidates_cpes: "all_cpes Q cs \<Longrightarrow> all_cpes Q (map snd (snd hm)) \<Longrightarrow> all_cpes Q (map snd (snd (fold (merge_candidate E) cs hm)))"
proof (induction cs arbitrary: hm)
  case (Cons c cs)
  obtain h al where hm: "hm = (h, al)" by fastforce
  have "all_cpes Q (map snd (snd (merge_candidate E c hm)))"
    unfolding merge_candidate_def Let_def hm using Cons.prems looked_up_cpe [OF Cons.prems(2)] hm
    by (auto split: option.splits prod.splits intro!: update_cpes)
  then show ?case using Cons by simp
qed simp

lemma and_loop_cpes:
  assumes "parsed E Q"
  shows "and_nodes_loop E cfg nodes vulns hs = Inr (vulns', hs') \<Longrightarrow> all_cpes Q vulns \<Longrightarrow> all_cpes Q vulns'"
proof (induction nodes arbitrary: vulns hs)
  case (Cons a nodes)
  show ?case
  proof (cases "nd_Operator a = nvd_Or")
    case True
    with Cons.prems obtain vs ps where vs: "extract_vulnerable E cfg (nd_CpeMatch a) = Inr vs"
      "and_nodes_loop E cfg nodes (vulns @ vs) (go_append (ne_grow E) zero_Attributes ps hs) = Inr (vulns', hs')"
      by (auto simp: extractVulnerableCPEs_def split: sum.splits)
    then show ?thesis using Cons.IH [OF vs(2)] Cons.prems(2) extract_cpes [OF assms vs(1)] by auto
  next
    case False
    then show ?thesis using Cons by simp
  qed
qed simp

lemma processANDNodes_cpes:
  assumes "parsed E Q" "processANDNodes E cfg nodes h = Inr (h', cs)"
  shows "all_cpes Q cs"
proof -
  obtain vulns hs platforms where a: "and_nodes_loop E cfg nodes [] (h, nil_slice) = Inr (vulns, hs, platforms)"
    "cs = map (\<lambda>(_, c). if sl_len platforms = 0 then c else c\<lparr>ac_PlatformCPEs := platforms\<rparr>) (map_order (ne_unique E) (fold (add_unique E) vulns []))"
    using assms(2) by (auto simp: processANDNodes_def Let_def split: sum.splits)
  have "all_cpes Q (map snd (fold (add_unique E) vulns []))" using and_loop_cpes [OF assms(1) a(1)] by (intro fold_unique_cpes) simp_all
  then show ?thesis by (auto simp: a(2) all_cpes_def)
qed

lemma processORNodes_cpes:
  assumes "parsed E Q"
  shows "processORNodes E cfg nodes h = Inr (h', cs) \<Longrightarrow> all_cpes Q cs"
proof (induction nodes arbitrary: h h' cs)
  case (Cons a nodes)
  from Cons.prems obtain h1 cs1 rest where r: "cs = cs1 @ rest" "processORNodes E cfg nodes h1 = Inr (h', rest)"
    "node_candidates E cfg a h = Inr (h1, cs1)"
    by (auto simp: processORNodes_step split: sum.splits)
  have "all_cpes Q cs1"
    using r(3) processANDNodes_cpes [OF assms, of cfg "[a]" h h1 cs1] extract_cpes [OF assms, of cfg "nd_CpeMatch a" cs1]
    by (auto simp: node_candidates_def extractVulnerableCPEs_def split: if_splits sum.splits)
  then show ?case using Cons.IH [OF r(2)] r(1) by simp
qed simp

lemma candidates_cpes:
  assumes "parsed E Q" "allCandidates E cfg configs = Inr (h, cs)"
  shows "all_cpes Q cs"
proof -
  have "process_configurations E cfg configs h0 = Inr (h', cs') \<Longrightarrow> all_cpes Q cs'" for h0 h' cs'
  proof (induction configs arbitrary: h0 h' cs')
    case (Cons a configs)
    from Cons.prems obtain h1 cs1 rest where r: "cs' = cs1 @ rest" "processConfiguration E cfg a h0 = Inr (h1, cs1)"
      "process_configurations E cfg configs h1 = Inr (h', rest)"
      by (auto split: sum.splits)
    have "all_cpes Q cs1" using r(2) processANDNodes_cpes [OF assms(1)] processORNodes_cpes [OF assms(1)] unfolding processConfiguration_def by metis
    then show ?case using Cons.IH [OF r(3)] r(1) by simp
  qed simp
  moreover obtain h1 cs1 where p: "process_configurations E cfg configs [] = Inr (h1, cs1)" "deduplicateCandidates E cs1 h1 = (h, cs)"
    using assms(2) by (auto simp: allCandidates_def split: sum.splits)
  ultimately have "all_cpes Q (map snd (snd (fold (merge_candidate E) cs1 (h1, []))))" by (intro fold_candidates_cpes) simp_all
  then have "all_cpes Q (map snd (map_order (ne_merged E) (snd (fold (merge_candidate E) cs1 (h1, [])))))" by (simp add: all_cpes_def)
  then show ?thesis using p(2) by (fastforce simp: deduplicateCandidates_def all_cpes_def with_ranges_def split: prod.splits)
qed

text \<open>What a vulnerable match leaves among the rows.\<close>

definition range_listed :: "'o nvd_env \<Rightarrow> PackageBlob \<Rightarrow> affectedCPERange \<Rightarrow> bool" where
  "range_listed E b ra \<longleftrightarrow> (\<exists>r\<in>set (pb_Ranges b). dbv_Constraint (rg_Version r) = affectedCPERange_String E ra)"

lemma getRange_constraint: "nvd_getRange E cfg c ra spec = Some r \<Longrightarrow> dbv_Constraint (rg_Version r) = affectedCPERange_String E ra"
  by (auto simp: nvd_getRange_def Let_def split: if_splits option.splits)

lemma candidate_row:
  assumes "affectedApplicationPackage E cfg name h p = Some (cpes, pkgs)"
  shows "\<exists>row b. cpes = [row] \<and> cpe_handle_ok row \<and> ch_CPE row = Some (getCPEFromAttributes (ac_VulnerableCPE p)) \<and> ch_BlobValue row = Some b
    \<and> pb_CVEs b = [name] \<and> (\<forall>ra\<in>set (ac_Ranges p). range_listed E b ra)"
proof -
  obtain ranges where r: "nvd_getRanges E cfg (ac_VulnerableCPE p) (toSlice E (ac_Ranges p)) None = Some ranges"
    "cpes = [\<lparr>ch_ID = 0, ch_VulnerabilityID = 0, ch_Vulnerability = None, ch_CpeID = 0, ch_CPE = Some (getCPEFromAttributes (ac_VulnerableCPE p)), ch_BlobID = 0,
        ch_BlobValue = Some \<lparr>pb_CVEs = [name],
          pb_Qualifiers = (if contents h (ac_PlatformCPEs p) \<noteq> [] then Some \<lparr>pq_RpmModularity = None, pq_PlatformCPEs = encodeCPEs E (contents h (ac_PlatformCPEs p)), pq_Architecture = None,
              pq_RootIO = None, pq_GoImports = []\<rparr> else None),
          pb_Ranges = ranges\<rparr>\<rparr>]"
    using assms unfolding affectedApplicationPackage_def Let_def by (auto split: Option.bind_splits)
  have m: "map (\<lambda>ra. nvd_getRange E cfg (ac_VulnerableCPE p) ra None) (toSlice E (ac_Ranges p)) = map Some ranges"
    using r(1) unfolding nvd_getRanges_def by (rule those_Some)
  have "\<exists>g\<in>set ranges. dbv_Constraint (rg_Version g) = affectedCPERange_String E ra" if "ra \<in> set (ac_Ranges p)" for ra
  proof -
    have "nvd_getRange E cfg (ac_VulnerableCPE p) ra None \<in> set (map Some ranges)" unfolding m [symmetric] using that by simp
    then show ?thesis using getRange_constraint by force
  qed
  then show ?thesis by (auto simp: r(2) cpe_handle_ok_def range_listed_def getCPEFromAttributes_def)
qed

lemma nvd_rows:
  assumes "getAffected E cfg vuln = Some (cpes, pkgs)"
  shows "\<forall>row\<in>set cpes. cpe_handle_ok row"
    "allCandidates E cfg (ci_Configurations vuln) = Inr (h, cs) \<Longrightarrow> c \<in> set cs
      \<Longrightarrow> \<exists>row\<in>set cpes. \<exists>b. ch_CPE row = Some (getCPEFromAttributes (ac_VulnerableCPE c)) \<and> ch_BlobValue row = Some b \<and> pb_CVEs b = [ci_ID vuln]
        \<and> (\<forall>ra\<in>set (ac_Ranges c). range_listed E b ra)"
proof -
  have rows: "\<exists>rows. map (affectedApplicationPackage E cfg (ci_ID vuln) h) cs = map Some rows \<and> cpes = concat (map fst rows)"
    if "allCandidates E cfg (ci_Configurations vuln) = Inr (h, cs)" for h cs
    using assms that by (auto simp: getAffected_def dest!: those_Some)
  show "\<forall>row\<in>set cpes. cpe_handle_ok row"
  proof (cases "allCandidates E cfg (ci_Configurations vuln)")
    case (Inl a)
    then show ?thesis using assms by (simp add: getAffected_def)
  next
    case (Inr hc)
    obtain h cs where hc: "hc = (h, cs)" by fastforce
    obtain rs where rs: "map (affectedApplicationPackage E cfg (ci_ID vuln) h) cs = map Some rs" "cpes = concat (map fst rs)"
      using rows Inr hc by blast
    have "\<exists>c. affectedApplicationPackage E cfg (ci_ID vuln) h c = Some r" if "r \<in> set rs" for r
    proof -
      have "Some r \<in> set (map (affectedApplicationPackage E cfg (ci_ID vuln) h) cs)" unfolding rs(1) using that by simp
      then show ?thesis by auto
    qed
    then show ?thesis using candidate_row by (fastforce simp: rs(2))
  qed
  assume "allCandidates E cfg (ci_Configurations vuln) = Inr (h, cs)" and c: "c \<in> set cs"
  then obtain rs where rs: "map (affectedApplicationPackage E cfg (ci_ID vuln) h) cs = map Some rs" "cpes = concat (map fst rs)" using rows by blast
  have "affectedApplicationPackage E cfg (ci_ID vuln) h c \<in> set (map Some rs)" unfolding rs(1) [symmetric] using c by simp
  then obtain x where x: "affectedApplicationPackage E cfg (ci_ID vuln) h c = Some x" "x \<in> set rs" by auto
  then show "\<exists>row\<in>set cpes. \<exists>b. ch_CPE row = Some (getCPEFromAttributes (ac_VulnerableCPE c)) \<and> ch_BlobValue row = Some b \<and> pb_CVEs b = [ci_ID vuln]
        \<and> (\<forall>ra\<in>set (ac_Ranges c). range_listed E b ra)"
    using candidate_row [of E cfg "ci_ID vuln" h c "fst x" "snd x"] by (force simp: rs(2))
qed

section \<open>From the record to the database\<close>

text \<open>Records with CPEs that can be read; nothing is in the table of packages, whose rows have CPEs of their own.\<close>

definition readable :: "'o nvd_env \<Rightarrow> CveItem \<Rightarrow> bool" where
  "readable E vuln \<longleftrightarrow>
     (\<forall>config\<in>set (ci_Configurations vuln). \<forall>node\<in>set (cg_Nodes config). \<forall>m\<in>set (nd_CpeMatch node). ne_NewAttributes E (cm_Criteria m) \<noteq> None)"

definition nvd_record_ok :: "'o nvd_env \<Rightarrow> Config \<Rightarrow> DbProvider set \<Rightarrow> CveItem \<times> ProviderState \<Rightarrow> bool" where
  "nvd_record_ok E cfg P vs \<longleftrightarrow> provider_Model (snd vs) \<in> P \<and> \<not> strings_HasPrefix (strings_ToLower (ci_ID (fst vs))) ''go-'' \<and> readable E (fst vs)
     \<and> (case getAffected E cfg (fst vs) of None \<Rightarrow> False | Some (_, pkgs) \<Rightarrow> pkgs = [])"

lemma extract_readable: "\<forall>m\<in>set ms. ne_NewAttributes E (cm_Criteria m) \<noteq> None \<Longrightarrow> \<exists>cs. extract_vulnerable E cfg ms = Inr cs"
  by (induction ms) (auto simp: NewAttributes_def)

lemma platforms_readable: "\<forall>m\<in>set ms. ne_NewAttributes E (cm_Criteria m) \<noteq> None \<Longrightarrow> \<exists>r. platform_loop E ms al keys seen = Inr r"
  by (induction ms arbitrary: al keys seen) (auto simp: NewAttributes_def Let_def)

abbreviation node_readable :: "'o nvd_env \<Rightarrow> Node \<Rightarrow> bool" where
  "node_readable E node \<equiv> \<forall>m\<in>set (nd_CpeMatch node). ne_NewAttributes E (cm_Criteria m) \<noteq> None"

lemma and_readable: "\<forall>node\<in>set nodes. node_readable E node \<Longrightarrow> \<exists>r. and_nodes_loop E cfg nodes vulns hs = Inr r"
proof (induction nodes arbitrary: vulns hs)
  case (Cons a nodes)
  obtain cs where "extractVulnerableCPEs E a cfg = Inr cs" using extract_readable [of "nd_CpeMatch a" E cfg] Cons.prems by (auto simp: extractVulnerableCPEs_def)
  moreover obtain ps where "extractPlatformCPEs E a = Inr ps"
    using platforms_readable [of "nd_CpeMatch a" E "[]" "[]" "[]"] Cons.prems by (auto simp: extractPlatformCPEs_def)
  ultimately show ?case using Cons by simp
qed simp

lemma processAND_readable: "\<forall>node\<in>set nodes. node_readable E node \<Longrightarrow> \<exists>r. processANDNodes E cfg nodes h = Inr r"
  using and_readable [of nodes E cfg "[]" "(h, nil_slice)"] by (auto simp: processANDNodes_def Let_def)

lemma processOR_readable: "\<forall>node\<in>set nodes. node_readable E node \<Longrightarrow> \<exists>r. processORNodes E cfg nodes h = Inr r"
proof (induction nodes arbitrary: h)
  case (Cons a nodes)
  obtain cs where cs: "extractVulnerableCPEs E a cfg = Inr cs" using extract_readable [of "nd_CpeMatch a" E cfg] Cons.prems by (auto simp: extractVulnerableCPEs_def)
  obtain h1 cs1 where a: "processANDNodes E cfg [a] h = Inr (h1, cs1)" using processAND_readable [of "[a]" E cfg h] Cons.prems by auto
  have "\<exists>h2 cs2. node_candidates E cfg a h = Inr (h2, cs2)" by (simp add: node_candidates_def cs a)
  then obtain h2 cs2 where "node_candidates E cfg a h = Inr (h2, cs2)" by blast
  then show ?case using Cons.IH [of h2] Cons.prems by (auto simp: processORNodes_step)
qed simp

lemma candidates_readable:
  assumes "readable E vuln"
  shows "\<exists>h cs. allCandidates E cfg (ci_Configurations vuln) = Inr (h, cs)"
proof -
  have "\<forall>config\<in>set configs. \<forall>node\<in>set (cg_Nodes config). node_readable E node \<Longrightarrow> \<exists>r. process_configurations E cfg configs h = Inr r" for configs h
  proof (induction configs arbitrary: h)
    case (Cons a configs)
    have "\<exists>r. processConfiguration E cfg a h = Inr r"
      using processAND_readable [of "cg_Nodes a" E cfg h] processOR_readable [of "cg_Nodes a" E cfg h] Cons.prems by (simp add: processConfiguration_def)
    then obtain h1 cs where "processConfiguration E cfg a h = Inr (h1, cs)" by auto
    then show ?case using Cons.IH [of h1] Cons.prems by auto
  qed simp
  from this [of "ci_Configurations vuln" "[]"] assms obtain h cs where "process_configurations E cfg (ci_Configurations vuln) [] = Inr (h, cs)"
    by (auto simp: readable_def)
  then show ?thesis by (cases "deduplicateCandidates E cs h") (simp add: allCandidates_def)
qed

text \<open>What a record leaves in the database: for each of its vulnerable matches a row of the affected CPEs, for that CPE and a vulnerability of the
  record's name, whose blob lists every range of the match; and its weaknesses.\<close>

definition nvd_stored :: "'o nvd_env \<Rightarrow> Config \<Rightarrow> db \<Rightarrow> CveItem \<Rightarrow> bool" where
  "nvd_stored E cfg T vuln \<longleftrightarrow>
     (\<forall>m attr. vulnerable_match E cfg vuln m attr \<longrightarrow>
        (\<exists>row\<in>set (cpe_table True T). cpe_row T (Cpe_cacheKey (getCPEFromAttributes attr)) (ch_CpeID row)
           \<and> (\<exists>vb. vulnerability_stored T (ch_VulnerabilityID row) vb \<and> vb_ID vb = ci_ID vuln)
           \<and> (\<exists>b. blob_at T (ch_BlobID row) (BlobOfPackage b) \<and> (\<forall>ra\<in>set (match_ranges E m attr). range_listed E b ra))))
     \<and> set (getCWEs vuln) \<subseteq> set (t_CWEs T)"

lemma nvd_entry:
  assumes "nvd_transform E cfg vuln state = Some e" "getAffected E cfg vuln = Some (cpes, [])"
  obtains vh vb where "e = \<lparr>re_VulnerabilityHandle = Some vh, re_Provider = None, re_Related = map AffectedCPEModel cpes @ map CWEModel (getCWEs vuln)\<rparr>"
    "vh_ID vh = 0" "vh_Name vh = ci_ID vuln" "vh_Provider vh = Some (provider_Model state)" "vh_BlobValue vh = Some vb" "vb_ID vb = ci_ID vuln"
proof -
  have rows: "NewEntries (VulnerabilityModel vh # map AffectedCPEModel cpes @ map CWEModel (getCWEs vuln))
      = \<lparr>re_VulnerabilityHandle = Some vh, re_Provider = None, re_Related = map AffectedCPEModel cpes @ map CWEModel (getCWEs vuln)\<rparr>" for vh
    by (rule NewEntries_rows) auto
  show thesis using assms by (intro that) (auto simp: nvd_transform_def rows new_vulnerability_def sort_handles_def go_sort_def)
qed

lemma nvd_entry_ok:
  assumes "nvd_transform E cfg vuln state = Some e" "nvd_record_ok E cfg P (vuln, state)"
    "SchemaVer_GreaterOrEqualTo (we_dbVersion WE) (schemaver_New 6 1 2)"
  shows "input_ok WE P D False zero e" "hold m e = (m, False)"
proof -
  obtain cpes where g: "getAffected E cfg vuln = Some (cpes, [])" using assms(2) by (auto simp: nvd_record_ok_def split: option.splits)
  obtain vh vb where e: "e = \<lparr>re_VulnerabilityHandle = Some vh, re_Provider = None, re_Related = map AffectedCPEModel cpes @ map CWEModel (getCWEs vuln)\<rparr>"
    "vh_ID vh = 0" "vh_Name vh = ci_ID vuln" "vh_Provider vh = Some (provider_Model state)" "vh_BlobValue vh = Some vb"
    by (rule nvd_entry [OF assms(1) g])
  have "entry_ok WE P D e" using nvd_rows(1) [OF g] assms(2,3) e by (auto simp: entry_ok_def row_ok_def vulnerability_ok_def nvd_record_ok_def)
  then show "input_ok WE P D False zero e" by (rule plain_input) (auto simp: e(1))
  have "\<not> hasGoModulePackages e" by (auto simp: hasGoModulePackages_def e(1) list_ex_iff)
  then show "hold m e = (m, False)" using assms(2) e(1,3) by (simp add: hold_def nvd_record_ok_def Let_def)
qed

lemma nvd_of_entry:
  assumes "nvd_transform E cfg vuln state = Some e" "nvd_record_ok E cfg P (vuln, state)" "parsed E plain" "entry_stored T e"
  shows "nvd_stored E cfg T vuln"
proof -
  obtain cpes where g: "getAffected E cfg vuln = Some (cpes, [])" using assms(2) by (auto simp: nvd_record_ok_def split: option.splits)
  obtain vh vb where e: "e = \<lparr>re_VulnerabilityHandle = Some vh, re_Provider = None, re_Related = map AffectedCPEModel cpes @ map CWEModel (getCWEs vuln)\<rparr>"
    "vh_BlobValue vh = Some vb" "vb_ID vb = ci_ID vuln"
    by (rule nvd_entry [OF assms(1) g])
  obtain i vb' where i: "\<And>row. row \<in> set cpes \<Longrightarrow> cpe_stored T True i row" "\<And>w. w \<in> set (getCWEs vuln) \<Longrightarrow> w \<in> set (t_CWEs T)"
    "vulnerability_stored T i vb'" "severity_filled vb vb'"
    using assms(4) e(2) by (auto simp: entry_stored_def e(1) row_stored_def ball_Un)
  have n: "vb_ID vb' = ci_ID vuln" using i(4) e(3) by (auto simp: severity_filled_def)
  obtain h cs where c: "allCandidates E cfg (ci_Configurations vuln) = Inr (h, cs)" using candidates_readable assms(2) by (fastforce simp: nvd_record_ok_def)
  have "\<exists>row\<in>set (cpe_table True T). cpe_row T (Cpe_cacheKey (getCPEFromAttributes attr)) (ch_CpeID row) \<and> ch_VulnerabilityID row = i
       \<and> (\<exists>b. blob_at T (ch_BlobID row) (BlobOfPackage b) \<and> (\<forall>ra\<in>set (match_ranges E m attr). range_listed E b ra))"
    if v: "vulnerable_match E cfg vuln m attr" for m attr
  proof -
    obtain p where p: "p \<in> set cs" "cpeKey (ac_VulnerableCPE p) = cpeKey attr" "set (match_ranges E m attr) \<subseteq> set (ac_Ranges p)"
      using candidates_cover [OF c v] by (auto simp: candidates_have_def)
    have "plain attr" using v assms(3) by (auto simp: vulnerable_match_def vulnerable_in_def parsed_def)
    then have same: "getCPEFromAttributes (ac_VulnerableCPE p) = getCPEFromAttributes attr"
      using same_key p candidates_cpes [OF assms(3) c] unfolding all_cpes_def by blast
    obtain row b where "row \<in> set cpes" "ch_CPE row = Some (getCPEFromAttributes attr)" "ch_BlobValue row = Some b" "\<forall>ra\<in>set (ac_Ranges p). range_listed E b ra"
      using nvd_rows(2) [OF g c p(1)] same by auto
    then show ?thesis using i(1) [of row] p(3) unfolding cpe_stored_def by (metis subsetD)
  qed
  then show ?thesis using i(2,3) n unfolding nvd_stored_def by blast
qed


text \<open>A library that reads CPEs of seven parts, and a record of it.\<close>

definition sample_part :: "string \<Rightarrow> string" where
  "sample_part s = (if s = ''*'' then [] else s)"

definition sample_NewAttributes :: "string \<Rightarrow> Attributes option" where
  "sample_NewAttributes s =
     (if CHR ''|'' \<in> set s then None
      else case split_char (CHR '':'') s of
        [_, _, part, vendor, product, ver, update] \<Rightarrow>
          Some (zero_Attributes\<lparr>cpe_Part := part, cpe_Vendor := vendor, cpe_Product := product, cpe_Version := sample_part ver, cpe_Update := sample_part update\<rparr>)
      | _ \<Rightarrow> None)"

definition sample_nvd_env :: "string nvd_env" where
  "sample_nvd_env = \<lparr>ne_db = example_dbenv, ne_Any = [], ne_NewAttributes = sample_NewAttributes, ne_ParseTime = (\<lambda>_. Some 0), ne_semver_NewVersion = Some,
     ne_semver_MustParse = (\<lambda>s. s), ne_semver_LessThan = string_less, ne_grow = (\<lambda>c n. 2 * c), ne_ranges = (\<lambda>rs. rs), ne_unique = (\<lambda>al. al), ne_merged = (\<lambda>al. al)\<rparr>"

definition sample_match :: "string \<Rightarrow> bool \<Rightarrow> string option \<Rightarrow> CpeMatch" where
  "sample_match product vulnerable bound =
     \<lparr>cm_Criteria = ''cpe:2.3:a:v:'' @ product @ '':*:*'', cm_VersionEndExcluding = bound, cm_VersionEndIncluding = None, cm_VersionStartExcluding = None,
      cm_VersionStartIncluding = None, cm_Vulnerable = vulnerable, cm_Fix = None\<rparr>"

definition sample_node :: "CpeMatch list \<Rightarrow> Node" where
  "sample_node ms = \<lparr>nd_CpeMatch = ms, nd_Operator = nvd_Or\<rparr>"

definition sample_conjunction :: "CpeMatch list list \<Rightarrow> Configuration" where
  "sample_conjunction nodes = \<lparr>cg_Nodes = map sample_node nodes, cg_Operator = Some nvd_And\<rparr>"

definition sample_disjunction :: "CpeMatch list list \<Rightarrow> Configuration" where
  "sample_disjunction nodes = \<lparr>cg_Nodes = map sample_node nodes, cg_Operator = None\<rparr>"

definition sample_cve :: CveItem where
  "sample_cve = \<lparr>ci_ID = ''CVE-9'', ci_Configurations = [sample_conjunction [[sample_match ''curl'' True (Some ''2'')], [sample_match ''linux'' False None]]],
     ci_Descriptions = [(''en'', ''text'')], ci_LastModified = [], ci_Metrics = None, ci_Published = [], ci_References = [], ci_SourceIdentifier = None,
     ci_VulnStatus = Some ''Analyzed'', ci_Weaknesses = [\<lparr>wk_Description = [(''en'', ''CWE-79'')], wk_Source = ''nvd'', wk_Type = ''Primary''\<rparr>]\<rparr>"

lemma split_char_parts: "x \<in> set (split_char d s) \<Longrightarrow> set x \<subseteq> set s"
proof (induction s arbitrary: x)
  case (Cons c s)
  then show ?case by (cases "split_char d s") (auto split: if_splits, blast)
qed simp

lemma sample_parsed: "parsed sample_nvd_env plain"
proof -
  have "plain attr" if a: "sample_NewAttributes s = Some attr" for s attr
  proof -
    obtain a b part vendor product ver update where s: "split_char (CHR '':'') s = [a, b, part, vendor, product, ver, update]" "CHR ''|'' \<notin> set s"
      "attr = zero_Attributes\<lparr>cpe_Part := part, cpe_Vendor := vendor, cpe_Product := product, cpe_Version := sample_part ver, cpe_Update := sample_part update\<rparr>"
      using a by (auto simp: sample_NewAttributes_def split: if_splits list.splits)
    have "set x \<subseteq> set s" if "x \<in> {part, vendor, product}" for x using split_char_parts [of x "CHR '':''" s] that unfolding s(1) by auto
    then show ?thesis using s(2) by (auto simp: plain_def key_parts_def s(3) zero_Attributes_def)
  qed
  then show ?thesis by (simp add: parsed_def sample_nvd_env_def)
qed


section \<open>Where merging goes wrong\<close>

text \<open>The products of candidates with those of their platforms and the texts of their ranges.\<close>

definition summary :: "'o nvd_env \<Rightarrow> Config \<Rightarrow> Configuration list \<Rightarrow> (string \<times> string list \<times> string list) list" where
  "summary E cfg configs =
     (case allCandidates E cfg configs of
        Inl _ \<Rightarrow> []
      | Inr (h, cs) \<Rightarrow> map (\<lambda>c. (cpe_Product (ac_VulnerableCPE c), map cpe_Product (contents h (ac_PlatformCPEs c)),
            map (affectedCPERange_String E) (ac_Ranges c))) cs)"

text \<open>Candidates of one configuration share the array of their platforms.  Where \<^verbatim>\<open>append\<close> has left room in it (three nodes with one platform each: the array
  has four places, since it doubles), adding a platform to one of them and then to another overwrites the first: here \<open>x\<close> is vulnerable on \<open>q\<close> and not on \<open>r\<close>, and the result
  says the opposite.\<close>

theorem platform_overwritten:
  "summary sample_nvd_env defaultConfig
     [sample_conjunction [[sample_match ''x'' True (Some ''2''), sample_match ''y'' True (Some ''2'')], [sample_match ''p1'' False None], [sample_match ''p2'' False None],
        [sample_match ''p3'' False None]],
      sample_conjunction [[sample_match ''x'' True (Some ''2'')], [sample_match ''q'' False None]],
      sample_conjunction [[sample_match ''y'' True (Some ''2'')], [sample_match ''r'' False None]]]
   = [(''x'', [''p1'', ''p2'', ''p3'', ''r''], [''< 2'']), (''y'', [''p1'', ''p2'', ''p3'', ''r''], [''< 2''])]"
  by code_simp

text \<open>A product that is vulnerable on every platform, and in another configuration on one: the result is vulnerable on that one only.\<close>

theorem platform_narrowed:
  "summary sample_nvd_env defaultConfig
     [sample_disjunction [[sample_match ''x'' True (Some ''2'')]], sample_conjunction [[sample_match ''x'' True (Some ''2'')], [sample_match ''q'' False None]]]
   = [(''x'', [''q''], [''< 2''])]"
  by code_simp

text \<open>A product that is vulnerable in every version, and also listed with a range: the result has the range only.\<close>

theorem versions_narrowed:
  "summary sample_nvd_env defaultConfig [sample_disjunction [[sample_match ''x'' True None, sample_match ''x'' True (Some ''2'')]]]
   = [(''x'', [], [''< 2''])]"
  by code_simp

end
