(* ===== verification/Spec2Isabelle.thy ===== *)
theory Spec2Isabelle
  imports Version_Set Scan Search_Criteria Vex_Properties Matcher_Facts Db_Properties Os_Properties Feed_Properties Merge_Properties Nvd_Properties
begin

text \<open>
  \<^bold>\<open>Grype\<close> scans the packages of a software artifact for known vulnerabilities.  This development models the
  part of it that decides which vulnerabilities are reported, and how the database it consults is filled.  Paths are relative to \<^verbatim>\<open>src/\<close>.

  \<^bold>\<open>The program.\<close>  A scan (\<^verbatim>\<open>grype/vulnerability_matcher.go\<close>) calls, for every package, the matchers registered for
  the package's type.  A matcher searches the database with criteria (\<^verbatim>\<open>grype/search\<close>) built from the package and
  its distribution (\<^verbatim>\<open>grype/distro\<close>); whether a package version is affected is a question of version constraints
  and version comparison (\<^verbatim>\<open>grype/version\<close>).  Matches are gathered in an indexed collection (\<^verbatim>\<open>grype/match\<close>), some are
  set aside by ignore rules, and VEX documents (\<^verbatim>\<open>grype/vex\<close>) move matches between the two lists.  The scan ends with
  an optional check of a severity threshold.  The database (\<^verbatim>\<open>grype/db/v6\<close>) is built beforehand: transformers turn the records of
  feeds into entries, and a writer (\<^verbatim>\<open>grype/db/v6/build\<close>) reconciles some of them and writes all in batches.

  \<^bold>\<open>Theories and code.\<close>

  \<^item> \<open>Go_Prelude\<close>: the functions of Go's \<^verbatim>\<open>strings\<close> and \<^verbatim>\<open>strconv\<close> the code uses, the type \<open>'a go\<close> whose
    \<^const>\<open>None\<close> is a panic, and shared lemmas.  \<open>Comparison\<close>: the interfaces \<open>three_way\<close> and
    \<open>three_way_order\<close> of comparison functions, interpreted on every comparison of the code that satisfies them.
    \<open>Regexp\<close>: matching of the regular expressions written in the code, with greedy first-match semantics.
  \<^item> \<open>Version_Base\<close>: \<^verbatim>\<open>format.go\<close>, \<^verbatim>\<open>error.go\<close>, \<^verbatim>\<open>operator.go\<close>, \<^verbatim>\<open>comparator.go\<close>.
    \<open>Rpm_Version\<close>, \<open>Gem_Version\<close>, \<open>Portage_Version\<close>, \<open>Fuzzy_Version\<close>: the comparisons the
    code implements itself (\<^verbatim>\<open>rpm_version.go\<close>, \<^verbatim>\<open>pacman_version.go\<close>, \<^verbatim>\<open>gem_version.go\<close>, \<^verbatim>\<open>portage_version.go\<close>,
    \<^verbatim>\<open>fuzzy_version.go\<close>, \<^verbatim>\<open>fuzzy_constraint.go\<close>).  \<open>Lib_Versions\<close>: the formats whose comparison is a library's, with
    the library as the parameter record \<open>libs\<close>.  \<open>Range_Expr\<close>: tokenising, parsing and satisfying constraint
    expressions (\<^verbatim>\<open>range.go\<close>, \<^verbatim>\<open>range_expression.go\<close>).  \<open>Version_Dispatch\<close>: \<^verbatim>\<open>version.go\<close> with its comparator cache
    as explicit state.  \<open>Constraints\<close>: the kinds of constraints.  \<open>Version_Set\<close>: \<^verbatim>\<open>set.go\<close>.
  \<^item> \<open>Match_Model\<close>, \<open>Match_Store\<close>: matches, details, fingerprints, and the collection with its three
    indexes (\<^verbatim>\<open>grype/match/matches.go\<close>).  \<open>Ignore_Rules\<close>, \<open>Ignore_Index\<close>: \<^verbatim>\<open>grype/match/ignore.go\<close>,
    \<^verbatim>\<open>explicit_ignores.go\<close> and the index over ignore filters.  \<open>Scan\<close>: \<^verbatim>\<open>grype/vulnerability_matcher.go\<close> from
    \<^verbatim>\<open>FindMatchesContext\<close> down, with errors, panics of matchers, cancellation and the progress monitor.
  \<^item> \<open>Distro_Model\<close>: distributions and fix channels.  \<open>Namespace\<close>: the namespaces of vulnerability
    records.  \<open>Search_Criteria\<close>: \<^verbatim>\<open>grype/search\<close>.
  \<^item> \<open>Vex\<close>, \<open>Vex_Properties\<close>: \<^verbatim>\<open>grype/vex\<close> for OpenVEX and CSAF.
  \<^item> \<open>Pkg_Model\<close>, \<open>Rootio\<close>: what matching reads of packages (\<^verbatim>\<open>grype/pkg\<close>): upstream packages, version formats and
    qualifiers; package names of Root IO.  \<open>Match_Results\<close>: the records in match details.
  \<^item> \<open>Result_Set\<close>, \<open>Result_Facts\<close>: the sets of search results matchers compute with
    (\<^verbatim>\<open>grype/matcher/internal/result\<close>).  \<open>Matcher_Common\<close>, \<open>Cpe_Matching\<close>: the searches matchers share
    (\<^verbatim>\<open>grype/matcher/internal\<close>).  \<open>Rhel_Eus\<close>, \<open>Rpm_Matcher\<close>, \<open>Dpkg_Matcher\<close>, \<open>Apk_Matcher\<close>,
    \<open>Matchers\<close>: the matchers under \<^verbatim>\<open>grype/matcher\<close> and the default list of them.  \<open>Version_State\<close>,
    \<open>Matcher_Properties\<close>, \<open>Eus_Properties\<close>, \<open>Matcher_Facts\<close>: what is proved of them.

  \<^item> \<open>Vuln_Metadata\<close>: metadata of vulnerabilities, CVSS and the risk score (\<^verbatim>\<open>grype/vulnerability/metadata.go\<close>,
    \<^verbatim>\<open>internal/cvss\<close>, \<^verbatim>\<open>grype/db/v6/severity.go\<close>).  \<open>Schema_Ver\<close>: \<^verbatim>\<open>internal/schemaver\<close>.
    \<open>Db_Model\<close>: rows and blobs of the database (\<^verbatim>\<open>grype/db/v6/models.go\<close>, \<^verbatim>\<open>blobs.go\<close>, \<^verbatim>\<open>enumerations.go\<close>); its tables are
    lists.  \<open>Db_Store\<close>: searching the tables (the \<^verbatim>\<open>*_store.go\<close> files, \<^verbatim>\<open>refs.go\<close>, \<^verbatim>\<open>fillers.go\<close>).
    \<open>Db_Provider\<close>: the provider the matchers search (\<^verbatim>\<open>search_query.go\<close>, \<^verbatim>\<open>vulnerability.go\<close>,
    \<^verbatim>\<open>vulnerability_provider.go\<close>, \<^verbatim>\<open>name/\<close>).  \<open>Db_Facts\<close>, \<open>Db_Properties\<close>: what is proved of them.
  \<^item> \<open>Build_Common\<close>: what the transformers of feed records into rows share (\<^verbatim>\<open>grype/db/v6/build/transformers\<close>,
    \<^verbatim>\<open>grype/db/internal\<close>).  \<open>Os_Transform\<close>: the transformer of operating system feeds.  \<open>Os_Properties\<close>: what is proved of it.  \<open>Advisory_Feeds\<close>: the transformers of known exploited
    vulnerabilities, exploit prediction scores, end-of-life dates, Microsoft and GitHub.  \<open>Go_Slice\<close>: slices that share arrays.  \<open>Nvd_Transform\<close>: the transformer of the National
    Vulnerability Database.
    \<open>Db_Write\<close>: writing rows, with the cache, the hooks and the blobs (\<^verbatim>\<open>cache.go\<close>, \<^verbatim>\<open>blob_store.go\<close>, \<^verbatim>\<open>models.go\<close>, the \<^verbatim>\<open>Add\<close> functions of
    the stores).  \<open>Go_Merge\<close>: \<^verbatim>\<open>build/govulndb_merge.go\<close>.  \<open>Db_Writer\<close>: \<^verbatim>\<open>build/writer.go\<close>.  \<open>Write_Facts\<close>, \<open>Writer_Facts\<close>:
    the invariants of the store and of the writer's buffers.  \<open>Blob_Digest\<close>: blobs are countable.  \<open>Writer_Properties\<close>,
    \<open>Merge_Properties\<close>, \<open>Feed_Properties\<close>, \<open>Advisory_Properties\<close>, \<open>Nvd_Properties\<close>: what is proved of writing, of the reconciliation, and of both together
    with the transformers.

  \<^bold>\<open>What is shown.\<close>  Comparisons: range, antisymmetry, total preorders where they are one, agreement with the
  comparison of lists of numbers, refinement of one by another, what panics.  Constraints: parsing what was
  printed, the meaning of a constraint as a disjunction of conjunctions of comparisons, combination as
  disjunction.  The collection: consistency of the indexes and that nothing is lost, in any iteration order of
  Go's maps.  Ignore rules: exactly when a rule applies, the split of a collection, and that the index agrees
  with the linear scan.  The scan: that it accounts for everything the matchers found, stops on fatal errors,
  is silent on cancellation, and that the threshold changes nothing but the error.  Search: that criteria are
  flattened to their disjunctive normal form.  VEX: that no match is lost, which matches are ignored, that
  the newest advisory counts.  Matchers: which records a search by distribution or by ecosystem reports and which filters it
  returns, the effect of unaffected records, that a search by CPE reports nothing twice, what the overlay of extended-support
  advisories drops and which fixes it names, that the order of maps does not matter.  Database: that matching by distribution over a complete database reports exactly the
  records of the rows that apply, which operating systems a distribution selects, what ranges say of fixes, related vulnerabilities,
  bounds of the risk score.  Building the database: that the transformer of operating system feeds represents every entry of a record,
  that the rows it makes for the minor versions of Red Hat Enterprise Linux are the ones a host is resolved to and what their ranges are,
  and when the order of rows does not depend on the order they were made in; that no operation of the writer fails on the entries of
  transformers, whatever the size of its batches, that the database it leaves is complete and holds all their rows, in particular every
  fix of the operating system feeds and every record of the advisory feeds, and every vulnerable CPE of the National Vulnerability Database with its ranges, and that reconciling the records of the Go database with advisories loses no vulnerable symbol.  Distributions and namespaces: round trips of their texts.  Where the code departs
  from what its comments say, a theorem states what it does.

  \<^bold>\<open>Interfaces.\<close>  The locales \<open>three_way\<close> and \<open>three_way_order\<close> (comparison), \<open>match_collection\<close> (what
  clients of the collection rely on), \<open>ignore_filter\<close> (what the split by filters relies on),
  \<open>keyed_set\<close> (sets of versions), \<open>results_by_id\<close> (result sets stand for lists of records), \<open>reference_store\<close> (objects that rows refer to are written once per
  key) and \<open>vex_implementation\<close> (what the VEX processor relies on) are interpreted on the model's own definitions.

  \<^bold>\<open>Conventions.\<close>  Errors are values of sum types; a panic is the outer \<^const>\<open>None\<close>.  Go's iteration over a map is a
  parameter that may be any permutation.  Go's sort is insertion sort, which is what the Go library does on short
  slices; the theorems on sorted results hold for orders in which this makes no difference.  Strings are byte
  strings and the functions on letters and spaces are those for ASCII.  Machine integers are checked for the
  range of 64 bits where the code parses numbers; elsewhere values are small counts.  Loops are structural
  recursions or have a termination measure; two helpers, unquoting in \<open>Range_Expr\<close> and repeated search in
  \<open>Regexp\<close>, take as fuel the length of the text (plus one), which every round shortens.

  \<^bold>\<open>Parameters.\<close>  Third-party code is a field of a parameter record: version libraries (\<open>libs\<close>), hashing and
  merging of CPEs (\<open>menv\<close>), regular expressions and globs of users (\<open>renv\<close>), providers, matchers and context
  (\<open>scan_env\<close>), document libraries (\<open>vex_env\<close>), syft's tables of languages and its CPE functions (\<open>penv\<close>), the
  iteration orders matchers meet (\<open>genv\<close>), the vulnerability provider (\<open>Provider\<close>, which \<open>v6_Provider\<close> instantiates with the database), the calculators of CVSS scores
  (\<open>cvss_env\<close>), what the database calls (\<open>db_env\<close>), digests and texts of writes and what \<^verbatim>\<open>gorm\<close> does with the CPEs of a package
  (\<open>write_env\<close>), and Maven Central (\<open>mavenSearch\<close>).  The theorems on writing assume that digests of different blobs differ; they are
  stated for packages without CPEs of their own.  What the transformer of the National Vulnerability Database calls, and how Go's \<^verbatim>\<open>append\<close> enlarges arrays, is
  \<open>nvd_env\<close>.

  \<^bold>\<open>Not modelled.\<close>  The transformers of OSV, CSAF and OpenVEX feeds, reading feeds, downloading and installing the vulnerability
  database (SQL connections, files), conversion of
  SBOMs into packages, presenters and the command line: I/O and glue.  The scan is
  stated for any list of matchers; \<open>NewDefaultMatchers\<close> is the list the program uses.  Not modelled within modelled files: logging, the event bus, texts for
  logs, and the in-place sorting of fix versions by the comparison of matches.
\<close>

end
